(* ===== verification/Prelude.thy ===== *)
theory Prelude
  imports Complex_Main "HOL-Library.Monad_Syntax" "HOL-Library.Stream"
begin

text \<open>
  Shared automation and generic lemmas.  Nothing in this theory is about the soccer server
  itself: it fixes the model of floating point and of the random number generator (random.h),
  and collects the list and option facts which every component uses.

  A C++ \<^verbatim>\<open>double\<close> is modelled by a mathematical \<open>real\<close>; rounding is not modelled.
\<close>

section \<open>Rule collections\<close>

named_theorems frame_simps \<open>what an operation leaves unchanged\<close>
named_theorems param_simps \<open>constants of ServerParam and PlayMode tables\<close>
named_theorems geom_simps \<open>definitions of the geometric predicates\<close>
named_theorems wp_intros \<open>results of total operations of the option monad\<close>

section \<open>Options and lists\<close>

lemma bind_eq_Some [simp]:
  "(Option.bind m f = Some y) = (\<exists>x. m = Some x \<and> f x = Some y)"
  by (cases m) auto

lemma map_list_update_same_field:
  assumes "f (g (xs ! i)) = f (xs ! i)"
  shows "map f (xs[i := g (xs ! i)]) = map f xs"
  using assms by (metis list_update_id map_update)

lemma ex_filter_nth:
  "(\<exists>i < length xs. P (xs ! i)) = (\<exists>x \<in> set xs. P x)"
  by (metis in_set_conv_nth)

lemma list_all_map_iff: "list_all P (map f xs) = list_all (\<lambda>x. P (f x)) xs"
  by (induction xs) auto

text \<open>A left fold in the option monad: the C++ range-for loop whose body may not return.\<close>

fun foldM :: "('a \<Rightarrow> 's \<Rightarrow> 's option) \<Rightarrow> 'a list \<Rightarrow> 's \<Rightarrow> 's option" where
  "foldM f [] s = Some s"
| "foldM f (x # xs) s = do { s' \<leftarrow> f x s; foldM f xs s' }"

lemma foldM_append [simp]:
  "foldM f (xs @ ys) s = do { s' \<leftarrow> foldM f xs s; foldM f ys s' }"
  by (induction xs arbitrary: s) (auto split: bind_splits)

lemma foldM_total:
  assumes "\<And>x s. x \<in> set xs \<Longrightarrow> I s \<Longrightarrow> \<exists>s'. f x s = Some s' \<and> I s'"
    and "I s"
  shows "\<exists>s'. foldM f xs s = Some s' \<and> I s'"
  using assms
proof (induction xs arbitrary: s)
  case Nil
  then show ?case by simp
next
  case (Cons x xs)
  from Cons.prems obtain t where t: "f x s = Some t" "I t" by fastforce
  moreover have "\<exists>s'. foldM f xs t = Some s' \<and> I s'"
    using Cons.IH Cons.prems(1) t(2) by fastforce
  ultimately show ?case by auto
qed

lemma foldM_inv:
  assumes "\<And>x s s'. x \<in> set xs \<Longrightarrow> f x s = Some s' \<Longrightarrow> I s \<Longrightarrow> I s'"
    and "foldM f xs s = Some s'" and "I s"
  shows "I s'"
  using assms
proof (induction xs arbitrary: s)
  case Nil
  then show ?case by simp
next
  case (Cons x xs)
  from Cons.prems(2) obtain t where t: "f x s = Some t" "foldM f xs t = Some s'" by auto
  have "I t" using Cons.prems(1)[of x s t] Cons.prems(3) t(1) by simp
  then show ?case using Cons.IH[OF _ t(2)] Cons.prems(1) by (metis list.set_intros(2))
qed

text \<open>More fuel in the body keeps a result of the loop.\<close>

lemma foldM_mono:
  assumes "\<And>x s s'. x \<in> set xs \<Longrightarrow> f x s = Some s' \<Longrightarrow> g x s = Some s'"
    and "foldM f xs s = Some s'"
  shows "foldM g xs s = Some s'"
  using assms
  by (induction xs arbitrary: s) auto

section \<open>Random numbers (random.h)\<close>

text \<open>
  \<^verbatim>\<open>DefaultRNG\<close> is a Mersenne twister behind the distributions of the C++ standard library.
  The model carries the stream of the uniform samples in \<open>[0,1)\<close> which the modelled calls
  draw, in order; theorems quantify over the stream.
\<close>

type_synonym rng = "real stream"

definition rng_ok :: "rng \<Rightarrow> bool" where
  "rng_ok s \<longleftrightarrow> (\<forall>u \<in> sset s. 0 \<le> u \<and> u < 1)"

definition drand :: "real \<Rightarrow> real \<Rightarrow> rng \<Rightarrow> real \<times> rng" where
  "drand low0 high0 s =
     (let low = (if low0 > high0 then high0 else low0);
          high = (if low0 > high0 then low0 else high0)
      in if high - low < 1 / 10 ^ 10 then ((low + high) * (1/2), s)
         else (low + (high - low) * shd s, stl s))"

definition irand :: "int \<Rightarrow> rng \<Rightarrow> int \<times> rng" where
  "irand x s = (if x \<le> 1 then (0, s) else (\<lfloor>shd s * of_int x\<rfloor>, stl s))"

text \<open>\<^verbatim>\<open>std::bernoulli_distribution( p )\<close>: true with probability \<open>p\<close>.\<close>

definition bernoulli :: "real \<Rightarrow> rng \<Rightarrow> bool \<times> rng" where
  "bernoulli p s = (shd s < p, stl s)"

lemma rng_ok_stl: "rng_ok s \<Longrightarrow> rng_ok (stl s)"
  unfolding rng_ok_def by (metis stl_sset)

lemma rng_ok_shd: "rng_ok s \<Longrightarrow> 0 \<le> shd s \<and> shd s < 1"
  unfolding rng_ok_def by (metis shd_sset)

lemma rng_ok_sconst: "0 \<le> u \<Longrightarrow> u < 1 \<Longrightarrow> rng_ok (sconst u)"
  unfolding rng_ok_def by simp

lemma drand_bounds:
  assumes "rng_ok s"
  shows "min a b \<le> fst (drand a b s) \<and> fst (drand a b s) \<le> max a b"
proof -
  have u: "0 \<le> shd s" "shd s < 1" using rng_ok_shd[OF assms] by auto
  have *: "c \<le> c + (d - c) * shd s \<and> c + (d - c) * shd s \<le> d" if "c \<le> d" for c d :: real
  proof -
    have "(d - c) * shd s \<le> (d - c) * 1" using that u by (intro mult_left_mono) auto
    moreover have "0 \<le> (d - c) * shd s" using that u by simp
    ultimately show ?thesis by simp
  qed
  show ?thesis
    using *[of a b] *[of b a] by (auto simp: drand_def Let_def field_simps)
qed

lemma drand_rng_ok: "rng_ok s \<Longrightarrow> rng_ok (snd (drand a b s))"
  by (auto simp: drand_def Let_def rng_ok_stl)

lemma irand_bounds:
  assumes "rng_ok s" and "0 < x"
  shows "0 \<le> fst (irand x s) \<and> fst (irand x s) < x"
proof -
  have u: "0 \<le> shd s" "shd s < 1" using rng_ok_shd[OF assms(1)] by auto
  have "shd s * of_int x < 1 * of_int x"
    using u assms(2) by (intro mult_strict_right_mono) auto
  then have "\<lfloor>shd s * of_int x\<rfloor> < x" by (simp add: floor_less_iff)
  moreover have "0 \<le> \<lfloor>shd s * of_int x\<rfloor>" using u assms(2) by simp
  ultimately show ?thesis using assms(2) by (auto simp: irand_def)
qed

end
