(* ===== verification/Types.thy ===== *)
theory Types
  imports Prelude "HOL-Library.Word"
begin

text \<open>
  The enumerations of types.h: sides, play modes with their wire strings, and the bits of
  a player's state word.
\<close>

unbundle bit_operations_syntax

section \<open>Side\<close>

text \<open>\<^verbatim>\<open>enum Side { LEFT = 1, NEUTRAL = 0, RIGHT = -1 }\<close>\<close>

datatype side = LEFT | NEUTRAL | RIGHT

fun side_int :: "side \<Rightarrow> int" where
  "side_int LEFT = 1"
| "side_int NEUTRAL = 0"
| "side_int RIGHT = -1"

text \<open>The cast \<^verbatim>\<open>(Side)( -side )\<close>.\<close>

fun opp_side :: "side \<Rightarrow> side" where
  "opp_side LEFT = RIGHT"
| "opp_side NEUTRAL = NEUTRAL"
| "opp_side RIGHT = LEFT"

lemma side_int_opp [simp]: "side_int (opp_side s) = - side_int s"
  by (cases s) auto

lemma opp_side_opp [simp]: "opp_side (opp_side s) = s"
  by (cases s) auto

lemma side_int_inject [simp]: "side_int s = side_int t \<longleftrightarrow> s = t"
  by (cases s; cases t) auto

text \<open>C++ compares enumerators by value: RIGHT < NEUTRAL < LEFT.\<close>

instantiation side :: linorder
begin

definition less_eq_side :: "side \<Rightarrow> side \<Rightarrow> bool" where
  "less_eq_side s t = (side_int s \<le> side_int t)"

definition less_side :: "side \<Rightarrow> side \<Rightarrow> bool" where
  "less_side s t = (side_int s < side_int t)"

instance
  by standard (auto simp: less_eq_side_def less_side_def)

end

definition SideStr :: "side \<Rightarrow> string" where
  "SideStr s = (if s = LEFT then ''l'' else ''r'')"

section \<open>PlayMode\<close>

datatype playmode =
    PM_Null | PM_BeforeKickOff | PM_TimeOver | PM_PlayOn
  | PM_KickOff_Left | PM_KickOff_Right | PM_KickIn_Left | PM_KickIn_Right
  | PM_FreeKick_Left | PM_FreeKick_Right | PM_CornerKick_Left | PM_CornerKick_Right
  | PM_GoalKick_Left | PM_GoalKick_Right | PM_AfterGoal_Left | PM_AfterGoal_Right
  | PM_Drop_Ball | PM_OffSide_Left | PM_OffSide_Right
  | PM_PK_Left | PM_PK_Right | PM_FirstHalfOver | PM_Pause | PM_Human
  | PM_Foul_Charge_Left | PM_Foul_Charge_Right | PM_Foul_Push_Left | PM_Foul_Push_Right
  | PM_Foul_MultipleAttacker_Left | PM_Foul_MultipleAttacker_Right
  | PM_Foul_BallOut_Left | PM_Foul_BallOut_Right
  | PM_Back_Pass_Left | PM_Back_Pass_Right
  | PM_Free_Kick_Fault_Left | PM_Free_Kick_Fault_Right
  | PM_CatchFault_Left | PM_CatchFault_Right
  | PM_IndFreeKick_Left | PM_IndFreeKick_Right
  | PM_PenaltySetup_Left | PM_PenaltySetup_Right
  | PM_PenaltyReady_Left | PM_PenaltyReady_Right
  | PM_PenaltyTaken_Left | PM_PenaltyTaken_Right
  | PM_PenaltyMiss_Left | PM_PenaltyMiss_Right
  | PM_PenaltyScore_Left | PM_PenaltyScore_Right
  | PM_Illegal_Defense_Left | PM_Illegal_Defense_Right

text \<open>The enumerators in order (\<^verbatim>\<open>PM_MAX\<close> is their number).\<close>

definition playmodes :: "playmode list" where
  "playmodes =
    [PM_Null, PM_BeforeKickOff, PM_TimeOver, PM_PlayOn,
     PM_KickOff_Left, PM_KickOff_Right, PM_KickIn_Left, PM_KickIn_Right,
     PM_FreeKick_Left, PM_FreeKick_Right, PM_CornerKick_Left, PM_CornerKick_Right,
     PM_GoalKick_Left, PM_GoalKick_Right, PM_AfterGoal_Left, PM_AfterGoal_Right,
     PM_Drop_Ball, PM_OffSide_Left, PM_OffSide_Right, PM_PK_Left,
     PM_PK_Right, PM_FirstHalfOver, PM_Pause, PM_Human,
     PM_Foul_Charge_Left, PM_Foul_Charge_Right, PM_Foul_Push_Left, PM_Foul_Push_Right,
     PM_Foul_MultipleAttacker_Left, PM_Foul_MultipleAttacker_Right, PM_Foul_BallOut_Left, PM_Foul_BallOut_Right,
     PM_Back_Pass_Left, PM_Back_Pass_Right, PM_Free_Kick_Fault_Left, PM_Free_Kick_Fault_Right,
     PM_CatchFault_Left, PM_CatchFault_Right, PM_IndFreeKick_Left, PM_IndFreeKick_Right,
     PM_PenaltySetup_Left, PM_PenaltySetup_Right, PM_PenaltyReady_Left, PM_PenaltyReady_Right,
     PM_PenaltyTaken_Left, PM_PenaltyTaken_Right, PM_PenaltyMiss_Left, PM_PenaltyMiss_Right,
     PM_PenaltyScore_Left, PM_PenaltyScore_Right, PM_Illegal_Defense_Left, PM_Illegal_Defense_Right]"

definition PLAYMODE_STRINGS :: "string list" where
  "PLAYMODE_STRINGS =
    ['''', ''before_kick_off'', ''time_over'', ''play_on'',
     ''kick_off_l'', ''kick_off_r'', ''kick_in_l'', ''kick_in_r'',
     ''free_kick_l'', ''free_kick_r'', ''corner_kick_l'', ''corner_kick_r'',
     ''goal_kick_l'', ''goal_kick_r'', ''goal_l'', ''goal_r'',
     ''drop_ball'', ''offside_l'', ''offside_r'', ''penalty_kick_l'',
     ''penalty_kick_r'', ''first_half_over'', ''pause'', ''human_judge'',
     ''foul_charge_l'', ''foul_charge_r'', ''foul_push_l'', ''foul_push_r'',
     ''foul_multiple_attack_l'', ''foul_multiple_attack_r'', ''foul_ballout_l'', ''foul_ballout_r'',
     ''back_pass_l'', ''back_pass_r'', ''free_kick_fault_l'', ''free_kick_fault_r'',
     ''catch_fault_l'', ''catch_fault_r'', ''indirect_free_kick_l'', ''indirect_free_kick_r'',
     ''penalty_setup_l'', ''penalty_setup_r'', ''penalty_ready_l'', ''penalty_ready_r'',
     ''penalty_taken_l'', ''penalty_taken_r'', ''penalty_miss_l'', ''penalty_miss_r'',
     ''penalty_score_l'', ''penalty_score_r'', ''illegal_defense_l'', ''illegal_defense_r'']"

text \<open>The value of an enumerator, and \<^verbatim>\<open>playmode_strings[pm]\<close>.\<close>

fun pm_index :: "playmode \<Rightarrow> nat" where
  "pm_index PM_Null = 0"
| "pm_index PM_BeforeKickOff = 1"
| "pm_index PM_TimeOver = 2"
| "pm_index PM_PlayOn = 3"
| "pm_index PM_KickOff_Left = 4"
| "pm_index PM_KickOff_Right = 5"
| "pm_index PM_KickIn_Left = 6"
| "pm_index PM_KickIn_Right = 7"
| "pm_index PM_FreeKick_Left = 8"
| "pm_index PM_FreeKick_Right = 9"
| "pm_index PM_CornerKick_Left = 10"
| "pm_index PM_CornerKick_Right = 11"
| "pm_index PM_GoalKick_Left = 12"
| "pm_index PM_GoalKick_Right = 13"
| "pm_index PM_AfterGoal_Left = 14"
| "pm_index PM_AfterGoal_Right = 15"
| "pm_index PM_Drop_Ball = 16"
| "pm_index PM_OffSide_Left = 17"
| "pm_index PM_OffSide_Right = 18"
| "pm_index PM_PK_Left = 19"
| "pm_index PM_PK_Right = 20"
| "pm_index PM_FirstHalfOver = 21"
| "pm_index PM_Pause = 22"
| "pm_index PM_Human = 23"
| "pm_index PM_Foul_Charge_Left = 24"
| "pm_index PM_Foul_Charge_Right = 25"
| "pm_index PM_Foul_Push_Left = 26"
| "pm_index PM_Foul_Push_Right = 27"
| "pm_index PM_Foul_MultipleAttacker_Left = 28"
| "pm_index PM_Foul_MultipleAttacker_Right = 29"
| "pm_index PM_Foul_BallOut_Left = 30"
| "pm_index PM_Foul_BallOut_Right = 31"
| "pm_index PM_Back_Pass_Left = 32"
| "pm_index PM_Back_Pass_Right = 33"
| "pm_index PM_Free_Kick_Fault_Left = 34"
| "pm_index PM_Free_Kick_Fault_Right = 35"
| "pm_index PM_CatchFault_Left = 36"
| "pm_index PM_CatchFault_Right = 37"
| "pm_index PM_IndFreeKick_Left = 38"
| "pm_index PM_IndFreeKick_Right = 39"
| "pm_index PM_PenaltySetup_Left = 40"
| "pm_index PM_PenaltySetup_Right = 41"
| "pm_index PM_PenaltyReady_Left = 42"
| "pm_index PM_PenaltyReady_Right = 43"
| "pm_index PM_PenaltyTaken_Left = 44"
| "pm_index PM_PenaltyTaken_Right = 45"
| "pm_index PM_PenaltyMiss_Left = 46"
| "pm_index PM_PenaltyMiss_Right = 47"
| "pm_index PM_PenaltyScore_Left = 48"
| "pm_index PM_PenaltyScore_Right = 49"
| "pm_index PM_Illegal_Defense_Left = 50"
| "pm_index PM_Illegal_Defense_Right = 51"

definition playmode_string :: "playmode \<Rightarrow> string" where
  "playmode_string pm = PLAYMODE_STRINGS ! pm_index pm"

section \<open>PlayerState\<close>

text \<open>The bits of \<^verbatim>\<open>Int32 M_state\<close>; \<open>DISABLE\<close> is the empty word.\<close>

type_synonym pstate = "32 word"

definition DISABLE :: pstate where "DISABLE = 0x0"
definition STAND :: pstate where "STAND = 0x1"
definition KICK :: pstate where "KICK = 0x2"
definition KICK_FAULT :: pstate where "KICK_FAULT = 0x4"
definition GOALIE :: pstate where "GOALIE = 0x8"
definition CATCH :: pstate where "CATCH = 0x10"
definition CATCH_FAULT :: pstate where "CATCH_FAULT = 0x20"
definition BALL_TO_PLAYER :: pstate where "BALL_TO_PLAYER = 0x40"
definition DISCARD :: pstate where "DISCARD = 0x100"
definition BALL_COLLIDE :: pstate where "BALL_COLLIDE = 0x400"
definition PLAYER_COLLIDE :: pstate where "PLAYER_COLLIDE = 0x800"
definition TACKLE :: pstate where "TACKLE = 0x1000"
definition TACKLE_FAULT :: pstate where "TACKLE_FAULT = 0x2000"
definition BACK_PASS :: pstate where "BACK_PASS = 0x4000"
definition FREE_KICK_FAULT :: pstate where "FREE_KICK_FAULT = 0x8000"
definition POST_COLLIDE :: pstate where "POST_COLLIDE = 0x10000"
definition FOUL_CHARGED :: pstate where "FOUL_CHARGED = 0x20000"
definition YELLOW_CARD :: pstate where "YELLOW_CARD = 0x40000"
definition RED_CARD :: pstate where "RED_CARD = 0x80000"
definition ILLEGAL_DEFENSE :: pstate where "ILLEGAL_DEFENSE = 0x100000"

lemmas state_bit_defs =
  DISABLE_def STAND_def KICK_def KICK_FAULT_def GOALIE_def CATCH_def CATCH_FAULT_def
  BALL_TO_PLAYER_def DISCARD_def BALL_COLLIDE_def PLAYER_COLLIDE_def TACKLE_def
  TACKLE_FAULT_def BACK_PASS_def FREE_KICK_FAULT_def POST_COLLIDE_def FOUL_CHARGED_def
  YELLOW_CARD_def RED_CARD_def ILLEGAL_DEFENSE_def

text \<open>\<^verbatim>\<open>state & flag\<close> read as a condition.\<close>

definition has_state :: "pstate \<Rightarrow> pstate \<Rightarrow> bool" where
  "has_state st flag \<longleftrightarrow> st AND flag \<noteq> 0"

lemma has_state_OR: "has_state (a OR b) f \<longleftrightarrow> has_state a f \<or> has_state b f"
  unfolding has_state_def
  by (metis (no_types) bit.conj_disj_distrib2 or_eq_0_iff)

lemma has_state_zero [simp]: "\<not> has_state 0 f"
  by (simp add: has_state_def)

section \<open>Groups of play modes\<close>

text \<open>
  The sixteen modes in which the game is stopped after a violation or a goal: the clock of
  \<^verbatim>\<open>Stadium::step\<close> stands still, and the referee which called the mode counts the
  cycles until the restart.
\<close>

definition stopped_modes :: "playmode set" where
  "stopped_modes =
    {PM_AfterGoal_Right, PM_AfterGoal_Left, PM_OffSide_Right, PM_OffSide_Left,
     PM_Illegal_Defense_Left, PM_Illegal_Defense_Right,
     PM_Foul_Charge_Right, PM_Foul_Charge_Left, PM_Foul_Push_Right, PM_Foul_Push_Left,
     PM_Back_Pass_Right, PM_Back_Pass_Left,
     PM_Free_Kick_Fault_Right, PM_Free_Kick_Fault_Left,
     PM_CatchFault_Right, PM_CatchFault_Left}"

text \<open>\<^verbatim>\<open>FreeKickRef::goalKick\<close> and \<^verbatim>\<open>FreeKickRef::freeKick\<close>.\<close>

definition goalKick :: "playmode \<Rightarrow> bool" where
  "goalKick pm \<longleftrightarrow> pm = PM_GoalKick_Right \<or> pm = PM_GoalKick_Left"

definition freeKick :: "playmode \<Rightarrow> bool" where
  "freeKick pm \<longleftrightarrow>
     pm \<in> {PM_KickOff_Right, PM_KickIn_Right, PM_FreeKick_Right, PM_CornerKick_Right,
           PM_IndFreeKick_Right, PM_KickOff_Left, PM_KickIn_Left, PM_FreeKick_Left,
           PM_CornerKick_Left, PM_IndFreeKick_Left}"

text \<open>\<^verbatim>\<open>TouchRef::indirectFreeKick\<close>.\<close>

definition indirectFreeKick :: "playmode \<Rightarrow> bool" where
  "indirectFreeKick pm \<longleftrightarrow> pm = PM_IndFreeKick_Right \<or> pm = PM_IndFreeKick_Left"

text \<open>
  \<^verbatim>\<open>Referee::isPenaltyShootOut\<close>.  The C++ initialises its local \<open>bRight\<close> to
  \<^verbatim>\<open>true\<close> and \<open>bLeft\<close> to \<^verbatim>\<open>false\<close>; the switch only ever sets them.
\<close>

definition isPenaltyShootOut :: "playmode \<Rightarrow> side \<Rightarrow> bool" where
  "isPenaltyShootOut pm side =
     (if pm \<in> {PM_PenaltySetup_Left, PM_PenaltyReady_Left, PM_PenaltyTaken_Left,
               PM_PenaltyMiss_Left, PM_PenaltyScore_Left}
         \<or> pm \<in> {PM_PenaltySetup_Right, PM_PenaltyReady_Right, PM_PenaltyTaken_Right,
                 PM_PenaltyMiss_Right, PM_PenaltyScore_Right}
      then (let bLeft = (pm \<in> {PM_PenaltySetup_Left, PM_PenaltyReady_Left, PM_PenaltyTaken_Left,
                              PM_PenaltyMiss_Left, PM_PenaltyScore_Left});
                bRight = True
            in if side = NEUTRAL \<and> (bLeft \<or> bRight) then True
               else if side = LEFT \<and> bLeft then True
               else if side = RIGHT \<and> bRight then True
               else False)
      else False)"

text \<open>The call with the default argument, \<^verbatim>\<open>isPenaltyShootOut( pm )\<close>.\<close>

abbreviation shootout :: "playmode \<Rightarrow> bool" where
  "shootout pm \<equiv> isPenaltyShootOut pm NEUTRAL"

lemma shootout_iff:
  "shootout pm \<longleftrightarrow>
     pm \<in> {PM_PenaltySetup_Left, PM_PenaltyReady_Left, PM_PenaltyTaken_Left,
           PM_PenaltyMiss_Left, PM_PenaltyScore_Left, PM_PenaltySetup_Right,
           PM_PenaltyReady_Right, PM_PenaltyTaken_Right, PM_PenaltyMiss_Right,
           PM_PenaltyScore_Right}"
  by (auto simp: isPenaltyShootOut_def)

lemmas mode_group_defs [param_simps] =
  stopped_modes_def goalKick_def freeKick_def indirectFreeKick_def shootout_iff

end
