(* ===== verification/Params.thy ===== *)
theory Params
  imports Types
begin

text \<open>
  The configuration of the server (serverparam.h, serverparam.cpp).  The singleton
  \<^verbatim>\<open>ServerParam::instance()\<close> becomes a record whose fields carry the names of its
  access methods, passed to every operation which reads it.  Ports, log files, message
  formats and timers of the network loop are left out: no modelled operation reads them.
\<close>

type_synonym u32 = "32 word"

section \<open>Constants of the pitch\<close>

definition PITCH_LENGTH :: real where "PITCH_LENGTH = 105"
definition PITCH_WIDTH :: real where "PITCH_WIDTH = 68"
definition PITCH_MARGIN :: real where "PITCH_MARGIN = 5"
definition CENTER_CIRCLE_R :: real where "CENTER_CIRCLE_R = 9.15"
definition PENALTY_AREA_LENGTH :: real where "PENALTY_AREA_LENGTH = 16.5"
definition PENALTY_AREA_WIDTH :: real where "PENALTY_AREA_WIDTH = 40.32"
definition GOAL_AREA_LENGTH :: real where "GOAL_AREA_LENGTH = 5.5"
definition GOAL_AREA_WIDTH :: real where "GOAL_AREA_WIDTH = 18.32"
definition GOAL_DEPTH :: real where "GOAL_DEPTH = 2.44"
definition KICK_OFF_CLEAR_DISTANCE :: real where "KICK_OFF_CLEAR_DISTANCE = CENTER_CIRCLE_R"
definition WIND_WEIGHT :: real where "WIND_WEIGHT = 10000"
definition EPS :: real where "EPS = 1 / 10 ^ 10"
definition MAX_PLAYER :: nat where "MAX_PLAYER = 11"

lemmas pitch_defs [param_simps] =
  PITCH_LENGTH_def PITCH_WIDTH_def PITCH_MARGIN_def CENTER_CIRCLE_R_def
  PENALTY_AREA_LENGTH_def PENALTY_AREA_WIDTH_def GOAL_AREA_LENGTH_def GOAL_AREA_WIDTH_def
  GOAL_DEPTH_def KICK_OFF_CLEAR_DISTANCE_def WIND_WEIGHT_def EPS_def MAX_PLAYER_def

section \<open>ServerParam\<close>

record sparam =
  goalWidth :: real
  inertiaMoment :: real
  playerSize :: real
  playerDecay :: real
  playerRand :: real
  playerWeight :: real
  playerSpeedMax :: real
  playerAccelMax :: real
  staminaMax :: real
  staminaInc :: real
  recoverInit :: real
  recoverDecThr :: real
  recoverMin :: real
  recoverDec :: real
  effortInit :: real
  effortDecThr :: real
  effortMin :: real
  effortDec :: real
  effortIncThr :: real
  effortInc :: real
  kickRand :: real
  teamActuatorNoise :: bool
  playerRandFactorLeft :: real
  playerRandFactorRight :: real
  kickRandFactorLeft :: real
  kickRandFactorRight :: real
  ballSize :: real
  ballDecay :: real
  ballRand :: real
  ballWeight :: real
  ballSpeedMax :: real
  ballAccelMax :: real
  dashPowerRate :: real
  kickPowerRate :: real
  kickableMargin :: real
  kickableArea :: real
  maxPower :: real
  minPower :: real
  maxMoment :: real
  minMoment :: real
  maxNeckMoment :: real
  minNeckMoment :: real
  maxNeckAngle :: real
  minNeckAngle :: real
  visibleAngleDegree :: real
  windDir :: real
  windForce :: real
  windRand :: real
  windNone :: bool
  windRandom :: bool
  catchAreaLength :: real
  catchAreaWidth :: real
  catchProbability :: real
  goalieMaxMoves :: int
  keepAwayMode :: bool
  keepAwayLength :: real
  keepAwayWidth :: real
  cornerKickMargin :: real
  offsideActiveArea :: real
  halfTime :: int
  extraHalfTime :: int
  dropTime :: int
  nrNormalHalfs :: int
  nrExtraHalfs :: int
  penaltyShootOuts :: bool
  penBeforeSetupWait :: int
  penSetupWait :: int
  penReadyWait :: int
  penTakenWait :: int
  penNrKicks :: int
  penMaxExtraKicks :: int
  penDistX :: real
  penRandomWinner :: bool
  penAllowMultiKicks :: bool
  penMaxGoalieDistX :: real
  penCoachMovesPlayers :: bool
  catchBanCycle :: int
  useOffside :: bool
  kickOffOffside :: bool
  offsideKickMargin :: real
  verboseMode :: bool
  coachMode :: bool
  coachWithRefereeMode :: bool
  startGoalLeft :: int
  startGoalRight :: int
  slownessOnTopForLeft :: real
  slownessOnTopForRight :: real
  kawayStart :: int
  pointToBan :: u32
  pointToDuration :: u32
  sayMsgSize :: u32
  hearMax :: int
  hearInc :: int
  hearDecay :: int
  tackleDist :: real
  tackleBackDist :: real
  tackleWidth :: real
  tackleExponent :: real
  tackleCycles :: int
  tacklePowerRate :: real
  freeKickFaults :: bool
  backPasses :: bool
  properGoalKicks :: bool
  stoppedBallVel :: real
  maxGoalKicks :: int
  autoMode :: bool
  kickOffWait :: int
  connectWait :: int
  gameOverWait :: int
  ballStuckArea :: real
  maxTacklePower :: real
  maxBackTacklePower :: real
  playerSpeedMaxMin :: real
  extraStamina :: real
  staminaCapacity :: real
  maxDashAngle :: real
  minDashAngle :: real
  dashAngleStep :: real
  sideDashRate :: real
  backDashRate :: real
  maxDashPower :: real
  minDashPower :: real
  tackleRandFactor :: real
  foulDetectProbability :: real
  foulExponent :: real
  foulCycles :: int
  goldenGoal :: bool
  redCardProbability :: real
  illegalDefenseDuration :: int
  illegalDefenseNumber :: int
  illegalDefenseDistX :: real
  illegalDefenseWidth :: real
  fixedTeamNameLeft :: string
  fixedTeamNameRight :: string
  maxCatchAngle :: real
  minCatchAngle :: real
  visibleDistance :: real
  audioCutDist :: real
  quantizeStep :: real
  landmarkQuantizeStep :: real
  distNoiseRate :: real
  focusDistNoiseRate :: real
  landDistNoiseRate :: real
  landFocusDistNoiseRate :: real
  longKickPowerFactor :: real
  longKickDelay :: int
  freeformCountMax :: u32
  freeformMsgSize :: u32
  freeformWaitPeriod :: u32
  freeformSendPeriod :: u32
  clangWinSize :: int
  clangDefineWin :: int
  clangMetaWin :: int
  clangAdviceWin :: int
  clangInfoWin :: int
  clangDelWin :: int
  clangRuleWin :: int
  clangMessDelay :: int
  clangMessPerCycle :: int

text \<open>\<^verbatim>\<open>goalPostRadius()\<close> is a constant.\<close>

definition goalPostRadius :: "sparam \<Rightarrow> real" where
  "goalPostRadius sp = 0.06"

text \<open>
  The values after \<^verbatim>\<open>ServerParam::setDefaults\<close>.  The half times are in cycles:
  \<^verbatim>\<open>HALF_TIME = 300\<close> and \<^verbatim>\<open>EXTRA_HALF_TIME = 100\<close> seconds at 10 cycles a second.
\<close>

definition default_param :: sparam where
  "default_param = \<lparr>
     goalWidth = 14.02,
     inertiaMoment = 5,
     playerSize = 0.3,
     playerDecay = 0.4,
     playerRand = 0.1,
     playerWeight = 60,
     playerSpeedMax = 1.05,
     playerAccelMax = 1,
     staminaMax = 8000,
     staminaInc = 45,
     recoverInit = 1,
     recoverDecThr = 0.3,
     recoverMin = 0.5,
     recoverDec = 0.002,
     effortInit = 1,
     effortDecThr = 0.3,
     effortMin = 0.6,
     effortDec = 0.005,
     effortIncThr = 0.6,
     effortInc = 0.01,
     kickRand = 0.1,
     teamActuatorNoise = False,
     playerRandFactorLeft = 1,
     playerRandFactorRight = 1,
     kickRandFactorLeft = 1,
     kickRandFactorRight = 1,
     ballSize = 0.085,
     ballDecay = 0.94,
     ballRand = 0.05,
     ballWeight = 0.2,
     ballSpeedMax = 3,
     ballAccelMax = 2.7,
     dashPowerRate = 0.006,
     kickPowerRate = 0.027,
     kickableMargin = 0.7,
     kickableArea = 1.085,
     maxPower = 100,
     minPower = (-100),
     maxMoment = 180,
     minMoment = (-180),
     maxNeckMoment = 180,
     minNeckMoment = (-180),
     maxNeckAngle = 90,
     minNeckAngle = (-90),
     visibleAngleDegree = 90,
     windDir = 0,
     windForce = 0,
     windRand = 0,
     windNone = False,
     windRandom = False,
     catchAreaLength = 1.2,
     catchAreaWidth = 1,
     catchProbability = 1,
     goalieMaxMoves = 2,
     keepAwayMode = False,
     keepAwayLength = 20,
     keepAwayWidth = 20,
     cornerKickMargin = 1,
     offsideActiveArea = 2.5,
     halfTime = 3000,
     extraHalfTime = 1000,
     dropTime = 100,
     nrNormalHalfs = 2,
     nrExtraHalfs = 2,
     penaltyShootOuts = True,
     penBeforeSetupWait = 10,
     penSetupWait = 70,
     penReadyWait = 10,
     penTakenWait = 150,
     penNrKicks = 5,
     penMaxExtraKicks = 5,
     penDistX = 42.5,
     penRandomWinner = False,
     penAllowMultiKicks = True,
     penMaxGoalieDistX = 14,
     penCoachMovesPlayers = True,
     catchBanCycle = 5,
     useOffside = True,
     kickOffOffside = True,
     offsideKickMargin = 9.15,
     verboseMode = False,
     coachMode = False,
     coachWithRefereeMode = False,
     startGoalLeft = 0,
     startGoalRight = 0,
     slownessOnTopForLeft = 1,
     slownessOnTopForRight = 1,
     kawayStart = (-1),
     pointToBan = 5,
     pointToDuration = 20,
     sayMsgSize = 10,
     hearMax = 1,
     hearInc = 1,
     hearDecay = 1,
     tackleDist = 2,
     tackleBackDist = 0,
     tackleWidth = 1.25,
     tackleExponent = 6,
     tackleCycles = 10,
     tacklePowerRate = 0.027,
     freeKickFaults = True,
     backPasses = True,
     properGoalKicks = False,
     stoppedBallVel = 0.01,
     maxGoalKicks = 3,
     autoMode = False,
     kickOffWait = 100,
     connectWait = 300,
     gameOverWait = 100,
     ballStuckArea = 3,
     maxTacklePower = 100,
     maxBackTacklePower = 0,
     playerSpeedMaxMin = 0.75,
     extraStamina = 50,
     staminaCapacity = 130600,
     maxDashAngle = 180,
     minDashAngle = (-180),
     dashAngleStep = 1,
     sideDashRate = 0.4,
     backDashRate = 0.7,
     maxDashPower = 100,
     minDashPower = 0,
     tackleRandFactor = 2,
     foulDetectProbability = 0.5,
     foulExponent = 10,
     foulCycles = 5,
     goldenGoal = False,
     redCardProbability = 0,
     illegalDefenseDuration = 20,
     illegalDefenseNumber = 0,
     illegalDefenseDistX = 16.5,
     illegalDefenseWidth = 40.32,
     fixedTeamNameLeft = [],
     fixedTeamNameRight = [],
     maxCatchAngle = 90,
     minCatchAngle = (-90),
     visibleDistance = 3,
     audioCutDist = 50,
     quantizeStep = 0.1,
     landmarkQuantizeStep = 0.01,
     distNoiseRate = 0.0125,
     focusDistNoiseRate = 0.0125,
     landDistNoiseRate = 0.00125,
     landFocusDistNoiseRate = 0.00125,
     longKickPowerFactor = 2,
     longKickDelay = 2,
     freeformCountMax = 128,
     freeformMsgSize = 128,
     freeformWaitPeriod = 600,
     freeformSendPeriod = 20,
     clangWinSize = 300,
     clangDefineWin = 1,
     clangMetaWin = 1,
     clangAdviceWin = 1,
     clangInfoWin = 1,
     clangDelWin = 1,
     clangRuleWin = 1,
     clangMessDelay = 50,
     clangMessPerCycle = 1\<rparr>"

definition useIllegalDefense :: "sparam \<Rightarrow> bool" where
  "useIllegalDefense sp \<longleftrightarrow> illegalDefenseNumber sp \<noteq> 0"

end
