(* ===== verification/Geometry.thy ===== *)
theory Geometry
  imports Params
begin

text \<open>
  Plane vectors and areas of object.h and object.cpp, and the angle utilities of utility.h.
\<close>

section \<open>Standard library functions\<close>

definition trunc_real :: "real \<Rightarrow> int" where
  "trunc_real q = (if 0 \<le> q then \<lfloor>q\<rfloor> else \<lceil>q\<rceil>)"

definition fmod :: "real \<Rightarrow> real \<Rightarrow> real" where
  "fmod a b = a - b * of_int (trunc_real (a / b))"

text \<open>\<^verbatim>\<open>rint\<close> in the default rounding mode: to nearest, ties to even.\<close>

definition rint :: "real \<Rightarrow> real" where
  "rint a =
     (let f = \<lfloor>a\<rfloor>; d = a - of_int f
      in if d < 1/2 then of_int f
         else if d > 1/2 then of_int (f + 1)
         else if even f then of_int f else of_int (f + 1))"

definition atan2 :: "real \<Rightarrow> real \<Rightarrow> real" where
  "atan2 b a =
     (if a > 0 then arctan (b / a)
      else if a < 0 then (if b \<ge> 0 then arctan (b / a) + pi else arctan (b / a) - pi)
      else if b > 0 then pi / 2
      else if b < 0 then - (pi / 2)
      else 0)"

definition std_clamp :: "real \<Rightarrow> real \<Rightarrow> real \<Rightarrow> real" where
  "std_clamp v lo hi = (if v < lo then lo else if hi < v then hi else v)"

section \<open>Angles and bounds (utility.h)\<close>

definition Deg2Rad :: "real \<Rightarrow> real" where
  "Deg2Rad a = a * (pi / 180)"

definition Rad2Deg :: "real \<Rightarrow> real" where
  "Rad2Deg a = a * (180 / pi)"

definition Quantize :: "real \<Rightarrow> real \<Rightarrow> real" where
  "Quantize v q = (if q < EPS then v else rint (v / q) * q)"

definition normalize_angle :: "real \<Rightarrow> real" where
  "normalize_angle ang0 =
     (let ang = (if \<bar>ang0\<bar> > 2 * pi then fmod ang0 (2 * pi) else ang0);
          ang1 = (if ang < - pi then ang + 2 * pi else ang)
      in if ang1 > pi then ang1 - 2 * pi else ang1)"

definition bound :: "real \<Rightarrow> real \<Rightarrow> real \<Rightarrow> real" where
  "bound low v high = min (max low v) high"

lemma bound_range: "low \<le> high \<Longrightarrow> low \<le> bound low v high \<and> bound low v high \<le> high"
  by (auto simp: bound_def)

lemma std_clamp_range: "lo \<le> hi \<Longrightarrow> lo \<le> std_clamp v lo hi \<and> std_clamp v lo hi \<le> hi"
  by (auto simp: std_clamp_def)

lemma std_clamp_eq_bound: "lo \<le> hi \<Longrightarrow> std_clamp v lo hi = bound lo v hi"
  by (auto simp: std_clamp_def bound_def)

lemma abs_fmod_less:
  assumes "0 < b"
  shows "\<bar>fmod a b\<bar> < b"
proof -
  define q where "q = a / b"
  have a: "a = b * q" using assms by (simp add: q_def)
  have "fmod a b = b * (q - of_int (trunc_real q))"
    by (simp add: fmod_def a q_def[symmetric] algebra_simps)
  moreover have "\<bar>q - of_int (trunc_real q)\<bar> < 1"
    by (cases "0 \<le> q"; simp add: trunc_real_def; linarith)
  ultimately show ?thesis using assms by (simp add: abs_mult)
qed

lemma normalize_angle_range: "- pi \<le> normalize_angle a \<and> normalize_angle a \<le> pi"
proof -
  define ang where "ang = (if \<bar>a\<bar> > 2 * pi then fmod a (2 * pi) else a)"
  have "\<bar>ang\<bar> \<le> 2 * pi"
    using abs_fmod_less[of "2 * pi" a] by (auto simp: ang_def)
  then show ?thesis
    by (auto simp: normalize_angle_def ang_def[symmetric] Let_def)
qed

lemma normalize_angle_id: "- pi \<le> a \<Longrightarrow> a \<le> pi \<Longrightarrow> normalize_angle a = a"
  by (auto simp: normalize_angle_def Let_def)

section \<open>PVector\<close>

datatype pvector = PVector (px: real) (py: real)

lemma pvector_eq_iff: "u = v \<longleftrightarrow> px u = px v \<and> py u = py v"
  by (cases u; cases v) auto

text \<open>The default constructor \<^verbatim>\<open>PVector()\<close> and the overloaded operators \<open>+ - +=\<close>.\<close>

definition pv_zero :: pvector where
  "pv_zero = PVector 0 0"

definition pv_plus :: "pvector \<Rightarrow> pvector \<Rightarrow> pvector" where
  "pv_plus u v = PVector (px u + px v) (py u + py v)"

definition pv_minus :: "pvector \<Rightarrow> pvector \<Rightarrow> pvector" where
  "pv_minus u v = PVector (px u - px v) (py u - py v)"

definition pv_uminus :: "pvector \<Rightarrow> pvector" where
  "pv_uminus v = PVector (- px v) (- py v)"

lemmas pv_ops_defs = pv_zero_def pv_plus_def pv_minus_def pv_uminus_def

text \<open>They are the operations of a group, so that the library's lemmas and simplifications apply.\<close>

instantiation pvector :: ab_group_add
begin

definition zero_pvector :: pvector where
  [unfolded pv_ops_defs]: "0 = pv_zero"

definition plus_pvector :: "pvector \<Rightarrow> pvector \<Rightarrow> pvector" where
  [unfolded pv_ops_defs]: "u + v = pv_plus u v"

definition minus_pvector :: "pvector \<Rightarrow> pvector \<Rightarrow> pvector" where
  [unfolded pv_ops_defs]: "u - v = pv_minus u v"

definition uminus_pvector :: "pvector \<Rightarrow> pvector" where
  [unfolded pv_ops_defs]: "- v = pv_uminus v"

instance
  by standard (auto simp: pvector_eq_iff zero_pvector_def plus_pvector_def minus_pvector_def
      uminus_pvector_def)

end

lemma px_py_ops [simp]:
  "px 0 = 0" "py 0 = 0"
  "px (u + v) = px u + px v" "py (u + v) = py u + py v"
  "px (u - v) = px u - px v" "py (u - v) = py u - py v"
  "px (- v) = - px v" "py (- v) = - py v"
  by (simp_all add: zero_pvector_def plus_pvector_def minus_pvector_def uminus_pvector_def)

definition pv_scale :: "pvector \<Rightarrow> real \<Rightarrow> pvector" where
  "pv_scale v a = PVector (px v * a) (py v * a)"

definition pv_r2 :: "pvector \<Rightarrow> real" where
  "pv_r2 v = px v * px v + py v * py v"

definition pv_r :: "pvector \<Rightarrow> real" where
  "pv_r v = sqrt (px v * px v + py v * py v)"

definition pv_th :: "pvector \<Rightarrow> real" where
  "pv_th v = (if px v = 0 \<and> py v = 0 then 0 else atan2 (py v) (px v))"

definition pv_normalize :: "pvector \<Rightarrow> real \<Rightarrow> pvector" where
  "pv_normalize v l = pv_scale v (l / max (pv_r v) EPS)"

definition distance2 :: "pvector \<Rightarrow> pvector \<Rightarrow> real" where
  "distance2 u v = pv_r2 (u - v)"

definition distance :: "pvector \<Rightarrow> pvector \<Rightarrow> real" where
  "distance u v = pv_r (u - v)"

definition pv_rotate :: "pvector \<Rightarrow> real \<Rightarrow> pvector" where
  "pv_rotate v ang =
     (let c = cos ang; s = sin ang
      in PVector (px v * c - py v * s) (px v * s + py v * c))"

definition fromPolar :: "real \<Rightarrow> real \<Rightarrow> pvector" where
  "fromPolar r ang = PVector (r * cos ang) (r * sin ang)"

text \<open>\<^verbatim>\<open>PVector::between\<close>; the recursive call swaps the ends once.\<close>

definition between_ord :: "pvector \<Rightarrow> pvector \<Rightarrow> pvector \<Rightarrow> bool" where
  "between_ord v b e =
     (if px b \<le> px v \<and> px v \<le> px e
      then (if py b < py e then py b \<le> py v \<and> py v \<le> py e
            else py b \<ge> py v \<and> py v \<ge> py e)
      else False)"

definition between :: "pvector \<Rightarrow> pvector \<Rightarrow> pvector \<Rightarrow> bool" where
  "between v b e = (if px b > px e then between_ord v e b else between_ord v b e)"

lemma pv_scale_sel [simp]: "px (pv_scale v a) = px v * a" "py (pv_scale v a) = py v * a"
  by (simp_all add: pv_scale_def)

lemma pv_r2_nonneg [simp]: "0 \<le> pv_r2 v"
  by (simp add: pv_r2_def)

lemma pv_r_nonneg [simp]: "0 \<le> pv_r v"
  by (simp add: pv_r_def)

lemma pv_r_zero [simp]: "pv_r 0 = 0"
  by (simp add: pv_r_def)

lemma pv_r_sqrt_r2: "pv_r v = sqrt (pv_r2 v)"
  by (simp add: pv_r_def pv_r2_def)

lemma pv_r_eq_0_iff: "pv_r v = 0 \<longleftrightarrow> v = 0"
  by (simp add: pv_r_def pvector_eq_iff sum_squares_eq_zero_iff)

lemma pv_r_neg [simp]: "pv_r (- v) = pv_r v"
  by (simp add: pv_r_def)

lemma pv_r_scale: "pv_r (pv_scale v a) = \<bar>a\<bar> * pv_r v"
proof -
  have "px v * a * (px v * a) + py v * a * (py v * a)
        = a\<^sup>2 * (px v * px v + py v * py v)"
    by (simp add: power2_eq_square algebra_simps)
  then show ?thesis by (simp add: pv_r_def real_sqrt_mult)
qed

lemma pv_r_normalize_le: "0 \<le> l \<Longrightarrow> pv_r (pv_normalize v l) \<le> l"
proof -
  assume l: "0 \<le> l"
  have m: "0 < max (pv_r v) EPS" by (simp add: EPS_def)
  have "pv_r (pv_normalize v l) = l * (pv_r v / max (pv_r v) EPS)"
    using l m by (simp add: pv_normalize_def pv_r_scale abs_divide)
  also have "\<dots> \<le> l * 1"
    using l m by (intro mult_left_mono) auto
  finally show ?thesis by simp
qed

lemma pv_r_normalize: "0 \<le> l \<Longrightarrow> EPS \<le> pv_r v \<Longrightarrow> pv_r (pv_normalize v l) = l"
  by (auto simp: pv_normalize_def pv_r_scale EPS_def max_def)

lemma pv_r_fromPolar: "pv_r (fromPolar r a) = \<bar>r\<bar>"
proof -
  have "r * cos a * (r * cos a) + r * sin a * (r * sin a) = r\<^sup>2 * ((cos a)\<^sup>2 + (sin a)\<^sup>2)"
    by (simp only: power2_eq_square algebra_simps)
  then show ?thesis by (simp add: pv_r_def fromPolar_def)
qed

lemma pv_r2_rotate [simp]: "pv_r2 (pv_rotate v a) = pv_r2 v"
proof -
  have "pv_r2 (pv_rotate v a) = (px v * px v + py v * py v) * ((cos a)\<^sup>2 + (sin a)\<^sup>2)"
    by (simp only: pv_r2_def pv_rotate_def Let_def pvector.sel power2_eq_square algebra_simps)
  then show ?thesis by (simp add: pv_r2_def)
qed

lemma pv_r_rotate [simp]: "pv_r (pv_rotate v a) = pv_r v"
  by (simp add: pv_r_sqrt_r2)

lemma distance_commute: "distance u v = distance v u"
  by (simp add: distance_def pv_r_def algebra_simps)

lemma distance2_eq: "distance2 u v = (distance u v)\<^sup>2"
  by (simp add: distance_def distance2_def pv_r_sqrt_r2)

section \<open>RArea\<close>

datatype rarea = RArea (ra_left: real) (ra_right: real) (ra_top: real) (ra_bottom: real)

text \<open>The constructor \<^verbatim>\<open>RArea( center, size )\<close>.\<close>

definition RArea_cs :: "pvector \<Rightarrow> pvector \<Rightarrow> rarea" where
  "RArea_cs center sz =
     RArea (px center - px sz * (1/2)) (px center + px sz * (1/2))
           (py center - py sz * (1/2)) (py center + py sz * (1/2))"

definition ra_inArea :: "rarea \<Rightarrow> pvector \<Rightarrow> bool" where
  "ra_inArea a p \<longleftrightarrow>
     px p \<ge> ra_left a \<and> px p \<le> ra_right a \<and> py p \<ge> ra_top a \<and> py p \<le> ra_bottom a"

definition nearestHEdge :: "rarea \<Rightarrow> pvector \<Rightarrow> pvector" where
  "nearestHEdge a p =
     PVector (min (max (px p) (ra_left a)) (ra_right a))
             (if \<bar>py p - ra_top a\<bar> < \<bar>py p - ra_bottom a\<bar> then ra_top a else ra_bottom a)"

definition nearestVEdge :: "rarea \<Rightarrow> pvector \<Rightarrow> pvector" where
  "nearestVEdge a p =
     PVector (if \<bar>px p - ra_left a\<bar> < \<bar>px p - ra_right a\<bar> then ra_left a else ra_right a)
             (min (max (py p) (ra_top a)) (ra_bottom a))"

definition ra_nearestEdge :: "rarea \<Rightarrow> pvector \<Rightarrow> pvector" where
  "ra_nearestEdge a p =
     (if min \<bar>px p - ra_left a\<bar> \<bar>px p - ra_right a\<bar>
         < min \<bar>py p - ra_top a\<bar> \<bar>py p - ra_bottom a\<bar>
      then nearestVEdge a p else nearestHEdge a p)"

definition ra_randomize :: "rarea \<Rightarrow> rng \<Rightarrow> pvector \<times> rng" where
  "ra_randomize a s =
     (let (xx, s1) = drand (ra_left a) (ra_right a) s;
          (yy, s2) = drand (ra_bottom a) (ra_top a) s1
      in (PVector xx yy, s2))"

definition ra_wf :: "rarea \<Rightarrow> bool" where
  "ra_wf a \<longleftrightarrow> ra_left a \<le> ra_right a \<and> ra_top a \<le> ra_bottom a"

lemma ra_wf_cs: "0 \<le> px sz \<Longrightarrow> 0 \<le> py sz \<Longrightarrow> ra_wf (RArea_cs c sz)"
  by (simp add: ra_wf_def RArea_cs_def)

lemma ra_nearestEdge_inArea: "ra_wf a \<Longrightarrow> ra_inArea a (ra_nearestEdge a p)"
  by (auto simp: ra_wf_def ra_inArea_def ra_nearestEdge_def nearestHEdge_def nearestVEdge_def)

lemma ra_nearestEdge_boundary:
  "px (ra_nearestEdge a p) \<in> {ra_left a, ra_right a}
   \<or> py (ra_nearestEdge a p) \<in> {ra_top a, ra_bottom a}"
  by (auto simp: ra_nearestEdge_def nearestHEdge_def nearestVEdge_def)

lemma ra_randomize_inArea:
  assumes "rng_ok s" and "ra_wf a"
  shows "ra_inArea a (fst (ra_randomize a s))"
proof -
  obtain xx s1 where x: "drand (ra_left a) (ra_right a) s = (xx, s1)" by fastforce
  obtain yy s2 where y: "drand (ra_bottom a) (ra_top a) s1 = (yy, s2)" by fastforce
  have "rng_ok s1" using drand_rng_ok[OF assms(1)] x by (metis snd_conv)
  then show ?thesis
    using drand_bounds[OF assms(1), of "ra_left a" "ra_right a"]
      drand_bounds[of s1 "ra_bottom a" "ra_top a"] assms(2) x y
    by (simp add: ra_randomize_def ra_inArea_def ra_wf_def)
qed

section \<open>CArea\<close>

datatype carea = CArea (ca_center: pvector) (ca_radius: real)

definition ca_inArea :: "carea \<Rightarrow> pvector \<Rightarrow> bool" where
  "ca_inArea c p \<longleftrightarrow> distance (ca_center c) p \<le> ca_radius c"

definition ca_nearestEdge :: "carea \<Rightarrow> pvector \<Rightarrow> pvector" where
  "ca_nearestEdge c p =
     (let dif0 = p - ca_center c;
          dif = (if px dif0 = 0 \<and> py dif0 = 0 then PVector EPS EPS else dif0)
      in ca_center c + pv_normalize dif (ca_radius c))"

lemma ca_nearestEdge_inArea: "0 \<le> ca_radius c \<Longrightarrow> ca_inArea c (ca_nearestEdge c p)"
  by (simp add: ca_inArea_def ca_nearestEdge_def distance_commute[of "ca_center c"] Let_def)
     (simp add: distance_def pv_r_normalize_le)

lemma pv_r_EPS_EPS: "EPS \<le> pv_r (PVector EPS EPS)"
proof -
  have "EPS\<^sup>2 \<le> EPS * EPS + EPS * EPS" by (simp add: EPS_def power2_eq_square)
  then show ?thesis by (simp add: pv_r_def real_le_rsqrt)
qed

text \<open>On the circle, unless \<open>p\<close> is closer than \<open>EPS\<close> to the centre but not on it.\<close>

lemma ca_nearestEdge_radius:
  assumes "0 \<le> ca_radius c" and "p = ca_center c \<or> EPS \<le> distance p (ca_center c)"
  shows "distance (ca_nearestEdge c p) (ca_center c) = ca_radius c"
proof -
  define dif where "dif = (if px (p - ca_center c) = 0 \<and> py (p - ca_center c) = 0
                           then PVector EPS EPS else p - ca_center c)"
  have "EPS \<le> pv_r dif"
  proof (cases "p = ca_center c")
    case True
    then show ?thesis using pv_r_EPS_EPS by (simp add: dif_def)
  next
    case False
    then have "EPS \<le> pv_r (p - ca_center c)" using assms(2) by (simp add: distance_def)
    with False show ?thesis by (auto simp: dif_def pvector_eq_iff)
  qed
  then have "pv_r (pv_normalize dif (ca_radius c)) = ca_radius c"
    using assms(1) by (intro pv_r_normalize) auto
  then show ?thesis
    by (simp add: ca_nearestEdge_def dif_def Let_def distance_def)
qed

section \<open>Goal posts and their collisions\<close>

text \<open>
  \<^verbatim>\<open>intersect( begin, end, circle, inter )\<close> for a circle around the origin; the output
  argument \<open>inter\<close> is read only when the call returns \<^verbatim>\<open>true\<close>.
\<close>

definition intersect_origin :: "pvector \<Rightarrow> pvector \<Rightarrow> real \<Rightarrow> pvector option" where
  "intersect_origin b e radius =
     (if b = e then None
      else if pv_r (b - e) < pv_r (b - 0) - radius then None
      else
        let dx = px e - px b; dy = py e - py b;
            dr = sqrt (dx * dx + dy * dy);
            D = px b * py e - px e * py b;
            descrim = radius * radius * dr * dr - D * D
        in if descrim \<le> 0 then None
           else
             let sd = sqrt descrim;
                 x1 = (D * dy + dx * sd) / (dr * dr);
                 x2 = (D * dy - dx * sd) / (dr * dr);
                 y1 = (- D * dx + \<bar>dy\<bar> * sd) / (dr * dr);
                 y2 = (- D * dx - \<bar>dy\<bar> * sd) / (dr * dr);
                 first = (if dy < 0 then PVector x2 y1 else PVector x1 y1);
                 second = (if dy < 0 then PVector x1 y2 else PVector x2 y2)
             in if \<not> between first b e \<and> \<not> between second b e then None
                else
                  let (ip, second') =
                        (if \<not> between first b e then (second, first)
                         else if \<not> between second b e then (first, second)
                         else if pv_r (b - first) < pv_r (b - second) then (first, second)
                         else (second, first))
                  in if ip = b \<and> \<not> between second' b e then None else Some ip)"

definition intersect :: "pvector \<Rightarrow> pvector \<Rightarrow> carea \<Rightarrow> pvector option" where
  "intersect b e circle =
     (if b = e then None
      else if pv_r (b - e) < pv_r (b - ca_center circle) - ca_radius circle then None
      else if ca_center circle = 0 then intersect_origin b e (ca_radius circle)
      else (case intersect_origin (b - ca_center circle) (e - ca_center circle)
                   (ca_radius circle) of
              Some ip \<Rightarrow> Some (ip + ca_center circle)
            | None \<Rightarrow> None))"

definition nearestPost :: "sparam \<Rightarrow> pvector \<Rightarrow> real \<Rightarrow> carea" where
  "nearestPost sp pos sz =
     (let nearest_gpost =
        (if py pos > 0
         then (if px pos > 0
               then PVector (PITCH_LENGTH * (1/2) - goalPostRadius sp)
                            (goalWidth sp * (1/2) + goalPostRadius sp)
               else PVector (- PITCH_LENGTH * (1/2) + goalPostRadius sp)
                            (goalWidth sp * (1/2) + goalPostRadius sp))
         else (if px pos > 0
               then PVector (PITCH_LENGTH * (1/2) - goalPostRadius sp)
                            (- goalWidth sp * (1/2) - goalPostRadius sp)
               else PVector (- PITCH_LENGTH * (1/2) + goalPostRadius sp)
                            (- goalWidth sp * (1/2) - goalPostRadius sp)))
      in CArea nearest_gpost (goalPostRadius sp + sz))"

lemmas vec_defs [geom_simps] =
  pv_r2_def distance2_def RArea_cs_def ra_inArea_def nearestHEdge_def nearestVEdge_def
  ra_nearestEdge_def

end
