(* ===== verification/Objects.thy ===== *)
theory Objects
  imports Geometry
begin

text \<open>
  The movable objects of object.h and object.cpp and the weather which moves them: the
  fields of \<^verbatim>\<open>PObject\<close> and \<^verbatim>\<open>MPObject\<close>, the accumulation of collision positions, and
  one step of motion \<^verbatim>\<open>MPObject::_inc\<close> with its goal post collisions.  Names, ids and
  printing are left out.
\<close>

section \<open>Weather\<close>

record weather =
  M_wind_vector :: pvector
  M_wind_rand :: real

definition Weather_init :: "sparam \<Rightarrow> rng \<Rightarrow> weather \<times> rng" where
  "Weather_init sp g =
     (if windNone sp then (\<lparr>M_wind_vector = PVector 0 0, M_wind_rand = 0\<rparr>, g)
      else if windRandom sp then
        (let (r, g1) = drand 0 100 g;
             (a, g2) = drand (- pi) pi g1;
             (n, g3) = drand 0 0.5 g2
         in (\<lparr>M_wind_vector = fromPolar r a, M_wind_rand = n\<rparr>, g3))
      else (\<lparr>M_wind_vector = fromPolar (windForce sp) (Deg2Rad (windDir sp)),
             M_wind_rand = windRand sp\<rparr>, g))"

definition Weather_halfTime :: "weather \<Rightarrow> weather" where
  "Weather_halfTime we = we\<lparr>M_wind_vector := pv_scale (M_wind_vector we) (- 1)\<rparr>"

lemma Weather_halfTime_twice [simp]: "Weather_halfTime (Weather_halfTime we) = we"
  by (simp add: Weather_halfTime_def pv_scale_def)

section \<open>MPObject\<close>

record mpobj =
  M_pos :: pvector
  M_vel :: pvector
  M_accel :: pvector
  M_size :: real
  M_decay :: real
  M_randp :: real
  M_weight :: real
  M_max_speed :: real
  M_max_accel :: real
  M_post_collision_pos :: pvector
  M_collision_count :: int
  M_collided :: bool
  M_enable :: bool

definition moveTo :: "pvector \<Rightarrow> 'a mpobj_scheme \<Rightarrow> 'a mpobj_scheme" where
  "moveTo p b = b\<lparr>M_pos := p\<rparr>"

definition moveTo3 ::
  "pvector \<Rightarrow> pvector \<Rightarrow> pvector \<Rightarrow> 'a mpobj_scheme \<Rightarrow> 'a mpobj_scheme" where
  "moveTo3 p v a b = b\<lparr>M_pos := p, M_vel := v, M_accel := a\<rparr>"

definition setConstant ::
  "real \<Rightarrow> real \<Rightarrow> real \<Rightarrow> real \<Rightarrow> real \<Rightarrow> real \<Rightarrow> 'a mpobj_scheme \<Rightarrow> 'a mpobj_scheme" where
  "setConstant sz dec rp we ms ma b =
     b\<lparr>M_size := sz, M_decay := dec, M_randp := rp, M_weight := we, M_max_speed := ms,
       M_max_accel := ma\<rparr>"

definition push :: "pvector \<Rightarrow> 'a mpobj_scheme \<Rightarrow> 'a mpobj_scheme" where
  "push f b = b\<lparr>M_accel := M_accel b + f\<rparr>"

definition clearCollision :: "'a mpobj_scheme \<Rightarrow> 'a mpobj_scheme" where
  "clearCollision b = b\<lparr>M_post_collision_pos := PVector 0 0, M_collision_count := 0\<rparr>"

definition collide :: "pvector \<Rightarrow> 'a mpobj_scheme \<Rightarrow> 'a mpobj_scheme" where
  "collide col b =
     b\<lparr>M_post_collision_pos := M_post_collision_pos b + col,
       M_collision_count := M_collision_count b + 1,
       M_collided := True\<rparr>"

definition updateCollisionVel :: "'a mpobj_scheme \<Rightarrow> 'a mpobj_scheme" where
  "updateCollisionVel b =
     (if M_collided b then b\<lparr>M_vel := pv_scale (M_vel b) (- 0.1), M_collided := False\<rparr> else b)"

definition moveToCollisionPos :: "'a mpobj_scheme \<Rightarrow> 'a mpobj_scheme" where
  "moveToCollisionPos b =
     (let b1 = (if M_collision_count b > 0
                then (let q = pv_scale (M_post_collision_pos b) (1 / of_int (M_collision_count b))
                      in b\<lparr>M_post_collision_pos := q, M_pos := q\<rparr>)
                else b)
      in b1\<lparr>M_post_collision_pos := PVector 0 0, M_collision_count := 0\<rparr>)"

lemmas mpobj_defs =
  moveTo_def moveTo3_def setConstant_def push_def clearCollision_def collide_def
  updateCollisionVel_def moveToCollisionPos_def

text \<open>
  The collision positions of one round are averaged: an object hit at the positions of a list
  moves to their mean.
\<close>

fun collide_all :: "pvector list \<Rightarrow> 'a mpobj_scheme \<Rightarrow> 'a mpobj_scheme" where
  "collide_all [] b = b"
| "collide_all (c # cs) b = collide_all cs (collide c b)"

lemma collide_all_count:
  "M_collision_count (collide_all cs b) = M_collision_count b + int (length cs)"
  by (induction cs arbitrary: b) (auto simp: collide_def)

lemma collide_all_sum:
  "M_post_collision_pos (collide_all cs b) = M_post_collision_pos b + sum_list cs"
  by (induction cs arbitrary: b) (auto simp: collide_def add.assoc)

lemma collide_all_pos [simp]: "M_pos (collide_all cs b) = M_pos b"
  by (induction cs arbitrary: b) (auto simp: collide_def)

lemma moveToCollisionPos_mean:
  "M_pos (moveToCollisionPos (collide_all cs (clearCollision b))) =
     (if cs = [] then M_pos b else pv_scale (sum_list cs) (1 / real (length cs)))"
  by (cases cs)
     (auto simp: moveToCollisionPos_def collide_all_count collide_all_sum clearCollision_def
       collide_def Let_def zero_pvector_def[symmetric])

section \<open>One step of motion\<close>

definition noise :: "'a mpobj_scheme \<Rightarrow> rng \<Rightarrow> pvector \<times> rng" where
  "noise b g =
     (let maxrnd = M_randp b * pv_r (M_vel b);
          (r, g1) = drand 0 maxrnd g;
          (a, g2) = drand (- pi) pi g1
      in (fromPolar r a, g2))"

definition wind :: "weather \<Rightarrow> 'a mpobj_scheme \<Rightarrow> rng \<Rightarrow> pvector \<times> rng" where
  "wind we b g =
     (if M_wind_rand we < EPS then (PVector 0 0, g)
      else
        (let speed = pv_r (M_vel b);
             (rx, g1) = drand (- M_wind_rand we) (M_wind_rand we) g;
             (ry, g2) = drand (- M_wind_rand we) (M_wind_rand we) g1
         in (PVector (speed * (px (M_wind_vector we) + rx) / (M_weight b * WIND_WEIGHT))
                     (speed * (py (M_wind_vector we) + ry) / (M_weight b * WIND_WEIGHT)), g2)))"

text \<open>The first part of \<^verbatim>\<open>_inc\<close>: acceleration and speed, each cut to its limit.\<close>

definition inc_accel :: "real \<Rightarrow> real \<Rightarrow> 'a mpobj_scheme \<Rightarrow> 'a mpobj_scheme" where
  "inc_accel max_a max_s b =
     (if px (M_accel b) \<noteq> 0 \<or> py (M_accel b) \<noteq> 0
      then
        (let ta = pv_r (M_accel b);
             a = (if ta > max_a then pv_scale (M_accel b) (max_a / ta) else M_accel b);
             v = M_vel b + a;
             tv = pv_r v
         in b\<lparr>M_accel := a, M_vel := (if tv > max_s then pv_scale v (max_s / tv) else v)\<rparr>)
      else b)"

text \<open>The loops of \<^verbatim>\<open>_inc\<close> have no bound in the code: \<open>None\<close> is a loop that does not end.\<close>

partial_function (option) push_further :: "carea \<Rightarrow> pvector \<Rightarrow> pvector option" where
  "push_further post diff =
     (if pv_r (ca_center post + diff - ca_center post) < ca_radius post
      then push_further post (pv_normalize diff (pv_r diff * 1.01))
      else Some diff)"

text \<open>Mirror a vector on the line through the origin which is normal to direction \<open>th\<close>.\<close>

definition reflect :: "pvector \<Rightarrow> real \<Rightarrow> pvector" where
  "reflect v th =
     (let v1 = pv_rotate v (- th)
      in pv_rotate (PVector (- px v1) (py v1)) th)"

text \<open>The direction in which the object is moved out, and its velocity after the hit.\<close>

definition leave_dir :: "'a mpobj_scheme \<Rightarrow> rng \<Rightarrow> carea \<Rightarrow> pvector \<times> rng" where
  "leave_dir b g post =
     (let diff = M_pos b - ca_center post
      in if diff = PVector 0 0
         then (let (a, g') = drand (- pi) pi g in (fromPolar (ca_radius post) a, g'))
         else (pv_normalize diff (ca_radius post), g))"

definition leave_vel :: "pvector \<Rightarrow> pvector \<Rightarrow> pvector" where
  "leave_vel vel pos2center =
     (if px vel \<noteq> 0 \<or> py vel \<noteq> 0 then reflect vel (pv_th pos2center) else vel)"

partial_function (option) leave_post ::
  "sparam \<Rightarrow> ('a mpobj_scheme \<Rightarrow> 'a mpobj_scheme) \<Rightarrow> 'a mpobj_scheme \<Rightarrow> rng \<Rightarrow> carea
     \<Rightarrow> ('a mpobj_scheme \<times> rng \<times> carea) option" where
  "leave_post sp collidedWithPost b g post =
     (if pv_r (M_pos b - ca_center post) < ca_radius post
      then do {
        diff \<leftarrow> push_further post (fst (leave_dir b g post));
        let pos = ca_center post + diff;
        leave_post sp collidedWithPost
          (collidedWithPost
             (b\<lparr>M_pos := pos, M_vel := leave_vel (M_vel b) (ca_center post - pos)\<rparr>))
          (snd (leave_dir b g post)) (nearestPost sp pos (M_size b))
      }
      else Some (b, g, post))"

text \<open>
  \<^verbatim>\<open>M_pos += PVector::fromPolar( EPS, coll_2_circle.th() + 180.0 )\<close> adds 180 radians, as
  the code does.
\<close>

definition post_hit ::
  "carea \<Rightarrow> carea \<Rightarrow> pvector \<Rightarrow> pvector \<Rightarrow> (pvector \<times> bool) option" where
  "post_hit post second_post pos new_pos =
     (case intersect pos new_pos post of
        Some ip \<Rightarrow> Some (ip, False)
      | None \<Rightarrow>
          if post \<noteq> second_post
          then (case intersect pos new_pos second_post of
                  Some ip \<Rightarrow> Some (ip, True)
                | None \<Rightarrow> None)
          else None)"

partial_function (option) bounce ::
  "sparam \<Rightarrow> ('a mpobj_scheme \<Rightarrow> 'a mpobj_scheme) \<Rightarrow> carea \<Rightarrow> carea \<Rightarrow> pvector
     \<Rightarrow> 'a mpobj_scheme \<Rightarrow> ('a mpobj_scheme \<times> pvector) option" where
  "bounce sp collidedWithPost post second_post new_pos b =
     (if M_pos b = new_pos then Some (b, new_pos)
      else
        (case post_hit post second_post (M_pos b) new_pos of
           None \<Rightarrow> Some (b, new_pos)
         | Some (ip, second) \<Rightarrow>
             let rem0 = new_pos - ip;
                 coll_2_circle = (if second then ca_center second_post - ip
                                  else ca_center post - ip);
                 pos = ip + fromPolar EPS (pv_th coll_2_circle + 180);
                 rem = reflect rem0 (pv_th coll_2_circle);
                 new_pos' = pos + rem;
                 vel = fromPolar (pv_r (M_vel b)) (pv_th rem)
             in bounce sp collidedWithPost (nearestPost sp pos (M_size b))
                  (nearestPost sp new_pos' (M_size b)) new_pos'
                  (collidedWithPost (b\<lparr>M_pos := pos, M_vel := vel\<rparr>))))"

text \<open>
  \<^verbatim>\<open>MPObject::_inc\<close>.  The virtual methods of the object are arguments.
\<close>

definition inc_obj ::
  "sparam \<Rightarrow> weather \<Rightarrow> ('a mpobj_scheme \<Rightarrow> real) \<Rightarrow> ('a mpobj_scheme \<Rightarrow> real)
     \<Rightarrow> ('a mpobj_scheme \<Rightarrow> 'a mpobj_scheme) \<Rightarrow> ('a mpobj_scheme \<Rightarrow> 'a mpobj_scheme)
     \<Rightarrow> 'a mpobj_scheme \<Rightarrow> rng \<Rightarrow> ('a mpobj_scheme \<times> rng) option" where
  "inc_obj sp we maxAccel maxSpeed updateAngle collidedWithPost b0 g0 = do {
     let b1 = updateAngle (inc_accel (maxAccel b0) (maxSpeed b0) b0);
     let (nz, g1) = noise b1 g0;
     let b2 = b1\<lparr>M_vel := M_vel b1 + nz\<rparr>;
     let (wd, g2) = wind we b2 g1;
     let b3 = b2\<lparr>M_vel := M_vel b2 + wd\<rparr>;
     (b4, g4, post) \<leftarrow> leave_post sp collidedWithPost b3 g2 (nearestPost sp (M_pos b3) (M_size b3));
     let new_pos = M_pos b4 + M_vel b4;
     (b5, new_pos') \<leftarrow> bounce sp collidedWithPost post (nearestPost sp new_pos (M_size b4)) new_pos b4;
     Some (b5\<lparr>M_pos := new_pos', M_vel := pv_scale (M_vel b5) (M_decay b5),
              M_accel := pv_scale (M_accel b5) 0\<rparr>, g4)
   }"

text \<open>\<^verbatim>\<open>Ball\<close> overrides the virtual methods with the plain limits and empty bodies.\<close>

definition ball_inc :: "sparam \<Rightarrow> weather \<Rightarrow> mpobj \<Rightarrow> rng \<Rightarrow> (mpobj \<times> rng) option" where
  "ball_inc sp we = inc_obj sp we M_max_accel M_max_speed (\<lambda>b. b) (\<lambda>b. b)"

section \<open>Speed and free flight\<close>

lemma pv_r_triangle: "pv_r (u + v) \<le> pv_r u + pv_r v"
  using real_sqrt_sum_squares_triangle_ineq[of "px u" "px v" "py u" "py v"]
  by (simp add: pv_r_def power2_eq_square)

lemma pv_r_reflect [simp]: "pv_r (reflect v th) = pv_r v"
proof -
  have "pv_r (PVector (- px u) (py u)) = pv_r u" for u
    by (simp add: pv_r_def)
  then show ?thesis by (simp add: reflect_def Let_def)
qed

lemma reflect_reflect [simp]: "reflect (reflect v th) th = v"
proof -
  have inv: "pv_rotate (pv_rotate u a) (- a) = u" for u a
  proof -
    obtain c d where c: "cos a = c" and d: "sin a = d" by blast
    have "c\<^sup>2 + d\<^sup>2 = 1" unfolding c[symmetric] d[symmetric] by simp
    then have s: "c * c + d * d = 1" by (simp add: power2_eq_square)
    have "px (pv_rotate (pv_rotate u a) (- a)) = px u * (c * c + d * d)"
      and "py (pv_rotate (pv_rotate u a) (- a)) = py u * (c * c + d * d)"
      by (simp_all add: pv_rotate_def Let_def c d algebra_simps)
    then show ?thesis unfolding s by (simp add: pvector_eq_iff)
  qed
  from inv[of _ "- th"] have inv': "pv_rotate (pv_rotate u (- th)) th = u" for u by simp
  show ?thesis by (simp add: reflect_def Let_def inv inv')
qed

lemma inc_accel_speed:
  assumes "0 \<le> ms"
  shows "pv_r (M_vel (inc_accel ma ms b)) \<le> max (pv_r (M_vel b)) ms"
  using assms by (auto simp: inc_accel_def Let_def pv_r_scale abs_divide)

lemma inc_accel_frame [simp]:
  "M_pos (inc_accel ma ms b) = M_pos b" "M_size (inc_accel ma ms b) = M_size b"
  "M_decay (inc_accel ma ms b) = M_decay b" "M_randp (inc_accel ma ms b) = M_randp b"
  by (auto simp: inc_accel_def Let_def)

lemma noise_speed:
  assumes "rng_ok g" and "0 \<le> M_randp b"
  shows "pv_r (fst (noise b g)) \<le> M_randp b * pv_r (M_vel b)"
proof -
  define m where "m = M_randp b * pv_r (M_vel b)"
  have "0 \<le> m" using assms(2) by (simp add: m_def)
  moreover have "fst (noise b g) =
      fromPolar (fst (drand 0 m g)) (fst (drand (- pi) pi (snd (drand 0 m g))))"
    by (simp add: noise_def m_def Let_def split_beta)
  ultimately show ?thesis
    using drand_bounds[OF assms(1), of 0 m] by (simp add: pv_r_fromPolar m_def[symmetric])
qed

lemma wind_calm: "M_wind_rand we < EPS \<Longrightarrow> wind we b g = (0, g)"
  by (simp add: wind_def zero_pvector_def)

text \<open>What the virtual \<^verbatim>\<open>collidedWithPost\<close> of every object keeps.\<close>

definition keeps_motion :: "('a mpobj_scheme \<Rightarrow> 'a mpobj_scheme) \<Rightarrow> bool" where
  "keeps_motion cw \<longleftrightarrow> (\<forall>x. M_vel (cw x) = M_vel x \<and> M_decay (cw x) = M_decay x)"

lemma keeps_motion_id [simp]: "keeps_motion (\<lambda>b. b)"
  by (simp add: keeps_motion_def)

lemma pv_r_leave_vel [simp]: "pv_r (leave_vel v c) = pv_r v"
  by (simp add: leave_vel_def)

lemma leave_post_speed:
  assumes "leave_post sp cw b g post = Some r" and "keeps_motion cw"
  shows "pv_r (M_vel (fst r)) = pv_r (M_vel b) \<and> M_decay (fst r) = M_decay b"
  using assms
proof (induction sp cw b g post r rule: leave_post.raw_induct[rotated, consumes 1])
  case (1 lp sp cw b g post y)
  have cw: "M_vel (cw x) = M_vel x" "M_decay (cw x) = M_decay x" for x
    using 1(3) by (simp_all add: keeps_motion_def)
  show ?case
  proof (cases "pv_r (M_pos b - ca_center post) < ca_radius post")
    case False
    then show ?thesis using 1(2) by auto
  next
    case True
    obtain p c g1 where
      "lp sp cw (cw (b\<lparr>M_pos := p, M_vel := leave_vel (M_vel b) c\<rparr>)) g1 (nearestPost sp p (M_size b))
        = Some y"
      using 1(2) True by (auto simp: Let_def)
    from 1(1)[OF this 1(3)] cw show ?thesis by simp
  qed
qed

lemma bounce_speed:
  assumes "bounce sp cw p1 p2 np b = Some r" and "keeps_motion cw"
  shows "pv_r (M_vel (fst r)) = pv_r (M_vel b) \<and> M_decay (fst r) = M_decay b"
  using assms
proof (induction sp cw p1 p2 np b r rule: bounce.raw_induct[rotated, consumes 1])
  case (1 bo sp cw p1 p2 np b y)
  have cw: "M_vel (cw x) = M_vel x" "M_decay (cw x) = M_decay x" for x
    using 1(3) by (simp_all add: keeps_motion_def)
  show ?case
  proof (cases "M_pos b = np \<or> post_hit p1 p2 (M_pos b) np = None")
    case True
    then show ?thesis using 1(2) by (auto split: option.splits if_splits)
  next
    case False
    then obtain ip sec where hit: "post_hit p1 p2 (M_pos b) np = Some (ip, sec)" by fastforce
    obtain q1 q2 np' p a where
      "bo sp cw q1 q2 np' (cw (b\<lparr>M_pos := p, M_vel := fromPolar (pv_r (M_vel b)) a\<rparr>)) = Some y"
      using 1(2) False hit by (simp add: Let_def split: if_splits)
    from 1(1)[OF this 1(3)] cw show ?thesis by (simp add: pv_r_fromPolar)
  qed
qed

lemma ball_inc_speed:
  assumes "ball_inc sp we b g = Some (b', g')"
    and "rng_ok g" and "M_wind_rand we < EPS"
    and "0 \<le> M_randp b" and "0 \<le> M_decay b" and "0 \<le> M_max_speed b"
  shows "pv_r (M_vel b') \<le> M_decay b * ((1 + M_randp b) * max (pv_r (M_vel b)) (M_max_speed b))"
proof -
  define b1 where "b1 = inc_accel (M_max_accel b) (M_max_speed b) b"
  obtain nz g1 where nz: "noise b1 g = (nz, g1)" by fastforce
  define b2 where "b2 = b1\<lparr>M_vel := M_vel b1 + nz\<rparr>"
  obtain b4 g4 post b5 np where
    lp: "leave_post sp (\<lambda>b. b) b2 g1 (nearestPost sp (M_pos b2) (M_size b2)) = Some (b4, g4, post)"
    and bo: "bounce sp (\<lambda>b. b) post (nearestPost sp (M_pos b4 + M_vel b4) (M_size b4))
               (M_pos b4 + M_vel b4) b4 = Some (b5, np)"
    and b': "b' = b5\<lparr>M_pos := np, M_vel := pv_scale (M_vel b5) (M_decay b5),
                     M_accel := pv_scale (M_accel b5) 0\<rparr>"
    using assms(1)
    by (auto simp: ball_inc_def inc_obj_def Let_def nz b1_def[symmetric] wind_calm[OF assms(3)]
        b2_def split: prod.splits)
  have v: "pv_r (M_vel b1) \<le> max (pv_r (M_vel b)) (M_max_speed b)"
    using inc_accel_speed[OF assms(6)] by (simp add: b1_def)
  have "pv_r nz \<le> M_randp b * pv_r (M_vel b1)"
    using noise_speed[OF assms(2), of b1] nz assms(4) by (simp add: b1_def)
  then have "pv_r (M_vel b2) \<le> (1 + M_randp b) * pv_r (M_vel b1)"
    using pv_r_triangle[of "M_vel b1" nz] by (simp add: b2_def algebra_simps)
  also have "\<dots> \<le> (1 + M_randp b) * max (pv_r (M_vel b)) (M_max_speed b)"
    using v assms(4) by (intro mult_left_mono) auto
  finally have v2: "pv_r (M_vel b2) \<le> (1 + M_randp b) * max (pv_r (M_vel b)) (M_max_speed b)" .
  have "pv_r (M_vel b5) = pv_r (M_vel b2)" "M_decay b5 = M_decay b"
    using leave_post_speed[OF lp] bounce_speed[OF bo] by (simp_all add: b2_def b1_def)
  then have "pv_r (M_vel b') = M_decay b * pv_r (M_vel b2)"
    using assms(5) by (simp add: b' pv_r_scale)
  then show ?thesis using v2 assms(5) by (simp add: mult_left_mono)
qed

text \<open>An object which is and stays clear of the posts moves by its velocity.\<close>

definition clear_of_post :: "sparam \<Rightarrow> real \<Rightarrow> pvector \<Rightarrow> pvector \<Rightarrow> bool" where
  "clear_of_post sp sz p v \<longleftrightarrow>
     (let post = nearestPost sp p sz; post2 = nearestPost sp (p + v) sz
      in ca_radius post \<le> pv_r (p - ca_center post)
         \<and> pv_r v < pv_r (p - ca_center post) - ca_radius post
         \<and> pv_r v < pv_r (p - ca_center post2) - ca_radius post2)"

lemma intersect_far: "pv_r (b - e) < pv_r (b - ca_center c) - ca_radius c \<Longrightarrow> intersect b e c = None"
  by (simp add: intersect_def)

lemma leave_post_clear:
  "ca_radius post \<le> pv_r (M_pos b - ca_center post) \<Longrightarrow> leave_post sp cw b g post = Some (b, g, post)"
  by (subst leave_post.simps) simp

lemma bounce_clear:
  assumes "clear_of_post sp (M_size b) (M_pos b) v"
  shows "bounce sp cw (nearestPost sp (M_pos b) (M_size b))
           (nearestPost sp (M_pos b + v) (M_size b)) (M_pos b + v) b = Some (b, M_pos b + v)"
proof -
  have "pv_r (M_pos b - (M_pos b + v)) = pv_r v"
    using pv_r_neg[of v] by (simp add: algebra_simps)
  then have "post_hit (nearestPost sp (M_pos b) (M_size b))
      (nearestPost sp (M_pos b + v) (M_size b)) (M_pos b) (M_pos b + v) = None"
    using assms by (auto simp: post_hit_def clear_of_post_def Let_def intersect_far)
  then show ?thesis by (subst bounce.simps) simp
qed

end
