(* ===== verification/Player.thy ===== *)
theory Player
  imports Objects
begin

text \<open>
  A player of player.h, player.cpp, leg.h, leg.cpp and arm.h: the fields of the class, and
  every operation which touches the player alone.  Client names, observers and message
  senders are left out.  Operations which read or write the stadium are in the theories
  World and Commands.
\<close>

section \<open>HeteroPlayer\<close>

text \<open>The parameters of a player type which the modelled operations read.\<close>

record hetero =
  ht_playerSpeedMax :: real
  ht_staminaIncMax :: real
  ht_playerDecay :: real
  ht_inertiaMoment :: real
  ht_dashPowerRate :: real
  ht_playerSize :: real
  ht_kickableMargin :: real
  ht_kickRand :: real
  ht_extraStamina :: real
  ht_effortMax :: real
  ht_effortMin :: real
  ht_kickPowerRate :: real
  ht_foulDetectProbability :: real
  ht_catchAreaLengthStretch :: real
  ht_unumFarLength :: real
  ht_unumTooFarLength :: real
  ht_teamFarLength :: real
  ht_teamTooFarLength :: real
  ht_playerMaxObservationLength :: real
  ht_ballVelFarLength :: real
  ht_ballVelTooFarLength :: real
  ht_ballMaxObservationLength :: real
  ht_landVelFarLength :: real
  ht_landVelTooFarLength :: real
  ht_landMaxObservationLength :: real
  ht_distNoiseRate :: real
  ht_focusDistNoiseRate :: real
  ht_landDistNoiseRate :: real
  ht_landFocusDistNoiseRate :: real

section \<open>Leg\<close>

datatype leg_command = LEG_MOVE | LEG_DASH | LEG_TURN | LEG_KICK | LEG_TACKLE | LEG_NONE

record leg =
  L_command_type :: leg_command
  L_kick_power :: real
  L_kick_dir :: real
  L_dash_power :: real
  L_dash_dir :: real

definition new_Leg :: leg where
  "new_Leg = \<lparr>L_command_type = LEG_NONE, L_kick_power = 0, L_kick_dir = 0, L_dash_power = 0,
              L_dash_dir = 0\<rparr>"

definition leg_commandDone :: "leg \<Rightarrow> bool" where
  "leg_commandDone l \<longleftrightarrow> L_command_type l \<noteq> LEG_NONE"

definition leg_resetCommand :: "leg \<Rightarrow> leg" where
  "leg_resetCommand l =
     l\<lparr>L_command_type := LEG_NONE, L_kick_power := 0, L_kick_dir := 0, L_dash_power := 0,
       L_dash_dir := 0\<rparr>"

definition normalize_dash_power :: "sparam \<Rightarrow> real \<Rightarrow> real" where
  "normalize_dash_power sp p = std_clamp p (minDashPower sp) (maxDashPower sp)"

definition normalize_dash_angle :: "sparam \<Rightarrow> real \<Rightarrow> real" where
  "normalize_dash_angle sp d =
     (let dir = std_clamp d (minDashAngle sp) (maxDashAngle sp)
      in if dashAngleStep sp < EPS then dir
         else dashAngleStep sp * rint (dir / dashAngleStep sp))"

definition leg_move :: "leg \<Rightarrow> leg" where
  "leg_move l = (if leg_commandDone l then l else l\<lparr>L_command_type := LEG_MOVE\<rparr>)"

definition leg_kick :: "real \<Rightarrow> real \<Rightarrow> leg \<Rightarrow> leg" where
  "leg_kick pw dir l =
     (if leg_commandDone l then l
      else l\<lparr>L_kick_power := pw, L_kick_dir := dir, L_command_type := LEG_KICK\<rparr>)"

definition leg_turn :: "leg \<Rightarrow> leg" where
  "leg_turn l = (if leg_commandDone l then l else l\<lparr>L_command_type := LEG_TURN\<rparr>)"

definition leg_dash :: "sparam \<Rightarrow> real \<Rightarrow> real \<Rightarrow> leg \<Rightarrow> leg" where
  "leg_dash sp pw dir l =
     (if leg_commandDone l then l
      else l\<lparr>L_dash_power := normalize_dash_power sp pw,
             L_dash_dir := normalize_dash_angle sp dir, L_command_type := LEG_DASH\<rparr>)"

definition leg_tackle :: "leg \<Rightarrow> leg" where
  "leg_tackle l = (if leg_commandDone l then l else l\<lparr>L_command_type := LEG_TACKLE\<rparr>)"

lemmas leg_defs =
  leg_move_def leg_kick_def leg_turn_def leg_dash_def leg_tackle_def leg_commandDone_def

text \<open>The first command of a cycle wins: a leg with a command ignores every further one.\<close>

lemma leg_first_command:
  assumes "leg_commandDone l"
  shows "leg_move l = l" "leg_kick p d l = l" "leg_turn l = l" "leg_dash sp p d l = l"
    "leg_tackle l = l"
  using assms by (simp_all add: leg_defs)

lemma normalize_dash_power_range:
  "minDashPower sp \<le> maxDashPower sp \<Longrightarrow>
   minDashPower sp \<le> normalize_dash_power sp p \<and> normalize_dash_power sp p \<le> maxDashPower sp"
  unfolding normalize_dash_power_def by (rule std_clamp_range)

section \<open>Arm\<close>

text \<open>The timers are \<^verbatim>\<open>unsigned int\<close>.\<close>

record arm =
  A_dest :: pvector
  A_timer :: u32
  A_min_point_duration :: u32
  A_max_point_duration :: u32
  A_count :: u32

definition new_Arm :: "u32 \<Rightarrow> u32 \<Rightarrow> arm" where
  "new_Arm mn mx =
     \<lparr>A_dest = 0, A_timer = mx, A_min_point_duration = mn, A_max_point_duration = mx, A_count = 0\<rparr>"

definition arm_isMovable :: "arm \<Rightarrow> bool" where
  "arm_isMovable a \<longleftrightarrow> A_timer a \<ge> A_min_point_duration a"

definition arm_isPointing :: "arm \<Rightarrow> bool" where
  "arm_isPointing a \<longleftrightarrow> A_timer a < A_max_point_duration a"

definition arm_incAge :: "arm \<Rightarrow> arm" where
  "arm_incAge a = a\<lparr>A_timer := A_timer a + 1\<rparr>"

text \<open>\<^verbatim>\<open>Vector2D::rotate\<close> sets the heading of a vector of the same magnitude.\<close>

definition v2_getHead :: "pvector \<Rightarrow> real" where
  "v2_getHead v = atan2 (py v) (px v)"

definition v2_rotate :: "pvector \<Rightarrow> real \<Rightarrow> pvector" where
  "v2_rotate v ang =
     (let head = v2_getHead v + ang in pv_scale (PVector (cos head) (sin head)) (pv_r v))"

definition arm_pointTo :: "pvector \<Rightarrow> real \<Rightarrow> pvector \<Rightarrow> arm \<Rightarrow> bool \<times> arm" where
  "arm_pointTo origin orientation rel_dest a =
     (if arm_isMovable a
      then (True, a\<lparr>A_dest := v2_rotate rel_dest orientation + origin, A_timer := 0,
                    A_count := A_count a + 1\<rparr>)
      else (False, a))"

definition arm_stopPointing :: "arm \<Rightarrow> bool \<times> arm" where
  "arm_stopPointing a =
     (if arm_isMovable a
      then (True, a\<lparr>A_dest := 0, A_timer := A_max_point_duration a, A_count := A_count a + 1\<rparr>)
      else (False, a))"

definition arm_getRelDest :: "pvector \<Rightarrow> real \<Rightarrow> arm \<Rightarrow> pvector option" where
  "arm_getRelDest origin orientation a =
     (if arm_isPointing a then Some (v2_rotate (A_dest a - origin) (- orientation)) else None)"

definition arm_getRelDir :: "pvector \<Rightarrow> real \<Rightarrow> arm \<Rightarrow> real option" where
  "arm_getRelDir origin orientation a =
     (case arm_getRelDest origin orientation a of Some d \<Rightarrow> Some (v2_getHead d) | None \<Rightarrow> None)"

definition arm_getCyclesTillExpiry :: "arm \<Rightarrow> u32" where
  "arm_getCyclesTillExpiry a =
     (if arm_isPointing a then A_max_point_duration a - A_timer a else 0)"

definition arm_getCyclesTillMovable :: "arm \<Rightarrow> u32" where
  "arm_getCyclesTillMovable a =
     (if arm_isMovable a then 0 else A_min_point_duration a - A_timer a)"

lemma pv_r_unit [simp]: "pv_r (PVector (cos h) (sin h)) = 1"
  using pv_r_fromPolar[of 1 h] by (simp add: fromPolar_def)

lemma pv_r_v2_rotate [simp]: "pv_r (v2_rotate v a) = pv_r v"
  by (simp add: v2_rotate_def Let_def pv_r_scale)

fun arm_age :: "nat \<Rightarrow> arm \<Rightarrow> arm" where
  "arm_age 0 a = a"
| "arm_age (Suc n) a = arm_age n (arm_incAge a)"

lemma arm_age_frame [simp]:
  "A_min_point_duration (arm_age n a) = A_min_point_duration a"
  "A_max_point_duration (arm_age n a) = A_max_point_duration a"
  "A_dest (arm_age n a) = A_dest a" "A_count (arm_age n a) = A_count a"
  by (induction n arbitrary: a) (auto simp: arm_incAge_def)

lemma arm_age_timer: "A_timer (arm_age n a) = A_timer a + of_nat n"
  by (induction n arbitrary: a) (auto simp: arm_incAge_def)

text \<open>A pointing arm has no \<^verbatim>\<open>isPointing\<close> once its duration has passed.\<close>

lemma arm_point_window:
  assumes "arm_pointTo org ori d a = (True, b)" and "n < 2 ^ 32"
  shows "arm_isPointing (arm_age n b) \<longleftrightarrow> n < unat (A_max_point_duration a)"
    and "arm_isMovable (arm_age n b) \<longleftrightarrow> unat (A_min_point_duration a) \<le> n"
proof -
  have b: "A_timer b = 0" "A_max_point_duration b = A_max_point_duration a"
    "A_min_point_duration b = A_min_point_duration a"
    using assms(1) by (auto simp: arm_pointTo_def split: if_splits)
  have u: "unat (of_nat n :: u32) = n" using assms(2) by (simp add: unat_of_nat)
  show "arm_isPointing (arm_age n b) \<longleftrightarrow> n < unat (A_max_point_duration a)"
    by (simp add: arm_isPointing_def arm_age_timer b word_less_nat_alt u)
  show "arm_isMovable (arm_age n b) \<longleftrightarrow> unat (A_min_point_duration a) \<le> n"
    by (simp add: arm_isMovable_def arm_age_timer b word_le_nat_alt u)
qed

section \<open>The class Player\<close>

datatype view_width = VIEW_NARROW | VIEW_NORMAL | VIEW_WIDE

record player = mpobj +
  M_version :: real
  M_side :: side
  M_unum :: int
  M_goalie :: bool
  M_connected :: bool
  M_player_type :: hetero
  M_player_type_id :: int
  M_substituted :: bool
  M_kick_rand :: real
  M_state :: pstate
  M_card_count :: int
  M_synch_see :: bool
  M_visual_send_interval :: int
  M_high_quality :: bool
  M_gaussian_see :: bool
  M_visible_angle :: real
  M_view_width :: view_width
  M_hear_capacity_from_teammate :: int
  M_hear_capacity_from_opponent :: int
  M_stamina :: real
  M_recovery :: real
  M_effort :: real
  M_stamina_capacity :: real
  M_consumed_stamina :: real
  M_angle_body :: real
  M_angle_body_committed :: real
  M_angle_neck :: real
  M_angle_neck_committed :: real
  M_focus_dist :: real
  M_focus_dir :: real
  M_ball_collide :: bool
  M_player_collide :: bool
  M_post_collide :: bool
  M_command_done :: bool
  M_turn_neck_done :: bool
  M_done_received :: bool
  M_goalie_catch_ban :: int
  M_goalie_moves_since_catch :: int
  M_kick_cycles :: int
  M_dash_cycles :: int
  M_kick_count :: int
  M_dash_count :: int
  M_turn_count :: int
  M_catch_count :: int
  M_move_count :: int
  M_turn_neck_count :: int
  M_change_focus_count :: int
  M_change_view_count :: int
  M_say_count :: int
  M_left_leg :: leg
  M_right_leg :: leg
  M_arm :: arm
  M_attentionto_count :: int
  M_tackle_cycles :: int
  M_tackle_count :: int
  M_foul_cycles :: int
  M_foul_count :: int
  M_long_kick_power :: real
  M_long_kick_dir :: real

section \<open>State bits, type and stamina\<close>

definition addState :: "pstate \<Rightarrow> player \<Rightarrow> player" where
  "addState st p = p\<lparr>M_state := M_state p OR st\<rparr>"

definition removeState :: "pstate \<Rightarrow> player \<Rightarrow> player" where
  "removeState st p = p\<lparr>M_state := M_state p AND NOT st\<rparr>"

definition recoverStaminaCapacity :: "sparam \<Rightarrow> player \<Rightarrow> player" where
  "recoverStaminaCapacity sp p = p\<lparr>M_stamina_capacity := staminaCapacity sp\<rparr>"

definition recoverAll :: "sparam \<Rightarrow> player \<Rightarrow> player" where
  "recoverAll sp p =
     (recoverStaminaCapacity sp
       (p\<lparr>M_stamina := staminaMax sp, M_recovery := 1,
          M_effort := ht_effortMax (M_player_type p)\<rparr>))
       \<lparr>M_consumed_stamina := 0, M_hear_capacity_from_teammate := hearMax sp,
        M_hear_capacity_from_opponent := hearMax sp\<rparr>"

text \<open>
  The argument \<open>ty\<close> is the result of \<^verbatim>\<open>M_stadium.playerType( id )\<close>, the null pointer being
  \<open>None\<close>; \<open>kf\<close> is the team's \<^verbatim>\<open>kickRandFactorTeam()\<close>.
\<close>

definition setPlayerType ::
  "sparam \<Rightarrow> real \<Rightarrow> hetero option \<Rightarrow> int \<Rightarrow> player \<Rightarrow> player" where
  "setPlayerType sp kf ty pt p =
     (case ty of
        None \<Rightarrow> p
      | Some t \<Rightarrow>
          (let p1 = p\<lparr>M_player_type_id := pt, M_player_type := t,
                      M_max_speed := ht_playerSpeedMax t, M_decay := ht_playerDecay t,
                      M_size := ht_playerSize t, M_kick_rand := ht_kickRand t\<rparr>
           in if teamActuatorNoise sp then p1\<lparr>M_kick_rand := M_kick_rand p1 * kf\<rparr> else p1))"

definition substitute ::
  "sparam \<Rightarrow> real \<Rightarrow> hetero option \<Rightarrow> int \<Rightarrow> player \<Rightarrow> player" where
  "substitute sp kf ty pt p =
     (let p1 = recoverAll sp (setPlayerType sp kf ty pt p)
      in p1\<lparr>M_state := M_state p1 AND (STAND OR GOALIE OR DISCARD), M_card_count := 0,
            M_substituted := True\<rparr>)"

definition setEnable :: "player \<Rightarrow> player" where
  "setEnable p =
     (let p1 = p\<lparr>M_state := STAND, M_enable := True\<rparr>
      in if M_goalie p1 then p1\<lparr>M_state := M_state p1 OR GOALIE\<rparr> else p1)"

text \<open>\<^verbatim>\<open>SideDirection\<close>.\<close>

definition SideDirection :: "side \<Rightarrow> real" where
  "SideDirection s = (if s = LEFT then 0 else pi)"

text \<open>
  \<^verbatim>\<open>Player::init\<close> up to \<^verbatim>\<open>setSenders()\<close>; \<open>prf\<close> and \<open>kf\<close> are the team's
  noise factors.
\<close>

definition init_player :: "sparam \<Rightarrow> real \<Rightarrow> real \<Rightarrow> real \<Rightarrow> bool \<Rightarrow> player \<Rightarrow> player" where
  "init_player sp prf kf ver goalie p =
     (let p1 = (setEnable (p\<lparr>M_version := ver, M_goalie := goalie\<rparr>))
                 \<lparr>M_goalie_catch_ban := 0, M_goalie_moves_since_catch := 0,
                  M_angle_body_committed := SideDirection (M_side p),
                  M_randp := playerRand sp\<rparr>
      in if teamActuatorNoise sp
         then p1\<lparr>M_randp := M_randp p1 * prf, M_kick_rand := M_kick_rand p1 * kf\<rparr>
         else p1)"

definition resetState :: "player \<Rightarrow> player" where
  "resetState p =
     (let st0 = STAND OR GOALIE OR DISCARD OR YELLOW_CARD OR RED_CARD;
          st1 = (if M_kick_cycles p > 0 then st0 OR (KICK OR KICK_FAULT) else st0);
          st2 = (if M_tackle_cycles p > 0 then st1 OR (TACKLE OR TACKLE_FAULT) else st1);
          st3 = (if M_foul_cycles p > 0 then st2 OR FOUL_CHARGED else st2)
      in p\<lparr>M_state := M_state p AND st3\<rparr>)"

text \<open>
  \<^verbatim>\<open>Player::disable\<close>, less the test for the ball catcher, which is the stadium's.
\<close>

definition disable_player :: "player \<Rightarrow> player" where
  "disable_player p =
     p\<lparr>M_enable := False,
       M_state := DISABLE OR (M_state p AND (YELLOW_CARD OR RED_CARD)),
       M_pos := PVector (- of_int (M_unum p * 3 * side_int (M_side p))) (- PITCH_WIDTH / 2 - 3),
       M_vel := PVector 0 0, M_accel := PVector 0 0,
       M_connected := False\<rparr>"

definition changeToGoalie :: "player \<Rightarrow> player" where
  "changeToGoalie p = setEnable (p\<lparr>M_goalie := True\<rparr>)"

definition updateStamina :: "sparam \<Rightarrow> player \<Rightarrow> player" where
  "updateStamina sp p =
     (let recovery =
            (if M_stamina p \<le> recoverDecThr sp * staminaMax sp
             then (let r = (if M_recovery p > recoverMin sp then M_recovery p - recoverDec sp
                            else M_recovery p)
                   in if r < recoverMin sp then recoverMin sp else r)
             else M_recovery p);
          mn = ht_effortMin (M_player_type p); mx = ht_effortMax (M_player_type p);
          effort1 =
            (if M_stamina p \<le> effortDecThr sp * staminaMax sp
             then (let e = (if M_effort p > mn then M_effort p - effortDec sp else M_effort p)
                   in if e < mn then mn else e)
             else M_effort p);
          effort2 =
            (if M_stamina p \<ge> effortIncThr sp * staminaMax sp
             then (if effort1 < mx
                   then (if effort1 + effortInc sp > mx then mx else effort1 + effortInc sp)
                   else effort1)
             else effort1);
          inc0 = min (recovery * ht_staminaIncMax (M_player_type p)) (staminaMax sp - M_stamina p);
          stamina_inc =
            (if staminaCapacity sp \<ge> 0
             then (if inc0 > M_stamina_capacity p then M_stamina_capacity p else inc0)
             else inc0);
          stamina1 = M_stamina p + stamina_inc;
          capacity1 = M_stamina_capacity p - stamina_inc
      in p\<lparr>M_recovery := recovery, M_effort := effort2,
           M_stamina := (if stamina1 > staminaMax sp then staminaMax sp else stamina1),
           M_stamina_capacity :=
             (if staminaCapacity sp \<ge> 0 then (if capacity1 < 0 then 0 else capacity1)
              else M_stamina_capacity p)\<rparr>)"

definition updateCapacity :: "sparam \<Rightarrow> player \<Rightarrow> player" where
  "updateCapacity sp p =
     (let ht = M_hear_capacity_from_teammate p + hearInc sp;
          ho = M_hear_capacity_from_opponent p + hearInc sp
      in p\<lparr>M_hear_capacity_from_teammate := (if ht > hearMax sp then hearMax sp else ht),
           M_hear_capacity_from_opponent := (if ho > hearMax sp then hearMax sp else ho),
           M_goalie_catch_ban :=
             (if M_goalie_catch_ban p > 0 then M_goalie_catch_ban p - 1
              else M_goalie_catch_ban p)\<rparr>)"

text \<open>\<^verbatim>\<open>team() == sender.team()\<close>: a player's team is given by the side.\<close>

definition decrementHearCapacity :: "sparam \<Rightarrow> player \<Rightarrow> player \<Rightarrow> player" where
  "decrementHearCapacity sp sender p =
     (if M_side p = M_side sender
      then p\<lparr>M_hear_capacity_from_teammate := M_hear_capacity_from_teammate p - hearDecay sp\<rparr>
      else p\<lparr>M_hear_capacity_from_opponent := M_hear_capacity_from_opponent p - hearDecay sp\<rparr>)"

definition canHearFullFrom :: "sparam \<Rightarrow> player \<Rightarrow> player \<Rightarrow> bool" where
  "canHearFullFrom sp sender p =
     (if M_side p = M_side sender then M_hear_capacity_from_teammate p \<ge> hearDecay sp
      else M_hear_capacity_from_opponent p \<ge> hearDecay sp)"

section \<open>Position, kickable area and collisions\<close>

definition player_kickableArea :: "sparam \<Rightarrow> player \<Rightarrow> real" where
  "player_kickableArea sp p =
     ht_playerSize (M_player_type p) + ballSize sp + ht_kickableMargin (M_player_type p)"

text \<open>\<^verbatim>\<open>ballKickable()\<close> for a ball at \<open>bp\<close>.\<close>

definition ballKickable :: "sparam \<Rightarrow> pvector \<Rightarrow> player \<Rightarrow> bool" where
  "ballKickable sp bp p \<longleftrightarrow> distance2 (M_pos p) bp \<le> (player_kickableArea sp p)\<^sup>2"

definition angleFromBody :: "pvector \<Rightarrow> player \<Rightarrow> real" where
  "angleFromBody op p = normalize_angle (pv_th (op - M_pos p) - M_angle_body_committed p)"

definition focusPoint :: "player \<Rightarrow> pvector" where
  "focusPoint p =
     M_pos p + fromPolar (M_focus_dist p)
       (normalize_angle (M_angle_body_committed p + M_angle_neck_committed p + M_focus_dir p))"

definition collidedWithBall :: "player \<Rightarrow> player" where
  "collidedWithBall p = (addState (BALL_TO_PLAYER OR BALL_COLLIDE) p)\<lparr>M_ball_collide := True\<rparr>"

definition collidedWithPlayer :: "player \<Rightarrow> player" where
  "collidedWithPlayer p = (addState PLAYER_COLLIDE p)\<lparr>M_player_collide := True\<rparr>"

definition collidedWithPost :: "player \<Rightarrow> player" where
  "collidedWithPost p = (addState POST_COLLIDE p)\<lparr>M_post_collide := True\<rparr>"

definition resetCollisionFlags :: "player \<Rightarrow> player" where
  "resetCollisionFlags p =
     p\<lparr>M_ball_collide := False, M_player_collide := False, M_post_collide := False\<rparr>"

definition turnImpl :: "player \<Rightarrow> player" where
  "turnImpl p =
     p\<lparr>M_angle_body_committed := M_angle_body p, M_angle_neck_committed := M_angle_neck p,
       M_vel := PVector 0 0, M_accel := PVector 0 0\<rparr>"

definition updateAngle :: "player \<Rightarrow> player" where
  "updateAngle p =
     p\<lparr>M_angle_body_committed := M_angle_body p, M_angle_neck_committed := M_angle_neck p\<rparr>"

definition slownessOnTop :: "sparam \<Rightarrow> side \<Rightarrow> real" where
  "slownessOnTop sp s = (if s = LEFT then slownessOnTopForLeft sp else slownessOnTopForRight sp)"

definition maxAccel :: "sparam \<Rightarrow> player \<Rightarrow> real" where
  "maxAccel sp p =
     (if py (M_pos p) < 0 then M_max_accel p * slownessOnTop sp (M_side p) else M_max_accel p)"

definition maxSpeed :: "sparam \<Rightarrow> player \<Rightarrow> real" where
  "maxSpeed sp p =
     (if py (M_pos p) < 0 then M_max_speed p * slownessOnTop sp (M_side p) else M_max_speed p)"

definition player_inc :: "sparam \<Rightarrow> weather \<Rightarrow> player \<Rightarrow> rng \<Rightarrow> (player \<times> rng) option" where
  "player_inc sp we = inc_obj sp we (maxAccel sp) (maxSpeed sp) updateAngle collidedWithPost"

definition place :: "pvector \<Rightarrow> player \<Rightarrow> player" where
  "place loc p = p\<lparr>M_pos := loc, M_vel := PVector 0 0, M_accel := PVector 0 0\<rparr>"

definition place4 :: "pvector \<Rightarrow> real \<Rightarrow> pvector \<Rightarrow> pvector \<Rightarrow> player \<Rightarrow> player" where
  "place4 pos angle vel accel p =
     p\<lparr>M_pos := pos, M_angle_body := angle, M_angle_body_committed := angle, M_vel := vel,
       M_accel := accel\<rparr>"

section \<open>Command state\<close>

definition resetCommandFlags :: "player \<Rightarrow> player" where
  "resetCommandFlags p =
     (let kc = (if M_kick_cycles p \<ge> 0 then M_kick_cycles p - 1 else M_kick_cycles p);
          dc = (if M_dash_cycles p \<ge> 0 then M_dash_cycles p - 1 else M_dash_cycles p);
          tc = (if M_tackle_cycles p > 0 then M_tackle_cycles p - 1 else M_tackle_cycles p);
          fc = (if M_foul_cycles p > 0 then M_foul_cycles p - 1 else M_foul_cycles p)
      in p\<lparr>M_kick_cycles := kc, M_dash_cycles := dc, M_tackle_cycles := tc, M_foul_cycles := fc,
           M_command_done := (if kc \<le> 0 \<and> tc = 0 \<and> fc = 0 then False else M_command_done p),
           M_turn_neck_done := False, M_done_received := False,
           M_left_leg := leg_resetCommand (M_left_leg p),
           M_right_leg := leg_resetCommand (M_right_leg p)\<rparr>)"

definition setFoulCharged :: "sparam \<Rightarrow> player \<Rightarrow> player" where
  "setFoulCharged sp p =
     p\<lparr>M_foul_cycles := foulCycles sp, M_command_done := True,
       M_state := M_state p OR FOUL_CHARGED\<rparr>"

definition incFoulCount :: "player \<Rightarrow> player" where
  "incFoulCount p = p\<lparr>M_foul_count := M_foul_count p + 1\<rparr>"

text \<open>
  \<^verbatim>\<open>discard()\<close>: its else branch, which takes the bit back, is never reached since
  \<^verbatim>\<open>disable()\<close> has just cleared it.
\<close>

definition discard_player :: "player \<Rightarrow> player" where
  "discard_player p =
     (if has_state (M_state p) STAND
      then (let p1 = disable_player p
            in if \<not> has_state (M_state p1) DISCARD then p1\<lparr>M_state := M_state p1 OR DISCARD\<rparr>
               else p1\<lparr>M_state := M_state p1 AND NOT DISCARD\<rparr>)
      else p)"

definition hasYellowCard :: "player \<Rightarrow> bool" where
  "hasYellowCard p \<longleftrightarrow> M_card_count p = 1"

definition hasRedCard :: "player \<Rightarrow> bool" where
  "hasRedCard p \<longleftrightarrow> M_card_count p \<ge> 2"

definition redCard_player :: "player \<Rightarrow> player" where
  "redCard_player p =
     (let p1 = discard_player p
      in p1\<lparr>M_state := (M_state p1 AND NOT YELLOW_CARD) OR RED_CARD, M_card_count := 2\<rparr>)"

definition yellowCard_player :: "player \<Rightarrow> player" where
  "yellowCard_player p =
     (if hasYellowCard p then redCard_player p
      else p\<lparr>M_state := M_state p OR YELLOW_CARD, M_card_count := M_card_count p + 1\<rparr>)"

section \<open>Invariants of a player\<close>

text \<open>Two lists of bits of the state word have no bit in common: decided on the words.\<close>

lemma bit_facts [simp]:
  "STAND \<noteq> 0" "GOALIE AND STAND = 0" "YELLOW_CARD AND STAND = 0" "RED_CARD AND STAND = 0"
  "DISCARD AND STAND = 0" "STAND AND DISCARD = 0" "STAND AND GOALIE = 0"
  "(YELLOW_CARD OR RED_CARD) AND STAND = 0" "(YELLOW_CARD OR RED_CARD) AND DISCARD = 0"
  "DISCARD \<noteq> 0" "RED_CARD \<noteq> 0" "YELLOW_CARD \<noteq> 0" "GOALIE \<noteq> 0"
  by (simp_all add: state_bit_defs)

text \<open>
  The cards of a player: the counter is at most two, a player with two cards has been sent
  off, and the state word shows the card which the counter counts.
\<close>

definition cards_ok :: "player \<Rightarrow> bool" where
  "cards_ok p \<longleftrightarrow>
     M_card_count p \<in> {0, 1, 2}
     \<and> (M_card_count p = 2 \<longrightarrow> \<not> has_state (M_state p) STAND \<and> has_state (M_state p) RED_CARD
                            \<and> \<not> has_state (M_state p) YELLOW_CARD)
     \<and> (M_card_count p = 1 \<longrightarrow> has_state (M_state p) YELLOW_CARD \<and> \<not> has_state (M_state p) RED_CARD)
     \<and> (M_card_count p = 0 \<longrightarrow> \<not> has_state (M_state p) YELLOW_CARD
                            \<and> \<not> has_state (M_state p) RED_CARD)"

text \<open>An enabled player stands; a disabled one does not.\<close>

definition stand_ok :: "player \<Rightarrow> bool" where
  "stand_ok p \<longleftrightarrow> has_state (M_state p) STAND = M_enable p"

lemma has_state_AND: "has_state (a AND b) f \<longleftrightarrow> a AND b AND f \<noteq> 0"
  by (simp add: has_state_def and.assoc)

lemma has_state_mask:
  "m AND f = f \<Longrightarrow> has_state (a AND m) f = has_state a f"
  by (simp add: has_state_def and.assoc)

lemma has_state_mask0:
  "m AND f = 0 \<Longrightarrow> \<not> has_state (a AND m) f"
  by (simp add: has_state_def and.assoc)

lemma disable_player_state:
  "M_state (disable_player p) = M_state p AND (YELLOW_CARD OR RED_CARD)"
  by (simp add: disable_player_def DISABLE_def)

lemma discard_player_stand: "\<not> has_state (M_state (discard_player p)) STAND"
  by (auto simp: discard_player_def Let_def disable_player_state has_state_OR has_state_mask0
      has_state_def[of DISCARD])

lemma discard_player_card:
  assumes "f \<in> {YELLOW_CARD, RED_CARD}"
  shows "has_state (M_state (discard_player p)) f = has_state (M_state p) f"
proof -
  have "(YELLOW_CARD OR RED_CARD) AND f = f" "DISCARD AND f = 0"
    using assms by (auto simp: state_bit_defs)
  then show ?thesis
    by (auto simp: discard_player_def Let_def disable_player_state has_state_OR has_state_mask
        has_state_mask0 has_state_def[of DISCARD])
qed

lemma discard_player_enable:
  "stand_ok p \<Longrightarrow> \<not> M_enable (discard_player p)"
  by (auto simp: discard_player_def stand_ok_def disable_player_def Let_def)

lemma discard_player_idem: "discard_player (discard_player p) = discard_player p"
  using discard_player_stand[of p] by (simp add: discard_player_def[of "discard_player p"])

lemma redCard_player_cards:
  "M_card_count (redCard_player p) = 2"
  "\<not> has_state (M_state (redCard_player p)) STAND"
  "has_state (M_state (redCard_player p)) RED_CARD"
  "\<not> has_state (M_state (redCard_player p)) YELLOW_CARD"
proof -
  let ?s = "M_state (discard_player p)"
  have m: "NOT YELLOW_CARD AND STAND = STAND" "RED_CARD AND STAND = 0"
    "NOT YELLOW_CARD AND YELLOW_CARD = 0" "RED_CARD AND YELLOW_CARD = 0"
    by (simp_all add: state_bit_defs)
  show "M_card_count (redCard_player p) = 2" by (simp add: redCard_player_def Let_def)
  show "\<not> has_state (M_state (redCard_player p)) STAND"
    using discard_player_stand[of p] m
    by (simp add: redCard_player_def Let_def has_state_OR has_state_mask has_state_def[of RED_CARD])
  show "has_state (M_state (redCard_player p)) RED_CARD"
    by (simp add: redCard_player_def Let_def has_state_OR has_state_def[of RED_CARD])
  show "\<not> has_state (M_state (redCard_player p)) YELLOW_CARD"
    using m by (simp add: redCard_player_def Let_def has_state_OR has_state_mask0
        has_state_def[of RED_CARD])
qed

lemma redCard_cards_ok: "cards_ok (redCard_player p)"
  using redCard_player_cards[of p] by (simp add: cards_ok_def)

lemma yellowCard_cards_ok:
  assumes "cards_ok p" and "M_card_count p \<le> 1"
  shows "cards_ok (yellowCard_player p)"
proof (cases "hasYellowCard p")
  case True
  then show ?thesis by (simp add: yellowCard_player_def redCard_cards_ok)
next
  case False
  then have c: "M_card_count p = 0" using assms by (auto simp: cards_ok_def hasYellowCard_def)
  have "YELLOW_CARD AND RED_CARD = 0" by (simp add: state_bit_defs)
  with c assms(1) False show ?thesis
    by (simp add: yellowCard_player_def cards_ok_def has_state_OR has_state_def[of YELLOW_CARD])
qed

text \<open>
  The bounds of the stamina model.  \<open>hetero_ok\<close> and the conditions on \<open>sp\<close> are those the
  parameter files keep.
\<close>

definition stamina_ok :: "sparam \<Rightarrow> player \<Rightarrow> bool" where
  "stamina_ok sp p \<longleftrightarrow>
     0 \<le> M_stamina p \<and> M_stamina p \<le> staminaMax sp
     \<and> recoverMin sp \<le> M_recovery p \<and> M_recovery p \<le> 1
     \<and> ht_effortMin (M_player_type p) \<le> M_effort p
     \<and> M_effort p \<le> ht_effortMax (M_player_type p)
     \<and> (0 \<le> staminaCapacity sp \<longrightarrow>
          0 \<le> M_stamina_capacity p \<and> M_stamina_capacity p \<le> staminaCapacity sp)"

definition stamina_params :: "sparam \<Rightarrow> hetero \<Rightarrow> bool" where
  "stamina_params sp t \<longleftrightarrow>
     0 \<le> staminaMax sp \<and> 0 \<le> recoverMin sp \<and> recoverMin sp \<le> 1 \<and> 0 \<le> recoverDec sp
     \<and> 0 \<le> effortDec sp \<and> 0 \<le> effortInc sp \<and> ht_effortMin t \<le> ht_effortMax t
     \<and> 0 \<le> ht_staminaIncMax t"

lemma recoverAll_stamina_ok:
  assumes "stamina_params sp (M_player_type p)"
  shows "stamina_ok sp (recoverAll sp p)"
  using assms
  by (simp add: stamina_ok_def stamina_params_def recoverAll_def recoverStaminaCapacity_def)

lemma updateStamina_frame [simp]:
  "M_player_type (updateStamina sp p) = M_player_type p"
  "M_state (updateStamina sp p) = M_state p" "M_pos (updateStamina sp p) = M_pos p"
  by (simp_all add: updateStamina_def Let_def)

lemma updateStamina_recovery:
  "M_recovery (updateStamina sp p) =
     (if M_stamina p \<le> recoverDecThr sp * staminaMax sp
      then (if M_recovery p > recoverMin sp then max (recoverMin sp) (M_recovery p - recoverDec sp)
            else recoverMin sp)
      else M_recovery p)"
  by (auto simp: updateStamina_def Let_def)

lemma updateStamina_effort_bounds:
  assumes "stamina_params sp (M_player_type p)" and "stamina_ok sp p"
  shows "ht_effortMin (M_player_type p) \<le> M_effort (updateStamina sp p)
       \<and> M_effort (updateStamina sp p) \<le> ht_effortMax (M_player_type p)"
  using assms by (auto simp: updateStamina_def Let_def stamina_params_def stamina_ok_def)

text \<open>
  What a cycle of recovery adds: never negative, and with a finite capacity exactly what is
  taken from it.
\<close>

lemma updateStamina_exchange:
  assumes "stamina_params sp (M_player_type p)" and "stamina_ok sp p" and "0 \<le> staminaCapacity sp"
  shows "M_stamina (updateStamina sp p) + M_stamina_capacity (updateStamina sp p)
         = M_stamina p + M_stamina_capacity p"
    and "M_stamina p \<le> M_stamina (updateStamina sp p)"
proof -
  define r where "r = M_recovery (updateStamina sp p)"
  have r: "0 \<le> r"
    using assms(1,2) by (auto simp: r_def updateStamina_recovery stamina_params_def stamina_ok_def)
  define i0 where "i0 = min (r * ht_staminaIncMax (M_player_type p)) (staminaMax sp - M_stamina p)"
  define i where "i = (if i0 > M_stamina_capacity p then M_stamina_capacity p else i0)"
  have i: "0 \<le> i" "i \<le> M_stamina_capacity p" "M_stamina p + i \<le> staminaMax sp"
    using r assms by (auto simp: i_def i0_def stamina_params_def stamina_ok_def)
  have "M_stamina (updateStamina sp p) = M_stamina p + i"
    and "M_stamina_capacity (updateStamina sp p) = M_stamina_capacity p - i"
    using i assms(3) by (auto simp: updateStamina_def Let_def i_def i0_def r_def)
  with i(1) show "M_stamina (updateStamina sp p) + M_stamina_capacity (updateStamina sp p)
         = M_stamina p + M_stamina_capacity p" "M_stamina p \<le> M_stamina (updateStamina sp p)"
    by simp_all
qed

lemma updateStamina_range:
  assumes "stamina_params sp (M_player_type p)" and "stamina_ok sp p"
  shows "0 \<le> M_stamina (updateStamina sp p)" "M_stamina (updateStamina sp p) \<le> staminaMax sp"
proof -
  have r: "0 \<le> M_recovery (updateStamina sp p) * ht_staminaIncMax (M_player_type p)"
    using assms by (auto simp: updateStamina_recovery stamina_params_def stamina_ok_def)
  show "M_stamina (updateStamina sp p) \<le> staminaMax sp"
    by (simp add: updateStamina_def Let_def)
  show "0 \<le> M_stamina (updateStamina sp p)"
    using assms r by (auto simp: updateStamina_def Let_def stamina_params_def stamina_ok_def)
qed

lemma updateStamina_ok:
  assumes "stamina_params sp (M_player_type p)" and "stamina_ok sp p"
  shows "stamina_ok sp (updateStamina sp p)"
proof -
  have "recoverMin sp \<le> M_recovery (updateStamina sp p)" "M_recovery (updateStamina sp p) \<le> 1"
    using assms by (auto simp: updateStamina_recovery stamina_params_def stamina_ok_def)
  moreover have "0 \<le> M_stamina_capacity (updateStamina sp p)
      \<and> M_stamina_capacity (updateStamina sp p) \<le> staminaCapacity sp"
    if c: "0 \<le> staminaCapacity sp"
  proof -
    have "M_stamina_capacity (updateStamina sp p) \<le> M_stamina_capacity p"
      using updateStamina_exchange[OF assms c] by simp
    moreover have "0 \<le> M_stamina_capacity (updateStamina sp p)"
      using c by (simp add: updateStamina_def Let_def)
    ultimately show ?thesis using assms(2) c by (simp add: stamina_ok_def)
  qed
  ultimately show ?thesis
    using updateStamina_range[OF assms] updateStamina_effort_bounds[OF assms]
    by (simp add: stamina_ok_def)
qed

end
