(* ===== verification/Body.thy ===== *)
theory Body
  imports Player
begin

text \<open>
  The commands of player.cpp which act on the player alone: dash, turn, turn_neck,
  change_focus, change_view, pointto, done and synch_see, with the normalisation of their
  arguments, and the effect of the legs at the end of the cycle (leg.cpp).
\<close>

section \<open>Normalised arguments\<close>

definition NormalizeKickPower :: "sparam \<Rightarrow> real \<Rightarrow> real" where
  "NormalizeKickPower sp p = bound (minPower sp) p (maxPower sp)"

definition NormalizeCatchAngle :: "sparam \<Rightarrow> real \<Rightarrow> real" where
  "NormalizeCatchAngle sp d = bound (minCatchAngle sp) d (maxCatchAngle sp)"

definition NormalizeTacklePower :: "sparam \<Rightarrow> real \<Rightarrow> real" where
  "NormalizeTacklePower sp p = bound (- maxBackTacklePower sp) p (maxTacklePower sp)"

definition NormalizeMoment :: "sparam \<Rightarrow> real \<Rightarrow> real" where
  "NormalizeMoment sp p = Deg2Rad (bound (minMoment sp) p (maxMoment sp))"

definition NormalizeNeckMoment :: "sparam \<Rightarrow> real \<Rightarrow> real" where
  "NormalizeNeckMoment sp p = Deg2Rad (bound (minNeckMoment sp) p (maxNeckMoment sp))"

definition NormalizeNeckAngle :: "sparam \<Rightarrow> real \<Rightarrow> real" where
  "NormalizeNeckAngle sp p = bound (Deg2Rad (minNeckAngle sp)) p (Deg2Rad (maxNeckAngle sp))"

lemma Deg2Rad_mono: "a \<le> b \<Longrightarrow> Deg2Rad a \<le> Deg2Rad b"
  by (simp add: Deg2Rad_def mult_right_mono)

section \<open>Dash\<close>

definition dashLeftLeg :: "sparam \<Rightarrow> real \<Rightarrow> real \<Rightarrow> player \<Rightarrow> player" where
  "dashLeftLeg sp pw dir p =
     (if leg_commandDone (M_left_leg p) then p
      else p\<lparr>M_left_leg := leg_dash sp pw dir (M_left_leg p), M_dash_cycles := 1,
             M_command_done := True\<rparr>)"

definition dashRightLeg :: "sparam \<Rightarrow> real \<Rightarrow> real \<Rightarrow> player \<Rightarrow> player" where
  "dashRightLeg sp pw dir p =
     (if leg_commandDone (M_right_leg p) then p
      else p\<lparr>M_right_leg := leg_dash sp pw dir (M_right_leg p), M_dash_cycles := 1,
             M_command_done := True\<rparr>)"

definition dash :: "sparam \<Rightarrow> real \<Rightarrow> real \<Rightarrow> player \<Rightarrow> player" where
  "dash sp pw dir p =
     (if \<not> M_command_done p then dashRightLeg sp pw dir (dashLeftLeg sp pw dir p) else p)"

text \<open>\<^verbatim>\<open>Leg::calcDashAccel\<close>; the leg's player is an argument.\<close>

definition dash_dir_rate :: "sparam \<Rightarrow> real \<Rightarrow> real" where
  "dash_dir_rate sp dir =
     std_clamp (if \<bar>dir\<bar> > 90
                then backDashRate sp - ((backDashRate sp - sideDashRate sp) * (1 - (\<bar>dir\<bar> - 90) / 90))
                else sideDashRate sp + ((1 - sideDashRate sp) * (1 - \<bar>dir\<bar> / 90))) 0 1"

definition calcDashAccel :: "sparam \<Rightarrow> player \<Rightarrow> leg \<Rightarrow> real \<Rightarrow> pvector" where
  "calcDashAccel sp p l consumed_stamina =
     (let pw = normalize_dash_power sp (if L_dash_power l < 0 then - consumed_stamina
                                        else consumed_stamina * 2);
          mag0 = \<bar>M_effort p * pw * dash_dir_rate sp (L_dash_dir l)
                  * ht_dashPowerRate (M_player_type p)\<bar>;
          mag = (if py (M_pos p) < 0 then mag0 / slownessOnTop sp (M_side p) else mag0);
          accel = fromPolar mag
                    (normalize_angle (M_angle_body_committed p + Deg2Rad (L_dash_dir l)))
      in if pw < 0 then - accel else accel)"

text \<open>
  \<^verbatim>\<open>Player::applyDashEffect\<close>.  As in the code, the share of the right leg is taken after the
  share of the left leg has been overwritten, and the turning effect asks twice for the left
  leg.  A division \<open>0/0\<close> (no stamina at all and one idle leg) is \<open>0\<close> here and NaN in C++.
\<close>

definition legs_need :: "player \<Rightarrow> real \<times> real" where
  "legs_need p =
     (let lp = L_dash_power (M_left_leg p); rp = L_dash_power (M_right_leg p)
      in (if lp < 0 then - lp else lp * 0.5, if rp < 0 then - rp else rp * 0.5))"

definition dash_consumed :: "player \<Rightarrow> real" where
  "dash_consumed p =
     (let (l, r) = legs_need p in min (l + r) (M_stamina p + ht_extraStamina (M_player_type p)))"

definition left_share :: "player \<Rightarrow> real" where
  "left_share p = (let (l, r) = legs_need p in dash_consumed p * l / (l + r))"

definition right_share :: "player \<Rightarrow> real" where
  "right_share p = (let (l, r) = legs_need p in dash_consumed p * r / (left_share p + r))"

definition applyDashEffect :: "sparam \<Rightarrow> player \<Rightarrow> rng \<Rightarrow> player \<times> rng" where
  "applyDashEffect sp p0 g =
     (if L_command_type (M_left_leg p0) \<noteq> LEG_DASH \<and> L_command_type (M_right_leg p0) \<noteq> LEG_DASH
      then (p0, g)
      else
        let p = p0\<lparr>M_dash_count := M_dash_count p0 + 1\<rparr>;
            (l0, r0) = legs_need p
        in if l0 + r0 < 1 / 10 ^ 5 then (p, g)
           else
             let consumed = dash_consumed p;
                 left_accel = calcDashAccel sp p (M_left_leg p) (left_share p);
                 right_accel = calcDashAccel sp p (M_right_leg p) (right_share p);
                 body_unit = fromPolar 1 (M_angle_body_committed p);
                 vel_l = M_vel p + left_accel;
                 vel_r = M_vel p + right_accel;
                 vel_l_body = px body_unit * px vel_l + py body_unit * py vel_l;
                 vel_r_body = px body_unit * px vel_r + py body_unit * py vel_r;
                 new_vel = pv_scale (vel_r + vel_l) (1 / 2);
                 p1 = push (new_vel - M_vel p) p;
                 (p2, g2) =
                   (if L_command_type (M_left_leg p1) = LEG_DASH
                       \<and> L_command_type (M_left_leg p1) = LEG_DASH
                    then (let omega = (vel_l_body - vel_r_body)
                                        / (ht_playerSize (M_player_type p1) * 2);
                              (n, g1) = drand (- M_randp p1) (M_randp p1) g
                          in (p1\<lparr>M_angle_body :=
                                  normalize_angle (M_angle_body_committed p1 + (1 + n) * omega)\<rparr>,
                              g1))
                    else (p1, g))
             in (p2\<lparr>M_stamina := max 0 (M_stamina p2 - consumed)\<rparr>, g2))"

definition applyLegsEffect :: "sparam \<Rightarrow> player \<Rightarrow> rng \<Rightarrow> player \<times> rng" where
  "applyLegsEffect sp p g = applyDashEffect sp p g"

section \<open>Turning, neck, focus and view\<close>

definition turn :: "sparam \<Rightarrow> real \<Rightarrow> player \<Rightarrow> rng \<Rightarrow> player \<times> rng" where
  "turn sp moment p g =
     (if \<not> M_command_done p
      then
        let (n, g1) = drand (- M_randp p) (M_randp p) g
        in (p\<lparr>M_left_leg := leg_turn (M_left_leg p), M_right_leg := leg_turn (M_right_leg p),
              M_angle_body :=
                normalize_angle
                  (M_angle_body_committed p
                   + (1 + n) * NormalizeMoment sp moment
                     / (1 + ht_inertiaMoment (M_player_type p) * pv_r (M_vel p))),
              M_turn_count := M_turn_count p + 1, M_command_done := True\<rparr>, g1)
      else (p, g))"

definition turn_neck :: "sparam \<Rightarrow> real \<Rightarrow> player \<Rightarrow> player" where
  "turn_neck sp moment p =
     (if \<not> M_turn_neck_done p
      then p\<lparr>M_angle_neck :=
               NormalizeNeckAngle sp (M_angle_neck_committed p + NormalizeNeckMoment sp moment),
             M_turn_neck_count := M_turn_neck_count p + 1, M_turn_neck_done := True\<rparr>
      else p)"

definition change_focus :: "real \<Rightarrow> real \<Rightarrow> player \<Rightarrow> player" where
  "change_focus moment_dist moment_dir p =
     p\<lparr>M_focus_dist := bound 0 (M_focus_dist p + moment_dist) 40,
       M_focus_dir := bound (- M_visible_angle p * 0.5)
                        (normalize_angle (M_focus_dir p + Deg2Rad moment_dir))
                        (M_visible_angle p * 0.5),
       M_change_focus_count := M_change_focus_count p + 1\<rparr>"

datatype view_quality = QUALITY_HIGH | QUALITY_LOW

definition DEFAULT_VISIBLE_ANGLE :: "sparam \<Rightarrow> real" where
  "DEFAULT_VISIBLE_ANGLE sp = Deg2Rad (visibleAngleDegree sp)"

text \<open>The visible angle and the send interval of a view width.\<close>

fun view_angle :: "sparam \<Rightarrow> bool \<Rightarrow> view_width \<Rightarrow> real" where
  "view_angle sp synch VIEW_NARROW =
     (if \<not> synch then DEFAULT_VISIBLE_ANGLE sp / 2 else DEFAULT_VISIBLE_ANGLE sp * (2 / 3))"
| "view_angle sp synch VIEW_NORMAL =
     (if \<not> synch then DEFAULT_VISIBLE_ANGLE sp else DEFAULT_VISIBLE_ANGLE sp * (4 / 3))"
| "view_angle sp synch VIEW_WIDE =
     (if \<not> synch then DEFAULT_VISIBLE_ANGLE sp * 2 else DEFAULT_VISIBLE_ANGLE sp * (6 / 3))"

fun view_interval :: "bool \<Rightarrow> view_width \<Rightarrow> int" where
  "view_interval synch VIEW_NARROW = (if \<not> synch then 2 else 1)"
| "view_interval synch VIEW_NORMAL = (if \<not> synch then 4 else 2)"
| "view_interval synch VIEW_WIDE = (if \<not> synch then 8 else 3)"

definition change_view2 :: "sparam \<Rightarrow> view_width \<Rightarrow> view_quality \<Rightarrow> player \<Rightarrow> player" where
  "change_view2 sp w q p =
     (if M_synch_see p \<and> q \<noteq> QUALITY_HIGH then p
      else
        let p1 = p\<lparr>M_visible_angle := view_angle sp (M_synch_see p) w,
                   M_visual_send_interval := view_interval (M_synch_see p) w,
                   M_view_width := w\<rparr>
        in if q = QUALITY_HIGH
           then p1\<lparr>M_high_quality := True, M_change_view_count := M_change_view_count p1 + 1\<rparr>
           else if \<not> M_synch_see p1
           then p1\<lparr>M_visual_send_interval := M_visual_send_interval p1 div 2,
                   M_high_quality := False, M_change_view_count := M_change_view_count p1 + 1\<rparr>
           else p1)"

definition change_view :: "sparam \<Rightarrow> view_width \<Rightarrow> player \<Rightarrow> player" where
  "change_view sp w p =
     (let va = view_angle sp (M_synch_see p) w
      in p\<lparr>M_visible_angle := va,
           M_visual_send_interval := view_interval (M_synch_see p) w,
           M_view_width := w, M_high_quality := True,
           M_focus_dir := bound (- va * 0.5) (M_focus_dir p) (va * 0.5),
           M_change_view_count := M_change_view_count p + 1\<rparr>)"

definition synch_see :: "sparam \<Rightarrow> player \<Rightarrow> player" where
  "synch_see sp p =
     p\<lparr>M_visible_angle := view_angle sp True (M_view_width p),
       M_visual_send_interval := view_interval True (M_view_width p),
       M_synch_see := True, M_high_quality := True\<rparr>"

definition gaussian_see :: "player \<Rightarrow> player" where
  "gaussian_see p = p\<lparr>M_gaussian_see := True\<rparr>"

definition done_cmd :: "player \<Rightarrow> player" where
  "done_cmd p = p\<lparr>M_done_received := True\<rparr>"

text \<open>\<^verbatim>\<open>Player::pointto\<close>; \<^verbatim>\<open>polarVector2D\<close> is the vector of a magnitude and a heading.\<close>

definition pointto :: "bool \<Rightarrow> real \<Rightarrow> real \<Rightarrow> player \<Rightarrow> player" where
  "pointto on ds head p =
     (if \<not> on then p\<lparr>M_arm := snd (arm_stopPointing (M_arm p))\<rparr>
      else p\<lparr>M_arm := snd (arm_pointTo (M_pos p)
                             (M_angle_body_committed p + M_angle_neck_committed p)
                             (fromPolar ds (Deg2Rad head)) (M_arm p))\<rparr>)"

section \<open>Bounds of the commands\<close>

lemma NormalizeKickPower_range:
  "minPower sp \<le> maxPower sp \<Longrightarrow>
   minPower sp \<le> NormalizeKickPower sp p \<and> NormalizeKickPower sp p \<le> maxPower sp"
  unfolding NormalizeKickPower_def by (rule bound_range)

lemma NormalizeNeckAngle_range:
  "minNeckAngle sp \<le> maxNeckAngle sp \<Longrightarrow>
   Deg2Rad (minNeckAngle sp) \<le> NormalizeNeckAngle sp p
   \<and> NormalizeNeckAngle sp p \<le> Deg2Rad (maxNeckAngle sp)"
  unfolding NormalizeNeckAngle_def by (rule bound_range) (rule Deg2Rad_mono)

lemma turn_neck_range:
  assumes "minNeckAngle sp \<le> maxNeckAngle sp"
    and "Deg2Rad (minNeckAngle sp) \<le> M_angle_neck p" "M_angle_neck p \<le> Deg2Rad (maxNeckAngle sp)"
  shows "Deg2Rad (minNeckAngle sp) \<le> M_angle_neck (turn_neck sp m p)
       \<and> M_angle_neck (turn_neck sp m p) \<le> Deg2Rad (maxNeckAngle sp)"
  using assms NormalizeNeckAngle_range[OF assms(1)] by (simp add: turn_neck_def)

lemma turn_range:
  assumes "- pi \<le> M_angle_body p" "M_angle_body p \<le> pi"
  shows "- pi \<le> M_angle_body (fst (turn sp m p g)) \<and> M_angle_body (fst (turn sp m p g)) \<le> pi"
  using assms normalize_angle_range by (simp add: turn_def split: prod.splits)

lemma view_angle_nonneg: "0 \<le> visibleAngleDegree sp \<Longrightarrow> 0 \<le> view_angle sp b w"
  by (cases w) (auto simp: DEFAULT_VISIBLE_ANGLE_def Deg2Rad_def)

lemma change_view_focus:
  assumes "0 \<le> visibleAngleDegree sp"
  shows "\<bar>M_focus_dir (change_view sp w p)\<bar> \<le> M_visible_angle (change_view sp w p) / 2"
  using view_angle_nonneg[OF assms, of "M_synch_see p" w]
    bound_range[of "- (view_angle sp (M_synch_see p) w * 0.5)"
      "view_angle sp (M_synch_see p) w * 0.5" "M_focus_dir p"]
  by (auto simp: change_view_def Let_def abs_le_iff minus_le_iff)

lemma dash_dir_rate_range: "0 \<le> dash_dir_rate sp d \<and> dash_dir_rate sp d \<le> 1"
  unfolding dash_dir_rate_def by (rule std_clamp_range) simp

lemma calcDashAccel_le:
  assumes "0 \<le> M_effort p" "0 \<le> ht_dashPowerRate (M_player_type p)"
    and "minDashPower sp \<le> maxDashPower sp" "- M \<le> minDashPower sp" "maxDashPower sp \<le> M"
    and "1 \<le> slownessOnTop sp (M_side p)"
  shows "pv_r (calcDashAccel sp p l c) \<le> M_effort p * M * ht_dashPowerRate (M_player_type p)"
proof -
  define pw where "pw = normalize_dash_power sp (if L_dash_power l < 0 then - c else c * 2)"
  define mag where "mag = \<bar>M_effort p * pw * dash_dir_rate sp (L_dash_dir l)
                           * ht_dashPowerRate (M_player_type p)\<bar>"
  have pw: "\<bar>pw\<bar> \<le> M"
    using normalize_dash_power_range[OF assms(3)] assms(4,5)
    unfolding pw_def abs_le_iff by (meson dual_order.trans neg_le_iff_le minus_le_iff)
  have "mag = M_effort p * (\<bar>pw\<bar> * dash_dir_rate sp (L_dash_dir l)) * ht_dashPowerRate (M_player_type p)"
    using assms(1,2) dash_dir_rate_range[of sp "L_dash_dir l"] by (simp add: mag_def abs_mult)
  also have "\<dots> \<le> M_effort p * (M * 1) * ht_dashPowerRate (M_player_type p)"
    using assms(1,2) pw dash_dir_rate_range[of sp "L_dash_dir l"]
    by (intro mult_right_mono mult_left_mono mult_mono) auto
  finally have m: "mag \<le> M_effort p * M * ht_dashPowerRate (M_player_type p)" by simp
  have m0: "0 \<le> mag" by (simp add: mag_def)
  have "mag / slownessOnTop sp (M_side p) \<le> mag / 1"
    using m0 assms(6) by (intro divide_left_mono) auto
  then have s: "mag / slownessOnTop sp (M_side p) \<le> mag" "0 \<le> mag / slownessOnTop sp (M_side p)"
    using m0 assms(6) by simp_all
  have "pv_r (calcDashAccel sp p l c)
      = \<bar>if py (M_pos p) < 0 then mag / slownessOnTop sp (M_side p) else mag\<bar>"
    by (simp add: calcDashAccel_def pw_def mag_def Let_def pv_r_fromPolar)
  then show ?thesis using m m0 s by simp
qed

section \<open>Dashing with both legs\<close>

lemma dash_legs:
  assumes "\<not> M_command_done p" "M_left_leg p = new_Leg" "M_right_leg p = new_Leg"
  shows "M_left_leg (dash sp pw d p) = M_right_leg (dash sp pw d p)"
    and "L_command_type (M_left_leg (dash sp pw d p)) = LEG_DASH"
    and "M_command_done (dash sp pw d p)" and "M_dash_cycles (dash sp pw d p) = 1"
    and "L_dash_power (M_left_leg (dash sp pw d p)) = normalize_dash_power sp pw"
  using assms
  by (simp_all add: dash_def dashLeftLeg_def dashRightLeg_def leg_dash_def leg_commandDone_def
      new_Leg_def)

lemma dash_ignored: "M_command_done p \<Longrightarrow> dash sp pw d p = p"
  by (simp add: dash_def)

text \<open>What one leg needs for its power.\<close>

definition leg_need :: "leg \<Rightarrow> real" where
  "leg_need l = (if L_dash_power l < 0 then - L_dash_power l else L_dash_power l * 0.5)"

lemma leg_need_nonneg: "0 \<le> leg_need l"
  by (simp add: leg_need_def)

lemma legs_need_eq: "legs_need p = (leg_need (M_left_leg p), leg_need (M_right_leg p))"
  by (simp add: legs_need_def leg_need_def)

text \<open>
  With enough stamina and the same command for both legs the two shares are equal, the push
  is straight, and the body does not turn.
\<close>

lemma applyDashEffect_straight:
  assumes "L_command_type (M_left_leg p) = LEG_DASH" and "M_left_leg p = M_right_leg p"
    and "leg_need (M_left_leg p) = n" and "1 / 10 ^ 5 \<le> 2 * n"
    and "2 * n \<le> M_stamina p + ht_extraStamina (M_player_type p)"
  shows "M_accel (fst (applyDashEffect sp p g))
           = M_accel p + calcDashAccel sp p (M_left_leg p) n"
    and "M_angle_body (fst (applyDashEffect sp p g))
           = normalize_angle (M_angle_body_committed p)"
    and "M_stamina (fst (applyDashEffect sp p g)) = max 0 (M_stamina p - 2 * n)"
proof -
  define q where "q = p\<lparr>M_dash_count := M_dash_count p + 1\<rparr>"
  define a where "a = calcDashAccel sp p (M_left_leg p) n"
  have need: "legs_need q = (n, n)" "n > 0"
    using assms by (auto simp: legs_need_eq q_def)
  have cons: "dash_consumed q = 2 * n"
    using assms(5) need by (simp add: dash_consumed_def q_def)
  have share: "left_share q = n" "right_share q = n"
    using need cons by (simp_all add: left_share_def right_share_def)
  have acc: "calcDashAccel sp q l c = calcDashAccel sp p l c" for l c
    by (simp add: q_def calcDashAccel_def Let_def)
  have legs: "M_left_leg q = M_left_leg p" "M_right_leg q = M_left_leg p"
    using assms(2) by (simp_all add: q_def)
  have mid: "pv_scale (M_vel q + a + (M_vel q + a)) (1 / 2) - M_vel q = a"
    by (simp add: pvector_eq_iff field_simps)
  obtain r g1 where r: "drand (- M_randp p) (M_randp p) g = (r, g1)" by fastforce
  have "applyDashEffect sp p g =
      ((push a q)\<lparr>M_angle_body := normalize_angle (M_angle_body_committed p),
                  M_stamina := max 0 (M_stamina p - 2 * n)\<rparr>, g1)"
    using assms(1,4) need share
    by (simp add: applyDashEffect_def q_def[symmetric] cons acc legs a_def[symmetric] mid Let_def
        push_def)
       (simp add: q_def r)
  then show "M_accel (fst (applyDashEffect sp p g))
           = M_accel p + calcDashAccel sp p (M_left_leg p) n"
    and "M_angle_body (fst (applyDashEffect sp p g))
           = normalize_angle (M_angle_body_committed p)"
    and "M_stamina (fst (applyDashEffect sp p g)) = max 0 (M_stamina p - 2 * n)"
    by (simp_all add: push_def q_def a_def)
qed

text \<open>
  The shares of an exhausted player: the left leg gets half of what is left, the right leg
  strictly more, because its quotient is taken with the overwritten left share.
\<close>

lemma exhausted_shares:
  assumes "M_left_leg p = M_right_leg p" and "0 < leg_need (M_left_leg p)"
    and "0 < dash_consumed p" and "dash_consumed p < 2 * leg_need (M_left_leg p)"
  shows "left_share p = dash_consumed p / 2" and "dash_consumed p / 2 < right_share p"
proof -
  define n c where "n = leg_need (M_left_leg p)" and "c = dash_consumed p"
  have need: "legs_need p = (n, n)" using assms(1) by (simp add: legs_need_eq n_def)
  have n: "0 < n" "0 < c" "c < 2 * n" using assms(2-4) by (simp_all add: n_def c_def)
  show l: "left_share p = dash_consumed p / 2"
    using n(1) by (simp add: left_share_def need c_def[symmetric])
  have "c / 2 + n < 2 * n" using n by simp
  then have "c * n / (2 * n) < c * n / (c / 2 + n)"
    using n by (intro divide_strict_left_mono) auto
  moreover have "right_share p = c * n / (c / 2 + n)"
    unfolding right_share_def need l by (simp add: c_def)
  moreover have "c * n / (2 * n) = c / 2" using n(1) by simp
  ultimately show "dash_consumed p / 2 < right_share p" unfolding c_def[symmetric] by linarith
qed

lemma applyDashEffect_stamina:
  assumes "0 \<le> M_stamina p"
  shows "0 \<le> M_stamina (fst (applyDashEffect sp p g))"
  using assms
  by (auto simp: applyDashEffect_def Let_def push_def legs_need_eq split: prod.splits)

text \<open>The push of a dash is the mean of the pushes of the two legs.\<close>

lemma applyDashEffect_push:
  assumes "L_command_type (M_left_leg p) = LEG_DASH"
    and "1 / 10 ^ 5 \<le> leg_need (M_left_leg p) + leg_need (M_right_leg p)"
  shows "M_accel (fst (applyDashEffect sp p g)) = M_accel p
           + pv_scale (calcDashAccel sp p (M_left_leg p) (left_share p)
                       + calcDashAccel sp p (M_right_leg p) (right_share p)) (1 / 2)"
proof -
  define q where "q = p\<lparr>M_dash_count := M_dash_count p + 1\<rparr>"
  have acc: "calcDashAccel sp q l c = calcDashAccel sp p l c" for l c
    by (simp add: q_def calcDashAccel_def Let_def)
  have shares: "left_share q = left_share p" "right_share q = right_share p" "legs_need q = legs_need p"
    by (simp_all add: q_def left_share_def right_share_def legs_need_def dash_consumed_def)
  have mid: "pv_scale (v + b + (v + a)) (1 / 2) - v = pv_scale (a + b) (1 / 2)" for v a b
    by (simp add: pvector_eq_iff field_simps)
  obtain r g1 where r: "drand (- M_randp p) (M_randp p) g = (r, g1)" by fastforce
  show ?thesis
    using assms
    by (simp add: applyDashEffect_def q_def[symmetric] acc shares legs_need_eq mid Let_def push_def)
       (simp add: q_def r add.commute)
qed

end
