(* ===== verification/World.thy ===== *)
theory World
  imports Body
begin

text \<open>
  The stadium of stadium.h: teams (team.h), the state of each referee (referee.h), and the
  record of everything they share, with the operations of stadium.cpp which call no referee.
  Pointers to players are indices into \<^verbatim>\<open>M_players\<close>; messages which the referees
  announce are appended to a log.  Sockets, monitors, coaches and result savers are left out.
\<close>

section \<open>Team\<close>

record team =
  T_name :: string
  T_side :: side
  T_size :: int
  T_point :: int
  T_pen_taken :: int
  T_pen_point :: int
  T_pen_won :: bool
  T_prand_factor_team :: real
  T_kick_rand_factor_team :: real
  T_subs_count :: int
  T_ptype_count :: "int \<rightharpoonup> int"
  T_ptype_used_count :: "int \<rightharpoonup> int"

definition team_enabled :: "team \<Rightarrow> bool" where
  "team_enabled t \<longleftrightarrow> T_name t \<noteq> []"

definition incPoint :: "team \<Rightarrow> team" where
  "incPoint t = t\<lparr>T_point := T_point t + 1\<rparr>"

definition setPenaltyScore :: "team \<Rightarrow> team" where
  "setPenaltyScore t = t\<lparr>T_pen_point := T_pen_point t + 1, T_pen_taken := T_pen_taken t + 1\<rparr>"

definition setPenaltyMiss :: "team \<Rightarrow> team" where
  "setPenaltyMiss t = t\<lparr>T_pen_taken := T_pen_taken t + 1\<rparr>"

definition setPenaltyWinner :: "team \<Rightarrow> team" where
  "setPenaltyWinner t = t\<lparr>T_pen_won := True\<rparr>"

definition fixedName :: "sparam \<Rightarrow> team \<Rightarrow> string" where
  "fixedName sp t =
     (if T_side t = LEFT \<and> fixedTeamNameLeft sp \<noteq> [] then fixedTeamNameLeft sp
      else if T_side t = RIGHT \<and> fixedTeamNameRight sp \<noteq> [] then fixedTeamNameRight sp
      else T_name t)"

lemmas team_defs =
  team_enabled_def incPoint_def setPenaltyScore_def setPenaltyMiss_def setPenaltyWinner_def

section \<open>State of the referees\<close>

record ballstuck_ref =
  BS_last_ball_pos :: pvector
  BS_counter :: int

record offside_ref =
  OR_last_kick_time :: int
  OR_last_kick_stoppage_time :: int
  OR_last_kick_accel_r :: real
  OR_last_kicker_side :: side
  OR_offside_candidates :: "(nat \<times> pvector) list"
  OR_offside_pos :: pvector
  OR_after_offside_time :: int

record illegal_ref =
  IR_left_illegal_counter :: int
  IR_right_illegal_counter :: int
  IR_last_kicker_side :: side
  IR_last_kick_time :: int
  IR_after_illegal_defense_time :: int

record freekick_ref =
  FK_timer :: int
  FK_kick_taken :: bool
  FK_goal_kick_count :: int
  FK_kick_taker :: "nat option"
  FK_kick_taker_dashes :: int
  FK_after_free_kick_fault_time :: int

record touch_ref =
  TR_last_touched :: "nat option"
  TR_last_touched_time :: int
  TR_last_touched_accel_r :: real
  TR_last_indirect_kicker :: "nat option"
  TR_indirect_mode :: bool
  TR_after_goal_time :: int
  TR_prev_ball_pos :: pvector

record catch_ref =
  CR_last_back_passer_time :: int
  CR_last_back_passer_accel_r :: real
  CR_last_back_passer :: "nat option"
  CR_before_last_back_passer :: "nat option"
  CR_team_l_touched :: bool
  CR_team_r_touched :: bool
  CR_after_back_pass_time :: int
  CR_after_catch_fault_time :: int

record foul_ref =
  FR_after_foul_time :: int

record keepaway_ref =
  KR_episode :: int
  KR_keepers :: int
  KR_takers :: int
  KR_time :: int
  KR_take_time :: int

record penalty_ref =
  PR_timer :: int
  PR_pen_nr_taken :: int
  PR_pen_side :: side
  PR_cur_pen_taker :: side
  PR_sLeftPenTaken :: "int set"
  PR_sRightPenTaken :: "int set"
  PR_last_taker :: "nat option"
  PR_prev_ball_pos :: pvector
  PR_timeover :: bool
  PR_first_time :: bool

section \<open>Stadium\<close>

text \<open>
  \<open>TimeRef_half_time_count\<close> is the function-local static of \<^verbatim>\<open>TimeRef::analyse\<close>, and
  \<open>PR_first_time\<close> that of \<^verbatim>\<open>PenaltyRef::startPenaltyShootout\<close>;
  \<open>w_rng\<close> are the samples of the generator, \<open>w_audio\<close> what \<^verbatim>\<open>sendRefereeAudio\<close>
  has announced, oldest first.
\<close>

record world =
  M_time :: int
  M_stoppage_time :: int
  M_playmode :: playmode
  M_ball :: mpobj
  M_players :: "player list"
  M_remote_players :: "nat list"
  M_team_l :: team
  M_team_r :: team
  M_player_types :: "hetero list"
  M_ball_catcher :: "nat option"
  M_kick_off_side :: side
  M_last_playon_start :: int
  M_kick_off_wait :: int
  M_connect_wait :: int
  M_game_over_wait :: int
  M_alive :: bool
  M_weather :: weather
  w_rng :: rng
  w_audio :: "string list"
  TimeRef_half_time_count :: int
  R_stuck :: ballstuck_ref
  R_offside :: offside_ref
  R_freekick :: freekick_ref
  R_touch :: touch_ref
  R_catch :: catch_ref
  R_foul :: foul_ref
  R_illegal :: illegal_ref
  R_keepaway :: keepaway_ref
  R_penalty :: penalty_ref

text \<open>The player a pointer denotes, and an update through the pointer.\<close>

abbreviation pl :: "world \<Rightarrow> nat \<Rightarrow> player" where
  "pl w i \<equiv> M_players w ! i"

definition upd_player :: "nat \<Rightarrow> (player \<Rightarrow> player) \<Rightarrow> world \<Rightarrow> world" where
  "upd_player i f w = w\<lparr>M_players := (M_players w)[i := f (pl w i)]\<rparr>"

definition map_players :: "(player \<Rightarrow> player) \<Rightarrow> world \<Rightarrow> world" where
  "map_players f w = w\<lparr>M_players := map f (M_players w)\<rparr>"

definition upd_ball :: "(mpobj \<Rightarrow> mpobj) \<Rightarrow> world \<Rightarrow> world" where
  "upd_ball f w = w\<lparr>M_ball := f (M_ball w)\<rparr>"

definition upd_team :: "side \<Rightarrow> (team \<Rightarrow> team) \<Rightarrow> world \<Rightarrow> world" where
  "upd_team s f w =
     (case s of LEFT \<Rightarrow> w\<lparr>M_team_l := f (M_team_l w)\<rparr> | RIGHT \<Rightarrow> w\<lparr>M_team_r := f (M_team_r w)\<rparr>
      | NEUTRAL \<Rightarrow> w)"

text \<open>A draw from the generator of the world.\<close>

definition draw :: "(rng \<Rightarrow> 'a \<times> rng) \<Rightarrow> world \<Rightarrow> 'a \<times> world" where
  "draw f w = (let (x, g) = f (w_rng w) in (x, w\<lparr>w_rng := g\<rparr>))"

definition sendRefereeAudio :: "string \<Rightarrow> world \<Rightarrow> world" where
  "sendRefereeAudio msg w = w\<lparr>w_audio := w_audio w @ [msg]\<rparr>"

text \<open>\<^verbatim>\<open>%d\<close>.\<close>

fun show_nat :: "nat \<Rightarrow> string" where
  "show_nat n = (if n < 10 then [char_of (48 + n)] else show_nat (n div 10) @ [char_of (48 + n mod 10)])"

declare show_nat.simps [simp del]

definition show_int :: "int \<Rightarrow> string" where
  "show_int i = (if i < 0 then ''-'' @ show_nat (nat (- i)) else show_nat (nat i))"

definition clearBallCatcher :: "world \<Rightarrow> world" where
  "clearBallCatcher w = w\<lparr>M_ball_catcher := None\<rparr>"

definition playerType :: "world \<Rightarrow> int \<Rightarrow> hetero option" where
  "playerType w i =
     (if i < 0 \<or> int (length (M_player_types w)) \<le> i then None
      else Some (M_player_types w ! nat i))"

text \<open>\<^verbatim>\<open>Stadium::getPlayer\<close>: the slot of a uniform number.\<close>

definition getPlayer :: "side \<Rightarrow> int \<Rightarrow> nat option" where
  "getPlayer s unum =
     (case s of LEFT \<Rightarrow> Some (nat (unum - 1))
      | RIGHT \<Rightarrow> Some (MAX_PLAYER + nat (unum - 1))
      | NEUTRAL \<Rightarrow> None)"

lemmas world_upd_defs = upd_player_def map_players_def upd_ball_def sendRefereeAudio_def
  clearBallCatcher_def

section \<open>Well-formed worlds\<close>

text \<open>
  \<^verbatim>\<open>Stadium::createObjects\<close> puts 11 players of the left team before 11 of the right team,
  in the order of their numbers.
\<close>

definition ident_ok :: "player list \<Rightarrow> bool" where
  "ident_ok ps \<longleftrightarrow>
     length ps = 2 * MAX_PLAYER
     \<and> (\<forall>i < 2 * MAX_PLAYER.
          M_side (ps ! i) = (if i < MAX_PLAYER then LEFT else RIGHT)
          \<and> M_unum (ps ! i) = int (i mod MAX_PLAYER) + 1)"

lemma getPlayer_ident:
  assumes "ident_ok ps" and "i < 2 * MAX_PLAYER"
  shows "getPlayer (M_side (ps ! i)) (M_unum (ps ! i)) = Some i"
proof -
  have "i mod 11 = i - 11" if "\<not> i < 11" using that assms(2)
    by (simp add: MAX_PLAYER_def le_mod_geq)
  then show ?thesis using assms by (auto simp: ident_ok_def getPlayer_def MAX_PLAYER_def)
qed

section \<open>Operations which call no referee\<close>

definition recoveryPlayers :: "sparam \<Rightarrow> world \<Rightarrow> world" where
  "recoveryPlayers sp w = map_players (\<lambda>p. if M_enable p then recoverAll sp p else p) w"

datatype BallPosInfo = BPI_InField | BPI_GoalL | BPI_GoalR | BPI_OutOfField

definition ballPosInfo :: "sparam \<Rightarrow> world \<Rightarrow> BallPosInfo" where
  "ballPosInfo sp w =
     (let g_l = RArea_cs (PVector ((- PITCH_LENGTH - GOAL_DEPTH) * 0.5 - ballSize sp) 0)
                         (PVector GOAL_DEPTH (goalWidth sp + goalPostRadius sp));
          g_r = RArea_cs (PVector ((PITCH_LENGTH + GOAL_DEPTH) * 0.5 + ballSize sp) 0)
                         (PVector GOAL_DEPTH (goalWidth sp + goalPostRadius sp));
          pt = RArea_cs (PVector 0 0)
                        (PVector (PITCH_LENGTH + ballSize sp * 2) (PITCH_WIDTH + ballSize sp * 2))
      in if ra_inArea g_l (M_pos (M_ball w)) then BPI_GoalL
         else if ra_inArea g_r (M_pos (M_ball w)) then BPI_GoalR
         else if \<not> ra_inArea pt (M_pos (M_ball w)) then BPI_OutOfField
         else BPI_InField)"

definition field_area :: rarea where
  "field_area = RArea_cs (PVector 0 0)
                  (PVector (PITCH_LENGTH + PITCH_MARGIN * 2) (PITCH_WIDTH + PITCH_MARGIN * 2))"

definition placePlayersInField :: "world \<Rightarrow> world" where
  "placePlayersInField w =
     map_players
       (\<lambda>p. if \<not> M_enable p then p
            else if \<not> ra_inArea field_area (M_pos p)
            then moveTo (ra_nearestEdge field_area (M_pos p)) p else p) w"

text \<open>\<^verbatim>\<open>Player::disable\<close> and \<^verbatim>\<open>Player::discard\<close> of the player in slot \<open>i\<close>.\<close>

definition disable :: "nat \<Rightarrow> world \<Rightarrow> world" where
  "disable i w =
     upd_player i disable_player
       (if M_goalie (pl w i) \<and> M_ball_catcher w = Some i then clearBallCatcher w else w)"

definition discard :: "nat \<Rightarrow> world \<Rightarrow> world" where
  "discard i w =
     (if has_state (M_state (pl w i)) STAND
      then
        let w1 = disable i w
        in upd_player i (\<lambda>p. if \<not> has_state (M_state p) DISCARD
                             then p\<lparr>M_state := M_state p OR DISCARD\<rparr>
                             else p\<lparr>M_state := M_state p AND NOT DISCARD\<rparr>) w1
      else w)"

text \<open>\<^verbatim>\<open>Player::bye\<close>.\<close>

definition bye :: "nat \<Rightarrow> world \<Rightarrow> world" where
  "bye i w = upd_player i (\<lambda>p. p\<lparr>M_command_done := True\<rparr>) (disable i w)"

definition redCard_at :: "nat \<Rightarrow> world \<Rightarrow> world" where
  "redCard_at i w =
     upd_player i (\<lambda>p. p\<lparr>M_state := (M_state p AND NOT YELLOW_CARD) OR RED_CARD,
                        M_card_count := 2\<rparr>) (discard i w)"

definition yellowCard_at :: "nat \<Rightarrow> world \<Rightarrow> world" where
  "yellowCard_at i w =
     (if hasYellowCard (pl w i) then redCard_at i w
      else upd_player i (\<lambda>p. p\<lparr>M_state := M_state p OR YELLOW_CARD,
                              M_card_count := M_card_count p + 1\<rparr>) w)"

definition discardPlayer :: "side \<Rightarrow> int \<Rightarrow> world \<Rightarrow> world" where
  "discardPlayer s unum w =
     (case getPlayer s unum of
        None \<Rightarrow> w
      | Some i \<Rightarrow> if \<not> M_enable (pl w i) then w else discard i w)"

definition punishFoulPlay :: "side \<Rightarrow> int \<Rightarrow> world \<Rightarrow> world" where
  "punishFoulPlay s unum w =
     (case getPlayer s unum of
        None \<Rightarrow> w
      | Some i \<Rightarrow> if \<not> M_enable (pl w i) then w else upd_player i incFoulCount w)"

text \<open>The message \<^verbatim>\<open>"yellow_card_%s_%d"\<close>; its buffer of 32 bytes holds every number used.\<close>

definition card_msg :: "string \<Rightarrow> player \<Rightarrow> string" where
  "card_msg kind p = kind @ ''_card_'' @ SideStr (M_side p) @ ''_'' @ show_int (M_unum p)"

definition yellowCard :: "side \<Rightarrow> int \<Rightarrow> world \<Rightarrow> world" where
  "yellowCard s unum w =
     (case getPlayer s unum of
        None \<Rightarrow> w
      | Some i \<Rightarrow>
          if \<not> M_enable (pl w i) then w
          else
            let w1 = sendRefereeAudio (card_msg ''yellow'' (pl w i)) w;
                w2 = (if hasYellowCard (pl w1 i)
                      then sendRefereeAudio (card_msg ''red'' (pl w1 i)) w1 else w1)
            in yellowCard_at i w2)"

definition redCard :: "side \<Rightarrow> int \<Rightarrow> world \<Rightarrow> world" where
  "redCard s unum w =
     (case getPlayer s unum of
        None \<Rightarrow> w
      | Some i \<Rightarrow>
          if \<not> M_enable (pl w i) then w
          else redCard_at i (sendRefereeAudio (card_msg ''red'' (pl w i)) w))"

definition score :: "side \<Rightarrow> world \<Rightarrow> world" where
  "score s w =
     (let w1 = (if s = LEFT \<and> team_enabled (M_team_l w) then upd_team LEFT incPoint w else w)
      in if s = RIGHT \<and> team_enabled (M_team_r w1) then upd_team RIGHT incPoint w1 else w1)"

definition penaltyScore :: "side \<Rightarrow> bool \<Rightarrow> world \<Rightarrow> world" where
  "penaltyScore s scored w =
     (let f = (if scored then setPenaltyScore else setPenaltyMiss);
          w1 = (if s = LEFT \<and> team_enabled (M_team_l w) then upd_team LEFT f w else w)
      in if s = RIGHT \<and> team_enabled (M_team_r w1) then upd_team RIGHT f w1 else w1)"

definition penaltyWinner :: "side \<Rightarrow> world \<Rightarrow> world" where
  "penaltyWinner s w =
     (let w1 = (if s = LEFT then upd_team LEFT setPenaltyWinner w else w)
      in if s = RIGHT then upd_team RIGHT setPenaltyWinner w1 else w1)"

text \<open>\<^verbatim>\<open>placeBall( side, pos )\<close> and \<^verbatim>\<open>moveBall\<close>.\<close>

definition placeBall :: "side \<Rightarrow> pvector \<Rightarrow> world \<Rightarrow> world" where
  "placeBall kick_off_side pos w =
     (upd_ball (moveTo3 pos (PVector 0 0) (PVector 0 0)) w)\<lparr>M_kick_off_side := kick_off_side\<rparr>"

definition moveBall :: "pvector \<Rightarrow> pvector \<Rightarrow> world \<Rightarrow> world" where
  "moveBall pos vel w = upd_ball (moveTo3 pos vel (PVector 0 0)) w"

definition setPlayerState :: "side \<Rightarrow> int \<Rightarrow> pstate \<Rightarrow> world \<Rightarrow> world" where
  "setPlayerState s unum st w =
     (if unum < 1 \<or> int MAX_PLAYER < unum then w
      else (case getPlayer s unum of
              None \<Rightarrow> w
            | Some i \<Rightarrow> if M_enable (pl w i) then upd_player i (addState st) w else w))"

section \<open>What a change of the play mode leaves alone\<close>

text \<open>
  The part of the world which no change of the play mode touches, however many it sets off:
  the clock, the teams with their score, who the players are, the shoot-out record, the
  weather and the counters of the server.
\<close>

definition player_core ::
  "player \<Rightarrow> side \<times> int \<times> bool \<times> bool \<times> int \<times> real \<times> hetero \<times> int \<times> real \<times> bool" where
  "player_core p =
     (M_side p, M_unum p, M_goalie p, M_enable p, M_card_count p, M_size p, M_player_type p,
      M_player_type_id p, M_version p, M_connected p)"

definition penalty_core ::
  "penalty_ref \<Rightarrow> int \<times> side \<times> side \<times> int set \<times> int set \<times> bool \<times> bool \<times> pvector" where
  "penalty_core r =
     (PR_pen_nr_taken r, PR_pen_side r, PR_cur_pen_taker r, PR_sLeftPenTaken r,
      PR_sRightPenTaken r, PR_timeover r, PR_first_time r, PR_prev_ball_pos r)"

record world_core =
  C_time :: int
  C_stoppage :: int
  C_left :: team
  C_right :: team
  C_players :: "(side \<times> int \<times> bool \<times> bool \<times> int \<times> real \<times> hetero \<times> int \<times> real \<times> bool) list"
  C_remote :: "nat list"
  C_types :: "hetero list"
  C_weather :: weather
  C_halfs :: int
  C_stuck :: ballstuck_ref
  C_penalty :: "int \<times> side \<times> side \<times> int set \<times> int set \<times> bool \<times> bool \<times> pvector"
  C_waits :: "int \<times> int \<times> int \<times> bool"

definition core :: "world \<Rightarrow> world_core" where
  "core w =
     \<lparr>C_time = M_time w, C_stoppage = M_stoppage_time w, C_left = M_team_l w, C_right = M_team_r w,
      C_players = map player_core (M_players w), C_remote = M_remote_players w,
      C_types = M_player_types w, C_weather = M_weather w, C_halfs = TimeRef_half_time_count w,
      C_stuck = R_stuck w, C_penalty = penalty_core (R_penalty w),
      C_waits = (M_kick_off_wait w, M_connect_wait w, M_game_over_wait w, M_alive w)\<rparr>"

lemma core_updates [frame_simps, simp]:
  "core (w\<lparr>M_playmode := pm\<rparr>) = core w"
  "core (M_ball_update fb w) = core w"
  "core (w\<lparr>M_ball_catcher := c\<rparr>) = core w"
  "core (w\<lparr>M_kick_off_side := s\<rparr>) = core w"
  "core (w\<lparr>M_last_playon_start := t\<rparr>) = core w"
  "core (w\<lparr>w_rng := g\<rparr>) = core w"
  "core (w\<lparr>w_audio := a\<rparr>) = core w"
  "core (R_offside_update f1 w) = core w"
  "core (R_freekick_update f2 w) = core w"
  "core (R_touch_update f3 w) = core w"
  "core (R_catch_update f4 w) = core w"
  "core (R_foul_update f5 w) = core w"
  "core (R_illegal_update f6 w) = core w"
  "core (R_keepaway_update f7 w) = core w"
  by (simp_all add: core_def)

lemma core_penalty_update [frame_simps]:
  "(\<And>r. penalty_core (f r) = penalty_core r) \<Longrightarrow> core (R_penalty_update f w) = core w"
  by (simp add: core_def)

lemma core_upd_player [frame_simps]:
  assumes "\<And>p. player_core (f p) = player_core p"
  shows "core (upd_player i f w) = core w"
  using map_list_update_same_field[of player_core f "M_players w" i] assms
  by (simp add: core_def upd_player_def)

lemma core_map_players [frame_simps]:
  assumes "\<And>p. player_core (f p) = player_core p"
  shows "core (map_players f w) = core w"
  using assms by (simp add: core_def map_players_def)

lemma player_core_ops [frame_simps, simp]:
  "player_core (moveTo q p) = player_core p"
  "player_core (place q p) = player_core p"
  "player_core (addState st p) = player_core p"
  "player_core (removeState st p) = player_core p"
  "player_core (collide q p) = player_core p"
  "player_core (clearCollision p) = player_core p"
  "player_core (updateCollisionVel p) = player_core p"
  "player_core (moveToCollisionPos p) = player_core p"
  "player_core (collidedWithBall p) = player_core p"
  "player_core (collidedWithPlayer p) = player_core p"
  "player_core (recoverAll sp p) = player_core p"
  "player_core (setFoulCharged sp p) = player_core p"
  "player_core (incFoulCount p) = player_core p"
  by (simp_all add: player_core_def mpobj_defs place_def addState_def removeState_def
      collidedWithBall_def collidedWithPlayer_def recoverAll_def recoverStaminaCapacity_def
      setFoulCharged_def incFoulCount_def Let_def)

lemma core_ops [frame_simps, simp]:
  "core (upd_ball fb w) = core w"
  "core (sendRefereeAudio m w) = core w"
  "core (clearBallCatcher w) = core w"
  "core (placeBall s q w) = core w"
  "core (moveBall q v w) = core w"
  "core (placePlayersInField w) = core w"
  "core (recoveryPlayers sp w) = core w"
  "core (setPlayerState s u st w) = core w"
  "core (punishFoulPlay s u w) = core w"
  by (auto simp: upd_ball_def sendRefereeAudio_def clearBallCatcher_def placeBall_def moveBall_def
      placePlayersInField_def recoveryPlayers_def setPlayerState_def punishFoulPlay_def
      core_map_players core_upd_player split: option.splits)

lemma core_draw [frame_simps]: "core (snd (draw f w)) = core w"
  by (simp add: draw_def split_beta)

text \<open>Reading the core.\<close>

lemma core_eqD:
  assumes "core w' = core w"
  shows "M_time w' = M_time w" "M_stoppage_time w' = M_stoppage_time w"
    "M_team_l w' = M_team_l w" "M_team_r w' = M_team_r w"
    "map player_core (M_players w') = map player_core (M_players w)"
    "M_remote_players w' = M_remote_players w" "M_player_types w' = M_player_types w"
    "M_weather w' = M_weather w" "TimeRef_half_time_count w' = TimeRef_half_time_count w"
    "R_stuck w' = R_stuck w" "penalty_core (R_penalty w') = penalty_core (R_penalty w)"
    "length (M_players w') = length (M_players w)"
    "M_alive w' = M_alive w"
proof -
  show p: "map player_core (M_players w') = map player_core (M_players w)"
    using assms by (simp add: core_def)
  show "length (M_players w') = length (M_players w)" using arg_cong[OF p, of length] by simp
qed (use assms in \<open>simp_all add: core_def\<close>)

lemma core_player:
  assumes "core w' = core w" and "i < length (M_players w)"
  shows "player_core (pl w' i) = player_core (pl w i)"
  using core_eqD(5,12)[OF assms(1)] assms(2) by (metis nth_map)

lemma core_penalty:
  assumes "core w' = core w"
  shows "PR_pen_nr_taken (R_penalty w') = PR_pen_nr_taken (R_penalty w)"
    "PR_pen_side (R_penalty w') = PR_pen_side (R_penalty w)"
    "PR_cur_pen_taker (R_penalty w') = PR_cur_pen_taker (R_penalty w)"
    "PR_timeover (R_penalty w') = PR_timeover (R_penalty w)"
    "PR_first_time (R_penalty w') = PR_first_time (R_penalty w)"
  using core_eqD(11)[OF assms] by (simp_all add: penalty_core_def)

end
