(* ===== verification/RefereeBase.thy ===== *)
theory RefereeBase
  imports World
begin

text \<open>
  The class \<^verbatim>\<open>Referee\<close> of referee.h and referee.cpp: the static geometry of restarts, and
  the protected operations which every referee shares.  A referee changes the game through
  \<^verbatim>\<open>Stadium::changePlayMode\<close>, which calls all referees back; here it is the argument
  \<open>cpm\<close>, and \<^verbatim>\<open>Stadium::collisions\<close>, which also calls them back, the argument
  \<open>col\<close>.  The theory Stadium ties the knot.
\<close>

type_synonym mode_op = "playmode \<Rightarrow> world \<Rightarrow> world option"
type_synonym world_op = "world \<Rightarrow> world option"

section \<open>Geometry of restarts\<close>

definition truncateToPitch :: "pvector \<Rightarrow> pvector" where
  "truncateToPitch b =
     PVector (max (min (px b) (PITCH_LENGTH * 0.5)) (- PITCH_LENGTH * 0.5))
             (max (min (py b) (PITCH_WIDTH * 0.5)) (- PITCH_WIDTH * 0.5))"

definition moveOutOfPenalty :: "side \<Rightarrow> pvector \<Rightarrow> pvector" where
  "moveOutOfPenalty s b0 =
     (let b1 =
        (if s \<noteq> RIGHT \<and> px b0 \<le> - PITCH_LENGTH * 0.5 + PENALTY_AREA_LENGTH
            \<and> \<bar>py b0\<bar> \<le> PENALTY_AREA_WIDTH * 0.5
         then PVector (- PITCH_LENGTH * 0.5 + PENALTY_AREA_LENGTH + EPS)
                (if py b0 > 0 then PENALTY_AREA_WIDTH * 0.5 + EPS
                 else - PENALTY_AREA_WIDTH * 0.5 - EPS)
         else b0)
      in if s \<noteq> LEFT \<and> px b1 \<ge> PITCH_LENGTH * 0.5 - PENALTY_AREA_LENGTH
            \<and> \<bar>py b1\<bar> \<le> PENALTY_AREA_WIDTH * 0.5
         then PVector (PITCH_LENGTH * 0.5 - PENALTY_AREA_LENGTH - EPS)
                (if py b1 > 0 then PENALTY_AREA_WIDTH * 0.5 + EPS
                 else - PENALTY_AREA_WIDTH * 0.5 - EPS)
         else b1)"

definition moveOutOfGoalArea :: "side \<Rightarrow> pvector \<Rightarrow> pvector" where
  "moveOutOfGoalArea s b0 =
     (let b1 =
        (if s \<noteq> RIGHT \<and> px b0 \<le> - PITCH_LENGTH * 0.5 + GOAL_AREA_LENGTH
            \<and> \<bar>py b0\<bar> \<le> GOAL_AREA_WIDTH * 0.5
         then PVector (- PITCH_LENGTH * 0.5 + GOAL_AREA_LENGTH + EPS) (py b0)
         else b0)
      in if s \<noteq> LEFT \<and> px b1 \<ge> PITCH_LENGTH * 0.5 - GOAL_AREA_LENGTH
            \<and> \<bar>py b1\<bar> \<le> GOAL_AREA_WIDTH * 0.5
         then PVector (PITCH_LENGTH * 0.5 - GOAL_AREA_LENGTH - EPS) (py b1)
         else b1)"

text \<open>The \<open>y\<close> adjustment which both halves of \<^verbatim>\<open>moveIntoPenalty\<close> repeat.\<close>

definition into_penalty_y :: "sparam \<Rightarrow> real \<Rightarrow> real" where
  "into_penalty_y sp y =
     (if \<bar>y\<bar> > PENALTY_AREA_WIDTH * 0.5 + ballSize sp
      then (if y > 0 then PENALTY_AREA_WIDTH * 0.5 + ballSize sp
            else - PENALTY_AREA_WIDTH * 0.5 - ballSize sp)
      else y)"

definition moveIntoPenalty :: "sparam \<Rightarrow> side \<Rightarrow> pvector \<Rightarrow> pvector" where
  "moveIntoPenalty sp s p0 =
     (let p1 =
        (if s \<noteq> RIGHT
         then PVector (if px p0 > - PITCH_LENGTH * 0.5 + PENALTY_AREA_LENGTH + ballSize sp
                       then - PITCH_LENGTH * 0.5 + PENALTY_AREA_LENGTH + ballSize sp else px p0)
                      (into_penalty_y sp (py p0))
         else p0)
      in if s \<noteq> LEFT
         then PVector (if px p1 < PITCH_LENGTH * 0.5 - PENALTY_AREA_LENGTH - ballSize sp
                       then PITCH_LENGTH * 0.5 - PENALTY_AREA_LENGTH - ballSize sp else px p1)
                      (into_penalty_y sp (py p1))
         else p1)"

definition pen_area :: "sparam \<Rightarrow> side \<Rightarrow> rarea" where
  "pen_area sp s =
     RArea_cs (PVector (if s = LEFT then - PITCH_LENGTH / 2 + PENALTY_AREA_LENGTH / 2
                        else PITCH_LENGTH / 2 - PENALTY_AREA_LENGTH / 2) 0)
              (PVector (PENALTY_AREA_LENGTH + ballSize sp * 2)
                       (PENALTY_AREA_WIDTH + ballSize sp * 2))"

definition inPenaltyArea :: "sparam \<Rightarrow> side \<Rightarrow> pvector \<Rightarrow> bool" where
  "inPenaltyArea sp s pos =
     (if s \<noteq> RIGHT \<and> ra_inArea (pen_area sp LEFT) pos then True
      else if s \<noteq> LEFT \<and> ra_inArea (pen_area sp RIGHT) pos then True
      else False)"

definition crossGoalLine :: "sparam \<Rightarrow> side \<Rightarrow> pvector \<Rightarrow> world \<Rightarrow> bool" where
  "crossGoalLine sp s prev w =
     (let ball = M_pos (M_ball w)
      in if px prev = px ball then False
         else if \<bar>px ball\<bar> \<le> PITCH_LENGTH * 0.5 + ballSize sp then False
         else if \<bar>px prev\<bar> > PITCH_LENGTH * 0.5 + ballSize sp then False
         else if of_int (side_int s) * px ball \<ge> 0 then False
         else if \<bar>py prev\<bar> > goalWidth sp * 0.5 + goalPostRadius sp
                 \<and> \<bar>px prev\<bar> > PITCH_LENGTH * 0.5 then False
         else
           let delta_x = px ball - px prev;
               delta_y = py ball - py prev;
               gradient = delta_y / delta_x;
               offset = py prev - gradient * px prev;
               x = (PITCH_LENGTH * 0.5 + ballSize sp) * of_int (- side_int s);
               y_intercept = gradient * x + offset
           in \<bar>y_intercept\<bar> \<le> goalWidth sp * 0.5 + goalPostRadius sp)"

section \<open>Restarts\<close>

text \<open>\<^verbatim>\<open>Stadium::placeBall( pm, side, pos )\<close>.\<close>

definition placeBall_pm :: "mode_op \<Rightarrow> playmode \<Rightarrow> side \<Rightarrow> pvector \<Rightarrow> world_op" where
  "placeBall_pm cpm pm s pos w =
     (let w1 = placeBall s pos w
      in if shootout (M_playmode w1) \<and> (pm = PM_PlayOn \<or> pm = PM_Drop_Ball) then Some w1
         else cpm pm w1)"

definition awardFreeKick :: "mode_op \<Rightarrow> side \<Rightarrow> pvector \<Rightarrow> world_op" where
  "awardFreeKick cpm s pos0 w =
     (let pos = moveOutOfPenalty (opp_side s) (truncateToPitch pos0)
      in if s = LEFT then placeBall_pm cpm PM_FreeKick_Left LEFT pos w
         else if s = RIGHT then placeBall_pm cpm PM_FreeKick_Right RIGHT pos w
         else Some w)"

definition awardGoalKick :: "mode_op \<Rightarrow> side \<Rightarrow> pvector \<Rightarrow> world_op" where
  "awardGoalKick cpm s pos w =
     (let y = (if py pos > 0 then GOAL_AREA_WIDTH * 0.5 else - GOAL_AREA_WIDTH * 0.5);
          w1 = clearBallCatcher w
      in if s = LEFT
         then placeBall_pm cpm PM_GoalKick_Left LEFT
                (PVector (- PITCH_LENGTH * 0.5 + GOAL_AREA_LENGTH) y) w1
         else placeBall_pm cpm PM_GoalKick_Right RIGHT
                (PVector (PITCH_LENGTH * 0.5 - GOAL_AREA_LENGTH) y) w1)"

definition awardDropBall :: "mode_op \<Rightarrow> pvector \<Rightarrow> world_op" where
  "awardDropBall cpm pos0 w = do {
     let w1 = clearBallCatcher w;
     let pos = moveOutOfPenalty NEUTRAL (truncateToPitch pos0);
     w2 \<leftarrow> placeBall_pm cpm PM_Drop_Ball NEUTRAL pos w1;
     let w3 = placePlayersInField w2;
     if \<not> shootout (M_playmode w3) then cpm PM_PlayOn w3 else Some w3
   }"

definition awardKickIn :: "mode_op \<Rightarrow> side \<Rightarrow> pvector \<Rightarrow> world_op" where
  "awardKickIn cpm s pos0 w =
     (let w1 = clearBallCatcher w; pos = truncateToPitch pos0
      in if s = LEFT then placeBall_pm cpm PM_KickIn_Left LEFT pos w1
         else placeBall_pm cpm PM_KickIn_Right RIGHT pos w1)"

definition awardCornerKick :: "sparam \<Rightarrow> mode_op \<Rightarrow> side \<Rightarrow> pvector \<Rightarrow> world_op" where
  "awardCornerKick sp cpm s pos w =
     (let w1 = clearBallCatcher w;
          y = (if py pos > 0 then PITCH_WIDTH * 0.5 - cornerKickMargin sp
               else - PITCH_WIDTH * 0.5 + cornerKickMargin sp)
      in if s = LEFT
         then placeBall_pm cpm PM_CornerKick_Left LEFT
                (PVector (PITCH_LENGTH * 0.5 - cornerKickMargin sp) y) w1
         else placeBall_pm cpm PM_CornerKick_Right RIGHT
                (PVector (- PITCH_LENGTH * 0.5 + cornerKickMargin sp) y) w1)"

section \<open>Placing players\<close>

text \<open>\<^verbatim>\<open>Referee::placePlayersInTheirField\<close>: the body of the loop for one player.\<close>

definition fld_half :: "side \<Rightarrow> rarea" where
  "fld_half s = RArea_cs (PVector (if s = LEFT then - PITCH_LENGTH / 4 else PITCH_LENGTH / 4) 0)
                         (PVector (PITCH_LENGTH / 2) PITCH_WIDTH)"

definition place_in_half :: "bool \<Rightarrow> nat \<Rightarrow> world \<Rightarrow> world" where
  "place_in_half kick_off_offside i w =
     (let p = pl w i
      in case M_side p of
           LEFT \<Rightarrow>
             if px (M_pos p) > 0
             then (if kick_off_offside
                   then upd_player i (moveTo (PVector (- M_size p) (py (M_pos p)))) w
                   else (let (q, w1) = draw (ra_randomize (fld_half LEFT)) w
                         in upd_player i (moveTo q) w1))
             else w
         | RIGHT \<Rightarrow>
             if px (M_pos p) < 0
             then (if kick_off_offside
                   then upd_player i (moveTo (PVector (M_size p) (py (M_pos p)))) w
                   else (let (q, w1) = draw (ra_randomize (fld_half RIGHT)) w
                         in upd_player i (moveTo q) w1))
             else w
         | NEUTRAL \<Rightarrow> w)"

definition leave_centre :: "nat \<Rightarrow> world \<Rightarrow> world" where
  "leave_centre i w =
     (let p = pl w i
      in if M_side p \<noteq> M_kick_off_side w
         then
           let expand_c = CArea (PVector 0 0) (KICK_OFF_CLEAR_DISTANCE + M_size p)
           in if ca_inArea expand_c (M_pos p)
              then upd_player i (moveTo (ca_nearestEdge expand_c (M_pos p))) w else w
         else w)"

definition placePlayersInTheirField :: "sparam \<Rightarrow> world \<Rightarrow> world" where
  "placePlayersInTheirField sp w =
     (let kick_off_offside = (kickOffOffside sp
                              \<and> (M_playmode w = PM_KickOff_Left \<or> M_playmode w = PM_KickOff_Right))
      in fold (\<lambda>i w. if \<not> M_enable (pl w i) then w
                     else leave_centre i (place_in_half kick_off_offside i w))
           (M_remote_players w) w)"

text \<open>\<^verbatim>\<open>Referee::clearPlayersFromBall\<close>.\<close>

definition clear_dist :: "sparam \<Rightarrow> playmode \<Rightarrow> pvector \<Rightarrow> real" where
  "clear_dist sp pm bp =
     (if pm = PM_Illegal_Defense_Left \<or> pm = PM_Illegal_Defense_Right
         \<or> pm = PM_Back_Pass_Left \<or> pm = PM_Back_Pass_Right
         \<or> ((pm = PM_Foul_Charge_Left \<or> pm = PM_Foul_Push_Left) \<and> inPenaltyArea sp LEFT bp)
         \<or> ((pm = PM_Foul_Charge_Right \<or> pm = PM_Foul_Push_Right) \<and> inPenaltyArea sp RIGHT bp)
      then GOAL_AREA_LENGTH else KICK_OFF_CLEAR_DISTANCE)"

definition clear_indirect :: "playmode \<Rightarrow> bool" where
  "clear_indirect pm \<longleftrightarrow>
     pm \<in> {PM_Back_Pass_Left, PM_Back_Pass_Right, PM_Foul_Charge_Left, PM_Foul_Charge_Right,
           PM_Foul_Push_Left, PM_Foul_Push_Right, PM_IndFreeKick_Left, PM_IndFreeKick_Right}"

definition max_x :: real where "max_x = PITCH_LENGTH * 0.5 + PITCH_MARGIN"
definition max_y :: real where "max_y = PITCH_WIDTH * 0.5 + PITCH_MARGIN"

text \<open>
  Where the loop places one player of size \<open>sz\<close> standing at \<open>q\<close>.  An argument of
  \<^verbatim>\<open>std::acos\<close> above one gives NaN in C++ and an unspecified angle here.
\<close>

definition ball_at_corner :: "real \<Rightarrow> pvector \<Rightarrow> bool" where
  "ball_at_corner cd bp \<longleftrightarrow> \<bar>px bp\<bar> > max_x - cd \<and> \<bar>py bp\<bar> > max_y - cd"

definition clear_pos :: "pvector \<Rightarrow> bool \<Rightarrow> real \<Rightarrow> bool \<Rightarrow> real \<Rightarrow> pvector \<Rightarrow> pvector" where
  "clear_pos bp corner cd indirect sz q =
     (let e = 1 / 10 ^ 5;
          r = cd + sz;
          n0 = ca_nearestEdge (CArea bp (cd + sz + e)) q;
          n1 = (if corner \<and> \<bar>px n0\<bar> > PITCH_LENGTH * 0.5 \<and> \<bar>py n0\<bar> > PITCH_WIDTH * 0.5
                then pv_rotate (n0 - bp) pi + bp else n0);
          n2 = (if indirect \<and> \<bar>px n1\<bar> > PITCH_LENGTH * 0.5
                then (let tangent = (py n1 - py bp) / (px n1 - px bp);
                          x = PITCH_LENGTH * 0.5 * (if px n1 > 0 then 1 else - 1)
                      in PVector x (py bp + tangent * (x - px bp)))
                else n1);
          n3 = (if \<bar>px n2\<bar> > max_x
                then (let tmp_y = \<bar>r * sin (arccos ((max_x - \<bar>px bp\<bar>) / r))\<bar>
                      in PVector (if px n2 < 0 then - max_x else max_x)
                           (py bp + (if py n2 < py bp then - tmp_y - e else tmp_y + e)))
                else n2);
          n4 = (if \<bar>py n3\<bar> > max_y
                then (let tmp_x = \<bar>r * sin (arccos ((max_y - \<bar>py bp\<bar>) / r))\<bar>
                      in PVector (px bp + (if px n3 < px bp then - tmp_x - e else tmp_x + e))
                           (if py n3 < 0 then - max_y else max_y))
                else n3)
      in if \<bar>px n4\<bar> > max_x \<or> \<bar>py n4\<bar> > max_y then pv_rotate (n4 - bp) pi + bp else n4)"

definition must_clear :: "pvector \<Rightarrow> real \<Rightarrow> bool \<Rightarrow> side \<Rightarrow> player \<Rightarrow> bool" where
  "must_clear bp cd indirect s p \<longleftrightarrow>
     M_enable p \<and> (s = NEUTRAL \<or> M_side p = s)
     \<and> \<not> (indirect \<and> \<bar>px (M_pos p)\<bar> \<ge> PITCH_LENGTH * 0.5)
     \<and> ca_inArea (CArea bp (cd + M_size p)) (M_pos p)"

definition clear_round :: "bool \<Rightarrow> real \<Rightarrow> bool \<Rightarrow> side \<Rightarrow> world \<Rightarrow> world" where
  "clear_round corner cd indirect s w =
     map_players (\<lambda>p. if must_clear (M_pos (M_ball w)) cd indirect s p
                      then place (clear_pos (M_pos (M_ball w)) corner cd indirect (M_size p) (M_pos p)) p
                      else p) w"

definition anyone_to_clear :: "real \<Rightarrow> bool \<Rightarrow> side \<Rightarrow> world \<Rightarrow> bool" where
  "anyone_to_clear cd indirect s w \<longleftrightarrow>
     list_ex (must_clear (M_pos (M_ball w)) cd indirect s) (M_players w)"

fun clear_loop :: "world_op \<Rightarrow> bool \<Rightarrow> real \<Rightarrow> bool \<Rightarrow> side \<Rightarrow> nat \<Rightarrow> world_op" where
  "clear_loop col corner cd indirect s 0 w = Some w"
| "clear_loop col corner cd indirect s (Suc n) w =
     (if anyone_to_clear cd indirect s w
      then do { w' \<leftarrow> col (clear_round corner cd indirect s w); clear_loop col corner cd indirect s n w' }
      else Some w)"

definition clearPlayersFromBall :: "sparam \<Rightarrow> world_op \<Rightarrow> side \<Rightarrow> world_op" where
  "clearPlayersFromBall sp col s w =
     (let cd = clear_dist sp (M_playmode w) (M_pos (M_ball w))
      in clear_loop col (ball_at_corner cd (M_pos (M_ball w))) cd
           (clear_indirect (M_playmode w)) s 10 w)"

section \<open>Fouls\<close>

text \<open>
  \<^verbatim>\<open>Referee::checkFoul\<close>: the body of the loop for the player in slot \<open>i\<close>, with the
  three flags as accumulator.  \<open>tk\<close> is the tackler, whom the loop does not change.
\<close>

type_synonym foul_acc = "bool \<times> bool \<times> bool"

definition foul_geometry :: "player \<Rightarrow> pvector \<Rightarrow> player \<Rightarrow> bool" where
  "foul_geometry tk bp p =
     (let ball_dist2 = distance2 (M_pos tk) bp;
          ball_angle = pv_th (bp - M_pos tk);
          player_rel = M_pos p - M_pos tk;
          rel = pv_rotate player_rel (- ball_angle)
      in M_dash_cycles p \<ge> 0
         \<and> \<not> (pv_r2 player_rel > ball_dist2)
         \<and> \<not> (px rel < 0 \<or> \<bar>py rel\<bar> > M_size p + M_size tk)
         \<and> \<not> (\<bar>normalize_angle (M_angle_body_committed p - ball_angle)\<bar> > pi * 0.5))"

definition check_one_foul ::
  "sparam \<Rightarrow> player \<Rightarrow> bool \<Rightarrow> nat \<Rightarrow> foul_acc \<times> world \<Rightarrow> foul_acc \<times> world" where
  "check_one_foul sp tk foul i acc =
     (let ((charge, yellow, red), w) = acc; p = pl w i; bp = M_pos (M_ball w);
          prob = ht_foulDetectProbability (M_player_type tk)
      in if \<not> M_enable p \<or> M_side p = M_side tk \<or> \<not> ballKickable sp bp p then acc
         else if foul
         then
           let w1 = upd_player i (setFoulCharged sp) w;
               (pre_check, w2) = draw (bernoulli prob) w1;
               charge1 = (charge \<or> pre_check)
           in if \<not> foul_geometry tk bp (pl w2 i) \<or> \<not> pre_check then ((charge1, yellow, red), w2)
              else
                let (r, w3) = draw (bernoulli (redCardProbability sp)) w2
                in if r then ((charge1, False, True), w3) else ((charge1, True, red), w3)
         else if \<not> foul_geometry tk bp p then acc
         else
           let (d, w1) = draw (bernoulli prob) w
           in if \<not> d then ((charge, yellow, red), w1)
              else
                let (r, w2) = draw (bernoulli (redCardProbability sp)) w1
                in if r then ((True, True, red), w2) else ((True, yellow, red), w2))"

definition checkFoul :: "sparam \<Rightarrow> nat \<Rightarrow> bool \<Rightarrow> world \<Rightarrow> foul_acc \<times> world" where
  "checkFoul sp t foul w =
     fold (check_one_foul sp (pl w t) foul) [0..<length (M_players w)]
       ((False, False, False), w)"

section \<open>Waiting for a restart\<close>

text \<open>
  The pattern which the referees repeat for every stopped mode.  The counter \<open>get\<close> has been
  advanced; in the last \<^verbatim>\<open>CLEAR_PLAYER_TIME\<close> cycles of the wait the offending side is
  kept away from the ball, and after the wait the game restarts in the mode \<open>pm\<close> gives.  The counter is
  read again after the players have been moved.
\<close>

definition CLEAR_PLAYER_TIME :: int where "CLEAR_PLAYER_TIME = 5"

definition wait_restart ::
  "sparam \<Rightarrow> mode_op \<Rightarrow> world_op \<Rightarrow> int \<Rightarrow> (world \<Rightarrow> int) \<Rightarrow> side \<Rightarrow> (world \<Rightarrow> world)
     \<Rightarrow> (world \<Rightarrow> playmode) \<Rightarrow> world_op" where
  "wait_restart sp cpm col wait get s extra pm w = do {
     w1 \<leftarrow> (if get w > wait - CLEAR_PLAYER_TIME then clearPlayersFromBall sp col s w else Some w);
     let w2 = extra w1;
     if get w2 > wait then cpm (pm w2) w2 else Some w2
   }"

section \<open>The interface to the stadium\<close>

text \<open>
  What a referee may assume of the two operations of the stadium which call the referees
  back: a change of the play mode, and a round of collisions, leave the core of the world.
\<close>

locale mode_ops =
  fixes cpm :: mode_op
  assumes cpm_core: "cpm pm w = Some w' \<Longrightarrow> core w' = core w"
begin

lemma placeBall_pm_core:
  "placeBall_pm cpm pm s pos w = Some w' \<Longrightarrow> core w' = core w"
  by (auto simp: placeBall_pm_def Let_def split: if_splits dest: cpm_core)

lemma awardFreeKick_core: "awardFreeKick cpm s pos w = Some w' \<Longrightarrow> core w' = core w"
  by (auto simp: awardFreeKick_def Let_def split: if_splits dest: placeBall_pm_core)

lemma awardGoalKick_core: "awardGoalKick cpm s pos w = Some w' \<Longrightarrow> core w' = core w"
  by (auto simp: awardGoalKick_def Let_def split: if_splits dest!: placeBall_pm_core)

lemma awardDropBall_core: "awardDropBall cpm pos w = Some w' \<Longrightarrow> core w' = core w"
  by (auto simp: awardDropBall_def Let_def split: if_splits dest!: placeBall_pm_core cpm_core)

lemma awardKickIn_core: "awardKickIn cpm s pos w = Some w' \<Longrightarrow> core w' = core w"
  by (auto simp: awardKickIn_def Let_def split: if_splits dest!: placeBall_pm_core)

lemma awardCornerKick_core: "awardCornerKick sp cpm s pos w = Some w' \<Longrightarrow> core w' = core w"
  by (auto simp: awardCornerKick_def Let_def split: if_splits dest!: placeBall_pm_core)

lemmas award_core = placeBall_pm_core awardFreeKick_core awardGoalKick_core awardDropBall_core
  awardKickIn_core awardCornerKick_core

end

lemma core_clear_round: "core (clear_round c cd ind s w) = core w"
  by (simp add: clear_round_def core_map_players)

locale referee_ops = mode_ops +
  fixes col :: world_op
  assumes col_core: "col w = Some w' \<Longrightarrow> core w' = core w"
begin

lemma clear_loop_core: "clear_loop col c cd ind s n w = Some w' \<Longrightarrow> core w' = core w"
proof (induction n arbitrary: w)
  case 0
  then show ?case by simp
next
  case (Suc n)
  then show ?case by (auto split: if_splits dest!: col_core simp: core_clear_round)
qed

lemma clearPlayersFromBall_core: "clearPlayersFromBall sp col s w = Some w' \<Longrightarrow> core w' = core w"
  by (auto simp: clearPlayersFromBall_def Let_def dest: clear_loop_core)

lemma wait_restart_core:
  assumes "wait_restart sp cpm col n get s extra pm w = Some w'"
    and "\<And>w. core (extra w) = core w"
  shows "core w' = core w"
  using assms
  by (auto simp: wait_restart_def Let_def split: if_splits
      dest!: clearPlayersFromBall_core cpm_core)

end

text \<open>Placing players in their half.\<close>

lemma core_place_in_half: "core (place_in_half k i w) = core w"
  by (auto simp: place_in_half_def Let_def draw_def core_upd_player split: side.splits prod.splits)

lemma core_leave_centre: "core (leave_centre i w) = core w"
  by (simp add: leave_centre_def Let_def core_upd_player)

lemma core_fold: "(\<And>x w. core (f x w) = core w) \<Longrightarrow> core (fold f xs w) = core w"
  by (induction xs arbitrary: w) auto

lemma core_placePlayersInTheirField [simp]: "core (placePlayersInTheirField sp w) = core w"
  by (simp add: placePlayersInTheirField_def Let_def core_fold core_place_in_half core_leave_centre)

end
