(* ===== verification/RefOffside.thy ===== *)
theory RefOffside
  imports RefereeBase
begin

text \<open>
  \<^verbatim>\<open>OffsideRef\<close> of referee.cpp: the marks which a kick leaves on the players behind the
  second last defender, the call when a marked player plays the ball, and the wait before the
  free kick.
\<close>

definition AFTER_OFFSIDE_WAIT :: int where "AFTER_OFFSIDE_WAIT = 30"

section \<open>The call\<close>

definition offside_pitch :: "sparam \<Rightarrow> rarea" where
  "offside_pitch sp =
     RArea_cs (PVector 0 0)
       (PVector (PITCH_LENGTH - 2 * cornerKickMargin sp) (PITCH_WIDTH - 2 * cornerKickMargin sp))"

definition goal_area :: "side \<Rightarrow> rarea" where
  "goal_area s =
     RArea_cs (PVector (if s = LEFT then - PITCH_LENGTH / 2 + GOAL_AREA_LENGTH / 2
                        else PITCH_LENGTH / 2 - GOAL_AREA_LENGTH / 2) 0)
              (PVector GOAL_AREA_LENGTH GOAL_AREA_WIDTH)"

text \<open>Where the ball is placed for an offside at \<open>o\<close>.\<close>

definition offside_ball_pos :: "sparam \<Rightarrow> pvector \<Rightarrow> pvector" where
  "offside_ball_pos sp ofs =
     (if px ofs > PITCH_LENGTH / 2 \<or> ra_inArea (goal_area RIGHT) ofs
      then PVector (PITCH_LENGTH / 2 - GOAL_AREA_LENGTH)
                   ((if py ofs > 0 then 1 else - 1) * GOAL_AREA_WIDTH / 2)
      else if px ofs < - PITCH_LENGTH / 2 \<or> ra_inArea (goal_area LEFT) ofs
      then PVector (- PITCH_LENGTH / 2 + GOAL_AREA_LENGTH)
                   ((if py ofs > 0 then 1 else - 1) * GOAL_AREA_WIDTH / 2)
      else if \<not> ra_inArea (offside_pitch sp) ofs then ra_nearestEdge (offside_pitch sp) ofs
      else ofs)"

definition callOffside :: "sparam \<Rightarrow> mode_op \<Rightarrow> world_op" where
  "callOffside sp cpm w = do {
     let ks = OR_last_kicker_side (R_offside w);
     if shootout (M_playmode w) then Some w
     else if ks = NEUTRAL then Some w
     else do {
       let pos = offside_ball_pos sp (OR_offside_pos (R_offside w));
       w1 \<leftarrow> (if ks = LEFT then placeBall_pm cpm PM_OffSide_Left RIGHT pos w
              else placeBall_pm cpm PM_OffSide_Right LEFT pos w);
       let w2 = R_offside_update (\<lambda>r. r\<lparr>OR_offside_candidates := []\<rparr>) (clearBallCatcher w1);
       let w3 = placePlayersInField w2;
       Some (R_offside_update (\<lambda>r. r\<lparr>OR_after_offside_time := 0\<rparr>) w3)
     }
   }"

section \<open>Marking\<close>

text \<open>
  The running maximum of the opponents' \<open>x\<close>: \<^verbatim>\<open>first\<close> and \<^verbatim>\<open>second\<close> start at zero.
  A larger value replaces \<^verbatim>\<open>second\<close> and may then be swapped up.
\<close>

definition two_max :: "real \<Rightarrow> real \<times> real \<Rightarrow> real \<times> real" where
  "two_max x fs = (let (first, second) = fs
                   in if x > second then (if x > first then (x, first) else (first, x)) else fs)"

definition two_min :: "real \<Rightarrow> real \<times> real \<Rightarrow> real \<times> real" where
  "two_min x fs = (let (first, second) = fs
                   in if x < second then (if x < first then (x, first) else (first, x)) else fs)"

definition xs_of :: "side \<Rightarrow> world \<Rightarrow> real list" where
  "xs_of s w = map (\<lambda>p. px (M_pos p)) (filter (\<lambda>p. M_enable p \<and> M_side p = s) (M_players w))"

definition offside_line :: "side \<Rightarrow> world \<Rightarrow> real" where
  "offside_line ks w =
     (let bx = px (M_pos (M_ball w))
      in case ks of
           LEFT \<Rightarrow> (let second = snd (fold two_max (xs_of RIGHT w) (0, 0))
                    in if second > bx then second else bx)
         | RIGHT \<Rightarrow> (let second = snd (fold two_min (xs_of LEFT w) (0, 0))
                     in if second < bx then second else bx)
         | NEUTRAL \<Rightarrow> 0)"

definition offside_candidates :: "player \<Rightarrow> world \<Rightarrow> (nat \<times> pvector) list" where
  "offside_candidates kicker w =
     (let line = offside_line (M_side kicker) w
      in case M_side kicker of
           LEFT \<Rightarrow>
             map (\<lambda>i. (i, PVector line (py (M_pos (pl w i)))))
               (filter (\<lambda>i. M_enable (pl w i) \<and> M_side (pl w i) = LEFT
                           \<and> px (M_pos (pl w i)) > line \<and> M_unum (pl w i) \<noteq> M_unum kicker)
                  [0..<length (M_players w)])
         | RIGHT \<Rightarrow>
             map (\<lambda>i. (i, PVector line (py (M_pos (pl w i)))))
               (filter (\<lambda>i. M_enable (pl w i) \<and> M_side (pl w i) = RIGHT
                           \<and> px (M_pos (pl w i)) < line \<and> M_unum (pl w i) \<noteq> M_unum kicker)
                  [0..<length (M_players w)])
         | NEUTRAL \<Rightarrow> [])"

text \<open>The time, the side and the acceleration of the kick, the strongest of the cycle.\<close>

definition mark_kick :: "nat \<Rightarrow> real \<Rightarrow> world \<Rightarrow> offside_ref" where
  "mark_kick k accel_r w =
     (let r = R_offside w;
          acc0 = (if OR_last_kick_time r \<noteq> M_time w then 0 else OR_last_kick_accel_r r);
          r1 = r\<lparr>OR_last_kick_accel_r := acc0, OR_last_kick_time := M_time w,
                 OR_last_kick_stoppage_time := M_stoppage_time w\<rparr>
      in if OR_last_kick_accel_r r1 < accel_r
         then r1\<lparr>OR_last_kicker_side := M_side (pl w k), OR_last_kick_accel_r := accel_r\<rparr>
         else r1)"

definition no_offside_modes :: "playmode set" where
  "no_offside_modes = {PM_GoalKick_Left, PM_GoalKick_Right, PM_KickIn_Left, PM_KickIn_Right,
                       PM_CornerKick_Left, PM_CornerKick_Right}"

definition new_marks :: "nat \<Rightarrow> world \<Rightarrow> world" where
  "new_marks k w =
     R_offside_update
       (\<lambda>r. r\<lparr>OR_offside_candidates := (if M_playmode w \<in> no_offside_modes then []
                                        else offside_candidates (pl w k) w)\<rparr>) w"

definition setOffsideMark :: "sparam \<Rightarrow> mode_op \<Rightarrow> nat \<Rightarrow> real \<Rightarrow> world_op" where
  "setOffsideMark sp cpm k accel_r w =
     (if \<not> useOffside sp then Some w
      else if OR_last_kick_time (R_offside w) = M_time w
              \<and> OR_last_kick_stoppage_time (R_offside w) = M_stoppage_time w
      then Some (R_offside_update
                   (\<lambda>r. r\<lparr>OR_last_kicker_side := NEUTRAL, OR_offside_candidates := []\<rparr>) w)
      else
        let r = mark_kick k accel_r w
        in case List.find (\<lambda>c. fst c = k) (OR_offside_candidates r) of
             Some c \<Rightarrow> callOffside sp cpm (w\<lparr>R_offside := r\<lparr>OR_offside_pos := snd c\<rparr>\<rparr>)
           | None \<Rightarrow> Some (new_marks k (w\<lparr>R_offside := r\<rparr>)))"

lemma mark_kick_keeps [simp]:
  "OR_offside_candidates (mark_kick k a w) = OR_offside_candidates (R_offside w)"
  "OR_offside_pos (mark_kick k a w) = OR_offside_pos (R_offside w)"
  "OR_after_offside_time (mark_kick k a w) = OR_after_offside_time (R_offside w)"
  "OR_last_kick_time (mark_kick k a w) = M_time w"
  "OR_last_kick_stoppage_time (mark_kick k a w) = M_stoppage_time w"
  by (simp_all add: mark_kick_def Let_def)

text \<open>
  The loop of \<^verbatim>\<open>checkIntentionalAction\<close> runs over the candidates it started with, although
  \<^verbatim>\<open>callOffside\<close> clears the vector under it.
\<close>

definition checkIntentionalAction :: "sparam \<Rightarrow> mode_op \<Rightarrow> nat \<Rightarrow> world_op" where
  "checkIntentionalAction sp cpm k w =
     (if \<not> useOffside sp then Some w
      else foldM (\<lambda>c w. if fst c = k
                           \<and> distance2 (M_pos (pl w (fst c))) (M_pos (M_ball w))
                             < (offsideActiveArea sp)\<^sup>2
                        then callOffside sp cpm
                               (R_offside_update (\<lambda>r. r\<lparr>OR_offside_pos := snd c\<rparr>) w)
                        else Some w)
             (OR_offside_candidates (R_offside w)) w)"

section \<open>The interface of Referee\<close>

definition OffsideRef_kickTaken :: "sparam \<Rightarrow> mode_op \<Rightarrow> nat \<Rightarrow> real \<Rightarrow> world_op" where
  "OffsideRef_kickTaken sp cpm k accel_r w = setOffsideMark sp cpm k accel_r w"

definition OffsideRef_failedKickTaken :: "sparam \<Rightarrow> mode_op \<Rightarrow> nat \<Rightarrow> world_op" where
  "OffsideRef_failedKickTaken sp cpm k w = checkIntentionalAction sp cpm k w"

definition OffsideRef_tackleTaken :: "sparam \<Rightarrow> mode_op \<Rightarrow> nat \<Rightarrow> real \<Rightarrow> bool \<Rightarrow> world_op" where
  "OffsideRef_tackleTaken sp cpm k accel_r foul w = setOffsideMark sp cpm k accel_r w"

definition OffsideRef_failedTackleTaken :: "sparam \<Rightarrow> mode_op \<Rightarrow> nat \<Rightarrow> bool \<Rightarrow> world_op" where
  "OffsideRef_failedTackleTaken sp cpm k foul w = checkIntentionalAction sp cpm k w"

definition OffsideRef_ballTouched :: "sparam \<Rightarrow> mode_op \<Rightarrow> nat \<Rightarrow> world_op" where
  "OffsideRef_ballTouched sp cpm k w = setOffsideMark sp cpm k 0 w"

definition OffsideRef_playModeChange :: "playmode \<Rightarrow> world \<Rightarrow> world" where
  "OffsideRef_playModeChange pm w =
     (if pm \<noteq> PM_PlayOn then R_offside_update (\<lambda>r. r\<lparr>OR_offside_candidates := []\<rparr>) w else w)"

definition checkPlayerAfterOffside :: "sparam \<Rightarrow> world \<Rightarrow> world" where
  "checkPlayerAfterOffside sp w =
     (let ofs = OR_offside_pos (R_offside w); pm = M_playmode w
      in if pm \<noteq> PM_OffSide_Right \<and> pm \<noteq> PM_OffSide_Left then w
         else
           let right = (pm = PM_OffSide_Right);
               fld = (if right
                      then RArea_cs (PVector (PITCH_LENGTH / 4 + px ofs / 2) 0)
                             (PVector (PITCH_LENGTH / 2 - px ofs) PITCH_WIDTH)
                      else RArea_cs (PVector (- PITCH_LENGTH / 4 + px ofs / 2) 0)
                             (PVector (PITCH_LENGTH / 2 + px ofs) PITCH_WIDTH));
               offsideside = (if right then RIGHT else LEFT);
               c = CArea ofs 2.5;
               margin = PVector (offsideKickMargin sp) 0;
               out_of_circle = (\<lambda>p. if ca_inArea c (M_pos p)
                                    then moveTo (ca_nearestEdge c (M_pos p)) p else p);
               into_field = (\<lambda>p. if \<not> ra_inArea fld (M_pos p)
                                 then (if right then moveTo (nearestVEdge fld (M_pos p) + margin) p
                                       else moveTo (nearestVEdge fld (M_pos p) - margin) p)
                                 else p)
           in map_players
                (\<lambda>p. if \<not> M_enable p then p
                     else if M_side p \<noteq> offsideside then p
                     else into_field (out_of_circle p)) w)"

definition OffsideRef_analyse :: "sparam \<Rightarrow> mode_op \<Rightarrow> world_op \<Rightarrow> world_op" where
  "OffsideRef_analyse sp cpm col w =
     (let pm = M_playmode w;
          tick = R_offside_update (\<lambda>r. r\<lparr>OR_after_offside_time := OR_after_offside_time r + 1\<rparr>)
      in if \<not> useOffside sp then Some w
         else if shootout pm then Some w
         else if pm = PM_BeforeKickOff \<or> pm = PM_KickOff_Left \<or> pm = PM_KickOff_Right
         then Some (if kickOffOffside sp then placePlayersInTheirField sp w else w)
         else if pm = PM_OffSide_Left
         then wait_restart sp cpm col AFTER_OFFSIDE_WAIT (\<lambda>w. OR_after_offside_time (R_offside w)) LEFT
                (checkPlayerAfterOffside sp) (\<lambda>_. PM_FreeKick_Right) (tick w)
         else if pm = PM_OffSide_Right
         then wait_restart sp cpm col AFTER_OFFSIDE_WAIT (\<lambda>w. OR_after_offside_time (R_offside w)) RIGHT
                (checkPlayerAfterOffside sp) (\<lambda>_. PM_FreeKick_Left) (tick w)
         else if pm \<noteq> PM_PlayOn
         then Some (R_offside_update (\<lambda>r. r\<lparr>OR_offside_candidates := []\<rparr>) w)
         else Some w)"

section \<open>What the referee leaves alone\<close>

context mode_ops
begin

lemma callOffside_core: "callOffside sp cpm w = Some w' \<Longrightarrow> core w' = core w"
  by (auto simp: callOffside_def Let_def split: if_splits dest!: placeBall_pm_core)

lemma setOffsideMark_core: "setOffsideMark sp cpm k a w = Some w' \<Longrightarrow> core w' = core w"
  by (auto simp: setOffsideMark_def new_marks_def Let_def split: if_split_asm option.splits
      dest!: callOffside_core)

lemma checkIntentionalAction_core:
  assumes "checkIntentionalAction sp cpm k w = Some w'"
  shows "core w' = core w"
proof (cases "useOffside sp")
  case False
  then show ?thesis using assms by (simp add: checkIntentionalAction_def)
next
  case True
  show ?thesis
    by (rule foldM_inv[where I = "\<lambda>v. core v = core w",
          OF _ assms[unfolded checkIntentionalAction_def, simplified True, simplified]])
       (auto split: if_splits dest!: callOffside_core)
qed

end

lemma core_checkPlayerAfterOffside [simp]: "core (checkPlayerAfterOffside sp w) = core w"
  by (simp add: checkPlayerAfterOffside_def Let_def core_map_players)

context referee_ops
begin

lemma OffsideRef_analyse_core: "OffsideRef_analyse sp cpm col w = Some w' \<Longrightarrow> core w' = core w"
  by (auto simp: OffsideRef_analyse_def Let_def split: if_splits dest!: wait_restart_core)

end

section \<open>The law of offside\<close>

text \<open>
  The law which the running maximum implements: a player of the kicking side is in an offside
  position when he is ahead of the ball and in the opponents' half, and at most one opponent
  is level with him or nearer to the goal line.
\<close>

definition offside_position :: "world \<Rightarrow> player \<Rightarrow> bool" where
  "offside_position w p \<longleftrightarrow>
     (let x = (\<lambda>q. of_int (side_int (M_side p)) * px q)
      in x (M_pos p) > x (M_pos (M_ball w)) \<and> x (M_pos p) > 0
         \<and> length (filter (\<lambda>q. M_enable q \<and> M_side q = opp_side (M_side p)
                               \<and> x (M_pos q) \<ge> x (M_pos p)) (M_players w)) \<le> 1)"

lemma fold_two_max_less:
  assumes "b \<le> a"
  shows "snd (fold two_max xs (a, b)) < x \<longleftrightarrow> length (filter (\<lambda>y. x \<le> y) (a # b # xs)) \<le> 1"
  using assms
proof (induction xs arbitrary: a b)
  case Nil
  then show ?case by auto
next
  case (Cons y ys)
  show ?case
    using Cons.prems Cons.IH[of b a] Cons.IH[of a y] Cons.IH[of y a]
    by (auto simp: two_max_def)
qed

lemma fold_two_min_greater:
  assumes "a \<le> b"
  shows "x < snd (fold two_min xs (a, b)) \<longleftrightarrow> length (filter (\<lambda>y. y \<le> x) (a # b # xs)) \<le> 1"
  using assms
proof (induction xs arbitrary: a b)
  case Nil
  then show ?case by auto
next
  case (Cons y ys)
  show ?case
    using Cons.prems Cons.IH[of a b] Cons.IH[of a y] Cons.IH[of y a]
    by (auto simp: two_min_def)
qed

lemma offside_line_left:
  "offside_line LEFT w < x \<longleftrightarrow>
     px (M_pos (M_ball w)) < x \<and> 0 < x
     \<and> length (filter (\<lambda>q. M_enable q \<and> M_side q = RIGHT \<and> x \<le> px (M_pos q)) (M_players w)) \<le> 1"
proof -
  have "length (filter (\<lambda>y. x \<le> y) (xs_of RIGHT w))
          = length (filter (\<lambda>q. M_enable q \<and> M_side q = RIGHT \<and> x \<le> px (M_pos q)) (M_players w))"
    by (simp add: xs_of_def filter_map o_def conj_commute conj_left_commute)
  then show ?thesis
    using fold_two_max_less[of 0 0 "xs_of RIGHT w" x] by (auto simp: offside_line_def Let_def)
qed

lemma offside_line_right:
  "x < offside_line RIGHT w \<longleftrightarrow>
     x < px (M_pos (M_ball w)) \<and> x < 0
     \<and> length (filter (\<lambda>q. M_enable q \<and> M_side q = LEFT \<and> px (M_pos q) \<le> x) (M_players w)) \<le> 1"
proof -
  have "length (filter (\<lambda>y. y \<le> x) (xs_of LEFT w))
          = length (filter (\<lambda>q. M_enable q \<and> M_side q = LEFT \<and> px (M_pos q) \<le> x) (M_players w))"
    by (simp add: xs_of_def filter_map o_def conj_commute conj_left_commute)
  then show ?thesis
    using fold_two_min_greater[of 0 0 x "xs_of LEFT w"] by (auto simp: offside_line_def Let_def)
qed

text \<open>C1: The marks of a kick are those of the law of offside: a player becomes an offside
  candidate exactly when he is an enabled team-mate of the kicker in an offside position, the
  second last opponent and the ball being computed by the running maximum of the code.\<close>

theorem offside_candidates_law:
  "i \<in> fst ` set (offside_candidates kicker w) \<longleftrightarrow>
     i < length (M_players w) \<and> M_enable (pl w i) \<and> M_side (pl w i) = M_side kicker
     \<and> M_side kicker \<noteq> NEUTRAL \<and> M_unum (pl w i) \<noteq> M_unum kicker \<and> offside_position w (pl w i)"
proof (cases "M_side kicker")
  case LEFT
  then show ?thesis
    by (auto simp: offside_candidates_def offside_position_def image_image offside_line_left Let_def)
next
  case NEUTRAL
  then show ?thesis by (simp add: offside_candidates_def)
next
  case RIGHT
  then show ?thesis
    by (auto simp: offside_candidates_def offside_position_def image_image offside_line_right Let_def)
qed

end
