(* ===== verification/RefFreeKick.thy ===== *)
theory RefFreeKick
  imports RefereeBase
begin

text \<open>
  \<^verbatim>\<open>FreeKickRef\<close> of referee.cpp: who may play the ball at a restart, how long a restart may
  take, and where the players have to stand.  A dereference of a null kick taker is a call
  which does not return.
\<close>

definition AFTER_FREE_KICK_FAULT_WAIT :: int where "AFTER_FREE_KICK_FAULT_WAIT = 30"

section \<open>Kicks and touches\<close>

definition callFreeKickFault :: "mode_op \<Rightarrow> side \<Rightarrow> pvector \<Rightarrow> world_op" where
  "callFreeKickFault cpm s pos0 w = do {
     let pos = moveOutOfPenalty s (truncateToPitch pos0);
     let w1 = clearBallCatcher w;
     w2 \<leftarrow> (if s = LEFT then placeBall_pm cpm PM_Free_Kick_Fault_Left RIGHT pos w1
            else if s = RIGHT then placeBall_pm cpm PM_Free_Kick_Fault_Right LEFT pos w1
            else Some w1);
     Some (R_freekick_update (\<lambda>r. r\<lparr>FK_after_free_kick_fault_time := 0\<rparr>) w2)
   }"

definition set_kick_taker :: "nat \<Rightarrow> world \<Rightarrow> world" where
  "set_kick_taker k w =
     R_freekick_update (\<lambda>r. r\<lparr>FK_kick_taken := True, FK_kick_taker := Some k,
                              FK_kick_taker_dashes := M_dash_count (pl w k)\<rparr>) w"

text \<open>The opponent of the side with the goal kick has played the ball.\<close>

definition goal_kick_intruder :: "playmode \<Rightarrow> side \<Rightarrow> bool" where
  "goal_kick_intruder pm s \<longleftrightarrow>
     (pm = PM_GoalKick_Left \<and> s \<noteq> LEFT) \<or> (pm = PM_GoalKick_Right \<and> s \<noteq> RIGHT)"

definition repeat_goal_kick :: "mode_op \<Rightarrow> side \<Rightarrow> world_op" where
  "repeat_goal_kick cpm s w = do {
     w1 \<leftarrow> awardGoalKick cpm (opp_side s) (M_pos (M_ball w)) w;
     Some (R_freekick_update (\<lambda>r. r\<lparr>FK_goal_kick_count := - 1, FK_kick_taken := False\<rparr>) w1)
   }"

definition taker_fault :: "mode_op \<Rightarrow> player \<Rightarrow> side \<Rightarrow> world_op" where
  "taker_fault cpm taker s w =
     (let w1 = setPlayerState (M_side taker) (M_unum taker) FREE_KICK_FAULT w
      in callFreeKickFault cpm s (M_pos (M_ball w1)) w1)"

text \<open>A second kick before the ball has left the area: another player, or a taker who moved.\<close>

definition goal_kick_again :: "sparam \<Rightarrow> mode_op \<Rightarrow> nat \<Rightarrow> nat \<Rightarrow> world_op" where
  "goal_kick_again sp cpm k t w =
     (if k \<noteq> t
      then (if properGoalKicks sp then awardGoalKick cpm (M_side (pl w t)) (M_pos (M_ball w)) w
            else Some w)
      else if FK_kick_taker_dashes (R_freekick w) \<noteq> M_dash_count (pl w t)
      then (if freeKickFaults sp then taker_fault cpm (pl w t) (M_side (pl w k)) w
            else if properGoalKicks sp
            then awardGoalKick cpm (M_side (pl w t)) (M_pos (M_ball w)) w
            else Some w)
      else Some w)"

definition goal_kick_kick :: "sparam \<Rightarrow> mode_op \<Rightarrow> nat \<Rightarrow> world_op" where
  "goal_kick_kick sp cpm k w =
     (if goal_kick_intruder (M_playmode w) (M_side (pl w k))
      then repeat_goal_kick cpm (M_side (pl w k)) w
      else do {
        w1 \<leftarrow> (if FK_kick_taken (R_freekick w)
               then do { t \<leftarrow> FK_kick_taker (R_freekick w); goal_kick_again sp cpm k t w }
               else Some w);
        Some (set_kick_taker k w1)
      })"

text \<open>The kick or the touch after a restart: the taker may not move and play the ball again.\<close>

definition after_restart :: "sparam \<Rightarrow> mode_op \<Rightarrow> nat \<Rightarrow> world_op" where
  "after_restart sp cpm k w =
     (let r = R_freekick w
      in if FK_kick_taken r
         then
           (if FK_kick_taker r = Some k \<and> freeKickFaults sp
            then (if M_dash_count (pl w k) > FK_kick_taker_dashes r
                  then taker_fault cpm (pl w k) (M_side (pl w k)) w else Some w)
            else Some (R_freekick_update (\<lambda>r. r\<lparr>FK_kick_taken := False\<rparr>) w))
         else Some w)"

definition FreeKickRef_kickTaken :: "sparam \<Rightarrow> mode_op \<Rightarrow> nat \<Rightarrow> world_op" where
  "FreeKickRef_kickTaken sp cpm k w =
     (let pm = M_playmode w
      in if shootout pm then Some w
         else if goalKick pm then goal_kick_kick sp cpm k w
         else if pm = PM_OffSide_Left \<or> pm = PM_OffSide_Right then Some w
         else if pm \<noteq> PM_PlayOn then cpm PM_PlayOn (set_kick_taker k w)
         else after_restart sp cpm k w)"

definition FreeKickRef_tackleTaken :: "sparam \<Rightarrow> mode_op \<Rightarrow> nat \<Rightarrow> world_op" where
  "FreeKickRef_tackleTaken sp cpm k w = FreeKickRef_kickTaken sp cpm k w"

definition FreeKickRef_ballTouched :: "sparam \<Rightarrow> mode_op \<Rightarrow> nat \<Rightarrow> world_op" where
  "FreeKickRef_ballTouched sp cpm k w =
     (if goal_kick_intruder (M_playmode w) (M_side (pl w k))
      then repeat_goal_kick cpm (M_side (pl w k)) w
      else after_restart sp cpm k w)"

section \<open>A new play mode\<close>

text \<open>
  \<^verbatim>\<open>Stadium::changePlayMode\<close> has set the mode before it calls the referees, so the test
  \<^verbatim>\<open>! goalKick( M_stadium.playmode() )\<close> reads the new mode.
\<close>

definition restart_clears :: "playmode \<Rightarrow> side option" where
  "restart_clears pm =
     (if pm \<in> {PM_KickOff_Left, PM_KickIn_Left, PM_FreeKick_Left, PM_IndFreeKick_Left,
               PM_CornerKick_Left, PM_GoalKick_Left} then Some RIGHT
      else if pm \<in> {PM_KickOff_Right, PM_KickIn_Right, PM_FreeKick_Right, PM_IndFreeKick_Right,
                    PM_CornerKick_Right, PM_GoalKick_Right} then Some LEFT
      else if pm = PM_Drop_Ball then Some NEUTRAL
      else None)"

definition freekick_timers :: "sparam \<Rightarrow> playmode \<Rightarrow> world \<Rightarrow> world" where
  "freekick_timers sp pm w =
     (let w1 =
        (if goalKick pm
         then R_freekick_update
                (\<lambda>r. r\<lparr>FK_timer := dropTime sp,
                       FK_goal_kick_count := (if \<not> goalKick (M_playmode w) then 0
                                              else FK_goal_kick_count r + 1)\<rparr>) w
         else R_freekick_update (\<lambda>r. r\<lparr>FK_goal_kick_count := 0\<rparr>) w);
          w2 = (if freeKick pm then R_freekick_update (\<lambda>r. r\<lparr>FK_timer := dropTime sp\<rparr>) w1 else w1);
          w3 = (if \<not> freeKick pm \<and> \<not> goalKick pm
                then R_freekick_update (\<lambda>r. r\<lparr>FK_timer := - 1\<rparr>) w2 else w2)
      in if pm = PM_Free_Kick_Fault_Left \<or> pm = PM_Free_Kick_Fault_Right
         then R_freekick_update (\<lambda>r. r\<lparr>FK_after_free_kick_fault_time := 0\<rparr>) (clearBallCatcher w3)
         else w3)"

definition FreeKickRef_playModeChange :: "sparam \<Rightarrow> world_op \<Rightarrow> playmode \<Rightarrow> world_op" where
  "FreeKickRef_playModeChange sp col pm w = do {
     let w1 = (if pm \<noteq> PM_PlayOn then R_freekick_update (\<lambda>r. r\<lparr>FK_kick_taken := False\<rparr>) w else w);
     w2 \<leftarrow> (case restart_clears pm of Some s \<Rightarrow> clearPlayersFromBall sp col s w1 | None \<Rightarrow> Some w1);
     Some (freekick_timers sp pm w2)
   }"

section \<open>Each cycle\<close>

definition ballStopped :: "sparam \<Rightarrow> world \<Rightarrow> bool" where
  "ballStopped sp w \<longleftrightarrow> pv_r (M_vel (M_ball w)) < stoppedBallVel sp"

definition tooManyGoalKicks :: "sparam \<Rightarrow> world \<Rightarrow> bool" where
  "tooManyGoalKicks sp w \<longleftrightarrow> FK_goal_kick_count (R_freekick w) \<ge> maxGoalKicks sp"

definition goalkick_area :: "side \<Rightarrow> rarea" where
  "goalkick_area s =
     RArea_cs (PVector (if s = LEFT then - PITCH_LENGTH / 2 + PENALTY_AREA_LENGTH / 2
                        else PITCH_LENGTH / 2 - PENALTY_AREA_LENGTH / 2) 0)
              (PVector PENALTY_AREA_LENGTH PENALTY_AREA_WIDTH)"

definition leave_goalkick_area :: "rarea \<Rightarrow> side \<Rightarrow> player \<Rightarrow> player" where
  "leave_goalkick_area a oppside p =
     (let sz = M_size p;
          expand_area = RArea (ra_left a - sz) (ra_right a + sz) (ra_top a - sz) (ra_bottom a + sz)
      in if ra_inArea expand_area (M_pos p)
         then
           let q = ra_nearestEdge expand_area (M_pos p)
           in moveTo (if px q * of_int (side_int oppside) \<ge> PITCH_LENGTH / 2
                      then PVector ((PITCH_LENGTH / 2 - PENALTY_AREA_LENGTH - sz)
                                    * of_int (side_int oppside)) (py q)
                      else q) p
         else p)"

definition placePlayersForGoalkick :: "world \<Rightarrow> world" where
  "placePlayersForGoalkick w =
     (let s = (if M_playmode w = PM_GoalKick_Left then LEFT else RIGHT); oppside = opp_side s
      in map_players (\<lambda>p. if \<not> M_enable p then p
                          else if M_side p = oppside
                          then leave_goalkick_area (goalkick_area s) oppside p else p) w)"

text \<open>The drop ball timer, which both a goal kick and a free kick run down.\<close>

definition run_timer :: "mode_op \<Rightarrow> world_op" where
  "run_timer cpm w =
     (let w1 = (if FK_timer (R_freekick w) > - 1
                then R_freekick_update (\<lambda>r. r\<lparr>FK_timer := FK_timer r - 1\<rparr>) w else w)
      in if FK_timer (R_freekick w1) = 0 then awardDropBall cpm (M_pos (M_ball w1)) w1
         else Some w1)"

definition analyse_goal_kick :: "sparam \<Rightarrow> mode_op \<Rightarrow> world_op" where
  "analyse_goal_kick sp cpm w0 =
     (let w = placePlayersInField (placePlayersForGoalkick w0); bp = M_pos (M_ball w)
      in if \<not> inPenaltyArea sp NEUTRAL bp then cpm PM_PlayOn w
         else if FK_kick_taken (R_freekick w) \<and> properGoalKicks sp
         then (if ballStopped sp w
               then do {
                 t \<leftarrow> FK_kick_taker (R_freekick w);
                 if tooManyGoalKicks sp w then awardFreeKick cpm (opp_side (M_side (pl w t))) bp w
                 else awardGoalKick cpm (M_side (pl w t)) bp w
               }
               else Some w)
         else run_timer cpm w)"

text \<open>The modes in which a moving ball starts the play, and those in which players keep clear.\<close>

definition starts_play :: "playmode \<Rightarrow> bool" where
  "starts_play pm \<longleftrightarrow>
     pm \<noteq> PM_PlayOn \<and> pm \<noteq> PM_BeforeKickOff \<and> pm \<noteq> PM_TimeOver \<and> pm \<notin> stopped_modes"

definition keeps_clear :: "playmode \<Rightarrow> bool" where
  "keeps_clear pm \<longleftrightarrow>
     pm \<noteq> PM_PlayOn \<and> pm \<noteq> PM_TimeOver \<and> \<not> goalKick pm
     \<and> pm \<notin> stopped_modes - {PM_AfterGoal_Left, PM_AfterGoal_Right}"

definition start_play :: "mode_op \<Rightarrow> playmode \<Rightarrow> world_op" where
  "start_play cpm pm w =
     (if starts_play pm \<and> (px (M_vel (M_ball w)) \<noteq> 0 \<or> py (M_vel (M_ball w)) \<noteq> 0)
      then cpm PM_PlayOn w else Some w)"

text \<open>The last part of \<^verbatim>\<open>analyse\<close>; \<open>pm\<close> is the mode at the start of the cycle.\<close>

definition analyse_restart :: "sparam \<Rightarrow> mode_op \<Rightarrow> world_op \<Rightarrow> world_op" where
  "analyse_restart sp cpm col w = do {
     let pm = M_playmode w;
     w1 \<leftarrow> start_play cpm pm w;
     let w2 = placePlayersInField w1;
     w3 \<leftarrow> (if keeps_clear pm
            then clearPlayersFromBall sp col (opp_side (M_kick_off_side w2)) w2 else Some w2);
     if freeKick pm then run_timer cpm w3 else Some w3
   }"

definition FreeKickRef_analyse :: "sparam \<Rightarrow> mode_op \<Rightarrow> world_op \<Rightarrow> world_op" where
  "FreeKickRef_analyse sp cpm col w =
     (let pm = M_playmode w;
          tick = R_freekick_update
                   (\<lambda>r. r\<lparr>FK_after_free_kick_fault_time := FK_after_free_kick_fault_time r + 1\<rparr>);
          counter = (\<lambda>w. FK_after_free_kick_fault_time (R_freekick w))
      in if shootout pm then Some w
         else if pm = PM_Free_Kick_Fault_Left
         then wait_restart sp cpm col AFTER_FREE_KICK_FAULT_WAIT counter LEFT (\<lambda>w. w)
                (\<lambda>_. PM_FreeKick_Right) (tick w)
         else if pm = PM_Free_Kick_Fault_Right
         then wait_restart sp cpm col AFTER_FREE_KICK_FAULT_WAIT counter RIGHT (\<lambda>w. w)
                (\<lambda>_. PM_FreeKick_Left) (tick w)
         else if pm = PM_Back_Pass_Left \<or> pm = PM_Back_Pass_Right
                 \<or> pm = PM_CatchFault_Left \<or> pm = PM_CatchFault_Right
         then Some w
         else if goalKick pm then analyse_goal_kick sp cpm w
         else analyse_restart sp cpm col w)"

section \<open>What the referee leaves alone\<close>

lemma core_set_kick_taker [simp]: "core (set_kick_taker k w) = core w"
  by (simp add: set_kick_taker_def)

lemma core_placePlayersForGoalkick [simp]: "core (placePlayersForGoalkick w) = core w"
  by (simp add: placePlayersForGoalkick_def leave_goalkick_area_def Let_def core_map_players)

lemma core_freekick_timers [simp]: "core (freekick_timers sp pm w) = core w"
  by (simp add: freekick_timers_def Let_def if_distrib[of core] cong del: if_weak_cong split del: if_split)

context mode_ops
begin

lemma callFreeKickFault_core: "callFreeKickFault cpm s pos w = Some w' \<Longrightarrow> core w' = core w"
  by (auto simp: callFreeKickFault_def Let_def split: if_splits dest!: placeBall_pm_core)

lemma repeat_goal_kick_core: "repeat_goal_kick cpm s w = Some w' \<Longrightarrow> core w' = core w"
  by (auto simp: repeat_goal_kick_def dest!: awardGoalKick_core)

lemma taker_fault_core: "taker_fault cpm t s w = Some w' \<Longrightarrow> core w' = core w"
  by (auto simp: taker_fault_def Let_def dest!: callFreeKickFault_core)

lemma goal_kick_again_core: "goal_kick_again sp cpm k t w = Some w' \<Longrightarrow> core w' = core w"
  unfolding goal_kick_again_def
  by (auto split: if_split_asm dest: awardGoalKick_core taker_fault_core)

lemma goal_kick_kick_core: "goal_kick_kick sp cpm k w = Some w' \<Longrightarrow> core w' = core w"
  unfolding goal_kick_kick_def
  by (auto split: if_split_asm dest!: repeat_goal_kick_core goal_kick_again_core)

lemma after_restart_core: "after_restart sp cpm k w = Some w' \<Longrightarrow> core w' = core w"
  unfolding after_restart_def Let_def
  by (auto split: if_split_asm dest: taker_fault_core)

lemma FreeKickRef_kickTaken_core:
  "FreeKickRef_kickTaken sp cpm k w = Some w' \<Longrightarrow> core w' = core w"
  unfolding FreeKickRef_kickTaken_def Let_def
  by (auto split: if_split_asm dest!: goal_kick_kick_core after_restart_core cpm_core)

lemma FreeKickRef_ballTouched_core:
  "FreeKickRef_ballTouched sp cpm k w = Some w' \<Longrightarrow> core w' = core w"
  unfolding FreeKickRef_ballTouched_def
  by (auto split: if_split_asm dest: repeat_goal_kick_core after_restart_core)

lemma run_timer_core: "run_timer cpm w = Some w' \<Longrightarrow> core w' = core w"
  by (auto simp: run_timer_def Let_def split: if_splits dest!: awardDropBall_core)

lemma analyse_goal_kick_core: "analyse_goal_kick sp cpm w = Some w' \<Longrightarrow> core w' = core w"
  by (auto simp: analyse_goal_kick_def Let_def split: if_splits
      dest!: cpm_core awardFreeKick_core awardGoalKick_core run_timer_core)

end

context referee_ops
begin

lemma FreeKickRef_playModeChange_core:
  "FreeKickRef_playModeChange sp col pm w = Some w' \<Longrightarrow> core w' = core w"
  by (auto simp: FreeKickRef_playModeChange_def Let_def split: option.splits if_splits
      dest!: clearPlayersFromBall_core)

lemma start_play_core: "start_play cpm pm w = Some w' \<Longrightarrow> core w' = core w"
  by (auto simp: start_play_def split: if_splits dest: cpm_core)

lemma analyse_restart_core: "analyse_restart sp cpm col w = Some w' \<Longrightarrow> core w' = core w"
  by (auto simp: analyse_restart_def Let_def split: if_split_asm
      dest!: start_play_core clearPlayersFromBall_core run_timer_core)

lemma FreeKickRef_analyse_core:
  "FreeKickRef_analyse sp cpm col w = Some w' \<Longrightarrow> core w' = core w"
  by (auto simp: FreeKickRef_analyse_def Let_def split: if_split_asm
      dest!: wait_restart_core analyse_goal_kick_core analyse_restart_core)

end

end
