(* ===== verification/RefTouch.thy ===== *)
theory RefTouch
  imports RefereeBase
begin

text \<open>
  \<^verbatim>\<open>TouchRef\<close> of referee.cpp: goals, corner kicks, goal kicks and kick-ins, and the rule that
  an indirect free kick has to be touched twice.
\<close>

definition AFTER_GOAL_WAIT :: int where "AFTER_GOAL_WAIT = 50"

section \<open>Touches\<close>

definition on_pitch_x :: "sparam \<Rightarrow> world \<Rightarrow> bool" where
  "on_pitch_x sp w \<longleftrightarrow> \<bar>px (M_pos (M_ball w))\<bar> \<le> PITCH_LENGTH * 0.5 + ballSize sp"

definition touch :: "int \<Rightarrow> playmode \<Rightarrow> nat \<Rightarrow> real \<Rightarrow> touch_ref \<Rightarrow> touch_ref" where
  "touch now pm k accel_r r =
     (let r1 = (if pm = PM_PlayOn \<and> TR_last_indirect_kicker r \<noteq> None
                   \<and> TR_last_indirect_kicker r \<noteq> Some k
                then r\<lparr>TR_last_indirect_kicker := None, TR_indirect_mode := False\<rparr> else r);
          r2 = (if TR_indirect_mode r1 then r1\<lparr>TR_last_indirect_kicker := Some k\<rparr> else r1)
      in if TR_last_touched_time r2 = now \<and> TR_last_touched_accel_r r2 \<le> accel_r
         then r2\<lparr>TR_last_touched := Some k, TR_last_touched_accel_r := accel_r\<rparr>
         else if TR_last_touched_time r2 < now
         then r2\<lparr>TR_last_touched := Some k, TR_last_touched_time := now,
                 TR_last_touched_accel_r := accel_r\<rparr>
         else r2)"

definition TouchRef_kickTaken :: "sparam \<Rightarrow> nat \<Rightarrow> real \<Rightarrow> world \<Rightarrow> world" where
  "TouchRef_kickTaken sp k accel_r w =
     (if on_pitch_x sp w then R_touch_update (touch (M_time w) (M_playmode w) k accel_r) w else w)"

definition TouchRef_tackleTaken :: "sparam \<Rightarrow> nat \<Rightarrow> real \<Rightarrow> world \<Rightarrow> world" where
  "TouchRef_tackleTaken sp k accel_r w = TouchRef_kickTaken sp k accel_r w"

definition TouchRef_ballTouched :: "sparam \<Rightarrow> nat \<Rightarrow> world \<Rightarrow> world" where
  "TouchRef_ballTouched sp k w =
     (if on_pitch_x sp w then R_touch_update (touch (M_time w) (M_playmode w) k 0) w else w)"

definition TouchRef_playModeChange :: "playmode \<Rightarrow> world \<Rightarrow> world" where
  "TouchRef_playModeChange pm w =
     (let w1 = (if pm \<noteq> PM_PlayOn then R_touch_update (\<lambda>r. r\<lparr>TR_last_touched := None\<rparr>) w else w)
      in if indirectFreeKick pm
         then R_touch_update (\<lambda>r. r\<lparr>TR_last_indirect_kicker := None, TR_indirect_mode := True\<rparr>) w1
         else if pm \<noteq> PM_PlayOn \<and> pm \<noteq> PM_Drop_Ball
         then R_touch_update (\<lambda>r. r\<lparr>TR_last_indirect_kicker := None, TR_indirect_mode := False\<rparr>) w1
         else w1)"

section \<open>Goals\<close>

definition announceGoal :: "team \<Rightarrow> world \<Rightarrow> world" where
  "announceGoal t w =
     sendRefereeAudio (''goal_'' @ SideStr (T_side t) @ ''_'' @ show_int (T_point t)) w"

text \<open>The two teams by side, and who holds the ball.\<close>

definition team_of :: "side \<Rightarrow> world \<Rightarrow> team" where
  "team_of s w = (if s = LEFT then M_team_l w else M_team_r w)"

definition catcher_side_ok :: "side \<Rightarrow> world \<Rightarrow> bool" where
  "catcher_side_ok s w \<longleftrightarrow>
     (case M_ball_catcher w of None \<Rightarrow> True | Some c \<Rightarrow> M_side (pl w c) = s)"

text \<open>The branch of \<^verbatim>\<open>checkGoal\<close> for a goal against side \<open>s\<close>.\<close>

definition goal_against :: "sparam \<Rightarrow> mode_op \<Rightarrow> side \<Rightarrow> world_op" where
  "goal_against sp cpm s w =
     (let w1 = score (opp_side s) w;
          w2 = announceGoal (team_of (opp_side s) w1) w1;
          w3 = R_touch_update (\<lambda>r. r\<lparr>TR_after_goal_time := 0\<rparr>) w2;
          w4 = placeBall s (M_pos (M_ball w3)) w3
      in if halfTime sp \<ge> 0 \<and> goldenGoal sp \<and> M_time w4 \<ge> halfTime sp * nrNormalHalfs sp
         then cpm PM_TimeOver w4
         else cpm (if s = LEFT then PM_AfterGoal_Right else PM_AfterGoal_Left) w4)"

definition goal_scored :: "sparam \<Rightarrow> side \<Rightarrow> world \<Rightarrow> bool" where
  "goal_scored sp s w \<longleftrightarrow>
     catcher_side_ok s w \<and> crossGoalLine sp s (TR_prev_ball_pos (R_touch w)) w
     \<and> \<not> shootout (M_playmode w)"

definition checkGoal :: "sparam \<Rightarrow> mode_op \<Rightarrow> world \<Rightarrow> (bool \<times> world) option" where
  "checkGoal sp cpm w =
     (if M_playmode w = PM_AfterGoal_Left \<or> M_playmode w = PM_AfterGoal_Right
         \<or> M_playmode w = PM_TimeOver then Some (False, w)
      else if TR_indirect_mode (R_touch w) then Some (False, w)
      else if \<bar>px (M_pos (M_ball w))\<bar> \<le> PITCH_LENGTH * 0.5 + ballSize sp then Some (False, w)
      else if goal_scored sp LEFT w then do { w' \<leftarrow> goal_against sp cpm LEFT w; Some (True, w') }
      else if goal_scored sp RIGHT w then do { w' \<leftarrow> goal_against sp cpm RIGHT w; Some (True, w') }
      else Some (False, w))"

section \<open>Out of play\<close>

definition last_touched_side :: "world \<Rightarrow> side" where
  "last_touched_side w =
     (case TR_last_touched (R_touch w) of Some k \<Rightarrow> M_side (pl w k) | None \<Rightarrow> NEUTRAL)"

text \<open>
  The ball has left the pitch over a goal line or a touch line.  The test for the left goal
  line is, as in the code, against the right end of the pitch; the branch before it has
  excluded that end.
\<close>

definition out_of_play :: "sparam \<Rightarrow> mode_op \<Rightarrow> world_op" where
  "out_of_play sp cpm w =
     (let bp = M_pos (M_ball w); side = last_touched_side w
      in if \<bar>px bp\<bar> > PITCH_LENGTH * 0.5 + ballSize sp
         then
           (if px bp > PITCH_LENGTH * 0.5 + ballSize sp
            then (if side = RIGHT then awardCornerKick sp cpm LEFT bp w
                  else if M_ball_catcher w = None then awardGoalKick cpm RIGHT bp w
                  else Some w)
            else if px bp < PITCH_LENGTH * 0.5 - ballSize sp
            then (if side = LEFT then awardCornerKick sp cpm RIGHT bp w
                  else if M_ball_catcher w = None then awardGoalKick cpm LEFT bp w
                  else Some w)
            else Some w)
         else if \<bar>py bp\<bar> > PITCH_WIDTH * 0.5 + ballSize sp
         then (if side = NEUTRAL then awardDropBall cpm bp w
               else awardKickIn cpm (opp_side side) bp w)
         else Some w)"

definition after_goal :: "sparam \<Rightarrow> mode_op \<Rightarrow> playmode \<Rightarrow> side \<Rightarrow> world_op" where
  "after_goal sp cpm pm s w = do {
     let w1 = R_touch_update (\<lambda>r. r\<lparr>TR_after_goal_time := TR_after_goal_time r + 1\<rparr>) w;
     if TR_after_goal_time (R_touch w1) > AFTER_GOAL_WAIT
     then do { w2 \<leftarrow> placeBall_pm cpm pm s (PVector 0 0) w1; Some (placePlayersInTheirField sp w2) }
     else Some w1
   }"

definition TouchRef_analyseImpl :: "sparam \<Rightarrow> mode_op \<Rightarrow> world_op" where
  "TouchRef_analyseImpl sp cpm w =
     (if shootout (M_playmode w) then Some w
      else if M_playmode w = PM_AfterGoal_Left then after_goal sp cpm PM_KickOff_Right RIGHT w
      else if M_playmode w = PM_AfterGoal_Right then after_goal sp cpm PM_KickOff_Left LEFT w
      else do {
        (goal, w1) \<leftarrow> checkGoal sp cpm w;
        if goal then Some w1
        else if M_playmode w1 \<noteq> PM_AfterGoal_Left \<and> M_playmode w1 \<noteq> PM_AfterGoal_Right
                \<and> M_playmode w1 \<noteq> PM_TimeOver
        then out_of_play sp cpm w1
        else Some w1
      })"

definition TouchRef_analyse :: "sparam \<Rightarrow> mode_op \<Rightarrow> world_op" where
  "TouchRef_analyse sp cpm w = do {
     w1 \<leftarrow> TouchRef_analyseImpl sp cpm w;
     Some (R_touch_update (\<lambda>r. r\<lparr>TR_prev_ball_pos := M_pos (M_ball w1)\<rparr>) w1)
   }"

section \<open>What the referee leaves alone\<close>

lemma core_TouchRef [simp]:
  "core (TouchRef_kickTaken sp k a w) = core w" "core (TouchRef_tackleTaken sp k a w) = core w"
  "core (TouchRef_ballTouched sp k w) = core w" "core (TouchRef_playModeChange pm w) = core w"
  "core (announceGoal t w) = core w"
  by (simp_all add: TouchRef_kickTaken_def TouchRef_tackleTaken_def TouchRef_ballTouched_def
      TouchRef_playModeChange_def announceGoal_def Let_def)

context mode_ops
begin

lemma out_of_play_core: "out_of_play sp cpm w = Some w' \<Longrightarrow> core w' = core w"
  by (auto simp: out_of_play_def Let_def split: if_splits
      dest!: awardCornerKick_core awardGoalKick_core awardDropBall_core awardKickIn_core)

lemma after_goal_core: "after_goal sp cpm pm s w = Some w' \<Longrightarrow> core w' = core w"
  by (auto simp: after_goal_def Let_def split: if_splits dest!: placeBall_pm_core)

lemma goal_against_core: "goal_against sp cpm s w = Some w' \<Longrightarrow> core w' = core (score (opp_side s) w)"
  by (auto simp: goal_against_def Let_def split: if_splits dest!: cpm_core)

end

end
