(* ===== verification/RefCatch.thy ===== *)
theory RefCatch
  imports RefereeBase
begin

text \<open>
  \<^verbatim>\<open>CatchRef\<close> of referee.cpp: a goalie may not catch outside the penalty area, nor a ball
  which a team-mate has played.
\<close>

definition AFTER_BACKPASS_WAIT :: int where "AFTER_BACKPASS_WAIT = 30"
definition AFTER_CATCH_FAULT_WAIT :: int where "AFTER_CATCH_FAULT_WAIT = 30"

section \<open>Kicks and touches\<close>

definition team_touched :: "side \<Rightarrow> catch_ref \<Rightarrow> catch_ref" where
  "team_touched s r =
     (if s = LEFT then r\<lparr>CR_team_l_touched := True\<rparr>
      else if s = RIGHT then r\<lparr>CR_team_r_touched := True\<rparr> else r)"

definition forget_passers :: "catch_ref \<Rightarrow> catch_ref" where
  "forget_passers r = r\<lparr>CR_last_back_passer := None, CR_before_last_back_passer := None\<rparr>"

definition CatchRef_kickTaken :: "nat \<Rightarrow> world \<Rightarrow> world" where
  "CatchRef_kickTaken k w =
     (let r = team_touched (M_side (pl w k)) (R_catch w)
      in w\<lparr>R_catch :=
             (if CR_team_l_touched r \<and> CR_team_r_touched r then forget_passers r
              else if CR_last_back_passer r \<noteq> Some k
              then r\<lparr>CR_before_last_back_passer := CR_last_back_passer r,
                     CR_last_back_passer := Some k, CR_last_back_passer_time := M_time w\<rparr>
              else r\<lparr>CR_last_back_passer_time := M_time w\<rparr>)\<rparr>)"

definition CatchRef_tackleTaken :: "nat \<Rightarrow> world \<Rightarrow> world" where
  "CatchRef_tackleTaken k w = CatchRef_kickTaken k w"

definition CatchRef_ballTouched :: "nat \<Rightarrow> world \<Rightarrow> world" where
  "CatchRef_ballTouched k w =
     (let r = team_touched (M_side (pl w k)) (R_catch w)
      in w\<lparr>R_catch := (if CR_team_l_touched r \<and> CR_team_r_touched r then forget_passers r else r)\<rparr>)"

section \<open>Calls\<close>

definition callBackPass :: "mode_op \<Rightarrow> side \<Rightarrow> world_op" where
  "callBackPass cpm s w = do {
     let pos = moveOutOfGoalArea s (truncateToPitch (M_pos (M_ball w)));
     let w1 = clearBallCatcher w;
     w2 \<leftarrow> (if s = LEFT then placeBall_pm cpm PM_Back_Pass_Left RIGHT pos w1
            else placeBall_pm cpm PM_Back_Pass_Right LEFT pos w1);
     Some (R_catch_update (\<lambda>r. r\<lparr>CR_last_back_passer := None, CR_after_back_pass_time := 0\<rparr>) w2)
   }"

definition callCatchFault :: "mode_op \<Rightarrow> side \<Rightarrow> pvector \<Rightarrow> world_op" where
  "callCatchFault cpm s pos0 w = do {
     let pos = moveOutOfPenalty s (truncateToPitch pos0);
     let w1 = clearBallCatcher w;
     w2 \<leftarrow> (if s = LEFT then placeBall_pm cpm PM_CatchFault_Left RIGHT pos w1
            else if s = RIGHT then placeBall_pm cpm PM_CatchFault_Right LEFT pos w1
            else Some w1);
     Some (R_catch_update (\<lambda>r. r\<lparr>CR_after_catch_fault_time := 0\<rparr>) w2)
   }"

section \<open>Catches\<close>

text \<open>The conditions under which a catch or a punch is judged at all.\<close>

definition catch_judged :: "playmode \<Rightarrow> bool" where
  "catch_judged pm \<longleftrightarrow> pm \<noteq> PM_AfterGoal_Left \<and> pm \<noteq> PM_AfterGoal_Right \<and> pm \<noteq> PM_TimeOver"

definition handling_violation :: "sparam \<Rightarrow> nat \<Rightarrow> world \<Rightarrow> bool" where
  "handling_violation sp c w \<longleftrightarrow>
     catch_judged (M_playmode w) \<and> \<not> inPenaltyArea sp (M_side (pl w c)) (M_pos (M_ball w))"

definition before_is_opponent :: "nat \<Rightarrow> world \<Rightarrow> bool" where
  "before_is_opponent c w \<longleftrightarrow>
     (case CR_before_last_back_passer (R_catch w) of
        Some b \<Rightarrow> M_side (pl w b) \<noteq> M_side (pl w c) | None \<Rightarrow> False)"

text \<open>
  The two exceptions of \<^verbatim>\<open>ballCaught\<close>: the goalie played an opponent's ball himself, or kick
  and catch fall into the same cycle and no team-mate played before.
\<close>

definition back_pass_caught :: "nat \<Rightarrow> world \<Rightarrow> bool" where
  "back_pass_caught c w \<longleftrightarrow>
     (let r = R_catch w
      in \<not> (CR_last_back_passer r = Some c \<and> before_is_opponent c w)
         \<and> \<not> (M_time w = CR_last_back_passer_time r
              \<and> (CR_before_last_back_passer r = None \<or> before_is_opponent c w)))"

definition CatchRef_ballCaught :: "sparam \<Rightarrow> mode_op \<Rightarrow> nat \<Rightarrow> world_op" where
  "CatchRef_ballCaught sp cpm c w =
     (let s = M_side (pl w c);
          award = (\<lambda>w. awardFreeKick cpm s (M_pos (M_ball w)) (R_catch_update forget_passers w))
      in if shootout (M_playmode w) then Some w
         else if handling_violation sp c w then callCatchFault cpm s (M_pos (M_ball w)) w
         else if backPasses sp \<and> catch_judged (M_playmode w)
         then (case CR_last_back_passer (R_catch w) of
                 None \<Rightarrow> award w
               | Some b \<Rightarrow>
                   if M_side (pl w b) = s \<and> back_pass_caught c w
                   then callBackPass cpm s
                          (setPlayerState (M_side (pl w b)) (M_unum (pl w b)) BACK_PASS w)
                   else award w)
         else award w)"

definition CatchRef_ballPunched :: "sparam \<Rightarrow> mode_op \<Rightarrow> nat \<Rightarrow> world_op" where
  "CatchRef_ballPunched sp cpm c w =
     (let s = M_side (pl w c); r = R_catch w; forget = R_catch_update forget_passers w
      in if shootout (M_playmode w) then Some w
         else if handling_violation sp c w then callCatchFault cpm s (M_pos (M_ball w)) w
         else if catch_judged (M_playmode w) \<and> M_time w \<noteq> CR_last_back_passer_time r \<and> backPasses sp
         then (case CR_last_back_passer r of
                 None \<Rightarrow> Some forget
               | Some b \<Rightarrow>
                   if M_side (pl w b) = s
                   then (if b = c \<and> before_is_opponent c w then Some w
                         else callBackPass cpm s
                                (setPlayerState (M_side (pl w b)) (M_unum (pl w b)) BACK_PASS w))
                   else Some forget)
         else Some forget)"

section \<open>Each cycle\<close>

definition CatchRef_analyse :: "sparam \<Rightarrow> mode_op \<Rightarrow> world_op \<Rightarrow> world_op" where
  "CatchRef_analyse sp cpm col w0 =
     (let pm = M_playmode w0;
          w = R_catch_update (\<lambda>r. r\<lparr>CR_team_l_touched := False, CR_team_r_touched := False\<rparr>) w0;
          tick_bp = R_catch_update (\<lambda>r. r\<lparr>CR_after_back_pass_time := CR_after_back_pass_time r + 1\<rparr>);
          tick_cf = R_catch_update
                      (\<lambda>r. r\<lparr>CR_after_catch_fault_time := CR_after_catch_fault_time r + 1\<rparr>);
          bp = (\<lambda>w. CR_after_back_pass_time (R_catch w));
          cf = (\<lambda>w. CR_after_catch_fault_time (R_catch w))
      in if shootout pm then Some w
         else if pm = PM_Back_Pass_Left
         then wait_restart sp cpm col AFTER_BACKPASS_WAIT bp LEFT (\<lambda>w. w)
                (\<lambda>_. PM_IndFreeKick_Right) (tick_bp w)
         else if pm = PM_Back_Pass_Right
         then wait_restart sp cpm col AFTER_BACKPASS_WAIT bp RIGHT (\<lambda>w. w)
                (\<lambda>_. PM_IndFreeKick_Left) (tick_bp w)
         else if pm = PM_CatchFault_Left
         then wait_restart sp cpm col AFTER_CATCH_FAULT_WAIT cf LEFT (\<lambda>w. w)
                (\<lambda>_. PM_FreeKick_Right) (tick_cf w)
         else if pm = PM_CatchFault_Right
         then wait_restart sp cpm col AFTER_CATCH_FAULT_WAIT cf RIGHT (\<lambda>w. w)
                (\<lambda>_. PM_FreeKick_Left) (tick_cf w)
         else (case M_ball_catcher w of
                 None \<Rightarrow> Some w
               | Some c \<Rightarrow>
                   if catch_judged pm \<and> \<not> inPenaltyArea sp (M_side (pl w c)) (M_pos (M_ball w))
                   then callCatchFault cpm (M_side (pl w c)) (M_pos (M_ball w)) w
                   else Some w))"

text \<open>
  \<^verbatim>\<open>CatchRef::playModeChange\<close> tests the left mode twice in each condition and never the
  right one.
\<close>

definition CatchRef_playModeChange :: "playmode \<Rightarrow> world \<Rightarrow> world" where
  "CatchRef_playModeChange pm w =
     (let w1 = (if pm \<noteq> PM_PlayOn then R_catch_update forget_passers w else w)
      in if pm = PM_Back_Pass_Left \<or> pm = PM_Back_Pass_Left
         then R_catch_update (\<lambda>r. r\<lparr>CR_after_back_pass_time := 0\<rparr>) (clearBallCatcher w1)
         else if pm = PM_CatchFault_Left \<or> pm = PM_CatchFault_Left
         then R_catch_update (\<lambda>r. r\<lparr>CR_after_catch_fault_time := 0\<rparr>) (clearBallCatcher w1)
         else w1)"

section \<open>What the referee leaves alone\<close>

lemma core_CatchRef_touches [simp]:
  "core (CatchRef_kickTaken k w) = core w" "core (CatchRef_tackleTaken k w) = core w"
  "core (CatchRef_ballTouched k w) = core w" "core (CatchRef_playModeChange pm w) = core w"
  by (simp_all add: CatchRef_kickTaken_def CatchRef_tackleTaken_def CatchRef_ballTouched_def
      CatchRef_playModeChange_def Let_def flip: fun_upd_def)

context mode_ops
begin

lemma callBackPass_core: "callBackPass cpm s w = Some w' \<Longrightarrow> core w' = core w"
  by (auto simp: callBackPass_def Let_def split: if_splits dest!: placeBall_pm_core)

lemma callCatchFault_core: "callCatchFault cpm s pos w = Some w' \<Longrightarrow> core w' = core w"
  by (auto simp: callCatchFault_def Let_def split: if_splits dest!: placeBall_pm_core)

lemma CatchRef_ballCaught_core: "CatchRef_ballCaught sp cpm c w = Some w' \<Longrightarrow> core w' = core w"
  by (auto simp: CatchRef_ballCaught_def Let_def split: if_splits option.splits
      dest!: callBackPass_core callCatchFault_core awardFreeKick_core)

lemma CatchRef_ballPunched_core: "CatchRef_ballPunched sp cpm c w = Some w' \<Longrightarrow> core w' = core w"
  by (auto simp: CatchRef_ballPunched_def Let_def split: if_splits option.splits
      dest!: callBackPass_core callCatchFault_core)

end

context referee_ops
begin

lemma CatchRef_analyse_core: "CatchRef_analyse sp cpm col w = Some w' \<Longrightarrow> core w' = core w"
  by (auto simp: CatchRef_analyse_def Let_def split: if_splits option.splits
      dest!: wait_restart_core callCatchFault_core)

end

end
