(* ===== verification/Collision.thy ===== *)
theory Collision
  imports RefOffside RefFreeKick RefTouch RefCatch
begin

text \<open>
  \<^verbatim>\<open>Stadium::collisions\<close> of stadium.cpp: objects which overlap are moved apart, and the
  referees are told of every touch of the ball.
\<close>

section \<open>Moving two objects apart\<close>

fun separate :: "pvector \<Rightarrow> real \<Rightarrow> nat \<Rightarrow> pvector \<Rightarrow> pvector \<Rightarrow> pvector \<times> pvector" where
  "separate mid d2 0 a b = (mid + a, mid + b)"
| "separate mid d2 (Suc n) a b =
     (if distance2 (mid + a) (mid + b) < d2
      then separate mid d2 n (pv_normalize a (pv_r a * 1.0001)) (pv_normalize b (pv_r b * 1.0001))
      else (mid + a, mid + b))"

definition collision_pos ::
  "pvector \<Rightarrow> real \<Rightarrow> pvector \<Rightarrow> real \<Rightarrow> rng \<Rightarrow> (pvector \<times> pvector) \<times> rng" where
  "collision_pos ap asz bp bsz g =
     (let mid = pv_scale (ap + bp) (1 / 2);
          l = (asz + bsz) / 2 + EPS;
          ((mid2a, mid2b), g') =
            (if ap = bp \<or> (pv_r (ap - mid) < EPS \<and> pv_r (bp - mid) < EPS)
             then (let (a_ang, g1) = drand (- pi) pi g;
                       b_ang = normalize_angle (a_ang + pi)
                   in ((fromPolar l a_ang, fromPolar l b_ang), g1))
             else ((pv_normalize (ap - mid) l, pv_normalize (bp - mid) l), g))
      in (separate mid ((asz + bsz)\<^sup>2) 10 mid2a mid2b, g'))"

section \<open>One pair\<close>

definition calcCollisionPos_ball :: "nat \<Rightarrow> world \<Rightarrow> world" where
  "calcCollisionPos_ball i w =
     (let b = M_ball w; p = pl w i;
          ((bpos, ppos), w1) = draw (collision_pos (M_pos b) (M_size b) (M_pos p) (M_size p)) w
      in upd_player i (collide ppos) (upd_ball (collide bpos) w1))"

definition calcCollisionPos_players :: "nat \<Rightarrow> nat \<Rightarrow> world \<Rightarrow> world" where
  "calcCollisionPos_players i j w =
     (let p = pl w i; q = pl w j;
          ((ppos, qpos), w1) = draw (collision_pos (M_pos p) (M_size p) (M_pos q) (M_size q)) w
      in upd_player j (collide qpos) (upd_player i (collide ppos) w1))"

definition calcBallCollisionPos :: "nat \<Rightarrow> world \<Rightarrow> world" where
  "calcBallCollisionPos i w =
     (if M_playmode w = PM_PlayOn then calcCollisionPos_ball i w
      else
        let b = M_ball w; p = pl w i; l = M_size b + M_size p + EPS;
            (b2p, w1) =
              (if M_pos b = M_pos p
               then draw (\<lambda>g. let (a, g') = drand (- pi) pi g in (fromPolar l a, g')) w
               else (pv_normalize (M_pos p - M_pos b) l, w))
        in upd_player i (collide (M_pos b + b2p)) (upd_ball (collide (M_pos b)) w1))"

section \<open>The loop\<close>

text \<open>
  The \<^verbatim>\<open>for_each\<close> over the referees: those of the other classes have an empty
  \<^verbatim>\<open>ballTouched\<close>.
\<close>

definition ballTouched_all :: "sparam \<Rightarrow> mode_op \<Rightarrow> nat \<Rightarrow> world_op" where
  "ballTouched_all sp cpm k w = do {
     w1 \<leftarrow> OffsideRef_ballTouched sp cpm k w;
     w2 \<leftarrow> FreeKickRef_ballTouched sp cpm k w1;
     Some (CatchRef_ballTouched k (TouchRef_ballTouched sp k w2))
   }"

definition touches_ball :: "nat \<Rightarrow> world \<Rightarrow> bool" where
  "touches_ball i w \<longleftrightarrow>
     M_enable (pl w i) \<and> M_ball_catcher w \<noteq> Some i
     \<and> distance2 (M_pos (M_ball w)) (M_pos (pl w i)) < (M_size (M_ball w) + M_size (pl w i))\<^sup>2"

definition ball_step :: "sparam \<Rightarrow> mode_op \<Rightarrow> nat \<Rightarrow> bool \<times> world \<Rightarrow> (bool \<times> world) option" where
  "ball_step sp cpm i acc =
     (let (coll, w) = acc
      in if touches_ball i w
         then do {
           w1 \<leftarrow> ballTouched_all sp cpm i (upd_player i collidedWithBall w);
           Some (True, calcBallCollisionPos i w1)
         }
         else Some acc)"

definition players_touch :: "nat \<Rightarrow> nat \<Rightarrow> world \<Rightarrow> bool" where
  "players_touch i j w \<longleftrightarrow>
     M_enable (pl w i) \<and> M_enable (pl w j)
     \<and> distance2 (M_pos (pl w i)) (M_pos (pl w j)) < (M_size (pl w i) + M_size (pl w j))\<^sup>2"

definition pair_step :: "nat \<times> nat \<Rightarrow> bool \<times> world \<Rightarrow> bool \<times> world" where
  "pair_step ij acc =
     (let (i, j) = ij; (coll, w) = acc
      in if players_touch i j w
         then (True, calcCollisionPos_players i j
                       (upd_player j collidedWithPlayer (upd_player i collidedWithPlayer w)))
         else acc)"

definition player_pairs :: "nat \<Rightarrow> (nat \<times> nat) list" where
  "player_pairs n = concat (map (\<lambda>i. map (\<lambda>j. (i, j)) [Suc i..<n]) [0..<n - 1])"

definition clear_all :: "world \<Rightarrow> world" where
  "clear_all w = map_players clearCollision (upd_ball clearCollision w)"

definition move_all :: "world \<Rightarrow> world" where
  "move_all w = map_players moveToCollisionPos (upd_ball moveToCollisionPos w)"

definition collision_round :: "sparam \<Rightarrow> mode_op \<Rightarrow> world \<Rightarrow> (bool \<times> world) option" where
  "collision_round sp cpm w = do {
     let n = length (M_players w);
     acc1 \<leftarrow> foldM (ball_step sp cpm) [0..<n] (False, clear_all w);
     let (coll, w2) = fold pair_step (player_pairs n) acc1;
     Some (coll, move_all w2)
   }"

text \<open>\<^verbatim>\<open>do ... while ( col && max_loop > 0 )\<close>: at most ten rounds.\<close>

fun collision_loop :: "sparam \<Rightarrow> mode_op \<Rightarrow> nat \<Rightarrow> world_op" where
  "collision_loop sp cpm 0 w = Some w"
| "collision_loop sp cpm (Suc n) w = do {
     (coll, w1) \<leftarrow> collision_round sp cpm w;
     if coll then collision_loop sp cpm n w1 else Some w1
   }"

definition collisions :: "sparam \<Rightarrow> mode_op \<Rightarrow> world_op" where
  "collisions sp cpm w = do {
     w1 \<leftarrow> collision_loop sp cpm 10 w;
     Some (map_players updateCollisionVel (upd_ball updateCollisionVel w1))
   }"

section \<open>What a collision leaves alone\<close>

lemma core_calcCollisionPos [simp]:
  "core (calcCollisionPos_ball i w) = core w"
  "core (calcCollisionPos_players i j w) = core w"
  "core (calcBallCollisionPos i w) = core w"
proof -
  show 1: "core (calcCollisionPos_ball i w) = core w" for w
    using core_draw[of "collision_pos (M_pos (M_ball w)) (M_size (M_ball w))
                          (M_pos (pl w i)) (M_size (pl w i))" w]
    by (simp add: calcCollisionPos_ball_def Let_def split_beta core_upd_player)
  show "core (calcCollisionPos_players i j w) = core w"
    using core_draw[of "collision_pos (M_pos (pl w i)) (M_size (pl w i))
                          (M_pos (pl w j)) (M_size (pl w j))" w]
    by (simp add: calcCollisionPos_players_def Let_def split_beta core_upd_player)
  show "core (calcBallCollisionPos i w) = core w"
    by (simp add: calcBallCollisionPos_def Let_def split_beta core_upd_player core_draw 1)
qed

lemma core_pair_step: "core (snd (pair_step ij acc)) = core (snd acc)"
  by (simp add: pair_step_def split_beta core_upd_player)

lemma core_fold_pair_step: "core (snd (fold pair_step ijs acc)) = core (snd acc)"
  by (induction ijs arbitrary: acc) (simp_all add: core_pair_step)

lemma core_clear_all [simp]: "core (clear_all w) = core w"
  by (simp add: clear_all_def core_map_players)

lemma core_move_all [simp]: "core (move_all w) = core w"
  by (simp add: move_all_def core_map_players)

context mode_ops
begin

lemma ballTouched_all_core: "ballTouched_all sp cpm k w = Some w' \<Longrightarrow> core w' = core w"
  unfolding ballTouched_all_def OffsideRef_ballTouched_def
  by (auto dest!: setOffsideMark_core FreeKickRef_ballTouched_core)

lemma ball_step_core:
  assumes "ball_step sp cpm i acc = Some acc'"
  shows "core (snd acc') = core (snd acc)"
  using assms
  by (auto simp: ball_step_def split_beta core_upd_player split: if_split_asm
      dest!: ballTouched_all_core)

lemma collision_round_core:
  assumes "collision_round sp cpm w = Some (coll, w')"
  shows "core w' = core w"
proof -
  obtain acc where
    acc: "foldM (ball_step sp cpm) [0..<length (M_players w)] (False, clear_all w) = Some acc"
    and w': "(coll, w') = (let (c, v) = fold pair_step (player_pairs (length (M_players w))) acc
                           in (c, move_all v))"
    using assms by (auto simp: collision_round_def Let_def split_beta)
  have "core (snd acc) = core w"
    by (rule foldM_inv[where I = "\<lambda>a. core (snd a) = core w", OF _ acc])
       (simp_all add: ball_step_core)
  with w' show ?thesis by (simp add: split_beta core_fold_pair_step)
qed

lemma collision_loop_core: "collision_loop sp cpm n w = Some w' \<Longrightarrow> core w' = core w"
  by (induction n arbitrary: w) (auto split: if_split_asm dest!: collision_round_core)

lemma collisions_core: "collisions sp cpm w = Some w' \<Longrightarrow> core w' = core w"
  by (auto simp: collisions_def core_map_players dest: collision_loop_core)

end

end
