(* ===== verification/RefTime.thy ===== *)
theory RefTime
  imports RefereeBase
begin

text \<open>
  \<^verbatim>\<open>TimeRef\<close> and \<^verbatim>\<open>BallStuckRef\<close> of referee.cpp, with \<^verbatim>\<open>Stadium::callHalfTime\<close>
  which only the former calls.
\<close>

section \<open>Half time\<close>

definition callHalfTime :: "sparam \<Rightarrow> mode_op \<Rightarrow> side \<Rightarrow> int \<Rightarrow> world_op" where
  "callHalfTime sp cpm kick_off_side half_time_count w = do {
     let w1 = placeBall kick_off_side (PVector 0 0) (w\<lparr>M_ball_catcher := None\<rparr>);
     w2 \<leftarrow> cpm PM_BeforeKickOff w1;
     let w3 = w2\<lparr>M_time :=
                  (if half_time_count < nrNormalHalfs sp then halfTime sp * half_time_count
                   else halfTime sp * nrNormalHalfs sp
                        + extraHalfTime sp * (half_time_count - nrNormalHalfs sp))\<rparr>;
     let w4 = (if half_time_count = nrNormalHalfs sp
               then map_players (\<lambda>p. if \<not> M_enable p then p else recoverStaminaCapacity sp p) w3
               else w3);
     Some (M_weather_update Weather_halfTime w4)
   }"

definition kick_off_side_of :: "int \<Rightarrow> side" where
  "kick_off_side_of c = (if c mod 2 = 0 then LEFT else RIGHT)"

text \<open>
  \<^verbatim>\<open>TimeRef::analyse\<close>.  C++ \<^verbatim>\<open>%\<close> truncates; the counter is never negative, so
  \<open>mod\<close> agrees.
\<close>

definition next_half :: "sparam \<Rightarrow> mode_op \<Rightarrow> string \<Rightarrow> world_op" where
  "next_half sp cpm msg w = do {
     let c = TimeRef_half_time_count w + 1;
     let w1 = sendRefereeAudio msg (w\<lparr>TimeRef_half_time_count := c\<rparr>);
     w2 \<leftarrow> callHalfTime sp cpm (kick_off_side_of c) c w1;
     Some (placePlayersInTheirField sp w2)
   }"

definition time_up :: "mode_op \<Rightarrow> string \<Rightarrow> world_op" where
  "time_up cpm msg w = cpm PM_TimeOver (sendRefereeAudio msg w)"

definition normal_time :: "sparam \<Rightarrow> int" where
  "normal_time sp = halfTime sp * nrNormalHalfs sp"

definition maximum_time :: "sparam \<Rightarrow> int" where
  "maximum_time sp = normal_time sp + extraHalfTime sp * nrExtraHalfs sp"

definition TimeRef_analyse :: "sparam \<Rightarrow> mode_op \<Rightarrow> world_op" where
  "TimeRef_analyse sp cpm w =
     (let pm = M_playmode w; draw_game = (T_point (M_team_l w) = T_point (M_team_r w))
      in if pm = PM_BeforeKickOff \<or> pm = PM_TimeOver \<or> pm \<in> stopped_modes then Some w
         else if halfTime sp > 0
         then
           (if M_time w \<ge> maximum_time sp
            then (if penaltyShootOuts sp \<and> draw_game then Some w
                  else time_up cpm ''time_up'' w)
            else if M_time w \<ge> normal_time sp
            then
              (let extra_count = (TimeRef_half_time_count w + 1) - nrNormalHalfs sp
               in if \<not> team_enabled (M_team_l w) \<or> \<not> team_enabled (M_team_r w)
                  then time_up cpm ''time_up_without_a_team'' w
                  else if goldenGoal sp \<and> \<not> draw_game then time_up cpm ''time_up'' w
                  else if M_time w \<ge> normal_time sp + extraHalfTime sp * extra_count
                  then (if extra_count = 0 \<and> \<not> draw_game then time_up cpm ''time_up'' w
                        else next_half sp cpm ''time_extended'' w)
                  else Some w)
            else if M_time w \<ge> halfTime sp * (TimeRef_half_time_count w + 1)
            then next_half sp cpm ''half_time'' w
            else Some w)
         else Some w)"

section \<open>A stuck ball\<close>

definition BallStuckRef_analyse :: "sparam \<Rightarrow> mode_op \<Rightarrow> world_op" where
  "BallStuckRef_analyse sp cpm w =
     (let bp = M_pos (M_ball w);
          restart = R_stuck_update (\<lambda>r. r\<lparr>BS_last_ball_pos := bp, BS_counter := 0\<rparr>) w
      in if ballStuckArea sp \<le> 0 \<or> dropTime sp \<le> 0 then Some w
         else if M_playmode w \<noteq> PM_PlayOn then Some restart
         else if distance2 bp (BS_last_ball_pos (R_stuck w)) \<le> (ballStuckArea sp)\<^sup>2
         then
           (let w1 = R_stuck_update (\<lambda>r. r\<lparr>BS_counter := BS_counter r + 1\<rparr>) w
            in if BS_counter (R_stuck w1) \<ge> dropTime sp
               then awardDropBall cpm bp
                      (R_stuck_update (\<lambda>r. r\<lparr>BS_last_ball_pos := bp, BS_counter := 0\<rparr>) w1)
               else Some w1)
         else Some restart)"

end
