(* ===== verification/RefFoul.thy ===== *)
theory RefFoul
  imports RefereeBase
begin

text \<open>
  \<^verbatim>\<open>FoulRef\<close> of referee.cpp: free kicks, yellow and red cards for fouls in a tackle.
\<close>

definition AFTER_FOUL_WAIT :: int where "AFTER_FOUL_WAIT = 30"

definition FoulRef_callFoul :: "mode_op \<Rightarrow> nat \<Rightarrow> world_op" where
  "FoulRef_callFoul cpm t w = do {
     let s = M_side (pl w t);
     let pos = moveOutOfGoalArea NEUTRAL (truncateToPitch (M_pos (pl w t)));
     let w1 = clearBallCatcher w;
     w2 \<leftarrow> (if s = LEFT
            then placeBall_pm cpm PM_Foul_Charge_Left RIGHT (moveOutOfPenalty RIGHT pos) w1
            else if s = RIGHT
            then placeBall_pm cpm PM_Foul_Charge_Right LEFT (moveOutOfPenalty LEFT pos) w1
            else Some w1);
     let w3 = punishFoulPlay (M_side (pl w2 t)) (M_unum (pl w2 t)) w2;
     Some (R_foul_update (\<lambda>r. r\<lparr>FR_after_foul_time := 0\<rparr>) w3)
   }"

definition callYellowCard :: "mode_op \<Rightarrow> nat \<Rightarrow> world_op" where
  "callYellowCard cpm t w = do {
     w1 \<leftarrow> FoulRef_callFoul cpm t w;
     Some (yellowCard (M_side (pl w1 t)) (M_unum (pl w1 t)) w1)
   }"

definition callRedCard :: "mode_op \<Rightarrow> nat \<Rightarrow> world_op" where
  "callRedCard cpm t w = do {
     w1 \<leftarrow> FoulRef_callFoul cpm t w;
     Some (redCard (M_side (pl w1 t)) (M_unum (pl w1 t)) w1)
   }"

definition FoulRef_tackleTaken :: "sparam \<Rightarrow> mode_op \<Rightarrow> nat \<Rightarrow> bool \<Rightarrow> world_op" where
  "FoulRef_tackleTaken sp cpm t foul w =
     (if shootout (M_playmode w) then Some w
      else if keepAwayMode sp then Some w
      else
        let ((detect_charge, detect_yellow, detect_red), w1) = checkFoul sp t foul w
        in if detect_red then callRedCard cpm t w1
           else if detect_yellow then callYellowCard cpm t w1
           else if detect_charge then FoulRef_callFoul cpm t w1
           else Some w1)"

definition foul_restart :: "sparam \<Rightarrow> side \<Rightarrow> world \<Rightarrow> playmode" where
  "foul_restart sp s w =
     (if inPenaltyArea sp s (M_pos (M_ball w))
      then (if s = LEFT then PM_IndFreeKick_Right else PM_IndFreeKick_Left)
      else (if s = LEFT then PM_FreeKick_Right else PM_FreeKick_Left))"

definition FoulRef_analyse :: "sparam \<Rightarrow> mode_op \<Rightarrow> world_op \<Rightarrow> world_op" where
  "FoulRef_analyse sp cpm col w =
     (let pm = M_playmode w;
          tick = R_foul_update (\<lambda>r. r\<lparr>FR_after_foul_time := FR_after_foul_time r + 1\<rparr>);
          counter = (\<lambda>w. FR_after_foul_time (R_foul w))
      in if shootout pm then Some w
         else if pm = PM_Foul_Charge_Left \<or> pm = PM_Foul_Push_Left
         then wait_restart sp cpm col AFTER_FOUL_WAIT counter LEFT (\<lambda>w. w) (foul_restart sp LEFT)
                (tick w)
         else if pm = PM_Foul_Charge_Right \<or> pm = PM_Foul_Push_Right
         then wait_restart sp cpm col AFTER_FOUL_WAIT counter RIGHT (\<lambda>w. w) (foul_restart sp RIGHT)
                (tick w)
         else Some w)"

definition FoulRef_playModeChange :: "playmode \<Rightarrow> world \<Rightarrow> world" where
  "FoulRef_playModeChange pm w =
     (if pm \<in> {PM_Foul_Charge_Left, PM_Foul_Charge_Right, PM_Foul_Push_Left, PM_Foul_Push_Right}
      then R_foul_update (\<lambda>r. r\<lparr>FR_after_foul_time := 0\<rparr>) w else w)"

end
