(* ===== verification/RefIllegal.thy ===== *)
theory RefIllegal
  imports RefereeBase
begin

text \<open>\<^verbatim>\<open>IllegalDefenseRef\<close> of referee.cpp: too many defenders in their own goal area.\<close>

definition AFTER_ILLEGAL_DEFENSE_WAIT :: int where "AFTER_ILLEGAL_DEFENSE_WAIT = 30"

definition IllegalDefenseRef_kickTaken :: "sparam \<Rightarrow> nat \<Rightarrow> world \<Rightarrow> world" where
  "IllegalDefenseRef_kickTaken sp k w =
     (let r = R_illegal w; s = M_side (pl w k)
      in if \<not> useIllegalDefense sp then w
         else if IR_last_kick_time r = M_time w
                 \<and> (s \<noteq> IR_last_kicker_side r \<or> IR_last_kicker_side r = NEUTRAL)
         then R_illegal_update (\<lambda>r. r\<lparr>IR_last_kicker_side := NEUTRAL\<rparr>) w
         else R_illegal_update (\<lambda>r. r\<lparr>IR_last_kick_time := M_time w, IR_last_kicker_side := s\<rparr>) w)"

definition IllegalDefenseRef_tackleTaken :: "sparam \<Rightarrow> nat \<Rightarrow> world \<Rightarrow> world" where
  "IllegalDefenseRef_tackleTaken sp k w = IllegalDefenseRef_kickTaken sp k w"

definition IllegalDefenseRef_playModeChange :: "playmode \<Rightarrow> world \<Rightarrow> world" where
  "IllegalDefenseRef_playModeChange pm w =
     (if pm = PM_Illegal_Defense_Left \<or> pm = PM_Illegal_Defense_Right
      then R_illegal_update (\<lambda>r. r\<lparr>IR_after_illegal_defense_time := 0\<rparr>) w else w)"

definition calculateFreeKickPositon :: "side \<Rightarrow> pvector" where
  "calculateFreeKickPositon s = PVector (if s = RIGHT then - 41.5 * (- 1) else - 41.5) 0"

text \<open>A defender who counts: the two conditions of the loop.\<close>

definition illegal_left :: "sparam \<Rightarrow> world \<Rightarrow> player \<Rightarrow> bool" where
  "illegal_left sp w p \<longleftrightarrow>
     M_side p = LEFT \<and> IR_last_kicker_side (R_illegal w) = RIGHT \<and> px (M_pos (M_ball w)) < 0
     \<and> px (M_pos p) < - PITCH_LENGTH * 0.5 + illegalDefenseDistX sp
     \<and> \<bar>py (M_pos p)\<bar> < illegalDefenseWidth sp * 0.5"

definition illegal_right :: "sparam \<Rightarrow> world \<Rightarrow> player \<Rightarrow> bool" where
  "illegal_right sp w p \<longleftrightarrow>
     M_side p = RIGHT \<and> IR_last_kicker_side (R_illegal w) = LEFT \<and> px (M_pos (M_ball w)) > 0
     \<and> px (M_pos p) > PITCH_LENGTH * 0.5 - illegalDefenseDistX sp
     \<and> \<bar>py (M_pos p)\<bar> < illegalDefenseWidth sp * 0.5"

definition count_players :: "(player \<Rightarrow> bool) \<Rightarrow> world \<Rightarrow> int" where
  "count_players P w = int (length (filter P (M_players w)))"

text \<open>The counters and the state bits after the loop, one side at a time.\<close>

definition mark_illegal :: "sparam \<Rightarrow> world \<Rightarrow> world" where
  "mark_illegal sp w =
     map_players (\<lambda>p. if M_enable p \<and> (illegal_left sp w p \<or> illegal_right sp w p)
                      then addState ILLEGAL_DEFENSE p else p) w"

definition unmark_illegal :: "side \<Rightarrow> world \<Rightarrow> world" where
  "unmark_illegal s w =
     map_players (\<lambda>p. if M_side p = s then removeState ILLEGAL_DEFENSE p else p) w"

definition count_illegal :: "sparam \<Rightarrow> world \<Rightarrow> world" where
  "count_illegal sp w =
     (let left_player_illegal = count_players (\<lambda>p. M_enable p \<and> illegal_left sp w p) w;
          right_player_illegal =
            count_players (\<lambda>p. M_enable p \<and> \<not> illegal_left sp w p \<and> illegal_right sp w p) w;
          w1 = mark_illegal sp w;
          w2 = (if left_player_illegal \<ge> illegalDefenseNumber sp
                then R_illegal_update
                       (\<lambda>r. r\<lparr>IR_left_illegal_counter := IR_left_illegal_counter r + 1\<rparr>) w1
                else unmark_illegal LEFT
                       (R_illegal_update (\<lambda>r. r\<lparr>IR_left_illegal_counter := 0\<rparr>) w1))
      in if right_player_illegal \<ge> illegalDefenseNumber sp
         then R_illegal_update
                (\<lambda>r. r\<lparr>IR_right_illegal_counter := IR_right_illegal_counter r + 1\<rparr>) w2
         else unmark_illegal RIGHT
                (R_illegal_update (\<lambda>r. r\<lparr>IR_right_illegal_counter := 0\<rparr>) w2))"

definition illegal_call :: "mode_op \<Rightarrow> playmode \<Rightarrow> side \<Rightarrow> world_op" where
  "illegal_call cpm pm s w = do {
     w1 \<leftarrow> placeBall_pm cpm pm (opp_side s) (calculateFreeKickPositon s) (clearBallCatcher w);
     Some (R_illegal_update
             (\<lambda>r. if s = LEFT then r\<lparr>IR_left_illegal_counter := 0, IR_after_illegal_defense_time := 0\<rparr>
                  else r\<lparr>IR_right_illegal_counter := 0, IR_after_illegal_defense_time := 0\<rparr>) w1)
   }"

definition illegal_defense_check :: "sparam \<Rightarrow> mode_op \<Rightarrow> world_op" where
  "illegal_defense_check sp cpm w = do {
     let w1 = count_illegal sp w;
     w2 \<leftarrow> (if IR_left_illegal_counter (R_illegal w1) \<ge> illegalDefenseDuration sp
            then illegal_call cpm PM_Illegal_Defense_Left LEFT w1 else Some w1);
     if IR_right_illegal_counter (R_illegal w2) \<ge> illegalDefenseDuration sp
     then illegal_call cpm PM_Illegal_Defense_Right RIGHT w2 else Some w2
   }"

definition IllegalDefenseRef_analyse :: "sparam \<Rightarrow> mode_op \<Rightarrow> world_op \<Rightarrow> world_op" where
  "IllegalDefenseRef_analyse sp cpm col w =
     (let pm = M_playmode w;
          tick = R_illegal_update
                   (\<lambda>r. r\<lparr>IR_after_illegal_defense_time := IR_after_illegal_defense_time r + 1\<rparr>);
          counter = (\<lambda>w. IR_after_illegal_defense_time (R_illegal w))
      in if \<not> useIllegalDefense sp then Some w
         else if shootout pm then Some w
         else if pm \<noteq> PM_PlayOn \<and> pm \<noteq> PM_Illegal_Defense_Left \<and> pm \<noteq> PM_Illegal_Defense_Right
         then Some w
         else if pm = PM_Illegal_Defense_Left
         then wait_restart sp cpm col AFTER_ILLEGAL_DEFENSE_WAIT counter LEFT (\<lambda>w. w)
                (\<lambda>_. PM_FreeKick_Right) (tick w)
         else if pm = PM_Illegal_Defense_Right
         then wait_restart sp cpm col AFTER_ILLEGAL_DEFENSE_WAIT counter RIGHT (\<lambda>w. w)
                (\<lambda>_. PM_FreeKick_Left) (tick w)
         else illegal_defense_check sp cpm w)"

section \<open>What the referee leaves alone\<close>

lemma core_IllegalDefenseRef_kickTaken [simp]: "core (IllegalDefenseRef_kickTaken sp k w) = core w"
  by (simp add: IllegalDefenseRef_kickTaken_def Let_def)

lemma core_count_illegal [simp]: "core (count_illegal sp w) = core w"
  by (simp add: count_illegal_def mark_illegal_def unmark_illegal_def Let_def core_map_players)

context mode_ops
begin

lemma illegal_call_core: "illegal_call cpm pm s w = Some w' \<Longrightarrow> core w' = core w"
  by (auto simp: illegal_call_def dest!: placeBall_pm_core)

lemma illegal_defense_check_core:
  "illegal_defense_check sp cpm w = Some w' \<Longrightarrow> core w' = core w"
  unfolding illegal_defense_check_def Let_def
  by (auto split: if_split_asm dest!: illegal_call_core)

end

context referee_ops
begin

lemma IllegalDefenseRef_analyse_core:
  "IllegalDefenseRef_analyse sp cpm col w = Some w' \<Longrightarrow> core w' = core w"
  unfolding IllegalDefenseRef_analyse_def Let_def
  by (auto split: if_split_asm dest!: wait_restart_core illegal_defense_check_core)

end

end
