(* ===== verification/RefKeepaway.thy ===== *)
theory RefKeepaway
  imports RefereeBase
begin

text \<open>
  \<^verbatim>\<open>KeepawayRef\<close> of referee.cpp, the referee of the keepaway training.  The log of the
  episodes is output and left out; the seconds since the start, which
  \<^verbatim>\<open>std::time\<close> gives, are the argument \<open>elapsed\<close>.
\<close>

definition trainingMsg :: string where "trainingMsg = ''training Keepaway 1''"
definition TURNOVER_TIME :: int where "TURNOVER_TIME = 4"

definition ballInKeepawayArea :: "sparam \<Rightarrow> world \<Rightarrow> bool" where
  "ballInKeepawayArea sp w \<longleftrightarrow>
     \<bar>px (M_pos (M_ball w))\<bar> < keepAwayLength sp * 0.5
     \<and> \<bar>py (M_pos (M_ball w))\<bar> < keepAwayWidth sp * 0.5"

definition logEpisode :: "world \<Rightarrow> world" where
  "logEpisode w =
     R_keepaway_update (\<lambda>r. r\<lparr>KR_episode := KR_episode r + 1, KR_time := M_time w\<rparr>) w"

text \<open>
  Where \<^verbatim>\<open>resetField\<close> puts a keeper of the rotating position \<open>kp\<close>, and a taker; two
  samples are drawn, \<open>x\<close> first.
\<close>

definition keeper_place :: "sparam \<Rightarrow> int \<Rightarrow> rng \<Rightarrow> pvector \<times> rng" where
  "keeper_place sp kp g =
     (let hl = keepAwayLength sp * 0.5; hw = keepAwayWidth sp * 0.5;
          (lo, hi) = (if kp \<in> {0, 1, 2} then (0, 3) else (- 1, 1));
          (a, g1) = drand lo hi g;
          (b, g2) = drand lo hi g1
      in (if kp = 0 then PVector (- hl + a) (- hw + b)
          else if kp = 1 then PVector (hl - a) (- hw + b)
          else if kp = 2 then PVector (hl - a) (hw - b)
          else PVector a b, g2))"

definition taker_place :: "sparam \<Rightarrow> rng \<Rightarrow> pvector \<times> rng" where
  "taker_place sp g =
     (let (a, g1) = drand 0 3 g; (b, g2) = drand 0 3 g1
      in (PVector (- keepAwayLength sp * 0.5 + a) (keepAwayWidth sp * 0.5 - b), g2))"

definition reset_one :: "sparam \<Rightarrow> nat \<Rightarrow> int \<times> world \<Rightarrow> int \<times> world" where
  "reset_one sp i acc =
     (let (kp, w) = acc
      in if \<not> M_enable (pl w i) then acc
         else (case M_side (pl w i) of
                 LEFT \<Rightarrow> (let (q, w1) = draw (keeper_place sp kp) w
                          in ((kp + 1) mod KR_keepers (R_keepaway w), upd_player i (place q) w1))
               | RIGHT \<Rightarrow> (let (q, w1) = draw (taker_place sp) w in (kp, upd_player i (place q) w1))
               | NEUTRAL \<Rightarrow> acc))"

definition resetField :: "sparam \<Rightarrow> world \<Rightarrow> world" where
  "resetField sp w =
     (let (kp, w1) = draw (irand (KR_keepers (R_keepaway w))) w;
          w2 = snd (fold (reset_one sp) [0..<length (M_players w1)] (kp, w1));
          w3 = placeBall NEUTRAL (PVector (- keepAwayLength sp * 0.5 + 4)
                                          (- keepAwayWidth sp * 0.5 + 4)) w2
      in R_keepaway_update (\<lambda>r. r\<lparr>KR_take_time := 0\<rparr>) (recoveryPlayers sp w3))"

text \<open>
  Possession: the loop runs until it meets a taker at the ball.  It returns whether a keeper
  counts as in possession, and whether a taker was met.
\<close>

fun possession :: "(player \<Rightarrow> bool) \<Rightarrow> player list \<Rightarrow> bool \<Rightarrow> bool \<times> bool" where
  "possession near [] keeper = (keeper, False)"
| "possession near (p # ps) keeper =
     (if M_enable p \<and> near p
      then (case M_side p of LEFT \<Rightarrow> possession near ps True
            | RIGHT \<Rightarrow> (False, True) | NEUTRAL \<Rightarrow> possession near ps keeper)
      else possession near ps keeper)"

definition KeepawayRef_analyse :: "sparam \<Rightarrow> mode_op \<Rightarrow> real \<Rightarrow> world_op" where
  "KeepawayRef_analyse sp cpm elapsed w =
     (if \<not> keepAwayMode sp then Some w
      else if M_playmode w = PM_PlayOn
      then
        (if \<not> ballInKeepawayArea sp w
         then Some (resetField sp (sendRefereeAudio trainingMsg (logEpisode w)))
         else if KR_take_time (R_keepaway w) \<ge> TURNOVER_TIME
         then Some (resetField sp (sendRefereeAudio trainingMsg (logEpisode w)))
         else
           let near = (\<lambda>p. distance2 (M_pos p) (M_pos (M_ball w)) < (kickableArea sp)\<^sup>2);
               (keeper_poss, taker) = possession near (M_players w) False;
               w1 = (if taker
                     then R_keepaway_update (\<lambda>r. r\<lparr>KR_take_time := KR_take_time r + 1\<rparr>) w else w)
           in Some (if keeper_poss then R_keepaway_update (\<lambda>r. r\<lparr>KR_take_time := 0\<rparr>) w1 else w1))
      else if kawayStart sp \<ge> 0
      then (if elapsed > of_int (kawayStart sp) then cpm PM_PlayOn w else Some w)
      else Some w)"

definition count_side :: "side \<Rightarrow> world \<Rightarrow> int" where
  "count_side s w = int (length (filter (\<lambda>p. M_enable p \<and> M_side p = s) (M_players w)))"

definition KeepawayRef_playModeChange :: "sparam \<Rightarrow> playmode \<Rightarrow> world \<Rightarrow> world" where
  "KeepawayRef_playModeChange sp pm w =
     (if keepAwayMode sp \<and> pm = PM_PlayOn \<and> KR_episode (R_keepaway w) = 0
      then resetField sp
             (R_keepaway_update
                (\<lambda>r. r\<lparr>KR_episode := 1, KR_keepers := KR_keepers r + count_side LEFT w,
                       KR_takers := KR_takers r + count_side RIGHT w\<rparr>) w)
      else w)"

section \<open>What a change of the play mode leaves alone\<close>

lemma core_reset_one: "core (snd (reset_one sp i acc)) = core (snd acc)"
proof -
  obtain kp w where acc: "acc = (kp, w)" by fastforce
  show ?thesis
    using core_draw[of "keeper_place sp kp" w] core_draw[of "taker_place sp" w]
    by (simp add: reset_one_def acc split_beta Let_def core_upd_player split: side.split)
qed

lemma core_resetField [simp]: "core (resetField sp w) = core w"
proof -
  have "core (snd (fold (reset_one sp) is acc)) = core (snd acc)" for "is" acc
    by (induction "is" arbitrary: acc) (simp_all add: core_reset_one)
  then show ?thesis by (simp add: resetField_def Let_def split_beta core_draw)
qed

lemma core_KeepawayRef_playModeChange [simp]: "core (KeepawayRef_playModeChange sp pm w) = core w"
  by (simp add: KeepawayRef_playModeChange_def)

end
