(* ===== verification/RefPenalty.thy ===== *)
theory RefPenalty
  imports RefereeBase
begin

text \<open>
  \<^verbatim>\<open>PenaltyRef\<close> of referee.cpp: the penalty shoot-out.  \<^verbatim>\<open>M_bDebug\<close> is constantly
  false and its output is left out.
\<close>

section \<open>Scoring\<close>

definition pen_scored_mode :: "playmode \<Rightarrow> bool" where
  "pen_scored_mode pm \<longleftrightarrow> pm \<in> {PM_PenaltyMiss_Left, PM_PenaltyMiss_Right,
                              PM_PenaltyScore_Left, PM_PenaltyScore_Right}"

definition set_timeover :: "world \<Rightarrow> world" where
  "set_timeover w = R_penalty_update (\<lambda>r. r\<lparr>PR_timeover := True\<rparr>) w"

text \<open>
  The early decision: the points a team can still reach, less the kick which the side that
  kicked last has used.  C++ \<^verbatim>\<open>/\<close> and \<^verbatim>\<open>%\<close> are applied to a counter which is never
  negative.
\<close>

definition max_extra :: "sparam \<Rightarrow> side \<Rightarrow> world \<Rightarrow> int" where
  "max_extra sp s w =
     (let n = PR_pen_nr_taken (R_penalty w);
          iPenLeft = penNrKicks sp - n div 2;
          points = T_pen_point (if s = LEFT then M_team_l w else M_team_r w)
      in points + iPenLeft - (if n mod 2 = 1 \<and> PR_cur_pen_taker (R_penalty w) = s then 1 else 0))"

definition penalty_check_score :: "sparam \<Rightarrow> mode_op \<Rightarrow> world_op" where
  "penalty_check_score sp cpm w =
     (let n = PR_pen_nr_taken (R_penalty w);
          lp = T_pen_point (M_team_l w); rp = T_pen_point (M_team_r w)
      in if n > 2 * (penMaxExtraKicks sp + penNrKicks sp)
         then
           (if penRandomWinner sp
            then
              (let (u, w1) = draw (drand 0 1) w
               in if u < 0.5
                  then Some (set_timeover (penaltyWinner LEFT (sendRefereeAudio ''penalty_winner_l'' w1)))
                  else Some (set_timeover (penaltyWinner RIGHT (sendRefereeAudio ''penalty_winner_r'' w1))))
            else Some (set_timeover (sendRefereeAudio ''penalty_draw'' w)))
         else if n > 2 * penNrKicks sp
         then
           (if n mod 2 = 0 \<and> lp \<noteq> rp
            then Some (set_timeover (sendRefereeAudio (if lp > rp then ''penalty_winner_l''
                                                       else ''penalty_winner_r'') w))
            else Some w)
         else if max_extra sp LEFT w < rp
         then cpm PM_TimeOver (sendRefereeAudio ''penalty_winner_r'' w)
         else if max_extra sp RIGHT w < lp
         then Some (set_timeover (sendRefereeAudio ''penalty_winner_l'' w))
         else Some w)"

definition count_kick :: "world \<Rightarrow> world" where
  "count_kick w = R_penalty_update (\<lambda>r. r\<lparr>PR_pen_nr_taken := PR_pen_nr_taken r + 1\<rparr>) w"

definition penalty_score :: "sparam \<Rightarrow> mode_op \<Rightarrow> side \<Rightarrow> world_op" where
  "penalty_score sp cpm s w = do {
     w1 \<leftarrow> cpm (if s = RIGHT then PM_PenaltyScore_Right else PM_PenaltyScore_Left) w;
     let w2 = (if s = RIGHT then penaltyScore RIGHT True w1 else penaltyScore LEFT True w1);
     penalty_check_score sp cpm (count_kick w2)
   }"

definition penalty_miss :: "sparam \<Rightarrow> mode_op \<Rightarrow> side \<Rightarrow> world_op" where
  "penalty_miss sp cpm s w = do {
     w1 \<leftarrow> cpm (if s = LEFT then PM_PenaltyMiss_Left else PM_PenaltyMiss_Right) w;
     let w2 = count_kick w1;
     penalty_check_score sp cpm
       (if s = RIGHT then penaltyScore RIGHT False w2 else penaltyScore LEFT False w2)
   }"

definition penalty_foul :: "sparam \<Rightarrow> mode_op \<Rightarrow> side \<Rightarrow> world_op" where
  "penalty_foul sp cpm s w =
     (let cur = PR_cur_pen_taker (R_penalty w);
          w1 = sendRefereeAudio (if s = LEFT then ''penalty_foul_l'' else ''penalty_foul_r'') w
      in if s = LEFT \<and> cur = LEFT then penalty_miss sp cpm LEFT w1
         else if s = RIGHT \<and> cur = RIGHT then penalty_miss sp cpm RIGHT w1
         else if s = LEFT then penalty_score sp cpm RIGHT w1
         else penalty_score sp cpm LEFT w1)"

definition penalty_init :: "sparam \<Rightarrow> mode_op \<Rightarrow> world_op" where
  "penalty_init sp cpm w =
     (let taker = (if PR_cur_pen_taker (R_penalty w) = LEFT then RIGHT else LEFT);
          w1 = R_penalty_update (\<lambda>r. r\<lparr>PR_cur_pen_taker := taker\<rparr>) w;
          pm = (if taker = LEFT then PM_PenaltySetup_Left else PM_PenaltySetup_Right)
      in placeBall_pm cpm pm NEUTRAL
           (PVector (of_int (- side_int (PR_pen_side (R_penalty w1)))
                     * (PITCH_LENGTH / 2 - penDistX sp)) 0) w1)"

section \<open>Where the players stand\<close>

definition centre_circle_of :: "player \<Rightarrow> carea" where
  "centre_circle_of p = CArea (PVector 0 0) (KICK_OFF_CLEAR_DISTANCE - M_size p)"

text \<open>The loop of \<^verbatim>\<open>penalty_check_players\<close>: last goalie, number outside, last one outside.\<close>

definition scan_players ::
  "side \<Rightarrow> world \<Rightarrow> nat \<Rightarrow> nat option \<times> int \<times> nat option \<Rightarrow> nat option \<times> int \<times> nat option" where
  "scan_players s w i acc =
     (let (goalie, n, outside) = acc; p = pl w i
      in if M_enable p \<and> M_side p = s
         then (if M_goalie p then (Some i, n, outside)
               else if \<not> ca_inArea (centre_circle_of p) (M_pos p) then (goalie, n + 1, Some i)
               else acc)
         else acc)"

definition already_taken :: "side \<Rightarrow> world \<Rightarrow> int \<Rightarrow> bool" where
  "already_taken s w unum \<longleftrightarrow>
     (s = LEFT \<and> unum \<in> PR_sLeftPenTaken (R_penalty w))
     \<or> (s = RIGHT \<and> unum \<in> PR_sRightPenTaken (R_penalty w))"

definition pen_setup_mode :: "playmode \<Rightarrow> bool" where
  "pen_setup_mode pm \<longleftrightarrow> pm = PM_PenaltySetup_Left \<or> pm = PM_PenaltySetup_Right"

definition pen_ready_mode :: "playmode \<Rightarrow> bool" where
  "pen_ready_mode pm \<longleftrightarrow> pm = PM_PenaltyReady_Left \<or> pm = PM_PenaltyReady_Right"

definition pen_taken_mode :: "playmode \<Rightarrow> bool" where
  "pen_taken_mode pm \<longleftrightarrow> pm = PM_PenaltyTaken_Left \<or> pm = PM_PenaltyTaken_Right"

definition check_taker_team ::
  "playmode \<Rightarrow> nat \<Rightarrow> int \<Rightarrow> nat option \<Rightarrow> world \<Rightarrow> bool \<times> nat option" where
  "check_taker_team pm g n outside w =
     (let gp = M_pos (pl w g); bp = M_pos (M_ball w)
      in if n = 0
         then (True, if pen_setup_mode pm \<and> \<not> (distance gp bp > 2) then Some g else outside)
         else if \<bar>px gp\<bar> < PITCH_LENGTH / 2 - 1.5 \<or> \<bar>py gp\<bar> < PENALTY_AREA_WIDTH / 2 - 1.5
         then (False, outside)
         else if n > 1 then (False, outside)
         else if pen_setup_mode pm \<and> n = 1
         then (case outside of
                 Some i \<Rightarrow> (\<not> (distance (M_pos (pl w i)) bp > 2), outside)
               | None \<Rightarrow> (True, outside))
         else (True, outside))"

definition check_other_team :: "sparam \<Rightarrow> playmode \<Rightarrow> nat \<Rightarrow> int \<Rightarrow> world \<Rightarrow> bool" where
  "check_other_team sp pm g n w =
     (let gp = M_pos (pl w g)
      in \<not> (\<not> pen_taken_mode pm
            \<and> (\<bar>px gp\<bar> < PITCH_LENGTH / 2 - penMaxGoalieDistX sp \<or> \<bar>py gp\<bar> > goalWidth sp * 0.5))
         \<and> n = 0)"

definition penalty_check_players :: "sparam \<Rightarrow> side \<Rightarrow> world \<Rightarrow> bool" where
  "penalty_check_players sp s w =
     (let pm = M_playmode w
      in if pen_scored_mode pm then True
         else
           (case fold (scan_players s w) [0..<length (M_players w)] (None, 0, None) of
              (None, _, _) \<Rightarrow> False
            | (Some g, n, outside0) \<Rightarrow>
                let (bCheck, outside) =
                      (if s = PR_cur_pen_taker (R_penalty w)
                       then check_taker_team pm g n outside0 w
                       else (check_other_team sp pm g n w, outside0))
                in if bCheck
                   then (case outside of
                           Some i \<Rightarrow>
                             \<not> (((s = LEFT \<and> pm = PM_PenaltySetup_Left)
                                 \<or> (s = RIGHT \<and> pm = PM_PenaltySetup_Right))
                                \<and> already_taken s w (M_unum (pl w i)))
                         | None \<Rightarrow> True)
                   else False))"

text \<open>
  The nearest player who may still kick, else the goalie.  The initial distance is the
  largest \<^verbatim>\<open>double\<close>, which no distance reaches.
\<close>

definition candidate_step ::
  "world \<Rightarrow> nat \<Rightarrow> nat option \<times> nat option \<times> real option \<Rightarrow> nat option \<times> nat option \<times> real option"
  where
  "candidate_step w i acc =
     (let (cand, goalie, best) = acc; p = pl w i; cur = PR_cur_pen_taker (R_penalty w)
      in if \<not> M_enable p \<or> M_side p \<noteq> cur then acc
         else if M_unum p \<in> (if cur = LEFT then PR_sLeftPenTaken (R_penalty w)
                             else PR_sRightPenTaken (R_penalty w)) then acc
         else if M_goalie p then (cand, Some i, best)
         else
           let d2 = distance2 (M_pos p) (M_pos (M_ball w))
           in if (case best of None \<Rightarrow> True | Some m \<Rightarrow> d2 < m) then (Some i, goalie, Some d2)
              else acc)"

definition getCandidateTaker :: "world \<Rightarrow> nat option" where
  "getCandidateTaker w =
     (let (cand, goalie, best) =
            fold (candidate_step w) [0..<length (M_players w)] (None, None, None)
      in case cand of Some i \<Rightarrow> Some i | None \<Rightarrow> goalie)"

definition placeTakerTeamPlayers :: "world \<Rightarrow> world" where
  "placeTakerTeamPlayers w =
     (let bPenTaken = pen_taken_mode (M_playmode w);
          taker = (case PR_last_taker (R_penalty w) of Some t \<Rightarrow> Some t | None \<Rightarrow> getCandidateTaker w);
          gx = of_int (- side_int (PR_pen_side (R_penalty w))) * (PITCH_LENGTH / 2 + 2);
          bp = M_pos (M_ball w);
          move = (\<lambda>i p.
            if \<not> M_enable p \<or> M_side p \<noteq> PR_cur_pen_taker (R_penalty w) then p
            else if taker = Some i
            then (if \<not> bPenTaken \<and> distance (M_pos p) bp > 2
                  then moveTo (ca_nearestEdge (CArea bp 2) (M_pos p)) p else p)
            else if M_goalie p
            then (let c = CArea (PVector gx (if py (M_pos p) > 0 then 25 else - 25)) 2
                  in if \<not> ca_inArea c (M_pos p) then moveTo (ca_nearestEdge c (M_pos p)) p else p)
            else if \<not> ca_inArea (centre_circle_of p) (M_pos p)
            then moveTo (ca_nearestEdge (centre_circle_of p) (M_pos p)) p
            else p)
      in w\<lparr>M_players := map (\<lambda>(i, p). move i p) (enumerate 0 (M_players w))\<rparr>)"

definition placeOtherTeamPlayers :: "sparam \<Rightarrow> world \<Rightarrow> world" where
  "placeOtherTeamPlayers sp w =
     (let bPenTaken = pen_taken_mode (M_playmode w);
          left = (PR_pen_side (R_penalty w) = LEFT);
          goalie_line = (if left then - PITCH_LENGTH / 2 + penMaxGoalieDistX sp
                         else PITCH_LENGTH / 2 - penMaxGoalieDistX sp)
      in map_players
           (\<lambda>p. if \<not> M_enable p \<or> M_side p = PR_cur_pen_taker (R_penalty w) then p
                else if M_goalie p
                then (if bPenTaken then p
                      else if left
                      then (if px (M_pos p) - goalie_line > 0
                            then moveTo (PVector (goalie_line - 1.5) 0) p else p)
                      else (if px (M_pos p) - goalie_line < 0
                            then moveTo (PVector (goalie_line + 1.5) 0) p else p))
                else if \<not> ca_inArea (centre_circle_of p) (M_pos p)
                then moveTo (ca_nearestEdge (centre_circle_of p) (M_pos p)) p
                else p) w)"

definition penalty_place_all_players :: "sparam \<Rightarrow> side \<Rightarrow> world \<Rightarrow> world" where
  "penalty_place_all_players sp s w =
     (if s = PR_cur_pen_taker (R_penalty w) then placeTakerTeamPlayers w
      else placeOtherTeamPlayers sp w)"

text \<open>Replace the team of a side whose check has failed.\<close>

definition place_if :: "sparam \<Rightarrow> bool \<Rightarrow> side \<Rightarrow> world \<Rightarrow> world" where
  "place_if sp ok s w = (if \<not> ok then penalty_place_all_players sp s w else w)"

section \<open>The procedure\<close>

definition foul_by_check :: "sparam \<Rightarrow> mode_op \<Rightarrow> bool \<Rightarrow> bool \<Rightarrow> world_op" where
  "foul_by_check sp cpm left_ok right_ok w =
     (let cur = PR_cur_pen_taker (R_penalty w)
      in if cur = LEFT then penalty_foul sp cpm (if \<not> left_ok then LEFT else RIGHT) w
         else if cur = RIGHT then penalty_foul sp cpm (if \<not> right_ok then RIGHT else LEFT) w
         else Some w)"

definition handleTimeout :: "sparam \<Rightarrow> mode_op \<Rightarrow> bool \<Rightarrow> bool \<Rightarrow> world_op" where
  "handleTimeout sp cpm left0 right0 w0 =
     (let pm = M_playmode w0;
          (w, left_ok, right_ok) =
            (if penCoachMovesPlayers sp \<and> pen_setup_mode pm
             then (place_if sp right0 RIGHT (place_if sp left0 LEFT w0), True, True)
             else (w0, left0, right0))
      in if pen_scored_mode pm then penalty_init sp cpm w
         else if left_ok \<and> right_ok
         then (if pm = PM_PenaltySetup_Left then cpm PM_PenaltyReady_Left w
               else if pm = PM_PenaltySetup_Right then cpm PM_PenaltyReady_Right w
               else if pm = PM_PenaltyTaken_Left \<or> pm = PM_PenaltyReady_Left
               then penalty_miss sp cpm LEFT w
               else if pm = PM_PenaltyTaken_Right \<or> pm = PM_PenaltyReady_Right
               then penalty_miss sp cpm RIGHT w
               else Some w)
         else foul_by_check sp cpm left_ok right_ok w)"

definition ball_outside :: "sparam \<Rightarrow> world \<Rightarrow> bool" where
  "ball_outside sp w \<longleftrightarrow>
     \<bar>px (M_pos (M_ball w))\<bar> > PITCH_LENGTH * 0.5 + ballSize sp
     \<or> \<bar>py (M_pos (M_ball w))\<bar> > PITCH_WIDTH * 0.5 + ballSize sp"

text \<open>\<^verbatim>\<open>placeBall( side, ball().pos() )\<close>: stop the ball where it is.\<close>

definition freeze_ball :: "side \<Rightarrow> world \<Rightarrow> world" where
  "freeze_ball s w = placeBall s (M_pos (M_ball w)) w"

definition handleTimer :: "sparam \<Rightarrow> mode_op \<Rightarrow> bool \<Rightarrow> bool \<Rightarrow> world_op" where
  "handleTimer sp cpm left_ok right_ok w0 =
     (let pm = M_playmode w0;
          w = R_penalty_update (\<lambda>r. r\<lparr>PR_timer := PR_timer r - 1\<rparr>) w0;
          ps = PR_pen_side (R_penalty w)
      in if pen_scored_mode pm then Some (freeze_ball (PR_cur_pen_taker (R_penalty w)) w)
         else if left_ok \<and> right_ok
         then
           (if crossGoalLine sp ps (PR_prev_ball_pos (R_penalty w)) w
            then do {
              w1 \<leftarrow> (if pm = PM_PenaltyTaken_Left then penalty_score sp cpm LEFT w
                     else if pm = PM_PenaltyTaken_Right then penalty_score sp cpm RIGHT w
                     else Some w);
              Some (freeze_ball (PR_pen_side (R_penalty w1)) w1)
            }
            else if ball_outside sp w
            then
              (let w1 = freeze_ball ps w
               in if pm = PM_PenaltyTaken_Left then penalty_miss sp cpm LEFT w1
                  else if pm = PM_PenaltyTaken_Right then penalty_miss sp cpm RIGHT w1
                  else Some w1)
            else Some w)
         else if pen_ready_mode pm \<or> pen_taken_mode pm
         then
           (if penCoachMovesPlayers sp
            then Some (place_if sp right_ok RIGHT (place_if sp left_ok LEFT w))
            else foul_by_check sp cpm left_ok right_ok w)
         else Some w)"

definition PenaltyRef_analyseImpl :: "sparam \<Rightarrow> mode_op \<Rightarrow> world_op" where
  "PenaltyRef_analyseImpl sp cpm w =
     (if \<not> shootout (M_playmode w) then Some w
      else if PR_timeover (R_penalty w) then cpm PM_TimeOver w
      else
        let pm = M_playmode w;
            l0 = penalty_check_players sp LEFT w;
            r0 = penalty_check_players sp RIGHT w;
            (w1, l1, r1) =
              (if penCoachMovesPlayers sp \<and> (pen_ready_mode pm \<or> pen_taken_mode pm)
               then (place_if sp r0 RIGHT (place_if sp l0 LEFT w), True, True)
               else (w, l0, r0));
            timer = PR_timer (R_penalty w1)
        in if timer < 0 then Some w1
           else if timer = 0 then handleTimeout sp cpm l1 r1 w1
           else handleTimer sp cpm l1 r1 w1)"

definition shootout_due :: "sparam \<Rightarrow> world \<Rightarrow> bool" where
  "shootout_due sp w \<longleftrightarrow>
     PR_first_time (R_penalty w) \<and> penaltyShootOuts sp \<and> M_playmode w \<noteq> PM_BeforeKickOff
     \<and> T_point (M_team_l w) = T_point (M_team_r w)
     \<and> ((halfTime sp < 0 \<and> nrNormalHalfs sp + nrExtraHalfs sp = 0)
        \<or> (halfTime sp \<ge> 0 \<and> M_time w \<ge> halfTime sp * nrNormalHalfs sp
                                        + extraHalfTime sp * nrExtraHalfs sp))"

definition startPenaltyShootout :: "sparam \<Rightarrow> mode_op \<Rightarrow> world_op" where
  "startPenaltyShootout sp cpm w =
     (if shootout_due sp w
      then do {
        let (u1, w1) = draw (drand 0 1) w;
        let ps = (if u1 < 0.5 then LEFT else RIGHT);
        let w2 = sendRefereeAudio (if ps = LEFT then ''penalty_onfield_l'' else ''penalty_onfield_r'')
                   (clearBallCatcher (R_penalty_update (\<lambda>r. r\<lparr>PR_pen_side := ps\<rparr>) w1));
        let (u2, w3) = draw (drand 0 1) w2;
        let w4 = R_penalty_update (\<lambda>r. r\<lparr>PR_cur_pen_taker := (if u2 < 0.5 then LEFT else RIGHT)\<rparr>) w3;
        let gs = (if ps = LEFT then RIGHT else LEFT);
        let w5 = map_players
                   (\<lambda>p. if M_enable p \<and> M_side p = gs \<and> M_goalie p
                        then moveTo (PVector (of_int (- side_int ps) * (PITCH_LENGTH / 2 - 10)) 10) p
                        else p) w4;
        w6 \<leftarrow> penalty_init sp cpm w5;
        Some (R_penalty_update (\<lambda>r. r\<lparr>PR_first_time := False\<rparr>) w6)
      }
      else Some w)"

definition PenaltyRef_analyse :: "sparam \<Rightarrow> mode_op \<Rightarrow> world_op" where
  "PenaltyRef_analyse sp cpm w = do {
     w1 \<leftarrow> startPenaltyShootout sp cpm w;
     w2 \<leftarrow> PenaltyRef_analyseImpl sp cpm w1;
     Some (R_penalty_update (\<lambda>r. r\<lparr>PR_prev_ball_pos := M_pos (M_ball w2)\<rparr>) w2)
   }"

section \<open>Kicks and catches\<close>

definition PenaltyRef_ballCaught :: "sparam \<Rightarrow> mode_op \<Rightarrow> nat \<Rightarrow> world_op" where
  "PenaltyRef_ballCaught sp cpm c w =
     (let pm = M_playmode w; cur = PR_cur_pen_taker (R_penalty w); s = M_side (pl w c)
      in if \<not> shootout pm then Some w
         else do {
           w1 \<leftarrow> (if pen_taken_mode pm
                  then (if s = cur then penalty_foul sp cpm cur w
                        else if \<not> inPenaltyArea sp (PR_pen_side (R_penalty w)) (M_pos (M_ball w))
                        then penalty_foul sp cpm (opp_side cur) w
                        else penalty_miss sp cpm cur w)
                  else if pen_ready_mode pm then penalty_foul sp cpm s w
                  else Some w);
           Some (freeze_ball NEUTRAL w1)
         })"

definition PenaltyRef_ballPunched :: "sparam \<Rightarrow> mode_op \<Rightarrow> nat \<Rightarrow> world_op" where
  "PenaltyRef_ballPunched sp cpm c w = PenaltyRef_ballCaught sp cpm c w"

text \<open>\<^verbatim>\<open>insert\<close>, and \<^verbatim>\<open>clear\<close> once all eleven have kicked.\<close>

definition insert_taken :: "int \<Rightarrow> int set \<Rightarrow> int set" where
  "insert_taken u s = (let s' = insert u s in if card s' = MAX_PLAYER then {} else s')"

definition judge_kick :: "sparam \<Rightarrow> mode_op \<Rightarrow> nat \<Rightarrow> world_op" where
  "judge_kick sp cpm k w =
     (let pm = M_playmode w; r = R_penalty w; cur = PR_cur_pen_taker r; p = pl w k; s = M_side p
      in if M_ball_catcher w \<noteq> None then Some w
         else if pen_setup_mode pm then penalty_foul sp cpm s w
         else if \<not> penAllowMultiKicks sp \<and> pen_taken_mode pm \<and> s = cur then penalty_foul sp cpm cur w
         else if pen_ready_mode pm \<or> pen_taken_mode pm
         then
           (if pen_ready_mode pm \<and> s = cur \<and> already_taken cur w (M_unum p)
            then penalty_foul sp cpm cur w
            else if (case PR_last_taker r of Some t \<Rightarrow> M_side (pl w t) = cur \<and> t \<noteq> k | None \<Rightarrow> False)
            then penalty_foul sp cpm cur w
            else if s \<noteq> cur \<and> \<not> M_goalie p then penalty_foul sp cpm (opp_side cur) w
            else Some (R_penalty_update (\<lambda>r. r\<lparr>PR_last_taker := Some k\<rparr>) w))
         else Some w)"

definition PenaltyRef_kickTaken :: "sparam \<Rightarrow> mode_op \<Rightarrow> nat \<Rightarrow> world_op" where
  "PenaltyRef_kickTaken sp cpm k w =
     (if \<not> shootout (M_playmode w) then Some w
      else do {
        w1 \<leftarrow> judge_kick sp cpm k w;
        let pm = M_playmode w1;
        let u = M_unum (pl w1 k);
        if pm = PM_PenaltyReady_Left
        then cpm PM_PenaltyTaken_Left
               (R_penalty_update (\<lambda>r. r\<lparr>PR_sLeftPenTaken := insert_taken u (PR_sLeftPenTaken r)\<rparr>) w1)
        else if pm = PM_PenaltyReady_Right
        then cpm PM_PenaltyTaken_Right
               (R_penalty_update (\<lambda>r. r\<lparr>PR_sRightPenTaken := insert_taken u (PR_sRightPenTaken r)\<rparr>) w1)
        else if \<not> pen_taken_mode pm
        then Some (freeze_ball (PR_pen_side (R_penalty w1)) w1)
        else Some w1
      })"

definition PenaltyRef_tackleTaken :: "sparam \<Rightarrow> mode_op \<Rightarrow> nat \<Rightarrow> bool \<Rightarrow> world_op" where
  "PenaltyRef_tackleTaken sp cpm t foul w =
     (if \<not> shootout (M_playmode w) then Some w
      else if pen_scored_mode (M_playmode w) then Some w
      else
        let ((charge, yellow, red), w1) = checkFoul sp t foul w;
            cur = PR_cur_pen_taker (R_penalty w1)
        in if charge \<or> yellow \<or> red
           then (if M_side (pl w1 t) = cur then penalty_foul sp cpm cur w1
                 else penalty_foul sp cpm (opp_side cur) w1)
           else PenaltyRef_kickTaken sp cpm t w1)"

definition PenaltyRef_playModeChange :: "sparam \<Rightarrow> playmode \<Rightarrow> world \<Rightarrow> world" where
  "PenaltyRef_playModeChange sp pm w =
     (if \<not> shootout (M_playmode w) then w
      else if pen_setup_mode pm
      then R_penalty_update (\<lambda>r. r\<lparr>PR_last_taker := None, PR_timer := penSetupWait sp\<rparr>) w
      else if pen_ready_mode pm
      then R_penalty_update (\<lambda>r. r\<lparr>PR_last_taker := None, PR_timer := penReadyWait sp\<rparr>) w
      else if pen_taken_mode pm
      then R_penalty_update (\<lambda>r. r\<lparr>PR_timer := penTakenWait sp\<rparr>) w
      else if pen_scored_mode pm
      then R_penalty_update (\<lambda>r. r\<lparr>PR_last_taker := None, PR_timer := penBeforeSetupWait sp\<rparr>) w
      else R_penalty_update (\<lambda>r. r\<lparr>PR_last_taker := None\<rparr>) w)"

section \<open>What a change of the play mode leaves alone\<close>

lemma core_PenaltyRef_playModeChange [simp]: "core (PenaltyRef_playModeChange sp pm w) = core w"
  by (simp add: PenaltyRef_playModeChange_def core_penalty_update penalty_core_def)

end
