(* ===== verification/Stadium.thy ===== *)
theory Stadium
  imports Collision RefTime RefFoul RefIllegal RefKeepaway RefPenalty
begin

text \<open>
  \<^verbatim>\<open>Stadium\<close> of stadium.cpp where it calls the referees: the change of the play mode, the
  messages for kicks, tackles and catches, the operations of the coach, and one simulation
  step.  The order of the referees is that of the constructor.
\<close>

section \<open>The change of the play mode\<close>

text \<open>
  One call of \<^verbatim>\<open>changePlayMode\<close>, whose inner calls are \<open>cpm\<close>.  The referees whose
  \<^verbatim>\<open>playModeChange\<close> is empty (time and ball stuck) are left out.
\<close>

definition kick_off_side_after :: "playmode \<Rightarrow> side \<Rightarrow> side" where
  "kick_off_side_after pm s =
     (if pm \<in> {PM_KickOff_Left, PM_KickIn_Left, PM_FreeKick_Left, PM_IndFreeKick_Left,
               PM_CornerKick_Left, PM_GoalKick_Left, PM_Illegal_Defense_Right} then LEFT
      else if pm \<in> {PM_KickOff_Right, PM_KickIn_Right, PM_FreeKick_Right, PM_IndFreeKick_Right,
                    PM_CornerKick_Right, PM_GoalKick_Right, PM_Illegal_Defense_Left} then RIGHT
      else if pm = PM_Drop_Ball then NEUTRAL
      else s)"

definition playModeChange_all :: "sparam \<Rightarrow> mode_op \<Rightarrow> mode_op" where
  "playModeChange_all sp cpm pm w = do {
     let w1 = OffsideRef_playModeChange pm w;
     w2 \<leftarrow> FreeKickRef_playModeChange sp (collisions sp cpm) pm w1;
     let w3 = TouchRef_playModeChange pm w2;
     let w4 = CatchRef_playModeChange pm w3;
     let w5 = FoulRef_playModeChange pm w4;
     let w6 = IllegalDefenseRef_playModeChange pm w5;
     let w7 = KeepawayRef_playModeChange sp pm w6;
     Some (PenaltyRef_playModeChange sp pm w7)
   }"

definition changePlayMode_body :: "sparam \<Rightarrow> mode_op \<Rightarrow> mode_op" where
  "changePlayMode_body sp cpm pm w = do {
     w1 \<leftarrow> playModeChange_all sp cpm pm (w\<lparr>M_playmode := pm\<rparr>);
     let w2 = w1\<lparr>M_kick_off_side := kick_off_side_after pm (M_kick_off_side w1)\<rparr>;
     let w3 = (if pm = PM_PlayOn then w2\<lparr>M_last_playon_start := M_time w2\<rparr> else w2);
     Some (if pm \<noteq> PM_AfterGoal_Left \<and> pm \<noteq> PM_AfterGoal_Right
           then sendRefereeAudio (playmode_string pm) w3 else w3)
   }"

text \<open>
  The fuel bounds the nesting of mode changes, not their number: \<open>None\<close> is a nesting deeper
  than the fuel.
\<close>

fun changePlayMode :: "sparam \<Rightarrow> nat \<Rightarrow> mode_op" where
  "changePlayMode sp 0 pm w = None"
| "changePlayMode sp (Suc n) pm w = changePlayMode_body sp (changePlayMode sp n) pm w"

section \<open>What a mode change leaves alone\<close>

lemma core_playModeChange_simple [simp]:
  "core (OffsideRef_playModeChange pm w) = core w"
  "core (FoulRef_playModeChange pm w) = core w"
  "core (IllegalDefenseRef_playModeChange pm w) = core w"
  by (simp_all add: OffsideRef_playModeChange_def FoulRef_playModeChange_def
      IllegalDefenseRef_playModeChange_def)

context mode_ops
begin

lemma collisions_ops: "referee_ops cpm (collisions sp cpm)"
  by unfold_locales (rule collisions_core)

lemma playModeChange_all_core:
  assumes "playModeChange_all sp cpm pm w = Some w'"
  shows "core w' = core w"
  using assms
  by (auto simp: playModeChange_all_def Let_def
      dest!: referee_ops.FreeKickRef_playModeChange_core[OF collisions_ops])

lemma changePlayMode_body_core:
  "changePlayMode_body sp cpm pm w = Some w' \<Longrightarrow> core w' = core w"
  by (auto simp: changePlayMode_body_def Let_def dest!: playModeChange_all_core)

end

lemma changePlayMode_core: "changePlayMode sp n pm w = Some w' \<Longrightarrow> core w' = core w"
proof (induction n arbitrary: pm w w')
  case 0
  then show ?case by simp
next
  case (Suc n)
  have "mode_ops (changePlayMode sp n)" using Suc.IH by unfold_locales
  from mode_ops.changePlayMode_body_core[OF this] Suc.prems show ?case by simp
qed

interpretation cp: mode_ops "changePlayMode sp n" for sp n
  by unfold_locales (rule changePlayMode_core)

interpretation cr: referee_ops "changePlayMode sp n" "collisions sp (changePlayMode sp n)" for sp n
  by unfold_locales (rule cp.collisions_core)

section \<open>Messages to the referees\<close>

definition kickTaken :: "sparam \<Rightarrow> mode_op \<Rightarrow> nat \<Rightarrow> pvector \<Rightarrow> world_op" where
  "kickTaken sp cpm k accel w = do {
     let w0 = upd_ball (push accel) (w\<lparr>M_ball_catcher := None\<rparr>);
     let ar = pv_r accel;
     w1 \<leftarrow> OffsideRef_kickTaken sp cpm k ar w0;
     w2 \<leftarrow> FreeKickRef_kickTaken sp cpm k w1;
     let w3 = CatchRef_kickTaken k (TouchRef_kickTaken sp k ar w2);
     let w4 = IllegalDefenseRef_kickTaken sp k w3;
     PenaltyRef_kickTaken sp cpm k w4
   }"

definition failedKickTaken :: "sparam \<Rightarrow> mode_op \<Rightarrow> nat \<Rightarrow> world_op" where
  "failedKickTaken sp cpm k w = OffsideRef_failedKickTaken sp cpm k w"

definition tackleTaken :: "sparam \<Rightarrow> mode_op \<Rightarrow> nat \<Rightarrow> pvector \<Rightarrow> bool \<Rightarrow> world_op" where
  "tackleTaken sp cpm t accel foul w = do {
     let w0 = upd_ball (push accel) (w\<lparr>M_ball_catcher := None\<rparr>);
     let ar = pv_r accel;
     w1 \<leftarrow> OffsideRef_tackleTaken sp cpm t ar foul w0;
     w2 \<leftarrow> FreeKickRef_tackleTaken sp cpm t w1;
     let w3 = CatchRef_tackleTaken t (TouchRef_tackleTaken sp t ar w2);
     w4 \<leftarrow> FoulRef_tackleTaken sp cpm t foul w3;
     let w5 = IllegalDefenseRef_tackleTaken sp t w4;
     PenaltyRef_tackleTaken sp cpm t foul w5
   }"

definition failedTackleTaken :: "sparam \<Rightarrow> mode_op \<Rightarrow> nat \<Rightarrow> bool \<Rightarrow> world_op" where
  "failedTackleTaken sp cpm t foul w = OffsideRef_failedTackleTaken sp cpm t foul w"

definition ballCaught :: "sparam \<Rightarrow> mode_op \<Rightarrow> nat \<Rightarrow> world_op" where
  "ballCaught sp cpm c w = do {
     let w0 = (if \<not> shootout (M_playmode w)
               then sendRefereeAudio (''goalie_catch_ball_'' @ SideStr (M_side (pl w c))) w else w);
     w1 \<leftarrow> collisions sp cpm w0;
     w2 \<leftarrow> ballTouched_all sp cpm c w1;
     w3 \<leftarrow> CatchRef_ballCaught sp cpm c w2;
     w4 \<leftarrow> PenaltyRef_ballCaught sp cpm c w3;
     Some (if M_playmode w4 = PM_FreeKick_Left \<or> M_playmode w4 = PM_FreeKick_Right
           then w4\<lparr>M_ball_catcher := Some c\<rparr> else w4)
   }"

definition ballPunched :: "sparam \<Rightarrow> mode_op \<Rightarrow> nat \<Rightarrow> pvector \<Rightarrow> world_op" where
  "ballPunched sp cpm c accel w = do {
     w1 \<leftarrow> ballTouched_all sp cpm c (upd_ball (push accel) w);
     w2 \<leftarrow> CatchRef_ballPunched sp cpm c w1;
     PenaltyRef_ballPunched sp cpm c w2
   }"

section \<open>Operations of the coach\<close>

definition stadium_callFoul :: "mode_op \<Rightarrow> side \<Rightarrow> pvector \<Rightarrow> world_op" where
  "stadium_callFoul cpm s pos0 w =
     (if shootout (M_playmode w) then Some w
      else do {
        let w1 = (sendRefereeAudio (''foul_'' @ SideStr (opp_side s)) w)\<lparr>M_ball_catcher := None\<rparr>;
        let pos = truncateToPitch pos0;
        w2 \<leftarrow> (if s = LEFT then placeBall_pm cpm PM_FreeKick_Left LEFT pos w1
               else placeBall_pm cpm PM_FreeKick_Right RIGHT pos w1);
        Some ((placePlayersInField w2)\<lparr>M_ball_catcher := None\<rparr>)
      })"

definition dropBall :: "mode_op \<Rightarrow> pvector \<Rightarrow> world_op" where
  "dropBall cpm pos0 w = do {
     let w1 = w\<lparr>M_ball_catcher := None\<rparr>;
     w2 \<leftarrow> placeBall_pm cpm PM_Drop_Ball NEUTRAL (truncateToPitch pos0) w1;
     let w3 = placePlayersInField w2;
     if \<not> shootout (M_playmode w3) then cpm PM_PlayOn w3 else Some w3
   }"

text \<open>\<^verbatim>\<open>Stadium::movePlayer\<close>; a null pointer argument is \<open>None\<close>.\<close>

definition movePlayer ::
  "sparam \<Rightarrow> mode_op \<Rightarrow> side \<Rightarrow> int \<Rightarrow> pvector \<Rightarrow> real option \<Rightarrow> pvector option \<Rightarrow> world
     \<Rightarrow> (bool \<times> world) option" where
  "movePlayer sp cpm s unum pos ang vel w =
     (if unum < 1 \<or> int MAX_PLAYER < unum then Some (False, w)
      else (case getPlayer s unum of
              None \<Rightarrow> Some (False, w)
            | Some i \<Rightarrow> do {
                let p = pl w i;
                let new_angle = (case ang of Some a \<Rightarrow> a | None \<Rightarrow> M_angle_body_committed p);
                let new_vel = (case vel of Some v \<Rightarrow> v | None \<Rightarrow> M_vel p);
                w1 \<leftarrow> collisions sp cpm (upd_player i (place4 pos new_angle new_vel (M_accel p)) w);
                Some (True, w1)
              }))"

end
