(* ===== verification/ModeChange.thy ===== *)
theory ModeChange
  imports Stadium
begin

text \<open>
  A change of the play mode returns.  The referees answer a change by moving players, players
  who are moved may be pushed into the ball, and a touch of the ball may change the play mode
  again; outside goal kicks no touch does, because the change has cleared the offside marks
  and the kick taker first.  What a mode change does to the rest of the world follows.
\<close>

section \<open>A loop whose body ignores a parameter\<close>

lemma foldM_det:
  assumes "\<And>x s. x \<in> set xs \<Longrightarrow> I s \<Longrightarrow> \<exists>s'. (\<forall>c. f c x s = Some s') \<and> I s'" and "I s"
  shows "\<exists>s'. (\<forall>c. foldM (f c) xs s = Some s') \<and> I s'"
  using assms
proof (induction xs arbitrary: s)
  case Nil
  then show ?case by simp
next
  case (Cons x xs)
  from Cons.prems obtain t where t: "\<forall>c. f c x s = Some t" "I t" by fastforce
  have "\<exists>s'. (\<forall>c. foldM (f c) xs t = Some s') \<and> I s'"
    using Cons.IH[OF _ t(2)] Cons.prems(1) by simp
  with t(1) show ?case by simp
qed

section \<open>Worlds in which a touch of the ball sets nothing off\<close>

definition calm :: "world \<Rightarrow> bool" where
  "calm w \<longleftrightarrow>
     M_playmode w \<noteq> PM_PlayOn \<and> \<not> goalKick (M_playmode w) \<and> \<not> FK_kick_taken (R_freekick w)
     \<and> (OR_offside_candidates (R_offside w) = []
        \<or> (OR_last_kick_time (R_offside w) = M_time w
           \<and> OR_last_kick_stoppage_time (R_offside w) = M_stoppage_time w))"

text \<open>What a touch of the ball does not change in such a world, beside the core.\<close>

record world_still =
  S_playmode :: playmode
  S_kick_off_side :: side
  S_audio :: "string list"
  S_catcher :: "nat option"
  S_playon :: int
  S_freekick :: freekick_ref
  S_foul :: foul_ref
  S_illegal :: illegal_ref
  S_keepaway :: keepaway_ref
  S_penalty :: penalty_ref
  S_offside :: "pvector \<times> int"
  S_touch :: "int \<times> pvector"
  S_catch :: "int \<times> int"

definition still :: "world \<Rightarrow> world_still" where
  "still w =
     \<lparr>S_playmode = M_playmode w, S_kick_off_side = M_kick_off_side w, S_audio = w_audio w,
      S_catcher = M_ball_catcher w, S_playon = M_last_playon_start w,
      S_freekick = R_freekick w, S_foul = R_foul w,
      S_illegal = R_illegal w, S_keepaway = R_keepaway w, S_penalty = R_penalty w,
      S_offside = (OR_offside_pos (R_offside w), OR_after_offside_time (R_offside w)),
      S_touch = (TR_after_goal_time (R_touch w), TR_prev_ball_pos (R_touch w)),
      S_catch = (CR_after_back_pass_time (R_catch w), CR_after_catch_fault_time (R_catch w))\<rparr>"

definition undisturbed :: "world \<Rightarrow> world \<Rightarrow> bool" where
  "undisturbed v w \<longleftrightarrow>
     calm w \<and> still w = still v \<and> core w = core v
     \<and> M_pos (M_ball w) = M_pos (M_ball v)
     \<and> (M_vel (M_ball v) = PVector 0 0 \<longrightarrow> M_vel (M_ball w) = PVector 0 0)"

lemma undisturbed_refl: "calm w \<Longrightarrow> undisturbed w w"
  by (simp add: undisturbed_def)

lemma undisturbed_trans: "undisturbed u v \<Longrightarrow> undisturbed v w \<Longrightarrow> undisturbed u w"
  by (simp add: undisturbed_def)

text \<open>Moving objects touches neither part: the world with its objects taken out.\<close>

definition bare :: "world \<Rightarrow> world" where
  "bare w = w\<lparr>M_players := [], M_ball := M_ball (undefined :: world), w_rng := sconst 0\<rparr>"

lemma bare_eqD:
  assumes "bare w' = bare w"
  shows "still w' = still w" "calm w' = calm w"
proof -
  have "still w = still (bare w)" "calm w = calm (bare w)" for w
    by (simp_all add: still_def calm_def bare_def)
  then show "still w' = still w" "calm w' = calm w" using assms by metis+
qed

lemma bare_ops [simp]:
  "bare (upd_player i f w) = bare w" "bare (map_players f w) = bare w"
  "bare (upd_ball g w) = bare w"
  by (simp_all add: bare_def upd_player_def map_players_def upd_ball_def)

lemma bare_draw: "bare (snd (draw f w)) = bare w"
  by (simp add: bare_def draw_def split_beta)

lemma ball_ops [simp]:
  "M_ball (upd_player i f w) = M_ball w" "M_ball (map_players f w) = M_ball w"
  "M_ball (upd_ball g w) = g (M_ball w)"
  by (simp_all add: upd_player_def map_players_def upd_ball_def)

lemma ball_draw: "M_ball (snd (draw f w)) = M_ball w"
  by (simp add: draw_def split_beta)

section \<open>Collisions in a calm world\<close>

lemma FreeKickRef_ballTouched_calm:
  "calm w \<Longrightarrow> FreeKickRef_ballTouched sp cpm k w = Some w"
  by (auto simp: FreeKickRef_ballTouched_def after_restart_def calm_def goal_kick_intruder_def
      goalKick_def Let_def)

lemma OffsideRef_ballTouched_calm:
  assumes "calm w"
  shows "\<exists>r. (\<forall>cpm. OffsideRef_ballTouched sp cpm k w = Some (w\<lparr>R_offside := r\<rparr>))
             \<and> OR_offside_pos r = OR_offside_pos (R_offside w)
             \<and> OR_after_offside_time r = OR_after_offside_time (R_offside w)
             \<and> (OR_offside_candidates r = []
                \<or> (OR_last_kick_time r = M_time w \<and> OR_last_kick_stoppage_time r = M_stoppage_time w))"
proof -
  consider "\<not> useOffside sp"
    | "useOffside sp" "OR_last_kick_time (R_offside w) = M_time w"
      "OR_last_kick_stoppage_time (R_offside w) = M_stoppage_time w"
    | "useOffside sp" "\<not> (OR_last_kick_time (R_offside w) = M_time w
                         \<and> OR_last_kick_stoppage_time (R_offside w) = M_stoppage_time w)"
      "OR_offside_candidates (R_offside w) = []"
    using assms by (auto simp: calm_def)
  then show ?thesis
  proof cases
    case 1
    then show ?thesis
      using assms
      by (intro exI[of _ "R_offside w"])
         (simp add: OffsideRef_ballTouched_def setOffsideMark_def calm_def)
  next
    case 2
    then show ?thesis
      by (intro exI[of _ "(R_offside w)\<lparr>OR_last_kicker_side := NEUTRAL, OR_offside_candidates := []\<rparr>"])
         (simp add: OffsideRef_ballTouched_def setOffsideMark_def)
  next
    case 3
    have "OffsideRef_ballTouched sp cpm k w = Some (new_marks k (w\<lparr>R_offside := mark_kick k 0 w\<rparr>))"
      for cpm
      unfolding OffsideRef_ballTouched_def setOffsideMark_def Let_def if_not_P[OF 3(2)]
      using 3(1,3) by simp
    then show ?thesis
      by (intro exI[of _ "R_offside (new_marks k (w\<lparr>R_offside := mark_kick k 0 w\<rparr>))"])
         (simp add: new_marks_def)
  qed
qed

lemma CatchRef_ballTouched_catch:
  "\<exists>r. CatchRef_ballTouched k w = w\<lparr>R_catch := r\<rparr>
       \<and> CR_after_back_pass_time r = CR_after_back_pass_time (R_catch w)
       \<and> CR_after_catch_fault_time r = CR_after_catch_fault_time (R_catch w)"
proof -
  have "CR_after_back_pass_time (team_touched s r) = CR_after_back_pass_time r"
    "CR_after_catch_fault_time (team_touched s r) = CR_after_catch_fault_time r"
    "CR_after_back_pass_time (forget_passers r) = CR_after_back_pass_time r"
    "CR_after_catch_fault_time (forget_passers r) = CR_after_catch_fault_time r" for s r
    by (simp_all add: team_touched_def forget_passers_def)
  note keeps = this
  show ?thesis
    unfolding CatchRef_ballTouched_def Let_def
    by (rule exI, rule conjI, rule refl) (simp add: keeps)
qed

lemma TouchRef_ballTouched_touch:
  "\<exists>r. TouchRef_ballTouched sp k w = w\<lparr>R_touch := r\<rparr>
       \<and> TR_after_goal_time r = TR_after_goal_time (R_touch w)
       \<and> TR_prev_ball_pos r = TR_prev_ball_pos (R_touch w)"
proof (cases "on_pitch_x sp w")
  case True
  then show ?thesis
    by (intro exI[of _ "touch (M_time w) (M_playmode w) k 0 (R_touch w)"])
       (simp add: TouchRef_ballTouched_def touch_def Let_def)
next
  case False
  then show ?thesis
    by (intro exI[of _ "R_touch w"]) (simp add: TouchRef_ballTouched_def)
qed

text \<open>A touch: the referees answer without a call, and no object moves.\<close>

lemma ballTouched_all_calm:
  assumes "calm w"
  obtains w' where "\<And>cpm. ballTouched_all sp cpm k w = Some w'"
    and "calm w'" and "still w' = still w" and "core w' = core w" and "M_ball w' = M_ball w"
proof -
  obtain r where r: "\<And>cpm. OffsideRef_ballTouched sp cpm k w = Some (w\<lparr>R_offside := r\<rparr>)"
    "OR_offside_pos r = OR_offside_pos (R_offside w)"
    "OR_after_offside_time r = OR_after_offside_time (R_offside w)"
    "OR_offside_candidates r = []
     \<or> (OR_last_kick_time r = M_time w \<and> OR_last_kick_stoppage_time r = M_stoppage_time w)"
    using OffsideRef_ballTouched_calm[OF assms] by blast
  let ?u = "w\<lparr>R_offside := r\<rparr>"
  have calm: "calm ?u" using assms r(4) by (auto simp: calm_def)
  obtain t where t: "TouchRef_ballTouched sp k ?u = ?u\<lparr>R_touch := t\<rparr>"
    "TR_after_goal_time t = TR_after_goal_time (R_touch w)"
    "TR_prev_ball_pos t = TR_prev_ball_pos (R_touch w)"
    using TouchRef_ballTouched_touch[of sp k ?u] by auto
  let ?v = "?u\<lparr>R_touch := t\<rparr>"
  obtain c where c: "CatchRef_ballTouched k ?v = ?v\<lparr>R_catch := c\<rparr>"
    "CR_after_back_pass_time c = CR_after_back_pass_time (R_catch w)"
    "CR_after_catch_fault_time c = CR_after_catch_fault_time (R_catch w)"
    using CatchRef_ballTouched_catch[of k ?v] by auto
  have all: "ballTouched_all sp cpm k w = Some (?v\<lparr>R_catch := c\<rparr>)" for cpm
    by (simp add: ballTouched_all_def r(1) FreeKickRef_ballTouched_calm[OF calm] t(1) c(1))
  show ?thesis
  proof (rule that[OF all])
    show "calm (?v\<lparr>R_catch := c\<rparr>)" using calm by (simp add: calm_def)
    show "still (?v\<lparr>R_catch := c\<rparr>) = still w" by (simp add: still_def r t c)
    show "core (?v\<lparr>R_catch := c\<rparr>) = core w" by (simp add: core_def)
  qed simp
qed

text \<open>
  One round.  The positions collected for the ball are all its own, so that their mean is
  where the ball lies.
\<close>

definition round_inv :: "world \<Rightarrow> bool \<times> world \<Rightarrow> bool" where
  "round_inv v acc \<longleftrightarrow>
     (let b = M_ball (snd acc)
      in calm (snd acc) \<and> still (snd acc) = still v \<and> core (snd acc) = core v
         \<and> M_pos b = M_pos (M_ball v) \<and> M_vel b = M_vel (M_ball v)
         \<and> 0 \<le> M_collision_count b
         \<and> M_post_collision_pos b = pv_scale (M_pos b) (of_int (M_collision_count b)))"

lemma pv_scale_add: "pv_scale v a + v = pv_scale v (a + 1)"
  by (simp add: pv_scale_def plus_pvector_def algebra_simps)

lemma ball_step_calm:
  assumes "round_inv v acc"
  shows "\<exists>acc'. (\<forall>cpm. ball_step sp cpm i acc = Some acc') \<and> round_inv v acc'"
proof -
  obtain coll w where acc: "acc = (coll, w)" by fastforce
  note inv = assms[unfolded round_inv_def acc Let_def snd_conv]
  show ?thesis
  proof (cases "touches_ball i w")
    case False
    then show ?thesis using assms by (simp add: ball_step_def acc)
  next
    case True
    let ?u = "upd_player i collidedWithBall w"
    have u: "calm ?u" "still ?u = still w" "core ?u = core w" "M_ball ?u = M_ball w"
      using inv bare_eqD[of ?u w] by (simp_all add: core_upd_player)
    obtain w1 where w1: "\<And>cpm. ballTouched_all sp cpm i ?u = Some w1" "calm w1"
      "still w1 = still ?u" "core w1 = core ?u" "M_ball w1 = M_ball ?u"
      using ballTouched_all_calm[OF u(1)] by metis
    let ?r = "calcBallCollisionPos i w1"
    have pm: "M_playmode w1 \<noteq> PM_PlayOn" using w1(2) by (simp add: calm_def)
    have bare: "bare ?r = bare w1"
      using pm by (simp add: calcBallCollisionPos_def Let_def split_beta bare_draw)
    have ball: "M_ball ?r = collide (M_pos (M_ball w)) (M_ball w)"
      using pm w1(5) u(4) by (simp add: calcBallCollisionPos_def Let_def split_beta ball_draw)
    have "round_inv v (True, ?r)"
      unfolding round_inv_def Let_def snd_conv
      using inv bare_eqD[OF bare] w1 u ball by (simp add: collide_def pv_scale_add)
    then show ?thesis
      using True w1(1) by (simp add: ball_step_def acc)
  qed
qed

lemma pair_step_frame:
  "bare (snd (pair_step ij acc)) = bare (snd acc)"
  "M_ball (snd (pair_step ij acc)) = M_ball (snd acc)"
  by (simp_all add: pair_step_def calcCollisionPos_players_def split_beta Let_def bare_draw ball_draw)

lemma fold_pair_step_frame:
  "bare (snd (fold pair_step ijs acc)) = bare (snd acc)"
  "M_ball (snd (fold pair_step ijs acc)) = M_ball (snd acc)"
  by (induction ijs arbitrary: acc) (simp_all add: pair_step_frame)

lemma collision_round_calm:
  assumes "calm v"
  shows "\<exists>coll w'. (\<forall>cpm. collision_round sp cpm v = Some (coll, w')) \<and> undisturbed v w'
                  \<and> M_vel (M_ball w') = M_vel (M_ball v)"
proof -
  let ?n = "length (M_players v)"
  have bare0: "bare (clear_all v) = bare v" by (simp add: clear_all_def)
  have "round_inv v (False, clear_all v)"
    using assms bare_eqD[OF bare0] core_clear_all[of v]
    by (simp add: round_inv_def Let_def clear_all_def clearCollision_def pv_scale_def)
  then obtain acc where acc: "\<And>cpm. foldM (ball_step sp cpm) [0..<?n] (False, clear_all v) = Some acc"
    "round_inv v acc"
    using foldM_det[of "[0..<?n]" "round_inv v" "ball_step sp"] ball_step_calm by metis
  let ?p = "fold pair_step (player_pairs ?n) acc"
  have pair: "bare (snd ?p) = bare (snd acc)" "M_ball (snd ?p) = M_ball (snd acc)"
    "core (snd ?p) = core (snd acc)"
    by (simp_all add: fold_pair_step_frame core_fold_pair_step)
  let ?w = "move_all (snd ?p)"
  have bare_w: "bare ?w = bare (snd acc)" using pair(1) by (simp add: move_all_def)
  have ball_w: "M_ball ?w = moveToCollisionPos (M_ball (snd acc))"
    using pair(2) by (simp add: move_all_def)
  note inv = acc(2)[unfolded round_inv_def Let_def]
  have "pv_scale (pv_scale q (of_int c)) (1 / of_int c) = q" if "0 < c" for q and c :: int
    using that by (simp add: pv_scale_def)
  with inv have pos: "M_pos (moveToCollisionPos (M_ball (snd acc))) = M_pos (M_ball v)"
    by (simp add: moveToCollisionPos_def Let_def)
  have vel: "M_vel (moveToCollisionPos (M_ball (snd acc))) = M_vel (M_ball v)"
    using inv by (simp add: moveToCollisionPos_def Let_def)
  have "undisturbed v ?w"
    unfolding undisturbed_def
    using inv pair(3) bare_eqD[OF bare_w] pos vel ball_w by simp
  moreover have "collision_round sp cpm v = Some (fst ?p, ?w)" for cpm
    by (simp add: collision_round_def acc(1) split_beta Let_def)
  ultimately show ?thesis using vel ball_w by auto
qed

lemma collision_loop_calm:
  "calm v \<Longrightarrow> \<exists>w'. (\<forall>cpm. collision_loop sp cpm n v = Some w') \<and> undisturbed v w'"
proof (induction n arbitrary: v)
  case 0
  then show ?case by (simp add: undisturbed_refl)
next
  case (Suc n)
  obtain coll w where w: "\<And>cpm. collision_round sp cpm v = Some (coll, w)" "undisturbed v w"
    using collision_round_calm[OF Suc.prems] by metis
  have "calm w" using w(2) by (simp add: undisturbed_def)
  from Suc.IH[OF this] obtain w' where
    w': "\<And>cpm. collision_loop sp cpm n w = Some w'" "undisturbed w w'" by metis
  show ?case
    using w w' undisturbed_trans[OF w(2) w'(2)] by (cases coll) auto
qed

lemma collisions_calm:
  assumes "calm v"
  shows "\<exists>w'. (\<forall>cpm. collisions sp cpm v = Some w') \<and> undisturbed v w'"
proof -
  obtain w where w: "\<And>cpm. collision_loop sp cpm 10 v = Some w" "undisturbed v w"
    using collision_loop_calm[OF assms] by metis
  let ?w = "map_players updateCollisionVel (upd_ball updateCollisionVel w)"
  have "bare ?w = bare w" by simp
  moreover have "core ?w = core w" by (simp add: core_map_players)
  ultimately have "undisturbed v ?w"
    using w(2) bare_eqD[of ?w w] by (simp add: undisturbed_def updateCollisionVel_def pv_scale_def)
  then show ?thesis using w(1) by (simp add: collisions_def)
qed

section \<open>Clearing the players from the ball\<close>

lemma clear_loop_calm:
  assumes "calm v"
  shows "\<exists>w'. (\<forall>cpm. clear_loop (collisions sp cpm) corner cd ind s n v = Some w') \<and> undisturbed v w'"
  using assms
proof (induction n arbitrary: v)
  case 0
  then show ?case by (simp add: undisturbed_refl)
next
  case (Suc n)
  show ?case
  proof (cases "anyone_to_clear cd ind s v")
    case False
    then show ?thesis using Suc.prems by (simp add: undisturbed_refl)
  next
    case True
    let ?u = "clear_round corner cd ind s v"
    have "bare ?u = bare v" by (simp add: clear_round_def)
    from bare_eqD[OF this] have u: "undisturbed v ?u"
      using Suc.prems core_clear_round by (simp add: undisturbed_def) (simp add: clear_round_def)
    then have "calm ?u" by (simp add: undisturbed_def)
    from collisions_calm[OF this] obtain w where
      w: "\<And>cpm. collisions sp cpm ?u = Some w" "undisturbed ?u w" by metis
    have "calm w" using w(2) by (simp add: undisturbed_def)
    from Suc.IH[OF this] obtain w' where
      w': "\<And>cpm. clear_loop (collisions sp cpm) corner cd ind s n w = Some w'" "undisturbed w w'"
      by metis
    have "undisturbed v w'" using undisturbed_trans u w(2) w'(2) by blast
    then show ?thesis using True w(1) w'(1) by auto
  qed
qed

lemma clearPlayersFromBall_calm:
  "calm v \<Longrightarrow>
    \<exists>w'. (\<forall>cpm. clearPlayersFromBall sp (collisions sp cpm) s v = Some w') \<and> undisturbed v w'"
  by (simp add: clearPlayersFromBall_def Let_def clear_loop_calm)

section \<open>The answer of each referee\<close>

definition no_kick :: "playmode \<Rightarrow> world \<Rightarrow> world" where
  "no_kick pm w =
     (if pm \<noteq> PM_PlayOn then R_freekick_update (\<lambda>r. r\<lparr>FK_kick_taken := False\<rparr>) w else w)"

text \<open>The world with the referees and the catcher taken out.\<close>

definition unref :: "world \<Rightarrow> world" where
  "unref w =
     w\<lparr>R_offside := R_offside (undefined :: world), R_freekick := R_freekick (undefined :: world),
       R_touch := R_touch (undefined :: world), R_catch := R_catch (undefined :: world),
       R_foul := R_foul (undefined :: world), R_illegal := R_illegal (undefined :: world),
       R_penalty := R_penalty (undefined :: world), M_ball_catcher := None\<rparr>"

lemma unref_eqD:
  assumes "unref w' = unref w"
  shows "M_playmode w' = M_playmode w" "M_kick_off_side w' = M_kick_off_side w"
    "w_audio w' = w_audio w" "M_ball w' = M_ball w" "M_players w' = M_players w"
    "M_time w' = M_time w" "M_stoppage_time w' = M_stoppage_time w"
    "M_last_playon_start w' = M_last_playon_start w"
proof -
  have id: "M_playmode w = M_playmode (unref w)" "M_kick_off_side w = M_kick_off_side (unref w)"
    "w_audio w = w_audio (unref w)" "M_ball w = M_ball (unref w)" "M_players w = M_players (unref w)"
    "M_time w = M_time (unref w)" "M_stoppage_time w = M_stoppage_time (unref w)"
    "M_last_playon_start w = M_last_playon_start (unref w)" for w
    by (simp_all add: unref_def)
  show "M_playmode w' = M_playmode w" "M_kick_off_side w' = M_kick_off_side w"
    "w_audio w' = w_audio w" "M_ball w' = M_ball w" "M_players w' = M_players w"
    "M_time w' = M_time w" "M_stoppage_time w' = M_stoppage_time w"
    "M_last_playon_start w' = M_last_playon_start w"
    using assms id by metis+
qed

lemma unref_updates [simp]:
  "unref (R_freekick_update f w) = unref w" "unref (clearBallCatcher w) = unref w"
  by (simp_all add: unref_def clearBallCatcher_def)

lemma unref_freekick_timers [simp]: "unref (freekick_timers sp pm w) = unref w"
  by (simp add: freekick_timers_def Let_def if_distrib[of unref] cong del: if_weak_cong
      split del: if_split)

lemma unref_playModeChange [simp]:
  "unref (OffsideRef_playModeChange pm w) = unref w"
  "unref (TouchRef_playModeChange pm w) = unref w"
  "unref (CatchRef_playModeChange pm w) = unref w"
  "unref (FoulRef_playModeChange pm w) = unref w"
  "unref (IllegalDefenseRef_playModeChange pm w) = unref w"
  "unref (PenaltyRef_playModeChange sp pm w) = unref w"
  "unref (no_kick pm w) = unref w"
  by (simp_all add: OffsideRef_playModeChange_def TouchRef_playModeChange_def
      CatchRef_playModeChange_def FoulRef_playModeChange_def IllegalDefenseRef_playModeChange_def
      PenaltyRef_playModeChange_def no_kick_def unref_def clearBallCatcher_def Let_def)

lemma freekick_timers_reads [simp]:
  "R_offside (freekick_timers sp pm w) = R_offside w"
  "R_touch (freekick_timers sp pm w) = R_touch w"
  "FK_kick_taken (R_freekick (freekick_timers sp pm w)) = FK_kick_taken (R_freekick w)"
  "FK_timer (R_freekick (freekick_timers sp pm w)) =
     (if freeKick pm \<or> goalKick pm then dropTime sp else - 1)"
  by (auto simp: freekick_timers_def Let_def clearBallCatcher_def)

lemma playModeChange_reads [simp]:
  "R_offside (TouchRef_playModeChange pm w) = R_offside w"
  "R_offside (CatchRef_playModeChange pm w) = R_offside w"
  "R_offside (FoulRef_playModeChange pm w) = R_offside w"
  "R_offside (IllegalDefenseRef_playModeChange pm w) = R_offside w"
  "R_offside (PenaltyRef_playModeChange sp pm w) = R_offside w"
  "R_freekick (OffsideRef_playModeChange pm w) = R_freekick w"
  "R_freekick (TouchRef_playModeChange pm w) = R_freekick w"
  "R_freekick (CatchRef_playModeChange pm w) = R_freekick w"
  "R_freekick (FoulRef_playModeChange pm w) = R_freekick w"
  "R_freekick (IllegalDefenseRef_playModeChange pm w) = R_freekick w"
  "R_freekick (PenaltyRef_playModeChange sp pm w) = R_freekick w"
  "R_touch (OffsideRef_playModeChange pm w) = R_touch w"
  "R_touch (CatchRef_playModeChange pm w) = R_touch w"
  "R_touch (FoulRef_playModeChange pm w) = R_touch w"
  "R_touch (IllegalDefenseRef_playModeChange pm w) = R_touch w"
  "R_touch (PenaltyRef_playModeChange sp pm w) = R_touch w"
  by (simp_all add: OffsideRef_playModeChange_def TouchRef_playModeChange_def
      CatchRef_playModeChange_def FoulRef_playModeChange_def IllegalDefenseRef_playModeChange_def
      PenaltyRef_playModeChange_def clearBallCatcher_def Let_def)

section \<open>The effect of a mode change\<close>

definition mode_announcement :: "playmode \<Rightarrow> string list" where
  "mode_announcement pm =
     (if pm \<noteq> PM_AfterGoal_Left \<and> pm \<noteq> PM_AfterGoal_Right then [playmode_string pm] else [])"

definition mode_set :: "sparam \<Rightarrow> playmode \<Rightarrow> world \<Rightarrow> world \<Rightarrow> bool" where
  "mode_set sp pm w w' \<longleftrightarrow>
     M_playmode w' = pm \<and> core w' = core w
     \<and> M_kick_off_side w' = kick_off_side_after pm (M_kick_off_side w)
     \<and> w_audio w' = w_audio w @ mode_announcement pm
     \<and> M_pos (M_ball w') = M_pos (M_ball w)
     \<and> (M_vel (M_ball w) = PVector 0 0 \<longrightarrow> M_vel (M_ball w') = PVector 0 0)
     \<and> FK_timer (R_freekick w') = (if freeKick pm then dropTime sp else - 1)
     \<and> (pm \<noteq> PM_PlayOn \<and> pm \<noteq> PM_Drop_Ball
          \<longrightarrow> TR_indirect_mode (R_touch w') = indirectFreeKick pm)
     \<and> (pm \<noteq> PM_PlayOn \<longrightarrow> calm w')
     \<and> (pm = PM_PlayOn \<longrightarrow> M_last_playon_start w' = M_time w)"

text \<open>The only answer which moves objects: that of the free kick referee.\<close>

lemma FreeKickRef_playModeChange_returns:
  assumes "pm = PM_PlayOn \<or> calm (no_kick pm w)"
  obtains w2 where
    "\<And>cpm. FreeKickRef_playModeChange sp (collisions sp cpm) pm w = Some (freekick_timers sp pm w2)"
    and "pm = PM_PlayOn \<and> w2 = w \<or> undisturbed (no_kick pm w) w2"
proof (cases "restart_clears pm")
  case None
  have "FreeKickRef_playModeChange sp (collisions sp cpm) pm w
          = Some (freekick_timers sp pm (no_kick pm w))" for cpm
    by (simp add: FreeKickRef_playModeChange_def None no_kick_def Let_def)
  moreover have "pm = PM_PlayOn \<and> no_kick pm w = w \<or> undisturbed (no_kick pm w) (no_kick pm w)"
    using assms undisturbed_refl by (auto simp: no_kick_def)
  ultimately show ?thesis using that by blast
next
  case (Some s)
  then have "pm \<noteq> PM_PlayOn" by (auto simp: restart_clears_def)
  with assms have "calm (no_kick pm w)" by simp
  from clearPlayersFromBall_calm[OF this] obtain w2 where
    w2: "\<And>cpm. clearPlayersFromBall sp (collisions sp cpm) s (no_kick pm w) = Some w2"
    "undisturbed (no_kick pm w) w2" by metis
  have "FreeKickRef_playModeChange sp (collisions sp cpm) pm w = Some (freekick_timers sp pm w2)"
    for cpm
    using w2(1)[of cpm] by (simp add: FreeKickRef_playModeChange_def Some no_kick_def Let_def)
  then show ?thesis using that w2(2) by blast
qed

lemma KeepawayRef_playModeChange_id:
  "\<not> (keepAwayMode sp \<and> pm = PM_PlayOn) \<Longrightarrow> KeepawayRef_playModeChange sp pm w = w"
  by (auto simp: KeepawayRef_playModeChange_def)

lemma playModeChange_all_returns:
  assumes "\<not> goalKick pm" and "\<not> (keepAwayMode sp \<and> pm = PM_PlayOn)" and "M_playmode w = pm"
  obtains w' where "\<And>cpm. playModeChange_all sp cpm pm w = Some w'"
    and "M_playmode w' = pm" and "M_kick_off_side w' = M_kick_off_side w"
    and "w_audio w' = w_audio w" and "core w' = core w" and "M_pos (M_ball w') = M_pos (M_ball w)"
    and "M_vel (M_ball w) = PVector 0 0 \<longrightarrow> M_vel (M_ball w') = PVector 0 0"
    and "FK_timer (R_freekick w') = (if freeKick pm then dropTime sp else - 1)"
    and "TR_indirect_mode (R_touch w') =
           (indirectFreeKick pm \<or> ((pm = PM_PlayOn \<or> pm = PM_Drop_Ball)
                                  \<and> TR_indirect_mode (R_touch w')))"
    and "pm \<noteq> PM_PlayOn \<longrightarrow> calm w'"
proof -
  let ?w1 = "OffsideRef_playModeChange pm w"
  let ?u = "no_kick pm ?w1"
  have u: "unref ?u = unref w" by simp
  have "pm = PM_PlayOn \<or> calm ?u"
    using assms(1,3) by (auto simp: calm_def no_kick_def OffsideRef_playModeChange_def)
  then obtain w2 where w2:
    "\<And>cpm. FreeKickRef_playModeChange sp (collisions sp cpm) pm ?w1 = Some (freekick_timers sp pm w2)"
    "pm = PM_PlayOn \<and> w2 = ?w1 \<or> undisturbed ?u w2"
    using FreeKickRef_playModeChange_returns by metis
  have core_u: "core ?u = core w" by (simp add: no_kick_def)
  have facts: "M_playmode w2 = pm" "M_kick_off_side w2 = M_kick_off_side w" "w_audio w2 = w_audio w"
    "core w2 = core w" "M_pos (M_ball w2) = M_pos (M_ball w)"
    "M_vel (M_ball w) = PVector 0 0 \<longrightarrow> M_vel (M_ball w2) = PVector 0 0"
    "pm \<noteq> PM_PlayOn \<longrightarrow> calm w2"
    using w2(2) unref_eqD[OF u] core_u assms(3)
    by (auto simp: undisturbed_def still_def OffsideRef_playModeChange_def)
  let ?v = "IllegalDefenseRef_playModeChange pm (FoulRef_playModeChange pm
              (CatchRef_playModeChange pm (TouchRef_playModeChange pm (freekick_timers sp pm w2))))"
  let ?w = "PenaltyRef_playModeChange sp pm ?v"
  have all: "playModeChange_all sp cpm pm w = Some ?w" for cpm
    using w2(1) assms(2) by (simp add: playModeChange_all_def KeepawayRef_playModeChange_id Let_def)
  have unref: "unref ?w = unref w2" by simp
  note reads = unref_eqD[OF unref]
  show ?thesis
  proof (rule that[OF all])
    show "core ?w = core w" using facts(4) by simp
    show "FK_timer (R_freekick ?w) = (if freeKick pm then dropTime sp else - 1)"
      using assms(1) by simp
    show "TR_indirect_mode (R_touch ?w) =
        (indirectFreeKick pm \<or> ((pm = PM_PlayOn \<or> pm = PM_Drop_Ball) \<and> TR_indirect_mode (R_touch ?w)))"
      by (simp add: TouchRef_playModeChange_def Let_def)
    show "pm \<noteq> PM_PlayOn \<longrightarrow> calm ?w"
      using facts(7) reads(1,6,7) by (simp add: calm_def)
  qed (use facts reads in simp_all)
qed

lemma changePlayMode_returns:
  assumes "\<not> goalKick pm" and "\<not> (keepAwayMode sp \<and> pm = PM_PlayOn)"
  shows "\<exists>w'. (\<forall>n. changePlayMode sp (Suc n) pm w = Some w') \<and> mode_set sp pm w w'"
proof -
  let ?w0 = "w\<lparr>M_playmode := pm\<rparr>"
  have "M_playmode ?w0 = pm" by simp
  note returns = playModeChange_all_returns[OF assms this]
  obtain w1 where w1: "\<And>cpm. playModeChange_all sp cpm pm ?w0 = Some w1"
    and facts0: "M_playmode w1 = pm" "M_kick_off_side w1 = M_kick_off_side ?w0"
    "w_audio w1 = w_audio ?w0" "core w1 = core ?w0" "M_pos (M_ball w1) = M_pos (M_ball ?w0)"
    "M_vel (M_ball ?w0) = PVector 0 0 \<longrightarrow> M_vel (M_ball w1) = PVector 0 0"
    "FK_timer (R_freekick w1) = (if freeKick pm then dropTime sp else - 1)"
    "TR_indirect_mode (R_touch w1) =
       (indirectFreeKick pm \<or> ((pm = PM_PlayOn \<or> pm = PM_Drop_Ball) \<and> TR_indirect_mode (R_touch w1)))"
    "pm \<noteq> PM_PlayOn \<longrightarrow> calm w1"
    by (rule returns) blast
  from facts0 have facts: "M_playmode w1 = pm" "M_kick_off_side w1 = M_kick_off_side w"
    "w_audio w1 = w_audio w" "core w1 = core w" "M_pos (M_ball w1) = M_pos (M_ball w)"
    "M_vel (M_ball w) = PVector 0 0 \<longrightarrow> M_vel (M_ball w1) = PVector 0 0"
    by simp_all
  let ?w2 = "w1\<lparr>M_kick_off_side := kick_off_side_after pm (M_kick_off_side w1)\<rparr>"
  let ?w3 = "if pm = PM_PlayOn then ?w2\<lparr>M_last_playon_start := M_time ?w2\<rparr> else ?w2"
  let ?w4 = "if pm \<noteq> PM_AfterGoal_Left \<and> pm \<noteq> PM_AfterGoal_Right
             then sendRefereeAudio (playmode_string pm) ?w3 else ?w3"
  have "changePlayMode sp (Suc n) pm w = Some ?w4" for n
    by (simp add: changePlayMode_body_def w1 Let_def)
  moreover have "mode_set sp pm w ?w4"
  proof -
    have read: "R_touch ?w4 = R_touch w1" "R_freekick ?w4 = R_freekick w1"
      "R_offside ?w4 = R_offside w1"
      "M_playmode ?w4 = pm" "core ?w4 = core w1" "M_ball ?w4 = M_ball w1"
      "M_kick_off_side ?w4 = kick_off_side_after pm (M_kick_off_side w)"
      "M_time ?w4 = M_time w1" "M_stoppage_time ?w4 = M_stoppage_time w1"
      "w_audio ?w4 = w_audio w @ mode_announcement pm"
      "pm = PM_PlayOn \<longrightarrow> M_last_playon_start ?w4 = M_time w1"
      using facts by (simp_all add: sendRefereeAudio_def mode_announcement_def)
    have touch: "pm \<noteq> PM_PlayOn \<and> pm \<noteq> PM_Drop_Ball
                  \<longrightarrow> TR_indirect_mode (R_touch w1) = indirectFreeKick pm"
      using facts0(8) by auto
    have "pm \<noteq> PM_PlayOn \<longrightarrow> calm ?w4"
      using facts0(9) facts(1) read by (simp add: calm_def)
    then show ?thesis
      unfolding mode_set_def read using facts(4-6) facts0(7) touch core_eqD(1)[OF facts(4)]
      by (simp add: sendRefereeAudio_def)
  qed
  ultimately show ?thesis by blast
qed

section \<open>The contract of a mode change\<close>

text \<open>
  What a referee gets when it restarts the game: the ball rests where the rule puts it, the
  side has the kick, and the clock and the score are untouched.
\<close>

definition restarted ::
  "sparam \<Rightarrow> playmode \<Rightarrow> side \<Rightarrow> pvector \<Rightarrow> world \<Rightarrow> world \<Rightarrow> bool" where
  "restarted sp pm s pos w w' \<longleftrightarrow>
     M_playmode w' = pm \<and> M_kick_off_side w' = kick_off_side_after pm s
     \<and> M_pos (M_ball w') = pos \<and> M_vel (M_ball w') = PVector 0 0
     \<and> core w' = core w \<and> w_audio w' = w_audio w @ mode_announcement pm
     \<and> FK_timer (R_freekick w') = (if freeKick pm then dropTime sp else - 1)
     \<and> (pm \<noteq> PM_PlayOn \<and> pm \<noteq> PM_Drop_Ball
          \<longrightarrow> TR_indirect_mode (R_touch w') = indirectFreeKick pm)
     \<and> (pm \<noteq> PM_PlayOn \<longrightarrow> calm w')"

definition corner_spot :: "sparam \<Rightarrow> side \<Rightarrow> pvector \<Rightarrow> pvector" where
  "corner_spot sp s pos =
     PVector (if s = LEFT then PITCH_LENGTH * 0.5 - cornerKickMargin sp
              else - PITCH_LENGTH * 0.5 + cornerKickMargin sp)
             (if py pos > 0 then PITCH_WIDTH * 0.5 - cornerKickMargin sp
              else - PITCH_WIDTH * 0.5 + cornerKickMargin sp)"

locale mode_setter =
  fixes sp :: sparam and cpm :: mode_op
  assumes cpm_sets:
    "\<not> goalKick pm \<Longrightarrow> \<not> (keepAwayMode sp \<and> pm = PM_PlayOn)
       \<Longrightarrow> \<exists>w'. cpm pm w = Some w' \<and> mode_set sp pm w w'"
begin

lemma placeBall_pm_restarts:
  assumes "\<not> goalKick pm" and "\<not> (keepAwayMode sp \<and> pm = PM_PlayOn)"
    and "\<not> (shootout (M_playmode w) \<and> (pm = PM_PlayOn \<or> pm = PM_Drop_Ball))"
  shows "\<exists>w'. placeBall_pm cpm pm s pos w = Some w' \<and> restarted sp pm s pos w w'"
proof -
  have "M_playmode (placeBall s pos w) = M_playmode w"
    "core (placeBall s pos w) = core w" "M_kick_off_side (placeBall s pos w) = s"
    "w_audio (placeBall s pos w) = w_audio w"
    "M_pos (M_ball (placeBall s pos w)) = pos"
    "M_vel (M_ball (placeBall s pos w)) = PVector 0 0"
    by simp_all (simp_all add: placeBall_def upd_ball_def moveTo3_def)
  then show ?thesis
    using cpm_sets[OF assms(1,2), of "placeBall s pos w"] assms(3)
    by (auto simp: placeBall_pm_def mode_set_def restarted_def)
qed

lemma restarted_catcher:
  "restarted sp pm s pos (clearBallCatcher w) w' = restarted sp pm s pos w w'"
  by (simp add: restarted_def) (simp add: clearBallCatcher_def)

lemma awardFreeKick_restarts:
  assumes "s \<noteq> NEUTRAL"
  shows "\<exists>w'. awardFreeKick cpm s pos w = Some w'
           \<and> restarted sp (if s = LEFT then PM_FreeKick_Left else PM_FreeKick_Right) s
               (moveOutOfPenalty (opp_side s) (truncateToPitch pos)) w w'"
  using placeBall_pm_restarts[of PM_FreeKick_Left w LEFT]
    placeBall_pm_restarts[of PM_FreeKick_Right w RIGHT] assms
  by (cases s) (simp_all add: awardFreeKick_def goalKick_def)

lemma awardKickIn_restarts:
  "\<exists>w'. awardKickIn cpm s pos w = Some w'
     \<and> restarted sp (if s = LEFT then PM_KickIn_Left else PM_KickIn_Right)
         (if s = LEFT then LEFT else RIGHT) (truncateToPitch pos) w w'"
  using placeBall_pm_restarts[of PM_KickIn_Left "clearBallCatcher w" LEFT]
    placeBall_pm_restarts[of PM_KickIn_Right "clearBallCatcher w" RIGHT]
  by (simp add: awardKickIn_def goalKick_def Let_def restarted_catcher)

lemma awardCornerKick_restarts:
  "\<exists>w'. awardCornerKick sp cpm s pos w = Some w'
     \<and> restarted sp (if s = LEFT then PM_CornerKick_Left else PM_CornerKick_Right)
         (if s = LEFT then LEFT else RIGHT) (corner_spot sp s pos) w w'"
  using placeBall_pm_restarts[of PM_CornerKick_Left "clearBallCatcher w" LEFT]
    placeBall_pm_restarts[of PM_CornerKick_Right "clearBallCatcher w" RIGHT]
  by (simp add: awardCornerKick_def goalKick_def Let_def corner_spot_def restarted_catcher)

text \<open>A drop ball ends in play on, after both announcements.\<close>

lemma awardDropBall_restarts:
  assumes "\<not> shootout (M_playmode w)" and "\<not> keepAwayMode sp"
  shows "\<exists>w'. awardDropBall cpm pos w = Some w' \<and> M_playmode w' = PM_PlayOn
           \<and> M_kick_off_side w' = NEUTRAL \<and> core w' = core w
           \<and> M_pos (M_ball w') = moveOutOfPenalty NEUTRAL (truncateToPitch pos)
           \<and> M_vel (M_ball w') = PVector 0 0
           \<and> w_audio w' = w_audio w @ [playmode_string PM_Drop_Ball, playmode_string PM_PlayOn]"
proof -
  let ?pos = "moveOutOfPenalty NEUTRAL (truncateToPitch pos)"
  obtain w2 where w2: "placeBall_pm cpm PM_Drop_Ball NEUTRAL ?pos (clearBallCatcher w) = Some w2"
    "restarted sp PM_Drop_Ball NEUTRAL ?pos (clearBallCatcher w) w2"
    using placeBall_pm_restarts[of PM_Drop_Ball "clearBallCatcher w" NEUTRAL ?pos] assms
    by (auto simp: goalKick_def clearBallCatcher_def)
  let ?w3 = "placePlayersInField w2"
  have same: "M_ball ?w3 = M_ball w2" "core ?w3 = core w2" "M_kick_off_side ?w3 = M_kick_off_side w2"
    "w_audio ?w3 = w_audio w2" "M_playmode ?w3 = M_playmode w2"
    by simp_all (simp_all add: placePlayersInField_def map_players_def)
  obtain w4 where w4: "cpm PM_PlayOn ?w3 = Some w4" "mode_set sp PM_PlayOn ?w3 w4"
    using cpm_sets[of PM_PlayOn ?w3] assms(2) by (auto simp: goalKick_def)
  have "\<not> shootout (M_playmode ?w3)"
    using w2(2) by (simp add: same restarted_def shootout_iff)
  then have "awardDropBall cpm pos w = Some w4"
    using w2(1) w4(1) by (simp add: awardDropBall_def Let_def)
  then show ?thesis
    using w2(2) w4(2) unfolding restarted_catcher
    by (simp add: restarted_def mode_set_def same kick_off_side_after_def mode_announcement_def)
qed

end

interpretation setter: mode_setter sp "changePlayMode sp (Suc n)" for sp n
  by unfold_locales (use changePlayMode_returns in blast)

end
