(* ===== verification/Calls.thy ===== *)
theory Calls
  imports ModeChange
begin

text \<open>
  The calls of the referees over the contract \<open>mode_setter\<close>: where the ball is put, who may
  play it, and how long the wait before the restart lasts.
\<close>

section \<open>Waiting for the restart\<close>

text \<open>
  The counter \<open>get\<close> reads a part of the world which a touch of the ball leaves alone, and
  \<open>extra\<close> moves players only.
\<close>

context mode_setter
begin

lemma wait_restart_calm:
  assumes calm: "calm w" and get: "\<And>v. still v = still w \<Longrightarrow> get v = get w"
    and extra: "\<And>v. bare (extra v) = bare v" "\<And>v. core (extra v) = core v"
      "\<And>v. M_ball (extra v) = M_ball v"
    and pm: "\<And>v. \<not> goalKick (pm v)" "\<And>v. pm v \<noteq> PM_PlayOn"
  shows "\<exists>v w'. undisturbed w v
           \<and> wait_restart sp cpm (collisions sp cpm) wait get s extra pm w = Some w'
           \<and> (if get w > wait then mode_set sp (pm v) v w' else w' = v)"
proof -
  obtain v1 where v1: "undisturbed w v1"
    "(if get w > wait - CLEAR_PLAYER_TIME then clearPlayersFromBall sp (collisions sp cpm) s w
      else Some w) = Some v1"
    using clearPlayersFromBall_calm[OF calm, of sp s] undisturbed_refl[OF calm]
    by (cases "get w > wait - CLEAR_PLAYER_TIME") auto
  have v: "undisturbed w (extra v1)"
    using v1(1) bare_eqD[OF extra(1), of v1] extra(2,3) by (simp add: undisturbed_def)
  then have g: "get (extra v1) = get w" by (intro get) (simp add: undisturbed_def)
  have run: "wait_restart sp cpm (collisions sp cpm) wait get s extra pm w =
               (if get w > wait then cpm (pm (extra v1)) (extra v1) else Some (extra v1))"
    using v1(2) g by (simp add: wait_restart_def Let_def)
  show ?thesis
  proof (cases "get w > wait")
    case True
    obtain w' where "cpm (pm (extra v1)) (extra v1) = Some w'" "mode_set sp (pm (extra v1)) (extra v1) w'"
      using cpm_sets[of "pm (extra v1)" "extra v1"] pm by auto
    with True run v show ?thesis by auto
  next
    case False
    with run v show ?thesis by auto
  qed
qed

end

text \<open>The modes of a side.\<close>

definition mode_for :: "playmode \<Rightarrow> playmode \<Rightarrow> side \<Rightarrow> playmode" where
  "mode_for l r s = (if s = LEFT then l else r)"

definition waits :: "world \<Rightarrow> playmode \<Rightarrow> int \<Rightarrow> int \<Rightarrow> (world \<Rightarrow> int) \<Rightarrow> world \<Rightarrow> bool" where
  "waits w pm c n get w' \<longleftrightarrow>
     core w' = core w \<and> M_pos (M_ball w') = M_pos (M_ball w)
     \<and> (if c + 1 > n then M_playmode w' = pm
        else M_playmode w' = M_playmode w \<and> get w' = c + 1 \<and> calm w')"

text \<open>From the counter of a referee to the statement.\<close>

context mode_setter
begin

lemma waits_calm:
  assumes "calm w" and "M_playmode w = M_playmode w0" and "core w = core w0"
    and "M_pos (M_ball w) = M_pos (M_ball w0)" and "get w = c + 1"
    and get: "\<And>v. still v = still w \<Longrightarrow> get v = get w"
    and extra: "\<And>v. bare (extra v) = bare v" "\<And>v. core (extra v) = core v"
      "\<And>v. M_ball (extra v) = M_ball v"
    and pm: "\<And>v. \<not> goalKick (pm v)" "\<And>v. pm v \<noteq> PM_PlayOn"
    and same: "\<And>v. M_pos (M_ball v) = M_pos (M_ball w) \<Longrightarrow> pm v = q"
  shows "\<exists>w'. wait_restart sp cpm (collisions sp cpm) wait get s extra pm w = Some w'
           \<and> waits w0 q c wait get w'"
proof -
  obtain v w' where v: "undisturbed w v"
    and w': "wait_restart sp cpm (collisions sp cpm) wait get s extra pm w = Some w'"
      "if get w > wait then mode_set sp (pm v) v w' else w' = v"
    using wait_restart_calm[where w=w and get=get and extra=extra and pm=pm and wait=wait and s=s,
        OF assms(1) get extra pm] by metis
  have "get v = c + 1" using get[of v] v assms(5) by (simp add: undisturbed_def)
  moreover have "pm v = q" using same[of v] v by (simp add: undisturbed_def)
  moreover have "M_playmode v = M_playmode w" using v by (simp add: undisturbed_def still_def)
  ultimately have "waits w0 q c wait get w'"
    using w'(2) v assms(2-5) by (auto simp: waits_def undisturbed_def mode_set_def split: if_splits)
  with w'(1) show ?thesis by blast
qed

end

lemma still_reads:
  assumes "still v = still w"
  shows "OR_after_offside_time (R_offside v) = OR_after_offside_time (R_offside w)"
    "CR_after_back_pass_time (R_catch v) = CR_after_back_pass_time (R_catch w)"
    "CR_after_catch_fault_time (R_catch v) = CR_after_catch_fault_time (R_catch w)"
    "R_foul v = R_foul w" "R_illegal v = R_illegal w" "R_freekick v = R_freekick w"
  using assms by (simp_all add: still_def)

lemma checkPlayerAfterOffside_frame:
  "bare (checkPlayerAfterOffside sp w) = bare w" "M_ball (checkPlayerAfterOffside sp w) = M_ball w"
  by (simp_all add: checkPlayerAfterOffside_def Let_def)

text \<open>After an offside call the game is stopped for 30 cycles: while the counter stays below
  that the mode is kept and the counter advances, in the next cycle the other side gets the
  free kick.  Neither the ball nor the score changes.\<close>

theorem offside_wait:
  assumes "calm w" and "useOffside sp" and "s \<noteq> NEUTRAL"
    and "M_playmode w = mode_for PM_OffSide_Left PM_OffSide_Right s"
  shows "\<exists>w'. OffsideRef_analyse sp (changePlayMode sp (Suc n))
                 (collisions sp (changePlayMode sp (Suc n))) w = Some w'
           \<and> waits w (mode_for PM_FreeKick_Right PM_FreeKick_Left s)
               (OR_after_offside_time (R_offside w)) AFTER_OFFSIDE_WAIT
               (\<lambda>v. OR_after_offside_time (R_offside v)) w'"
proof -
  let ?tick = "R_offside_update (\<lambda>r. r\<lparr>OR_after_offside_time := OR_after_offside_time r + 1\<rparr>) w"
  have t: "calm ?tick" using assms(1) by (simp add: calm_def)
  have "\<exists>w'. wait_restart sp (changePlayMode sp (Suc n)) (collisions sp (changePlayMode sp (Suc n)))
          AFTER_OFFSIDE_WAIT (\<lambda>v. OR_after_offside_time (R_offside v)) s (checkPlayerAfterOffside sp)
          (\<lambda>_. mode_for PM_FreeKick_Right PM_FreeKick_Left s) ?tick = Some w'
        \<and> waits w (mode_for PM_FreeKick_Right PM_FreeKick_Left s)
            (OR_after_offside_time (R_offside w)) AFTER_OFFSIDE_WAIT
            (\<lambda>v. OR_after_offside_time (R_offside v)) w'"
    by (rule setter.waits_calm[where get = "\<lambda>v. OR_after_offside_time (R_offside v)"
          and extra = "checkPlayerAfterOffside sp", OF t])
       (auto simp: checkPlayerAfterOffside_frame mode_for_def goalKick_def dest: still_reads(1))
  then show ?thesis
    using assms(2-4)
    by (cases s) (simp_all add: OffsideRef_analyse_def mode_for_def shootout_iff)
qed

lemma foul_restart_same:
  "M_pos (M_ball v) = M_pos (M_ball w) \<Longrightarrow> foul_restart sp s v = foul_restart sp s w"
  by (simp add: foul_restart_def)

text \<open>A foul stops the game for 30 cycles.  The restart depends on where the ball lies: inside
  the penalty area of the offending side the opponents get an indirect free kick, elsewhere a
  free kick.\<close>

theorem foul_wait:
  assumes "calm w" and "s \<noteq> NEUTRAL"
    and "M_playmode w \<in> {mode_for PM_Foul_Charge_Left PM_Foul_Charge_Right s,
                         mode_for PM_Foul_Push_Left PM_Foul_Push_Right s}"
  shows "\<exists>w'. FoulRef_analyse sp (changePlayMode sp (Suc n))
                 (collisions sp (changePlayMode sp (Suc n))) w = Some w'
           \<and> waits w (if inPenaltyArea sp s (M_pos (M_ball w))
                       then mode_for PM_IndFreeKick_Right PM_IndFreeKick_Left s
                       else mode_for PM_FreeKick_Right PM_FreeKick_Left s)
               (FR_after_foul_time (R_foul w)) AFTER_FOUL_WAIT
               (\<lambda>v. FR_after_foul_time (R_foul v)) w'"
proof -
  let ?tick = "R_foul_update (\<lambda>r. r\<lparr>FR_after_foul_time := FR_after_foul_time r + 1\<rparr>) w"
  have t: "calm ?tick" using assms(1) by (simp add: calm_def)
  have q: "foul_restart sp s w = (if inPenaltyArea sp s (M_pos (M_ball w))
             then mode_for PM_IndFreeKick_Right PM_IndFreeKick_Left s
             else mode_for PM_FreeKick_Right PM_FreeKick_Left s)"
    by (simp add: foul_restart_def mode_for_def)
  have "\<exists>w'. wait_restart sp (changePlayMode sp (Suc n)) (collisions sp (changePlayMode sp (Suc n)))
          AFTER_FOUL_WAIT (\<lambda>v. FR_after_foul_time (R_foul v)) s (\<lambda>v. v) (foul_restart sp s) ?tick
            = Some w'
        \<and> waits w (foul_restart sp s w) (FR_after_foul_time (R_foul w)) AFTER_FOUL_WAIT
            (\<lambda>v. FR_after_foul_time (R_foul v)) w'"
    by (rule setter.waits_calm[where get = "\<lambda>v. FR_after_foul_time (R_foul v)"
          and extra = "\<lambda>v. v", OF t])
       (auto simp: goalKick_def foul_restart_def dest: still_reads(4))
  then show ?thesis
    using assms(2,3) unfolding q
    by (cases s) (auto simp: FoulRef_analyse_def mode_for_def shootout_iff)
qed

lemma catch_waits:
  assumes "calm w" and "s \<noteq> NEUTRAL"
  shows "M_playmode w = mode_for PM_Back_Pass_Left PM_Back_Pass_Right s \<Longrightarrow>
           \<exists>w'. CatchRef_analyse sp (changePlayMode sp (Suc n))
                  (collisions sp (changePlayMode sp (Suc n))) w = Some w'
              \<and> waits w (mode_for PM_IndFreeKick_Right PM_IndFreeKick_Left s)
                  (CR_after_back_pass_time (R_catch w)) AFTER_BACKPASS_WAIT
                  (\<lambda>v. CR_after_back_pass_time (R_catch v)) w'"
    and "M_playmode w = mode_for PM_CatchFault_Left PM_CatchFault_Right s \<Longrightarrow>
           \<exists>w'. CatchRef_analyse sp (changePlayMode sp (Suc n))
                  (collisions sp (changePlayMode sp (Suc n))) w = Some w'
              \<and> waits w (mode_for PM_FreeKick_Right PM_FreeKick_Left s)
                  (CR_after_catch_fault_time (R_catch w)) AFTER_CATCH_FAULT_WAIT
                  (\<lambda>v. CR_after_catch_fault_time (R_catch v)) w'"
proof -
  let ?u = "R_catch_update (\<lambda>r. r\<lparr>CR_team_l_touched := False, CR_team_r_touched := False\<rparr>) w"
  let ?bp = "R_catch_update (\<lambda>r. r\<lparr>CR_after_back_pass_time := CR_after_back_pass_time r + 1\<rparr>) ?u"
  let ?cf = "R_catch_update
               (\<lambda>r. r\<lparr>CR_after_catch_fault_time := CR_after_catch_fault_time r + 1\<rparr>) ?u"
  have t: "calm ?bp" "calm ?cf" using assms(1) by (simp_all add: calm_def)
  have bp: "\<exists>w'. wait_restart sp (changePlayMode sp (Suc n))
          (collisions sp (changePlayMode sp (Suc n))) AFTER_BACKPASS_WAIT
          (\<lambda>v. CR_after_back_pass_time (R_catch v)) s (\<lambda>v. v)
          (\<lambda>_. mode_for PM_IndFreeKick_Right PM_IndFreeKick_Left s) ?bp = Some w'
        \<and> waits w (mode_for PM_IndFreeKick_Right PM_IndFreeKick_Left s)
            (CR_after_back_pass_time (R_catch w)) AFTER_BACKPASS_WAIT
            (\<lambda>v. CR_after_back_pass_time (R_catch v)) w'"
    by (rule setter.waits_calm[where get = "\<lambda>v. CR_after_back_pass_time (R_catch v)"
          and extra = "\<lambda>v. v", OF t(1)])
       (auto simp: goalKick_def mode_for_def dest: still_reads(2))
  have cf: "\<exists>w'. wait_restart sp (changePlayMode sp (Suc n))
          (collisions sp (changePlayMode sp (Suc n))) AFTER_CATCH_FAULT_WAIT
          (\<lambda>v. CR_after_catch_fault_time (R_catch v)) s (\<lambda>v. v)
          (\<lambda>_. mode_for PM_FreeKick_Right PM_FreeKick_Left s) ?cf = Some w'
        \<and> waits w (mode_for PM_FreeKick_Right PM_FreeKick_Left s)
            (CR_after_catch_fault_time (R_catch w)) AFTER_CATCH_FAULT_WAIT
            (\<lambda>v. CR_after_catch_fault_time (R_catch v)) w'"
    by (rule setter.waits_calm[where get = "\<lambda>v. CR_after_catch_fault_time (R_catch v)"
          and extra = "\<lambda>v. v", OF t(2)])
       (auto simp: goalKick_def mode_for_def dest: still_reads(3))
  show "M_playmode w = mode_for PM_Back_Pass_Left PM_Back_Pass_Right s \<Longrightarrow>
           \<exists>w'. CatchRef_analyse sp (changePlayMode sp (Suc n))
                  (collisions sp (changePlayMode sp (Suc n))) w = Some w'
              \<and> waits w (mode_for PM_IndFreeKick_Right PM_IndFreeKick_Left s)
                  (CR_after_back_pass_time (R_catch w)) AFTER_BACKPASS_WAIT
                  (\<lambda>v. CR_after_back_pass_time (R_catch v)) w'"
    using bp assms(2) by (cases s) (simp_all add: CatchRef_analyse_def mode_for_def shootout_iff)
  show "M_playmode w = mode_for PM_CatchFault_Left PM_CatchFault_Right s \<Longrightarrow>
           \<exists>w'. CatchRef_analyse sp (changePlayMode sp (Suc n))
                  (collisions sp (changePlayMode sp (Suc n))) w = Some w'
              \<and> waits w (mode_for PM_FreeKick_Right PM_FreeKick_Left s)
                  (CR_after_catch_fault_time (R_catch w)) AFTER_CATCH_FAULT_WAIT
                  (\<lambda>v. CR_after_catch_fault_time (R_catch v)) w'"
    using cf assms(2) by (cases s) (simp_all add: CatchRef_analyse_def mode_for_def shootout_iff)
qed

text \<open>After a back pass the opponents get an indirect free kick, after a faulty catch a direct
  one, each after a wait of 30 cycles.\<close>

theorem catch_wait:
  assumes "calm w" and "s \<noteq> NEUTRAL"
    and "M_playmode w = (if back_pass then mode_for PM_Back_Pass_Left PM_Back_Pass_Right s
                         else mode_for PM_CatchFault_Left PM_CatchFault_Right s)"
    and counter: "counter = (\<lambda>v. if back_pass then CR_after_back_pass_time (R_catch v)
                                 else CR_after_catch_fault_time (R_catch v))"
  shows "\<exists>w'. CatchRef_analyse sp (changePlayMode sp (Suc n))
                 (collisions sp (changePlayMode sp (Suc n))) w = Some w'
           \<and> waits w (if back_pass then mode_for PM_IndFreeKick_Right PM_IndFreeKick_Left s
                       else mode_for PM_FreeKick_Right PM_FreeKick_Left s)
               (counter w) (if back_pass then AFTER_BACKPASS_WAIT else AFTER_CATCH_FAULT_WAIT)
               counter w'"
  using catch_waits[OF assms(1,2)] assms(3) unfolding counter by (cases back_pass) simp_all

section \<open>Stopping the game\<close>

text \<open>The ball of an offside call lies on the pitch.\<close>

definition pitch :: rarea where
  "pitch = RArea_cs (PVector 0 0) (PVector PITCH_LENGTH PITCH_WIDTH)"

lemma pitch_iff:
  "ra_inArea pitch q \<longleftrightarrow> - 52.5 \<le> px q \<and> px q \<le> 52.5 \<and> - 34 \<le> py q \<and> py q \<le> 34"
  by (auto simp: pitch_def ra_inArea_def RArea_cs_def PITCH_LENGTH_def PITCH_WIDTH_def)

lemma offside_ball_on_pitch:
  assumes "0 \<le> cornerKickMargin sp" and "cornerKickMargin sp \<le> 34"
  shows "ra_inArea pitch (offside_ball_pos sp q)"
proof -
  have wf: "ra_wf (offside_pitch sp)"
    unfolding offside_pitch_def
    by (rule ra_wf_cs) (use assms in \<open>simp_all add: PITCH_LENGTH_def PITCH_WIDTH_def\<close>)
  have inner: "ra_inArea pitch p" if "ra_inArea (offside_pitch sp) p" for p
    using that assms unfolding pitch_iff
    by (auto simp: offside_pitch_def ra_inArea_def RArea_cs_def PITCH_LENGTH_def PITCH_WIDTH_def
        field_simps)
  show ?thesis
    using inner[OF ra_nearestEdge_inArea[OF wf]] inner[of q]
    by (auto simp: offside_ball_pos_def pitch_iff PITCH_LENGTH_def GOAL_AREA_LENGTH_def
        GOAL_AREA_WIDTH_def)
qed

context mode_setter
begin

lemma callOffside_stops:
  assumes "\<not> shootout (M_playmode w)" and ks: "OR_last_kicker_side (R_offside w) = s" "s \<noteq> NEUTRAL"
  shows "\<exists>w'. callOffside sp cpm w = Some w'
     \<and> M_playmode w' = mode_for PM_OffSide_Left PM_OffSide_Right s \<and> M_kick_off_side w' = opp_side s
     \<and> M_pos (M_ball w') = offside_ball_pos sp (OR_offside_pos (R_offside w))
     \<and> M_vel (M_ball w') = PVector 0 0 \<and> core w' = core w \<and> calm w'
     \<and> OR_offside_candidates (R_offside w') = [] \<and> OR_after_offside_time (R_offside w') = 0
     \<and> M_ball_catcher w' = None"
proof -
  let ?pm = "mode_for PM_OffSide_Left PM_OffSide_Right s"
  let ?pos = "offside_ball_pos sp (OR_offside_pos (R_offside w))"
  have pm: "\<not> goalKick ?pm" "?pm \<noteq> PM_PlayOn" "?pm \<noteq> PM_Drop_Ball"
    by (simp_all add: mode_for_def goalKick_def)
  obtain w1 where w1: "placeBall_pm cpm ?pm (opp_side s) ?pos w = Some w1"
    "restarted sp ?pm (opp_side s) ?pos w w1"
    using placeBall_pm_restarts[of ?pm w "opp_side s" ?pos] pm by blast
  let ?w' = "R_offside_update (\<lambda>r. r\<lparr>OR_after_offside_time := 0\<rparr>)
      (placePlayersInField (R_offside_update (\<lambda>r. r\<lparr>OR_offside_candidates := []\<rparr>)
        (clearBallCatcher w1)))"
  have "callOffside sp cpm w = Some ?w'"
    using assms w1(1) by (cases s) (simp_all add: callOffside_def mode_for_def Let_def)
  moreover have "M_playmode ?w' = M_playmode w1" "M_kick_off_side ?w' = M_kick_off_side w1"
    "M_ball ?w' = M_ball w1" "OR_offside_candidates (R_offside ?w') = []"
    "OR_after_offside_time (R_offside ?w') = 0" "R_freekick ?w' = R_freekick w1"
    "M_ball_catcher ?w' = None"
    by (simp_all add: placePlayersInField_def map_players_def clearBallCatcher_def)
  moreover have "core ?w' = core w1" by simp
  ultimately show ?thesis
    using w1(2) by (auto simp: restarted_def calm_def mode_for_def kick_off_side_after_def)
qed

end

lemma mark_kick_side:
  assumes "OR_last_kick_time (R_offside w) \<noteq> M_time w" and "0 < a"
  shows "OR_last_kicker_side (mark_kick k a w) = M_side (pl w k)"
  using assms by (simp add: mark_kick_def Let_def)

text \<open>C15: A marked player who kicks the ball in a later cycle is called offside: the opponents have
  the ball, which rests on the pitch at the spot of the mark, all marks are dropped, the
  30-cycle counter starts at zero, and clock, score and players' identities are untouched.\<close>

theorem offside_called:
  assumes "useOffside sp" and "\<not> shootout (M_playmode w)"
    and "OR_last_kick_time (R_offside w) < M_time w" and "0 < a" and "M_side (pl w k) \<noteq> NEUTRAL"
    and "List.find (\<lambda>c. fst c = k) (OR_offside_candidates (R_offside w)) = Some (k, q)"
    and "0 \<le> cornerKickMargin sp" and "cornerKickMargin sp \<le> 34"
  shows "\<exists>w'. OffsideRef_kickTaken sp (changePlayMode sp (Suc n)) k a w = Some w'
     \<and> M_playmode w' = mode_for PM_OffSide_Left PM_OffSide_Right (M_side (pl w k))
     \<and> M_kick_off_side w' = opp_side (M_side (pl w k))
     \<and> M_pos (M_ball w') = offside_ball_pos sp q \<and> ra_inArea pitch (M_pos (M_ball w'))
     \<and> M_vel (M_ball w') = PVector 0 0 \<and> core w' = core w \<and> calm w'
     \<and> OR_offside_candidates (R_offside w') = [] \<and> OR_after_offside_time (R_offside w') = 0"
proof -
  let ?u = "w\<lparr>R_offside := (mark_kick k a w)\<lparr>OR_offside_pos := q\<rparr>\<rparr>"
  have side: "OR_last_kicker_side (R_offside ?u) = M_side (pl w k)"
    using mark_kick_side[of w a k] assms(3,4) by simp
  have run: "OffsideRef_kickTaken sp cpm k a w = callOffside sp cpm ?u" for cpm
    using assms(1,3,6) by (simp add: OffsideRef_kickTaken_def setOffsideMark_def)
  have "core ?u = core w" by (simp add: core_def)
  then show ?thesis
    using setter.callOffside_stops[of ?u "M_side (pl w k)" sp n] assms(2,5) side
      offside_ball_on_pitch[OF assms(7,8), of q]
    unfolding run by fastforce
qed

section \<open>Catches\<close>

context mode_setter
begin

lemma callBackPass_stops:
  assumes "\<not> shootout (M_playmode w)" and "s \<noteq> NEUTRAL"
  shows "\<exists>w'. callBackPass cpm s w = Some w'
     \<and> M_playmode w' = mode_for PM_Back_Pass_Left PM_Back_Pass_Right s
     \<and> M_kick_off_side w' = opp_side s
     \<and> M_pos (M_ball w') = moveOutOfGoalArea s (truncateToPitch (M_pos (M_ball w)))
     \<and> core w' = core w \<and> calm w' \<and> CR_after_back_pass_time (R_catch w') = 0"
proof -
  let ?pm = "mode_for PM_Back_Pass_Left PM_Back_Pass_Right s"
  let ?pos = "moveOutOfGoalArea s (truncateToPitch (M_pos (M_ball w)))"
  have pm: "\<not> goalKick ?pm" "?pm \<noteq> PM_PlayOn" "?pm \<noteq> PM_Drop_Ball"
    by (simp_all add: mode_for_def goalKick_def)
  obtain w1 where w1: "placeBall_pm cpm ?pm (opp_side s) ?pos (clearBallCatcher w) = Some w1"
    "restarted sp ?pm (opp_side s) ?pos (clearBallCatcher w) w1"
    using placeBall_pm_restarts[of ?pm "clearBallCatcher w" "opp_side s" ?pos] pm by blast
  have "callBackPass cpm s w
          = Some (R_catch_update (\<lambda>r. r\<lparr>CR_last_back_passer := None, CR_after_back_pass_time := 0\<rparr>) w1)"
    using assms(2) w1(1) by (cases s) (simp_all add: callBackPass_def mode_for_def Let_def)
  then show ?thesis
    using w1(2) pm(2)
    by (auto simp: restarted_catcher restarted_def calm_def mode_for_def kick_off_side_after_def)
qed

lemma callCatchFault_stops:
  assumes "s \<noteq> NEUTRAL"
  shows "\<exists>w'. callCatchFault cpm s pos w = Some w'
     \<and> M_playmode w' = mode_for PM_CatchFault_Left PM_CatchFault_Right s
     \<and> M_kick_off_side w' = opp_side s
     \<and> M_pos (M_ball w') = moveOutOfPenalty s (truncateToPitch pos)
     \<and> core w' = core w \<and> calm w' \<and> CR_after_catch_fault_time (R_catch w') = 0"
proof -
  let ?pm = "mode_for PM_CatchFault_Left PM_CatchFault_Right s"
  let ?pos = "moveOutOfPenalty s (truncateToPitch pos)"
  have pm: "\<not> goalKick ?pm" "?pm \<noteq> PM_PlayOn" "?pm \<noteq> PM_Drop_Ball"
    by (simp_all add: mode_for_def goalKick_def)
  obtain w1 where w1: "placeBall_pm cpm ?pm (opp_side s) ?pos (clearBallCatcher w) = Some w1"
    "restarted sp ?pm (opp_side s) ?pos (clearBallCatcher w) w1"
    using placeBall_pm_restarts[of ?pm "clearBallCatcher w" "opp_side s" ?pos] pm by blast
  have "callCatchFault cpm s pos w
          = Some (R_catch_update (\<lambda>r. r\<lparr>CR_after_catch_fault_time := 0\<rparr>) w1)"
    using assms w1(1) by (cases s) (simp_all add: callCatchFault_def mode_for_def Let_def)
  then show ?thesis
    using w1(2) pm(2)
    by (auto simp: restarted_catcher restarted_def calm_def mode_for_def kick_off_side_after_def)
qed

end

text \<open>The verdict on a catch, as the rules state it.\<close>

datatype verdict = Catch_Fault | Back_Pass | Caught

definition catch_verdict :: "sparam \<Rightarrow> nat \<Rightarrow> world \<Rightarrow> verdict" where
  "catch_verdict sp c w =
     (if \<not> inPenaltyArea sp (M_side (pl w c)) (M_pos (M_ball w)) then Catch_Fault
      else if backPasses sp
              \<and> (\<exists>b. CR_last_back_passer (R_catch w) = Some b \<and> M_side (pl w b) = M_side (pl w c)
                     \<and> back_pass_caught c w)
      then Back_Pass else Caught)"

definition verdict_mode :: "verdict \<Rightarrow> side \<Rightarrow> playmode" where
  "verdict_mode v s =
     (case v of Catch_Fault \<Rightarrow> mode_for PM_CatchFault_Left PM_CatchFault_Right s
      | Back_Pass \<Rightarrow> mode_for PM_Back_Pass_Left PM_Back_Pass_Right s
      | Caught \<Rightarrow> mode_for PM_FreeKick_Left PM_FreeKick_Right s)"

lemma setPlayerState_frame [simp]:
  "M_playmode (setPlayerState s u st w) = M_playmode w"
  "M_ball (setPlayerState s u st w) = M_ball w"
  by (simp_all add: setPlayerState_def upd_player_def split: option.splits)

text \<open>C16: The verdict on a catch while the ball is in play or at a restart: outside the own penalty
  area it is a catch fault, a ball last played by a team-mate is a back pass, and otherwise the
  goalie's side gets a free kick.  In every case exactly the mode of the verdict is set, the
  ball goes to the side the verdict favours, and the score does not change.\<close>

theorem ballCaught_verdict:
  assumes "\<not> shootout (M_playmode w)" and "catch_judged (M_playmode w)" and "M_side (pl w c) \<noteq> NEUTRAL"
  shows "\<exists>w'. CatchRef_ballCaught sp (changePlayMode sp (Suc n)) c w = Some w'
     \<and> M_playmode w' = verdict_mode (catch_verdict sp c w) (M_side (pl w c))
     \<and> M_kick_off_side w' = (if catch_verdict sp c w = Caught then M_side (pl w c)
                              else opp_side (M_side (pl w c)))
     \<and> core w' = core w \<and> calm w'"
proof -
  let ?s = "M_side (pl w c)" and ?cpm = "changePlayMode sp (Suc n)"
  let ?f = "R_catch_update forget_passers w"
  obtain wf where wf: "callCatchFault ?cpm ?s (M_pos (M_ball w)) w = Some wf"
    "M_playmode wf = verdict_mode Catch_Fault ?s" "M_kick_off_side wf = opp_side ?s"
    "core wf = core w" "calm wf"
    using setter.callCatchFault_stops[of ?s sp n "M_pos (M_ball w)" w] assms(3)
    by (auto simp: verdict_mode_def)
  obtain wa where wa: "awardFreeKick ?cpm ?s (M_pos (M_ball ?f)) ?f = Some wa"
    "M_playmode wa = verdict_mode Caught ?s" "M_kick_off_side wa = ?s"
    "core wa = core w" "calm wa"
    using setter.awardFreeKick_restarts[of ?s sp n "M_pos (M_ball ?f)" ?f] assms(3)
    by (cases ?s) (auto simp: restarted_def verdict_mode_def mode_for_def kick_off_side_after_def)
  have pass: "\<exists>w'. callBackPass ?cpm ?s (setPlayerState t u st w) = Some w'
      \<and> M_playmode w' = verdict_mode Back_Pass ?s \<and> M_kick_off_side w' = opp_side ?s
      \<and> core w' = core w \<and> calm w'" for t u st
    using setter.callBackPass_stops[of "setPlayerState t u st w" ?s sp n] assms(1,3)
    by (auto simp: verdict_mode_def)
  show ?thesis
  proof (cases "catch_verdict sp c w")
    case Catch_Fault
    then have "handling_violation sp c w"
      using assms(2) by (auto simp: catch_verdict_def handling_violation_def split: if_splits)
    then show ?thesis using assms(1) wf Catch_Fault by (simp add: CatchRef_ballCaught_def)
  next
    case Back_Pass
    then obtain b where "\<not> handling_violation sp c w" "backPasses sp"
      "CR_last_back_passer (R_catch w) = Some b" "M_side (pl w b) = ?s" "back_pass_caught c w"
      by (auto simp: catch_verdict_def handling_violation_def split: if_splits)
    then have "CatchRef_ballCaught sp ?cpm c w
                 = callBackPass ?cpm ?s (setPlayerState (M_side (pl w b)) (M_unum (pl w b)) BACK_PASS w)"
      using assms(1,2) by (simp add: CatchRef_ballCaught_def Let_def)
    then show ?thesis using pass Back_Pass by simp
  next
    case Caught
    then have "\<not> handling_violation sp c w"
      "\<not> (backPasses sp \<and> (\<exists>b. CR_last_back_passer (R_catch w) = Some b
            \<and> M_side (pl w b) = ?s \<and> back_pass_caught c w))"
      by (auto simp: catch_verdict_def handling_violation_def split: if_splits)
    then have "CatchRef_ballCaught sp ?cpm c w = Some wa"
      using assms(1,2) wa(1) by (auto simp: CatchRef_ballCaught_def Let_def split: option.splits)
    then show ?thesis using wa Caught by simp
  qed
qed

end
