(* ===== verification/Roster.thy ===== *)
theory Roster
  imports Stadium
begin

text \<open>
  Who plays: the constructors of players, teams and the stadium (player.cpp, team.cpp,
  \<^verbatim>\<open>Stadium::createObjects\<close>), the connection of players, their player types and
  substitutions.  The network is left out: whether a socket opens, a connection succeeds or a
  protocol version is known are boolean arguments.
\<close>

section \<open>PlayerParam\<close>

record pparam =
  playerTypes :: int
  subsMax :: int
  ptMax :: int
  allowMultDefaultType :: bool
  playerSpeedMaxDeltaMin :: real
  playerSpeedMaxDeltaMax :: real
  staminaIncMaxDeltaFactor :: real
  playerDecayDeltaMin :: real
  playerDecayDeltaMax :: real
  inertiaMomentDeltaFactor :: real
  dashPowerRateDeltaMin :: real
  dashPowerRateDeltaMax :: real
  playerSizeDeltaFactor :: real
  kickableMarginDeltaMin :: real
  kickableMarginDeltaMax :: real
  kickRandDeltaFactor :: real
  extraStaminaDeltaMin :: real
  extraStaminaDeltaMax :: real
  effortMaxDeltaFactor :: real
  effortMinDeltaFactor :: real
  newDashPowerRateDeltaMin :: real
  newDashPowerRateDeltaMax :: real
  newStaminaIncMaxDeltaFactor :: real
  kickPowerRateDeltaMin :: real
  kickPowerRateDeltaMax :: real
  foulDetectProbabilityDeltaFactor :: real
  catchAreaLengthStretchMin :: real
  catchAreaLengthStretchMax :: real

text \<open>The values after \<^verbatim>\<open>PlayerParam::setDefaults\<close>.\<close>

definition default_pparam :: pparam where
  "default_pparam = \<lparr>
     playerTypes = 18,
     subsMax = 3,
     ptMax = 1,
     allowMultDefaultType = False,
     playerSpeedMaxDeltaMin = 0,
     playerSpeedMaxDeltaMax = 0,
     staminaIncMaxDeltaFactor = 0,
     playerDecayDeltaMin = (-0.1),
     playerDecayDeltaMax = 0.1,
     inertiaMomentDeltaFactor = 25,
     dashPowerRateDeltaMin = 0,
     dashPowerRateDeltaMax = 0,
     playerSizeDeltaFactor = (-100),
     kickableMarginDeltaMin = (-0.1),
     kickableMarginDeltaMax = 0.1,
     kickRandDeltaFactor = 1,
     extraStaminaDeltaMin = 0,
     extraStaminaDeltaMax = 50,
     effortMaxDeltaFactor = (-0.004),
     effortMinDeltaFactor = (-0.004),
     newDashPowerRateDeltaMin = (-0.0012),
     newDashPowerRateDeltaMax = 0.0008,
     newStaminaIncMaxDeltaFactor = (-6000),
     kickPowerRateDeltaMin = 0,
     kickPowerRateDeltaMax = 0,
     foulDetectProbabilityDeltaFactor = 0,
     catchAreaLengthStretchMin = 1,
     catchAreaLengthStretchMax = 1.3\<rparr>"

section \<open>Construction\<close>

definition new_player :: "sparam \<Rightarrow> real \<Rightarrow> hetero list \<Rightarrow> side \<Rightarrow> int \<Rightarrow> player" where
  "new_player sp kf types s number =
     (let t0 = types ! 0;
          p0 = \<lparr>M_pos = PVector (- of_int (number * 3 * side_int s)) (- PITCH_WIDTH / 2 - 3),
                M_vel = PVector 0 0, M_accel = PVector 0 0, M_size = 1, M_decay = 0, M_randp = 0,
                M_weight = playerWeight sp, M_max_speed = playerSpeedMax sp,
                M_max_accel = playerAccelMax sp, M_post_collision_pos = PVector 0 0,
                M_collision_count = 0, M_collided = False, M_enable = False,
                M_version = 3, M_side = s, M_unum = number, M_goalie = False, M_connected = False,
                M_player_type = t0, M_player_type_id = 0, M_substituted = False,
                M_kick_rand = kickRand sp, M_state = DISABLE, M_card_count = 0,
                M_synch_see = False, M_visual_send_interval = 4, M_high_quality = True,
                M_gaussian_see = False, M_visible_angle = Deg2Rad (visibleAngleDegree sp),
                M_view_width = VIEW_NORMAL, M_hear_capacity_from_teammate = hearMax sp,
                M_hear_capacity_from_opponent = hearMax sp, M_stamina = staminaMax sp,
                M_recovery = recoverInit sp, M_effort = effortInit sp,
                M_stamina_capacity = staminaCapacity sp, M_consumed_stamina = 0,
                M_angle_body = 0, M_angle_body_committed = 0, M_angle_neck = 0,
                M_angle_neck_committed = 0, M_focus_dist = 0, M_focus_dir = 0,
                M_ball_collide = False, M_player_collide = False, M_post_collide = False,
                M_command_done = False, M_turn_neck_done = False, M_done_received = False,
                M_goalie_catch_ban = 0, M_goalie_moves_since_catch = 0, M_kick_cycles = 0,
                M_dash_cycles = 0, M_kick_count = 0, M_dash_count = 0, M_turn_count = 0,
                M_catch_count = 0, M_move_count = 0, M_turn_neck_count = 0,
                M_change_focus_count = 0, M_change_view_count = 0, M_say_count = 0,
                M_left_leg = new_Leg, M_right_leg = new_Leg,
                M_arm = new_Arm (pointToBan sp) (pointToDuration sp), M_attentionto_count = 0,
                M_tackle_cycles = 0, M_tackle_count = 0, M_foul_cycles = 0, M_foul_count = 0,
                M_long_kick_power = 0, M_long_kick_dir = 0\<rparr>
      in recoverAll sp (setPlayerType sp kf (Some t0) 0 p0))"

text \<open>The types which the counters of a team are reset for: \<open>-1\<close> and \<open>0, ..., n - 1\<close>.\<close>

definition ptype_zero :: "pparam \<Rightarrow> int \<rightharpoonup> int" where
  "ptype_zero pp = (\<lambda>i. if - 1 \<le> i \<and> i < playerTypes pp then Some 0 else None)"

text \<open>Without actuator noise the factors are not initialised and not read.\<close>

definition new_Team :: "sparam \<Rightarrow> pparam \<Rightarrow> side \<Rightarrow> team" where
  "new_Team sp pp s =
     \<lparr>T_name = [], T_side = s, T_size = 0, T_point = 0, T_pen_taken = 0, T_pen_point = 0,
      T_pen_won = False,
      T_prand_factor_team = (if s = LEFT then playerRandFactorLeft sp else playerRandFactorRight sp),
      T_kick_rand_factor_team = (if s = LEFT then kickRandFactorLeft sp else kickRandFactorRight sp),
      T_subs_count = 0, T_ptype_count = ptype_zero pp, T_ptype_used_count = ptype_zero pp\<rparr>"

definition new_ball :: "sparam \<Rightarrow> mpobj" where
  "new_ball sp =
     \<lparr>M_pos = PVector 0 0, M_vel = PVector 0 0, M_accel = PVector 0 0, M_size = ballSize sp,
      M_decay = ballDecay sp, M_randp = ballRand sp, M_weight = ballWeight sp,
      M_max_speed = ballSpeedMax sp, M_max_accel = ballAccelMax sp,
      M_post_collision_pos = PVector 0 0, M_collision_count = 0, M_collided = False,
      M_enable = True\<rparr>"

text \<open>
  The constructors of \<^verbatim>\<open>Stadium\<close> and of the referees, and \<^verbatim>\<open>createObjects\<close>.  The fields
  which the constructors of IllegalDefenseRef and PenaltyRef leave uninitialised are
  \<open>NEUTRAL\<close> and zero here.
\<close>

definition new_world :: "sparam \<Rightarrow> pparam \<Rightarrow> hetero list \<Rightarrow> weather \<Rightarrow> rng \<Rightarrow> world" where
  "new_world sp pp types we g =
     (let tl = new_Team sp pp LEFT; tr = new_Team sp pp RIGHT
      in \<lparr>M_time = 0, M_stoppage_time = 0, M_playmode = PM_BeforeKickOff, M_ball = new_ball sp,
          M_players =
            map (\<lambda>i. new_player sp (T_kick_rand_factor_team tl) types LEFT (int i + 1)) [0..<MAX_PLAYER]
            @ map (\<lambda>i. new_player sp (T_kick_rand_factor_team tr) types RIGHT (int i + 1)) [0..<MAX_PLAYER],
          M_remote_players = [], M_team_l = tl\<lparr>T_point := startGoalLeft sp\<rparr>,
          M_team_r = tr\<lparr>T_point := startGoalRight sp\<rparr>, M_player_types = types,
          M_ball_catcher = None, M_kick_off_side = LEFT, M_last_playon_start = 0,
          M_kick_off_wait = 0, M_connect_wait = 0, M_game_over_wait = 0, M_alive = True,
          M_weather = we, w_rng = g, w_audio = [], TimeRef_half_time_count = 0,
          R_stuck = \<lparr>BS_last_ball_pos = PVector 0 0, BS_counter = 0\<rparr>,
          R_offside = \<lparr>OR_last_kick_time = - 1, OR_last_kick_stoppage_time = - 1,
                       OR_last_kick_accel_r = 0, OR_last_kicker_side = NEUTRAL,
                       OR_offside_candidates = [], OR_offside_pos = PVector 0 0,
                       OR_after_offside_time = 0\<rparr>,
          R_freekick = \<lparr>FK_timer = - 1, FK_kick_taken = False, FK_goal_kick_count = 0,
                        FK_kick_taker = None, FK_kick_taker_dashes = 0,
                        FK_after_free_kick_fault_time = 0\<rparr>,
          R_touch = \<lparr>TR_last_touched = None, TR_last_touched_time = 0, TR_last_touched_accel_r = 0,
                     TR_last_indirect_kicker = None, TR_indirect_mode = False,
                     TR_after_goal_time = 0, TR_prev_ball_pos = PVector 0 0\<rparr>,
          R_catch = \<lparr>CR_last_back_passer_time = 0, CR_last_back_passer_accel_r = 0,
                     CR_last_back_passer = None, CR_before_last_back_passer = None,
                     CR_team_l_touched = False, CR_team_r_touched = False,
                     CR_after_back_pass_time = 0, CR_after_catch_fault_time = 0\<rparr>,
          R_foul = \<lparr>FR_after_foul_time = 0\<rparr>,
          R_illegal = \<lparr>IR_left_illegal_counter = 0, IR_right_illegal_counter = 0,
                       IR_last_kicker_side = NEUTRAL, IR_last_kick_time = 0,
                       IR_after_illegal_defense_time = 0\<rparr>,
          R_keepaway = \<lparr>KR_episode = 0, KR_keepers = 0, KR_takers = 0, KR_time = 0, KR_take_time = 0\<rparr>,
          R_penalty = \<lparr>PR_timer = - 1, PR_pen_nr_taken = 0, PR_pen_side = NEUTRAL,
                       PR_cur_pen_taker = NEUTRAL, PR_sLeftPenTaken = {}, PR_sRightPenTaken = {},
                       PR_last_taker = None, PR_prev_ball_pos = PVector 0 0, PR_timeover = False,
                       PR_first_time = True\<rparr>\<rparr>)"

section \<open>Joining a team\<close>

definition team :: "side \<Rightarrow> world \<Rightarrow> team" where
  "team s w = (if s = LEFT then M_team_l w else M_team_r w)"

text \<open>\<^verbatim>\<open>M_players[n]\<close> of a team is slot \<open>slot s n\<close> of the stadium.\<close>

definition slot :: "side \<Rightarrow> nat \<Rightarrow> nat" where
  "slot s n = (if s = LEFT then n else MAX_PLAYER + n)"

definition team_slots :: "side \<Rightarrow> world \<Rightarrow> nat list" where
  "team_slots s w = map (slot s) [0..<nat (T_size (team s w))]"

definition ptype_add :: "int \<Rightarrow> int \<Rightarrow> (int \<rightharpoonup> int) \<Rightarrow> int \<rightharpoonup> int" where
  "ptype_add ty d m = m(ty \<mapsto> (case m ty of None \<Rightarrow> 0 | Some c \<Rightarrow> c) + d)"

definition ptypeCount :: "team \<Rightarrow> int \<Rightarrow> int" where
  "ptypeCount t ty = (case T_ptype_count t ty of None \<Rightarrow> 0 | Some c \<Rightarrow> c)"

definition ptypeUsedCount :: "team \<Rightarrow> int \<Rightarrow> int" where
  "ptypeUsedCount t ty = (case T_ptype_used_count t ty of None \<Rightarrow> 0 | Some c \<Rightarrow> c)"

text \<open>\<^verbatim>\<open>Team::newPlayer\<close> with \<^verbatim>\<open>Player::init\<close>; \<open>senders\<close> is \<^verbatim>\<open>setSenders()\<close>.\<close>

definition newPlayer ::
  "sparam \<Rightarrow> bool \<Rightarrow> side \<Rightarrow> real \<Rightarrow> bool \<Rightarrow> world \<Rightarrow> nat option \<times> world" where
  "newPlayer sp senders s version goalie_flag w =
     (let t = team s w
      in if T_size t \<ge> int MAX_PLAYER then (None, w)
         else if goalie_flag \<and> list_ex (\<lambda>i. M_goalie (pl w i)) (team_slots s w) then (None, w)
         else
           let i = slot s (nat (T_size t));
               w1 = upd_player i (init_player sp (T_prand_factor_team t) (T_kick_rand_factor_team t)
                                    version goalie_flag) w
           in if \<not> senders then (None, disable i w1)
              else (Some i,
                    upd_team s (\<lambda>t. t\<lparr>T_size := T_size t + 1,
                                     T_ptype_count := ptype_add (- 1) 1 (T_ptype_count t),
                                     T_ptype_used_count := ptype_add (- 1) 1 (T_ptype_used_count t)\<rparr>)
                      w1))"

definition initObservationMode :: "sparam \<Rightarrow> player \<Rightarrow> player" where
  "initObservationMode sp p = (if M_version p \<ge> 18 then synch_see sp p else p)"

text \<open>Which team a name joins; a free team takes the name.\<close>

definition join_team :: "string \<Rightarrow> world \<Rightarrow> (side \<times> world) option" where
  "join_team name w =
     (if T_name (M_team_l w) = [] then Some (LEFT, upd_team LEFT (\<lambda>t. t\<lparr>T_name := name\<rparr>) w)
      else if T_name (M_team_l w) = name then Some (LEFT, w)
      else if T_name (M_team_r w) = [] then Some (RIGHT, upd_team RIGHT (\<lambda>t. t\<lparr>T_name := name\<rparr>) w)
      else if T_name (M_team_r w) = name then Some (RIGHT, w)
      else None)"

definition initPlayer ::
  "sparam \<Rightarrow> bool \<Rightarrow> bool \<Rightarrow> string \<Rightarrow> real \<Rightarrow> bool \<Rightarrow> world \<Rightarrow> nat option \<times> world" where
  "initPlayer sp senders conn name version goalie w =
     (if fixedTeamNameLeft sp = name \<or> fixedTeamNameRight sp = name then (None, w)
      else (case join_team name w of
              None \<Rightarrow> (None, w)
            | Some (s, w1) \<Rightarrow>
                (case newPlayer sp senders s version goalie w1 of
                   (None, w2) \<Rightarrow> (None, w2)
                 | (Some i, w2) \<Rightarrow>
                     if \<not> conn then (None, disable i w2)
                     else (Some i,
                           upd_player i (initObservationMode sp)
                             (upd_player i (\<lambda>p. p\<lparr>M_connected := True\<rparr>)
                                (w2\<lparr>M_remote_players := M_remote_players w2 @ [i]\<rparr>))))))"

text \<open>A socket which does not open or connect is closed, so a player who was connected is lost.\<close>

definition reconnectPlayer ::
  "bool \<Rightarrow> bool \<Rightarrow> bool \<Rightarrow> string \<Rightarrow> int \<Rightarrow> world \<Rightarrow> nat option \<times> world" where
  "reconnectPlayer opened conn senders name unum w =
     (case List.find (\<lambda>r. let t = team (M_side (pl w r)) w
                          in team_enabled t \<and> T_name t = name \<and> M_unum (pl w r) = unum)
             [0..<2 * MAX_PLAYER] of
        None \<Rightarrow> (None, w)
      | Some r \<Rightarrow>
          if hasRedCard (pl w r) then (None, w)
          else if \<not> opened \<or> \<not> conn then (None, upd_player r (\<lambda>p. p\<lparr>M_connected := False\<rparr>) w)
          else
            let w1 = upd_player r (\<lambda>p. p\<lparr>M_connected := True\<rparr>) w
            in if \<not> senders then (None, w1)
               else (Some r, upd_player r setEnable
                               (w1\<lparr>M_remote_players := M_remote_players w1 @ [r]\<rparr>)))"

text \<open>The loop over the players in \<^verbatim>\<open>removeDisconnectedClients\<close>.\<close>

definition removeDisconnectedPlayers :: "world \<Rightarrow> world" where
  "removeDisconnectedPlayers w =
     (let gone = filter (\<lambda>i. \<not> M_connected (pl w i)) (M_remote_players w)
      in (fold disable gone w)
           \<lparr>M_remote_players := filter (\<lambda>i. M_connected (pl w i)) (M_remote_players w)\<rparr>)"

section \<open>Player types\<close>

definition current_type :: "player \<Rightarrow> int" where
  "current_type p = (if M_substituted p then M_player_type_id p else - 1)"

definition count_types :: "pparam \<Rightarrow> player list \<Rightarrow> int \<rightharpoonup> int" where
  "count_types pp ps = fold (\<lambda>p. ptype_add (current_type p) 1) ps (ptype_zero pp)"

text \<open>The first type which is used fewer than \<^verbatim>\<open>ptMax()\<close> times.\<close>

definition free_type :: "pparam \<Rightarrow> team \<Rightarrow> int option" where
  "free_type pp t =
     List.find (\<lambda>ty. \<not> ptypeUsedCount t ty \<ge> ptMax pp) (map int [0..<nat (playerTypes pp)])"

definition substitute_at :: "sparam \<Rightarrow> side \<Rightarrow> nat \<Rightarrow> int \<Rightarrow> world \<Rightarrow> world" where
  "substitute_at sp s i ty w =
     upd_player i (substitute sp (T_kick_rand_factor_team (team s w)) (playerType w ty) ty) w"

definition assign_type :: "sparam \<Rightarrow> pparam \<Rightarrow> side \<Rightarrow> nat \<Rightarrow> world \<Rightarrow> world" where
  "assign_type sp pp s i w =
     (let old_type = current_type (pl w i); t = team s w
      in if old_type \<ge> 0 \<and> ptypeUsedCount t old_type \<le> ptMax pp then w
         else (case free_type pp t of
                 None \<Rightarrow> w
               | Some ty \<Rightarrow>
                   let w1 = upd_team s
                              (\<lambda>t. t\<lparr>T_ptype_count :=
                                       ptype_add old_type (- 1) (ptype_add ty 1 (T_ptype_count t)),
                                     T_ptype_used_count :=
                                       ptype_add old_type (- 1) (ptype_add ty 1 (T_ptype_used_count t))\<rparr>)
                              w
                   in if M_player_type_id (pl w1 i) \<noteq> ty then substitute_at sp s i ty w1 else w1))"

text \<open>Goalies are pushed to the front of the list, the others to its back.\<close>

definition team_order :: "side \<Rightarrow> world \<Rightarrow> nat list" where
  "team_order s w =
     fold (\<lambda>i xs. if M_goalie (pl w i) then i # xs else xs @ [i]) (team_slots s w) []"

definition assignPlayerTypes_team :: "sparam \<Rightarrow> pparam \<Rightarrow> side \<Rightarrow> world \<Rightarrow> world" where
  "assignPlayerTypes_team sp pp s w =
     (let cnt = count_types pp (map (pl w) (team_slots s w));
          w1 = upd_team s (\<lambda>t. t\<lparr>T_ptype_count := cnt, T_ptype_used_count := cnt\<rparr>) w
      in if allowMultDefaultType pp \<or> (nrNormalHalfs sp = 0 \<and> nrExtraHalfs sp = 0) then w1
         else fold (assign_type sp pp s) (team_order s w1) w1)"

definition assignPlayerTypes :: "sparam \<Rightarrow> pparam \<Rightarrow> world \<Rightarrow> world" where
  "assignPlayerTypes sp pp w =
     (let w1 = (if team_enabled (M_team_l w) then assignPlayerTypes_team sp pp LEFT w else w)
      in if team_enabled (M_team_r w1) then assignPlayerTypes_team sp pp RIGHT w1 else w1)"

text \<open>\<^verbatim>\<open>Team::substitute\<close> and \<^verbatim>\<open>Stadium::substitute\<close> for the player in slot \<open>i\<close>.\<close>

definition substitute_team :: "sparam \<Rightarrow> side \<Rightarrow> nat \<Rightarrow> int \<Rightarrow> world \<Rightarrow> world" where
  "substitute_team sp s i ty w =
     (let t = team s w; old_type = current_type (pl w i)
      in case (T_ptype_count t old_type, T_ptype_count t ty) of
           (Some old_count, Some new_count) \<Rightarrow>
             if old_count \<le> 0 then w
             else if i \<notin> set (team_slots s w) then w
             else
               let w1 = upd_team s
                          (\<lambda>t. t\<lparr>T_ptype_count :=
                                   ptype_add ty 1 (ptype_add old_type (- 1) (T_ptype_count t))\<rparr>)
                          (substitute_at sp s i ty w)
               in if M_time w1 > 0
                  then upd_team s
                         (\<lambda>t. t\<lparr>T_subs_count := T_subs_count t + 1,
                                T_ptype_used_count := ptype_add ty 1 (T_ptype_used_count t)\<rparr>) w1
                  else w1
         | _ \<Rightarrow> w)"

definition stadium_substitute :: "sparam \<Rightarrow> nat \<Rightarrow> int \<Rightarrow> world \<Rightarrow> world" where
  "stadium_substitute sp i ty w =
     (case M_side (pl w i) of
        LEFT \<Rightarrow> substitute_team sp LEFT i ty w
      | RIGHT \<Rightarrow> substitute_team sp RIGHT i ty w
      | NEUTRAL \<Rightarrow> w)"

text \<open>\<^verbatim>\<open>Team::changePlayerToGoalie\<close>: refused when an enabled goalie comes before the end.\<close>

definition changePlayerToGoalie :: "side \<Rightarrow> nat \<Rightarrow> world \<Rightarrow> bool \<times> world" where
  "changePlayerToGoalie s i w =
     (if list_ex (\<lambda>j. M_enable (pl w j) \<and> M_goalie (pl w j)) (team_slots s w) then (False, w)
      else if i \<in> set (team_slots s w) \<and> M_enable (pl w i)
      then (True, upd_player i changeToGoalie w)
      else (False, w))"

end
