(* ===== verification/Commands.thy ===== *)
theory Commands
  imports Stadium
begin

text \<open>
  The commands of player.cpp which act on the stadium: kick, tackle, goalieCatch and move.
  \<open>cpm\<close> is \<^verbatim>\<open>Stadium::changePlayMode\<close> as the referees call it; messages to the client
  are left out.
\<close>

section \<open>Kick\<close>

text \<open>The modes in which a kick is a fault: the game is stopped.\<close>

definition kick_banned :: "playmode \<Rightarrow> bool" where
  "kick_banned pm \<longleftrightarrow> pm = PM_BeforeKickOff \<or> pm \<in> stopped_modes \<or> pm = PM_TimeOver"

text \<open>The tackle command lists the same modes less those of a catch fault.\<close>

definition tackle_banned :: "playmode \<Rightarrow> bool" where
  "tackle_banned pm \<longleftrightarrow>
     pm = PM_BeforeKickOff \<or> pm \<in> stopped_modes - {PM_CatchFault_Left, PM_CatchFault_Right}
     \<or> pm = PM_TimeOver"

definition kick_dir_diff :: "world \<Rightarrow> player \<Rightarrow> real" where
  "kick_dir_diff w p = \<bar>angleFromBody (M_pos (M_ball w)) p\<bar>"

definition kick_dist_ball :: "sparam \<Rightarrow> world \<Rightarrow> player \<Rightarrow> real" where
  "kick_dist_ball sp w p =
     pv_r (M_pos (M_ball w) - M_pos p) - ht_playerSize (M_player_type p) - ballSize sp"

text \<open>The acceleration without noise, and the bound of the noise.\<close>

definition kick_eff_power :: "sparam \<Rightarrow> world \<Rightarrow> player \<Rightarrow> real \<Rightarrow> real" where
  "kick_eff_power sp w p pw =
     pw * ht_kickPowerRate (M_player_type p)
     * (1 - 0.25 * kick_dir_diff w p / pi
          - 0.25 * kick_dist_ball sp w p / ht_kickableMargin (M_player_type p))"

definition ball_speed_rate :: "sparam \<Rightarrow> world \<Rightarrow> real" where
  "ball_speed_rate sp w =
     0.5 + 0.5 * (pv_r (M_vel (M_ball w)) / (ballSpeedMax sp * ballDecay sp))"

definition kick_max_rand :: "sparam \<Rightarrow> world \<Rightarrow> player \<Rightarrow> real \<Rightarrow> real" where
  "kick_max_rand sp w p pw =
     M_kick_rand p * (pw / maxPower sp)
     * ((0.5 + 0.25 * (kick_dir_diff w p / pi
                       + kick_dist_ball sp w p / ht_kickableMargin (M_player_type p)))
        + ball_speed_rate sp w)"

text \<open>\<^verbatim>\<open>PVector::fromPolar( drand( 0.0, max_rand ), drand( -M_PI, M_PI ) )\<close>.\<close>

definition rand_vector :: "real \<Rightarrow> rng \<Rightarrow> pvector \<times> rng" where
  "rand_vector m g =
     (let (r, g1) = drand 0 m g; (a, g2) = drand (- pi) pi g1 in (fromPolar r a, g2))"

definition kick :: "sparam \<Rightarrow> mode_op \<Rightarrow> nat \<Rightarrow> real \<Rightarrow> real \<Rightarrow> world_op" where
  "kick sp cpm k power0 dir0 w0 =
     (if M_command_done (pl w0 k) then Some w0
      else
        let pw = NormalizeKickPower sp power0;
            dir = NormalizeMoment sp dir0;
            w = upd_player k (\<lambda>p. (addState KICK p)\<lparr>M_command_done := True, M_kick_cycles := 1\<rparr>) w0
        in if kick_banned (M_playmode w) then Some (upd_player k (addState KICK_FAULT) w)
           else if \<not> ballKickable sp (M_pos (M_ball w)) (pl w k)
           then failedKickTaken sp cpm k (upd_player k (addState KICK_FAULT) w)
           else do {
             let p = pl w k;
             let (noise, w1) = draw (rand_vector (kick_max_rand sp w p pw)) w;
             let accel = fromPolar (kick_eff_power sp w p pw) (dir + M_angle_body_committed p) + noise;
             w2 \<leftarrow> kickTaken sp cpm k accel w1;
             Some (upd_player k (\<lambda>p. p\<lparr>M_kick_count := M_kick_count p + 1\<rparr>) w2)
           })"

text \<open>The delayed kick; \<^verbatim>\<open>long_kick\<close> returns before it sets its power and direction.\<close>

definition doLongKick :: "sparam \<Rightarrow> mode_op \<Rightarrow> nat \<Rightarrow> world_op" where
  "doLongKick sp cpm k w =
     (if \<not> M_enable (pl w k) \<or> M_kick_cycles (pl w k) \<noteq> 1 then Some w
      else if kick_banned (M_playmode w) then Some (upd_player k (addState KICK_FAULT) w)
      else if \<not> ballKickable sp (M_pos (M_ball w)) (pl w k)
      then failedKickTaken sp cpm k (upd_player k (addState KICK_FAULT) w)
      else do {
        let p = pl w k;
        let (noise, w1) = draw (rand_vector (kick_max_rand sp w p (M_long_kick_power p))) w;
        let accel = fromPolar (kick_eff_power sp w p (M_long_kick_power p * longKickPowerFactor sp))
                      (M_long_kick_dir p + M_angle_body_committed p) + noise;
        w2 \<leftarrow> kickTaken sp cpm k accel w1;
        Some (upd_player k (\<lambda>p. p\<lparr>M_kick_count := M_kick_count p + 1\<rparr>) w2)
      })"

section \<open>Tackle\<close>

text \<open>
  \<^verbatim>\<open>std::pow\<close> of a value which is never negative; \<open>0 powr a\<close> is \<open>0\<close> as in C++ for the
  positive exponents of the parameters.
\<close>

definition tackle_prob :: "sparam \<Rightarrow> real \<Rightarrow> real \<Rightarrow> pvector \<Rightarrow> real" where
  "tackle_prob sp tackle_dist expo p2b =
     (\<bar>px p2b\<bar> / tackle_dist) powr expo + (\<bar>py p2b\<bar> / tackleWidth sp) powr expo"

text \<open>Effective power, direction and power rate of a successful tackle.\<close>

definition tackle_power :: "sparam \<Rightarrow> player \<Rightarrow> real \<Rightarrow> pvector \<Rightarrow> real \<times> real \<times> real" where
  "tackle_power sp p arg p2b =
     (let angle_rate = 1 - 0.5 * (\<bar>pv_th p2b\<bar> / pi)
      in if M_version p \<ge> 12
         then
           (let angle = NormalizeMoment sp arg;
                eff = (maxBackTacklePower sp
                       + ((maxTacklePower sp - maxBackTacklePower sp) * (1 - \<bar>angle\<bar> / pi)))
                      * tacklePowerRate sp
            in (eff * angle_rate, angle + M_angle_body_committed p, 1))
         else
           (let pw = NormalizeTacklePower sp arg;
                rate = (if pw \<ge> 0 then pw / maxTacklePower sp
                        else if \<bar>pw\<bar> < 1 / 10 ^ 10 then 0
                        else if \<bar>maxBackTacklePower sp\<bar> > 1 / 10 ^ 10 then - pw / maxBackTacklePower sp
                        else 1)
            in (pw * tacklePowerRate sp * angle_rate, M_angle_body_committed p, rate)))"

definition tackle_max_rand :: "sparam \<Rightarrow> world \<Rightarrow> player \<Rightarrow> real \<Rightarrow> real \<Rightarrow> real" where
  "tackle_max_rand sp w p rate prob =
     M_kick_rand p * tackleRandFactor sp * rate
     * ((0.5 + 0.5 * (1 - prob)) + ball_speed_rate sp w)"

text \<open>A foul is intended only if an opponent can kick the ball.\<close>

definition foul_possible :: "sparam \<Rightarrow> world \<Rightarrow> player \<Rightarrow> bool" where
  "foul_possible sp w tk \<longleftrightarrow>
     list_ex (\<lambda>p. M_enable p \<and> M_side p \<noteq> M_side tk \<and> ballKickable sp (M_pos (M_ball w)) p)
       (M_players w)"

definition tackle :: "sparam \<Rightarrow> mode_op \<Rightarrow> nat \<Rightarrow> real \<Rightarrow> bool \<Rightarrow> world_op" where
  "tackle sp cpm t arg foul0 w0 =
     (if M_command_done (pl w0 t) then Some w0
      else
        let w = upd_player t
                  (\<lambda>p. p\<lparr>M_left_leg := leg_tackle (M_left_leg p), M_right_leg := leg_tackle (M_right_leg p),
                         M_command_done := True, M_tackle_cycles := tackleCycles sp,
                         M_tackle_count := M_tackle_count p + 1\<rparr>) w0;
            p = pl w t;
            p2b = pv_rotate (M_pos (M_ball w) - M_pos p) (- M_angle_body_committed p);
            tackle_dist = (if px p2b > 0 then tackleDist sp else tackleBackDist sp)
        in if \<bar>tackle_dist\<bar> \<le> 1 / 10 ^ 5 then Some (upd_player t (addState TACKLE_FAULT) w)
           else
             let foul = (foul0 \<and> foul_possible sp w p);
                 expo = (if foul then foulExponent sp else tackleExponent sp);
                 prob = tackle_prob sp tackle_dist expo p2b
             in if prob < 1
                then
                  (let (success, w1) = draw (bernoulli (1 - prob)) w
                   in if success
                      then
                        (let w2 = upd_player t (addState TACKLE) w1
                         in if tackle_banned (M_playmode w2) then Some w2
                            else
                              let w3 = (if foul then upd_player t (\<lambda>p. p\<lparr>M_tackle_cycles := 0\<rparr>) w2
                                        else w2);
                                  (eff, dir, rate) = tackle_power sp (pl w3 t) arg p2b;
                                  (noise, w4) =
                                    draw (rand_vector (tackle_max_rand sp w3 (pl w3 t) rate prob)) w3
                              in tackleTaken sp cpm t (fromPolar eff dir + noise) foul w4)
                      else do {
                        w2 \<leftarrow> failedTackleTaken sp cpm t foul w1;
                        Some (upd_player t (addState (TACKLE OR TACKLE_FAULT)) w2)
                      })
                else do {
                  w1 \<leftarrow> failedTackleTaken sp cpm t foul w;
                  Some (upd_player t (addState TACKLE_FAULT) w1)
                })"

section \<open>Catch\<close>

text \<open>The catchable areas of the goalie model, and the probability between them.\<close>

definition catch_area :: "sparam \<Rightarrow> real \<Rightarrow> rarea" where
  "catch_area sp l = RArea_cs (PVector (l * 0.5) 0) (PVector l (catchAreaWidth sp))"

definition catch_l_max :: "sparam \<Rightarrow> player \<Rightarrow> real" where
  "catch_l_max sp p =
     catchAreaLength sp + catchAreaLength sp * (ht_catchAreaLengthStretch (M_player_type p) - 1)"

definition catch_l_min :: "sparam \<Rightarrow> player \<Rightarrow> real" where
  "catch_l_min sp p =
     catchAreaLength sp - catchAreaLength sp * (ht_catchAreaLengthStretch (M_player_type p) - 1)"

definition catch_prob :: "sparam \<Rightarrow> player \<Rightarrow> pvector \<Rightarrow> real" where
  "catch_prob sp p rel =
     (if ra_inArea (catch_area sp (catch_l_min sp p)) rel then catchProbability sp
      else min (max 0 (catchProbability sp
                       - catchProbability sp * ((px rel - catch_l_min sp p)
                                                / (catch_l_max sp p - catch_l_min sp p)))) 1)"

definition goalieCatch :: "sparam \<Rightarrow> mode_op \<Rightarrow> nat \<Rightarrow> real \<Rightarrow> world_op" where
  "goalieCatch sp cpm c dir0 w0 =
     (if M_command_done (pl w0 c) then Some w0
      else
        let dir = NormalizeCatchAngle sp dir0;
            w = upd_player c (\<lambda>p. (addState CATCH p)\<lparr>M_command_done := True\<rparr>) w0;
            p = pl w c
        in if \<not> M_goalie p \<or> M_goalie_catch_ban p > 0
              \<or> (M_playmode w \<noteq> PM_PlayOn \<and> \<not> shootout (M_playmode w))
           then Some (upd_player c (addState CATCH_FAULT) w)
           else
             let w1 = upd_player c (\<lambda>p. p\<lparr>M_goalie_catch_ban := catchBanCycle sp\<rparr>) w;
                 catch_angle = M_angle_body_committed p + NormalizeMoment sp dir;
                 p2b = M_pos (M_ball w1) - M_pos p;
                 rel = pv_rotate p2b (- catch_angle)
             in if \<not> ra_inArea (catch_area sp (catch_l_max sp p)) rel
                then Some (upd_player c (addState CATCH_FAULT) w1)
                else do {
                  let (success, w2) = draw (bernoulli (catch_prob sp p rel)) w1;
                  w3 \<leftarrow> (if success
                         then
                           (let mag = pv_r p2b - (ballSize sp + ht_playerSize (M_player_type p));
                                new_pos = pv_normalize p2b mag
                            in ballCaught sp cpm c
                                 (upd_player c (\<lambda>p. p\<lparr>M_pos := M_pos p + new_pos,
                                                     M_angle_body := pv_th new_pos,
                                                     M_vel := PVector 0 0\<rparr>) w2))
                         else
                           (let w' = upd_player c (addState CATCH_FAULT) w2;
                                vel = reflect (M_vel (M_ball w')) catch_angle
                            in ballPunched sp cpm c (vel - M_vel (M_ball w')) w'));
                  Some (upd_player c (\<lambda>p. p\<lparr>M_catch_count := M_catch_count p + 1,
                                           M_goalie_moves_since_catch := 0\<rparr>) w3)
                })"

section \<open>Move\<close>

definition after_move :: "nat \<Rightarrow> world \<Rightarrow> world" where
  "after_move i w =
     upd_player i (\<lambda>p. p\<lparr>M_left_leg := leg_move (M_left_leg p), M_right_leg := leg_move (M_right_leg p),
                         M_command_done := True, M_move_count := M_move_count p + 1\<rparr>) w"

definition move_to :: "nat \<Rightarrow> real \<Rightarrow> real \<Rightarrow> world \<Rightarrow> world" where
  "move_to i x y w =
     upd_player i (\<lambda>p. p\<lparr>M_pos := PVector (x * of_int (side_int (M_side p)))
                                         (y * of_int (side_int (M_side p)))\<rparr>) w"

definition move :: "sparam \<Rightarrow> mode_op \<Rightarrow> nat \<Rightarrow> real \<Rightarrow> real \<Rightarrow> world_op" where
  "move sp cpm i x y w =
     (if M_command_done (pl w i) then Some w
      else if M_playmode w = PM_BeforeKickOff \<or> M_playmode w = PM_AfterGoal_Right
              \<or> M_playmode w = PM_AfterGoal_Left
      then do { w1 \<leftarrow> collisions sp cpm (move_to i x y w); Some (after_move i w1) }
      else if (M_playmode w = PM_FreeKick_Left \<or> M_playmode w = PM_FreeKick_Right)
              \<and> M_ball_catcher w = Some i
      then Some (after_move i
                  (if goalieMaxMoves sp < 0
                      \<or> M_goalie_moves_since_catch (pl w i) < goalieMaxMoves sp
                   then upd_player i (\<lambda>p. p\<lparr>M_goalie_moves_since_catch :=
                                             M_goalie_moves_since_catch p + 1\<rparr>) (move_to i x y w)
                   else w))
      else Some w)"

end
