(* ===== verification/Game.thy ===== *)
theory Game
  imports Roster Commands
begin

text \<open>
  The clock of stadium.cpp: kick-off, one simulation step, and the automatic mode.  The
  order in which the step moves the objects, a shuffle of \<^verbatim>\<open>M_movable_objects\<close>, is the
  argument \<open>order\<close>, in which \<open>None\<close> is the ball.  Coaches, displays and logs are left out.
\<close>

section \<open>Kick-off\<close>

definition on_half_boundary :: "sparam \<Rightarrow> int \<Rightarrow> bool" where
  "on_half_boundary sp t \<longleftrightarrow>
     (let normal = halfTime sp * nrNormalHalfs sp
      in halfTime sp \<le> 0
         \<or> (t \<le> normal \<and> t mod halfTime sp = 0)
         \<or> (t > normal \<and> extraHalfTime sp > 0 \<and> (t - normal) mod extraHalfTime sp = 0))"

definition left_kicks_off :: "sparam \<Rightarrow> int \<Rightarrow> bool" where
  "left_kicks_off sp t \<longleftrightarrow>
     (let normal = halfTime sp * nrNormalHalfs sp;
          (current_time, half_time) =
            (if t > normal then (t - normal, extraHalfTime sp) else (t, halfTime sp))
      in half_time \<le> 0 \<or> (current_time div half_time) mod 2 = 0)"

definition kickOff :: "sparam \<Rightarrow> pparam \<Rightarrow> mode_op \<Rightarrow> world_op" where
  "kickOff sp pp cpm w =
     (let recover = (\<lambda>w. if nrNormalHalfs sp \<ge> 0 \<and> M_time w < halfTime sp * nrNormalHalfs sp
                         then recoveryPlayers sp w else w)
      in if keepAwayMode sp then cpm PM_PlayOn w
         else if on_half_boundary sp (M_time w)
         then
           (if left_kicks_off sp (M_time w)
            then
              (let w1 = placeBall LEFT (PVector 0 0) (recover w);
                   w2 = (if M_time w1 = 0 then assignPlayerTypes sp pp w1 else w1)
               in cpm PM_KickOff_Left w2)
            else cpm PM_KickOff_Right (placeBall RIGHT (PVector 0 0) (recover w)))
         else Some w)"

section \<open>Moving the objects\<close>

definition turnMovableObjects :: "nat option list \<Rightarrow> world \<Rightarrow> world" where
  "turnMovableObjects order w =
     fold (\<lambda>x w. case x of None \<Rightarrow> w | Some i \<Rightarrow> upd_player i turnImpl w) order w"

definition inc_one :: "sparam \<Rightarrow> nat option \<Rightarrow> world_op" where
  "inc_one sp x w =
     (case x of
        None \<Rightarrow>
          if M_enable (M_ball w)
          then do {
            (b, g) \<leftarrow> ball_inc sp (M_weather w) (M_ball w) (w_rng w);
            Some (w\<lparr>M_ball := b, w_rng := g\<rparr>)
          }
          else Some w
      | Some i \<Rightarrow>
          if M_enable (pl w i)
          then do {
            (p, g) \<leftarrow> player_inc sp (M_weather w) (pl w i) (w_rng w);
            Some ((upd_player i (\<lambda>_. p) w)\<lparr>w_rng := g\<rparr>)
          }
          else Some w)"

definition carry_ball :: "sparam \<Rightarrow> world \<Rightarrow> world" where
  "carry_ball sp w =
     (case M_ball_catcher w of
        None \<Rightarrow> w
      | Some c \<Rightarrow>
          upd_ball (moveTo (M_pos (pl w c)
                            + fromPolar (M_size (pl w c) + ballSize sp) (M_angle_body_committed (pl w c)))) w)"

definition incMovableObjects :: "sparam \<Rightarrow> mode_op \<Rightarrow> nat option list \<Rightarrow> world_op" where
  "incMovableObjects sp cpm order w = do {
     w1 \<leftarrow> foldM (inc_one sp) order w;
     w2 \<leftarrow> collisions sp cpm w1;
     Some (carry_ball sp w2)
   }"

section \<open>The step\<close>

definition analyse_all :: "sparam \<Rightarrow> mode_op \<Rightarrow> real \<Rightarrow> world_op" where
  "analyse_all sp cpm elapsed w = do {
     w1 \<leftarrow> TimeRef_analyse sp cpm w;
     w2 \<leftarrow> BallStuckRef_analyse sp cpm w1;
     w3 \<leftarrow> OffsideRef_analyse sp cpm (collisions sp cpm) w2;
     w4 \<leftarrow> FreeKickRef_analyse sp cpm (collisions sp cpm) w3;
     w5 \<leftarrow> TouchRef_analyse sp cpm w4;
     w6 \<leftarrow> CatchRef_analyse sp cpm (collisions sp cpm) w5;
     w7 \<leftarrow> FoulRef_analyse sp cpm (collisions sp cpm) w6;
     w8 \<leftarrow> IllegalDefenseRef_analyse sp cpm (collisions sp cpm) w7;
     w9 \<leftarrow> KeepawayRef_analyse sp cpm elapsed w8;
     PenaltyRef_analyse sp cpm w9
   }"

definition apply_commands :: "sparam \<Rightarrow> nat \<Rightarrow> world \<Rightarrow> world" where
  "apply_commands sp i w =
     (let (p, w1) = draw (applyLegsEffect sp (pl w i)) w;
          p1 = resetCommandFlags p
      in upd_player i (\<lambda>_. p1\<lparr>M_arm := arm_incAge (M_arm p1)\<rparr>) w1)"

definition tick_stoppage :: "world \<Rightarrow> world" where
  "tick_stoppage w = w\<lparr>M_stoppage_time := M_stoppage_time w + 1\<rparr>"

definition tick_time :: "world \<Rightarrow> world" where
  "tick_time w = w\<lparr>M_time := M_time w + 1, M_stoppage_time := 0\<rparr>"

definition step_objects :: "sparam \<Rightarrow> mode_op \<Rightarrow> real \<Rightarrow> nat option list \<Rightarrow> world_op" where
  "step_objects sp cpm elapsed order w =
     (let pm = M_playmode w
      in if pm = PM_BeforeKickOff
         then analyse_all sp cpm elapsed (tick_stoppage (turnMovableObjects order w))
         else if pm \<in> stopped_modes
         then do {
           w1 \<leftarrow> incMovableObjects sp cpm order (clearBallCatcher w);
           w2 \<leftarrow> analyse_all sp cpm elapsed (tick_stoppage w1);
           Some (if pm \<noteq> M_playmode w2 then tick_time w2 else w2)
         }
         else if pm \<noteq> PM_TimeOver
         then do {
           w1 \<leftarrow> incMovableObjects sp cpm order w;
           analyse_all sp cpm elapsed (tick_time w1)
         }
         else Some (tick_stoppage w))"

definition step :: "sparam \<Rightarrow> mode_op \<Rightarrow> real \<Rightarrow> nat option list \<Rightarrow> world_op" where
  "step sp cpm elapsed order w = do {
     let w1 = fold (apply_commands sp) [0..<length (M_players w)] w;
     w2 \<leftarrow> step_objects sp cpm elapsed order w1;
     let w3 = map_players
                (\<lambda>p. if \<not> M_enable p then p else updateCapacity sp (updateStamina sp p)) w2;
     Some (map_players resetState w3)
   }"

section \<open>Automatic mode\<close>

definition auto_kick_off :: "sparam \<Rightarrow> pparam \<Rightarrow> mode_op \<Rightarrow> world_op" where
  "auto_kick_off sp pp cpm w =
     (if M_playmode w = PM_BeforeKickOff
         \<and> M_time w < halfTime sp * nrNormalHalfs sp + extraHalfTime sp * nrExtraHalfs sp
      then
        let w1 = (if length (M_remote_players w) = MAX_PLAYER * 2 \<or> M_time w > 0
                  then (if M_kick_off_wait w > 0
                        then w\<lparr>M_kick_off_wait := M_kick_off_wait w - 1\<rparr> else w)
                  else (if M_connect_wait w > 0
                        then w\<lparr>M_connect_wait := M_connect_wait w - 1\<rparr> else w))
        in if M_kick_off_wait w1 \<le> 0 \<or> M_connect_wait w1 \<le> 0 then kickOff sp pp cpm w1 else Some w1
      else Some (w\<lparr>M_kick_off_wait := max 0 (kickOffWait sp), M_connect_wait := max 0 (connectWait sp)\<rparr>))"

text \<open>\<^verbatim>\<open>finalize\<close> ends the server: its loop runs while \<^verbatim>\<open>isAlive()\<close>.\<close>

definition auto_game_over :: "sparam \<Rightarrow> world \<Rightarrow> world" where
  "auto_game_over sp w =
     (if M_playmode w = PM_TimeOver
      then
        let w1 = (if M_game_over_wait w > 0 then w\<lparr>M_game_over_wait := M_game_over_wait w - 1\<rparr> else w)
        in if M_game_over_wait w1 \<le> 0 then w1\<lparr>M_alive := False\<rparr> else w1
      else w\<lparr>M_game_over_wait := gameOverWait sp\<rparr>)"

definition checkAutoMode :: "sparam \<Rightarrow> pparam \<Rightarrow> mode_op \<Rightarrow> world_op" where
  "checkAutoMode sp pp cpm w =
     (if \<not> autoMode sp then Some w
      else do { w1 \<leftarrow> auto_kick_off sp pp cpm w; Some (auto_game_over sp w1) })"

end
