(* ===== verification/Match.thy ===== *)
theory Match
  imports Calls Game
begin

text \<open>
  The course of a match: goals, half time and the end of the game, kick-offs, drop balls for
  restarts which nobody takes and balls which do not move, fouls and cards.
\<close>

section \<open>Players placed by a referee\<close>

lemma bare_placePlayersInField [simp]:
  "bare (placePlayersInField w) = bare w" "M_ball (placePlayersInField w) = M_ball w"
  by (simp_all add: placePlayersInField_def)

lemma place_in_half_frame:
  "bare (place_in_half k i w) = bare w \<and> M_ball (place_in_half k i w) = M_ball w"
  using bare_draw[of "ra_randomize (fld_half LEFT)" w] bare_draw[of "ra_randomize (fld_half RIGHT)" w]
    ball_draw[of "ra_randomize (fld_half LEFT)" w] ball_draw[of "ra_randomize (fld_half RIGHT)" w]
  by (auto simp: place_in_half_def Let_def split: side.splits prod.splits)

lemma leave_centre_frame:
  "bare (leave_centre i w) = bare w \<and> M_ball (leave_centre i w) = M_ball w"
  by (simp add: leave_centre_def Let_def)

lemma fold_frame:
  assumes "\<And>x w. f (g x w) = f w"
  shows "f (fold g xs w) = f w"
  by (induction xs arbitrary: w) (simp_all add: assms)

lemma placePlayersInTheirField_frame [simp]:
  "bare (placePlayersInTheirField sp w) = bare w"
  "M_ball (placePlayersInTheirField sp w) = M_ball w"
  unfolding placePlayersInTheirField_def Let_def
  by (rule fold_frame; simp add: place_in_half_frame leave_centre_frame)+

lemma bare_reads:
  assumes "bare v = bare w"
  shows "M_playmode v = M_playmode w" "M_kick_off_side v = M_kick_off_side w"
    "w_audio v = w_audio w" "M_time v = M_time w" "R_freekick v = R_freekick w"
    "R_stuck v = R_stuck w" "R_touch v = R_touch w" "M_ball_catcher v = M_ball_catcher w"
    "TimeRef_half_time_count v = TimeRef_half_time_count w" "R_penalty v = R_penalty w"
proof -
  have id: "M_playmode u = M_playmode (bare u)" "M_kick_off_side u = M_kick_off_side (bare u)"
    "w_audio u = w_audio (bare u)" "M_time u = M_time (bare u)" "R_freekick u = R_freekick (bare u)"
    "R_stuck u = R_stuck (bare u)" "R_touch u = R_touch (bare u)"
    "M_ball_catcher u = M_ball_catcher (bare u)"
    "TimeRef_half_time_count u = TimeRef_half_time_count (bare u)"
    "R_penalty u = R_penalty (bare u)" for u
    by (simp_all add: bare_def)
  show "M_playmode v = M_playmode w" "M_kick_off_side v = M_kick_off_side w"
    "w_audio v = w_audio w" "M_time v = M_time w" "R_freekick v = R_freekick w"
    "R_stuck v = R_stuck w" "R_touch v = R_touch w" "M_ball_catcher v = M_ball_catcher w"
    "TimeRef_half_time_count v = TimeRef_half_time_count w" "R_penalty v = R_penalty w"
    using assms id by metis+
qed

section \<open>Half time and the end of the game\<close>

text \<open>The modes in which \<^verbatim>\<open>TimeRef::analyse\<close> looks at the clock.\<close>

definition clock_runs :: "playmode \<Rightarrow> bool" where
  "clock_runs pm \<longleftrightarrow> \<not> (pm = PM_BeforeKickOff \<or> pm = PM_TimeOver \<or> pm \<in> stopped_modes)"

definition half_start :: "sparam \<Rightarrow> int \<Rightarrow> int" where
  "half_start sp c =
     (if c < nrNormalHalfs sp then halfTime sp * c
      else normal_time sp + extraHalfTime sp * (c - nrNormalHalfs sp))"

definition kicked_off_half :: "sparam \<Rightarrow> string \<Rightarrow> world \<Rightarrow> world \<Rightarrow> bool" where
  "kicked_off_half sp msg w w' \<longleftrightarrow>
     (let c = TimeRef_half_time_count w + 1
      in M_playmode w' = PM_BeforeKickOff \<and> TimeRef_half_time_count w' = c
         \<and> M_kick_off_side w' = kick_off_side_of c \<and> M_time w' = half_start sp c
         \<and> M_pos (M_ball w') = PVector 0 0 \<and> M_vel (M_ball w') = PVector 0 0
         \<and> M_team_l w' = M_team_l w \<and> M_team_r w' = M_team_r w
         \<and> w_audio w' = w_audio w @ [msg, playmode_string PM_BeforeKickOff])"

context mode_setter
begin

lemma next_half_returns:
  "\<exists>w'. next_half sp cpm msg w = Some w' \<and> kicked_off_half sp msg w w'"
proof -
  let ?c = "TimeRef_half_time_count w + 1"
  let ?w1 = "sendRefereeAudio msg (w\<lparr>TimeRef_half_time_count := ?c\<rparr>)"
  let ?w2 = "placeBall (kick_off_side_of ?c) (PVector 0 0) (?w1\<lparr>M_ball_catcher := None\<rparr>)"
  obtain w3 where w3: "cpm PM_BeforeKickOff ?w2 = Some w3" "mode_set sp PM_BeforeKickOff ?w2 w3"
    using cpm_sets[of PM_BeforeKickOff ?w2] by (auto simp: goalKick_def)
  have w2: "TimeRef_half_time_count ?w2 = ?c" "M_team_l ?w2 = M_team_l w" "M_team_r ?w2 = M_team_r w"
    "M_pos (M_ball ?w2) = PVector 0 0" "M_vel (M_ball ?w2) = PVector 0 0"
    "M_kick_off_side ?w2 = kick_off_side_of ?c" "w_audio ?w2 = w_audio w @ [msg]"
    by (simp_all add: placeBall_def upd_ball_def moveTo3_def sendRefereeAudio_def)
  have core: "core w3 = core ?w2" using w3(2) by (simp add: mode_set_def)
  let ?w4 = "w3\<lparr>M_time := half_start sp ?c\<rparr>"
  let ?w5 = "if ?c = nrNormalHalfs sp
             then map_players (\<lambda>p. if \<not> M_enable p then p else recoverStaminaCapacity sp p) ?w4 else ?w4"
  let ?w6 = "M_weather_update Weather_halfTime ?w5"
  let ?w7 = "placePlayersInTheirField sp ?w6"
  have run: "next_half sp cpm msg w = Some ?w7"
    unfolding next_half_def callHalfTime_def Let_def
    using w3(1) by (simp add: half_start_def normal_time_def)
  have reads: "M_playmode ?w6 = M_playmode w3" "TimeRef_half_time_count ?w6 = TimeRef_half_time_count w3"
    "M_kick_off_side ?w6 = M_kick_off_side w3" "M_time ?w6 = half_start sp ?c"
    "M_ball ?w6 = M_ball w3" "M_team_l ?w6 = M_team_l w3" "M_team_r ?w6 = M_team_r w3"
    "w_audio ?w6 = w_audio w3"
    by (simp_all add: map_players_def)
  have bare: "bare ?w7 = bare ?w6" and core7: "core ?w7 = core ?w6" by simp_all
  have "kicked_off_half sp msg w ?w7"
    using w3(2) w2 core_eqD[OF core] core_eqD(3,4)[OF core7] bare_reads[OF bare]
    by (simp add: kicked_off_half_def reads Let_def mode_set_def kick_off_side_after_def
        mode_announcement_def)
  with run show ?thesis by blast
qed

lemma time_up_returns:
  "\<exists>w'. time_up cpm msg w = Some w' \<and> M_playmode w' = PM_TimeOver \<and> core w' = core w
        \<and> w_audio w' = w_audio w @ [msg, playmode_string PM_TimeOver]"
  using cpm_sets[of PM_TimeOver "sendRefereeAudio msg w"]
  by (auto simp: time_up_def goalKick_def mode_set_def mode_announcement_def sendRefereeAudio_def)

end

lemma kick_off_side_alternates: "kick_off_side_of (c + 1) \<noteq> kick_off_side_of c"
proof -
  have "(c + 1) mod 2 = 0 \<longleftrightarrow> c mod 2 \<noteq> 0" by presburger
  then show ?thesis by (simp add: kick_off_side_of_def)
qed

text \<open>C26: When a normal half is over, the referee stops the game, counts the half, sets the clock to
  the start of the next one, lays the ball on the centre spot, gives the kick-off to the side
  that did not have the last one, and leaves both teams with their score.\<close>

theorem half_time_called:
  assumes "clock_runs (M_playmode w)" and "0 < halfTime sp" and "0 \<le> extraHalfTime sp * nrExtraHalfs sp"
    and "halfTime sp * (TimeRef_half_time_count w + 1) \<le> M_time w" and "M_time w < normal_time sp"
  shows "\<exists>w'. TimeRef_analyse sp (changePlayMode sp (Suc n)) w = Some w'
           \<and> kicked_off_half sp ''half_time'' w w'
           \<and> M_time w' = halfTime sp * (TimeRef_half_time_count w + 1)
           \<and> M_kick_off_side w' \<noteq> kick_off_side_of (TimeRef_half_time_count w)"
proof -
  let ?c = "TimeRef_half_time_count w + 1"
  have "halfTime sp * ?c < halfTime sp * nrNormalHalfs sp"
    using assms(4,5) by (simp add: normal_time_def)
  then have c: "?c < nrNormalHalfs sp" using assms(2) mult_less_cancel_left_pos by blast
  have run: "TimeRef_analyse sp (changePlayMode sp (Suc n)) w
               = next_half sp (changePlayMode sp (Suc n)) ''half_time'' w"
    using assms unfolding TimeRef_analyse_def Let_def clock_runs_def maximum_time_def by simp
  obtain w' where w': "next_half sp (changePlayMode sp (Suc n)) ''half_time'' w = Some w'"
    "kicked_off_half sp ''half_time'' w w'"
    using setter.next_half_returns[of sp n "''half_time''" w] by blast
  have "M_kick_off_side w' \<noteq> kick_off_side_of (TimeRef_half_time_count w)"
    using w'(2) kick_off_side_alternates by (simp add: kicked_off_half_def Let_def)
  moreover have "M_time w' = halfTime sp * ?c"
    using w'(2) c by (simp add: kicked_off_half_def half_start_def Let_def)
  ultimately show ?thesis using run w' by auto
qed


section \<open>Restarts which nobody takes, and balls which do not move\<close>

definition dropped :: "pvector \<Rightarrow> world \<Rightarrow> world \<Rightarrow> bool" where
  "dropped q w w' \<longleftrightarrow>
     M_playmode w' = PM_PlayOn \<and> M_kick_off_side w' = NEUTRAL
     \<and> M_pos (M_ball w') = moveOutOfPenalty NEUTRAL (truncateToPitch q)
     \<and> M_vel (M_ball w') = PVector 0 0 \<and> core w' = core w
     \<and> w_audio w' = w_audio w @ [playmode_string PM_Drop_Ball, playmode_string PM_PlayOn]"

lemma starts_play_freeKick: "freeKick pm \<Longrightarrow> \<not> shootout pm \<and> \<not> goalKick pm \<and> pm \<noteq> PM_PlayOn"
  by (auto simp: freeKick_def goalKick_def shootout_iff)

text \<open>A free kick, kick-in, corner kick or kick-off with the ball at rest may take as many cycles as
  the drop ball timer has left: the referee counts the timer down and keeps the mode, and when
  it reaches zero drops the ball where it lies, outside the penalty areas and on the pitch.\<close>

theorem restart_timeout:
  assumes "calm w" and "freeKick (M_playmode w)" and "M_vel (M_ball w) = PVector 0 0"
    and "0 < FK_timer (R_freekick w)" and "\<not> keepAwayMode sp"
  shows "\<exists>w'. FreeKickRef_analyse sp (changePlayMode sp (Suc n))
                 (collisions sp (changePlayMode sp (Suc n))) w = Some w'
           \<and> (if FK_timer (R_freekick w) = 1 then dropped (M_pos (M_ball w)) w w'
              else M_playmode w' = M_playmode w \<and> core w' = core w \<and> calm w'
                   \<and> FK_timer (R_freekick w') = FK_timer (R_freekick w) - 1
                   \<and> M_pos (M_ball w') = M_pos (M_ball w) \<and> M_vel (M_ball w') = PVector 0 0)"
proof -
  let ?cpm = "changePlayMode sp (Suc n)" and ?u = "placePlayersInField w"
  note pm = starts_play_freeKick[OF assms(2)]
  have "bare ?u = bare w" by simp
  from bare_eqD[OF this] have u: "calm ?u" "still ?u = still w" "core ?u = core w"
    using assms(1) by simp_all
  obtain v where v: "(if keeps_clear (M_playmode w)
      then clearPlayersFromBall sp (collisions sp ?cpm) (opp_side (M_kick_off_side ?u)) ?u else Some ?u)
        = Some v" "undisturbed ?u v"
    using clearPlayersFromBall_calm[OF u(1), of sp "opp_side (M_kick_off_side ?u)"]
      undisturbed_refl[OF u(1)]
    by (cases "keeps_clear (M_playmode w)") auto
  have read: "M_playmode v = M_playmode w" "R_freekick v = R_freekick w" "core v = core w"
    "w_audio v = w_audio w" "M_pos (M_ball v) = M_pos (M_ball w)" "M_vel (M_ball v) = PVector 0 0"
    "calm v"
    using v(2) u assms(3) by (simp_all add: undisturbed_def still_def)
  let ?t = "R_freekick_update (\<lambda>r. r\<lparr>FK_timer := FK_timer r - 1\<rparr>) v"
  have run: "FreeKickRef_analyse sp ?cpm (collisions sp ?cpm) w
               = (if FK_timer (R_freekick w) = 1 then awardDropBall ?cpm (M_pos (M_ball w)) ?t
                  else Some ?t)"
  proof -
    have "start_play ?cpm (M_playmode w) w = Some w" using assms(3) by (simp add: start_play_def)
    moreover have "run_timer ?cpm v = (if FK_timer (R_freekick w) = 1
        then awardDropBall ?cpm (M_pos (M_ball w)) ?t else Some ?t)"
      using assms(4) read by (simp add: run_timer_def Let_def)
    ultimately have "analyse_restart sp ?cpm (collisions sp ?cpm) w
        = (if FK_timer (R_freekick w) = 1 then awardDropBall ?cpm (M_pos (M_ball w)) ?t else Some ?t)"
      using v(1) assms(2) by (simp add: analyse_restart_def Let_def)
    moreover have "M_playmode w \<notin> {PM_Free_Kick_Fault_Left, PM_Free_Kick_Fault_Right,
        PM_Back_Pass_Left, PM_Back_Pass_Right, PM_CatchFault_Left, PM_CatchFault_Right}"
      using assms(2) by (auto simp: freeKick_def)
    ultimately show ?thesis using pm by (simp add: FreeKickRef_analyse_def Let_def)
  qed
  have t: "core ?t = core w" "w_audio ?t = w_audio w" "M_playmode ?t = M_playmode w"
    "M_pos (M_ball ?t) = M_pos (M_ball w)" "M_vel (M_ball ?t) = PVector 0 0" "calm ?t"
    "FK_timer (R_freekick ?t) = FK_timer (R_freekick w) - 1"
    using read by (simp_all add: calm_def)
  show ?thesis
    unfolding run
    using setter.awardDropBall_restarts[of ?t sp n "M_pos (M_ball w)"] t pm assms(5)
    by (cases "FK_timer (R_freekick w) = 1") (auto simp: dropped_def)
qed

text \<open>A ball which has not left its area for \<^verbatim>\<open>dropTime()\<close> cycles of play is dropped; while the
  count is lower it advances, a ball which moves on starts a new count, and outside play on the
  count starts again.\<close>

theorem ball_stuck:
  assumes "0 < ballStuckArea sp" and "0 < dropTime sp" and "\<not> keepAwayMode sp"
    and stuck: "stuck = (M_playmode w = PM_PlayOn
        \<and> distance2 (M_pos (M_ball w)) (BS_last_ball_pos (R_stuck w)) \<le> (ballStuckArea sp)\<^sup>2)"
    and count: "c = BS_counter (R_stuck w) + 1"
  shows "\<exists>w'. BallStuckRef_analyse sp (changePlayMode sp (Suc n)) w = Some w'
           \<and> BS_counter (R_stuck w') = (if stuck \<and> c < dropTime sp then c else 0)
           \<and> (stuck \<and> c < dropTime sp \<or> BS_last_ball_pos (R_stuck w') = M_pos (M_ball w))
           \<and> (if stuck \<and> dropTime sp \<le> c
              then M_playmode w' = PM_PlayOn
                   \<and> M_pos (M_ball w') = moveOutOfPenalty NEUTRAL (truncateToPitch (M_pos (M_ball w)))
                   \<and> M_vel (M_ball w') = PVector 0 0
              else M_playmode w' = M_playmode w \<and> M_ball w' = M_ball w)"
proof -
  let ?cpm = "changePlayMode sp (Suc n)"
  let ?r = "R_stuck_update (\<lambda>r. r\<lparr>BS_last_ball_pos := M_pos (M_ball w), BS_counter := 0\<rparr>) w"
  let ?t = "R_stuck_update (\<lambda>r. r\<lparr>BS_last_ball_pos := M_pos (M_ball w), BS_counter := 0\<rparr>)
              (R_stuck_update (\<lambda>r. r\<lparr>BS_counter := BS_counter r + 1\<rparr>) w)"
  consider "\<not> stuck" | "stuck" "c < dropTime sp" | "stuck" "dropTime sp \<le> c" by fastforce
  then show ?thesis
  proof cases
    case 1
    then have "BallStuckRef_analyse sp ?cpm w = Some ?r"
      using assms(1,2) stuck by (auto simp: BallStuckRef_analyse_def Let_def)
    then show ?thesis using 1 by simp
  next
    case 2
    then have "BallStuckRef_analyse sp ?cpm w
                 = Some (R_stuck_update (\<lambda>r. r\<lparr>BS_counter := BS_counter r + 1\<rparr>) w)"
      using assms(1,2) stuck count by (simp add: BallStuckRef_analyse_def Let_def)
    then show ?thesis using 2 count by simp
  next
    case 3
    then have run: "BallStuckRef_analyse sp ?cpm w = awardDropBall ?cpm (M_pos (M_ball w)) ?t"
      using assms(1,2) stuck count by (simp add: BallStuckRef_analyse_def Let_def)
    obtain w' where w': "awardDropBall ?cpm (M_pos (M_ball w)) ?t = Some w'"
      "M_playmode w' = PM_PlayOn" "core w' = core ?t"
      "M_pos (M_ball w') = moveOutOfPenalty NEUTRAL (truncateToPitch (M_pos (M_ball w)))"
      "M_vel (M_ball w') = PVector 0 0"
      using setter.awardDropBall_restarts[of ?t sp n "M_pos (M_ball w)"] 3 stuck assms(3)
      by (auto simp: shootout_iff)
    then show ?thesis using run 3 core_eqD(10)[OF w'(3)] by simp
  qed
qed

section \<open>Goals\<close>

lemma crossGoalLine_side:
  "crossGoalLine sp s prev w \<Longrightarrow> of_int (side_int s) * px (M_pos (M_ball w)) < 0"
  by (simp add: crossGoalLine_def Let_def split: if_splits)

text \<open>The point of the segment from \<open>prev\<close> to \<open>ball\<close> at the fraction \<open>t\<close>.\<close>

definition on_path :: "pvector \<Rightarrow> pvector \<Rightarrow> real \<Rightarrow> pvector" where
  "on_path prev ball t = prev + pv_scale (ball - prev) t"

text \<open>C4: A ball which was on the pitch crosses the goal line of a side exactly when the straight path
  of the cycle meets the line through the back of the ball behind that side's goal between the
  posts, and the ball ends behind it.\<close>

theorem crossGoalLine_path:
  assumes "s \<noteq> NEUTRAL" and "\<bar>px prev\<bar> \<le> PITCH_LENGTH * 0.5" and "0 < ballSize sp"
    and L: "L = PITCH_LENGTH * 0.5 + ballSize sp"
  shows "crossGoalLine sp s prev w \<longleftrightarrow>
           L < \<bar>px (M_pos (M_ball w))\<bar>
           \<and> (\<exists>t. 0 \<le> t \<and> t \<le> 1 \<and> px (on_path prev (M_pos (M_ball w)) t) = - of_int (side_int s) * L
                \<and> \<bar>py (on_path prev (M_pos (M_ball w)) t)\<bar> \<le> goalWidth sp * 0.5 + goalPostRadius sp)"
proof -
  let ?b = "M_pos (M_ball w)" and ?g = "goalWidth sp * 0.5 + goalPostRadius sp"
  let ?x = "- of_int (side_int s) * L"
  have sg: "of_int (side_int s) = (1::real) \<or> of_int (side_int s) = (- 1::real)"
    using assms(1) by (cases s) simp_all
  have L0: "0 < L" using assms(3) by (simp add: L PITCH_LENGTH_def)
  have prev: "\<bar>px prev\<bar> \<le> L" "- L \<le> px prev" "px prev \<le> L" using assms(2,3) by (auto simp: L)
  show ?thesis
  proof (cases "L < \<bar>px ?b\<bar> \<and> of_int (side_int s) * px ?b < 0")
    case False
    have "\<not> (\<exists>t. 0 \<le> t \<and> t \<le> 1 \<and> px (on_path prev ?b t) = ?x)" if out: "L < \<bar>px ?b\<bar>"
    proof
      assume "\<exists>t. 0 \<le> t \<and> t \<le> 1 \<and> px (on_path prev ?b t) = ?x"
      then obtain t where t: "0 \<le> t" "t \<le> 1" "px prev + (px ?b - px prev) * t = ?x"
        by (auto simp: on_path_def)
      have far: "L < of_int (side_int s) * px ?b" using out False sg by auto
      have "of_int (side_int s) * (px prev + (px ?b - px prev) * t) = - L"
        using sg t(3) by auto
      then have "(1 - t) * (of_int (side_int s) * px prev) + t * (of_int (side_int s) * px ?b) = - L"
        by (simp add: algebra_simps)
      moreover have "(1 - t) * (- L) \<le> (1 - t) * (of_int (side_int s) * px prev)"
        using t(2) prev sg by (intro mult_left_mono) auto
      moreover have "t * L \<le> t * (of_int (side_int s) * px ?b)"
        using t(1) far by (intro mult_left_mono) auto
      ultimately have "t * L \<le> - t * L" by (simp add: algebra_simps)
      then have "t = 0" using L0 t(1) by (simp add: mult_le_0_iff)
      then have "of_int (side_int s) * px prev = - L" using t(3) sg by auto
      then show False using assms(2,3) L0 sg unfolding L by fastforce
    qed
    then show ?thesis
      using False crossGoalLine_side[of sp s prev w] by (auto simp: crossGoalLine_def Let_def L)
  next
    case True
    let ?d = "px ?b - px prev"
    have d: "?d \<noteq> 0" using True prev by auto
    let ?t = "(?x - px prev) / ?d"
    have xt: "px (on_path prev ?b t) = ?x \<longleftrightarrow> t = ?t" for t
      using d by (auto simp: on_path_def field_simps)
    have t01: "0 \<le> ?t \<and> ?t \<le> 1"
      using True prev sg by (auto simp: divide_le_eq_1 zero_le_divide_iff)
    have yt: "py (on_path prev ?b ?t)
                = (py ?b - py prev) / ?d * ?x + (py prev - (py ?b - py prev) / ?d * px prev)"
    proof -
      have "c + a * ((x - q) / e) = a / e * x + (c - a / e * q)" for a c e q x :: real
        by (simp add: diff_divide_distrib right_diff_distrib)
      then show ?thesis by (simp add: on_path_def)
    qed
    have "crossGoalLine sp s prev w \<longleftrightarrow> \<bar>py (on_path prev ?b ?t)\<bar> \<le> ?g"
      using True prev assms(2) d unfolding yt
      by (auto simp: crossGoalLine_def Let_def L mult.commute)
    moreover have "(\<exists>t. 0 \<le> t \<and> t \<le> 1 \<and> px (on_path prev ?b t) = ?x \<and> \<bar>py (on_path prev ?b t)\<bar> \<le> ?g)
                     = (\<bar>py (on_path prev ?b ?t)\<bar> \<le> ?g)"
      unfolding xt using t01 by metis
    ultimately show ?thesis using True by blast
  qed
qed

definition goal_eligible :: "sparam \<Rightarrow> world \<Rightarrow> bool" where
  "goal_eligible sp w \<longleftrightarrow>
     M_playmode w \<notin> {PM_AfterGoal_Left, PM_AfterGoal_Right, PM_TimeOver}
     \<and> \<not> TR_indirect_mode (R_touch w) \<and> \<bar>px (M_pos (M_ball w))\<bar> > PITCH_LENGTH * 0.5 + ballSize sp"

lemma goal_one_side: "goal_scored sp LEFT w \<Longrightarrow> \<not> goal_scored sp RIGHT w"
  using crossGoalLine_side[of sp LEFT] crossGoalLine_side[of sp RIGHT]
  by (force simp: goal_scored_def)

definition ends_by_goal :: "sparam \<Rightarrow> world \<Rightarrow> bool" where
  "ends_by_goal sp w \<longleftrightarrow>
     halfTime sp \<ge> 0 \<and> goldenGoal sp \<and> M_time w \<ge> halfTime sp * nrNormalHalfs sp"

lemma score_frame [simp]:
  "M_ball (score s w) = M_ball w" "M_time (score s w) = M_time w"
  "M_playmode (score s w) = M_playmode w" "M_players (score s w) = M_players w"
  by (simp_all add: score_def upd_team_def)

context mode_setter
begin

lemma goal_against_returns:
  assumes "s \<noteq> NEUTRAL"
  shows "\<exists>w'. goal_against sp cpm s w = Some w' \<and> core w' = core (score (opp_side s) w)
     \<and> M_playmode w' = (if ends_by_goal sp w then PM_TimeOver
                         else mode_for PM_AfterGoal_Right PM_AfterGoal_Left s)
     \<and> M_pos (M_ball w') = M_pos (M_ball w) \<and> M_vel (M_ball w') = PVector 0 0"
proof -
  let ?w1 = "score (opp_side s) w"
  let ?w3 = "R_touch_update (\<lambda>r. r\<lparr>TR_after_goal_time := 0\<rparr>)
               (announceGoal (team_of (opp_side s) ?w1) ?w1)"
  let ?w4 = "placeBall s (M_pos (M_ball ?w3)) ?w3"
  let ?pm = "if ends_by_goal sp w then PM_TimeOver
             else if s = LEFT then PM_AfterGoal_Right else PM_AfterGoal_Left"
  have w4: "M_pos (M_ball ?w4) = M_pos (M_ball w)" "M_vel (M_ball ?w4) = PVector 0 0"
    "core ?w4 = core ?w1" "M_time ?w4 = M_time w"
    by (simp_all add: placeBall_def upd_ball_def moveTo3_def announceGoal_def sendRefereeAudio_def)
  have run: "goal_against sp cpm s w = cpm ?pm ?w4"
    using w4(4) unfolding goal_against_def ends_by_goal_def Let_def by simp
  have "\<not> goalKick ?pm" "?pm \<noteq> PM_PlayOn" by (simp_all add: goalKick_def)
  then obtain w' where "cpm ?pm ?w4 = Some w'" "mode_set sp ?pm ?w4 w'"
    using cpm_sets[of ?pm ?w4] by blast
  then show ?thesis using run w4 by (auto simp: mode_set_def mode_for_def)
qed

end

text \<open>C2: Scoring.  A goal is counted exactly when the ball in play has crossed the goal line of a side
  outside an indirect free kick and not in the hands of an opponent; then the other side, and
  only that side, gets one point, the ball stops where it is, and the game goes to the mode
  after a goal or ends by the golden goal.\<close>

theorem goal_counted:
  assumes "team_enabled (M_team_l w)" and "team_enabled (M_team_r w)"
    and l: "for_left = (goal_eligible sp w \<and> goal_scored sp RIGHT w)"
    and r: "for_right = (goal_eligible sp w \<and> goal_scored sp LEFT w)"
  shows "\<exists>w'. checkGoal sp (changePlayMode sp (Suc n)) w = Some (for_left \<or> for_right, w')
     \<and> T_point (M_team_l w') = T_point (M_team_l w) + (if for_left then 1 else 0)
     \<and> T_point (M_team_r w') = T_point (M_team_r w) + (if for_right then 1 else 0)
     \<and> (if for_left \<or> for_right
        then M_playmode w' = (if ends_by_goal sp w then PM_TimeOver
                              else if for_left then PM_AfterGoal_Left else PM_AfterGoal_Right)
             \<and> M_pos (M_ball w') = M_pos (M_ball w) \<and> M_vel (M_ball w') = PVector 0 0
        else w' = w)"
proof -
  let ?cpm = "changePlayMode sp (Suc n)"
  have score: "T_point (M_team_l (score LEFT w)) = T_point (M_team_l w) + 1"
    "T_point (M_team_r (score LEFT w)) = T_point (M_team_r w)"
    "T_point (M_team_r (score RIGHT w)) = T_point (M_team_r w) + 1"
    "T_point (M_team_l (score RIGHT w)) = T_point (M_team_l w)"
    using assms(1,2) by (simp_all add: score_def upd_team_def incPoint_def team_enabled_def)
  consider "for_left" "\<not> for_right" | "for_right" "\<not> for_left" | "\<not> for_left" "\<not> for_right"
    using goal_one_side[of sp w] l r by blast
  then show ?thesis
  proof cases
    case 1
    obtain w' where w': "goal_against sp ?cpm RIGHT w = Some w'" "core w' = core (score LEFT w)"
      "M_playmode w' = (if ends_by_goal sp w then PM_TimeOver else PM_AfterGoal_Left)"
      "M_pos (M_ball w') = M_pos (M_ball w)" "M_vel (M_ball w') = PVector 0 0"
      using setter.goal_against_returns[of RIGHT sp n w] by (auto simp: mode_for_def)
    have "checkGoal sp ?cpm w = Some (True, w')"
      using 1 l w'(1) goal_one_side[of sp w] by (auto simp: checkGoal_def goal_eligible_def)
    then show ?thesis using 1 w' core_eqD(3,4)[OF w'(2)] score by simp
  next
    case 2
    obtain w' where w': "goal_against sp ?cpm LEFT w = Some w'" "core w' = core (score RIGHT w)"
      "M_playmode w' = (if ends_by_goal sp w then PM_TimeOver else PM_AfterGoal_Right)"
      "M_pos (M_ball w') = M_pos (M_ball w)" "M_vel (M_ball w') = PVector 0 0"
      using setter.goal_against_returns[of LEFT sp n w] by (auto simp: mode_for_def)
    have "checkGoal sp ?cpm w = Some (True, w')"
      using 2 r w'(1) by (auto simp: checkGoal_def goal_eligible_def)
    then show ?thesis using 2 w' core_eqD(3,4)[OF w'(2)] score by simp
  next
    case 3
    have "checkGoal sp ?cpm w = Some (False, w)"
      using 3 l r by (auto simp: checkGoal_def goal_eligible_def)
    then show ?thesis using 3 by simp
  qed
qed

section \<open>Fouls and cards\<close>

lemma draw_frame: "draw f w = (x, w') \<Longrightarrow> core w' = core w \<and> bare w' = bare w"
  using core_draw[of f w] bare_draw[of f w] by simp

lemma check_one_foul_frame:
  "core (snd (check_one_foul sp tk foul i acc)) = core (snd acc)
   \<and> bare (snd (check_one_foul sp tk foul i acc)) = bare (snd acc)"
proof -
  obtain c y r w where acc: "acc = ((c, y, r), w)" by (metis prod.exhaust)
  show ?thesis
    unfolding check_one_foul_def acc Let_def
    by (auto split: prod.split dest!: draw_frame simp: core_upd_player)
qed

lemma checkFoul_frame:
  "core (snd (checkFoul sp t foul w)) = core w \<and> bare (snd (checkFoul sp t foul w)) = bare w"
proof -
  have "core (snd (fold (check_one_foul sp tk foul) is acc)) = core (snd acc)
      \<and> bare (snd (fold (check_one_foul sp tk foul) is acc)) = bare (snd acc)" for tk "is" acc
    by (induction "is" arbitrary: acc) (simp_all add: check_one_foul_frame)
  then show ?thesis by (simp add: checkFoul_def)
qed

text \<open>A card is shown to the player it names and to nobody else.\<close>

lemma players_discard:
  "i < length (M_players w) \<Longrightarrow>
   M_players (discard i w) = (M_players w)[i := discard_player (pl w i)]"
  by (auto simp: discard_def disable_def discard_player_def upd_player_def clearBallCatcher_def Let_def)

lemma players_redCard_at:
  "i < length (M_players w) \<Longrightarrow>
   M_players (redCard_at i w) = (M_players w)[i := redCard_player (pl w i)]"
  by (simp add: redCard_at_def redCard_player_def upd_player_def players_discard Let_def)

lemma players_yellowCard_at:
  "i < length (M_players w) \<Longrightarrow>
   M_players (yellowCard_at i w) = (M_players w)[i := yellowCard_player (pl w i)]"
  by (simp add: yellowCard_at_def yellowCard_player_def players_redCard_at)
     (simp add: upd_player_def)

lemma yellowCard_eq:
  assumes "ident_ok (M_players w)" and "i < 2 * MAX_PLAYER" and "M_enable (pl w i)"
  shows "M_players (yellowCard (M_side (pl w i)) (M_unum (pl w i)) w)
           = (M_players w)[i := yellowCard_player (pl w i)]"
    and "w_audio (yellowCard (M_side (pl w i)) (M_unum (pl w i)) w)
           = w_audio w @ [card_msg ''yellow'' (pl w i)]
             @ (if hasYellowCard (pl w i) then [card_msg ''red'' (pl w i)] else [])"
proof -
  have len: "i < length (M_players w)" using assms(1,2) by (simp add: ident_ok_def)
  show "M_players (yellowCard (M_side (pl w i)) (M_unum (pl w i)) w)
           = (M_players w)[i := yellowCard_player (pl w i)]"
    using getPlayer_ident[OF assms(1,2)] assms(3) len
    by (simp add: yellowCard_def Let_def sendRefereeAudio_def players_yellowCard_at)
  show "w_audio (yellowCard (M_side (pl w i)) (M_unum (pl w i)) w)
           = w_audio w @ [card_msg ''yellow'' (pl w i)]
             @ (if hasYellowCard (pl w i) then [card_msg ''red'' (pl w i)] else [])"
    using getPlayer_ident[OF assms(1,2)] assms(3)
    by (simp add: yellowCard_def Let_def sendRefereeAudio_def yellowCard_at_def redCard_at_def
        discard_def disable_def upd_player_def clearBallCatcher_def)
qed

text \<open>C20: Two yellow cards are a red card.  The first leaves the player on the pitch with one card, the
  second sends him off: he is disabled, carries the red card bit and no yellow one, and is no
  longer standing.  Nobody else changes, and the announcements are yellow, yellow, red.\<close>

theorem second_yellow_card:
  assumes "ident_ok (M_players w)" and "i < 2 * MAX_PLAYER" and "M_enable (pl w i)"
    and "stand_ok (pl w i)" and "M_card_count (pl w i) = 0"
    and book: "book = yellowCard (M_side (pl w i)) (M_unum (pl w i))"
  shows "M_enable (pl (book w) i) \<and> M_card_count (pl (book w) i) = 1
     \<and> \<not> M_enable (pl (book (book w)) i) \<and> hasRedCard (pl (book (book w)) i)
     \<and> has_state (M_state (pl (book (book w)) i)) RED_CARD
     \<and> \<not> has_state (M_state (pl (book (book w)) i)) YELLOW_CARD
     \<and> \<not> has_state (M_state (pl (book (book w)) i)) STAND
     \<and> (\<forall>j. j \<noteq> i \<longrightarrow> pl (book (book w)) j = pl w j)
     \<and> w_audio (book (book w)) = w_audio w @ [card_msg ''yellow'' (pl w i),
          card_msg ''yellow'' (pl w i), card_msg ''red'' (pl w i)]"
proof -
  let ?p = "pl w i"
  have len: "i < length (M_players w)" using assms(1,2) by (simp add: ident_ok_def)
  let ?p1 = "?p\<lparr>M_state := M_state ?p OR YELLOW_CARD, M_card_count := 1\<rparr>"
  have p1: "yellowCard_player ?p = ?p1"
    using assms(5) by (simp add: yellowCard_player_def hasYellowCard_def)
  have w1: "M_players (book w) = (M_players w)[i := ?p1]"
    "w_audio (book w) = w_audio w @ [card_msg ''yellow'' ?p]"
    using yellowCard_eq[OF assms(1-3)] assms(5) p1 by (simp_all add: book hasYellowCard_def)
  have at: "pl (book w) i = ?p1" using w1 len by simp
  have ident: "ident_ok (M_players (book w))"
    using assms(1,2) w1 by (auto simp: ident_ok_def nth_list_update)
  have eq: "book (book w) = yellowCard (M_side (pl (book w) i)) (M_unum (pl (book w) i)) (book w)"
    by (simp add: book[symmetric] at)
  have yellow: "hasYellowCard ?p1" by (simp add: hasYellowCard_def)
  have msg: "card_msg k ?p1 = card_msg k ?p" for k by (simp add: card_msg_def)
  have w2: "M_players (book (book w)) = (M_players w)[i := redCard_player ?p1]"
    "w_audio (book (book w)) = w_audio w @ [card_msg ''yellow'' ?p, card_msg ''yellow'' ?p,
        card_msg ''red'' ?p]"
    using yellowCard_eq[OF ident assms(2)] assms(3) yellow msg
    unfolding eq at by (simp_all add: at w1 yellowCard_player_def)
  have stand: "stand_ok ?p1"
    using assms(3,4) by (simp add: stand_ok_def has_state_def word_bw_lcs bit.conj_disj_distrib2)
  have "\<not> M_enable (redCard_player ?p1)"
    using discard_player_enable[OF stand] by (simp add: redCard_player_def Let_def)
  then show ?thesis
    using redCard_player_cards[of ?p1] assms(3) w2 len
    by (simp add: at hasRedCard_def)
qed

lemma redCard_eq:
  assumes "ident_ok (M_players w)" and "i < 2 * MAX_PLAYER" and "M_enable (pl w i)"
  shows "M_players (redCard (M_side (pl w i)) (M_unum (pl w i)) w)
           = (M_players w)[i := redCard_player (pl w i)]"
proof -
  have len: "i < length (M_players w)" using assms(1,2) by (simp add: ident_ok_def)
  show ?thesis
    using getPlayer_ident[OF assms(1,2)] assms(3) len
    by (simp add: redCard_def sendRefereeAudio_def players_redCard_at)
qed

lemma discard_frame:
  "M_playmode (discard i w) = M_playmode w" "M_kick_off_side (discard i w) = M_kick_off_side w"
  "M_ball (discard i w) = M_ball w" "M_team_l (discard i w) = M_team_l w"
  "M_team_r (discard i w) = M_team_r w"
  by (simp_all add: discard_def disable_def upd_player_def clearBallCatcher_def Let_def)

lemma card_at_frame:
  "M_playmode (redCard_at i w) = M_playmode w" "M_kick_off_side (redCard_at i w) = M_kick_off_side w"
  "M_ball (redCard_at i w) = M_ball w" "M_team_l (redCard_at i w) = M_team_l w"
  "M_team_r (redCard_at i w) = M_team_r w"
  "M_playmode (yellowCard_at i w) = M_playmode w"
  "M_kick_off_side (yellowCard_at i w) = M_kick_off_side w"
  "M_ball (yellowCard_at i w) = M_ball w" "M_team_l (yellowCard_at i w) = M_team_l w"
  "M_team_r (yellowCard_at i w) = M_team_r w"
  by (simp_all add: redCard_at_def yellowCard_at_def upd_player_def discard_frame)

lemma card_frame:
  "M_playmode (redCard s u w) = M_playmode w" "M_kick_off_side (redCard s u w) = M_kick_off_side w"
  "M_ball (redCard s u w) = M_ball w" "M_team_l (redCard s u w) = M_team_l w"
  "M_team_r (redCard s u w) = M_team_r w"
  "M_playmode (yellowCard s u w) = M_playmode w"
  "M_kick_off_side (yellowCard s u w) = M_kick_off_side w"
  "M_ball (yellowCard s u w) = M_ball w" "M_team_l (yellowCard s u w) = M_team_l w"
  "M_team_r (yellowCard s u w) = M_team_r w"
  by (simp_all add: redCard_def yellowCard_def card_at_frame sendRefereeAudio_def Let_def
      split: option.split)

lemma core_reads_player:
  assumes "core w' = core w" and "i < length (M_players w)"
  shows "M_side (pl w' i) = M_side (pl w i)" "M_unum (pl w' i) = M_unum (pl w i)"
    "M_enable (pl w' i) = M_enable (pl w i)" "M_card_count (pl w' i) = M_card_count (pl w i)"
    "M_goalie (pl w' i) = M_goalie (pl w i)"
  using core_player[OF assms] by (simp_all add: player_core_def)

lemma ident_ok_core:
  assumes "core w' = core w" and "ident_ok (M_players w)"
  shows "ident_ok (M_players w')"
  using assms core_reads_player[OF assms(1)] core_eqD(12)[OF assms(1)] by (simp add: ident_ok_def)

definition foul_spot :: "side \<Rightarrow> pvector \<Rightarrow> pvector" where
  "foul_spot s q = moveOutOfPenalty (opp_side s) (moveOutOfGoalArea NEUTRAL (truncateToPitch q))"

definition foul_stopped :: "side \<Rightarrow> pvector \<Rightarrow> world \<Rightarrow> bool" where
  "foul_stopped s q w' \<longleftrightarrow>
     M_playmode w' = mode_for PM_Foul_Charge_Left PM_Foul_Charge_Right s
     \<and> M_kick_off_side w' = opp_side s
     \<and> M_pos (M_ball w') = foul_spot s q \<and> M_vel (M_ball w') = PVector 0 0"

context mode_setter
begin

lemma callFoul_returns:
  assumes "M_side (pl w t) = s" and "s \<noteq> NEUTRAL"
  shows "\<exists>w'. FoulRef_callFoul cpm t w = Some w' \<and> core w' = core w
           \<and> foul_stopped s (M_pos (pl w t)) w' \<and> calm w'"
proof -
  let ?pm = "mode_for PM_Foul_Charge_Left PM_Foul_Charge_Right s"
  let ?pos = "foul_spot s (M_pos (pl w t))"
  have pm: "\<not> goalKick ?pm" "?pm \<noteq> PM_PlayOn" "?pm \<noteq> PM_Drop_Ball"
    by (simp_all add: mode_for_def goalKick_def)
  obtain w1 where w1: "placeBall_pm cpm ?pm (opp_side s) ?pos (clearBallCatcher w) = Some w1"
    "restarted sp ?pm (opp_side s) ?pos (clearBallCatcher w) w1"
    using placeBall_pm_restarts[of ?pm "clearBallCatcher w" "opp_side s" ?pos] pm by blast
  let ?w2 = "punishFoulPlay (M_side (pl w1 t)) (M_unum (pl w1 t)) w1"
  let ?w3 = "R_foul_update (\<lambda>r. r\<lparr>FR_after_foul_time := 0\<rparr>) ?w2"
  have run: "FoulRef_callFoul cpm t w = Some ?w3"
    using assms w1(1)
    by (cases s) (simp_all add: FoulRef_callFoul_def mode_for_def foul_spot_def Let_def)
  have bare: "bare ?w2 = bare w1" "M_ball ?w2 = M_ball w1"
    by (simp_all add: punishFoulPlay_def split: option.split)
  have read: "M_playmode ?w3 = M_playmode w1" "M_kick_off_side ?w3 = M_kick_off_side w1"
    "M_ball ?w3 = M_ball w1" "core ?w3 = core w1"
    using bare_reads(1,2)[OF bare(1)] bare(2) by simp_all
  have "calm ?w2" using bare_eqD(2)[OF bare(1)] w1(2) pm(2) by (simp add: restarted_def)
  then have "calm ?w3" by (simp add: calm_def)
  then show ?thesis
    using run w1(2) assms(2) unfolding restarted_catcher
    by (cases s) (simp_all add: restarted_def foul_stopped_def read kick_off_side_after_def mode_for_def)
qed

end

text \<open>C17: A detected foul stops the game with the ball for the opponents outside the goal and penalty
  areas of the rule, and the offender is punished as the detection says: a red card counts as
  two cards, a yellow one adds a card, a charge leaves the cards alone.  Nobody else gets a
  card, and without a detection the game goes on.\<close>

theorem foul_punished:
  assumes "\<not> shootout (M_playmode w)" and "\<not> keepAwayMode sp"
    and "ident_ok (M_players w)" and "t < 2 * MAX_PLAYER" and "M_enable (pl w t)"
    and check: "checkFoul sp t foul w = ((charge, yellow, red), w1)"
  shows "\<exists>w'. FoulRef_tackleTaken sp (changePlayMode sp (Suc n)) t foul w = Some w'
     \<and> (if charge \<or> yellow \<or> red
        then foul_stopped (M_side (pl w t)) (M_pos (pl w1 t)) w'
             \<and> M_card_count (pl w' t) =
                 (if red \<or> yellow \<and> M_card_count (pl w t) = 1 then 2
                  else M_card_count (pl w t) + (if yellow then 1 else 0))
             \<and> (\<forall>j < length (M_players w). j \<noteq> t \<longrightarrow> M_card_count (pl w' j) = M_card_count (pl w j))
             \<and> M_team_l w' = M_team_l w \<and> M_team_r w' = M_team_r w
        else w' = w1)"
proof (cases "charge \<or> yellow \<or> red")
  case False
  then show ?thesis using assms(1,2) check by (simp add: FoulRef_tackleTaken_def)
next
  case True
  let ?cpm = "changePlayMode sp (Suc n)" and ?s = "M_side (pl w t)"
  have len: "t < length (M_players w)" using assms(3,4) by (simp add: ident_ok_def)
  have core1: "core w1 = core w" using checkFoul_frame[of sp t foul w] check by simp
  have s: "?s \<noteq> NEUTRAL" using assms(3,4) by (auto simp: ident_ok_def)
  have side1: "M_side (pl w1 t) = ?s" using core_reads_player(1)[OF core1 len] .
  obtain v where v: "FoulRef_callFoul ?cpm t w1 = Some v" "core v = core w1"
    "foul_stopped ?s (M_pos (pl w1 t)) v"
    using setter.callFoul_returns[OF side1 s, of sp n] by blast
  have core_v: "core v = core w" using v(2) core1 by simp
  note read = core_reads_player[OF core_v]
  have ident: "ident_ok (M_players v)" using ident_ok_core[OF core_v assms(3)] .
  have lenv: "length (M_players v) = length (M_players w)" using core_eqD(12)[OF core_v] .
  have en: "M_enable (pl v t)" using read(3)[OF len] assms(5) by simp
  let ?red = "redCard (M_side (pl v t)) (M_unum (pl v t)) v"
  let ?yellow = "yellowCard (M_side (pl v t)) (M_unum (pl v t)) v"
  let ?w' = "if red then ?red else if yellow then ?yellow else v"
  have run: "FoulRef_tackleTaken sp ?cpm t foul w = Some ?w'"
    using True assms(1,2) check v(1)
    by (auto simp: FoulRef_tackleTaken_def callRedCard_def callYellowCard_def)
  have stop: "foul_stopped ?s (M_pos (pl w1 t)) ?w'"
    using v(3) by (simp add: foul_stopped_def card_frame)
  have teams: "M_team_l ?w' = M_team_l w" "M_team_r ?w' = M_team_r w"
    using core_eqD(3,4)[OF core_v] by (simp_all add: card_frame)
  have card: "M_card_count (redCard_player p) = 2"
    "M_card_count (yellowCard_player p) = (if M_card_count p = 1 then 2 else M_card_count p + 1)" for p
    by (simp_all add: redCard_player_def yellowCard_player_def hasYellowCard_def Let_def)
  have taker: "M_card_count (pl ?w' t) =
      (if red \<or> yellow \<and> M_card_count (pl w t) = 1 then 2
       else M_card_count (pl w t) + (if yellow then 1 else 0))"
    using redCard_eq[OF ident assms(4) en] yellowCard_eq(1)[OF ident assms(4) en]
      read(4)[OF len] len lenv by (simp add: card)
  have others: "M_card_count (pl ?w' j) = M_card_count (pl w j)"
    if "j < length (M_players w)" "j \<noteq> t" for j
    using redCard_eq[OF ident assms(4) en] yellowCard_eq(1)[OF ident assms(4) en]
      read(4)[OF that(1)] that(2) by simp
  show ?thesis using run stop teams taker others True by auto
qed

end
