(* ===== verification/Opening.thy ===== *)
theory Opening
  imports Match
begin

text \<open>
  Teams and kick-offs: how many players a team takes, how player types are handed out, and who
  kicks off when.
\<close>

section \<open>Joining a team\<close>

text \<open>
  A team has at most eleven players, which fill its slots in order, and at most one of them is
  a goalie.
\<close>

definition squad_ok :: "side \<Rightarrow> world \<Rightarrow> bool" where
  "squad_ok s w \<longleftrightarrow>
     length (M_players w) = 2 * MAX_PLAYER
     \<and> 0 \<le> T_size (team s w) \<and> T_size (team s w) \<le> int MAX_PLAYER
     \<and> length (filter (\<lambda>i. M_goalie (pl w i)) (team_slots s w)) \<le> 1"

definition has_goalie :: "side \<Rightarrow> world \<Rightarrow> bool" where
  "has_goalie s w \<longleftrightarrow> (\<exists>i \<in> set (team_slots s w). M_goalie (pl w i))"

lemma slot_inj: "slot s i = slot s j \<longleftrightarrow> i = j"
  by (simp add: slot_def)

lemma slot_new: "slot s n \<notin> set (map (slot s) [0..<n])"
  by (auto simp: slot_inj)

lemma team_slots_Suc:
  "0 \<le> T_size (team s w) \<Longrightarrow> T_size (team s w') = T_size (team s w) + 1
   \<Longrightarrow> team_slots s w' = team_slots s w @ [slot s (nat (T_size (team s w)))]"
  by (simp add: team_slots_def nat_add_distrib)

lemma setEnable_goalie [simp]: "M_goalie (setEnable p) = M_goalie p"
  by (simp add: setEnable_def Let_def)

lemma init_player_goalie [simp]: "M_goalie (init_player sp prf kf v g p) = g"
  by (simp add: init_player_def Let_def)

lemma team_upd_player [simp]:
  "team s (upd_player i f w) = team s w" "team s (disable i w) = team s w"
  by (simp_all add: team_def upd_player_def disable_def clearBallCatcher_def)

lemma players_upd:
  "M_players (upd_player i f w) = (M_players w)[i := f (pl w i)]"
  "M_players (disable i w) = (M_players w)[i := disable_player (pl w i)]"
  by (simp_all add: disable_def upd_player_def clearBallCatcher_def)

text \<open>A player is taken into a team exactly when it has fewer than eleven players, does not ask for
  a second goalie, and the senders for its protocol version exist; he gets the next slot.  The
  team stays well formed, with at most eleven players and at most one goalie.\<close>

theorem newPlayer_squad:
  assumes "squad_ok s w" and "s \<noteq> NEUTRAL"
    and accepted: "accepted = (T_size (team s w) < int MAX_PLAYER \<and> \<not> (goalie \<and> has_goalie s w) \<and> senders)"
  shows "fst (newPlayer sp senders s version goalie w)
           = (if accepted then Some (slot s (nat (T_size (team s w)))) else None)
         \<and> squad_ok s (snd (newPlayer sp senders s version goalie w))
         \<and> T_size (team s (snd (newPlayer sp senders s version goalie w)))
             = T_size (team s w) + (if accepted then 1 else 0)"
proof -
  let ?t = "team s w" and ?n = "nat (T_size (team s w))"
  let ?i = "slot s ?n"
  let ?w1 = "upd_player ?i (init_player sp (T_prand_factor_team ?t) (T_kick_rand_factor_team ?t)
               version goalie) w"
  note ok = assms(1)[unfolded squad_ok_def]
  have full: "list_ex (\<lambda>i. M_goalie (pl w i)) (team_slots s w) = has_goalie s w"
    by (simp add: has_goalie_def list_ex_iff)
  have keep: "filter (\<lambda>i. M_goalie (pl v i)) (team_slots s w) = filter (\<lambda>i. M_goalie (pl w i)) (team_slots s w)"
    if "M_players v = (M_players w)[?i := p]" for v p
    using that by (intro filter_cong) (auto simp: team_slots_def slot_inj)
  have len: "?i < length (M_players w)" if "T_size ?t < int MAX_PLAYER"
  proof -
    have "?n < MAX_PLAYER" using that ok by linarith
    then show ?thesis using ok by (auto simp: slot_def)
  qed
  consider (no) "\<not> (T_size ?t < int MAX_PLAYER) \<or> (goalie \<and> has_goalie s w)"
    | (dead) "T_size ?t < int MAX_PLAYER" "\<not> (goalie \<and> has_goalie s w)" "\<not> senders"
    | (yes) accepted
    using accepted by blast
  then show ?thesis
  proof cases
    case no
    then show ?thesis using assms(1) accepted full by (auto simp: newPlayer_def Let_def)
  next
    case dead
    have run: "newPlayer sp senders s version goalie w = (None, disable ?i ?w1)"
      using dead full by (auto simp: newPlayer_def Let_def)
    have pls: "M_players (disable ?i ?w1)
        = (M_players w)[?i := disable_player ((M_players w)[?i := init_player sp
            (T_prand_factor_team ?t) (T_kick_rand_factor_team ?t) version goalie (pl w ?i)] ! ?i)]"
      by (simp add: players_upd)
    have team: "team s (disable ?i ?w1) = team s w" by simp
    then have slots: "team_slots s (disable ?i ?w1) = team_slots s w" by (simp add: team_slots_def)
    have "length (M_players (disable ?i ?w1)) = length (M_players w)" by (simp add: players_upd)
    then have "squad_ok s (disable ?i ?w1)"
      using ok keep[OF pls] unfolding squad_ok_def team slots by simp
    then show ?thesis using run team dead accepted by simp
  next
    case yes
    let ?w2 = "upd_team s (\<lambda>t. t\<lparr>T_size := T_size t + 1,
                 T_ptype_count := ptype_add (- 1) 1 (T_ptype_count t),
                 T_ptype_used_count := ptype_add (- 1) 1 (T_ptype_used_count t)\<rparr>) ?w1"
    have run: "newPlayer sp senders s version goalie w = (Some ?i, ?w2)"
      using yes full accepted by (auto simp: newPlayer_def Let_def)
    have pls: "M_players ?w2 = (M_players w)[?i := init_player sp (T_prand_factor_team ?t)
                 (T_kick_rand_factor_team ?t) version goalie (pl w ?i)]"
      using assms(2) by (cases s) (simp_all add: upd_team_def upd_player_def)
    have size: "T_size (team s ?w2) = T_size ?t + 1"
      using assms(2) by (cases s) (simp_all add: team_def upd_team_def upd_player_def)
    have slots: "team_slots s ?w2 = team_slots s w @ [?i]"
      by (rule team_slots_Suc) (use ok size in simp_all)
    have at: "M_goalie (pl ?w2 ?i) = goalie" using len yes accepted by (simp add: pls)
    have "length (filter (\<lambda>i. M_goalie (pl ?w2 i)) (team_slots s ?w2)) \<le> 1"
      using keep[OF pls] ok yes accepted at full
      by (auto simp: slots has_goalie_def filter_empty_conv)
    then have "squad_ok s ?w2" using ok size yes accepted by (simp add: squad_ok_def pls)
    then show ?thesis using run size yes by simp
  qed
qed

section \<open>Player types\<close>

text \<open>Handing out types never gives one type to more players than \<^verbatim>\<open>ptMax()\<close>.\<close>

lemma ptypeUsedCount_add:
  "ptypeUsedCount (t\<lparr>T_ptype_used_count := ptype_add a d (T_ptype_used_count t)\<rparr>) b
     = ptypeUsedCount t b + (if a = b then d else 0)"
  by (simp add: ptypeUsedCount_def ptype_add_def)

lemma ptype_add_count:
  "(case ptype_add a d m b of None \<Rightarrow> 0 | Some c \<Rightarrow> c)
     = (case m b of None \<Rightarrow> 0 | Some c \<Rightarrow> c) + (if a = b then d else 0)"
  by (simp add: ptype_add_def)

lemma free_type_free: "free_type pp t = Some ty \<Longrightarrow> 0 \<le> ty \<and> ptypeUsedCount t ty < ptMax pp"
  by (auto simp: free_type_def find_Some_iff)

lemma assign_type_bound:
  assumes "s \<noteq> NEUTRAL" and "0 \<le> b"
  shows "ptypeUsedCount (team s (assign_type sp pp s i w)) b
           \<le> max (ptMax pp) (ptypeUsedCount (team s w) b)"
proof (cases "(current_type (pl w i) \<ge> 0 \<and> ptypeUsedCount (team s w) (current_type (pl w i)) \<le> ptMax pp)
              \<or> free_type pp (team s w) = None")
  case True
  then show ?thesis by (auto simp: assign_type_def Let_def)
next
  case False
  then obtain ty where ty: "free_type pp (team s w) = Some ty" by auto
  let ?old = "current_type (pl w i)"
  have cnt: "ptypeUsedCount (team s (assign_type sp pp s i w)) b
      = ptypeUsedCount (team s w) b + (if ty = b then 1 else 0) + (if ?old = b then - 1 else 0)"
    using False ty assms(1)
    by (cases s) (auto simp: assign_type_def Let_def substitute_at_def ptypeUsedCount_def
        ptype_add_count team_def upd_team_def upd_player_def)
  show ?thesis unfolding cnt using free_type_free[OF ty] by auto
qed

text \<open>The automatic assignment of player types respects the limit per type: it leaves every type with
  at most \<^verbatim>\<open>ptMax()\<close> players, or with no more than had it before.\<close>

theorem assign_types_bound:
  assumes "s \<noteq> NEUTRAL" and "0 \<le> ty"
  shows "ptypeUsedCount (team s (fold (assign_type sp pp s) order w)) ty
           \<le> max (ptMax pp) (ptypeUsedCount (team s w) ty)"
proof (induction order arbitrary: w)
  case Nil
  then show ?case by simp
next
  case (Cons i order)
  have "ptypeUsedCount (team s (fold (assign_type sp pp s) order (assign_type sp pp s i w))) ty
          \<le> max (ptMax pp) (ptypeUsedCount (team s (assign_type sp pp s i w)) ty)"
    by (rule Cons.IH)
  also have "\<dots> \<le> max (ptMax pp) (ptypeUsedCount (team s w) ty)"
    using assign_type_bound[OF assms, of sp pp i w] by simp
  finally show ?case by simp
qed

section \<open>Kick-off\<close>

text \<open>What handing out player types leaves alone.\<close>

definition kick_frame :: "world \<Rightarrow> mpobj \<times> side \<times> playmode \<times> int \<times> int \<times> int" where
  "kick_frame w = (M_ball w, M_kick_off_side w, M_playmode w, T_point (M_team_l w),
                   T_point (M_team_r w), M_time w)"

lemma kick_frame_upd [simp]:
  "kick_frame (upd_player i f w) = kick_frame w" "kick_frame (map_players f w) = kick_frame w"
  by (simp_all add: kick_frame_def upd_player_def map_players_def)

lemma kick_frame_upd_team:
  "(\<And>t. T_point (f t) = T_point t) \<Longrightarrow> kick_frame (upd_team s f w) = kick_frame w"
  by (cases s) (simp_all add: kick_frame_def upd_team_def)

lemma kick_frame_assign_type [simp]: "kick_frame (assign_type sp pp s i w) = kick_frame w"
  by (simp add: assign_type_def Let_def substitute_at_def kick_frame_upd_team split: option.split)

lemma kick_frame_assignPlayerTypes [simp]: "kick_frame (assignPlayerTypes sp pp w) = kick_frame w"
proof -
  have "kick_frame (assignPlayerTypes_team sp pp s w) = kick_frame w" for s w
    unfolding assignPlayerTypes_team_def Let_def
    by (simp add: fold_frame[where f = kick_frame] kick_frame_upd_team)
  then show ?thesis by (simp add: assignPlayerTypes_def Let_def)
qed

text \<open>A kick-off on a half boundary lays the ball at rest on the centre spot and gives it to the side
  whose turn it is, the left one in even halves, with the score untouched.\<close>

theorem kickOff_restart:
  assumes "\<not> keepAwayMode sp" and "on_half_boundary sp (M_time w)"
    and s: "s = (if left_kicks_off sp (M_time w) then LEFT else RIGHT)"
  shows "\<exists>w'. kickOff sp pp (changePlayMode sp (Suc n)) w = Some w'
           \<and> M_playmode w' = mode_for PM_KickOff_Left PM_KickOff_Right s \<and> M_kick_off_side w' = s
           \<and> M_pos (M_ball w') = PVector 0 0 \<and> M_vel (M_ball w') = PVector 0 0
           \<and> M_time w' = M_time w
           \<and> T_point (M_team_l w') = T_point (M_team_l w) \<and> T_point (M_team_r w') = T_point (M_team_r w)"
proof -
  let ?cpm = "changePlayMode sp (Suc n)"
  let ?rec = "if nrNormalHalfs sp \<ge> 0 \<and> M_time w < halfTime sp * nrNormalHalfs sp
              then recoveryPlayers sp w else w"
  let ?w1 = "placeBall s (PVector 0 0) ?rec"
  let ?w2 = "if s = LEFT \<and> M_time ?w1 = 0 then assignPlayerTypes sp pp ?w1 else ?w1"
  let ?pm = "mode_for PM_KickOff_Left PM_KickOff_Right s"
  have run: "kickOff sp pp ?cpm w = ?cpm ?pm ?w2"
    using assms(1,2) by (simp add: kickOff_def s mode_for_def Let_def)
  have pm: "\<not> goalKick ?pm" "?pm \<noteq> PM_PlayOn" by (simp_all add: mode_for_def goalKick_def)
  obtain w' where w': "?cpm ?pm ?w2 = Some w'" "mode_set sp ?pm ?w2 w'"
    using setter.cpm_sets[of ?pm sp n ?w2] pm by blast
  have "kick_frame ?rec = kick_frame w" by (simp add: recoveryPlayers_def)
  then have "kick_frame ?w1 = (moveTo3 (PVector 0 0) (PVector 0 0) (PVector 0 0) (M_ball w), s,
      M_playmode w, T_point (M_team_l w), T_point (M_team_r w), M_time w)"
    by (simp add: kick_frame_def placeBall_def upd_ball_def)
  then have f2: "M_ball ?w2 = moveTo3 (PVector 0 0) (PVector 0 0) (PVector 0 0) (M_ball w)"
    "T_point (M_team_l ?w2) = T_point (M_team_l w)" "T_point (M_team_r ?w2) = T_point (M_team_r w)"
    "M_time ?w2 = M_time w"
    using kick_frame_assignPlayerTypes[of sp pp ?w1] by (auto simp: kick_frame_def)
  have core: "core w' = core ?w2" using w'(2) by (simp add: mode_set_def)
  have ks: "s \<noteq> NEUTRAL" using s by simp
  then have "M_kick_off_side w' = s"
    using w'(2) by (cases s) (simp_all add: mode_set_def mode_for_def kick_off_side_after_def)
  then show ?thesis
    using w' core_eqD(1,3,4)[OF core] f2 unfolding run by (simp add: mode_set_def moveTo3_def)
qed

text \<open>The kick-off after half time goes to the side the half-time referee has chosen: at the start of
  a normal half the two computations of the turn agree.\<close>

theorem kick_off_turns_agree:
  assumes "0 < halfTime sp" and "0 \<le> c" and "c < nrNormalHalfs sp"
  shows "on_half_boundary sp (half_start sp c)
         \<and> left_kicks_off sp (half_start sp c) = (kick_off_side_of c = LEFT)"
proof -
  have "halfTime sp * c \<le> halfTime sp * nrNormalHalfs sp" using assms by simp
  then show ?thesis
    using assms
    by (simp add: half_start_def on_half_boundary_def left_kicks_off_def kick_off_side_of_def Let_def)
qed

end
