(* ===== verification/Shootout.thy ===== *)
theory Shootout
  imports Match
begin

text \<open>
  The penalty shoot-out: who kicks, what a kick counts, and when the shoot-out is decided.
\<close>

section \<open>The record of the kicks\<close>

definition pen_taken :: "side \<Rightarrow> world \<Rightarrow> int" where
  "pen_taken s w = T_pen_taken (team_of s w)"

definition pen_points :: "side \<Rightarrow> world \<Rightarrow> int" where
  "pen_points s w = T_pen_point (team_of s w)"

text \<open>
  The counter of the referee and those of the teams: \<open>kicked\<close> when the side whose turn it is
  has just kicked, \<open>kick_due\<close> when it has not yet.
\<close>

definition kicked :: "world \<Rightarrow> bool" where
  "kicked w \<longleftrightarrow>
     (let n = PR_pen_nr_taken (R_penalty w); s = PR_cur_pen_taker (R_penalty w)
      in 0 \<le> n \<and> s \<noteq> NEUTRAL \<and> pen_taken s w = (n + 1) div 2 \<and> pen_taken (opp_side s) w = n div 2)"

definition kick_due :: "world \<Rightarrow> bool" where
  "kick_due w \<longleftrightarrow>
     (let n = PR_pen_nr_taken (R_penalty w); s = PR_cur_pen_taker (R_penalty w)
      in 0 \<le> n \<and> s \<noteq> NEUTRAL \<and> pen_taken s w = n div 2 \<and> pen_taken (opp_side s) w = (n + 1) div 2)"

text \<open>What the decision may change: announcements, samples, the winner and the end.\<close>

definition pen_record :: "world \<Rightarrow> int \<times> side \<times> side \<times> int \<times> int \<times> int \<times> int \<times> bool \<times> bool" where
  "pen_record w =
     (PR_pen_nr_taken (R_penalty w), PR_cur_pen_taker (R_penalty w), PR_pen_side (R_penalty w),
      pen_taken LEFT w, pen_taken RIGHT w, pen_points LEFT w, pen_points RIGHT w,
      team_enabled (M_team_l w), team_enabled (M_team_r w))"

lemma pen_record_core:
  assumes "core w' = core w"
  shows "pen_record w' = pen_record w"
  using core_eqD(3,4)[OF assms] core_penalty[OF assms]
  by (simp add: pen_record_def pen_taken_def pen_points_def team_of_def)

lemma pen_record_eqD:
  assumes "pen_record w' = pen_record w"
  shows "PR_pen_nr_taken (R_penalty w') = PR_pen_nr_taken (R_penalty w)"
    "PR_cur_pen_taker (R_penalty w') = PR_cur_pen_taker (R_penalty w)"
    "PR_pen_side (R_penalty w') = PR_pen_side (R_penalty w)"
    "s \<noteq> NEUTRAL \<Longrightarrow> pen_taken s w' = pen_taken s w"
    "s \<noteq> NEUTRAL \<Longrightarrow> pen_points s w' = pen_points s w"
    "team_enabled (M_team_l w') = team_enabled (M_team_l w)"
    "team_enabled (M_team_r w') = team_enabled (M_team_r w)"
  using assms by (cases s; simp add: pen_record_def)+

lemma pen_record_decision [simp]:
  "pen_record (sendRefereeAudio m w) = pen_record w" "pen_record (set_timeover w) = pen_record w"
  "pen_record (penaltyWinner s w) = pen_record w"
  by (simp_all add: pen_record_def pen_taken_def pen_points_def team_of_def sendRefereeAudio_def
      set_timeover_def penaltyWinner_def upd_team_def setPenaltyWinner_def team_enabled_def)

lemma pen_record_draw: "draw f w = (x, w') \<Longrightarrow> pen_record w' = pen_record w"
  using draw_frame[of f w x w'] pen_record_core[of w' w] by simp

text \<open>Between two kicks the turn passes.\<close>

lemma turn_passes:
  assumes "kicked w" and "pen_record w' = pen_record (R_penalty_update
      (\<lambda>r. r\<lparr>PR_cur_pen_taker := opp_side (PR_cur_pen_taker (R_penalty w))\<rparr>) w)"
  shows "kick_due w'"
  using assms
  by (cases "PR_cur_pen_taker (R_penalty w)")
     (simp_all add: kicked_def kick_due_def pen_record_def pen_taken_def pen_points_def team_of_def Let_def)

section \<open>The decision\<close>

definition pen_ended :: "world \<Rightarrow> bool" where
  "pen_ended w \<longleftrightarrow> PR_timeover (R_penalty w) \<or> M_playmode w = PM_TimeOver"

text \<open>The points a side can still reach are those of its remaining regular kicks.\<close>

lemma max_extra_remaining:
  assumes "kicked w" and "s \<noteq> NEUTRAL"
  shows "max_extra sp s w = pen_points s w + (penNrKicks sp - pen_taken s w)"
proof -
  let ?n = "PR_pen_nr_taken (R_penalty w)" and ?c = "PR_cur_pen_taker (R_penalty w)"
  have half: "(?n + 1) div 2 = ?n div 2 + (if ?n mod 2 = 1 then 1 else 0)" by presburger
  have "pen_taken s w = ?n div 2 + (if ?n mod 2 = 1 \<and> ?c = s then 1 else 0)"
    using assms half by (cases s; cases ?c) (auto simp: kicked_def Let_def)
  moreover have "pen_points s w = T_pen_point (if s = LEFT then M_team_l w else M_team_r w)"
    by (simp add: pen_points_def team_of_def)
  ultimately show ?thesis by (simp add: max_extra_def Let_def)
qed

context mode_setter
begin

lemma penalty_check_score_returns:
  "\<exists>w'. penalty_check_score sp cpm w = Some w' \<and> pen_record w' = pen_record w"
proof -
  obtain w2 where w2: "cpm PM_TimeOver (sendRefereeAudio ''penalty_winner_r'' w) = Some w2"
    "mode_set sp PM_TimeOver (sendRefereeAudio ''penalty_winner_r'' w) w2"
    using cpm_sets[of PM_TimeOver "sendRefereeAudio ''penalty_winner_r'' w"]
    by (auto simp: goalKick_def)
  then have r2: "pen_record w2 = pen_record w"
    using pen_record_core[of w2 "sendRefereeAudio ''penalty_winner_r'' w"] by (simp add: mode_set_def)
  obtain u w1 where d: "draw (drand 0 1) w = (u, w1)" by fastforce
  note r1 = pen_record_draw[OF d]
  show ?thesis
    unfolding penalty_check_score_def Let_def d prod.case
    using w2(1) r2 r1 by simp
qed

end

text \<open>The lead of a side which the other cannot make good with its remaining regular kicks.\<close>

definition uncatchable :: "sparam \<Rightarrow> side \<Rightarrow> world \<Rightarrow> bool" where
  "uncatchable sp s w \<longleftrightarrow>
     (\<forall>k. 0 \<le> k \<and> k \<le> penNrKicks sp - pen_taken (opp_side s) w
        \<longrightarrow> pen_points (opp_side s) w + k < pen_points s w)"

lemma uncatchable_iff:
  assumes "kicked w" and "s \<noteq> NEUTRAL" and "PR_pen_nr_taken (R_penalty w) \<le> 2 * penNrKicks sp"
  shows "uncatchable sp s w \<longleftrightarrow> max_extra sp (opp_side s) w < pen_points s w"
proof -
  let ?o = "opp_side s" and ?n = "PR_pen_nr_taken (R_penalty w)"
  have o: "?o \<noteq> NEUTRAL" using assms(2) by (cases s) simp_all
  have "(?n + 1) div 2 \<le> penNrKicks sp" "?n div 2 \<le> penNrKicks sp" using assms(3) by auto
  then have "0 \<le> penNrKicks sp - pen_taken ?o w"
    using assms(1,2) by (cases s; cases "PR_cur_pen_taker (R_penalty w)") (auto simp: kicked_def Let_def)
  then have "uncatchable sp s w
      \<longleftrightarrow> pen_points ?o w + (penNrKicks sp - pen_taken ?o w) < pen_points s w"
    unfolding uncatchable_def by force
  then show ?thesis using max_extra_remaining[OF assms(1) o] by simp
qed

text \<open>C5: The early decision of the shoot-out is sound and complete: while the regular kicks last, the
  check after a kick ends the shoot-out exactly when the lead of one side stands whatever the
  remaining regular kicks of the other bring.  Points and kick counts are not changed by it.\<close>

theorem shootout_decision:
  assumes "kicked w" and "PR_pen_nr_taken (R_penalty w) \<le> 2 * penNrKicks sp"
    and "0 \<le> penMaxExtraKicks sp" and "\<not> pen_ended w"
  shows "\<exists>w'. penalty_check_score sp (changePlayMode sp (Suc n)) w = Some w'
           \<and> pen_record w' = pen_record w
           \<and> (pen_ended w' \<longleftrightarrow> uncatchable sp LEFT w \<or> uncatchable sp RIGHT w)"
proof -
  let ?cpm = "changePlayMode sp (Suc n)" and ?n = "PR_pen_nr_taken (R_penalty w)"
  let ?a = "sendRefereeAudio ''penalty_winner_r'' w"
  obtain w2 where w2: "?cpm PM_TimeOver ?a = Some w2" "mode_set sp PM_TimeOver ?a w2"
    using setter.cpm_sets[of PM_TimeOver sp n ?a] by (auto simp: goalKick_def)
  have r2: "pen_record w2 = pen_record w"
    using pen_record_core[of w2 ?a] w2(2) by (simp add: mode_set_def)
  have e2: "pen_ended w2" using w2(2) by (simp add: pen_ended_def mode_set_def)
  have pts: "T_pen_point (M_team_l w) = pen_points LEFT w" "T_pen_point (M_team_r w) = pen_points RIGHT w"
    by (simp_all add: pen_points_def team_of_def)
  have iff: "uncatchable sp LEFT w \<longleftrightarrow> max_extra sp RIGHT w < pen_points LEFT w"
    "uncatchable sp RIGHT w \<longleftrightarrow> max_extra sp LEFT w < pen_points RIGHT w"
    using uncatchable_iff[OF assms(1) _ assms(2), of LEFT] uncatchable_iff[OF assms(1) _ assms(2), of RIGHT]
    by simp_all
  have run: "penalty_check_score sp ?cpm w
     = (if uncatchable sp RIGHT w then Some w2
        else if uncatchable sp LEFT w
        then Some (set_timeover (sendRefereeAudio ''penalty_winner_l'' w)) else Some w)"
    using assms(2,3) w2(1) unfolding penalty_check_score_def Let_def pts iff by simp
  have e3: "pen_ended (set_timeover v)" for v by (simp add: pen_ended_def set_timeover_def)
  show ?thesis unfolding run using r2 e2 e3 assms(4) by simp
qed

section \<open>A kick\<close>

lemma pen_record_count_kick:
  "pen_record (count_kick w) = (PR_pen_nr_taken (R_penalty w) + 1, snd (pen_record w))"
  by (simp add: pen_record_def count_kick_def pen_taken_def pen_points_def team_of_def)

lemma pen_record_penaltyScore:
  assumes "team_enabled (M_team_l w)" and "team_enabled (M_team_r w)" and "s \<noteq> NEUTRAL"
    and "t \<noteq> NEUTRAL"
  shows "pen_taken t (penaltyScore s b w) = pen_taken t w + (if t = s then 1 else 0)"
    and "pen_points t (penaltyScore s b w) = pen_points t w + (if t = s \<and> b then 1 else 0)"
    and "R_penalty (penaltyScore s b w) = R_penalty w"
  using assms
  by (cases s; cases t; simp add: penaltyScore_def pen_taken_def pen_points_def team_of_def
      upd_team_def setPenaltyScore_def setPenaltyMiss_def Let_def)+

text \<open>The result of a kick of side \<open>s\<close>.\<close>

definition kick_counted :: "side \<Rightarrow> bool \<Rightarrow> world \<Rightarrow> world \<Rightarrow> bool" where
  "kick_counted s scored w w' \<longleftrightarrow>
     PR_pen_nr_taken (R_penalty w') = PR_pen_nr_taken (R_penalty w) + 1
     \<and> PR_cur_pen_taker (R_penalty w') = PR_cur_pen_taker (R_penalty w)
     \<and> (\<forall>t. t \<noteq> NEUTRAL \<longrightarrow> pen_taken t w' = pen_taken t w + (if t = s then 1 else 0)
                         \<and> pen_points t w' = pen_points t w + (if t = s \<and> scored then 1 else 0))"

context mode_setter
begin

lemma penalty_kick_returns:
  assumes "team_enabled (M_team_l w)" and "team_enabled (M_team_r w)" and "s \<noteq> NEUTRAL"
  shows "\<exists>w'. (if scored then penalty_score sp cpm s w else penalty_miss sp cpm s w) = Some w'
           \<and> kick_counted s scored w w'"
proof -
  let ?pm = "if scored then (if s = RIGHT then PM_PenaltyScore_Right else PM_PenaltyScore_Left)
             else (if s = LEFT then PM_PenaltyMiss_Left else PM_PenaltyMiss_Right)"
  have "\<not> goalKick ?pm" "?pm \<noteq> PM_PlayOn" by (simp_all add: goalKick_def)
  then obtain w1 where w1: "cpm ?pm w = Some w1" "mode_set sp ?pm w w1"
    using cpm_sets[of ?pm w] by blast
  then have "core w1 = core w" by (simp add: mode_set_def)
  note r1 = pen_record_core[OF this]
  let ?w2 = "if scored then count_kick (penaltyScore s True w1) else penaltyScore s False (count_kick w1)"
  obtain w' where w': "penalty_check_score sp cpm ?w2 = Some w'" "pen_record w' = pen_record ?w2"
    using penalty_check_score_returns by blast
  have run: "(if scored then penalty_score sp cpm s w else penalty_miss sp cpm s w) = Some w'"
    using w1(1) w'(1) assms(3)
    by (cases s; cases scored) (simp_all add: penalty_score_def penalty_miss_def Let_def)
  have en: "team_enabled (M_team_l w1)" "team_enabled (M_team_r w1)"
    "team_enabled (M_team_l (count_kick w1))" "team_enabled (M_team_r (count_kick w1))"
    using pen_record_eqD(6,7)[OF r1] assms(1,2) by (simp_all add: count_kick_def)
  have count: "pen_taken t (count_kick v) = pen_taken t v" "pen_points t (count_kick v) = pen_points t v"
    "PR_pen_nr_taken (R_penalty (count_kick v)) = PR_pen_nr_taken (R_penalty v) + 1"
    "PR_cur_pen_taker (R_penalty (count_kick v)) = PR_cur_pen_taker (R_penalty v)" for t v
    by (simp_all add: count_kick_def pen_taken_def pen_points_def team_of_def)
  have "kick_counted s scored w ?w2"
    using pen_record_penaltyScore[OF en(1,2) assms(3)] pen_record_penaltyScore[OF en(3,4) assms(3)]
      pen_record_eqD[OF r1] assms(3)
    by (cases scored) (simp_all add: kick_counted_def count)
  then have "kick_counted s scored w w'"
    using pen_record_eqD[OF w'(2)] by (simp add: kick_counted_def)
  then show ?thesis using run by blast
qed

end

lemma kick_counted_kicked:
  assumes "kick_due w" and "kick_counted (PR_cur_pen_taker (R_penalty w)) b w w'"
  shows "kicked w'"
proof -
  let ?n = "PR_pen_nr_taken (R_penalty w)"
  have "?n div 2 + 1 = (?n + 1 + 1) div 2" by presburger
  with assms show ?thesis
    by (cases "PR_cur_pen_taker (R_penalty w)") (simp_all add: kick_due_def kicked_def kick_counted_def Let_def)
qed

text \<open>A foul in the shoot-out is a kick of the side whose turn it is: its own foul is a miss, a foul
  of the defending side is a goal.  Exactly one kick is counted, for that side, and the record
  stays consistent with the alternation of the kicks.\<close>

theorem penalty_foul_counts:
  assumes "kick_due w" and "team_enabled (M_team_l w)" and "team_enabled (M_team_r w)"
    and "offender \<noteq> NEUTRAL" and cur: "cur = PR_cur_pen_taker (R_penalty w)"
  shows "\<exists>w'. penalty_foul sp (changePlayMode sp (Suc n)) offender w = Some w'
           \<and> kick_counted cur (offender \<noteq> cur) w w' \<and> kicked w'"
proof -
  let ?cpm = "changePlayMode sp (Suc n)"
  have c: "cur \<noteq> NEUTRAL" using assms(1) by (simp add: kick_due_def cur Let_def)
  let ?w1 = "sendRefereeAudio (if offender = LEFT then ''penalty_foul_l'' else ''penalty_foul_r'') w"
  have same: "team_enabled (M_team_l ?w1)" "team_enabled (M_team_r ?w1)"
    "kick_counted s b ?w1 w' = kick_counted s b w w'" for s b w'
    using assms(2,3)
    by (simp_all add: sendRefereeAudio_def kick_counted_def pen_taken_def pen_points_def team_of_def)
  have run: "penalty_foul sp ?cpm offender w
               = (if offender \<noteq> cur then penalty_score sp ?cpm cur ?w1 else penalty_miss sp ?cpm cur ?w1)"
    using c assms(4) by (cases offender; cases cur) (simp_all add: penalty_foul_def cur[symmetric] Let_def)
  obtain w' where "penalty_foul sp ?cpm offender w = Some w'" "kick_counted cur (offender \<noteq> cur) w w'"
    using setter.penalty_kick_returns[OF same(1,2) c, of "offender \<noteq> cur" sp n] unfolding run same(3)
    by blast
  then show ?thesis using kick_counted_kicked[OF assms(1)] cur by blast
qed

text \<open>The next kick belongs to the other side: the setup mode is that of the new taker, the ball rests
  on the penalty spot of the goal in use, and the record is ready for the next kick.\<close>

theorem penalty_init_alternates:
  assumes "kicked w" and next': "taker = opp_side (PR_cur_pen_taker (R_penalty w))"
  shows "\<exists>w'. penalty_init sp (changePlayMode sp (Suc n)) w = Some w'
           \<and> PR_cur_pen_taker (R_penalty w') = taker \<and> kick_due w'
           \<and> M_playmode w' = mode_for PM_PenaltySetup_Left PM_PenaltySetup_Right taker
           \<and> M_pos (M_ball w') = PVector (of_int (- side_int (PR_pen_side (R_penalty w)))
                                           * (PITCH_LENGTH / 2 - penDistX sp)) 0
           \<and> M_vel (M_ball w') = PVector 0 0"
proof -
  let ?cpm = "changePlayMode sp (Suc n)"
  let ?w1 = "R_penalty_update (\<lambda>r. r\<lparr>PR_cur_pen_taker := taker\<rparr>) w"
  let ?pm = "mode_for PM_PenaltySetup_Left PM_PenaltySetup_Right taker"
  let ?q = "PVector (of_int (- side_int (PR_pen_side (R_penalty w))) * (PITCH_LENGTH / 2 - penDistX sp)) 0"
  have cur: "PR_cur_pen_taker (R_penalty w) \<noteq> NEUTRAL" using assms(1) by (simp add: kicked_def Let_def)
  have pm: "\<not> goalKick ?pm" "?pm \<noteq> PM_PlayOn" "?pm \<noteq> PM_Drop_Ball"
    by (simp_all add: mode_for_def goalKick_def)
  have taker: "(if PR_cur_pen_taker (R_penalty w) = LEFT then RIGHT else LEFT) = taker"
    using cur next' by (cases "PR_cur_pen_taker (R_penalty w)") simp_all
  obtain w' where w': "placeBall_pm ?cpm ?pm NEUTRAL ?q ?w1 = Some w'" "restarted sp ?pm NEUTRAL ?q ?w1 w'"
    using setter.placeBall_pm_restarts[of ?pm sp ?w1 n NEUTRAL ?q] pm by blast
  have run: "penalty_init sp ?cpm w = Some w'"
    using w'(1) by (simp add: penalty_init_def taker mode_for_def Let_def)
  have core: "core w' = core ?w1" using w'(2) by (simp add: restarted_def)
  have rec: "pen_record w' = pen_record ?w1" using pen_record_core[OF core] .
  have "kick_due w'" using turn_passes[OF assms(1)] rec next' by simp
  moreover have "PR_cur_pen_taker (R_penalty w') = taker" using pen_record_eqD(2)[OF rec] by simp
  ultimately show ?thesis using run w'(2) by (simp add: restarted_def)
qed

end
