(* ===== verification/Athlete.thy ===== *)
theory Athlete
  imports Opening Shootout
begin

text \<open>
  What a player can do: stamina, the freeze after a tackle, kicks while the game is stopped,
  cards, the pointing arm, and the places referees move players and the ball to.
\<close>

section \<open>Stamina\<close>

text \<open>C25: The recovery at the end of a cycle keeps the stamina model in its bounds: stamina, recovery,
  effort and the remaining capacity stay within the limits of the parameters and of the
  player's type.\<close>

theorem stamina_bounds:
  assumes "stamina_params sp (M_player_type p)" and "stamina_ok sp p"
  shows "stamina_ok sp (updateStamina sp p)"
  by (rule updateStamina_ok[OF assms])

text \<open>C22: With a finite stamina capacity recovery is an exchange: what stamina gains the capacity loses,
  over any number of cycles, so a player can never spend more than stamina and capacity
  together, and resting never costs stamina.\<close>

theorem stamina_exchange:
  assumes "stamina_params sp (M_player_type p)" and "stamina_ok sp p" and "0 \<le> staminaCapacity sp"
  shows "M_stamina ((updateStamina sp ^^ k) p) + M_stamina_capacity ((updateStamina sp ^^ k) p)
           = M_stamina p + M_stamina_capacity p
         \<and> M_stamina p \<le> M_stamina ((updateStamina sp ^^ k) p)"
proof -
  have ok: "stamina_ok sp ((updateStamina sp ^^ k) p)
            \<and> M_player_type ((updateStamina sp ^^ k) p) = M_player_type p" for k
    using assms(1,2) by (induction k) (simp_all add: updateStamina_ok)
  show ?thesis
  proof (induction k)
    case 0
    then show ?case by simp
  next
    case (Suc k)
    have "stamina_params sp (M_player_type ((updateStamina sp ^^ k) p))" using assms(1) ok by simp
    from updateStamina_exchange[OF this _ assms(3)] ok Suc show ?case by fastforce
  qed
qed

text \<open>Exhaustion breaks the symmetry of the legs: when both legs are given the same dash but the
  player has less stamina than they need together, the code gives the right leg more than the
  left one, because the share of the left leg is overwritten before that of the right is
  computed; the player is pushed with the mean of the two unequal pushes.\<close>

theorem exhausted_legs_unequal:
  assumes "M_left_leg p = M_right_leg p" and "L_command_type (M_left_leg p) = LEG_DASH"
    and "1 / 10 ^ 5 \<le> leg_need (M_left_leg p)"
    and "0 < dash_consumed p" and "dash_consumed p < 2 * leg_need (M_left_leg p)"
  shows "M_accel (fst (applyDashEffect sp p g)) = M_accel p
           + pv_scale (calcDashAccel sp p (M_left_leg p) (left_share p)
                       + calcDashAccel sp p (M_left_leg p) (right_share p)) (1 / 2)
         \<and> left_share p = dash_consumed p / 2 \<and> left_share p < right_share p"
proof -
  have "0 < leg_need (M_left_leg p)" using assms(3) by (smt (verit) divide_pos_pos zero_less_power)
  then show ?thesis
    using exhausted_shares[OF assms(1) _ assms(4,5)] applyDashEffect_push[OF assms(2), of sp g] assms(1,3)
    by simp
qed

section \<open>One command per cycle, and none after a tackle\<close>

text \<open>
  Over the cycles without a command the flag of the last command is taken back as soon as the
  counters of kick, tackle and foul have run out.
\<close>

lemma resetCommandFlags_counters:
  "M_tackle_cycles (resetCommandFlags p)
     = (if M_tackle_cycles p > 0 then M_tackle_cycles p - 1 else M_tackle_cycles p)"
  "M_foul_cycles (resetCommandFlags p)
     = (if M_foul_cycles p > 0 then M_foul_cycles p - 1 else M_foul_cycles p)"
  "M_kick_cycles (resetCommandFlags p)
     = (if M_kick_cycles p \<ge> 0 then M_kick_cycles p - 1 else M_kick_cycles p)"
  by (simp_all add: resetCommandFlags_def Let_def)

lemma resetCommandFlags_iterate:
  assumes "0 \<le> M_tackle_cycles p" and "0 \<le> M_foul_cycles p" and "M_kick_cycles p \<le> 1"
  shows "M_tackle_cycles ((resetCommandFlags ^^ k) p) = max 0 (M_tackle_cycles p - int k)
       \<and> M_foul_cycles ((resetCommandFlags ^^ k) p) = max 0 (M_foul_cycles p - int k)
       \<and> M_kick_cycles ((resetCommandFlags ^^ k) p) \<le> (if k = 0 then 1 else 0)"
  using assms by (induction k) (auto simp: resetCommandFlags_counters split: if_splits)

text \<open>C21: A player who has tackled, or has been fouled, can give no command for exactly as many cycles as
  the longer of the two bans lasts: his command flag is set before the last of these cycles has
  ended, and free from then on.\<close>

theorem tackle_freeze:
  assumes "M_command_done p" and "0 \<le> M_tackle_cycles p" and "0 \<le> M_foul_cycles p"
    and "M_kick_cycles p \<le> 1" and "0 < k"
  shows "M_command_done ((resetCommandFlags ^^ k) p)
           \<longleftrightarrow> int k < max (M_tackle_cycles p) (M_foul_cycles p)"
  using assms(5)
proof (induction k rule: nat_induct_non_zero)
  case 1
  show ?case
    using assms(1-4) by (auto simp: resetCommandFlags_def Let_def)
next
  case (Suc k)
  let ?q = "(resetCommandFlags ^^ k) p"
  note cnt = resetCommandFlags_iterate[OF assms(2-4), of k]
  have k0: "M_kick_cycles ?q \<le> 0" using cnt Suc.hyps by simp
  have step: "M_command_done (resetCommandFlags ?q) \<longleftrightarrow>
      M_command_done ?q \<and> (M_tackle_cycles (resetCommandFlags ?q) \<noteq> 0
                          \<or> M_foul_cycles (resetCommandFlags ?q) \<noteq> 0)"
    using k0 by (auto simp: resetCommandFlags_def Let_def)
  have "M_tackle_cycles (resetCommandFlags ?q) = max 0 (M_tackle_cycles p - int (Suc k))"
    "M_foul_cycles (resetCommandFlags ?q) = max 0 (M_foul_cycles p - int (Suc k))"
    using resetCommandFlags_iterate[OF assms(2-4), of "Suc k"] by simp_all
  then show ?case using step Suc.IH by auto
qed

text \<open>While the game is stopped a kick is a fault and nothing else: the ball and the other players
  do not change, the mode stays, the kicker gets the kick and the kick fault bit and has used
  his command, so that a further kick in the same cycle is ignored.\<close>

theorem kick_while_stopped:
  assumes "kick_banned (M_playmode w)" and "\<not> M_command_done (pl w k)" and "k < length (M_players w)"
  shows "\<exists>w'. kick sp cpm k pw dir w = Some w'
           \<and> M_ball w' = M_ball w \<and> bare w' = bare w \<and> (\<forall>j. j \<noteq> k \<longrightarrow> pl w' j = pl w j)
           \<and> M_state (pl w' k) = M_state (pl w k) OR KICK OR KICK_FAULT
           \<and> kick sp cpm k pw2 dir2 w' = Some w'"
proof -
  let ?w1 = "upd_player k (\<lambda>p. (addState KICK p)\<lparr>M_command_done := True, M_kick_cycles := 1\<rparr>) w"
  let ?w' = "upd_player k (addState KICK_FAULT) ?w1"
  have mode: "M_playmode ?w1 = M_playmode w" by (simp add: upd_player_def)
  have run: "kick sp cpm k pw dir w = Some ?w'"
    using assms(1,2) mode by (simp add: kick_def Let_def)
  have at: "pl ?w' k = addState KICK_FAULT
      ((addState KICK (pl w k))\<lparr>M_command_done := True, M_kick_cycles := 1\<rparr>)"
    using assms(3) by (simp add: upd_player_def)
  have "M_command_done (pl ?w' k)" unfolding at by (simp add: addState_def)
  then have again: "kick sp cpm k pw2 dir2 ?w' = Some ?w'" by (simp add: kick_def)
  have st: "M_state (pl ?w' k) = M_state (pl w k) OR KICK OR KICK_FAULT"
    unfolding at by (simp add: addState_def or.assoc)
  have oth: "pl ?w' j = pl w j" if "j \<noteq> k" for j using that by (simp add: upd_player_def)
  show ?thesis
    by (intro exI[of _ ?w'] conjI) (use run again st oth in \<open>simp_all\<close>)
qed

end
