(* ===== verification/Examples.thy ===== *)
theory Examples
  imports Athlete
begin

text \<open>
  A concrete match: the default parameters, one player type, still air, every player of both
  teams on the pitch and standing.  The theorems of the other theories are applied to it and
  to variants of it, so that none of them rests on hypotheses which no match satisfies.
\<close>

section \<open>The match\<close>

definition kit :: hetero where
  "kit = \<lparr>ht_playerSpeedMax = 1.05, ht_staminaIncMax = 45, ht_playerDecay = 0.4,
          ht_inertiaMoment = 5, ht_dashPowerRate = 0.006, ht_playerSize = 0.3,
          ht_kickableMargin = 0.7, ht_kickRand = 0.1, ht_extraStamina = 50, ht_effortMax = 1,
          ht_effortMin = 0.6, ht_kickPowerRate = 0.027, ht_foulDetectProbability = 0.5,
          ht_catchAreaLengthStretch = 1,
          ht_unumFarLength = 20, ht_unumTooFarLength = 40, ht_teamFarLength = 125.0956,
          ht_teamTooFarLength = 125.0956, ht_playerMaxObservationLength = 125.0956,
          ht_ballVelFarLength = 20, ht_ballVelTooFarLength = 40,
          ht_ballMaxObservationLength = 125.0956, ht_landVelFarLength = 20,
          ht_landVelTooFarLength = 40, ht_landMaxObservationLength = 125.0956,
          ht_distNoiseRate = 0.0125, ht_focusDistNoiseRate = 0.0125,
          ht_landDistNoiseRate = 0.00125, ht_landFocusDistNoiseRate = 0.00125\<rparr>"

definition match_param :: pparam where
  "match_param = default_pparam\<lparr>playerTypes := 1\<rparr>"

definition still_air :: weather where
  "still_air = \<lparr>M_wind_vector = PVector 0 0, M_wind_rand = 0\<rparr>"

definition empty_pitch :: world where
  "empty_pitch = new_world default_param match_param [kit] still_air (sconst 0)"

definition on_pitch :: "player \<Rightarrow> player" where
  "on_pitch p = p\<lparr>M_enable := True, M_state := STAND\<rparr>"

definition named :: "string \<Rightarrow> team \<Rightarrow> team" where
  "named n t = t\<lparr>T_name := n\<rparr>"

definition match :: world where
  "match = upd_team LEFT (named ''A'') (upd_team RIGHT (named ''B'') (map_players on_pitch empty_pitch))"

lemma new_player_reads:
  "M_side (new_player sp kf types s u) = s" "M_unum (new_player sp kf types s u) = u"
  "M_card_count (new_player sp kf types s u) = 0" "M_goalie (new_player sp kf types s u) = False"
  "M_command_done (new_player sp kf types s u) = False"
  "M_tackle_cycles (new_player sp kf types s u) = 0" "M_foul_cycles (new_player sp kf types s u) = 0"
  "M_kick_cycles (new_player sp kf types s u) = 0"
  "M_player_type (new_player sp kf types s u) = types ! 0"
  by (simp_all add: new_player_def recoverAll_def recoverStaminaCapacity_def setPlayerType_def Let_def)

lemma match_players:
  "length (M_players match) = 22"
  "i < 11 \<Longrightarrow> pl match i = on_pitch (new_player default_param 1 [kit] LEFT (int i + 1))"
  "11 \<le> i \<Longrightarrow> i < 22 \<Longrightarrow> pl match i = on_pitch (new_player default_param 1 [kit] RIGHT (int (i - 11) + 1))"
  by (simp_all add: match_def upd_team_def map_players_def empty_pitch_def new_world_def Let_def
      MAX_PLAYER_def nth_append new_Team_def default_param_def)

lemma match_player:
  assumes "i < 22"
  shows "M_side (pl match i) = (if i < 11 then LEFT else RIGHT)"
    "M_unum (pl match i) = int (i mod 11) + 1" "M_enable (pl match i)" "M_state (pl match i) = STAND"
    "M_card_count (pl match i) = 0" "\<not> M_goalie (pl match i)" "\<not> M_command_done (pl match i)"
    "M_player_type (pl match i) = kit"
  using assms match_players(2,3)[of i]
  by (cases "i < 11"; simp add: on_pitch_def new_player_reads le_mod_geq)+

lemma match_ident: "ident_ok (M_players match)"
  using match_player(1,2) by (simp add: ident_ok_def match_players(1) MAX_PLAYER_def)

lemma match_reads:
  "M_time match = 0" "M_stoppage_time match = 0" "M_playmode match = PM_BeforeKickOff"
  "M_ball_catcher match = None"
  "M_kick_off_side match = LEFT" "TimeRef_half_time_count match = 0"
  "FK_kick_taken (R_freekick match) = False" "FK_timer (R_freekick match) = - 1"
  "OR_offside_candidates (R_offside match) = []" "OR_last_kick_time (R_offside match) = - 1"
  "OR_after_offside_time (R_offside match) = 0" "FR_after_foul_time (R_foul match) = 0"
  "CR_after_back_pass_time (R_catch match) = 0" "CR_after_catch_fault_time (R_catch match) = 0"
  "BS_last_ball_pos (R_stuck match) = PVector 0 0" "BS_counter (R_stuck match) = 0"
  "PR_pen_nr_taken (R_penalty match) = 0" "PR_timeover (R_penalty match) = False"
  "PR_cur_pen_taker (R_penalty match) = NEUTRAL" "PR_pen_side (R_penalty match) = NEUTRAL"
  "T_name (M_team_l match) = ''A''" "T_name (M_team_r match) = ''B''"
  "T_point (M_team_l match) = 0" "T_point (M_team_r match) = 0"
  "T_size (M_team_l match) = 0" "T_size (M_team_r match) = 0"
  "T_pen_taken (M_team_l match) = 0" "T_pen_taken (M_team_r match) = 0"
  by (simp_all add: match_def empty_pitch_def new_world_def Let_def map_players_def upd_team_def
      named_def new_Team_def default_param_def)

lemma match_ball: "M_pos (M_ball match) = PVector 0 0" "M_vel (M_ball match) = PVector 0 0"
  by (simp_all add: match_def empty_pitch_def new_world_def Let_def map_players_def upd_team_def
      new_ball_def)

lemma centre_spot: "\<not> inPenaltyArea default_param s (PVector 0 0)"
  by (simp add: inPenaltyArea_def pen_area_def ra_inArea_def RArea_cs_def PITCH_LENGTH_def
      PENALTY_AREA_LENGTH_def PENALTY_AREA_WIDTH_def default_param_def Let_def)

section \<open>Calls and restarts\<close>

lemma match_stopped:
  assumes "pm \<noteq> PM_PlayOn" and "\<not> goalKick pm"
  shows "calm (match\<lparr>M_playmode := pm\<rparr>)"
  using assms by (simp add: calm_def match_reads)

text \<open>The left team has been called offside.\<close>

theorem offside_wait_witness:
  "\<exists>w'. OffsideRef_analyse default_param (changePlayMode default_param (Suc 0))
          (collisions default_param (changePlayMode default_param (Suc 0)))
          (match\<lparr>M_playmode := PM_OffSide_Left\<rparr>) = Some w'
        \<and> waits (match\<lparr>M_playmode := PM_OffSide_Left\<rparr>) PM_FreeKick_Right 0 AFTER_OFFSIDE_WAIT
            (\<lambda>v. OR_after_offside_time (R_offside v)) w'"
  using offside_wait[OF match_stopped[of PM_OffSide_Left], of default_param LEFT 0]
  by (simp add: mode_for_def goalKick_def default_param_def match_reads)

theorem foul_wait_witness:
  "\<exists>w'. FoulRef_analyse default_param (changePlayMode default_param (Suc 0))
          (collisions default_param (changePlayMode default_param (Suc 0)))
          (match\<lparr>M_playmode := PM_Foul_Charge_Right\<rparr>) = Some w'
        \<and> waits (match\<lparr>M_playmode := PM_Foul_Charge_Right\<rparr>) PM_FreeKick_Left
            0 AFTER_FOUL_WAIT (\<lambda>v. FR_after_foul_time (R_foul v)) w'"
  using foul_wait[OF match_stopped[of PM_Foul_Charge_Right], of RIGHT default_param 0]
  by (simp add: mode_for_def goalKick_def match_reads match_ball centre_spot)

theorem catch_wait_witness:
  "\<exists>w'. CatchRef_analyse default_param (changePlayMode default_param (Suc 0))
          (collisions default_param (changePlayMode default_param (Suc 0)))
          (match\<lparr>M_playmode := PM_Back_Pass_Left\<rparr>) = Some w'
        \<and> waits (match\<lparr>M_playmode := PM_Back_Pass_Left\<rparr>) PM_IndFreeKick_Right 0 AFTER_BACKPASS_WAIT
            (\<lambda>v. CR_after_back_pass_time (R_catch v)) w'"
  using catch_wait[OF match_stopped[of PM_Back_Pass_Left], of LEFT True _ default_param 0]
  by (simp add: mode_for_def goalKick_def match_reads)

text \<open>Player 3 of the left team was marked at \<open>(30, 5)\<close> and now kicks the ball.\<close>

definition marked_match :: world where
  "marked_match = match\<lparr>M_playmode := PM_PlayOn, M_time := 50,
     R_offside := (R_offside match)\<lparr>OR_offside_candidates := [(2, PVector 30 5)]\<rparr>\<rparr>"

theorem offside_called_witness:
  "\<exists>w'. OffsideRef_kickTaken default_param (changePlayMode default_param (Suc 0)) 2 1 marked_match
          = Some w'
     \<and> M_playmode w' = PM_OffSide_Left \<and> M_kick_off_side w' = RIGHT
     \<and> M_pos (M_ball w') = offside_ball_pos default_param (PVector 30 5)
     \<and> ra_inArea pitch (M_pos (M_ball w'))"
proof -
  have "useOffside default_param" "0 \<le> cornerKickMargin default_param"
    "cornerKickMargin default_param \<le> 34"
    by (simp_all add: default_param_def)
  moreover have "\<not> shootout (M_playmode marked_match)"
    "OR_last_kick_time (R_offside marked_match) < M_time marked_match"
    "M_side (pl marked_match 2) = LEFT"
    "List.find (\<lambda>c. fst c = 2) (OR_offside_candidates (R_offside marked_match))
       = Some (2, PVector 30 5)"
    using match_player(1)[of 2] by (simp_all add: marked_match_def match_reads shootout_iff)
  ultimately show ?thesis
    using offside_called[of default_param marked_match 1 2 "PVector 30 5" 0]
    by (auto simp: mode_for_def)
qed

text \<open>The goalie of the left team catches the ball on the centre spot.\<close>

theorem ballCaught_verdict_witness:
  "\<exists>w'. CatchRef_ballCaught default_param (changePlayMode default_param (Suc 0)) 0
          (match\<lparr>M_playmode := PM_PlayOn\<rparr>) = Some w'
     \<and> M_playmode w' = PM_CatchFault_Left \<and> M_kick_off_side w' = RIGHT"
proof -
  let ?w = "match\<lparr>M_playmode := PM_PlayOn\<rparr>"
  have side: "M_side (pl ?w 0) = LEFT" using match_player(1)[of 0] by simp
  have "catch_verdict default_param 0 ?w = Catch_Fault"
    using side by (simp add: catch_verdict_def match_ball centre_spot)
  then show ?thesis
    using ballCaught_verdict[of ?w 0 default_param 0] side
    by (auto simp: verdict_mode_def mode_for_def shootout_iff catch_judged_def)
qed

section \<open>The clock\<close>

theorem half_time_called_witness:
  "\<exists>w'. TimeRef_analyse default_param (changePlayMode default_param (Suc 0))
          (match\<lparr>M_playmode := PM_PlayOn, M_time := 3000\<rparr>) = Some w'
        \<and> M_time w' = 3000 \<and> M_kick_off_side w' = RIGHT \<and> TimeRef_half_time_count w' = 1"
proof -
  let ?w = "match\<lparr>M_playmode := PM_PlayOn, M_time := 3000\<rparr>"
  have "clock_runs (M_playmode ?w)" by (simp add: clock_runs_def stopped_modes_def)
  moreover have "0 < halfTime default_param" "0 \<le> extraHalfTime default_param * nrExtraHalfs default_param"
    "halfTime default_param * (TimeRef_half_time_count ?w + 1) \<le> M_time ?w"
    "M_time ?w < normal_time default_param"
    by (simp_all add: default_param_def match_reads normal_time_def)
  ultimately show ?thesis
    using half_time_called[of ?w default_param 0]
    by (auto simp: kicked_off_half_def kick_off_side_of_def match_reads default_param_def Let_def)
qed


text \<open>Nobody takes the free kick, and the timer of the drop ball has one cycle left.\<close>

definition untaken_kick :: world where
  "untaken_kick = match\<lparr>M_playmode := PM_FreeKick_Left, R_freekick := (R_freekick match)\<lparr>FK_timer := 1\<rparr>\<rparr>"

theorem restart_timeout_witness:
  "\<exists>w'. FreeKickRef_analyse default_param (changePlayMode default_param (Suc 0))
          (collisions default_param (changePlayMode default_param (Suc 0))) untaken_kick = Some w'
        \<and> dropped (PVector 0 0) untaken_kick w'"
  using restart_timeout[of untaken_kick default_param 0] 
  by (simp add: untaken_kick_def calm_def goalKick_def freeKick_def match_reads match_ball default_param_def)

text \<open>The ball has not moved for 100 cycles.\<close>

definition stuck_match :: world where
  "stuck_match = match\<lparr>M_playmode := PM_PlayOn, R_stuck := (R_stuck match)\<lparr>BS_counter := 99\<rparr>\<rparr>"

theorem ball_stuck_witness:
  "\<exists>w'. BallStuckRef_analyse default_param (changePlayMode default_param (Suc 0)) stuck_match = Some w'
        \<and> BS_counter (R_stuck w') = 0 \<and> M_playmode w' = PM_PlayOn"
proof -
  have p: "0 < ballStuckArea default_param" "0 < dropTime default_param" "\<not> keepAwayMode default_param"
    by (simp_all add: default_param_def)
  have area: "0 \<le> (ballStuckArea default_param)\<^sup>2" and drop: "dropTime default_param = 100"
    by (simp_all add: default_param_def)
  have "M_playmode stuck_match = PM_PlayOn" "BS_counter (R_stuck stuck_match) + 1 = 100"
    "distance2 (M_pos (M_ball stuck_match)) (BS_last_ball_pos (R_stuck stuck_match)) = 0"
    by (simp_all add: stuck_match_def match_reads match_ball distance2_def pv_r2_def)
  then show ?thesis
    using ball_stuck[where w = stuck_match and n = 0, OF p refl refl] area drop by auto
qed

section \<open>Goals and cards\<close>

text \<open>A shot of the left team which ends behind the middle of the right goal line.\<close>

definition shot :: world where
  "shot = upd_ball (\<lambda>b. b\<lparr>M_pos := PVector 54 0\<rparr>)
            (match\<lparr>M_playmode := PM_PlayOn, R_touch := (R_touch match)\<lparr>TR_prev_ball_pos := PVector 51 0\<rparr>\<rparr>)"

lemma shot_ball: "M_pos (M_ball shot) = PVector 54 0"
  by (simp add: shot_def)

theorem crossGoalLine_path_witness: "crossGoalLine default_param RIGHT (PVector 51 0) shot"
proof -
  have "crossGoalLine default_param RIGHT (PVector 51 0) shot \<longleftrightarrow>
      52.585 < \<bar>px (M_pos (M_ball shot))\<bar>
      \<and> (\<exists>t. 0 \<le> t \<and> t \<le> 1 \<and> px (on_path (PVector 51 0) (M_pos (M_ball shot)) t)
                = - of_int (side_int RIGHT) * 52.585
           \<and> \<bar>py (on_path (PVector 51 0) (M_pos (M_ball shot)) t)\<bar>
               \<le> goalWidth default_param * 0.5 + goalPostRadius default_param)"
    by (rule crossGoalLine_path) (simp_all add: PITCH_LENGTH_def default_param_def)
  moreover have "px (on_path (PVector 51 0) (M_pos (M_ball shot)) (1.585 / 3)) = 52.585"
    "py (on_path (PVector 51 0) (M_pos (M_ball shot)) (1.585 / 3)) = 0"
    by (simp_all add: on_path_def shot_ball)
  ultimately show ?thesis
    by (auto simp: shot_ball default_param_def goalPostRadius_def intro!: exI[of _ "1.585 / 3"])
qed

theorem goal_counted_witness:
  "\<exists>b w'. checkGoal default_param (changePlayMode default_param (Suc 0)) shot = Some (b, w')
     \<and> (b \<longleftrightarrow> goal_eligible default_param shot
               \<and> (goal_scored default_param RIGHT shot \<or> goal_scored default_param LEFT shot))"
proof -
  have "team_enabled (M_team_l shot)" "team_enabled (M_team_r shot)"
    by (simp_all add: shot_def upd_ball_def team_enabled_def match_reads)
  from goal_counted[where sp = default_param and n = 0, OF this refl refl] show ?thesis by blast
qed

theorem second_yellow_card_witness:
  "\<not> M_enable (pl (yellowCard RIGHT 4 (yellowCard RIGHT 4 match)) 14)
   \<and> hasRedCard (pl (yellowCard RIGHT 4 (yellowCard RIGHT 4 match)) 14)
   \<and> M_enable (pl (yellowCard RIGHT 4 match) 14)"
proof -
  have p: "M_side (pl match 14) = RIGHT" "M_unum (pl match 14) = 4" "M_enable (pl match 14)"
    "M_state (pl match 14) = STAND" "M_card_count (pl match 14) = 0"
    using match_player[of 14] by simp_all
  have "stand_ok (pl match 14)" using p by (simp add: stand_ok_def has_state_def STAND_def)
  then show ?thesis
    using second_yellow_card[OF match_ident, of 14 "yellowCard RIGHT 4"] p
    by (simp add: MAX_PLAYER_def)
qed

text \<open>Player 7 of the left team tackles.\<close>

theorem foul_punished_witness:
  "\<exists>charge yellow red w1 w'. checkFoul default_param 6 True (match\<lparr>M_playmode := PM_PlayOn\<rparr>)
                                 = ((charge, yellow, red), w1)
     \<and> FoulRef_tackleTaken default_param (changePlayMode default_param (Suc 0)) 6 True
         (match\<lparr>M_playmode := PM_PlayOn\<rparr>) = Some w'
     \<and> (if charge \<or> yellow \<or> red then foul_stopped LEFT (M_pos (pl w1 6)) w' else w' = w1)"
proof -
  let ?w = "match\<lparr>M_playmode := PM_PlayOn\<rparr>"
  obtain charge yellow red w1 where c: "checkFoul default_param 6 True ?w = ((charge, yellow, red), w1)"
    by (metis prod.exhaust)
  have "\<not> shootout (M_playmode ?w)" "\<not> keepAwayMode default_param" "ident_ok (M_players ?w)"
    "6 < 2 * MAX_PLAYER" "M_enable (pl ?w 6)" "M_side (pl ?w 6) = LEFT"
    using match_player[of 6] match_ident
    by (simp_all add: shootout_iff default_param_def MAX_PLAYER_def)
  with foul_punished[of ?w default_param 6 True charge yellow red w1 0] c
  show ?thesis by (cases "charge \<or> yellow \<or> red") auto
qed

section \<open>Teams, kick-off and shoot-out\<close>

theorem newPlayer_squad_witness:
  "fst (newPlayer default_param True LEFT 18 True match) = Some 0
   \<and> T_size (team LEFT (snd (newPlayer default_param True LEFT 18 True match))) = 1
   \<and> squad_ok LEFT (snd (newPlayer default_param True LEFT 18 True match))"
proof -
  have "squad_ok LEFT match"
    by (simp add: squad_ok_def match_players(1) MAX_PLAYER_def team_def team_slots_def match_reads)
  moreover have "\<not> has_goalie LEFT match" "T_size (team LEFT match) = 0"
    by (simp_all add: has_goalie_def team_slots_def team_def match_reads)
  ultimately show ?thesis
    using newPlayer_squad[of LEFT match True True True default_param 18]
    by (simp add: slot_def MAX_PLAYER_def)
qed

theorem assign_types_bound_witness:
  "ptypeUsedCount (team LEFT (fold (assign_type default_param match_param LEFT) [0, 1, 2] match)) 0 \<le> 1"
proof -
  have "ptypeUsedCount (team LEFT match) 0 = 0"
    by (simp add: ptypeUsedCount_def team_def match_def upd_team_def map_players_def empty_pitch_def
        new_world_def new_Team_def named_def ptype_zero_def match_param_def default_pparam_def Let_def)
  then show ?thesis
    using assign_types_bound[of LEFT 0 default_param match_param "[0, 1, 2]" match]
    by (simp add: match_param_def default_pparam_def)
qed

theorem kickOff_restart_witness:
  "\<exists>w'. kickOff default_param match_param (changePlayMode default_param (Suc 0)) match = Some w'
        \<and> M_playmode w' = PM_KickOff_Left \<and> M_pos (M_ball w') = PVector 0 0"
proof -
  have "\<not> keepAwayMode default_param" "on_half_boundary default_param (M_time match)"
    "left_kicks_off default_param (M_time match)"
    by (simp_all add: default_param_def on_half_boundary_def left_kicks_off_def match_reads)
  then show ?thesis
    using kickOff_restart[of default_param match LEFT match_param 0] by (auto simp: mode_for_def)
qed

theorem kick_off_turns_agree_witness:
  "on_half_boundary default_param (half_start default_param 1)
   \<and> left_kicks_off default_param (half_start default_param 1) = (kick_off_side_of 1 = LEFT)"
  using kick_off_turns_agree[of default_param 1] by (simp add: default_param_def)

text \<open>The left team has just missed the first kick of a shoot-out.\<close>

definition after_first_kick :: world where
  "after_first_kick = upd_team LEFT setPenaltyMiss
     (match\<lparr>M_playmode := PM_PenaltyMiss_Left,
            R_penalty := (R_penalty match)\<lparr>PR_pen_nr_taken := 1, PR_cur_pen_taker := LEFT,
                                           PR_pen_side := RIGHT\<rparr>\<rparr>)"

lemma after_first_kick_kicked: "kicked after_first_kick"
  by (simp add: kicked_def after_first_kick_def pen_taken_def team_of_def upd_team_def
      setPenaltyMiss_def match_reads Let_def)

theorem shootout_decision_witness:
  "\<exists>w'. penalty_check_score default_param (changePlayMode default_param (Suc 0)) after_first_kick = Some w'
        \<and> \<not> pen_ended w'"
proof -
  let ?w = after_first_kick
  have pts: "pen_points s ?w = 0" "pen_taken RIGHT ?w = 0" "pen_taken LEFT ?w = 1" for s
    by (cases s; simp add: after_first_kick_def pen_points_def pen_taken_def team_of_def upd_team_def
        setPenaltyMiss_def match_def map_players_def empty_pitch_def new_world_def new_Team_def named_def
        Let_def)+
  have "\<not> uncatchable default_param LEFT ?w" "\<not> uncatchable default_param RIGHT ?w"
    unfolding uncatchable_def pts by (auto simp: pts default_param_def intro!: exI[of _ "0::int"])
  moreover have "PR_pen_nr_taken (R_penalty ?w) \<le> 2 * penNrKicks default_param"
    "0 \<le> penMaxExtraKicks default_param" "\<not> pen_ended ?w"
    by (simp_all add: after_first_kick_def upd_team_def default_param_def pen_ended_def match_reads)
  ultimately show ?thesis
    using shootout_decision[OF after_first_kick_kicked, of default_param 0] by auto
qed

theorem penalty_init_alternates_witness:
  "\<exists>w'. penalty_init default_param (changePlayMode default_param (Suc 0)) after_first_kick = Some w'
        \<and> M_playmode w' = PM_PenaltySetup_Right \<and> kick_due w'"
  using penalty_init_alternates[OF after_first_kick_kicked refl, of default_param 0]
  by (auto simp: after_first_kick_def upd_team_def mode_for_def)

text \<open>The right team's turn, and its opponents foul.\<close>

definition second_kick_due :: world where
  "second_kick_due = R_penalty_update (\<lambda>r. r\<lparr>PR_cur_pen_taker := RIGHT\<rparr>) after_first_kick"

theorem penalty_foul_counts_witness:
  "\<exists>w'. penalty_foul default_param (changePlayMode default_param (Suc 0)) LEFT second_kick_due = Some w'
        \<and> pen_points RIGHT w' = pen_points RIGHT second_kick_due + 1 \<and> kicked w'"
proof -
  have "kick_due second_kick_due"
    by (simp add: kick_due_def second_kick_due_def after_first_kick_def pen_taken_def team_of_def
        upd_team_def setPenaltyMiss_def match_reads Let_def)
  moreover have "team_enabled (M_team_l second_kick_due)" "team_enabled (M_team_r second_kick_due)"
    "PR_cur_pen_taker (R_penalty second_kick_due) = RIGHT"
    by (simp_all add: second_kick_due_def after_first_kick_def upd_team_def setPenaltyMiss_def
        team_enabled_def match_reads)
  ultimately show ?thesis
    using penalty_foul_counts[of second_kick_due LEFT RIGHT default_param 0]
    by (auto simp: kick_counted_def)
qed

section \<open>Players\<close>

definition runner :: player where
  "runner = new_player default_param 1 [kit] LEFT 9"

lemma runner_reads:
  "M_player_type runner = kit" "M_stamina runner = 8000" "M_recovery runner = 1" "M_effort runner = 1"
  "M_stamina_capacity runner = 130600"
  by (simp_all add: runner_def new_player_def recoverAll_def recoverStaminaCapacity_def
      setPlayerType_def kit_def default_param_def Let_def)

lemma kit_params: "stamina_params default_param kit"
  by (simp add: stamina_params_def kit_def default_param_def)

definition tired :: "real \<Rightarrow> player" where
  "tired s = runner\<lparr>M_stamina := s\<rparr>"

lemma tired_ok: "0 \<le> s \<Longrightarrow> s \<le> 8000 \<Longrightarrow> stamina_ok default_param (tired s)"
  by (simp add: stamina_ok_def tired_def runner_reads) (simp add: default_param_def kit_def)

theorem stamina_bounds_witness: "stamina_ok default_param (updateStamina default_param (tired 1000))"
  using stamina_bounds[of default_param "tired 1000"] tired_ok[of 1000] kit_params
  by (simp add: tired_def runner_reads)

theorem stamina_exchange_witness:
  "M_stamina ((updateStamina default_param ^^ 10) (tired 1000))
     + M_stamina_capacity ((updateStamina default_param ^^ 10) (tired 1000)) = 131600"
  using stamina_exchange[of default_param "tired 1000" 10] tired_ok[of 1000] kit_params
  by (simp add: tired_def runner_reads default_param_def)

text \<open>Both legs dash with full power, 20 units of stamina and the reserve of 50 are left.\<close>

definition full_dash :: leg where
  "full_dash = \<lparr>L_command_type = LEG_DASH, L_kick_power = 0, L_kick_dir = 0, L_dash_power = 100,
                L_dash_dir = 0\<rparr>"

definition sprinter :: player where
  "sprinter = (tired 20)\<lparr>M_left_leg := full_dash, M_right_leg := full_dash\<rparr>"

theorem exhausted_legs_unequal_witness:
  "left_share sprinter = 35 \<and> left_share sprinter < right_share sprinter"
proof -
  have d: "dash_consumed sprinter = 70" "leg_need (M_left_leg sprinter) = 50"
    by (simp_all add: dash_consumed_def legs_need_def leg_need_def sprinter_def full_dash_def tired_def
        runner_reads kit_def)
  have legs: "M_left_leg sprinter = M_right_leg sprinter" "L_command_type (M_left_leg sprinter) = LEG_DASH"
    by (simp_all add: sprinter_def full_dash_def)
  show ?thesis using exhausted_legs_unequal[where sp = default_param and g = "sconst 0", OF legs] d by simp
qed

text \<open>After a tackle which bans him for ten cycles.\<close>

theorem tackle_freeze_witness:
  "M_command_done ((resetCommandFlags ^^ 9) (runner\<lparr>M_command_done := True, M_tackle_cycles := 10\<rparr>))
   \<and> \<not> M_command_done ((resetCommandFlags ^^ 10) (runner\<lparr>M_command_done := True, M_tackle_cycles := 10\<rparr>))"
proof -
  let ?p = "runner\<lparr>M_command_done := True, M_tackle_cycles := 10\<rparr>"
  have "M_command_done ?p" "0 \<le> M_tackle_cycles ?p" "0 \<le> M_foul_cycles ?p" "M_kick_cycles ?p \<le> 1"
    "max (M_tackle_cycles ?p) (M_foul_cycles ?p) = 10"
    by (simp_all add: runner_def new_player_reads)
  then show ?thesis using tackle_freeze[of ?p 9] tackle_freeze[of ?p 10] by simp
qed

theorem kick_while_stopped_witness:
  "\<exists>w'. kick default_param (changePlayMode default_param 1) 5 100 0 match = Some w'
        \<and> M_ball w' = M_ball match \<and> M_state (pl w' 5) = STAND OR KICK OR KICK_FAULT"
  using kick_while_stopped[of match 5 default_param "changePlayMode default_param 1" 100 0 50 0]
    match_player[of 5]
  by (auto simp: match_reads match_players(1) kick_banned_def)

end
