(* ===== verification/Coach.thy ===== *)
theory Coach
  imports Game
begin

text \<open>
  The trainer and the online coaches (coach.h, coach.cpp): what their commands do to the stadium
  and what they are answered.  The texts of commands are scanned by \<^verbatim>\<open>sscanf\<close>, advice by the
  generated parser of the coach language: the results of both are arguments here, \<open>None\<close> where
  the scan or the parser fails.  Senders of visual information and sockets are left out.
\<close>

section \<open>State and messages\<close>

text \<open>\<^verbatim>\<open>rcss::clang::Msg\<close> with the enumeration of its types; \<open>Msg_text\<close> is what is printed.\<close>

datatype clang_type = META | FREEFORM | INFO | ADVICE | DEFINE | DEL | RULE | UNSUP

record clang_msg =
  Msg_type :: clang_type
  Msg_time_recv :: int
  Msg_time_send :: int
  Msg_side :: side
  Msg_min_ver :: u32
  Msg_max_ver :: u32
  Msg_text :: string

definition setVer :: "u32 \<Rightarrow> u32 \<Rightarrow> clang_msg \<Rightarrow> clang_msg" where
  "setVer mn mx m =
     (if mn = mx
      then
        if mn < Msg_max_ver m then m\<lparr>Msg_min_ver := mn\<rparr>
        else if mn > Msg_min_ver m then m\<lparr>Msg_max_ver := mn\<rparr>
        else if Msg_max_ver m < Msg_min_ver m then m\<lparr>Msg_min_ver := mn, Msg_max_ver := mn\<rparr>
        else m
      else
        let m1 = (if mn < Msg_min_ver m then m\<lparr>Msg_min_ver := mn\<rparr> else m);
            m2 = (if mx > Msg_max_ver m1 then m1\<lparr>Msg_max_ver := mx\<rparr> else m1)
        in if mn > mx \<and> Msg_max_ver m2 < Msg_min_ver m2 \<and> mn > Msg_max_ver m2 \<and> mx < Msg_min_ver m2
           then m2\<lparr>Msg_min_ver := mn, Msg_max_ver := mx\<rparr> else m2)"

definition isSupported :: "u32 \<Rightarrow> u32 \<Rightarrow> clang_msg \<Rightarrow> bool" where
  "isSupported mn mx m \<longleftrightarrow>
     (if Msg_min_ver m \<ge> Msg_max_ver m
      then mn \<le> Msg_max_ver m \<and> mx \<ge> Msg_max_ver m \<or> mn \<le> Msg_min_ver m \<and> mx \<ge> Msg_min_ver m
      else mn \<le> Msg_min_ver m \<and> mx \<ge> Msg_max_ver m)"

text \<open>What a coach makes the server send, in order.\<close>

datatype coach_out =
    Reply string
  | OKEye bool
  | Look
  | Compression int
  | CoachAudio side string
  | CoachStdAudio clang_msg
  | TeamGraphic side nat nat
  | Close

record coach =
  C_assigned :: bool
  C_eye :: bool
  C_hear :: bool
  C_version :: real
  C_done_received :: bool

record olcoach = coach +
  OC_side :: side
  OC_freeform_messages_said :: int
  OC_freeform_messages_allowed :: int
  OC_message_queue :: "clang_msg list"
  OC_define_messages_left :: int
  OC_advice_messages_left :: int
  OC_info_messages_left :: int
  OC_meta_messages_left :: int
  OC_del_messages_left :: int
  OC_rule_messages_left :: int
  OC_msg_left_update_time :: int

definition new_Coach :: coach where
  "new_Coach = \<lparr>C_assigned = False, C_eye = False, C_hear = False, C_version = 0,
                C_done_received = False\<rparr>"

text \<open>The conversion of the unsigned parameter to \<^verbatim>\<open>int\<close> keeps its bits.\<close>

definition new_OnlineCoach :: "sparam \<Rightarrow> side \<Rightarrow> olcoach" where
  "new_OnlineCoach sp s =
     \<lparr>C_assigned = False, C_eye = False, C_hear = False, C_version = 0, C_done_received = False,
      OC_side = s, OC_freeform_messages_said = 0,
      OC_freeform_messages_allowed = sint (freeformCountMax sp), OC_message_queue = [],
      OC_define_messages_left = - 1, OC_advice_messages_left = - 1, OC_info_messages_left = - 1,
      OC_meta_messages_left = - 1, OC_del_messages_left = - 1, OC_rule_messages_left = - 1,
      OC_msg_left_update_time = - 1\<rparr>"

definition Coach_resetCommandFlags :: "'a coach_scheme \<Rightarrow> 'a coach_scheme" where
  "Coach_resetCommandFlags c = c\<lparr>C_done_received := False\<rparr>"

section \<open>Texts\<close>

text \<open>The first mode of that name, and \<^verbatim>\<open>PM_Null\<close> without one.\<close>

definition play_mode_id :: "string \<Rightarrow> playmode" where
  "play_mode_id mode =
     (case List.find (\<lambda>n. PLAYMODE_STRINGS ! n = mode) [0..<length playmodes] of
        Some n \<Rightarrow> playmodes ! n
      | None \<Rightarrow> PM_Null)"

definition chop_last_parenthesis :: "string \<Rightarrow> int \<Rightarrow> string" where
  "chop_last_parenthesis str max_size =
     (if int (length str) > max_size then take (nat max_size) str
      else if str \<noteq> [] \<and> last str = CHR '')'' then butlast str
      else str)"

fun ball_pos_info_string :: "BallPosInfo \<Rightarrow> string" where
  "ball_pos_info_string BPI_InField = ''in_field''"
| "ball_pos_info_string BPI_GoalL = ''goal_l''"
| "ball_pos_info_string BPI_GoalR = ''goal_r''"
| "ball_pos_info_string BPI_OutOfField = ''out_of_field''"

section \<open>Operations of both kinds of coaches\<close>

definition check_ball :: "sparam \<Rightarrow> world \<Rightarrow> coach_out list" where
  "check_ball sp w =
     [Reply (''(ok check_ball '' @ show_int (M_time w) @ '' ''
             @ ball_pos_info_string (ballPosInfo sp w) @ '')'')]"

definition sendOKEye :: "'a coach_scheme \<Rightarrow> coach_out list" where
  "sendOKEye c = (if C_assigned c then [OKEye (C_eye c)] else [])"

definition eye :: "string \<Rightarrow> 'a coach_scheme \<Rightarrow> 'a coach_scheme \<times> coach_out list" where
  "eye mode c =
     (if mode = ''on'' then let c1 = c\<lparr>C_eye := True\<rparr> in (c1, sendOKEye c1)
      else if mode = ''off'' then let c1 = c\<lparr>C_eye := False\<rparr> in (c1, sendOKEye c1)
      else (c, [Reply ''(error illegal_command_form)'']))"

definition look :: "'a coach_scheme \<Rightarrow> coach_out list" where
  "look c = (if C_assigned c then [Look] else [])"

definition compression :: "int \<Rightarrow> coach_out list" where
  "compression level =
     (if level > 9 then [Reply ''(error illegal_command_form)'']
      else [Reply (''(ok compression '' @ show_int level @ '')''), Compression level])"

text \<open>The teams which have a name; a coach sees the fixed name of the other team.\<close>

definition team_names :: "sparam \<Rightarrow> side \<Rightarrow> world \<Rightarrow> coach_out list" where
  "team_names sp s w =
     (let l = (if T_name (M_team_l w) \<noteq> []
               then '' (team l '' @ (if s = RIGHT then fixedName sp (M_team_l w) else T_name (M_team_l w)) @ '')''
               else []);
          r = (if T_name (M_team_r w) \<noteq> []
               then '' (team r '' @ (if s = LEFT then fixedName sp (M_team_r w) else T_name (M_team_r w)) @ '')''
               else [])
      in [Reply (''(ok team_names'' @ l @ r @ '')'' @ [CHR 0x0A])])"

text \<open>The player of a team with that number, and the scan for a goalie before it.\<close>

definition find_player :: "side \<Rightarrow> int \<Rightarrow> world \<Rightarrow> nat option" where
  "find_player s unum w = List.find (\<lambda>i. M_unum (pl w i) = unum) (team_slots s w)"

definition enabled_slots :: "side \<Rightarrow> world \<Rightarrow> nat list" where
  "enabled_slots s w = filter (\<lambda>i. M_enable (pl w i)) (team_slots s w)"

definition change_player_type_goalie_impl ::
  "side \<Rightarrow> int \<Rightarrow> world \<Rightarrow> bool \<times> world \<times> coach_out list" where
  "change_player_type_goalie_impl s unum w =
     (if list_ex (\<lambda>i. M_goalie (pl w i)) (enabled_slots s w)
      then (False, w, [Reply ''(error goalie_already_exists)''])
      else (case List.find (\<lambda>i. M_unum (pl w i) = unum) (rev (enabled_slots s w)) of
              None \<Rightarrow> (False, w, [Reply ''(warning no_such_player)''])
            | Some i \<Rightarrow> (True, snd (changePlayerToGoalie s i w), [])))"

section \<open>The trainer\<close>

type_synonym 'c coach_turn = "(world \<times> 'c \<times> coach_out list) option"

definition change_mode :: "mode_op \<Rightarrow> string \<Rightarrow> world \<Rightarrow> (world \<times> coach_out list) option" where
  "change_mode cpm mode w =
     (let mode_id = play_mode_id mode
      in if mode_id = PM_Null then Some (w, [Reply ''(error illegal_mode)''])
         else do { w1 \<leftarrow> cpm mode_id w; Some (w1, [Reply ''(ok change_mode)'']) })"

text \<open>
  \<^verbatim>\<open>parse_move\<close>: \<open>n\<close> fields were scanned, \<open>obj\<close> is the object's name with its parentheses
  and \<open>name\<close> what \<^verbatim>\<open>PLAYER_NAME_FORMAT\<close> reads in it.
\<close>

definition team_side :: "string \<Rightarrow> world \<Rightarrow> side" where
  "team_side name w =
     (if T_name (M_team_l w) = name then LEFT
      else if T_name (M_team_r w) = name then RIGHT
      else NEUTRAL)"

definition move_ball_command ::
  "int \<Rightarrow> pvector \<Rightarrow> pvector \<Rightarrow> world \<Rightarrow> (bool \<times> world)" where
  "move_ball_command n pos vel w =
     (let w1 = clearBallCatcher w
      in if n = 3 \<or> n = 4 then (True, moveBall pos (PVector 0 0) w1)
         else if n = 6 then (True, moveBall pos vel w1)
         else (False, w1))"

definition move_player_command ::
  "sparam \<Rightarrow> mode_op \<Rightarrow> int \<Rightarrow> side \<Rightarrow> int \<Rightarrow> pvector \<Rightarrow> real \<Rightarrow> pvector \<Rightarrow> world
     \<Rightarrow> (bool \<times> world) option" where
  "move_player_command sp cpm n s unum pos ang vel w =
     (let a = Deg2Rad (bound (minMoment sp) ang (maxMoment sp));
          run = (\<lambda>oa ov. do { (_, w1) \<leftarrow> movePlayer sp cpm s unum pos oa ov w; Some (True, w1) })
      in if n = 3 then run None None
         else if n = 4 then run (Some a) None
         else if n = 6 then run (Some a) (Some vel)
         else Some (False, w))"

definition parse_move ::
  "sparam \<Rightarrow> mode_op \<Rightarrow> int \<Rightarrow> string \<Rightarrow> (string \<times> int) option \<Rightarrow> pvector \<Rightarrow> real \<Rightarrow> pvector \<Rightarrow> world
     \<Rightarrow> (world \<times> coach_out list) option" where
  "parse_move sp cpm n obj name pos ang vel w =
     (if n < 3 then Some (w, [Reply ''(error illegal_object_form)''])
      else if obj = ''(ball)''
      then (case move_ball_command n pos vel w of
              (True, w1) \<Rightarrow> Some (w1, [Reply ''(ok move)''])
            | (False, w1) \<Rightarrow> Some (w1, [Reply ''(error illegal_command_form)'']))
      else (case name of
              None \<Rightarrow> Some (w, [Reply ''(error illegal_object_form)''])
            | Some (teamname, unum) \<Rightarrow>
                if unum < 1 \<or> int MAX_PLAYER < unum
                then Some (w, [Reply ''(error illegal_object_form)''])
                else do {
                  (ok, w1) \<leftarrow> move_player_command sp cpm n (team_side teamname w) unum pos ang vel w;
                  Some (w1, if ok then [Reply ''(ok move)'']
                            else [Reply ''(error illegal_command_form)''])
                }))"

definition ear :: "string \<Rightarrow> coach \<Rightarrow> coach \<times> coach_out list" where
  "ear mode c =
     (if mode = ''on'' then (c\<lparr>C_hear := True\<rparr>, [Reply ''(ok ear on)''])
      else if mode = ''off'' then (c\<lparr>C_hear := False\<rparr>, [Reply ''(ok ear off)''])
      else (c, [Reply ''(error illegal_command_form)'']))"

text \<open>When both teams have the name, the right one is meant.\<close>

definition named_team :: "string \<Rightarrow> world \<Rightarrow> side option" where
  "named_team name w =
     (if T_name (M_team_r w) = name then Some RIGHT
      else if T_name (M_team_l w) = name then Some LEFT
      else None)"

definition Coach_change_player_type ::
  "sparam \<Rightarrow> pparam \<Rightarrow> string \<Rightarrow> int \<Rightarrow> int \<Rightarrow> world \<Rightarrow> world \<times> coach_out list" where
  "Coach_change_player_type sp pp team_name unum player_type w =
     (case named_team team_name w of
        None \<Rightarrow> (w, [Reply ''(warning no_team_found)''])
      | Some s \<Rightarrow>
          if player_type < 0 \<or> player_type \<ge> playerTypes pp
          then (w, [Reply ''(error out_of_range_player_type)''])
          else (case find_player s unum w of
                  None \<Rightarrow> (w, [Reply ''(warning no_such_player)''])
                | Some i \<Rightarrow>
                    (stadium_substitute sp i player_type w,
                     [Reply (take 63 (''(ok change_player_type '' @ team_name @ '' '' @ show_int unum
                                      @ '' '' @ show_int player_type @ '')''))])))"

definition Coach_change_player_type_goalie ::
  "string \<Rightarrow> int \<Rightarrow> world \<Rightarrow> world \<times> coach_out list" where
  "Coach_change_player_type_goalie team_name unum w =
     (case named_team team_name w of
        None \<Rightarrow> (w, [Reply ''(warning no_team_found)''])
      | Some s \<Rightarrow>
          (case change_player_type_goalie_impl s unum w of
             (True, w1, out) \<Rightarrow>
               (w1, out @ [Reply (take 63 (''(ok change_player_type '' @ team_name @ '' '' @ show_int unum
                                           @ '' goalie)''))])
           | (False, w1, out) \<Rightarrow> (w1, out)))"

text \<open>The scanned commands of a trainer, and \<^verbatim>\<open>Coach::parse_command\<close>.\<close>

datatype trainer_command =
    T_illegal
  | T_start
  | T_change_mode "string option"
  | T_move int string "(string \<times> int) option" pvector real pvector
  | T_look
  | T_team_names
  | T_recover
  | T_check_ball
  | T_say "string option"
  | T_ear "string option"
  | T_eye "string option"
  | T_change_player_type "(string \<times> int \<times> int) option"
  | T_done
  | T_compression "int option"
  | T_unknown

abbreviation illegal_form :: "coach_out list" where
  "illegal_form \<equiv> [Reply ''(error illegal_command_form)'']"

fun Coach_parse_command ::
  "sparam \<Rightarrow> pparam \<Rightarrow> mode_op \<Rightarrow> trainer_command \<Rightarrow> world \<Rightarrow> coach \<Rightarrow> coach coach_turn" where
  "Coach_parse_command sp pp cpm T_illegal w c = Some (w, c, illegal_form)"
| "Coach_parse_command sp pp cpm T_start w c =
     do { w1 \<leftarrow> kickOff sp pp cpm w; Some (w1, c, [Reply ''(ok start)'']) }"
| "Coach_parse_command sp pp cpm (T_change_mode None) w c = Some (w, c, illegal_form)"
| "Coach_parse_command sp pp cpm (T_change_mode (Some mode)) w c =
     do { (w1, out) \<leftarrow> change_mode cpm mode w; Some (w1, c, out) }"
| "Coach_parse_command sp pp cpm (T_move n obj name pos ang vel) w c =
     do { (w1, out) \<leftarrow> parse_move sp cpm n obj name pos ang vel w; Some (w1, c, out) }"
| "Coach_parse_command sp pp cpm T_look w c = Some (w, c, look c)"
| "Coach_parse_command sp pp cpm T_team_names w c = Some (w, c, team_names sp NEUTRAL w)"
| "Coach_parse_command sp pp cpm T_recover w c =
     Some (recoveryPlayers sp w, c, [Reply (''(ok recover)'' @ [CHR 0x0A])])"
| "Coach_parse_command sp pp cpm T_check_ball w c = Some (w, c, check_ball sp w)"
| "Coach_parse_command sp pp cpm (T_say None) w c = Some (w, c, illegal_form)"
| "Coach_parse_command sp pp cpm (T_say (Some msg)) w c =
     Some (w, c, [CoachAudio NEUTRAL (chop_last_parenthesis msg (sint (freeformMsgSize sp))),
                  Reply ''(ok say)''])"
| "Coach_parse_command sp pp cpm (T_ear None) w c = Some (w, c, illegal_form)"
| "Coach_parse_command sp pp cpm (T_ear (Some mode)) w c = Some (w, ear mode c)"
| "Coach_parse_command sp pp cpm (T_eye None) w c = Some (w, c, illegal_form)"
| "Coach_parse_command sp pp cpm (T_eye (Some mode)) w c = Some (w, eye mode c)"
| "Coach_parse_command sp pp cpm (T_change_player_type None) w c = Some (w, c, illegal_form)"
| "Coach_parse_command sp pp cpm (T_change_player_type (Some (name, unum, ty))) w c =
     (case Coach_change_player_type sp pp name unum ty w of (w1, out) \<Rightarrow> Some (w1, c, out))"
| "Coach_parse_command sp pp cpm T_done w c = Some (w, c\<lparr>C_done_received := True\<rparr>, [])"
| "Coach_parse_command sp pp cpm (T_compression None) w c = Some (w, c, illegal_form)"
| "Coach_parse_command sp pp cpm (T_compression (Some level)) w c = Some (w, c, compression level)"
| "Coach_parse_command sp pp cpm T_unknown w c = Some (w, c, [Reply ''(error unknown_command)''])"

section \<open>The online coach: advice\<close>

definition canSendFreeform :: "sparam \<Rightarrow> world \<Rightarrow> bool option" where
  "canSendFreeform sp w =
     (if M_playmode w \<noteq> PM_PlayOn then Some True
      else
        let playon_period = M_time w - M_last_playon_start w
        in if playon_period > sint (freeformWaitPeriod sp)
           then (if freeformWaitPeriod sp = 0 then None
                 else Some (sint (word_of_int playon_period mod freeformWaitPeriod sp)
                              < sint (freeformSendPeriod sp)))
           else Some False)"

text \<open>
  The messages left of a type, and taking one.  The types with a quota are all but FREEFORM and
  UNSUP.
\<close>

fun messages_left :: "clang_type \<Rightarrow> olcoach \<Rightarrow> int" where
  "messages_left META c = OC_meta_messages_left c"
| "messages_left INFO c = OC_info_messages_left c"
| "messages_left ADVICE c = OC_advice_messages_left c"
| "messages_left DEFINE c = OC_define_messages_left c"
| "messages_left DEL c = OC_del_messages_left c"
| "messages_left RULE c = OC_rule_messages_left c"
| "messages_left _ c = 0"

fun take_message :: "clang_type \<Rightarrow> olcoach \<Rightarrow> olcoach" where
  "take_message META c = c\<lparr>OC_meta_messages_left := OC_meta_messages_left c - 1\<rparr>"
| "take_message INFO c = c\<lparr>OC_info_messages_left := OC_info_messages_left c - 1\<rparr>"
| "take_message ADVICE c = c\<lparr>OC_advice_messages_left := OC_advice_messages_left c - 1\<rparr>"
| "take_message DEFINE c = c\<lparr>OC_define_messages_left := OC_define_messages_left c - 1\<rparr>"
| "take_message DEL c = c\<lparr>OC_del_messages_left := OC_del_messages_left c - 1\<rparr>"
| "take_message RULE c = c\<lparr>OC_rule_messages_left := OC_rule_messages_left c - 1\<rparr>"
| "take_message _ c = c"

fun too_many :: "clang_type \<Rightarrow> string" where
  "too_many META = ''(error said_too_many_meta_messages)''"
| "too_many INFO = ''(error said_too_many_info_messages)''"
| "too_many ADVICE = ''(error said_too_many_advice_messages)''"
| "too_many DEFINE = ''(error said_too_many_define_messages)''"
| "too_many DEL = ''(error said_too_many_del_messages)''"
| "too_many RULE = ''(error said_too_many_rule_messages)''"
| "too_many FREEFORM = ''(error said_too_many_freeform_messages)''"
| "too_many UNSUP = []"

definition freeform_left :: "olcoach \<Rightarrow> bool" where
  "freeform_left c \<longleftrightarrow>
     OC_freeform_messages_said c < OC_freeform_messages_allowed c
     \<or> OC_freeform_messages_allowed c < 0"

text \<open>The switch over the type of a parsed message: whether to queue it, and the refusals.\<close>

definition judge_message ::
  "sparam \<Rightarrow> clang_type \<Rightarrow> world \<Rightarrow> olcoach \<Rightarrow> (bool \<times> olcoach \<times> coach_out list) option" where
  "judge_message sp ty w c =
     (case ty of
        FREEFORM \<Rightarrow> do {
          can \<leftarrow> canSendFreeform sp w;
          Some (if \<not> can then (False, c, [Reply ''(error cannot_say_freeform_while_playon)''])
                else if freeform_left c
                then (True, c\<lparr>OC_freeform_messages_said := OC_freeform_messages_said c + 1\<rparr>, [])
                else (False, c, [Reply (too_many ty)]))
        }
      | UNSUP \<Rightarrow> Some (False, c, [])
      | _ \<Rightarrow> Some (if M_playmode w \<noteq> PM_PlayOn then (True, c, [])
                  else if messages_left ty c > 0 then (True, take_message ty c, [])
                  else (False, c, [Reply (too_many ty)])))"

definition say_clang ::
  "sparam \<Rightarrow> clang_msg option \<Rightarrow> world \<Rightarrow> olcoach \<Rightarrow> (olcoach \<times> coach_out list) option" where
  "say_clang sp parsed w c =
     (case parsed of
        None \<Rightarrow> Some (c, [Reply ''(error could_not_parse_say)''])
      | Some m \<Rightarrow> do {
          let m1 = m\<lparr>Msg_time_recv := M_time w\<rparr>;
          (queue, c1, out) \<leftarrow> judge_message sp (Msg_type m1) w c;
          Some (if queue
                then (c1\<lparr>OC_message_queue := OC_message_queue c1 @ [m1]\<rparr>,
                      out @ [Reply ''(ok say)''])
                else (c1, out))
        })"

text \<open>Before version 7; the number of messages said is not counted here.\<close>

definition say_text ::
  "sparam \<Rightarrow> string option \<Rightarrow> world \<Rightarrow> olcoach \<Rightarrow> coach_out list" where
  "say_text sp scanned w c =
     (if M_playmode w = PM_PlayOn then [Reply ''(warning cannot_say_while_playon)'']
      else if freeform_left c
      then (case scanned of
              None \<Rightarrow> illegal_form
            | Some msg \<Rightarrow> [CoachAudio (OC_side c)
                              (chop_last_parenthesis msg (sint (freeformMsgSize sp))),
                            Reply ''(ok say)''])
      else [Reply ''(error said_too_many_messages)''])"

definition awardFreeformMessageCount :: "sparam \<Rightarrow> olcoach \<Rightarrow> olcoach" where
  "awardFreeformMessageCount sp c =
     (if OC_freeform_messages_allowed c > 0
      then c\<lparr>OC_freeform_messages_allowed :=
               sint (word_of_int (OC_freeform_messages_allowed c) + freeformCountMax sp)\<rparr>
      else c)"

text \<open>
  The loop of \<^verbatim>\<open>check_message_queue\<close>, with its counter \<open>i\<close> as the code steps it, over the queue;
  the sent messages are appended to \<open>sent\<close>.
\<close>

definition message_due :: "sparam \<Rightarrow> int \<Rightarrow> world \<Rightarrow> clang_msg \<Rightarrow> bool" where
  "message_due sp time w m \<longleftrightarrow>
     M_playmode w \<noteq> PM_PlayOn \<or> time - Msg_time_recv m \<ge> clangMessDelay sp"

definition stamp_message :: "world \<Rightarrow> side \<Rightarrow> clang_msg \<Rightarrow> clang_msg" where
  "stamp_message w s m = m\<lparr>Msg_time_send := M_time w, Msg_side := s\<rparr>"

fun flush_queue ::
  "sparam \<Rightarrow> int \<Rightarrow> world \<Rightarrow> side \<Rightarrow> int \<Rightarrow> clang_msg list \<Rightarrow> clang_msg list
     \<Rightarrow> clang_msg list \<times> clang_msg list" where
  "flush_queue sp time w s i [] sent = ([], sent)"
| "flush_queue sp time w s i (m # q) sent =
     (if i > 0 \<and> message_due sp time w m
      then flush_queue sp time w s (i + 1) q (sent @ [stamp_message w s m])
      else (m # q, sent))"

definition check_message_queue :: "sparam \<Rightarrow> int \<Rightarrow> world \<Rightarrow> olcoach \<Rightarrow> olcoach \<times> coach_out list" where
  "check_message_queue sp time w c =
     (case flush_queue sp time w (OC_side c) (clangMessPerCycle sp) (OC_message_queue c) [] of
        (q, sent) \<Rightarrow> (c\<lparr>OC_message_queue := q\<rparr>, map CoachStdAudio sent))"

definition update_messages_left :: "sparam \<Rightarrow> int \<Rightarrow> olcoach \<Rightarrow> olcoach" where
  "update_messages_left sp time c =
     (if OC_msg_left_update_time c \<ge> 0 \<and> time - OC_msg_left_update_time c < clangWinSize sp then c
      else c\<lparr>OC_define_messages_left := clangDefineWin sp,
             OC_meta_messages_left := clangMetaWin sp,
             OC_advice_messages_left := clangAdviceWin sp,
             OC_info_messages_left := clangInfoWin sp,
             OC_del_messages_left := clangDelWin sp,
             OC_rule_messages_left := clangRuleWin sp,
             OC_msg_left_update_time := time\<rparr>)"

section \<open>The online coach: players\<close>

text \<open>The end of the regular and the extra time.\<close>

definition game_length :: "sparam \<Rightarrow> int" where
  "game_length sp = halfTime sp * nrNormalHalfs sp + extraHalfTime sp * nrExtraHalfs sp"

definition unrestricted :: "pparam \<Rightarrow> int \<Rightarrow> bool" where
  "unrestricted pp ty \<longleftrightarrow> ty = 0 \<and> allowMultDefaultType pp"

definition no_left_of_type :: "pparam \<Rightarrow> team \<Rightarrow> int \<Rightarrow> bool" where
  "no_left_of_type pp t ty \<longleftrightarrow>
     ptypeUsedCount t ty > 0 \<and> \<not> unrestricted pp ty \<and> ptypeUsedCount t ty \<ge> ptMax pp"

definition max_on_field :: "pparam \<Rightarrow> team \<Rightarrow> player \<Rightarrow> int \<Rightarrow> bool" where
  "max_on_field pp t p ty \<longleftrightarrow>
     \<not> unrestricted pp ty \<and> ptypeCount t ty \<ge> ptMax pp
     \<and> \<not> (M_substituted p \<and> ty = M_player_type_id p)"

definition OnlineCoach_change_player_type ::
  "sparam \<Rightarrow> pparam \<Rightarrow> side \<Rightarrow> int \<Rightarrow> int \<Rightarrow> world \<Rightarrow> world \<times> coach_out list" where
  "OnlineCoach_change_player_type sp pp s unum player_type w =
     (let t = team s w
      in if M_playmode w = PM_PlayOn then (w, [Reply ''(warning cannot_sub_while_playon)''])
         else if \<not> halfTime sp < 0 \<and> M_time w \<ge> game_length sp
         then (w, [Reply ''(warning cannot_sub_while_penalty_shootouts)''])
         else if T_subs_count t \<ge> subsMax pp then (w, [Reply ''(warning no_subs_left)''])
         else if player_type < 0 \<or> playerTypes pp \<le> player_type
         then (w, [Reply ''(error out_of_range_player_type)''])
         else if no_left_of_type pp t player_type
         then (w, [Reply ''(warning no_left_of_that_type)''])
         else (case find_player s unum w of
                 None \<Rightarrow> (w, [Reply ''(warning no_such_player)''])
               | Some i \<Rightarrow>
                   if max_on_field pp t (pl w i) player_type
                   then (w, [Reply ''(warning max_of_that_type_on_field)''])
                   else (stadium_substitute sp i player_type w,
                         [Reply (''(ok change_player_type '' @ show_int unum @ '' ''
                                 @ show_int player_type @ '')'')])))"

definition OnlineCoach_change_player_type_goalie ::
  "side \<Rightarrow> int \<Rightarrow> world \<Rightarrow> world \<times> coach_out list" where
  "OnlineCoach_change_player_type_goalie s unum w =
     (if M_playmode w = PM_PlayOn
      then (w, [Reply ''(warning cannot_change_goalie_while_playon)''])
      else if M_playmode w \<in> {PM_PenaltyReady_Left, PM_PenaltyReady_Right,
                              PM_PenaltyTaken_Left, PM_PenaltyTaken_Right}
      then (w, [Reply ''(warning cannot_change_goalie_while_penalty_taken)''])
      else (case change_player_type_goalie_impl s unum w of
              (True, w1, out) \<Rightarrow>
                (w1, out @ [Reply (''(ok change_player_type '' @ show_int unum @ '' goalie)'')])
            | (False, w1, out) \<Rightarrow> (w1, out)))"

text \<open>\<open>tile\<close> is the scanned location, \<open>xpm\<close> the size of the picture when it is valid.\<close>

definition team_graphic ::
  "(nat \<times> nat) option \<Rightarrow> (nat \<times> nat) option \<Rightarrow> world \<Rightarrow> olcoach \<Rightarrow> coach_out list" where
  "team_graphic tile xpm w c =
     (if M_playmode w \<noteq> PM_BeforeKickOff then [Reply ''(warning only_before_kick_off)'']
      else (case tile of
              None \<Rightarrow> illegal_form
            | Some (x, y) \<Rightarrow>
                (if x \<ge> 32 \<or> y \<ge> 8 then [Reply ''(warning invalid_tile_location)''] else [])
                @ (case xpm of
                     None \<Rightarrow> [Reply ''(error invalid_xpm_data)'']
                   | Some (width, height) \<Rightarrow>
                       if width \<noteq> 8 \<or> height \<noteq> 8 then [Reply ''(warning invalid_tile_size)'']
                       else [TeamGraphic (OC_side c) x y,
                             Reply (''(ok team_graphic '' @ show_nat x @ '' '' @ show_nat y @ '')'')])))"

section \<open>The online coach: commands\<close>

datatype online_command =
    O_illegal
  | O_check_ball
  | O_look
  | O_team_names
  | O_say "clang_msg option" "string option"
  | O_bye
  | O_eye "string option"
  | O_change_player_type int int
  | O_change_player_type_goalie int
  | O_change_player_type_other
  | O_done
  | O_compression "int option"
  | O_team_graphic "(nat \<times> nat) option" "(nat \<times> nat) option"
  | O_unknown

definition OnlineCoach_disable :: "olcoach \<Rightarrow> olcoach \<times> coach_out list" where
  "OnlineCoach_disable c = (c\<lparr>C_assigned := False\<rparr>, [Close])"

fun OnlineCoach_parse_command ::
  "sparam \<Rightarrow> pparam \<Rightarrow> online_command \<Rightarrow> world \<Rightarrow> olcoach \<Rightarrow> olcoach coach_turn" where
  "OnlineCoach_parse_command sp pp O_illegal w c = Some (w, c, illegal_form)"
| "OnlineCoach_parse_command sp pp O_check_ball w c = Some (w, c, check_ball sp w)"
| "OnlineCoach_parse_command sp pp O_look w c = Some (w, c, look c)"
| "OnlineCoach_parse_command sp pp O_team_names w c = Some (w, c, team_names sp (OC_side c) w)"
| "OnlineCoach_parse_command sp pp (O_say parsed scanned) w c =
     (if C_version c \<ge> 7
      then do { (c1, out) \<leftarrow> say_clang sp parsed w c; Some (w, c1, out) }
      else Some (w, c, say_text sp scanned w c))"
| "OnlineCoach_parse_command sp pp O_bye w c = Some (w, OnlineCoach_disable c)"
| "OnlineCoach_parse_command sp pp (O_eye None) w c = Some (w, c, illegal_form)"
| "OnlineCoach_parse_command sp pp (O_eye (Some mode)) w c = Some (w, eye mode c)"
| "OnlineCoach_parse_command sp pp (O_change_player_type unum ty) w c =
     (case OnlineCoach_change_player_type sp pp (OC_side c) unum ty w of
        (w1, out) \<Rightarrow> Some (w1, c, out))"
| "OnlineCoach_parse_command sp pp (O_change_player_type_goalie unum) w c =
     (case OnlineCoach_change_player_type_goalie (OC_side c) unum w of
        (w1, out) \<Rightarrow> Some (w1, c, out))"
| "OnlineCoach_parse_command sp pp O_change_player_type_other w c = Some (w, c, illegal_form)"
| "OnlineCoach_parse_command sp pp O_done w c = Some (w, c\<lparr>C_done_received := True\<rparr>, [])"
| "OnlineCoach_parse_command sp pp (O_compression None) w c = Some (w, c, illegal_form)"
| "OnlineCoach_parse_command sp pp (O_compression (Some level)) w c = Some (w, c, compression level)"
| "OnlineCoach_parse_command sp pp (O_team_graphic tile xpm) w c =
     Some (w, c, team_graphic tile xpm w c)"
| "OnlineCoach_parse_command sp pp O_unknown w c = Some (w, c, [Reply ''(error unknown_command)''])"

text \<open>What \<^verbatim>\<open>Stadium::step\<close> does with the coaches at the start and at the end of a cycle; the
  remainder by a half time of zero cycles is \<open>None\<close>.\<close>

definition step_coach :: "sparam \<Rightarrow> world \<Rightarrow> olcoach \<Rightarrow> olcoach \<times> coach_out list" where
  "step_coach sp w c =
     (case check_message_queue sp (M_time w) w (Coach_resetCommandFlags c) of
        (c1, out) \<Rightarrow> (update_messages_left sp (M_time w) c1, out))"

definition step_award :: "sparam \<Rightarrow> world \<Rightarrow> olcoach \<Rightarrow> olcoach option" where
  "step_award sp w c =
     (if M_stoppage_time w = 0 \<and> M_time w > 0 \<and> nrNormalHalfs sp > 0
      then (if halfTime sp = 0 then None
            else Some (if M_time w mod (nrNormalHalfs sp * halfTime sp) = 0
                       then awardFreeformMessageCount sp c else c))
      else Some c)"

end
