(* ===== verification/Degrees.thy ===== *)
theory Degrees
  imports Geometry
begin

text \<open>
  Angles in whole degrees (utility.h), which the audio and visual messages carry, and the errors
  of rounding and of quantisation.
\<close>

text \<open>The cast of a double to \<^verbatim>\<open>int\<close> cuts off the fraction (\<open>trunc_real\<close>).\<close>

definition Rad2IDeg :: "real \<Rightarrow> int" where
  "Rad2IDeg a = trunc_real (a * (180 / pi))"

definition Rad2IDegRound :: "real \<Rightarrow> int" where
  "Rad2IDegRound a = trunc_real (rint (Rad2Deg a))"

lemma trunc_real_of_int [simp]: "trunc_real (of_int n) = n"
  by (simp add: trunc_real_def floor_minus)

lemma trunc_real_error: "\<bar>of_int (trunc_real x) - x\<bar> < 1"
  unfolding trunc_real_def by (auto simp: abs_less_iff floor_less_iff) linarith+

lemma rint_error: "\<bar>rint a - a\<bar> \<le> 1 / 2"
  unfolding rint_def Let_def by (auto simp: abs_le_iff)

lemma rint_int: "\<exists>n. rint a = of_int n"
  unfolding rint_def Let_def by (metis (full_types))

lemma Rad2IDegRound_rint: "of_int (Rad2IDegRound a) = rint (Rad2Deg a)"
  using rint_int[of "Rad2Deg a"] by (auto simp: Rad2IDegRound_def)

lemma Quantize_error: "0 < q \<Longrightarrow> \<bar>Quantize v q - v\<bar> \<le> q / 2"
proof (cases "q < EPS")
  case False
  assume q: "0 < q"
  have "\<bar>rint (v / q) * q - v\<bar> = \<bar>rint (v / q) - v / q\<bar> * q"
  proof -
    have "rint (v / q) * q - v = (rint (v / q) - v / q) * q" using q by (simp add: left_diff_distrib)
    then show ?thesis using q by (simp add: abs_mult)
  qed
  also have "\<dots> \<le> 1 / 2 * q" using rint_error[of "v / q"] q by (intro mult_right_mono) auto
  finally show ?thesis using False by (simp add: Quantize_def)
qed (simp add: Quantize_def)

end
