(* ===== verification/Audio.thy ===== *)
theory Audio
  imports Coach Degrees "HOL-Library.Multiset"
begin

text \<open>
  Who hears what (audio.h, audio.cpp, and the commands say, ear and attentionto of player.cpp).
  Players of version 8 and later cache the messages of a cycle and get them in \<open>newCycle\<close>; earlier
  versions get them at once.  The text a message is written as is left to the serializers: a
  message here is a constructor with its values.
\<close>

section \<open>Messages\<close>

datatype heard =
    RefereeAudio int string
  | NamedAudio int string string
  | CoachStd int string clang_msg
  | CoachStdUnsupported int string
  | SelfAudio int string
  | PlayerAudio int int string
  | AllyAudioFull int int int string
  | OppAudioFull int int string
  | AllyAudioShort int int
  | OppAudioShort int

definition generalPredicate :: "nat \<Rightarrow> world \<Rightarrow> bool" where
  "generalPredicate me w \<longleftrightarrow> M_enable (pl w me)"

text \<open>The names of the coaches; \<open>neutral\<close> is the name of the trainer.\<close>

fun coach_name :: "string \<Rightarrow> side \<Rightarrow> string" where
  "coach_name neutral NEUTRAL = neutral"
| "coach_name neutral LEFT = ''online_coach_left''"
| "coach_name neutral RIGHT = ''online_coach_right''"

section \<open>Versions before 8\<close>

definition send_referee_audio :: "nat \<Rightarrow> string \<Rightarrow> world \<Rightarrow> heard list" where
  "send_referee_audio me msg w =
     (if generalPredicate me w then [RefereeAudio (M_time w) msg] else [])"

definition sendCoachAudio_v1 :: "nat \<Rightarrow> side \<Rightarrow> string \<Rightarrow> world \<Rightarrow> heard list" where
  "sendCoachAudio_v1 me s msg w =
     (if generalPredicate me w then [NamedAudio (M_time w) (coach_name ''referee'' s) msg] else [])"

definition sendCoachAudio_v7 :: "nat \<Rightarrow> side \<Rightarrow> string \<Rightarrow> world \<Rightarrow> heard list" where
  "sendCoachAudio_v7 me s msg w =
     (if generalPredicate me w then [NamedAudio (M_time w) (coach_name ''coach'' s) msg] else [])"

text \<open>Advice of the coach goes to his own players; \<open>mn\<close> and \<open>mx\<close> are the versions they support.\<close>

definition send_coach_std :: "nat \<Rightarrow> u32 \<Rightarrow> u32 \<Rightarrow> clang_msg \<Rightarrow> world \<Rightarrow> heard list" where
  "send_coach_std me mn mx m w =
     (if generalPredicate me w \<and> M_side (pl w me) = Msg_side m \<and> Msg_side m \<noteq> NEUTRAL
      then (if isSupported mn mx m
            then [CoachStd (Msg_time_send m) (coach_name [] (Msg_side m)) m]
            else [CoachStdUnsupported (Msg_time_send m) (coach_name [] (Msg_side m))])
      else [])"

definition sendSelfAudio :: "nat \<Rightarrow> string \<Rightarrow> world \<Rightarrow> heard list" where
  "sendSelfAudio me msg w = (if generalPredicate me w then [SelfAudio (M_time w) msg] else [])"

definition in_earshot :: "sparam \<Rightarrow> nat \<Rightarrow> nat \<Rightarrow> world \<Rightarrow> bool" where
  "in_earshot sp me k w \<longleftrightarrow> distance2 (M_pos (pl w k)) (M_pos (pl w me)) \<le> (audioCutDist sp) ^ 2"

definition nonSelfPlayerPredicate_v1 :: "sparam \<Rightarrow> nat \<Rightarrow> nat \<Rightarrow> world \<Rightarrow> bool" where
  "nonSelfPlayerPredicate_v1 sp me k w \<longleftrightarrow>
     generalPredicate me w \<and> canHearFullFrom sp (pl w k) (pl w me) \<and> in_earshot sp me k w"

definition postNonSelfPlayer :: "sparam \<Rightarrow> nat \<Rightarrow> nat \<Rightarrow> world \<Rightarrow> world" where
  "postNonSelfPlayer sp me k w = upd_player me (decrementHearCapacity sp (pl w k)) w"

text \<open>\<open>deg\<close> is the rounding of the version: cut off in version 1, to nearest in version 7.\<close>

definition sendNonSelfPlayerAudio_v1 ::
  "(real \<Rightarrow> int) \<Rightarrow> sparam \<Rightarrow> nat \<Rightarrow> nat \<Rightarrow> string \<Rightarrow> world \<Rightarrow> world \<times> heard list" where
  "sendNonSelfPlayerAudio_v1 deg sp me k msg w =
     (if nonSelfPlayerPredicate_v1 sp me k w
      then (postNonSelfPlayer sp me k w,
            [PlayerAudio (M_time w) (deg (angleFromBody (M_pos (pl w k)) (pl w me))) msg])
      else (w, []))"

section \<open>Version 8\<close>

text \<open>
  The state of \<^verbatim>\<open>AudioSenderPlayerv8\<close>.  \<open>E_focused\<close> is the state pointer \<^verbatim>\<open>M_state_p\<close>,
  \<open>E_key\<close> the key of the state \<^verbatim>\<open>M_focused\<close>.  \<open>E_player_msgs\<close> is the multimap: in the order of the
  addresses of the players, and in the order of insertion for the same player.
\<close>

record ear8 =
  E_focused :: bool
  E_key :: "nat option"
  E_focus_count :: u32
  E_player_msgs :: "(nat \<times> string) list"
  E_self_msgs :: "string list"
  E_coach_msgs :: "(side \<times> string) list"
  E_left_partial :: bool
  E_left_complete :: bool
  E_right_partial :: bool
  E_right_complete :: bool

definition new_ear8 :: ear8 where
  "new_ear8 =
     \<lparr>E_focused = False, E_key = None, E_focus_count = 0, E_player_msgs = [], E_self_msgs = [],
      E_coach_msgs = [], E_left_partial = False, E_left_complete = True, E_right_partial = False,
      E_right_complete = True\<rparr>"

definition multimap_insert ::
  "(nat \<Rightarrow> nat) \<Rightarrow> nat \<Rightarrow> 'v \<Rightarrow> (nat \<times> 'v) list \<Rightarrow> (nat \<times> 'v) list" where
  "multimap_insert addr k v m =
     takeWhile (\<lambda>e. addr (fst e) \<le> addr k) m @ (k, v) # dropWhile (\<lambda>e. addr (fst e) \<le> addr k) m"

definition nonSelfPlayerPredicate :: "sparam \<Rightarrow> nat \<Rightarrow> nat \<Rightarrow> world \<Rightarrow> bool" where
  "nonSelfPlayerPredicate sp me k w \<longleftrightarrow> generalPredicate me w \<and> in_earshot sp me k w"

definition ear_complete :: "side \<Rightarrow> ear8 \<Rightarrow> bool" where
  "ear_complete s e \<longleftrightarrow> s = LEFT \<and> E_left_complete e \<or> s = RIGHT \<and> E_right_complete e"

definition ear_partial :: "side \<Rightarrow> ear8 \<Rightarrow> bool" where
  "ear_partial s e \<longleftrightarrow> s = LEFT \<and> E_left_partial e \<or> s = RIGHT \<and> E_right_partial e"

definition ear_off :: "side \<Rightarrow> ear8 \<Rightarrow> bool" where
  "ear_off s e \<longleftrightarrow>
     \<not> E_left_complete e \<and> \<not> E_left_partial e \<and> s = LEFT
     \<or> \<not> E_right_complete e \<and> \<not> E_right_partial e \<and> s = RIGHT"

definition sendCoachAudio :: "side \<Rightarrow> string \<Rightarrow> ear8 \<Rightarrow> ear8" where
  "sendCoachAudio s msg e = e\<lparr>E_coach_msgs := E_coach_msgs e @ [(s, msg)]\<rparr>"

definition cacheSelfAudio :: "string \<Rightarrow> ear8 \<Rightarrow> ear8" where
  "cacheSelfAudio msg e = e\<lparr>E_self_msgs := E_self_msgs e @ [msg]\<rparr>"

definition sendNonSelfPlayerAudio ::
  "(nat \<Rightarrow> nat) \<Rightarrow> sparam \<Rightarrow> nat \<Rightarrow> nat \<Rightarrow> string \<Rightarrow> world \<Rightarrow> ear8 \<Rightarrow> ear8" where
  "sendNonSelfPlayerAudio addr sp me k msg w e =
     (if \<not> nonSelfPlayerPredicate sp me k w then e
      else if ear_off (M_side (pl w k)) e then e
      else e\<lparr>E_player_msgs := multimap_insert addr k msg (E_player_msgs e)\<rparr>)"

definition sendPlayerAudio_v8 ::
  "(nat \<Rightarrow> nat) \<Rightarrow> sparam \<Rightarrow> nat \<Rightarrow> nat \<Rightarrow> string \<Rightarrow> world \<Rightarrow> ear8 \<Rightarrow> ear8" where
  "sendPlayerAudio_v8 addr sp me k msg w e =
     (if k = me then cacheSelfAudio msg e else sendNonSelfPlayerAudio addr sp me k msg w e)"

definition focusOn :: "nat \<Rightarrow> ear8 \<Rightarrow> ear8" where
  "focusOn k e = e\<lparr>E_key := Some k, E_focused := True, E_focus_count := E_focus_count e + 1\<rparr>"

definition focusOff :: "ear8 \<Rightarrow> ear8" where
  "focusOff e = e\<lparr>E_focused := False, E_focus_count := E_focus_count e + 1\<rparr>"

definition getFocusTarget :: "ear8 \<Rightarrow> nat option" where
  "getFocusTarget e = (if E_focused e then E_key e else None)"

definition setEar :: "bool \<Rightarrow> side \<Rightarrow> bool \<Rightarrow> bool \<Rightarrow> ear8 \<Rightarrow> ear8" where
  "setEar on s cmpl part e =
     (let e1 = (if s \<noteq> RIGHT
                then e\<lparr>E_left_complete := (if cmpl then on else E_left_complete e),
                       E_left_partial := (if part then on else E_left_partial e)\<rparr>
                else e)
      in if s \<noteq> LEFT
         then e1\<lparr>E_right_complete := (if cmpl then on else E_right_complete e1),
                 E_right_partial := (if part then on else E_right_partial e1)\<rparr>
         else e1)"

section \<open>Taking a message out of the cache\<close>

definition remove_nth :: "nat \<Rightarrow> 'a list \<Rightarrow> 'a list" where
  "remove_nth i xs = take i xs @ drop (Suc i) xs"

definition Unfocused_getMsg ::
  "(nat \<times> string) list \<Rightarrow> rng \<Rightarrow> (((nat \<times> string) \<times> (nat \<times> string) list) \<times> rng) option" where
  "Unfocused_getMsg msgs g =
     (if msgs = [] then None
      else if length msgs = 1 then Some ((hd msgs, []), g)
      else let (idx, g1) = irand (int (length msgs)) g
           in Some ((msgs ! nat idx, remove_nth (nat idx) msgs), g1))"

text \<open>
  The messages of the player in focus are a segment of the multimap.  With more than one of them
  the code erases the entry it has chosen and then reads it through the dead iterator: \<open>None\<close>.
\<close>

definition Focused_getMsg ::
  "nat option \<Rightarrow> (nat \<times> string) list \<Rightarrow> rng
     \<Rightarrow> (((nat \<times> string) \<times> (nat \<times> string) list) \<times> rng) option" where
  "Focused_getMsg key msgs g =
     (let before = takeWhile (\<lambda>e. Some (fst e) \<noteq> key) msgs;
          from = dropWhile (\<lambda>e. Some (fst e) \<noteq> key) msgs;
          seg = takeWhile (\<lambda>e. Some (fst e) = key) from
      in if seg = [] then Unfocused_getMsg msgs g
         else if length seg = 1 then Some ((hd seg, before @ tl from), g)
         else None)"

definition getMsg ::
  "ear8 \<Rightarrow> (nat \<times> string) list \<Rightarrow> rng \<Rightarrow> (((nat \<times> string) \<times> (nat \<times> string) list) \<times> rng) option" where
  "getMsg e msgs g = (if E_focused e then Focused_getMsg (E_key e) msgs g else Unfocused_getMsg msgs g)"

section \<open>The end of a cycle\<close>

definition sendCachedNonSelfPlayerAudio ::
  "sparam \<Rightarrow> nat \<Rightarrow> ear8 \<Rightarrow> nat \<Rightarrow> string \<Rightarrow> world \<Rightarrow> world \<times> heard list" where
  "sendCachedNonSelfPlayerAudio sp me e k msg w =
     (let p = pl w k; me_p = pl w me
      in if canHearFullFrom sp p me_p
         then (if ear_complete (M_side p) e
               then (postNonSelfPlayer sp me k w,
                     [if M_side me_p = M_side p
                      then AllyAudioFull (M_time w) (Rad2IDeg (angleFromBody (M_pos p) me_p)) (M_unum p) msg
                      else OppAudioFull (M_time w) (Rad2IDeg (angleFromBody (M_pos p) me_p)) msg])
               else (w, []))
         else (if ear_partial (M_side p) e
               then (w, [if M_side me_p = M_side p then AllyAudioShort (M_time w) (M_unum p)
                         else OppAudioShort (M_time w)])
               else (w, [])))"

text \<open>
  The loop of \<^verbatim>\<open>newCycle\<close> over the cached messages.  Every round takes one message out, so the
  number of messages bounds the rounds; \<open>n\<close> counts them down.
\<close>

fun deliver ::
  "sparam \<Rightarrow> nat \<Rightarrow> ear8 \<Rightarrow> nat \<Rightarrow> (nat \<times> string) list \<Rightarrow> world \<Rightarrow> (world \<times> heard list) option" where
  "deliver sp me e n [] w = Some (w, [])"
| "deliver sp me e 0 (m # ms) w = None"
| "deliver sp me e (Suc n) (m # ms) w =
     (case getMsg e (m # ms) (w_rng w) of
        None \<Rightarrow> None
      | Some (((k, msg), rest), g) \<Rightarrow>
          (case sendCachedNonSelfPlayerAudio sp me e k msg (w\<lparr>w_rng := g\<rparr>) of
             (w1, out) \<Rightarrow>
               (case deliver sp me e n rest w1 of
                  None \<Rightarrow> None
                | Some (w2, out2) \<Rightarrow> Some (w2, out @ out2))))"

definition newCycle ::
  "sparam \<Rightarrow> nat \<Rightarrow> ear8 \<Rightarrow> world \<Rightarrow> (world \<times> ear8 \<times> heard list) option" where
  "newCycle sp me e w = do {
     let coach = concat (map (\<lambda>(s, msg). sendCoachAudio_v7 me s msg w) (E_coach_msgs e));
     let self = concat (map (\<lambda>msg. sendSelfAudio me msg w) (E_self_msgs e));
     (w1, out) \<leftarrow> deliver sp me e (length (E_player_msgs e)) (E_player_msgs e) w;
     Some (w1, e\<lparr>E_coach_msgs := [], E_self_msgs := [], E_player_msgs := []\<rparr>, coach @ self @ out)
   }"

section \<open>The coaches as listeners\<close>

definition AudioSenderCoach_generalPredicate :: "sparam \<Rightarrow> coach \<Rightarrow> bool" where
  "AudioSenderCoach_generalPredicate sp c \<longleftrightarrow> (coachMode sp \<or> coachWithRefereeMode sp) \<and> C_hear c"

definition coach_hears_referee :: "sparam \<Rightarrow> coach \<Rightarrow> string \<Rightarrow> world \<Rightarrow> heard list" where
  "coach_hears_referee sp c msg w =
     (if AudioSenderCoach_generalPredicate sp c then [RefereeAudio (M_time w) msg] else [])"

definition coach_hears_coach :: "sparam \<Rightarrow> coach \<Rightarrow> side \<Rightarrow> string \<Rightarrow> world \<Rightarrow> heard list" where
  "coach_hears_coach sp c s msg w =
     (if AudioSenderCoach_generalPredicate sp c
      then [NamedAudio (M_time w) (coach_name ''referee'' s) msg] else [])"

definition coach_hears_std :: "sparam \<Rightarrow> coach \<Rightarrow> clang_msg \<Rightarrow> world \<Rightarrow> heard list" where
  "coach_hears_std sp c m w =
     (if AudioSenderCoach_generalPredicate sp c \<and> Msg_side m \<noteq> NEUTRAL
      then [CoachStd (M_time w) (coach_name [] (Msg_side m)) m] else [])"

definition olcoach_hears_referee :: "olcoach \<Rightarrow> string \<Rightarrow> world \<Rightarrow> heard list" where
  "olcoach_hears_referee c msg w =
     (if C_assigned c then [NamedAudio (M_time w) ''referee'' msg] else [])"

definition olcoach_hears_coach :: "olcoach \<Rightarrow> side \<Rightarrow> string \<Rightarrow> world \<Rightarrow> heard list" where
  "olcoach_hears_coach c s msg w =
     (if C_assigned c \<and> s = NEUTRAL then [NamedAudio (M_time w) ''referee'' msg] else [])"

section \<open>Commands of the player\<close>

text \<open>The ears of all players, and \<^verbatim>\<open>Stadium::sendPlayerAudio\<close> to them in the shuffled \<open>order\<close>.\<close>

type_synonym ears = "nat \<Rightarrow> ear8"

definition stadium_sendPlayerAudio ::
  "(nat \<Rightarrow> nat) \<Rightarrow> sparam \<Rightarrow> nat list \<Rightarrow> nat \<Rightarrow> string \<Rightarrow> world \<Rightarrow> ears \<Rightarrow> ears" where
  "stadium_sendPlayerAudio addr sp order k msg w es =
     fold (\<lambda>me es. es(me := sendPlayerAudio_v8 addr sp me k msg w (es me))) order es"

definition say ::
  "(nat \<Rightarrow> nat) \<Rightarrow> sparam \<Rightarrow> nat list \<Rightarrow> nat \<Rightarrow> string \<Rightarrow> world \<times> ears \<Rightarrow> world \<times> ears" where
  "say addr sp order k msg st =
     (case st of (w, es) \<Rightarrow>
        if length msg > unat (sayMsgSize sp) then (w, es)
        else (upd_player k (\<lambda>p. p\<lparr>M_say_count := M_say_count p + 1\<rparr>) w,
              stadium_sendPlayerAudio addr sp order k msg w es))"

datatype pcom_team = LEFT_SIDE | RIGHT_SIDE | OUR | OPP | UNKNOWN_TEAM
datatype ear_mode = PARTIAL | COMPLETE | UNKNOWN_EAR_MODE

fun ear_side :: "pcom_team \<Rightarrow> string \<Rightarrow> side \<Rightarrow> world \<Rightarrow> side option" where
  "ear_side OUR name s w = Some s"
| "ear_side OPP name s w = Some (opp_side s)"
| "ear_side LEFT_SIDE name s w = Some LEFT"
| "ear_side RIGHT_SIDE name s w = Some RIGHT"
| "ear_side UNKNOWN_TEAM name s w =
     (if length name > 0
      then (if name = T_name (M_team_l w) then Some LEFT
            else if name = T_name (M_team_r w) then Some RIGHT
            else None)
      else Some NEUTRAL)"

text \<open>\<^verbatim>\<open>Player::ear\<close>; \<open>None\<close> is the error about an unknown team.\<close>

definition ear_command ::
  "nat \<Rightarrow> bool \<Rightarrow> pcom_team \<Rightarrow> string \<Rightarrow> ear_mode \<Rightarrow> world \<Rightarrow> ear8 \<Rightarrow> ear8 option" where
  "ear_command me on ts name mode w e =
     (case ear_side ts name (M_side (pl w me)) w of
        None \<Rightarrow> None
      | Some s \<Rightarrow> Some (setEar on s (mode \<noteq> PARTIAL) (mode \<noteq> COMPLETE) e))"

fun attention_team :: "pcom_team \<Rightarrow> string \<Rightarrow> side \<Rightarrow> world \<Rightarrow> side option" where
  "attention_team OUR name s w = Some s"
| "attention_team OPP name s w = Some (if s = LEFT then RIGHT else LEFT)"
| "attention_team LEFT_SIDE name s w = Some LEFT"
| "attention_team RIGHT_SIDE name s w = Some RIGHT"
| "attention_team UNKNOWN_TEAM name s w =
     (if name = T_name (M_team_l w) then Some LEFT
      else if name = T_name (M_team_r w) then Some RIGHT
      else None)"

definition count_attention :: "nat \<Rightarrow> world \<Rightarrow> world" where
  "count_attention me w =
     upd_player me (\<lambda>p. p\<lparr>M_attentionto_count := M_attentionto_count p + 1\<rparr>) w"

definition attentionto ::
  "nat \<Rightarrow> bool \<Rightarrow> pcom_team \<Rightarrow> string \<Rightarrow> int \<Rightarrow> world \<times> ear8 \<Rightarrow> world \<times> ear8" where
  "attentionto me on ts name at_unum st =
     (case st of (w, e) \<Rightarrow>
        if \<not> on then (count_attention me w, focusOff e)
        else (case attention_team ts name (M_side (pl w me)) w of
                None \<Rightarrow> (w, e)
              | Some s \<Rightarrow>
                  if \<not> team_enabled (team s w) then (w, e)
                  else if at_unum < 1 \<or> at_unum > T_size (team s w) then (w, e)
                  else if s = M_side (pl w me) \<and> at_unum = M_unum (pl w me) then (w, e)
                  else if list_ex (\<lambda>i. at_unum = M_unum (pl w i)) (team_slots s w)
                  then (count_attention me w, focusOn (slot s (nat (at_unum - 1))) e)
                  else (w, e)))"

end
