(* ===== verification/Lexer.thy ===== *)
theory Lexer
  imports Audio
begin

text \<open>
  The lexer of the commands which players send (player\_command\_tok.lpp): the patterns of its rules,
  the longest match that flex takes, and the tokens of a text.
\<close>

section \<open>Patterns\<close>

text \<open>
  The regular expressions which the rules are made of.  Every repetition in the rules is one of a
  character class.  \<open>ends p s\<close> are the lengths of the prefixes of \<open>s\<close> which match \<open>p\<close>.
\<close>

datatype pattern =
    Lit string
  | One "char list"
  | Many "char list"
  | Any
  | Opt pattern
  | Seq pattern pattern
  | Alt pattern pattern

fun ends :: "pattern \<Rightarrow> string \<Rightarrow> nat list" where
  "ends (Lit t) s = (if take (length t) s = t then [length t] else [])"
| "ends (One cs) s = (if s \<noteq> [] \<and> hd s \<in> set cs then [1] else [])"
| "ends (Many cs) s = [1..<Suc (length (takeWhile (\<lambda>c. c \<in> set cs) s))]"
| "ends Any s = (if s \<noteq> [] \<and> hd s \<noteq> CHR 10 then [1] else [])"
| "ends (Opt p) s = 0 # ends p s"
| "ends (Seq p q) s = concat (map (\<lambda>n. map ((+) n) (ends q (drop n s))) (ends p s))"
| "ends (Alt p q) s = ends p s @ ends q s"

definition width :: "pattern \<Rightarrow> string \<Rightarrow> nat" where
  "width p s = fold max (ends p s) 0"

definition digits :: "char list" where "digits = ''0123456789''"
definition signs :: "char list" where "signs = ''+-''"

definition letters :: "char list" where
  "letters = ''abcdefghijklmnopqrstuvwxyzABCDEFGHIJKLMNOPQRSTUVWXYZ''"

definition UINT_p :: pattern where "UINT_p = Many digits"
definition INT_p :: pattern where "INT_p = Seq (Opt (One signs)) UINT_p"

definition REAL_p :: pattern where
  "REAL_p = Seq (Opt (One signs)) (Seq (Opt UINT_p) (Seq (Lit ''.'') UINT_p))"

definition EXP_p :: pattern where "EXP_p = Seq (Alt REAL_p INT_p) (Seq (One ''eE'') INT_p)"

text \<open>The characters of a word, and those of a message to say.\<close>

definition word_chars :: "char list" where "word_chars = ''-_'' @ letters @ digits"
definition say_chars :: "char list" where "say_chars = digits @ letters @ ''().+-*/?<>_ ''"

definition quoted_p :: pattern where
  "quoted_p = Seq (Lit [CHR 34]) (Seq (Many say_chars) (Lit [CHR 34]))"

definition say_p :: pattern where
  "say_p = Seq (Lit ''(say '') (Seq (Many say_chars) (Lit '')''))"

definition blank_p :: pattern where "blank_p = Many [CHR '' '', CHR 9, CHR 10]"

section \<open>Numbers\<close>

text \<open>
  \<^verbatim>\<open>atoi\<close> and \<^verbatim>\<open>atof\<close> on the texts which the number rules match.  A number beyond the range of
  an int is clamped to a 64-bit integer, whose lower half is taken, as the C library does.
\<close>

definition digit_val :: "char \<Rightarrow> int" where "digit_val c = int (of_char c) - 48"

definition nat_val :: "string \<Rightarrow> int" where
  "nat_val t = foldl (\<lambda>v c. 10 * v + digit_val c) 0 t"

definition unsigned_part :: "string \<Rightarrow> string" where
  "unsigned_part t = (if t \<noteq> [] \<and> hd t \<in> set signs then tl t else t)"

definition sign_val :: "string \<Rightarrow> int" where
  "sign_val t = (if t \<noteq> [] \<and> hd t = CHR ''-'' then - 1 else 1)"

definition atoi :: "string \<Rightarrow> int" where
  "atoi t =
     (let v = sign_val t * nat_val (takeWhile (\<lambda>c. c \<in> set digits) (unsigned_part t))
      in signed_take_bit 31 (max (- (2 ^ 63)) (min v (2 ^ 63 - 1))))"

definition power10 :: "int \<Rightarrow> real" where
  "power10 e = (if e < 0 then 1 / 10 ^ nat (- e) else 10 ^ nat e)"

definition atof :: "string \<Rightarrow> real" where
  "atof t =
     (let u = unsigned_part t;
          whole = takeWhile (\<lambda>c. c \<in> set digits) u;
          r1 = dropWhile (\<lambda>c. c \<in> set digits) u;
          frac = (if r1 \<noteq> [] \<and> hd r1 = CHR ''.'' then takeWhile (\<lambda>c. c \<in> set digits) (tl r1) else []);
          r2 = (if r1 \<noteq> [] \<and> hd r1 = CHR ''.'' then dropWhile (\<lambda>c. c \<in> set digits) (tl r1) else r1);
          ex = (if r2 \<noteq> [] \<and> hd r2 \<in> set ''eE''
                then sign_val (tl r2) * nat_val (unsigned_part (tl r2)) else 0)
      in of_int (sign_val t) * (of_int (nat_val (whole @ frac)) / 10 ^ length frac) * power10 ex)"

section \<open>Tokens\<close>

datatype keyword =
    PCOM_DASH | PCOM_TURN | PCOM_TURN_NECK | PCOM_CHANGE_FOCUS | PCOM_KICK | PCOM_LONG_KICK
  | PCOM_CATCH | PCOM_SAY | PCOM_SENSE_BODY | PCOM_SCORE | PCOM_MOVE | PCOM_CHANGE_VIEW
  | PCOM_COMPRESSION | PCOM_BYE | PCOM_DONE | PCOM_POINTTO | PCOM_ATTENTIONTO | PCOM_TACKLE
  | PCOM_CLANG | PCOM_EAR | PCOM_SYNCH_SEE | PCOM_GAUSSIAN_SEE
  | PCOM_VIEW_WIDTH_NARROW | PCOM_VIEW_WIDTH_NORMAL | PCOM_VIEW_WIDTH_WIDE
  | PCOM_VIEW_QUALITY_LOW | PCOM_VIEW_QUALITY_HIGH | PCOM_ON | PCOM_OFF | PCOM_OUR | PCOM_OPP
  | PCOM_LEFT | PCOM_RIGHT | PCOM_EAR_PARTIAL | PCOM_EAR_COMPLETE | PCOM_CLANG_VERSION
  | PCOM_TRUE | PCOM_FALSE

datatype pcom_token =
    PCOM_LP | PCOM_RP | PCOM_KEY keyword | PCOM_INT int | PCOM_REAL real | PCOM_STR string
  | PCOM_UNQ_SAY string | PCOM_ERROR

text \<open>The words of the rules, in their order.\<close>

definition reserved :: "(string \<times> keyword) list" where
  "reserved =
     [(''dash'', PCOM_DASH), (''turn'', PCOM_TURN), (''turn_neck'', PCOM_TURN_NECK),
      (''change_focus'', PCOM_CHANGE_FOCUS), (''kick'', PCOM_KICK), (''long_kick'', PCOM_LONG_KICK),
      (''catch'', PCOM_CATCH), (''say'', PCOM_SAY), (''sense_body'', PCOM_SENSE_BODY),
      (''score'', PCOM_SCORE), (''move'', PCOM_MOVE), (''change_view'', PCOM_CHANGE_VIEW),
      (''compression'', PCOM_COMPRESSION), (''bye'', PCOM_BYE), (''done'', PCOM_DONE),
      (''pointto'', PCOM_POINTTO), (''attentionto'', PCOM_ATTENTIONTO), (''tackle'', PCOM_TACKLE),
      (''clang'', PCOM_CLANG), (''ear'', PCOM_EAR), (''synch_see'', PCOM_SYNCH_SEE),
      (''gaussian_see'', PCOM_GAUSSIAN_SEE), (''narrow'', PCOM_VIEW_WIDTH_NARROW),
      (''normal'', PCOM_VIEW_WIDTH_NORMAL), (''wide'', PCOM_VIEW_WIDTH_WIDE),
      (''low'', PCOM_VIEW_QUALITY_LOW), (''high'', PCOM_VIEW_QUALITY_HIGH), (''on'', PCOM_ON),
      (''off'', PCOM_OFF), (''our'', PCOM_OUR), (''opp'', PCOM_OPP), (''left'', PCOM_LEFT),
      (''right'', PCOM_RIGHT), (''l'', PCOM_LEFT), (''r'', PCOM_RIGHT),
      (''partial'', PCOM_EAR_PARTIAL), (''complete'', PCOM_EAR_COMPLETE), (''p'', PCOM_EAR_PARTIAL),
      (''c'', PCOM_EAR_COMPLETE), (''ver'', PCOM_CLANG_VERSION), (''true'', PCOM_TRUE),
      (''false'', PCOM_FALSE)]"

definition STR_MAX :: nat where "STR_MAX = 8192"

definition str_token :: "string \<Rightarrow> pcom_token" where
  "str_token t = (if length t > STR_MAX then PCOM_ERROR else PCOM_STR t)"

definition say_token :: "string \<Rightarrow> pcom_token" where
  "say_token t =
     (if length t - 5 > STR_MAX then PCOM_ERROR else PCOM_UNQ_SAY (take (length t - 6) (drop 5 t)))"

text \<open>The rules in their order; an action makes tokens of the matched text, none for a blank.\<close>

type_synonym lex_rule = "pattern \<times> (string \<Rightarrow> pcom_token list)"

definition reserved_rule :: "string \<times> keyword \<Rightarrow> lex_rule" where
  "reserved_rule k = (Lit (fst k), \<lambda>_. [PCOM_KEY (snd k)])"

definition lex_rules :: "lex_rule list" where
  "lex_rules =
     [(Lit ''('', \<lambda>_. [PCOM_LP]), (Lit '')'', \<lambda>_. [PCOM_RP])]
     @ map reserved_rule reserved
     @ [(blank_p, \<lambda>_. []),
        (UINT_p, \<lambda>t. [PCOM_INT (atoi t)]),
        (INT_p, \<lambda>t. [PCOM_INT (atoi t)]),
        (REAL_p, \<lambda>t. [PCOM_REAL (atof t)]),
        (EXP_p, \<lambda>t. [PCOM_REAL (atof t)]),
        (Many word_chars, \<lambda>t. [str_token t]),
        (quoted_p, \<lambda>t. [str_token t]),
        (say_p, \<lambda>t. [say_token t]),
        (Any, \<lambda>_. [PCOM_ERROR])]"

text \<open>The rule which flex takes: the longest match, the first of the rules when several are equal.\<close>

definition better :: "string \<Rightarrow> lex_rule \<Rightarrow> nat \<times> (string \<Rightarrow> pcom_token list) \<Rightarrow> nat \<times> (string \<Rightarrow> pcom_token list)" where
  "better s r b = (if width (fst r) s > fst b then (width (fst r) s, snd r) else b)"

definition longest :: "lex_rule list \<Rightarrow> string \<Rightarrow> nat \<times> (string \<Rightarrow> pcom_token list)" where
  "longest rs s = fold (better s) rs (0, \<lambda>_. [])"

section \<open>The longest match\<close>

lemma fold_max_ge: "(b :: nat) \<le> fold max xs b"
proof (induction xs arbitrary: b)
  case (Cons x xs)
  show ?case using Cons[of "max x b"] by simp
qed simp

lemma fold_max_member: "n \<in> set xs \<Longrightarrow> (n :: nat) \<le> fold max xs b"
  by (induction xs arbitrary: b) (auto intro: order_trans[OF _ fold_max_ge])

lemma fold_max_least: "(\<And>n. n \<in> set xs \<Longrightarrow> n \<le> m) \<Longrightarrow> b \<le> m \<Longrightarrow> fold max xs b \<le> (m :: nat)"
  by (induction xs arbitrary: b) auto

lemma width_le: "(\<And>n. n \<in> set (ends p s) \<Longrightarrow> n \<le> m) \<Longrightarrow> width p s \<le> m"
  unfolding width_def by (rule fold_max_least) auto

lemma width_ge: "n \<in> set (ends p s) \<Longrightarrow> n \<le> width p s"
  unfolding width_def by (rule fold_max_member)

lemma width_eq: "m \<in> set (ends p s) \<Longrightarrow> (\<And>n. n \<in> set (ends p s) \<Longrightarrow> n \<le> m) \<Longrightarrow> width p s = m"
  by (meson antisym width_ge width_le)

lemma width_0: "ends p s = [] \<Longrightarrow> width p s = 0"
  by (simp add: width_def)

lemma ends_le: "n \<in> set (ends p s) \<Longrightarrow> n \<le> length s"
proof (induction p arbitrary: n s)
  case (Lit t)
  then show ?case by (auto split: if_splits dest: arg_cong[of _ _ length])
next
  case (Many cs)
  then show ?case using length_takeWhile_le[of "\<lambda>c. c \<in> set cs" s] by auto
next
  case (Seq p q)
  then obtain a b where "a \<in> set (ends p s)" "b \<in> set (ends q (drop a s))" "n = a + b" by auto
  with Seq.IH[of _ s] Seq.IH(2)[of b "drop a s"] show ?case by fastforce
next
  case (One cs)
  then show ?case by (cases s) auto
next
  case Any
  then show ?case by (cases s) (auto split: if_splits)
qed auto

lemma width_length: "width p s \<le> length s"
  by (rule width_le) (rule ends_le)

lemma better_fold_ge: "fst b \<le> fst (fold (better s) rs b)"
proof (induction rs arbitrary: b)
  case (Cons r rs)
  have "fst b \<le> fst (better s r b)" by (simp add: better_def)
  also have "\<dots> \<le> fst (fold (better s) rs (better s r b))" by (rule Cons)
  finally show ?case by simp
qed simp

lemma better_fold_keep:
  "(\<And>r. r \<in> set rs \<Longrightarrow> width (fst r) s \<le> fst b) \<Longrightarrow> fold (better s) rs b = b"
proof (induction rs)
  case (Cons r rs)
  have "better s r b = b" using Cons.prems[of r] by (simp add: better_def)
  then show ?case using Cons by simp
qed simp

lemma better_fold_less:
  "(\<And>r. r \<in> set rs \<Longrightarrow> width (fst r) s < n) \<Longrightarrow> fst b < n \<Longrightarrow> fst (fold (better s) rs b) < n"
  by (induction rs arbitrary: b) (auto simp: better_def)

text \<open>The rule taken is the first of those with the longest match.\<close>

lemma longest_split:
  assumes "rs = pre @ (p, a) # post" and "width p s = n" and "0 < n"
    and "\<And>r. r \<in> set pre \<Longrightarrow> width (fst r) s < n"
    and "\<And>r. r \<in> set post \<Longrightarrow> width (fst r) s \<le> n"
  shows "longest rs s = (n, a)"
proof -
  have "fst (fold (better s) pre (0, \<lambda>_. [])) < n"
    by (rule better_fold_less) (use assms(3,4) in auto)
  then show ?thesis
    using better_fold_keep[of post s "(n, a)"] assms(2,5)
    by (simp add: longest_def assms(1) better_def)
qed

lemma longest_ge: "r \<in> set rs \<Longrightarrow> width (fst r) s \<le> fst (longest rs s)"
proof -
  assume "r \<in> set rs"
  then obtain pre post where rs: "rs = pre @ r # post" by (auto simp: in_set_conv_decomp)
  have "width (fst r) s \<le> fst (better s r (fold (better s) pre (0, \<lambda>_. [])))"
    by (auto simp: better_def)
  also have "\<dots> \<le> fst (longest rs s)" using better_fold_ge by (simp add: longest_def rs)
  finally show ?thesis .
qed

lemma longest_le: "fst (longest rs s) \<le> length s"
proof -
  have "fst b \<le> length s \<Longrightarrow> fst (fold (better s) rs b) \<le> length s" for b
    by (induction rs arbitrary: b) (auto simp: better_def width_length)
  then show ?thesis by (simp add: longest_def)
qed

text \<open>The lexer is never stuck: a newline is a blank and every other character matches the last rule.\<close>

lemma Many_one: "s \<noteq> [] \<Longrightarrow> hd s \<in> set cs \<Longrightarrow> 1 \<in> set (ends (Many cs) s)"
proof -
  assume "s \<noteq> []" "hd s \<in> set cs"
  then have "0 < length (takeWhile (\<lambda>c. c \<in> set cs) s)" by (cases s) simp_all
  then show ?thesis by (simp del: length_greater_0_conv) linarith
qed

lemma longest_pos: "s \<noteq> [] \<Longrightarrow> 0 < fst (longest lex_rules s)"
proof (cases "hd s = CHR 10")
  case True
  assume "s \<noteq> []"
  with True have "1 \<in> set (ends blank_p s)"
    unfolding blank_p_def by (intro Many_one) simp_all
  then show ?thesis
    using width_ge longest_ge[of "(blank_p, \<lambda>_. [])" lex_rules s]
    by (fastforce simp: lex_rules_def)
next
  case False
  assume "s \<noteq> []"
  with False have "1 \<in> set (ends Any s)" by simp
  then show ?thesis
    using width_ge longest_ge[of "(Any, \<lambda>_. [PCOM_ERROR])" lex_rules s]
    by (fastforce simp: lex_rules_def)
qed

section \<open>The tokens of a text\<close>

function yylex :: "string \<Rightarrow> pcom_token list" where
  "yylex s =
     (if s = [] then []
      else (case longest lex_rules s of (n, act) \<Rightarrow> act (take n s) @ yylex (drop n s)))"
  by pat_completeness auto
termination
  by (relation "measure length") (use longest_pos in \<open>fastforce simp: prod_eq_iff\<close>)+

declare yylex.simps [simp del]

lemma lex_Nil [simp]: "yylex [] = []"
  by (simp add: yylex.simps)

lemma lex_step:
  "longest lex_rules (t @ r) = (length t, act) \<Longrightarrow> t \<noteq> [] \<Longrightarrow> yylex (t @ r) = act t @ yylex r"
  by (simp add: yylex.simps[of "t @ r"])

section \<open>First characters and alphabets\<close>

text \<open>
  A pattern which matches some characters starts with one of its first characters and uses only
  those of its alphabet.
\<close>

fun nullable :: "pattern \<Rightarrow> bool" where
  "nullable (Lit t) \<longleftrightarrow> t = []"
| "nullable (Opt p) \<longleftrightarrow> True"
| "nullable (Seq p q) \<longleftrightarrow> nullable p \<and> nullable q"
| "nullable (Alt p q) \<longleftrightarrow> nullable p \<or> nullable q"
| "nullable _ \<longleftrightarrow> False"

fun first :: "pattern \<Rightarrow> char \<Rightarrow> bool" where
  "first (Lit t) c \<longleftrightarrow> t \<noteq> [] \<and> hd t = c"
| "first (One cs) c \<longleftrightarrow> c \<in> set cs"
| "first (Many cs) c \<longleftrightarrow> c \<in> set cs"
| "first Any c \<longleftrightarrow> c \<noteq> CHR 10"
| "first (Opt p) c \<longleftrightarrow> first p c"
| "first (Seq p q) c \<longleftrightarrow> first p c \<or> nullable p \<and> first q c"
| "first (Alt p q) c \<longleftrightarrow> first p c \<or> first q c"

fun alphabet :: "pattern \<Rightarrow> char set" where
  "alphabet (Lit t) = set t"
| "alphabet (One cs) = set cs"
| "alphabet (Many cs) = set cs"
| "alphabet Any = UNIV"
| "alphabet (Opt p) = alphabet p"
| "alphabet (Seq p q) = alphabet p \<union> alphabet q"
| "alphabet (Alt p q) = alphabet p \<union> alphabet q"

lemma ends_nullable: "0 \<in> set (ends p s) \<Longrightarrow> nullable p"
  by (induction p arbitrary: s) (auto split: if_splits)

lemma ends_first: "n \<in> set (ends p s) \<Longrightarrow> 0 < n \<Longrightarrow> s \<noteq> [] \<and> first p (hd s)"
proof (induction p arbitrary: n s)
  case (Lit t)
  then have "take (length t) s = t" "t \<noteq> []" by (auto split: if_splits)
  then show ?case by (cases s; cases t) auto
next
  case (Many cs)
  then have "takeWhile (\<lambda>c. c \<in> set cs) s \<noteq> []" by auto
  then show ?case by (cases s) (auto split: if_splits)
next
  case (Seq p q)
  then obtain a b where ab: "a \<in> set (ends p s)" "b \<in> set (ends q (drop a s))" "n = a + b" by auto
  show ?case
  proof (cases "a = 0")
    case True
    then show ?thesis using ab Seq.prems Seq.IH(2)[of b s] ends_nullable[of p s] by auto
  next
    case False
    then show ?thesis using ab Seq.IH(1)[of a s] by auto
  qed
qed (auto split: if_splits)

lemma width_first: "s \<noteq> [] \<Longrightarrow> \<not> first p (hd s) \<Longrightarrow> width p s = 0"
  using width_le[of p s 0] ends_first[of _ p s] by (metis gr_zeroI le_zero_eq order_refl)

lemma ends_alphabet: "n \<in> set (ends p s) \<Longrightarrow> set (take n s) \<subseteq> alphabet p"
proof (induction p arbitrary: n s)
  case (Many cs)
  then have n: "n \<le> length (takeWhile (\<lambda>c. c \<in> set cs) s)" by auto
  have "take n s = take n (takeWhile (\<lambda>c. c \<in> set cs) s)"
    using n by (metis le_iff_add take_add append_eq_append_conv_if takeWhile_dropWhile_id take_append
        diff_is_0_eq take_0 append_Nil2)
  then show ?case by (auto dest!: in_set_takeD set_takeWhileD)
next
  case (Seq p q)
  then obtain a b where ab: "a \<in> set (ends p s)" "b \<in> set (ends q (drop a s))" "n = a + b" by auto
  then show ?case using Seq.IH(1)[of a s] Seq.IH(2)[of b "drop a s"] by (auto simp: take_add)
next
  case (One cs)
  then show ?case by (cases s) (auto split: if_splits)
next
  case (Opt p)
  then show ?case by fastforce
next
  case (Alt p q)
  then show ?case by fastforce
qed (auto split: if_splits)

text \<open>A word or number ends where a character follows which its pattern does not use.\<close>

lemma ends_stop:
  assumes "n \<in> set (ends p (t @ r))" and "r = [] \<or> hd r \<notin> alphabet p"
  shows "n \<le> length t"
proof (rule ccontr)
  assume n: "\<not> n \<le> length t"
  then have "r \<noteq> []" using ends_le[OF assms(1)] by auto
  moreover have "hd r \<in> set (take n (t @ r))"
    using n \<open>r \<noteq> []\<close> by (cases r; cases "n - length t") auto
  ultimately show False using ends_alphabet[OF assms(1)] assms(2) by auto
qed

lemma width_stop: "r = [] \<or> hd r \<notin> alphabet p \<Longrightarrow> width p (t @ r) \<le> length t"
  by (rule width_le) (rule ends_stop)

end
