(* ===== verification/Scanning.thy ===== *)
theory Scanning
  imports Lexer
begin

text \<open>
  The directives of \<^verbatim>\<open>sscanf\<close> with which stadium.cpp and monitor.cpp read the messages of clients.
\<close>

section \<open>Directives of sscanf\<close>

text \<open>
  A directive is given the rest of the text.  \<open>Matched\<close> has the value and what is left,
  \<open>Mismatch\<close> is a matching failure and \<open>End_of_input\<close> an input failure, for which \<^verbatim>\<open>sscanf\<close>
  returns \<^verbatim>\<open>EOF\<close> if nothing has been assigned yet.
\<close>

datatype 'a scan = Matched 'a string | Mismatch | End_of_input

definition isspace :: "char \<Rightarrow> bool" where
  "isspace c \<longleftrightarrow> c \<in> {CHR '' '', CHR 0x09, CHR 0x0A, CHR 0x0B, CHR 0x0C, CHR 0x0D}"

definition skip_ws :: "string \<Rightarrow> string" where "skip_ws s = dropWhile isspace s"

fun scan_lit :: "string \<Rightarrow> string \<Rightarrow> unit scan" where
  "scan_lit [] s = Matched () s"
| "scan_lit (c # cs) [] = End_of_input"
| "scan_lit (c # cs) (d # s) = (if c = d then scan_lit cs s else Mismatch)"

text \<open>\<^verbatim>\<open>%n[set]\<close>: at least one and at most \<open>n\<close> characters of the set.\<close>

definition scan_set :: "nat \<Rightarrow> (char \<Rightarrow> bool) \<Rightarrow> string \<Rightarrow> string scan" where
  "scan_set n P s =
     (if s = [] then End_of_input
      else let w = take n (takeWhile P s)
           in if w = [] then Mismatch else Matched w (drop (length w) s))"

text \<open>\<^verbatim>\<open>%ns\<close>: blanks are skipped first.\<close>

definition scan_word :: "nat \<Rightarrow> string \<Rightarrow> string scan" where
  "scan_word n s = scan_set n (\<lambda>c. \<not> isspace c) (skip_ws s)"

text \<open>
  \<^verbatim>\<open>%lf\<close>: the longest prefix that may begin a number in decimal notation is taken, and it must be a
  number.  The hexadecimal numbers, infinities and not-a-numbers which the C library reads too are
  mismatches here.
\<close>

definition take_digits :: "string \<Rightarrow> string" where "take_digits = takeWhile (\<lambda>c. c \<in> set digits)"
definition drop_digits :: "string \<Rightarrow> string" where "drop_digits = dropWhile (\<lambda>c. c \<in> set digits)"

definition drop_sign :: "string \<Rightarrow> string" where
  "drop_sign s = (if s \<noteq> [] \<and> hd s \<in> set signs then tl s else s)"

definition after_mantissa :: "string \<Rightarrow> string" where
  "after_mantissa s =
     (let r = drop_digits (drop_sign s)
      in if r \<noteq> [] \<and> hd r = CHR ''.'' then drop_digits (tl r) else r)"

definition has_mantissa :: "string \<Rightarrow> bool" where
  "has_mantissa s \<longleftrightarrow>
     (let r = drop_digits (drop_sign s)
      in take_digits (drop_sign s) \<noteq> [] \<or> r \<noteq> [] \<and> hd r = CHR ''.'' \<and> take_digits (tl r) \<noteq> [])"

definition has_exponent :: "string \<Rightarrow> bool" where
  "has_exponent s \<longleftrightarrow> after_mantissa s \<noteq> [] \<and> hd (after_mantissa s) \<in> set ''eE''"

definition exponent_text :: "string \<Rightarrow> string" where
  "exponent_text s = drop_sign (tl (after_mantissa s))"

definition after_number :: "string \<Rightarrow> string" where
  "after_number s = (if has_exponent s then drop_digits (exponent_text s) else after_mantissa s)"

definition scan_lf :: "string \<Rightarrow> real scan" where
  "scan_lf s0 =
     (let s = skip_ws s0
      in if s = [] then End_of_input
         else if \<not> has_mantissa s \<or> has_exponent s \<and> take_digits (exponent_text s) = [] then Mismatch
         else Matched (atof (take (length s - length (after_number s)) s)) (after_number s))"

definition scan_d :: "string \<Rightarrow> int scan" where
  "scan_d s0 =
     (let s = skip_ws s0; r = drop_digits (drop_sign s)
      in if s = [] then End_of_input
         else if take_digits (drop_sign s) = [] then Mismatch
         else Matched (atoi (take (length s - length r) s)) r)"

text \<open>A directive after others; the failures end the scan.\<close>

fun scan_then :: "'a scan \<Rightarrow> ('a \<Rightarrow> string \<Rightarrow> 'b scan) \<Rightarrow> 'b scan" where
  "scan_then (Matched x s) f = f x s"
| "scan_then Mismatch f = Mismatch"
| "scan_then End_of_input f = End_of_input"

text \<open>\<open>" ( w"\<close>: the parenthesis and the word with which every format begins.\<close>

definition scan_open :: "string \<Rightarrow> string \<Rightarrow> unit scan" where
  "scan_open w s = scan_then (scan_lit ''('' (skip_ws s)) (\<lambda>_ r. scan_lit w (skip_ws r))"

text \<open>Up to \<open>k\<close> numbers in a row: those which are read before the first failure.\<close>

fun scan_ds :: "nat \<Rightarrow> string \<Rightarrow> int list" where
  "scan_ds 0 s = []"
| "scan_ds (Suc k) s = (case scan_d s of Matched v r \<Rightarrow> v # scan_ds k r | _ \<Rightarrow> [])"

fun scan_lfs :: "nat \<Rightarrow> string \<Rightarrow> real list" where
  "scan_lfs 0 s = []"
| "scan_lfs (Suc k) s = (case scan_lf s of Matched v r \<Rightarrow> v # scan_lfs k r | _ \<Rightarrow> [])"

definition starts_with :: "string \<Rightarrow> string \<Rightarrow> bool" where
  "starts_with t s \<longleftrightarrow> take (length t) s = t"

section \<open>What is left of a text\<close>

lemma skip_ws_length: "length (skip_ws s) \<le> length s"
  by (simp add: skip_ws_def length_dropWhile_le)

lemma scan_lit_shorter: "scan_lit t s = Matched u r \<Longrightarrow> length s = length t + length r"
  by (induction t s rule: scan_lit.induct) (auto split: if_splits)

lemma drop_digits_length: "length (drop_digits s) \<le> length s"
  by (simp add: drop_digits_def length_dropWhile_le)

lemma drop_sign_length: "length (drop_sign s) \<le> length s"
  by (simp add: drop_sign_def)

lemma scan_then_Matched:
  "scan_then m f = Matched x r \<longleftrightarrow> (\<exists>y s. m = Matched y s \<and> f y s = Matched x r)"
  by (cases m) auto

lemma scan_open_shorter: "scan_open w s = Matched u r \<Longrightarrow> length w + length r < length s"
proof -
  assume "scan_open w s = Matched u r"
  then obtain v q where "scan_lit ''('' (skip_ws s) = Matched v q" "scan_lit w (skip_ws q) = Matched u r"
    by (auto simp: scan_open_def scan_then_Matched)
  then show ?thesis
    using skip_ws_length[of s] skip_ws_length[of q] by (fastforce dest!: scan_lit_shorter)
qed

lemma after_number_length: "length (after_number s) \<le> length s"
proof -
  have m: "length (after_mantissa s) \<le> length s"
    using drop_digits_length[of "drop_sign s"] drop_sign_length[of s]
      drop_digits_length[of "tl (drop_digits (drop_sign s))"]
    by (simp add: after_mantissa_def Let_def) linarith
  show ?thesis
    using m drop_digits_length[of "exponent_text s"] drop_sign_length[of "tl (after_mantissa s)"]
    by (simp add: after_number_def exponent_text_def) linarith
qed

lemma scan_lf_shorter: "scan_lf s = Matched v r \<Longrightarrow> length r \<le> length s"
  using after_number_length[of "skip_ws s"] skip_ws_length[of s]
  by (auto simp: scan_lf_def Let_def split: if_splits)

end
