(* ===== verification/Monitors.thy ===== *)
theory Monitors
  imports Scanning
begin

text \<open>
  The commands of a monitor (monitor.cpp), which may act on the game as a human referee does, and
  in the coach modes as the trainer does.  A text is read with \<^verbatim>\<open>sscanf\<close> and obeyed; answers to
  the monitor are those of the message board.
\<close>

section \<open>Reading\<close>

text \<open>The cast of an int to \<^verbatim>\<open>Side\<close>, which is undefined outside the enumerators.\<close>

definition side_of :: "int \<Rightarrow> side option" where
  "side_of i = (if i = 1 then Some LEFT else if i = 0 then Some NEUTRAL
                else if i = - 1 then Some RIGHT else None)"

definition SHOWINFO_SCALE :: real where "SHOWINFO_SCALE = 16"

definition showinfo_pos :: "int \<Rightarrow> int \<Rightarrow> pvector" where
  "showinfo_pos x y = PVector (of_int x / SHOWINFO_SCALE) (of_int y / SHOWINFO_SCALE)"

text \<open>The integers of a command with the word \<open>w\<close>, at most \<open>k\<close>.\<close>

definition command_ints :: "string \<Rightarrow> nat \<Rightarrow> string \<Rightarrow> int list" where
  "command_ints w k msg = (case scan_open w msg of Matched _ s \<Rightarrow> scan_ds k s | _ \<Rightarrow> [])"

definition mode_char :: "char \<Rightarrow> bool" where
  "mode_char c \<longleftrightarrow> c \<in> set (digits @ letters @ ''-.+*/?<>_'')"

section \<open>The commands\<close>

type_synonym monitor_turn = "(world \<times> coach_out list) option"

definition board :: "string \<Rightarrow> world \<Rightarrow> monitor_turn" where
  "board msg w = Some (w, [Reply msg])"

definition quietly :: "world option \<Rightarrow> monitor_turn" where
  "quietly m = map_option (\<lambda>w. (w, [])) m"

abbreviation board_illegal :: "world \<Rightarrow> monitor_turn" where
  "board_illegal \<equiv> board ''(error illegal_command_form)''"

definition dispfoul :: "mode_op \<Rightarrow> string \<Rightarrow> world \<Rightarrow> monitor_turn" where
  "dispfoul cpm msg w =
     (case command_ints ''dispfoul'' 3 msg of
        [x, y, s] \<Rightarrow>
          (case side_of s of
             None \<Rightarrow> None
           | Some sd \<Rightarrow> quietly (if sd = NEUTRAL then dropBall cpm (showinfo_pos x y) w
                                else stadium_callFoul cpm sd (showinfo_pos x y) w))
      | _ \<Rightarrow> board_illegal w)"

definition dispplayer :: "sparam \<Rightarrow> mode_op \<Rightarrow> string \<Rightarrow> world \<Rightarrow> monitor_turn" where
  "dispplayer sp cpm msg w =
     (case command_ints ''dispplayer'' 5 msg of
        [s, unum, x, y, a] \<Rightarrow>
          (case side_of s of
             None \<Rightarrow> None
           | Some sd \<Rightarrow> quietly (map_option snd
               (movePlayer sp cpm sd unum (showinfo_pos x y) (Some (Deg2Rad (of_int a))) (Some (PVector 0 0)) w)))
      | _ \<Rightarrow> board_illegal w)"

definition dispdiscard :: "string \<Rightarrow> world \<Rightarrow> monitor_turn" where
  "dispdiscard msg w =
     (case command_ints ''dispdiscard'' 2 msg of
        [s, unum] \<Rightarrow> (case side_of s of None \<Rightarrow> None | Some sd \<Rightarrow> Some (discardPlayer sd unum w, []))
      | _ \<Rightarrow> board_illegal w)"

definition scan_card :: "string \<Rightarrow> (int \<times> int \<times> string) scan" where
  "scan_card msg =
     scan_then (scan_open ''dispcard'' msg)
       (\<lambda>_ s. scan_then (scan_d s)
         (\<lambda>sd r. scan_then (scan_d r)
           (\<lambda>unum q. scan_then (scan_set 7 (\<lambda>c. c \<noteq> CHR '')'') (skip_ws q))
             (\<lambda>c t. Matched (sd, unum, c) t))))"

definition dispcard :: "string \<Rightarrow> world \<Rightarrow> monitor_turn" where
  "dispcard msg w =
     (case scan_card msg of
        Matched (s, unum, crd) _ \<Rightarrow>
          (case side_of s of
             None \<Rightarrow> None
           | Some sd \<Rightarrow> if crd = ''yellow'' then Some (yellowCard sd unum w, [])
                        else if crd = ''red'' then Some (redCard sd unum w, [])
                        else board_illegal w)
      | _ \<Rightarrow> board_illegal w)"

definition monitor_compression :: "bool \<Rightarrow> string \<Rightarrow> world \<Rightarrow> monitor_turn" where
  "monitor_compression libz msg w =
     (case command_ints ''compression'' 1 msg of
        [level] \<Rightarrow>
          if \<not> libz then board ''(warning compression_unsupported)'' w
          else if level > 9 then board_illegal w
          else Some (w, [Reply (''(ok compression '' @ show_int level @ '')''), Compression level])
      | _ \<Rightarrow> board_illegal w)"

definition coach_change_mode :: "mode_op \<Rightarrow> string \<Rightarrow> world \<Rightarrow> monitor_turn" where
  "coach_change_mode cpm msg w =
     (case scan_then (scan_open ''change_mode'' msg) (\<lambda>_ s. scan_set 127 mode_char (skip_ws s)) of
        Matched mode _ \<Rightarrow> change_mode cpm mode w
      | _ \<Rightarrow> board_illegal w)"

text \<open>
  \<^verbatim>\<open>coach_move\<close>: the object, the numbers behind it, and the player which \<^verbatim>\<open>PLAYER_NAME_FORMAT\<close> reads
  in the name of the object.
\<close>

definition scan_object :: "string \<Rightarrow> string \<times> real list" where
  "scan_object msg =
     (case scan_then (scan_open ''move'' msg)
             (\<lambda>_ s. scan_then (scan_lit ''('' (skip_ws s))
               (\<lambda>_ r. scan_set 127 (\<lambda>c. c \<noteq> CHR '')'') (skip_ws r))) of
        Matched obj r \<Rightarrow>
          (''('' @ obj @ '')'',
           case scan_lit '')'' (skip_ws r) of Matched _ q \<Rightarrow> scan_lfs 5 q | _ \<Rightarrow> [])
      | _ \<Rightarrow> ([], []))"

definition scan_player_name :: "string \<Rightarrow> (string \<times> int) option" where
  "scan_player_name obj =
     (case scan_then (scan_lit ''(player'' obj)
             (\<lambda>_ s. scan_then (scan_word (length obj) s)
               (\<lambda>name r. scan_then (scan_d r) (\<lambda>unum q. Matched (name, unum) q))) of
        Matched nu _ \<Rightarrow> Some nu
      | _ \<Rightarrow> None)"

definition nth_or_0 :: "real list \<Rightarrow> nat \<Rightarrow> real" where
  "nth_or_0 xs i = (if i < length xs then xs ! i else 0)"

definition coach_move :: "sparam \<Rightarrow> mode_op \<Rightarrow> string \<Rightarrow> world \<Rightarrow> monitor_turn" where
  "coach_move sp cpm msg w =
     (case scan_object msg of
        (obj, vs) \<Rightarrow>
          parse_move sp cpm (if obj = [] then 0 else 1 + int (length vs)) obj (scan_player_name obj)
            (PVector (nth_or_0 vs 0) (nth_or_0 vs 1)) (nth_or_0 vs 2)
            (PVector (nth_or_0 vs 3) (nth_or_0 vs 4)) w)"

definition coach_recover :: "sparam \<Rightarrow> world \<Rightarrow> monitor_turn" where
  "coach_recover sp w = board ''(ok recover)'' (recoveryPlayers sp w)"

text \<open>The substitution, with the player's number looked up among the players who have joined.\<close>

definition scan_change_type :: "string \<Rightarrow> (string \<times> int \<times> int) scan" where
  "scan_change_type msg =
     scan_then (scan_open ''change_player_type'' msg)
       (\<lambda>_ s. scan_then (scan_word 15 s)
         (\<lambda>name r. scan_then (scan_d r)
           (\<lambda>unum q. scan_then (scan_d q) (\<lambda>ty t. Matched (name, unum, ty) t))))"

definition coach_change_player_type :: "sparam \<Rightarrow> pparam \<Rightarrow> string \<Rightarrow> world \<Rightarrow> monitor_turn" where
  "coach_change_player_type sp pp msg w =
     (case scan_change_type msg of
        Matched (name, unum, ty) _ \<Rightarrow>
          if team_side name w = NEUTRAL then board ''(warning no_team_found)'' w
          else if ty < 0 \<or> ty \<ge> playerTypes pp then board ''(error out_of_range_player_type)'' w
          else (case find_player (team_side name w) unum w of
                  None \<Rightarrow> board ''(warning no_such_player)'' w
                | Some i \<Rightarrow>
                    board (''(ok change_player_type '' @ name @ '' '' @ show_int unum @ '' ''
                           @ show_int ty @ '')'') (stadium_substitute sp i ty w))
      | _ \<Rightarrow> board_illegal w)"

text \<open>\<^verbatim>\<open>Monitor::parseCommand\<close>.\<close>

definition Monitor_parseCommand ::
  "sparam \<Rightarrow> pparam \<Rightarrow> mode_op \<Rightarrow> bool \<Rightarrow> string \<Rightarrow> world \<Rightarrow> monitor_turn" where
  "Monitor_parseCommand sp pp cpm libz msg w =
     (if msg = ''(dispbye)'' then Some (w, [Close])
      else if msg = ''(dispstart)'' then quietly (kickOff sp pp cpm w)
      else if starts_with ''(dispplayer'' msg then dispplayer sp cpm msg w
      else if starts_with ''(dispdiscard'' msg then dispdiscard msg w
      else if starts_with ''(compression'' msg then monitor_compression libz msg w
      else if starts_with ''(dispfoul'' msg then dispfoul cpm msg w
      else if starts_with ''(dispcard'' msg then dispcard msg w
      else if coachMode sp \<or> coachWithRefereeMode sp then
        (if starts_with ''(start)'' msg
         then map_option (\<lambda>w1. (w1, [Reply ''(ok start)''])) (kickOff sp pp cpm w)
         else if starts_with ''(change_mode'' msg then coach_change_mode cpm msg w
         else if starts_with ''(move'' msg then coach_move sp cpm msg w
         else if starts_with ''(recover'' msg then coach_recover sp w
         else if msg = ''change_player_type'' then coach_change_player_type sp pp msg w
         else if starts_with ''(check_ball'' msg then Some (w, check_ball sp w)
         else board_illegal w)
      else board_illegal w)"

section \<open>A command which is never reached\<close>

text \<open>
  The test for \<^verbatim>\<open>change_player_type\<close> compares the whole message with a text without parentheses,
  which the scan then refuses: no message makes a monitor substitute a player.
\<close>

theorem monitor_never_substitutes:
  "coach_change_player_type sp pp ''change_player_type'' w = board_illegal w"
  by (simp add: coach_change_player_type_def scan_change_type_def scan_open_def skip_ws_def isspace_def)

end
