(* ===== verification/Standings.thy ===== *)
theory Standings
  imports Match Monitors
begin

text \<open>
  The server as a machine: what a connected player, a coach, the trainer, a monitor or the clock may
  do to the
  stadium, as the steps of a transition relation, and what no sequence of steps takes back.
\<close>

section \<open>The standing of a match\<close>

text \<open>
  The teams, who wears which number, the halves played and whether the server is running.  A
  later standing never has fewer goals, kicks of the shoot-out, players or substitutions, and a
  team keeps its name once it has one.
\<close>

definition team_le :: "team \<Rightarrow> team \<Rightarrow> bool" where
  "team_le t t' \<longleftrightarrow>
     T_point t \<le> T_point t' \<and> T_pen_point t \<le> T_pen_point t' \<and> T_pen_taken t \<le> T_pen_taken t'
     \<and> T_size t \<le> T_size t' \<and> T_subs_count t \<le> T_subs_count t' \<and> T_side t' = T_side t
     \<and> (T_pen_won t \<longrightarrow> T_pen_won t') \<and> (T_name t \<noteq> [] \<longrightarrow> T_name t' = T_name t)"

definition ident :: "player \<Rightarrow> side \<times> int" where
  "ident p = (M_side p, M_unum p)"

definition standing :: "world \<Rightarrow> team \<times> team \<times> (side \<times> int) list \<times> int \<times> bool" where
  "standing w =
     (M_team_l w, M_team_r w, map ident (M_players w), TimeRef_half_time_count w, M_alive w)"

definition forward :: "world \<Rightarrow> world \<Rightarrow> bool" where
  "forward w w' \<longleftrightarrow>
     team_le (M_team_l w) (M_team_l w') \<and> team_le (M_team_r w) (M_team_r w')
     \<and> map ident (M_players w') = map ident (M_players w)
     \<and> TimeRef_half_time_count w \<le> TimeRef_half_time_count w'
     \<and> (M_alive w' \<longrightarrow> M_alive w)"

lemma team_le_refl [simp]: "team_le t t"
  by (simp add: team_le_def)

lemma team_le_trans: "team_le t u \<Longrightarrow> team_le u v \<Longrightarrow> team_le t v"
  by (auto simp: team_le_def)

lemma forward_refl [simp]: "forward w w"
  by (simp add: forward_def)

lemma forward_trans: "forward u v \<Longrightarrow> forward v w \<Longrightarrow> forward u w"
  by (simp add: forward_def) (blast intro: team_le_trans)

lemma forward_standing: "standing w' = standing w \<Longrightarrow> forward u w \<Longrightarrow> forward u w'"
  by (simp add: forward_def standing_def)

lemma standing_core: "core w' = core w \<Longrightarrow> standing w' = standing w"
proof -
  assume c: "core w' = core w"
  have id: "map ident ps = map (\<lambda>c. (fst c, fst (snd c))) (map player_core ps)" for ps
    by (simp add: ident_def player_core_def)
  have "map ident (M_players w') = map ident (M_players w)"
    unfolding id core_eqD(5)[OF c] by (rule refl)
  then show ?thesis using core_eqD[OF c] by (simp add: standing_def)
qed

lemma forward_core: "core w' = core w \<Longrightarrow> forward u w \<Longrightarrow> forward u w'"
  using forward_standing standing_core by blast

lemma forward_core_iff: "core w' = core w \<Longrightarrow> forward u w' = forward u w"
  using forward_core[of w' w u] forward_core[of w w' u] by auto

section \<open>Results of steps\<close>

text \<open>Every result of a step which returns satisfies \<open>P\<close>: the rules follow the code.\<close>

definition post :: "('a \<Rightarrow> bool) \<Rightarrow> 'a option \<Rightarrow> bool" where
  "post P m \<longleftrightarrow> (\<forall>x. m = Some x \<longrightarrow> P x)"

named_theorems post_intros \<open>results of the operations, by the form of the program\<close>

lemma post_Some [post_intros]: "P x \<Longrightarrow> post P (Some x)"
  by (simp add: post_def)

lemma post_bind [post_intros]:
  "post (forward w) m \<Longrightarrow> (\<And>w1. forward w w1 \<Longrightarrow> post (forward w) (f w1))
     \<Longrightarrow> post (forward w) (Option.bind m f)"
  by (auto simp: post_def)

lemma post_bind_pair [post_intros]:
  "post (\<lambda>r. forward w (snd r)) m \<Longrightarrow> (\<And>x w1. forward w w1 \<Longrightarrow> post (forward w) (f (x, w1)))
     \<Longrightarrow> post (forward w) (Option.bind m f)"
  by (auto simp: post_def)

lemma post_if [post_intros]:
  "(b \<Longrightarrow> post P m) \<Longrightarrow> (\<not> b \<Longrightarrow> post P n) \<Longrightarrow> post P (if b then m else n)"
  by simp

lemma post_option [post_intros]:
  "(x = None \<Longrightarrow> post P m) \<Longrightarrow> (\<And>y. x = Some y \<Longrightarrow> post P (f y))
     \<Longrightarrow> post P (case x of None \<Rightarrow> m | Some y \<Rightarrow> f y)"
  by (cases x) simp_all

lemma post_let_world:
  "forward u w \<Longrightarrow> (\<And>v. forward u v \<Longrightarrow> post P (f v)) \<Longrightarrow> post P (Let (w :: world) f)"
  by (simp add: Let_def)

lemma post_let: "(\<And>y. post P (f y)) \<Longrightarrow> post P (Let x f)"
  by (simp add: Let_def)

lemma post_let_draw:
  "forward u w \<Longrightarrow> (\<And>x v. forward u v \<Longrightarrow> post P (f x v))
     \<Longrightarrow> post P (let (x, v) = draw g w in f x v)"
  by (cases "draw g w") (use forward_core[of "snd (draw g w)" w u] core_draw[of g w] in auto)

lemma post_pair: "(\<And>x y. post P (f x y)) \<Longrightarrow> post P (case p of (x, y) \<Rightarrow> f x y)"
  by (cases p) simp

lemma forward_if: "forward u v \<Longrightarrow> forward u w \<Longrightarrow> forward u (if b then v else w)"
  by simp

lemma post_core:
  "(\<And>w'. m = Some w' \<Longrightarrow> core w' = core w) \<Longrightarrow> forward u w \<Longrightarrow> post (forward u) m"
  unfolding post_def using forward_core by blast

lemma post_trans: "post (forward w) m \<Longrightarrow> forward u w \<Longrightarrow> post (forward u) m"
  unfolding post_def using forward_trans by blast

lemma postD: "post P m \<Longrightarrow> m = Some x \<Longrightarrow> P x"
  by (simp add: post_def)

section \<open>Operations which leave the standing\<close>

lemma forward_updates [simp]:
  "forward u (w\<lparr>M_time := t\<rparr>) = forward u w"
  "forward u (w\<lparr>M_stoppage_time := t\<rparr>) = forward u w"
  "forward u (w\<lparr>M_ball_catcher := c\<rparr>) = forward u w"
  "forward u (w\<lparr>M_kick_off_wait := n1\<rparr>) = forward u w"
  "forward u (w\<lparr>M_connect_wait := n2\<rparr>) = forward u w"
  "forward u (w\<lparr>M_game_over_wait := n3\<rparr>) = forward u w"
  "forward u (w\<lparr>w_rng := g\<rparr>) = forward u w"
  "forward u (w\<lparr>M_remote_players := rs\<rparr>) = forward u w"
  "forward u (M_ball_update fb w) = forward u w"
  "forward u (M_weather_update fw w) = forward u w"
  "forward u (R_stuck_update f1 w) = forward u w"
  "forward u (R_touch_update f2 w) = forward u w"
  "forward u (R_foul_update f3 w) = forward u w"
  "forward u (R_keepaway_update f4 w) = forward u w"
  "forward u (R_catch_update f5 w) = forward u w"
  "forward u (R_penalty_update f6 w) = forward u w"
  "forward u (R_offside_update f7 w) = forward u w"
  by (simp_all add: forward_def)

lemma forward_players:
  "map ident ps = map ident (M_players w) \<Longrightarrow> forward u (w\<lparr>M_players := ps\<rparr>) = forward u w"
  by (simp add: forward_def)

lemma forward_upd_player:
  "(\<And>p. ident (f p) = ident p) \<Longrightarrow> forward u (upd_player i f w) = forward u w"
  using map_list_update_same_field[of ident f "M_players w" i]
  by (simp add: upd_player_def forward_players)

lemma forward_put: "ident p = ident (pl w i) \<Longrightarrow> forward u (upd_player i (\<lambda>_. p) w) = forward u w"
  by (simp add: upd_player_def forward_players map_update)
    (metis forward_players list_update_id map_update)

lemma forward_map_players:
  "(\<And>p. ident (f p) = ident p) \<Longrightarrow> forward u (map_players f w) = forward u w"
  by (simp add: map_players_def forward_players)

lemma forward_upd_team:
  "(\<And>t. team_le t (f t)) \<Longrightarrow> forward u w \<Longrightarrow> forward u (upd_team s f w)"
  by (cases s) (auto simp: forward_def upd_team_def intro: team_le_trans)

lemma forward_ops [simp]:
  "forward u (upd_ball fb w) = forward u w"
  "forward u (sendRefereeAudio m w) = forward u w"
  "forward u (clearBallCatcher w) = forward u w"
  "forward u (placeBall s q w) = forward u w"
  "forward u (moveBall q v w) = forward u w"
  "forward u (placePlayersInField w) = forward u w"
  "forward u (recoveryPlayers sp w) = forward u w"
  "forward u (setPlayerState s n st w) = forward u w"
  "forward u (punishFoulPlay s n w) = forward u w"
  "forward u (placePlayersInTheirField sp w) = forward u w"
  "forward u (resetField sp w) = forward u w"
  "forward u (IllegalDefenseRef_kickTaken sp k w) = forward u w"
  "forward u (TouchRef_kickTaken sp k a w) = forward u w"
  "forward u (TouchRef_tackleTaken sp k a w) = forward u w"
  "forward u (announceGoal t w) = forward u w"
  "forward u (snd (draw f w)) = forward u w"
  by (auto intro!: forward_core_iff simp: core_draw)

section \<open>The referees\<close>

lemma forward_card:
  "forward u (redCard s n w) = forward u w" "forward u (yellowCard s n w) = forward u w"
proof -
  have dis: "forward u (disable i w) = forward u w" for i w
    by (simp add: disable_def forward_upd_player ident_def disable_player_def)
  have one: "forward u (redCard_at i w) = forward u w" for i w
    by (simp add: redCard_at_def discard_def Let_def forward_upd_player ident_def dis)
  then have "forward u (yellowCard_at i w) = forward u w" for i w
    by (simp add: yellowCard_at_def forward_upd_player ident_def)
  with one show "forward u (redCard s n w) = forward u w" "forward u (yellowCard s n w) = forward u w"
    by (simp_all add: redCard_def yellowCard_def Let_def split: option.split)
qed

lemma forward_checkFoul: "forward u (snd (checkFoul sp t foul w)) = forward u w"
  using checkFoul_frame[of sp t foul w] forward_core_iff by blast

lemma forward_score: "forward u w \<Longrightarrow> forward u (score s w)"
  by (auto simp: score_def Let_def incPoint_def team_le_def intro!: forward_upd_team)

lemma forward_penalty_teams:
  "forward u w \<Longrightarrow> forward u (penaltyScore s b w)" "forward u w \<Longrightarrow> forward u (penaltyWinner s w)"
  by (auto simp: penaltyScore_def penaltyWinner_def Let_def setPenaltyScore_def setPenaltyMiss_def
      setPenaltyWinner_def team_le_def intro!: forward_upd_team)

lemma forward_place_if: "forward u (place_if sp ok s w) = forward u w"
proof -
  have enum: "map ident (map (\<lambda>(i, p). f i p) (enumerate n ps)) = map ident ps"
    if "\<And>i p. ident (f i p) = ident p" for f n ps
    using that by (induction ps arbitrary: n) auto
  have mv: "ident (moveTo q p) = ident p" for q p by (simp add: ident_def moveTo_def)
  have "forward u (placeTakerTeamPlayers w) = forward u w"
    unfolding placeTakerTeamPlayers_def Let_def
    by (rule forward_players, rule enum) (simp add: mv split: option.split)
  moreover have "forward u (placeOtherTeamPlayers sp w) = forward u w"
    unfolding placeOtherTeamPlayers_def Let_def by (rule forward_map_players) (simp add: mv)
  ultimately show ?thesis by (simp add: place_if_def penalty_place_all_players_def)
qed

lemmas forward_simps = forward_upd_player forward_map_players forward_card forward_checkFoul
  forward_place_if forward_score forward_penalty_teams

context mode_ops
begin

lemma post_cpm [post_intros]: "forward u w \<Longrightarrow> post (forward u) (cpm pm w)"
  by (rule post_core[OF cpm_core])

lemma post_award [post_intros]:
  assumes "forward u w"
  shows "post (forward u) (placeBall_pm cpm pm s q w)" "post (forward u) (awardDropBall cpm q w)"
    "post (forward u) (out_of_play sp cpm w)" "post (forward u) (after_goal sp cpm pm s w)"
  using assms placeBall_pm_core awardDropBall_core out_of_play_core after_goal_core
  by (blast intro: post_core)+

lemma post_TimeRef [post_intros]: "forward u w \<Longrightarrow> post (forward u) (TimeRef_analyse sp cpm w)"
proof -
  have later: "forward u (w\<lparr>TimeRef_half_time_count := TimeRef_half_time_count w + 1\<rparr>)"
    if "forward u w" for u w
    using that by (simp add: forward_def)
  have half: "post (forward u) (callHalfTime sp cpm s c w)" if "forward u w" for u s c w
    unfolding callHalfTime_def Let_def
    using that by (auto intro!: post_intros simp: forward_map_players ident_def recoverStaminaCapacity_def)
  have next_h: "post (forward u) (next_half sp cpm m w)" if "forward u w" for u m w
    unfolding next_half_def Let_def using that by (auto intro!: post_intros half simp: later)
  show "forward u w \<Longrightarrow> post (forward u) (TimeRef_analyse sp cpm w)"
    unfolding TimeRef_analyse_def Let_def time_up_def by (auto intro!: post_intros next_h)
qed

lemma post_BallStuckRef [post_intros]:
  "forward u w \<Longrightarrow> post (forward u) (BallStuckRef_analyse sp cpm w)"
  unfolding BallStuckRef_analyse_def Let_def by (auto intro!: post_intros)

lemma post_TouchRef [post_intros]: "forward u w \<Longrightarrow> post (forward u) (TouchRef_analyse sp cpm w)"
proof -
  have against: "post (forward u) (goal_against sp cpm s w)" if "forward u w" for u s w
    unfolding goal_against_def Let_def using that by (auto intro!: post_intros simp: forward_score)
  have goal: "post (\<lambda>r. forward u (snd r)) (checkGoal sp cpm w)" if "forward u w" for u w
    unfolding checkGoal_def
    using that postD[OF against[OF that]] by (auto simp: post_def split: if_splits)
  have "post (forward u) (TouchRef_analyseImpl sp cpm w)" if "forward u w" for u w
    unfolding TouchRef_analyseImpl_def
    using that by (auto intro!: post_intros goal)
  then show "forward u w \<Longrightarrow> post (forward u) (TouchRef_analyse sp cpm w)"
    unfolding TouchRef_analyse_def Let_def by (auto intro!: post_intros)
qed

lemma post_KeepawayRef [post_intros]:
  "forward u w \<Longrightarrow> post (forward u) (KeepawayRef_analyse sp cpm e w)"
  unfolding KeepawayRef_analyse_def Let_def logEpisode_def split_beta
  by (auto intro!: post_intros)

lemma post_penalty_score [post_intros]:
  assumes "forward u w"
  shows "post (forward u) (penalty_check_score sp cpm w)" "post (forward u) (penalty_score sp cpm s w)"
    "post (forward u) (penalty_miss sp cpm s w)"
proof -
  have check: "post (forward u) (penalty_check_score sp cpm w)" if "forward u w" for u w
    unfolding penalty_check_score_def Let_def split_beta set_timeover_def
    using that by (auto intro!: post_intros forward_penalty_teams)
  show "post (forward u) (penalty_check_score sp cpm w)" using check[OF assms] .
  show "post (forward u) (penalty_score sp cpm s w)" "post (forward u) (penalty_miss sp cpm s w)"
    unfolding penalty_score_def penalty_miss_def Let_def count_kick_def
    using assms by (auto intro!: post_intros check forward_penalty_teams)
qed

lemma post_penalty_foul [post_intros]: "forward u w \<Longrightarrow> post (forward u) (penalty_foul sp cpm s w)"
  unfolding penalty_foul_def Let_def by (auto intro!: post_intros)

lemma post_penalty_init [post_intros]: "forward u w \<Longrightarrow> post (forward u) (penalty_init sp cpm w)"
  unfolding penalty_init_def Let_def by (auto intro!: post_intros)

lemma post_foul_by_check [post_intros]:
  "forward u w \<Longrightarrow> post (forward u) (foul_by_check sp cpm l r w)"
  unfolding foul_by_check_def Let_def by (auto intro!: post_intros)

lemma post_handleTimeout [post_intros]:
  "forward u w \<Longrightarrow> post (forward u) (handleTimeout sp cpm l r w)"
  unfolding handleTimeout_def Let_def split_beta
  by (auto intro!: post_intros simp: forward_place_if)

lemma post_handleTimer [post_intros]:
  "forward u w \<Longrightarrow> post (forward u) (handleTimer sp cpm l r w)"
  unfolding handleTimer_def Let_def freeze_ball_def
  by (auto intro!: post_intros simp: forward_place_if)

lemma post_PenaltyRef [post_intros]: "forward u w \<Longrightarrow> post (forward u) (PenaltyRef_analyse sp cpm w)"
proof -
  have start: "post (forward u) (startPenaltyShootout sp cpm w)" if "forward u w" for u w
    unfolding startPenaltyShootout_def Let_def split_beta
    using that by (auto intro!: post_intros simp: forward_map_players ident_def moveTo_def)
  have impl: "post (forward u) (PenaltyRef_analyseImpl sp cpm w)" if "forward u w" for u w
    unfolding PenaltyRef_analyseImpl_def Let_def split_beta
    using that by (auto intro!: post_intros simp: forward_place_if)
  show "forward u w \<Longrightarrow> post (forward u) (PenaltyRef_analyse sp cpm w)"
    unfolding PenaltyRef_analyse_def by (auto intro!: post_intros start impl)
qed

lemma post_PenaltyRef_events [post_intros]:
  assumes "forward u w"
  shows "post (forward u) (PenaltyRef_ballCaught sp cpm c w)"
    "post (forward u) (PenaltyRef_ballPunched sp cpm c w)"
    "post (forward u) (PenaltyRef_kickTaken sp cpm c w)"
    "post (forward u) (PenaltyRef_tackleTaken sp cpm c foul w)"
proof -
  show caught: "post (forward u) (PenaltyRef_ballCaught sp cpm c w)"
    unfolding PenaltyRef_ballCaught_def Let_def freeze_ball_def
    using assms by (auto intro!: post_intros)
  then show "post (forward u) (PenaltyRef_ballPunched sp cpm c w)"
    by (simp add: PenaltyRef_ballPunched_def)
  have judge: "post (forward u) (judge_kick sp cpm k w)" if "forward u w" for u k w
    unfolding judge_kick_def Let_def using that by (auto intro!: post_intros)
  have kick: "post (forward u) (PenaltyRef_kickTaken sp cpm k w)" if "forward u w" for u k w
    unfolding PenaltyRef_kickTaken_def Let_def freeze_ball_def
    using that by (auto intro!: post_intros judge)
  show "post (forward u) (PenaltyRef_kickTaken sp cpm c w)" using kick[OF assms] .
  show "post (forward u) (PenaltyRef_tackleTaken sp cpm c foul w)"
    unfolding PenaltyRef_tackleTaken_def Let_def split_beta
    using assms by (auto intro!: post_intros kick simp: forward_checkFoul)
qed

lemma post_FoulRef_tackleTaken [post_intros]:
  "forward u w \<Longrightarrow> post (forward u) (FoulRef_tackleTaken sp cpm t foul w)"
proof -
  have call: "post (forward u) (FoulRef_callFoul cpm t w)" if "forward u w" for u w
    unfolding FoulRef_callFoul_def Let_def using that by (auto intro!: post_intros)
  show "forward u w \<Longrightarrow> post (forward u) (FoulRef_tackleTaken sp cpm t foul w)"
    unfolding FoulRef_tackleTaken_def callYellowCard_def callRedCard_def Let_def split_beta
    by (auto intro!: post_intros call simp: forward_checkFoul forward_card)
qed

end

section \<open>Events and commands\<close>

context mode_ops
begin

lemma post_core_events [post_intros]:
  assumes "forward u w"
  shows "post (forward u) (OffsideRef_kickTaken sp cpm k a w)"
    "post (forward u) (OffsideRef_tackleTaken sp cpm k a foul w)"
    "post (forward u) (OffsideRef_failedKickTaken sp cpm k w)"
    "post (forward u) (OffsideRef_failedTackleTaken sp cpm k foul w)"
    "post (forward u) (FreeKickRef_kickTaken sp cpm k w)"
    "post (forward u) (FreeKickRef_tackleTaken sp cpm k w)"
    "post (forward u) (CatchRef_ballCaught sp cpm k w)"
    "post (forward u) (CatchRef_ballPunched sp cpm k w)"
    "post (forward u) (ballTouched_all sp cpm k w)"
    "post (forward u) (collisions sp cpm w)"
  unfolding OffsideRef_kickTaken_def OffsideRef_tackleTaken_def OffsideRef_failedKickTaken_def
    OffsideRef_failedTackleTaken_def FreeKickRef_tackleTaken_def
  by (rule post_core[OF _ assms];
      erule setOffsideMark_core checkIntentionalAction_core FreeKickRef_kickTaken_core
        CatchRef_ballCaught_core CatchRef_ballPunched_core ballTouched_all_core collisions_core)+

lemma forward_touch_events:
  "forward u (CatchRef_kickTaken k w) = forward u w" "forward u (CatchRef_tackleTaken k w) = forward u w"
  "forward u (IllegalDefenseRef_tackleTaken sp k w) = forward u w"
  by (auto intro!: forward_core_iff simp: IllegalDefenseRef_tackleTaken_def)

lemma post_events [post_intros]:
  assumes "forward u w"
  shows "post (forward u) (kickTaken sp cpm k a w)" "post (forward u) (tackleTaken sp cpm k a foul w)"
    "post (forward u) (failedKickTaken sp cpm k w)"
    "post (forward u) (failedTackleTaken sp cpm k foul w)"
    "post (forward u) (ballCaught sp cpm k w)" "post (forward u) (ballPunched sp cpm k a w)"
proof -
  show "post (forward u) (kickTaken sp cpm k a w)" "post (forward u) (tackleTaken sp cpm k a foul w)"
    unfolding kickTaken_def tackleTaken_def Let_def
    using assms by (auto intro!: post_intros simp: forward_touch_events)
  show "post (forward u) (failedKickTaken sp cpm k w)"
    "post (forward u) (failedTackleTaken sp cpm k foul w)"
    unfolding failedKickTaken_def failedTackleTaken_def using assms by (auto intro!: post_intros)
  show "post (forward u) (ballCaught sp cpm k w)" "post (forward u) (ballPunched sp cpm k a w)"
    unfolding ballCaught_def ballPunched_def Let_def using assms by (auto intro!: post_intros)
qed

lemma post_kick [post_intros]: "forward u w \<Longrightarrow> post (forward u) (kick sp cpm k pow dir w)"
  unfolding kick_def Let_def split_beta
  by (auto intro!: post_intros simp: forward_upd_player ident_def addState_def)

lemma post_doLongKick [post_intros]:
  "forward u w \<Longrightarrow> post (forward u) (doLongKick sp cpm k w)"
  unfolding doLongKick_def Let_def split_beta
  by (auto intro!: post_intros simp: forward_upd_player ident_def addState_def)

lemma post_tackle [post_intros]:
  assumes "forward u w"
  shows "post (forward u) (tackle sp cpm t arg foul w)"
proof -
  have upd: "forward u (upd_player t (addState st) v) = forward u v"
    "forward u (upd_player t (\<lambda>p. p\<lparr>M_tackle_cycles := 0\<rparr>) v) = forward u v"
    "forward u (upd_player t
       (\<lambda>p. p\<lparr>M_left_leg := leg_tackle (M_left_leg p), M_right_leg := leg_tackle (M_right_leg p),
              M_command_done := True, M_tackle_cycles := tackleCycles sp,
              M_tackle_count := M_tackle_count p + 1\<rparr>) v) = forward u v" for st v
    by (simp_all add: forward_upd_player ident_def addState_def)
  show ?thesis
    unfolding tackle_def
    by (insert assms)
      (assumption | rule post_if post_Some post_let_world[where u = u]
         post_let_draw[where u = u] post_let post_pair post_bind
         post_events forward_if | simp only: upd)+
qed

lemma post_goalieCatch [post_intros]: "forward u w \<Longrightarrow> post (forward u) (goalieCatch sp cpm c dir w)"
  unfolding goalieCatch_def Let_def split_beta
  by (auto intro!: post_intros simp: forward_upd_player ident_def addState_def)

lemma post_move [post_intros]: "forward u w \<Longrightarrow> post (forward u) (move sp cpm i x y w)"
  unfolding move_def move_to_def after_move_def Let_def split_beta
  by (auto intro!: post_intros simp: forward_upd_player ident_def)

end

section \<open>A cycle\<close>

lemma post_foldM:
  assumes "\<And>x v. forward u v \<Longrightarrow> post (forward u) (f x v)" and "forward u w"
  shows "post (forward u) (foldM f xs w)"
  using assms(2)
proof (induction xs arbitrary: w)
  case (Cons x xs)
  then show ?case using assms(1)[OF Cons.prems] by (auto simp: post_def)
qed (simp add: post_def)

lemma leave_post_ident:
  assumes "leave_post sp cw (p :: player) g gp = Some r" and "\<And>q. ident (cw q) = ident q"
  shows "ident (fst r) = ident p"
  using assms
proof (induction sp cw p g gp r rule: leave_post.raw_induct[rotated, consumes 1])
  case (1 lp sp cw b g gp y)
  show ?case
  proof (cases "pv_r (M_pos b - ca_center gp) < ca_radius gp")
    case True
    obtain q c g1 where
      "lp sp cw (cw (b\<lparr>M_pos := q, M_vel := leave_vel (M_vel b) c\<rparr>)) g1 (nearestPost sp q (M_size b))
        = Some y"
      using 1(2) True by (auto simp: Let_def)
    from 1(1)[OF this 1(3)] 1(3) show ?thesis by (simp add: ident_def)
  qed (use 1(2) in auto)
qed

lemma bounce_ident:
  assumes "bounce sp cw p1 p2 np (p :: player) = Some r" and "\<And>q. ident (cw q) = ident q"
  shows "ident (fst r) = ident p"
  using assms
proof (induction sp cw p1 p2 np p r rule: bounce.raw_induct[rotated, consumes 1])
  case (1 bo sp cw p1 p2 np b y)
  show ?case
  proof (cases "M_pos b = np \<or> post_hit p1 p2 (M_pos b) np = None")
    case True
    then show ?thesis using 1(2) by (auto split: option.splits if_splits)
  next
    case False
    then obtain ip sec where hit: "post_hit p1 p2 (M_pos b) np = Some (ip, sec)" by fastforce
    obtain q1 q2 np' p a where
      "bo sp cw q1 q2 np' (cw (b\<lparr>M_pos := p, M_vel := fromPolar (pv_r (M_vel b)) a\<rparr>)) = Some y"
      using 1(2) False hit by (simp add: Let_def split: if_splits)
    from 1(1)[OF this 1(3)] 1(3) show ?thesis by (simp add: ident_def)
  qed
qed

lemma player_inc_ident:
  assumes "player_inc sp we p g = Some (p', g')"
  shows "ident p' = ident p"
proof -
  have hit: "ident (collidedWithPost q) = ident q" for q
    by (simp add: ident_def collidedWithPost_def addState_def)
  have acc: "ident (updateAngle (inc_accel a m q)) = ident q" for a m q
    by (simp add: ident_def updateAngle_def inc_accel_def Let_def)
  have vel: "ident (q\<lparr>M_vel := v\<rparr>) = ident q" for q :: player and v by (simp add: ident_def)
  have bind: "post P m \<Longrightarrow> (\<And>x. P x \<Longrightarrow> post Q (f x)) \<Longrightarrow> post Q (Option.bind m f)" for P Q m f
    by (auto simp: post_def)
  have leave: "post (\<lambda>r. ident (fst r) = ident q) (leave_post sp collidedWithPost q g gp)" for q g gp
    using leave_post_ident[OF _ hit] by (auto simp: post_def)
  have bounced: "post (\<lambda>r. ident (fst r) = ident q) (bounce sp collidedWithPost p1 p2 n q)" for p1 p2 n q
    using bounce_ident[OF _ hit] by (auto simp: post_def)
  have "post (\<lambda>r. ident (fst r) = ident p) (player_inc sp we p g)"
    unfolding player_inc_def inc_obj_def Let_def split_beta
    by (rule bind, rule leave, rule bind, rule bounced) (simp add: post_def vel acc, simp add: ident_def)
  then show ?thesis using assms by (simp add: post_def)
qed

lemma post_inc_one: "forward u w \<Longrightarrow> post (forward u) (inc_one sp x w)"
proof (cases x)
  case None
  assume "forward u w"
  then show ?thesis using None by (auto simp: inc_one_def post_def split: if_splits)
next
  case (Some i)
  assume f: "forward u w"
  have "map ident ((M_players w)[i := p]) = map ident (M_players w)" if "ident p = ident (pl w i)" for p
    using that by (metis list_update_id map_update)
  then show ?thesis
    using Some f player_inc_ident
    by (fastforce simp: inc_one_def post_def upd_player_def forward_players split: if_splits)
qed

lemma forward_step_parts:
  "forward u (turnMovableObjects order w) = forward u w" "forward u (carry_ball sp w) = forward u w"
  "forward u (tick_stoppage w) = forward u w" "forward u (tick_time w) = forward u w"
proof -
  have turn: "forward u (upd_player i turnImpl w) = forward u w" for i w
    by (simp add: forward_upd_player ident_def turnImpl_def)
  show "forward u (turnMovableObjects order w) = forward u w"
    unfolding turnMovableObjects_def
    by (induction order arbitrary: w) (simp_all add: turn split: option.split)
qed (simp_all add: carry_ball_def tick_stoppage_def tick_time_def split: option.split)

lemma forward_apply_commands: "forward u (apply_commands sp i w) = forward u w"
proof -
  let ?r = "applyLegsEffect sp (pl w i) (w_rng w)"
  let ?p = "(resetCommandFlags (fst ?r))\<lparr>M_arm := arm_incAge (M_arm (resetCommandFlags (fst ?r)))\<rparr>"
  have legs: "ident (fst (applyLegsEffect sp p g)) = ident p" for p g
    by (simp add: applyLegsEffect_def applyDashEffect_def Let_def split_beta ident_def push_def)
  have reset: "ident (resetCommandFlags q) = ident q" for q
    by (simp add: resetCommandFlags_def Let_def ident_def)
  have "ident (q\<lparr>M_arm := a\<rparr>) = ident q" for q a by (simp add: ident_def)
  then have "ident ?p = ident (pl w i)" using legs reset by simp
  moreover have "apply_commands sp i w = upd_player i (\<lambda>_. ?p) (w\<lparr>w_rng := snd ?r\<rparr>)"
    by (simp add: apply_commands_def draw_def split_beta Let_def)
  ultimately show ?thesis by (simp add: forward_put)
qed

context mode_ops
begin

lemma post_analyse_core [post_intros]:
  assumes "forward u w"
  shows "post (forward u) (OffsideRef_analyse sp cpm (collisions sp cpm) w)"
    "post (forward u) (FreeKickRef_analyse sp cpm (collisions sp cpm) w)"
    "post (forward u) (CatchRef_analyse sp cpm (collisions sp cpm) w)"
    "post (forward u) (IllegalDefenseRef_analyse sp cpm (collisions sp cpm) w)"
  by (rule post_core[OF _ assms];
      erule referee_ops.OffsideRef_analyse_core[OF collisions_ops]
        referee_ops.FreeKickRef_analyse_core[OF collisions_ops]
        referee_ops.CatchRef_analyse_core[OF collisions_ops]
        referee_ops.IllegalDefenseRef_analyse_core[OF collisions_ops])+

lemma post_FoulRef_analyse [post_intros]:
  assumes "forward u w"
  shows "post (forward u) (FoulRef_analyse sp cpm (collisions sp cpm) w)"
proof -
  have "core w' = core w" if "FoulRef_analyse sp cpm (collisions sp cpm) w = Some w'" for w'
    using that
    by (auto simp: FoulRef_analyse_def Let_def split: if_splits
        dest!: referee_ops.wait_restart_core[OF collisions_ops])
  then show ?thesis by (rule post_core[OF _ assms])
qed

lemma post_step [post_intros]: "forward u w \<Longrightarrow> post (forward u) (step sp cpm e order w)"
proof -
  have all: "post (forward u) (analyse_all sp cpm e w)" if "forward u w" for u w
    unfolding analyse_all_def using that by (auto intro!: post_intros)
  have inc: "post (forward u) (incMovableObjects sp cpm order w)" if "forward u w" for u w
    unfolding incMovableObjects_def using that
    by (auto intro!: post_intros post_foldM post_inc_one simp: forward_step_parts)
  have objects: "post (forward u) (step_objects sp cpm e order w)" if "forward u w" for u w
    unfolding step_objects_def Let_def using that
    by (auto intro!: post_intros all inc simp: forward_step_parts)
  have commands: "forward u (fold (apply_commands sp) is w) = forward u w" for u w "is"
    by (induction "is" arbitrary: w) (simp_all add: forward_apply_commands)
  have ids: "ident (resetState p) = ident p" "ident (updateCapacity sp (updateStamina sp p)) = ident p"
    for p by (simp_all add: ident_def resetState_def updateCapacity_def updateStamina_def Let_def)
  have "forward v w \<Longrightarrow>
      forward v (map_players resetState (map_players
        (\<lambda>p. if \<not> M_enable p then p else updateCapacity sp (updateStamina sp p)) w))" for v w
    by (simp add: forward_map_players ids)
  then show "forward u w \<Longrightarrow> post (forward u) (step sp cpm e order w)"
    unfolding step_def Let_def by (auto intro!: post_intros objects simp: commands)
qed

end

section \<open>Joining, substitutions and coaches\<close>

lemma forward_disable: "forward u (disable i w) = forward u w"
  by (simp add: disable_def forward_upd_player ident_def disable_player_def)

lemma ident_roster_ops:
  "ident (init_player sp a b v g p) = ident p" "ident (initObservationMode sp p) = ident p"
  "ident (setEnable p) = ident p" "ident (p\<lparr>M_connected := c\<rparr>) = ident p"
  "ident (changeToGoalie p) = ident p" "ident (substitute sp kf ty n p) = ident p"
  by (simp_all add: ident_def init_player_def setEnable_def initObservationMode_def synch_see_def
      changeToGoalie_def substitute_def recoverAll_def recoverStaminaCapacity_def setPlayerType_def
      Let_def split: option.split)

lemma forward_newPlayer: "forward u w \<Longrightarrow> forward u (snd (newPlayer sp b s v g w))"
  by (auto simp: newPlayer_def Let_def forward_upd_player ident_roster_ops forward_disable team_le_def
      intro!: forward_upd_team)

lemma forward_initPlayer: "forward u w \<Longrightarrow> forward u (snd (initPlayer sp b c n v g w))"
proof -
  assume w: "forward u w"
  have join: "forward u w1" if "join_team n w = Some (s, w1)" for s w1
  proof -
    have "T_name (M_team_l w) = [] \<Longrightarrow> forward w (upd_team LEFT (\<lambda>t. t\<lparr>T_name := n\<rparr>) w)"
      "T_name (M_team_r w) = [] \<Longrightarrow> forward w (upd_team RIGHT (\<lambda>t. t\<lparr>T_name := n\<rparr>) w)"
      by (simp_all add: forward_def upd_team_def team_le_def)
    note named = this[THEN forward_trans[OF w]]
    show ?thesis using that w named by (simp add: join_team_def split: if_split_asm)
  qed
  show ?thesis
  proof (cases "join_team n w")
    case None
    then show ?thesis using w by (simp add: initPlayer_def)
  next
    case (Some sw)
    obtain s w1 where sw: "sw = (s, w1)" by fastforce
    obtain r w2 where new: "newPlayer sp b s v g w1 = (r, w2)" by fastforce
    have "forward u w2" using forward_newPlayer[OF join, of s w1 sp b s v g] Some sw new by simp
    then show ?thesis using w Some sw new
      by (auto simp: initPlayer_def forward_upd_player ident_roster_ops forward_disable
          split: option.split)
  qed
qed

lemma forward_reconnect: "forward u (snd (reconnectPlayer o' c s n k w)) = forward u w"
  by (simp add: reconnectPlayer_def Let_def forward_upd_player ident_roster_ops split: option.split)

lemma forward_remove: "forward u (removeDisconnectedPlayers w) = forward u w"
proof -
  have "forward u (fold disable is w) = forward u w" for "is"
    by (induction "is" arbitrary: w) (simp_all add: forward_disable)
  then show ?thesis by (simp add: removeDisconnectedPlayers_def Let_def)
qed

lemma forward_types: "forward u w \<Longrightarrow> forward u (upd_team s (\<lambda>t. t\<lparr>T_ptype_count := c t, T_ptype_used_count := d t\<rparr>) w)"
  by (auto simp: team_le_def intro!: forward_upd_team)

lemma forward_substitute: "forward u w \<Longrightarrow> forward u (stadium_substitute sp i ty w)"
proof -
  assume w: "forward u w"
  have "forward u (substitute_team sp s i ty w)" for s
    using w
    by (auto simp: substitute_team_def substitute_at_def Let_def forward_upd_player ident_roster_ops
        team_le_def intro!: forward_upd_team split: option.split)
  then show ?thesis using w by (simp add: stadium_substitute_def split: side.split)
qed

lemma forward_assign: "forward u w \<Longrightarrow> forward u (assignPlayerTypes sp pp w)"
proof -
  assume w: "forward u w"
  have one: "forward u (assign_type sp pp s i w)" if "forward u w" for s i w
    using forward_types[OF that]
    by (auto simp: assign_type_def Let_def substitute_at_def forward_upd_player ident_roster_ops that
        split: option.split)
  have "forward u (fold (assign_type sp pp s) is w)" if "forward u w" for s "is" w
    using that by (induction "is" arbitrary: w) (simp_all add: one)
  then have "forward u (assignPlayerTypes_team sp pp s w)" if "forward u w" for s w
    using forward_types[OF that] by (simp add: assignPlayerTypes_team_def Let_def)
  then show ?thesis using w by (simp add: assignPlayerTypes_def Let_def)
qed

lemma forward_changePlayerToGoalie: "forward u (snd (changePlayerToGoalie s i w)) = forward u w"
  by (simp add: changePlayerToGoalie_def forward_upd_player ident_roster_ops)

lemma forward_goalie_impl:
  "change_player_type_goalie_impl s n w = (b, w1, out) \<Longrightarrow> forward u w1 = forward u w"
  by (auto simp: change_player_type_goalie_impl_def forward_changePlayerToGoalie
      split: if_splits option.splits)

lemma forward_online: "forward u w \<Longrightarrow> OnlineCoach_parse_command sp pp cmd w c = Some (w', r) \<Longrightarrow> forward u w'"
  by (cases "(sp, pp, cmd, w, c)" rule: OnlineCoach_parse_command.cases)
    (auto simp: OnlineCoach_change_player_type_def OnlineCoach_change_player_type_goalie_def Let_def
      forward_substitute split: if_splits option.splits prod.splits bool.splits
      dest!: forward_goalie_impl[of _ _ _ _ _ _ u])

context mode_ops
begin

lemma post_kickOff [post_intros]: "forward u w \<Longrightarrow> post (forward u) (kickOff sp pp cpm w)"
  unfolding kickOff_def Let_def by (auto intro!: post_intros simp: forward_assign)

lemma post_checkAutoMode [post_intros]: "forward u w \<Longrightarrow> post (forward u) (checkAutoMode sp pp cpm w)"
proof -
  have kick: "post (forward u) (auto_kick_off sp pp cpm w)" if "forward u w" for u w
    unfolding auto_kick_off_def Let_def using that by (auto intro!: post_intros)
  have over: "forward u (auto_game_over sp w)" if "forward u w" for u w
    using that by (auto simp: auto_game_over_def Let_def forward_def)
  show "forward u w \<Longrightarrow> post (forward u) (checkAutoMode sp pp cpm w)"
    unfolding checkAutoMode_def by (auto intro!: post_intros kick over)
qed

lemma forward_movePlayer:
  assumes "forward u w" and "movePlayer sp cpm s n q a b w = Some (x, v)"
  shows "forward u v"
  using assms
  by (auto simp: movePlayer_def Let_def place4_def ident_def forward_upd_player
      split: if_splits option.splits dest!: collisions_core intro: forward_core)

lemma forward_parse_move:
  assumes "forward u w" and "parse_move sp cpm n ob nm q a vel w = Some (v, out)"
  shows "forward u v"
  using assms forward_movePlayer[OF assms(1)]
  by (auto simp: parse_move_def move_ball_command_def move_player_command_def Let_def
      split: if_splits option.splits)

lemma forward_trainer:
  assumes "forward u w" and "Coach_parse_command sp pp cpm cmd w c = Some (w', r)"
  shows "forward u w'"
  using assms(2,1) forward_parse_move[OF assms(1)] postD[OF post_kickOff[OF assms(1)]] cpm_core
  by (cases "(sp, pp, cpm, cmd, w, c)" rule: Coach_parse_command.cases)
    (auto simp: change_mode_def Coach_change_player_type_def Let_def forward_substitute
      split: if_splits option.splits dest!: cpm_core intro: forward_core)

text \<open>The commands of a monitor.\<close>

lemma post_free_kick [post_intros]:
  "forward u w \<Longrightarrow> post (forward u) (dropBall cpm q w)"
  "forward u w \<Longrightarrow> post (forward u) (stadium_callFoul cpm s q w)"
  unfolding dropBall_def stadium_callFoul_def Let_def by (auto intro!: post_intros)

lemma post_change_mode [post_intros]:
  "forward u w \<Longrightarrow> post (forward u \<circ> fst) (change_mode cpm m w)"
  by (auto simp: change_mode_def post_def Let_def split: option.splits dest!: cpm_core intro: forward_core)

lemma post_quietly [post_intros]: "post P m \<Longrightarrow> post (P \<circ> fst) (quietly m)"
  by (auto simp: quietly_def post_def)

lemma post_board [post_intros]: "P w \<Longrightarrow> post (P \<circ> fst) (board msg w)"
  by (simp add: board_def post_def)

lemma forward_discardPlayer: "forward u (discardPlayer s n w) = forward u w"
  by (simp add: discardPlayer_def discard_def Let_def forward_upd_player ident_def forward_disable
      split: option.split)

lemma post_display [post_intros]:
  assumes w: "forward u w"
  shows "post (forward u \<circ> fst) (dispfoul cpm msg w)"
    and "post (forward u \<circ> fst) (dispplayer sp cpm msg w)"
    and "post (forward u \<circ> fst) (dispdiscard msg w)"
    and "post (forward u \<circ> fst) (dispcard msg w)"
    and "post (forward u \<circ> fst) (monitor_compression z msg w)"
proof -
  have moved: "post (forward u) (map_option snd (movePlayer sp cpm s k q a v w))" for s k q a v
    using forward_movePlayer[OF w] by (auto simp: post_def)
  show "post (forward u \<circ> fst) (dispfoul cpm msg w)"
    unfolding dispfoul_def using w by (auto intro!: post_intros simp: post_def[of _ None] split: list.split option.split)
  show "post (forward u \<circ> fst) (dispplayer sp cpm msg w)"
    unfolding dispplayer_def using w moved by (auto intro!: post_intros simp: post_def[of _ None] split: list.split option.split)
  show "post (forward u \<circ> fst) (dispdiscard msg w)"
    unfolding dispdiscard_def using w
    by (auto intro!: post_intros simp: post_def[of _ None] forward_discardPlayer split: list.split option.split)
  show "post (forward u \<circ> fst) (dispcard msg w)"
    unfolding dispcard_def using w
    by (auto intro!: post_intros simp: post_def[of _ None] forward_card split: scan.split option.split)
  show "post (forward u \<circ> fst) (monitor_compression z msg w)"
    unfolding monitor_compression_def using w by (auto intro!: post_intros split: list.split)
qed

lemma post_coach_commands [post_intros]:
  assumes w: "forward u w"
  shows "post (forward u \<circ> fst) (coach_change_mode cpm msg w)"
    and "post (forward u \<circ> fst) (coach_move sp cpm msg w)"
    and "post (forward u \<circ> fst) (coach_recover sp w)"
    and "post (forward u \<circ> fst) (coach_change_player_type sp pp msg w)"
proof -
  show "post (forward u \<circ> fst) (coach_change_mode cpm msg w)"
    unfolding coach_change_mode_def using w by (auto intro!: post_intros split: scan.split)
  show "post (forward u \<circ> fst) (coach_move sp cpm msg w)"
    unfolding coach_move_def using forward_parse_move[OF w] by (auto simp: post_def split: prod.split)
  show "post (forward u \<circ> fst) (coach_recover sp w)"
    unfolding coach_recover_def using w by (auto intro!: post_intros)
  show "post (forward u \<circ> fst) (coach_change_player_type sp pp msg w)"
    unfolding coach_change_player_type_def using w
    by (auto intro!: post_intros forward_substitute split: scan.split option.split)
qed

lemma forward_monitor:
  assumes "forward u w" and "Monitor_parseCommand sp pp cpm z msg w = Some (w', out)"
  shows "forward u w'"
proof -
  have answered: "post (forward u \<circ> fst) (map_option (\<lambda>v. (v, r)) m)" if "post (forward u) m" for r :: "coach_out list" and m
    using that by (auto simp: post_def)
  have "post (forward u \<circ> fst) (Monitor_parseCommand sp pp cpm z msg w)"
    unfolding Monitor_parseCommand_def
    by (intro post_if post_quietly post_board answered post_display post_coach_commands post_kickOff
        assms(1) post_Some) (simp_all add: assms(1))
  from postD[OF this assms(2)] show ?thesis by simp
qed

end

section \<open>The machine\<close>

text \<open>The commands which change only the player who sends them, but for his turn.\<close>

datatype own_command =
    Dash real real
  | Dash_left_leg real real
  | Dash_right_leg real real
  | Turn_neck real
  | Change_focus real real
  | Change_view_quality view_width view_quality
  | Change_view view_width
  | Pointto bool real real
  | Synch_see
  | Gaussian_see
  | Done

fun own_effect :: "sparam \<Rightarrow> own_command \<Rightarrow> player \<Rightarrow> player" where
  "own_effect sp (Dash pow dir) = dash sp pow dir"
| "own_effect sp (Dash_left_leg pow dir) = dashLeftLeg sp pow dir"
| "own_effect sp (Dash_right_leg pow dir) = dashRightLeg sp pow dir"
| "own_effect sp (Turn_neck m) = turn_neck sp m"
| "own_effect sp (Change_focus ds dir) = change_focus ds dir"
| "own_effect sp (Change_view_quality vw q) = change_view2 sp vw q"
| "own_effect sp (Change_view vw) = change_view sp vw"
| "own_effect sp (Pointto on ds dir) = pointto on ds dir"
| "own_effect sp Synch_see = synch_see sp"
| "own_effect sp Gaussian_see = gaussian_see"
| "own_effect sp Done = done_cmd"

definition turn_event :: "sparam \<Rightarrow> nat \<Rightarrow> real \<Rightarrow> world \<Rightarrow> world" where
  "turn_event sp k m w = (let (p, w1) = draw (turn sp m (pl w k)) w in upd_player k (\<lambda>_. p) w1)"

text \<open>
  One event of the server, with \<open>n\<close> nested changes of the play mode at most: a command of a
  player, a client that comes, goes or is lost, the shuffling of the clients, a command of the trainer, of an online coach or of a monitor,
  a simulation step, or the automatic mode.
\<close>

inductive event :: "sparam \<Rightarrow> pparam \<Rightarrow> nat \<Rightarrow> world \<Rightarrow> world \<Rightarrow> bool" for sp pp n where
  Kick: "kick sp (changePlayMode sp n) k pow dir w = Some w' \<Longrightarrow> event sp pp n w w'"
| Delayed: "doLongKick sp (changePlayMode sp n) k w = Some w' \<Longrightarrow> event sp pp n w w'"
| Tackle: "tackle sp (changePlayMode sp n) k arg foul w = Some w' \<Longrightarrow> event sp pp n w w'"
| Catch: "goalieCatch sp (changePlayMode sp n) k dir w = Some w' \<Longrightarrow> event sp pp n w w'"
| Move: "move sp (changePlayMode sp n) k x y w = Some w' \<Longrightarrow> event sp pp n w w'"
| Turn: "event sp pp n w (turn_event sp k m w)"
| Own: "event sp pp n w (upd_player k (own_effect sp cmd) w)"
| Say: "say addr sp order k msg (w, es) = (w', es') \<Longrightarrow> event sp pp n w w'"
| Attention: "attentionto k on ts nm u (w, e) = (w', e') \<Longrightarrow> event sp pp n w w'"
| Bye: "event sp pp n w (bye k w)"
| Join: "initPlayer sp senders conn name version goalie w = (r, w') \<Longrightarrow> event sp pp n w w'"
| Rejoin: "reconnectPlayer opened conn senders name unum w = (r, w') \<Longrightarrow> event sp pp n w w'"
| Gone: "event sp pp n w (removeDisconnectedPlayers w)"
| Lost: "event sp pp n w (upd_player k (\<lambda>p. p\<lparr>M_connected := False\<rparr>) w)"
| Shuffled: "mset rs = mset (M_remote_players w) \<Longrightarrow> event sp pp n w (w\<lparr>M_remote_players := rs\<rparr>)"
| Trainer: "Coach_parse_command sp pp (changePlayMode sp n) cmd w c = Some (w', c', out)
     \<Longrightarrow> event sp pp n w w'"
| Online: "OnlineCoach_parse_command sp pp ocmd w oc = Some (w', oc', out) \<Longrightarrow> event sp pp n w w'"
| Watch: "Monitor_parseCommand sp pp (changePlayMode sp n) libz msg w = Some (w', mout)
     \<Longrightarrow> event sp pp n w w'"
| Cycle: "step sp (changePlayMode sp n) elapsed order w = Some w' \<Longrightarrow> event sp pp n w w'"
| Auto: "checkAutoMode sp pp (changePlayMode sp n) w = Some w' \<Longrightarrow> event sp pp n w w'"

inductive_cases event_cases: "event sp pp n w w'"

lemma own_effect_ident: "ident (own_effect sp cmd p) = ident p"
  by (cases cmd)
    (simp_all add: ident_def dash_def dashLeftLeg_def dashRightLeg_def turn_neck_def change_focus_def
      change_view2_def change_view_def pointto_def synch_see_def gaussian_see_def done_cmd_def Let_def)

lemma forward_turn_event: "forward u (turn_event sp k m w) = forward u w"
proof -
  have "ident (fst (turn sp m p g)) = ident p" for p g
    by (simp add: turn_def ident_def Let_def split_beta)
  then show ?thesis
    by (simp add: turn_event_def draw_def split_beta Let_def forward_put)
qed

lemma forward_clients:
  "forward w (bye k w)"
  "initPlayer sp senders conn name version goalie w = (r, w') \<Longrightarrow> forward w w'"
  "reconnectPlayer opened conn senders name unum w = (r, w') \<Longrightarrow> forward w w'"
  using forward_initPlayer[OF forward_refl[of w], of sp senders conn name version goalie]
    forward_reconnect[of w opened conn senders name unum w]
  by (simp_all add: bye_def forward_upd_player forward_disable ident_def)

lemma forward_lost: "forward u (upd_player k (\<lambda>p. p\<lparr>M_connected := False\<rparr>) w) = forward u w"
  by (simp add: forward_upd_player ident_def)

lemma forward_listening:
  "say addr sp order k msg (w, es) = (w', es') \<Longrightarrow> forward w w'"
  "attentionto k on ts nm u (w, e) = (w', e') \<Longrightarrow> forward w w'"
  by (auto simp: say_def attentionto_def count_attention_def forward_upd_player ident_def Let_def
      split: if_splits option.splits)

lemmas forward_post = cp.post_kick cp.post_doLongKick cp.post_tackle cp.post_goalieCatch cp.post_move cp.post_step
  cp.post_checkAutoMode

lemma event_forward:
  assumes "event sp pp n w w'"
  shows "forward w w'"
  using assms
  by (cases rule: event_cases)
    (auto dest: forward_post[OF forward_refl, THEN postD] forward_clients(2,3) forward_listening
        cp.forward_trainer[OF forward_refl] cp.forward_monitor[OF forward_refl] forward_online[OF forward_refl]
      simp: forward_turn_event forward_upd_player own_effect_ident forward_clients(1) forward_remove forward_lost)

text \<open>C3: whatever the players, the coaches, the trainer, the monitors and the clock do, in any number and
  order, nothing of the record of a match is taken back: goals, kicks and points of the shoot-out, its
  winner, substitutions and the number of players only grow, no team loses or changes its name,
  no player his side and number, no half is given back, and a server that has ended stays ended.\<close>

theorem match_history:
  assumes "(event sp pp n)\<^sup>*\<^sup>* w w'"
  shows "team_le (M_team_l w) (M_team_l w') \<and> team_le (M_team_r w) (M_team_r w')
     \<and> map ident (M_players w') = map ident (M_players w)
     \<and> TimeRef_half_time_count w \<le> TimeRef_half_time_count w' \<and> (M_alive w' \<longrightarrow> M_alive w)"
proof -
  have "forward w w'"
    using assms by (induction rule: rtranclp_induct) (blast intro: forward_refl forward_trans event_forward)+
  then show ?thesis by (simp add: forward_def)
qed

section \<open>A change of the play mode ends\<close>


end
