(* ===== verification/Vision.thy ===== *)
theory Vision
  imports Audio
begin

text \<open>
  What players see (visualsenderplayer.h, visualsenderplayer.cpp, field.cpp): which objects are in a
  visual message, under which name, and the noisy distances, directions and velocities it carries.
  The texts of the messages are left to the serializers.
\<close>

section \<open>Messages\<close>

text \<open>
  An object of the field, the name it is given (its own, with the number of a player; the name the
  other team is shown; without the number; without the team; or that of its kind, close by) and
  the optional values in the order of the message.
\<close>

datatype line = LINE_L | LINE_R | LINE_T | LINE_B
datatype vobj = Flag nat | Ball | Somebody nat | Line line
datatype vname = FullName | FixedName | FarName | FixedNameFar | NameTooFar | CloseName

record visual =
  V_obj :: vobj
  V_name :: vname
  V_dist :: "real option"
  V_dir :: int
  V_chg :: "(real \<times> real) option"
  V_body_dir :: "int option"
  V_head_dir :: "int option"
  V_point_dir :: "int option"

definition sighting :: "vobj \<Rightarrow> vname \<Rightarrow> real option \<Rightarrow> int \<Rightarrow> visual" where
  "sighting ob nm d dir =
     \<lparr>V_obj = ob, V_name = nm, V_dist = d, V_dir = dir, V_chg = None, V_body_dir = None,
      V_head_dir = None, V_point_dir = None\<rparr>"

text \<open>The classes of protocol versions; a class overrides the operations of the earlier ones.\<close>

datatype protocol = V1 | V4 | V5 | V6 | V7 | V8 | V13 | V18

definition protocol_of :: "real \<Rightarrow> protocol" where
  "protocol_of version =
     (let v = trunc_real version
      in if v < 4 then V1 else if v < 5 then V4 else if v < 6 then V5 else if v < 7 then V6
         else if v < 8 then V7 else if v < 13 then V8 else if v < 18 then V13 else V18)"

fun rad2Deg :: "protocol \<Rightarrow> real \<Rightarrow> int" where
  "rad2Deg V1 a = Rad2IDeg a"
| "rad2Deg V4 a = Rad2IDeg a"
| "rad2Deg V5 a = Rad2IDeg a"
| "rad2Deg V6 a = Rad2IDeg a"
| "rad2Deg V7 a = Rad2IDegRound a"
| "rad2Deg V8 a = Rad2IDegRound a"
| "rad2Deg V13 a = Rad2IDegRound a"
| "rad2Deg V18 a = Rad2IDegRound a"

section \<open>Noise\<close>

text \<open>
  The observer of the model is the player in slot \<open>me\<close>.  The noise terms of the view widths are one
  for every width (the constructor of Player sets them and nothing changes them), so the steps are
  those of the server.  \<open>gauss\<close> is the standard normal variate which \<^verbatim>\<open>std::normal_distribution\<close>
  makes of the next sample.
\<close>

definition distQStep :: "sparam \<Rightarrow> real" where
  "distQStep sp = quantizeStep sp"

definition landDistQStep :: "sparam \<Rightarrow> real" where
  "landDistQStep sp = landmarkQuantizeStep sp"

definition dirQStep :: real where
  "dirQStep = 0.1"

definition ndrand :: "(real \<Rightarrow> real) \<Rightarrow> real \<Rightarrow> real \<Rightarrow> rng \<Rightarrow> real \<times> rng" where
  "ndrand gauss mean stddev g = (mean + stddev * gauss (shd g), stl g)"

definition quantize_calcDistImpl :: "real \<Rightarrow> real \<Rightarrow> real \<Rightarrow> real" where
  "quantize_calcDistImpl actual_dist focus_dist qstep =
     (let quant_dist = exp (Quantize (ln (actual_dist + EPS)) qstep);
          quant_focus_dist = exp (Quantize (ln (focus_dist + EPS)) qstep);
          observed_dist = max 0 (actual_dist - ((focus_dist - quant_focus_dist) + (actual_dist - quant_dist)) / 2)
      in Quantize observed_dist 0.1)"

definition gaussian_calcDistImpl ::
  "(real \<Rightarrow> real) \<Rightarrow> real \<Rightarrow> real \<Rightarrow> real \<Rightarrow> real \<Rightarrow> rng \<Rightarrow> real \<times> rng" where
  "gaussian_calcDistImpl gauss actual_dist focus_dist rate focus_rate g =
     (let std_dev = actual_dist * rate + focus_dist * focus_rate;
          (d, g1) = ndrand gauss actual_dist std_dev g
      in (max 0 d, g1))"

definition calcDist ::
  "sparam \<Rightarrow> (real \<Rightarrow> real) \<Rightarrow> bool \<Rightarrow> player \<Rightarrow> real \<Rightarrow> real \<Rightarrow> rng \<Rightarrow> real \<times> rng" where
  "calcDist sp gauss gaussian self actual_dist focus_dist g =
     (if gaussian
      then gaussian_calcDistImpl gauss actual_dist focus_dist
             (ht_distNoiseRate (M_player_type self)) (ht_focusDistNoiseRate (M_player_type self)) g
      else (quantize_calcDistImpl actual_dist focus_dist (distQStep sp), g))"

definition calcDistLandmark ::
  "sparam \<Rightarrow> (real \<Rightarrow> real) \<Rightarrow> bool \<Rightarrow> player \<Rightarrow> real \<Rightarrow> real \<Rightarrow> rng \<Rightarrow> real \<times> rng" where
  "calcDistLandmark sp gauss gaussian self actual_dist focus_dist g =
     (if gaussian
      then gaussian_calcDistImpl gauss actual_dist focus_dist
             (ht_landDistNoiseRate (M_player_type self)) (ht_landFocusDistNoiseRate (M_player_type self)) g
      else (quantize_calcDistImpl actual_dist focus_dist (landDistQStep sp), g))"

definition calcVel ::
  "bool \<Rightarrow> player \<Rightarrow> pvector \<Rightarrow> pvector \<Rightarrow> real \<Rightarrow> real \<Rightarrow> real \<times> real" where
  "calcVel gaussian self obj_vel obj_pos actual_dist noisy_dist =
     (if actual_dist \<noteq> 0
      then
        let vtmp = obj_vel - M_vel self;
            ex = px (obj_pos - M_pos self) / actual_dist;
            ey = py (obj_pos - M_pos self) / actual_dist;
            dist_chg = px vtmp * ex + py vtmp * ey;
            dir_chg = (py vtmp * ex - px vtmp * ey) / actual_dist * (180 / pi)
        in (if gaussian then Quantize (dist_chg * (noisy_dist / actual_dist)) 0.01
            else noisy_dist * Quantize (dist_chg / actual_dist) 0.02,
            if dir_chg = 0 then 0 else Quantize dir_chg dirQStep)
      else (0, 0))"

section \<open>Probabilities\<close>

text \<open>A quotient of doubles: a division by zero is infinite, or not a number.\<close>

datatype ratio = Ratio real | PlusInf | MinusInf | NaN

definition fdiv :: "real \<Rightarrow> real \<Rightarrow> ratio" where
  "fdiv a b = (if b \<noteq> 0 then Ratio (a / b) else if a > 0 then PlusInf else if a < 0 then MinusInf else NaN)"

text \<open>Neither comparison holds of NaN, and no sample is below it.\<close>

fun decide :: "ratio \<Rightarrow> rng \<Rightarrow> bool \<times> rng" where
  "decide (Ratio p) g = (if p \<ge> 1 then (True, g) else if p \<le> 0 then (False, g) else bernoulli p g)"
| "decide PlusInf g = (True, g)"
| "decide MinusInf g = (False, g)"
| "decide NaN g = (False, stl g)"

definition far_prob :: "real \<Rightarrow> real \<Rightarrow> real \<Rightarrow> ratio" where
  "far_prob far too_far dst = fdiv (dst - far) (too_far - far)"

definition calcNoFlagVelProb :: "protocol \<Rightarrow> player \<Rightarrow> real \<Rightarrow> ratio" where
  "calcNoFlagVelProb v self dst =
     (if v = V18 then far_prob (ht_landVelFarLength (M_player_type self)) (ht_landVelTooFarLength (M_player_type self)) dst
      else far_prob 20 40 dst)"

definition calcNoBallVelProb :: "protocol \<Rightarrow> player \<Rightarrow> real \<Rightarrow> ratio" where
  "calcNoBallVelProb v self dst =
     (if v = V18 then far_prob (ht_ballVelFarLength (M_player_type self)) (ht_ballVelTooFarLength (M_player_type self)) dst
      else far_prob 20 40 dst)"

definition calcNoTeamProb :: "protocol \<Rightarrow> player \<Rightarrow> real \<Rightarrow> ratio" where
  "calcNoTeamProb v self dst =
     (if v = V18 then far_prob (ht_teamFarLength (M_player_type self)) (ht_teamTooFarLength (M_player_type self)) dst
      else far_prob 40 60 dst)"

definition calcNoUnumProb :: "protocol \<Rightarrow> player \<Rightarrow> real \<Rightarrow> ratio" where
  "calcNoUnumProb v self dst =
     (if v = V18 then far_prob (ht_unumFarLength (M_player_type self)) (ht_unumTooFarLength (M_player_type self)) dst
      else far_prob 20 40 dst)"

section \<open>Directions\<close>

definition calcRadDir :: "player \<Rightarrow> pvector \<Rightarrow> real" where
  "calcRadDir self op = normalize_angle (angleFromBody op self - M_angle_neck_committed self)"

definition calcBodyDir :: "protocol \<Rightarrow> player \<Rightarrow> player \<Rightarrow> int" where
  "calcBodyDir v self p =
     rad2Deg v (normalize_angle (M_angle_body_committed p - M_angle_body_committed self
                                 - M_angle_neck_committed self))"

definition calcHeadDir :: "protocol \<Rightarrow> player \<Rightarrow> player \<Rightarrow> int" where
  "calcHeadDir v self p =
     rad2Deg v (normalize_angle (M_angle_neck_committed p + M_angle_body_committed p
                                 - M_angle_body_committed self - M_angle_neck_committed self))"

definition calcPointDir :: "(real \<Rightarrow> real) \<Rightarrow> protocol \<Rightarrow> player \<Rightarrow> player \<Rightarrow> rng \<Rightarrow> int \<times> rng" where
  "calcPointDir gauss v self p g =
     (case arm_getRelDir (M_pos p) (M_angle_body_committed p + M_angle_neck_committed p) (M_arm p) of
        None \<Rightarrow> (0, g)
      | Some d \<Rightarrow>
          let dir = d + M_angle_neck_committed p + M_angle_body_committed p
                    - M_angle_body_committed self - M_angle_neck_committed self;
              min_noise_level = Deg2Rad 2.5 * 0.5;
              sigma = (distance (M_pos self) (M_pos p) / ht_teamTooFarLength (M_player_type self)) ^ 4
                        * (pi - min_noise_level) + min_noise_level;
              (a, g1) = ndrand gauss dir sigma g
          in (rad2Deg v (normalize_angle a), g1))"

section \<open>Objects\<close>

definition in_view :: "player \<Rightarrow> real \<Rightarrow> pvector \<Rightarrow> bool" where
  "in_view self max_len op \<longleftrightarrow>
     \<bar>calcRadDir self op\<bar> < M_visible_angle self * 0.5 \<and> distance (M_pos self) op < max_len"

definition close_by :: "sparam \<Rightarrow> player \<Rightarrow> pvector \<Rightarrow> bool" where
  "close_by sp self op \<longleftrightarrow> distance (M_pos self) op \<le> visibleDistance sp"

text \<open>
  A landmark and the ball: \<open>noisy\<close> is the noisy distance, \<open>vel_prob\<close> decides whether the velocity
  is left out.  The low quality has neither.
\<close>

definition send_low ::
  "sparam \<Rightarrow> protocol \<Rightarrow> player \<Rightarrow> vobj \<Rightarrow> real \<Rightarrow> pvector \<Rightarrow> visual list" where
  "send_low sp v self obj max_len op =
     (let dir = rad2Deg v (calcRadDir self op)
      in if in_view self max_len op then [sighting obj FullName None dir]
         else if close_by sp self op then [sighting obj CloseName None dir]
         else [])"

definition send_high ::
  "sparam \<Rightarrow> protocol \<Rightarrow> bool \<Rightarrow> player \<Rightarrow> vobj \<Rightarrow> real \<Rightarrow> (real \<Rightarrow> ratio) \<Rightarrow> pvector \<Rightarrow> pvector
     \<Rightarrow> real \<times> rng \<Rightarrow> visual list \<times> rng" where
  "send_high sp v gaussian self obj max_len vel_prob op vel noisy =
     (case noisy of (noisy_dist, g) \<Rightarrow>
        let dir = rad2Deg v (calcRadDir self op)
        in if in_view self max_len op
           then (case decide (vel_prob noisy_dist) g of
                   (True, g1) \<Rightarrow> ([sighting obj FullName (Some noisy_dist) dir], g1)
                 | (False, g1) \<Rightarrow>
                     ([(sighting obj FullName (Some noisy_dist) dir)
                         \<lparr>V_chg := Some (calcVel gaussian self vel op (distance (M_pos self) op) noisy_dist)\<rparr>],
                      g1))
           else if close_by sp self op then ([sighting obj CloseName (Some noisy_dist) dir], g)
           else ([], g))"

definition sendFlag ::
  "sparam \<Rightarrow> (real \<Rightarrow> real) \<Rightarrow> protocol \<Rightarrow> bool \<Rightarrow> pvector \<Rightarrow> player \<Rightarrow> nat \<Rightarrow> pvector \<Rightarrow> rng
     \<Rightarrow> visual list \<times> rng" where
  "sendFlag sp gauss v gaussian focus self n op g =
     (let max_len = ht_landMaxObservationLength (M_player_type self)
      in if M_high_quality self
         then send_high sp v gaussian self (Flag n) max_len (calcNoFlagVelProb v self) op (PVector 0 0)
                (calcDistLandmark sp gauss gaussian self (distance (M_pos self) op) (distance op focus) g)
         else (send_low sp v self (Flag n) max_len op, g))"

definition sendBall ::
  "sparam \<Rightarrow> (real \<Rightarrow> real) \<Rightarrow> protocol \<Rightarrow> bool \<Rightarrow> pvector \<Rightarrow> player \<Rightarrow> mpobj \<Rightarrow> rng
     \<Rightarrow> visual list \<times> rng" where
  "sendBall sp gauss v gaussian focus self b g =
     (let max_len = ht_ballMaxObservationLength (M_player_type self); op = M_pos b
      in if M_high_quality self
         then send_high sp v gaussian self Ball max_len (calcNoBallVelProb v self) op (M_vel b)
                (calcDist sp gauss gaussian self (distance (M_pos self) op) (distance op focus) g)
         else (send_low sp v self Ball max_len op, g))"

text \<open>The names of a player, and \<^verbatim>\<open>serializePlayer\<close> with and without the velocity.\<close>

definition calcPlayerName :: "player \<Rightarrow> player \<Rightarrow> vname" where
  "calcPlayerName self p = (if M_side self = M_side p then FullName else FixedName)"

definition calcUFarName :: "player \<Rightarrow> player \<Rightarrow> vname" where
  "calcUFarName self p = (if M_side self = M_side p then FarName else FixedNameFar)"

definition serialize_pointing ::
  "(real \<Rightarrow> real) \<Rightarrow> protocol \<Rightarrow> player \<Rightarrow> player \<Rightarrow> visual \<Rightarrow> rng \<Rightarrow> visual \<times> rng" where
  "serialize_pointing gauss v self p s g =
     (if v \<in> {V8, V13, V18} \<and> arm_isPointing (M_arm p)
      then let (d, g1) = calcPointDir gauss v self p g in (s\<lparr>V_point_dir := Some d\<rparr>, g1)
      else (s, g))"

definition serializePlayer_chg ::
  "(real \<Rightarrow> real) \<Rightarrow> protocol \<Rightarrow> player \<Rightarrow> player \<Rightarrow> visual \<Rightarrow> real \<times> real \<Rightarrow> rng \<Rightarrow> visual \<times> rng" where
  "serializePlayer_chg gauss v self p s chg g =
     serialize_pointing gauss v self p
       (s\<lparr>V_chg := Some chg,
          V_body_dir := (if v = V1 then None else Some (calcBodyDir v self p)),
          V_head_dir := (if v = V1 \<or> v = V4 then None else Some (calcHeadDir v self p))\<rparr>) g"

definition sendLowPlayer ::
  "sparam \<Rightarrow> (real \<Rightarrow> real) \<Rightarrow> protocol \<Rightarrow> bool \<Rightarrow> pvector \<Rightarrow> player \<Rightarrow> nat \<Rightarrow> player \<Rightarrow> rng
     \<Rightarrow> visual list \<times> rng" where
  "sendLowPlayer sp gauss v gaussian focus self k p g =
     (let op = M_pos p; dir = rad2Deg v (calcRadDir self op)
      in if in_view self (ht_playerMaxObservationLength (M_player_type self)) op
         then
           (case calcDist sp gauss gaussian self (distance (M_pos self) op) (distance op focus) g of
              (noisy_dist, g1) \<Rightarrow>
                (case decide (calcNoTeamProb v self noisy_dist) g1 of
                   (True, g2) \<Rightarrow> ([sighting (Somebody k) NameTooFar None dir], g2)
                 | (False, g2) \<Rightarrow>
                     (case decide (calcNoUnumProb v self noisy_dist) g2 of
                        (True, g3) \<Rightarrow> ([sighting (Somebody k) (calcUFarName self p) None dir], g3)
                      | (False, g3) \<Rightarrow> ([sighting (Somebody k) (calcPlayerName self p) None dir], g3))))
         else if close_by sp self op then ([sighting (Somebody k) CloseName None dir], g)
         else ([], g))"

definition sendHighPlayer ::
  "sparam \<Rightarrow> (real \<Rightarrow> real) \<Rightarrow> protocol \<Rightarrow> bool \<Rightarrow> pvector \<Rightarrow> player \<Rightarrow> nat \<Rightarrow> player \<Rightarrow> rng
     \<Rightarrow> visual list \<times> rng" where
  "sendHighPlayer sp gauss v gaussian focus self k p g =
     (let op = M_pos p; dir = rad2Deg v (calcRadDir self op); actual_dist = distance (M_pos self) op
      in case calcDist sp gauss gaussian self actual_dist (distance op focus) g of
           (noisy_dist, g1) \<Rightarrow>
             if in_view self (ht_playerMaxObservationLength (M_player_type self)) op
             then
               (case decide (calcNoTeamProb v self noisy_dist) g1 of
                  (True, g2) \<Rightarrow> ([sighting (Somebody k) NameTooFar (Some noisy_dist) dir], g2)
                | (False, g2) \<Rightarrow>
                    (case decide (calcNoUnumProb v self noisy_dist) g2 of
                       (True, g3) \<Rightarrow>
                         (case serialize_pointing gauss v self p
                                 (sighting (Somebody k) (calcUFarName self p) (Some noisy_dist) dir) g3 of
                            (s, g4) \<Rightarrow> ([s], g4))
                     | (False, g3) \<Rightarrow>
                         (case serializePlayer_chg gauss v self p
                                 (sighting (Somebody k) (calcPlayerName self p) (Some noisy_dist) dir)
                                 (calcVel gaussian self (M_vel p) op actual_dist noisy_dist) g3 of
                            (s, g4) \<Rightarrow> ([s], g4))))
             else if close_by sp self op
             then ([sighting (Somebody k) CloseName (Some noisy_dist) dir], g1)
             else ([], g1))"

definition sendPlayer ::
  "sparam \<Rightarrow> (real \<Rightarrow> real) \<Rightarrow> protocol \<Rightarrow> bool \<Rightarrow> pvector \<Rightarrow> player \<Rightarrow> nat \<Rightarrow> player \<Rightarrow> rng
     \<Rightarrow> visual list \<times> rng" where
  "sendPlayer sp gauss v gaussian focus self k p g =
     (if M_high_quality self then sendHighPlayer sp gauss v gaussian focus self k p g
      else sendLowPlayer sp gauss v gaussian focus self k p g)"

section \<open>Lines\<close>

text \<open>\<^verbatim>\<open>Field::Field\<close>: the position of a line is its distance from the middle.\<close>

fun line_pos :: "line \<Rightarrow> real" where
  "line_pos LINE_L = - PITCH_LENGTH / 2"
| "line_pos LINE_R = PITCH_LENGTH / 2"
| "line_pos LINE_T = - PITCH_WIDTH / 2"
| "line_pos LINE_B = PITCH_WIDTH / 2"

fun vertical :: "line \<Rightarrow> bool" where
  "vertical LINE_L = True"
| "vertical LINE_R = True"
| "vertical LINE_T = False"
| "vertical LINE_B = False"

fun line_normal :: "pvector \<Rightarrow> line \<Rightarrow> real" where
  "line_normal pos LINE_L = (if px pos < line_pos LINE_L then 0 else pi)"
| "line_normal pos LINE_R = (if px pos > line_pos LINE_R then pi else 0)"
| "line_normal pos LINE_T = (if py pos < line_pos LINE_T then pi * 0.5 else - pi * 0.5)"
| "line_normal pos LINE_B = (if py pos > line_pos LINE_B then - pi * 0.5 else pi * 0.5)"

definition player_2_line :: "pvector \<Rightarrow> line \<Rightarrow> real" where
  "player_2_line pos l = line_pos l - (if vertical l then px pos else py pos)"

definition line_stop :: "line \<Rightarrow> real" where
  "line_stop l = (if vertical l then PITCH_WIDTH * 0.5 else PITCH_LENGTH * 0.5)"

definition calcLineRadDir :: "player \<Rightarrow> real \<Rightarrow> real" where
  "calcLineRadDir self normal =
     normalize_angle (normal - M_angle_body_committed self - M_angle_neck_committed self)"

definition calcLineDir :: "protocol \<Rightarrow> real \<Rightarrow> int" where
  "calcLineDir v a = (if a > 0 then rad2Deg v (a - pi * 0.5) else rad2Deg v (a + pi * 0.5))"

definition calcLineDist :: "real \<Rightarrow> real \<Rightarrow> real \<Rightarrow> real" where
  "calcLineDist a d qstep = Quantize (exp (Quantize (ln (\<bar>d / cos a\<bar> + EPS)) qstep)) 0.1"

text \<open>Where the line of sight meets the line, along the line.\<close>

definition line_intersect :: "player \<Rightarrow> line \<Rightarrow> real" where
  "line_intersect self l =
     (let offset = player_2_line (M_pos self) l * tan (calcLineRadDir self (line_normal (M_pos self) l))
      in if vertical l then py (M_pos self) - offset else offset + px (M_pos self))"

definition line_visible :: "player \<Rightarrow> line \<Rightarrow> bool" where
  "line_visible self l \<longleftrightarrow>
     \<bar>calcLineRadDir self (line_normal (M_pos self) l)\<bar> < pi * 0.5
     \<and> - line_stop l \<le> line_intersect self l \<and> line_intersect self l \<le> line_stop l"

definition sendLine :: "sparam \<Rightarrow> protocol \<Rightarrow> player \<Rightarrow> line \<Rightarrow> visual option" where
  "sendLine sp v self l =
     (let a = calcLineRadDir self (line_normal (M_pos self) l)
      in if \<not> line_visible self l then None
         else Some (sighting (Line l) FullName
                      (if M_high_quality self
                       then Some (calcLineDist a (player_2_line (M_pos self) l) (landDistQStep sp))
                       else None)
                      (calcLineDir v a)))"

text \<open>Inside the pitch one line is shown, outside at most two.\<close>

definition max_line_count :: "player \<Rightarrow> nat" where
  "max_line_count self =
     (if \<bar>px (M_pos self)\<bar> < PITCH_LENGTH * 0.5 \<and> \<bar>py (M_pos self)\<bar> < PITCH_WIDTH * 0.5 then 1 else 2)"

definition sendLines :: "sparam \<Rightarrow> protocol \<Rightarrow> player \<Rightarrow> visual list" where
  "sendLines sp v self =
     (if 3 \<le> M_version self
      then fold (\<lambda>l out. if length out < max_line_count self
                         then (case sendLine sp v self l of None \<Rightarrow> out | Some s \<Rightarrow> out @ [s])
                         else out)
             [LINE_L, LINE_R, LINE_T, LINE_B] []
      else [])"

section \<open>The visual message\<close>

text \<open>
  The state of a sender.  A landmark is given by its position and the version since which it is
  shown; the ball and the players are shown since version 3.
\<close>

record vsender =
  VS_sendcnt :: int
  VS_gaussian :: bool
  VS_focus_point :: pvector

definition new_vsender :: vsender where
  "new_vsender = \<lparr>VS_sendcnt = 0, VS_gaussian = False, VS_focus_point = PVector 0 0\<rparr>"

definition sendFlags ::
  "sparam \<Rightarrow> (real \<Rightarrow> real) \<Rightarrow> protocol \<Rightarrow> bool \<Rightarrow> pvector \<Rightarrow> player \<Rightarrow> (pvector \<times> real) list \<Rightarrow> rng
     \<Rightarrow> visual list \<times> rng" where
  "sendFlags sp gauss v gaussian focus self flags g =
     fold (\<lambda>n (out, g). if snd (flags ! n) \<le> M_version self
                        then (case sendFlag sp gauss v gaussian focus self n (fst (flags ! n)) g of
                                (s, g1) \<Rightarrow> (out @ s, g1))
                        else (out, g))
       [0..<length flags] ([], g)"

definition sendBalls ::
  "sparam \<Rightarrow> (real \<Rightarrow> real) \<Rightarrow> protocol \<Rightarrow> bool \<Rightarrow> pvector \<Rightarrow> player \<Rightarrow> mpobj \<Rightarrow> rng
     \<Rightarrow> visual list \<times> rng" where
  "sendBalls sp gauss v gaussian focus self b g =
     (if 3 \<le> M_version self then sendBall sp gauss v gaussian focus self b g else ([], g))"

definition sendPlayers ::
  "sparam \<Rightarrow> (real \<Rightarrow> real) \<Rightarrow> protocol \<Rightarrow> bool \<Rightarrow> pvector \<Rightarrow> nat \<Rightarrow> player list \<Rightarrow> rng
     \<Rightarrow> visual list \<times> rng" where
  "sendPlayers sp gauss v gaussian focus me ps g =
     fold (\<lambda>k (out, g). if k \<noteq> me \<and> M_enable (ps ! k) \<and> 3 \<le> M_version (ps ! me)
                        then (case sendPlayer sp gauss v gaussian focus (ps ! me) k (ps ! k) g of
                                (s, g1) \<Rightarrow> (out @ s, g1))
                        else (out, g))
       [0..<length ps] ([], g)"

definition updateCache :: "protocol \<Rightarrow> player \<Rightarrow> pvector" where
  "updateCache v self = (if v = V18 then focusPoint self else M_pos self)"

text \<open>\<^verbatim>\<open>sendVisual\<close>: nothing is sent before the interval has passed.\<close>

definition sendVisual ::
  "sparam \<Rightarrow> (real \<Rightarrow> real) \<Rightarrow> (pvector \<times> real) list \<Rightarrow> nat \<Rightarrow> world \<Rightarrow> vsender
     \<Rightarrow> world \<times> vsender \<times> visual list option" where
  "sendVisual sp gauss flags me w vs =
     (let self = pl w me; v = protocol_of (M_version self); cnt = VS_sendcnt vs + 1
      in if cnt < M_visual_send_interval self then (w, vs\<lparr>VS_sendcnt := cnt\<rparr>, None)
         else
           let gaussian = (VS_gaussian vs \<or> M_gaussian_see self);
               focus = updateCache v self;
               (fl, g1) = sendFlags sp gauss v gaussian focus self flags (w_rng w);
               (ba, g2) = sendBalls sp gauss v gaussian focus self (M_ball w) g1;
               (pls, g3) = sendPlayers sp gauss v gaussian focus me (M_players w) g2
           in (w\<lparr>w_rng := g3\<rparr>,
               vs\<lparr>VS_sendcnt := 0, VS_gaussian := gaussian, VS_focus_point := focus\<rparr>,
               Some (fl @ ba @ pls @ sendLines sp v self)))"

text \<open>\<^verbatim>\<open>Player::sendVisual\<close> and \<^verbatim>\<open>Player::sendSynchVisual\<close>.\<close>

definition player_sendVisual ::
  "sparam \<Rightarrow> (real \<Rightarrow> real) \<Rightarrow> (pvector \<times> real) list \<Rightarrow> bool \<Rightarrow> nat \<Rightarrow> world \<Rightarrow> vsender
     \<Rightarrow> world \<times> vsender \<times> visual list option" where
  "player_sendVisual sp gauss flags synch me w vs =
     (if M_synch_see (pl w me) = synch then sendVisual sp gauss flags me w vs else (w, vs, None))"

end
