(* ===== verification/Sight.thy ===== *)
theory Sight
  imports Vision
begin

text \<open>
  Properties of the visual messages: which line a player on the pitch is shown, which players he
  sees and under which names, and how far observed distances are off.
\<close>

section \<open>Normalised angles\<close>

lemma normalize_angle_shift: "\<exists>k :: int. normalize_angle a = a + 2 * pi * of_int k"
proof -
  have fm: "fmod a (2 * pi) = a + 2 * pi * of_int (- trunc_real (a / (2 * pi)))"
    by (simp add: fmod_def)
  define b where "b = (if \<bar>a\<bar> > 2 * pi then fmod a (2 * pi) else a)"
  obtain k where k: "b = a + 2 * pi * of_int k"
  proof (cases "\<bar>a\<bar> > 2 * pi")
    case True
    then show ?thesis using that[of "- trunc_real (a / (2 * pi))"] fm by (simp add: b_def)
  next
    case False
    then show ?thesis using that[of 0] by (simp add: b_def)
  qed
  have "normalize_angle a = b \<or> normalize_angle a = b + 2 * pi \<or> normalize_angle a = b - 2 * pi"
    by (auto simp: normalize_angle_def b_def[symmetric] Let_def)
  then consider "normalize_angle a = a + 2 * pi * of_int k"
    | "normalize_angle a = a + 2 * pi * of_int (k + 1)" | "normalize_angle a = a + 2 * pi * of_int (k - 1)"
    using k by (auto simp: algebra_simps)
  then show ?thesis by cases blast+
qed

lemma sin_cos_normalize [simp]:
  "sin (normalize_angle a) = sin a" "cos (normalize_angle a) = cos a"
proof -
  obtain k :: int where k: "normalize_angle a = a + 2 * pi * of_int k"
    using normalize_angle_shift by blast
  show "sin (normalize_angle a) = sin a" "cos (normalize_angle a) = cos a"
    unfolding k by (simp_all only: sin_add cos_add sin_int_2pin cos_int_2pin mult_zero_right mult_1_right
        add_0_right diff_0_right)
qed

lemma tan_normalize [simp]: "tan (normalize_angle a) = tan a"
  by (simp add: tan_def)

lemma small_angle_iff: "\<bar>normalize_angle a\<bar> < pi * 0.5 \<longleftrightarrow> 0 < cos a"
proof
  assume "\<bar>normalize_angle a\<bar> < pi * 0.5"
  then have "0 < cos (normalize_angle a)" by (intro cos_gt_zero_pi) auto
  then show "0 < cos a" by simp
next
  assume c: "0 < cos a"
  show "\<bar>normalize_angle a\<bar> < pi * 0.5"
  proof (rule ccontr)
    define x where "x = \<bar>normalize_angle a\<bar>"
    assume "\<not> \<bar>normalize_angle a\<bar> < pi * 0.5"
    then have x: "pi / 2 \<le> x" "x \<le> pi" using normalize_angle_range[of a] by (auto simp: x_def)
    have "cos x \<le> cos (pi / 2)" using x by (intro cos_monotone_0_pi_le) auto
    moreover have "cos x = cos a" by (simp add: x_def)
    ultimately show False using c by simp
  qed
qed

lemma small_angle_iff' [simp]: "\<bar>normalize_angle a\<bar> * 2 < pi \<longleftrightarrow> 0 < cos a"
  using small_angle_iff[of a] by (simp add: mult.commute)

section \<open>Lines\<close>

text \<open>The direction a player looks in, and the geometry of his line of sight.\<close>

definition gaze :: "player \<Rightarrow> real" where
  "gaze p = M_angle_body_committed p + M_angle_neck_committed p"

definition on_the_pitch :: "player \<Rightarrow> bool" where
  "on_the_pitch p \<longleftrightarrow> \<bar>px (M_pos p)\<bar> < 52.5 \<and> \<bar>py (M_pos p)\<bar> < 34"

definition looks_at_line :: "player \<Rightarrow> line \<Rightarrow> bool" where
  "looks_at_line p l \<longleftrightarrow>
     (\<exists>t > 0. if vertical l
              then px (M_pos p) + t * cos (gaze p) = line_pos l \<and> \<bar>py (M_pos p) + t * sin (gaze p)\<bar> \<le> 34
              else py (M_pos p) + t * sin (gaze p) = line_pos l \<and> \<bar>px (M_pos p) + t * cos (gaze p)\<bar> \<le> 52.5)"

lemma line_angle:
  "calcLineRadDir p n = normalize_angle (n - gaze p)"
  by (simp add: calcLineRadDir_def gaze_def algebra_simps)

lemma line_visible_cases:
  assumes "on_the_pitch p"
  defines "c \<equiv> cos (gaze p)" and "s \<equiv> sin (gaze p)"
    and "x \<equiv> px (M_pos p)" and "y \<equiv> py (M_pos p)"
  shows "line_visible p LINE_R \<longleftrightarrow> 0 < c \<and> \<bar>y + (52.5 - x) * (s / c)\<bar> \<le> 34"
    and "line_visible p LINE_L \<longleftrightarrow> c < 0 \<and> \<bar>y + (- 52.5 - x) * (s / c)\<bar> \<le> 34"
    and "line_visible p LINE_B \<longleftrightarrow> 0 < s \<and> - 52.5 \<le> (34 - y) * (c / s) + x \<and> (34 - y) * (c / s) + x \<le> 52.5"
    and "line_visible p LINE_T \<longleftrightarrow> s < 0 \<and> - 52.5 \<le> (- 34 - y) * (c / s) + x \<and> (- 34 - y) * (c / s) + x \<le> 52.5"
proof -
  have in_pitch: "\<bar>x\<bar> < 52.5" "\<bar>y\<bar> < 34" using assms(1) by (simp_all add: on_the_pitch_def x_def y_def)
  have cs: "cos (pi - gaze p) = - cos (gaze p)" "sin (pi - gaze p) = sin (gaze p)"
    "cos (pi / 2 - gaze p) = sin (gaze p)" "sin (pi / 2 - gaze p) = cos (gaze p)"
    "cos (- (pi / 2) - gaze p) = - sin (gaze p)" "sin (- (pi / 2) - gaze p) = - cos (gaze p)"
    by (simp_all add: cos_diff sin_diff)
  note simps = line_visible_def line_intersect_def line_angle small_angle_iff player_2_line_def
    line_stop_def PITCH_LENGTH_def PITCH_WIDTH_def Let_def x_def[symmetric] y_def[symmetric]
    tan_normalize tan_def
  show "line_visible p LINE_R \<longleftrightarrow> 0 < c \<and> \<bar>y + (52.5 - x) * (s / c)\<bar> \<le> 34"
    using in_pitch by (auto simp: simps c_def s_def abs_le_iff)
  show "line_visible p LINE_L \<longleftrightarrow> c < 0 \<and> \<bar>y + (- 52.5 - x) * (s / c)\<bar> \<le> 34"
    using in_pitch by (auto simp: simps cs c_def s_def abs_le_iff)
  show "line_visible p LINE_B \<longleftrightarrow> 0 < s \<and> - 52.5 \<le> (34 - y) * (c / s) + x \<and> (34 - y) * (c / s) + x \<le> 52.5"
    using in_pitch by (auto simp: simps cs c_def s_def abs_le_iff)
  show "line_visible p LINE_T \<longleftrightarrow> s < 0 \<and> - 52.5 \<le> (- 34 - y) * (c / s) + x \<and> (- 34 - y) * (c / s) + x \<le> 52.5"
    using in_pitch by (auto simp: simps cs c_def s_def abs_le_iff)
qed

text \<open>Inside the pitch the line shown is the one which the line of sight meets.\<close>

lemma line_visible_iff:
  assumes "on_the_pitch p"
  shows "line_visible p l \<longleftrightarrow> looks_at_line p l"
proof -
  define c s x y where "c = cos (gaze p)" and "s = sin (gaze p)"
    and "x = px (M_pos p)" and "y = py (M_pos p)"
  note v = line_visible_cases[OF assms, folded c_def s_def x_def y_def]
  have abs: "(- 52.5 \<le> Z \<and> Z \<le> 52.5) = (\<bar>Z\<bar> \<le> 52.5)" for Z :: real by (auto simp: abs_le_iff)
  have swap: "a * (c / s) + x = x + a / s * c" for a by simp
  have v3: "line_visible p LINE_B \<longleftrightarrow> 0 < s \<and> \<bar>x + (34 - y) / s * c\<bar> \<le> 52.5"
    and v4: "line_visible p LINE_T \<longleftrightarrow> s < 0 \<and> \<bar>x + (- 34 - y) / s * c\<bar> \<le> 52.5"
    using v(3,4) by (simp_all only: abs swap)
  have ip: "\<bar>x\<bar> < 52.5" "\<bar>y\<bar> < 34" using assms by (simp_all add: on_the_pitch_def x_def y_def)
  have ray: "(\<exists>t > 0. a + t * u = b \<and> P t) \<longleftrightarrow> 0 < (b - a) / u \<and> P ((b - a) / u)"
    if "a \<noteq> b" for a b u :: real and P
  proof
    assume "\<exists>t > 0. a + t * u = b \<and> P t"
    then obtain t where t: "0 < t" "a + t * u = b" "P t" by blast
    then have "u \<noteq> 0" using that by auto
    then have "(b - a) / u = t" using t(2) by (simp add: field_simps)
    then show "0 < (b - a) / u \<and> P ((b - a) / u)" using t by simp
  next
    assume r: "0 < (b - a) / u \<and> P ((b - a) / u)"
    then have "u \<noteq> 0" by auto
    then show "\<exists>t > 0. a + t * u = b \<and> P t" using r by (intro exI[of _ "(b - a) / u"]) auto
  qed
  have g: "looks_at_line p l \<longleftrightarrow>
    (\<exists>t > 0. if vertical l then x + t * c = line_pos l \<and> \<bar>y + t * s\<bar> \<le> 34
             else y + t * s = line_pos l \<and> \<bar>x + t * c\<bar> \<le> 52.5)"
    by (simp add: looks_at_line_def c_def s_def x_def y_def)
  have ne: "x \<noteq> 52.5" "x \<noteq> - 52.5" "y \<noteq> 34" "y \<noteq> - 34" using ip by auto
  show ?thesis
  proof (cases l)
    case LINE_L
    then show ?thesis unfolding g
      using v(2) ray[OF ne(2), where u = c and P = "\<lambda>t. \<bar>y + t * s\<bar> \<le> 34"] ip
      by (auto simp: PITCH_LENGTH_def zero_less_divide_iff)
  next
    case LINE_R
    then show ?thesis unfolding g
      using v(1) ray[OF ne(1), where u = c and P = "\<lambda>t. \<bar>y + t * s\<bar> \<le> 34"] ip
      by (auto simp: PITCH_LENGTH_def zero_less_divide_iff)
  next
    case LINE_T
    then show ?thesis unfolding g
      using v4 ray[OF ne(4), where u = s and P = "\<lambda>t. \<bar>x + t * c\<bar> \<le> 52.5"] ip
      by (auto simp: PITCH_WIDTH_def zero_less_divide_iff)
  next
    case LINE_B
    then show ?thesis unfolding g
      using v3 ray[OF ne(3), where u = s and P = "\<lambda>t. \<bar>x + t * c\<bar> \<le> 52.5"] ip
      by (auto simp: PITCH_WIDTH_def zero_less_divide_iff)
  qed
qed

text \<open>A line of sight from inside the pitch leaves it through one of its lines.\<close>

lemma some_line_visible:
  assumes "on_the_pitch p"
  shows "\<exists>l. line_visible p l"
proof -
  define c s x y where "c = cos (gaze p)" and "s = sin (gaze p)"
    and "x = px (M_pos p)" and "y = py (M_pos p)"
  note v = line_visible_cases[OF assms, folded c_def s_def x_def y_def]
  have ip: "- 52.5 < x" "x < 52.5" "- 34 < y" "y < 34"
    using assms by (auto simp: on_the_pitch_def x_def y_def abs_less_iff)
  have nz: "c \<noteq> 0 \<or> s \<noteq> 0"
    unfolding c_def s_def by (metis sin_cos_squared_add zero_power2 add_0 zero_neq_one)
  text \<open>The distances to the vertical and to the horizontal line ahead.\<close>
  define a b where "a = (if 0 < c then 52.5 - x else - 52.5 - x)"
    and "b = (if 0 < s then 34 - y else - 34 - y)"
  have vert: "\<exists>l. line_visible p l" if "c \<noteq> 0" "- 34 \<le> y + a * (s / c)" "y + a * (s / c) \<le> 34"
  proof (cases "0 < c")
    case True
    then have "line_visible p LINE_R" using v(1) that by (simp add: a_def abs_le_iff)
    then show ?thesis by blast
  next
    case False
    then have "line_visible p LINE_L" using v(2) that by (simp add: a_def abs_le_iff)
    then show ?thesis by blast
  qed
  have hor: "\<exists>l. line_visible p l" if "s \<noteq> 0" "- 52.5 \<le> b * (c / s) + x" "b * (c / s) + x \<le> 52.5"
  proof (cases "0 < s")
    case True
    then have "line_visible p LINE_B" using v(3) that by (simp add: b_def)
    then show ?thesis by blast
  next
    case False
    then have "line_visible p LINE_T" using v(4) that by (simp add: b_def)
    then show ?thesis by blast
  qed
  text \<open>The ray leaves the pitch after the shorter of the two times.\<close>
  define ta tb where "ta = a / c" and "tb = b / s"
  have ta: "c \<noteq> 0 \<Longrightarrow> 0 < ta" and tb: "s \<noteq> 0 \<Longrightarrow> 0 < tb"
    using ip by (auto simp: ta_def tb_def a_def b_def zero_less_divide_iff)
  show ?thesis
  proof (cases "c = 0")
    case True
    then show ?thesis using hor nz ip by simp
  next
    case c: False
    show ?thesis
    proof (cases "s = 0")
      case True
      then show ?thesis using vert c ip by simp
    next
      case s: False
      have as: "a * (s / c) = ta * s" and bc: "b * (c / s) = tb * c" by (simp_all add: ta_def tb_def)
      have at: "a = ta * c" and bt: "b = tb * s" using c s by (simp_all add: ta_def tb_def)
      show ?thesis
      proof (cases "ta \<le> tb")
        case True
        have "\<bar>ta * s\<bar> \<le> \<bar>b\<bar>"
          using True ta[OF c] by (simp add: bt abs_mult mult_right_mono)
        moreover have "0 < s \<longrightarrow> 0 \<le> ta * s" "\<not> 0 < s \<longrightarrow> ta * s \<le> 0"
          using ta[OF c] by (auto simp: mult_le_0_iff)
        ultimately have "- 34 \<le> y + ta * s \<and> y + ta * s \<le> 34"
          using ip by (cases "0 < s") (auto simp: b_def abs_le_iff)
        then show ?thesis using vert[OF c, unfolded as] by blast
      next
        case False
        have "\<bar>tb * c\<bar> \<le> \<bar>a\<bar>"
          using False tb[OF s] by (simp add: at abs_mult mult_right_mono)
        moreover have "0 < c \<longrightarrow> 0 \<le> tb * c" "\<not> 0 < c \<longrightarrow> tb * c \<le> 0"
          using tb[OF s] by (auto simp: mult_le_0_iff)
        ultimately have "- 52.5 \<le> tb * c + x \<and> tb * c + x \<le> 52.5"
          using ip by (cases "0 < c") (auto simp: a_def abs_le_iff)
        then show ?thesis using hor[OF s, unfolded bc] by blast
      qed
    qed
  qed
qed

lemma sendLine_None: "sendLine sp v p l = None \<longleftrightarrow> \<not> line_visible p l"
  by (simp add: sendLine_def Let_def)

lemma sendLine_obj: "sendLine sp v p l = Some s \<Longrightarrow> V_obj s = Line l \<and> line_visible p l"
  by (auto simp: sendLine_def sighting_def Let_def split: if_splits)

text \<open>C35: a player on the pitch is always shown exactly one line, and his line of sight meets it
  within its ends.\<close>

theorem line_ahead:
  assumes "on_the_pitch p" and "3 \<le> M_version p"
  shows "\<exists>s l. sendLines sp v p = [s] \<and> V_obj s = Line l \<and> looks_at_line p l"
proof -
  have one: "max_line_count p = 1"
    using assms(1) by (simp add: max_line_count_def on_the_pitch_def PITCH_LENGTH_def PITCH_WIDTH_def)
  obtain l0 where l0: "line_visible p l0" using some_line_visible[OF assms(1)] by blast
  have stop: "fold (\<lambda>l out. if length out < 1 then (case sendLine sp v p l of None \<Rightarrow> out | Some s \<Rightarrow> out @ [s])
      else out) ls [s] = [s]" for ls and s
    by (induction ls) auto
  have first: "\<exists>s l. fold (\<lambda>l out. if length out < 1 then (case sendLine sp v p l of None \<Rightarrow> out | Some s \<Rightarrow> out @ [s])
      else out) ls [] = [s] \<and> sendLine sp v p l = Some s"
    if "\<exists>l \<in> set ls. line_visible p l" for ls
    using that
  proof (induction ls)
    case (Cons l ls)
    show ?case
    proof (cases "sendLine sp v p l")
      case None
      then have "\<exists>l \<in> set ls. line_visible p l" using Cons.prems by (auto simp: sendLine_None)
      then show ?thesis using Cons.IH None by simp
    next
      case (Some s)
      then show ?thesis using stop[of ls s] by auto
    qed
  qed simp
  have "\<exists>l \<in> set [LINE_L, LINE_R, LINE_T, LINE_B]. line_visible p l"
    using l0 by (cases l0) auto
  from first[OF this] obtain s l where "sendLines sp v p = [s]" "sendLine sp v p l = Some s"
    unfolding sendLines_def one using assms(2) by (simp only: if_True) blast
  then show ?thesis using sendLine_obj[of sp v p l s] line_visible_iff[OF assms(1)] by blast
qed

section \<open>Players\<close>

text \<open>A message about a player has him as its object; its name tells what is known of him.\<close>

definition knows_number :: "visual \<Rightarrow> bool" where
  "knows_number s \<longleftrightarrow> V_name s \<in> {FullName, FixedName}"

lemma serialize_pointing_reads:
  "V_obj (fst (serialize_pointing gauss v self p s g)) = V_obj s"
  "V_name (fst (serialize_pointing gauss v self p s g)) = V_name s"
  by (auto simp: serialize_pointing_def split_beta)

lemma serializePlayer_chg_reads:
  "V_obj (fst (serializePlayer_chg gauss v self p s chg g)) = V_obj s"
  "V_name (fst (serializePlayer_chg gauss v self p s chg g)) = V_name s"
  by (simp_all add: serializePlayer_chg_def serialize_pointing_reads)

lemma sighting_reads [simp]: "V_obj (sighting ob nm d dir) = ob" "V_name (sighting ob nm d dir) = nm"
  by (simp_all add: sighting_def)

definition seen :: "sparam \<Rightarrow> player \<Rightarrow> player \<Rightarrow> bool" where
  "seen sp self p \<longleftrightarrow>
     in_view self (ht_playerMaxObservationLength (M_player_type self)) (M_pos p)
     \<or> close_by sp self (M_pos p)"

lemma sendPlayer_seen:
  "map V_obj (fst (sendPlayer sp gauss v gaussian focus self k p g)) =
     (if seen sp self p then [Somebody k] else [])"
  by (auto simp: sendPlayer_def sendHighPlayer_def sendLowPlayer_def seen_def Let_def
      serialize_pointing_reads serializePlayer_chg_reads split_beta split: bool.splits)


section \<open>Observed distances\<close>

text \<open>An object at the point of focus is seen at its distance, rounded on the logarithmic scale.\<close>

definition observed_distance :: "sparam \<Rightarrow> real \<Rightarrow> real" where
  "observed_distance sp d = Quantize (exp (Quantize (ln (d + EPS)) (distQStep sp))) 0.1"

lemma calcDist_focused:
  "calcDist sp gauss False self d d g = (observed_distance sp d, g)"
proof -
  have "d - (2 * d - 2 * e) / 2 = e" for e :: real by (simp add: field_simps)
  then show ?thesis
    by (simp add: calcDist_def quantize_calcDistImpl_def observed_distance_def Let_def)
qed

lemma rint_mono: "a \<le> b \<Longrightarrow> rint a \<le> rint b"
proof (cases "\<lfloor>a\<rfloor> = \<lfloor>b\<rfloor>")
  case True
  assume "a \<le> b"
  then show ?thesis using True by (auto simp: rint_def Let_def)
next
  case False
  assume "a \<le> b"
  then have "\<lfloor>a\<rfloor> + 1 \<le> \<lfloor>b\<rfloor>" using False floor_mono[of a b] by linarith
  then have "real_of_int \<lfloor>a\<rfloor> + 1 \<le> real_of_int \<lfloor>b\<rfloor>" by linarith
  moreover have "rint a \<le> real_of_int \<lfloor>a\<rfloor> + 1" "real_of_int \<lfloor>b\<rfloor> \<le> rint b"
    by (simp_all add: rint_def Let_def)
  ultimately show ?thesis by linarith
qed

lemma Quantize_mono: "a \<le> b \<Longrightarrow> Quantize a q \<le> Quantize b q"
proof (cases "q < EPS")
  case False
  assume "a \<le> b"
  have q: "0 < q" using False by (simp add: EPS_def)
  show ?thesis
    using False q \<open>a \<le> b\<close> by (simp add: Quantize_def mult_right_mono rint_mono divide_right_mono)
qed (simp add: Quantize_def)

text \<open>C37: the distance at which a player who looks at an object is told to see it is a multiple of a
  tenth, off from the true one by at most the factor which half a step of the logarithmic scale
  makes, and five hundredths; and of two objects the nearer is never told to be the farther.\<close>

theorem distance_told:
  assumes "0 < distQStep sp" and "0 \<le> d" and "d \<le> d'"
    and "calcDist sp gauss False self d d g = (told, h)"
    and "calcDist sp gauss False self d' d' g' = (told', h')"
  shows "(\<exists>n :: int. told = of_int n / 10)
     \<and> told \<le> (d + EPS) * exp (distQStep sp / 2) + 0.05
     \<and> (d + EPS) * exp (- (distQStep sp / 2)) - 0.05 \<le> told
     \<and> told \<le> told'"
proof -
  let ?q = "distQStep sp" and ?l = "ln (d + EPS)"
  let ?e = "exp (Quantize ?l ?q)"
  have t: "told = Quantize ?e 0.1" "told' = observed_distance sp d'"
    using assms(4,5) by (simp_all add: calcDist_focused observed_distance_def)
  have pos: "0 < d + EPS" using assms(2) by (simp add: EPS_def)
  have far: "\<bar>Quantize ?l ?q - ?l\<bar> \<le> ?q / 2" using Quantize_error[OF assms(1)] .
  have near: "\<bar>told - ?e\<bar> \<le> 0.05" using Quantize_error[of "0.1" ?e] t(1) by simp
  have "?e \<le> exp (?l + ?q / 2)" "exp (?l + - (?q / 2)) \<le> ?e"
    unfolding exp_le_cancel_iff using far by linarith+
  then have e: "?e \<le> (d + EPS) * exp (?q / 2)" "(d + EPS) * exp (- (?q / 2)) \<le> ?e"
    using pos by (simp_all only: exp_add exp_ln)
  have grid: "\<exists>n :: int. told = of_int n / 10"
    using rint_int[of "?e / 0.1"] t(1) by (auto simp: Quantize_def EPS_def)
  have "?l \<le> ln (d' + EPS)" using pos assms(3) by simp
  then have mono: "told \<le> told'"
    unfolding t observed_distance_def by (intro Quantize_mono) (simp add: Quantize_mono)
  show ?thesis
  proof (intro conjI)
    show "\<exists>n :: int. told = of_int n / 10" by (fact grid)
    show "told \<le> (d + EPS) * exp (?q / 2) + 0.05" using near e(1) by linarith
    show "(d + EPS) * exp (- (?q / 2)) - 0.05 \<le> told" using near e(2) by linarith
    show "told \<le> told'" by (fact mono)
  qed
qed

end
