(* ===== verification/Bench.thy ===== *)
theory Bench
  imports Coach
begin

text \<open>
  Properties of the trainer and of the online coaches: the names of play modes, the limits of
  substitutions, the quotas of advice and the queue of messages.
\<close>

section \<open>Names of play modes\<close>

lemma playmodes_length [simp]: "length playmodes = 52" "length PLAYMODE_STRINGS = 52"
  by (simp_all add: playmodes_def PLAYMODE_STRINGS_def)

lemma playmode_strings_distinct: "distinct PLAYMODE_STRINGS"
  by (simp add: PLAYMODE_STRINGS_def)

lemma pm_index_playmodes: "pm_index pm < 52" "playmodes ! pm_index pm = pm"
  by (cases pm; simp add: playmodes_def)+

lemma pm_index_nth: "n < 52 \<Longrightarrow> pm_index (playmodes ! n) = n"
proof -
  have "map pm_index playmodes = [0..<52]" by (simp add: playmodes_def upt_rec)
  then show "pm_index (playmodes ! n) = n" if "n < 52"
    using that by (metis nth_map nth_upt add_0 playmodes_length(1))
qed

lemma find_nth_distinct:
  assumes "distinct xs" "i < length xs"
  shows "List.find (\<lambda>n. xs ! n = xs ! i) [0..<length xs] = Some i"
  using assms by (auto simp: find_Some_iff nth_eq_iff_index_eq)

lemma play_mode_id_string: "play_mode_id (playmode_string pm) = pm"
  using find_nth_distinct[OF playmode_strings_distinct, of "pm_index pm"] pm_index_playmodes[of pm]
  by (simp add: play_mode_id_def playmode_string_def)

lemma playmode_string_id: "play_mode_id s = PM_Null \<or> playmode_string (play_mode_id s) = s"
proof (cases "List.find (\<lambda>n. PLAYMODE_STRINGS ! n = s) [0..<length playmodes]")
  case None
  then show ?thesis by (simp add: play_mode_id_def)
next
  case (Some n)
  then have "n < 52" "PLAYMODE_STRINGS ! n = s" by (auto simp: find_Some_iff)
  then show ?thesis using Some pm_index_nth by (simp add: play_mode_id_def playmode_string_def)
qed

text \<open>The trainer's \<^verbatim>\<open>change_mode\<close> reads back exactly the names which the server announces:
  the name of a mode other than the null mode changes to that mode, and any text which is not the
  name of a mode leaves the game alone.\<close>

theorem change_mode_roundtrip:
  "change_mode cpm (playmode_string pm) w =
     (if pm = PM_Null then Some (w, [Reply ''(error illegal_mode)''])
      else map_option (\<lambda>w1. (w1, [Reply ''(ok change_mode)''])) (cpm pm w))
   \<and> (mode \<in> range playmode_string
      \<or> change_mode cpm mode w = Some (w, [Reply ''(error illegal_mode)'']))"
  using playmode_string_id[of mode]
  by (cases "cpm pm w") (auto simp: change_mode_def Let_def play_mode_id_string image_iff intro: sym)

section \<open>Substitutions\<close>

text \<open>A team whose slots hold its players, and the limits of PlayerParam on its counters.\<close>

definition bench_ok :: "side \<Rightarrow> world \<Rightarrow> bool" where
  "bench_ok s w \<longleftrightarrow> s \<noteq> NEUTRAL \<and> ident_ok (M_players w) \<and> T_size (team s w) \<le> int MAX_PLAYER"

definition subs_ok :: "pparam \<Rightarrow> team \<Rightarrow> bool" where
  "subs_ok pp t \<longleftrightarrow>
     T_subs_count t \<le> subsMax pp
     \<and> (\<forall>ty. 0 \<le> ty \<and> \<not> unrestricted pp ty
             \<longrightarrow> ptypeCount t ty \<le> ptMax pp \<and> ptypeUsedCount t ty \<le> ptMax pp)"

lemma team_slots_side:
  assumes "bench_ok s w" "i \<in> set (team_slots s w)"
  shows "M_side (pl w i) = s \<and> i < length (M_players w)"
proof -
  obtain n where n: "i = slot s n" "n < 11"
    using assms by (auto simp: team_slots_def bench_ok_def MAX_PLAYER_def)
  show ?thesis using assms(1) n
    by (cases s) (auto simp: bench_ok_def ident_ok_def slot_def MAX_PLAYER_def)
qed

lemma find_player_slot:
  "find_player s unum w = Some i \<Longrightarrow> i \<in> set (team_slots s w) \<and> M_unum (pl w i) = unum"
  by (auto simp: find_player_def find_Some_iff)

lemma ptypeCount_put [simp]:
  "ptypeCount (t\<lparr>T_ptype_count := ptype_add ty d m\<rparr>) x =
     ptypeCount (t\<lparr>T_ptype_count := m\<rparr>) x + (if x = ty then d else 0)"
  by (simp add: ptypeCount_def ptype_add_def)

lemma ptypeUsedCount_put [simp]:
  "ptypeUsedCount (t\<lparr>T_ptype_used_count := ptype_add ty d m\<rparr>) x =
     ptypeUsedCount (t\<lparr>T_ptype_used_count := m\<rparr>) x + (if x = ty then d else 0)"
  by (simp add: ptypeUsedCount_def ptype_add_def)

lemma team_upd_simps [simp]:
  "s \<noteq> NEUTRAL \<Longrightarrow> team s (upd_team s f w) = f (team s w)"
  "team s (upd_player i g w) = team s w"
  "s \<noteq> s' \<Longrightarrow> s' \<noteq> NEUTRAL \<Longrightarrow> s \<noteq> NEUTRAL \<Longrightarrow> team s' (upd_team s f w) = team s' w"
  by (cases s; cases s'; simp add: team_def upd_team_def upd_player_def)+

lemma substitute_team_counts:
  fixes w :: world and i :: nat and ty :: int and sp :: sparam
  assumes "s \<noteq> NEUTRAL"
  defines "t \<equiv> team s w" and "t' \<equiv> team s (substitute_team sp s i ty w)"
  shows "t' = t \<or>
     T_subs_count t' = T_subs_count t + (if M_time w > 0 then 1 else 0)
     \<and> (\<forall>x. ptypeCount t' x = ptypeCount t x + (if x = ty then 1 else 0)
                             - (if x = current_type (pl w i) then 1 else 0))
     \<and> (\<forall>x. ptypeUsedCount t' x =
               ptypeUsedCount t x + (if x = ty \<and> M_time w > 0 then 1 else 0))"
proof -
  have time: "M_time (upd_team s f (upd_player i g w)) = M_time w" for f g
    by (cases s) (simp_all add: upd_team_def upd_player_def)
  show ?thesis
    using assms(1) unfolding t_def t'_def
    by (simp add: substitute_team_def substitute_at_def Let_def time split: option.split)
       (simp add: ptypeCount_def ptypeUsedCount_def ptype_add_def)
qed

text \<open>C32: whatever an online coach asks for, the counters of the team stay within the limits of
  PlayerParam: at most \<^verbatim>\<open>subs_max\<close> substitutions after the kick-off, and at most \<^verbatim>\<open>pt_max\<close>
  players of a restricted type, on the field and over the whole game.  In play on, and once the
  extra time is over, nothing changes.\<close>

theorem substitution_limits:
  assumes "bench_ok s w" and "subs_ok pp (team s w)" and "1 \<le> ptMax pp"
    and "OnlineCoach_change_player_type sp pp s unum ty w = (w', out)"
  shows "subs_ok pp (team s w')
    \<and> (M_playmode w = PM_PlayOn \<or> 0 \<le> halfTime sp \<and> game_length sp \<le> M_time w \<longrightarrow> w' = w)"
proof
  show "M_playmode w = PM_PlayOn \<or> 0 \<le> halfTime sp \<and> game_length sp \<le> M_time w \<longrightarrow> w' = w"
    using assms(4) by (auto simp: OnlineCoach_change_player_type_def Let_def split: if_splits)
  have ns: "s \<noteq> NEUTRAL" using assms(1) by (simp add: bench_ok_def)
  consider "w' = w"
    | i where "w' = stadium_substitute sp i ty w" "find_player s unum w = Some i"
        "T_subs_count (team s w) < subsMax pp" "\<not> no_left_of_type pp (team s w) ty"
        "\<not> max_on_field pp (team s w) (pl w i) ty"
    using assms(4)
    by (auto simp: OnlineCoach_change_player_type_def Let_def split: if_splits option.splits)
  then show "subs_ok pp (team s w')"
  proof cases
    case 1
    then show ?thesis using assms(2) by simp
  next
    case (2 i)
    have side: "M_side (pl w i) = s"
      using team_slots_side[OF assms(1)] find_player_slot[OF 2(2)] by blast
    then have w': "w' = substitute_team sp s i ty w"
      using 2(1) ns by (cases s) (simp_all add: stadium_substitute_def)
    show ?thesis
      using substitute_team_counts[OF ns, where w = w and sp = sp and i = i and ty = ty] assms(2,3) 2(3-5)
      unfolding w'
      by (fastforce simp: subs_ok_def no_left_of_type_def max_on_field_def current_type_def
          split: if_splits)
  qed
qed

section \<open>Advice in play on\<close>

text \<open>A coach who says the messages \<open>ms\<close> one after the other.\<close>

definition say_all :: "sparam \<Rightarrow> clang_msg list \<Rightarrow> world \<Rightarrow> olcoach \<Rightarrow> olcoach option" where
  "say_all sp ms w c = foldM (\<lambda>m c. map_option fst (say_clang sp (Some m) w c)) ms c"

definition queued :: "clang_type \<Rightarrow> olcoach \<Rightarrow> nat" where
  "queued ty c = length (filter (\<lambda>m. Msg_type m = ty) (OC_message_queue c))"

lemma take_message_queue [simp]: "OC_message_queue (take_message ty c) = OC_message_queue c"
  by (cases ty) simp_all

lemma messages_left_take [simp]:
  "ty' \<noteq> FREEFORM \<Longrightarrow> ty' \<noteq> UNSUP \<Longrightarrow>
     messages_left ty (take_message ty' c) = messages_left ty c - (if ty = ty' then 1 else 0)"
  by (cases ty; cases ty') simp_all

lemma messages_left_freeform [simp]:
  "messages_left ty (OC_freeform_messages_said_update f c) = messages_left ty c"
  "messages_left ty (OC_message_queue_update g c) = messages_left ty c"
  by (cases ty; simp)+

lemma judge_quota:
  assumes "M_playmode w = PM_PlayOn" and "ty \<noteq> FREEFORM" and "ty \<noteq> UNSUP"
  shows "judge_message sp ty w c =
    Some (if messages_left ty c > 0 then (True, take_message ty c, [])
          else (False, c, [Reply (too_many ty)]))"
  using assms by (cases ty) (simp_all add: judge_message_def)

lemma say_clang_play_on:
  assumes "M_playmode w = PM_PlayOn" and "ty \<noteq> FREEFORM"
    and "say_clang sp (Some m) w c = Some (c1, out)"
  shows "queued ty c1 = queued ty c + (if Msg_type m = ty \<and> 0 < messages_left ty c then 1 else 0)
    \<and> messages_left ty c1 =
        messages_left ty c - (if Msg_type m = ty \<and> 0 < messages_left ty c then 1 else 0)"
proof -
  consider "Msg_type m = FREEFORM" | "Msg_type m = UNSUP"
    | "Msg_type m \<noteq> FREEFORM" "Msg_type m \<noteq> UNSUP" by blast
  then show ?thesis
  proof cases
    case 3
    then show ?thesis using assms
      by (auto simp: say_clang_def judge_quota queued_def Let_def
          simp del: take_message.simps messages_left.simps split: if_splits)
  qed (use assms in \<open>auto simp: say_clang_def judge_message_def queued_def Let_def split: if_splits\<close>)
qed


section \<open>The queue of messages\<close>

lemma flush_queue_eq:
  "0 < i \<Longrightarrow> flush_queue sp t w s i q sent =
     (dropWhile (message_due sp t w) q,
      sent @ map (stamp_message w s) (takeWhile (message_due sp t w) q))"
  by (induction q arbitrary: i sent) auto

text \<open>Every cycle sends all messages which are due, up to the first which is not, in their
  order, whatever positive number of messages per cycle is configured.\<close>

theorem queue_flushed:
  assumes "0 < clangMessPerCycle sp"
  shows "check_message_queue sp t w c =
     (c\<lparr>OC_message_queue := dropWhile (message_due sp t w) (OC_message_queue c)\<rparr>,
      map (\<lambda>m. CoachStdAudio (stamp_message w (OC_side c) m))
        (takeWhile (message_due sp t w) (OC_message_queue c)))"
  using assms by (simp add: check_message_queue_def flush_queue_eq)

section \<open>The goalie\<close>

lemma filter_single: "distinct xs \<Longrightarrow> x \<in> set xs \<Longrightarrow> filter (\<lambda>y. y = x) xs = [x]"
  by (induction xs) (auto simp: filter_empty_conv)

lemma distinct_enabled_slots: "distinct (enabled_slots s w)"
  by (auto simp: enabled_slots_def team_slots_def slot_def distinct_map inj_on_def)

lemma changeToGoalie_reads:
  "M_goalie (changeToGoalie p)" "M_unum (changeToGoalie p) = M_unum p" "M_enable (changeToGoalie p)"
  by (simp_all add: changeToGoalie_def setEnable_def)

lemma changePlayerToGoalie_effect:
  assumes "bench_ok s w" and "i \<in> set (enabled_slots s w)"
    and "\<not> list_ex (\<lambda>j. M_goalie (pl w j)) (enabled_slots s w)"
  shows "changePlayerToGoalie s i w = (True, upd_player i changeToGoalie w)"
  using assms(2,3) by (auto simp: changePlayerToGoalie_def enabled_slots_def list_ex_iff)

text \<open>An online coach makes a player the goalie only if no enabled player of the team is one,
  and then the last enabled player with the number is the only one; never in play on or while a
  penalty kick is made ready or taken.\<close>

theorem one_goalie:
  assumes "bench_ok s w"
    and "OnlineCoach_change_player_type_goalie s unum w = (w', out)" and "w' \<noteq> w"
  shows "M_playmode w \<noteq> PM_PlayOn
    \<and> filter (\<lambda>i. M_goalie (pl w i)) (enabled_slots s w) = []
    \<and> (\<exists>i. filter (\<lambda>i. M_goalie (pl w' i)) (enabled_slots s w') = [i] \<and> M_unum (pl w' i) = unum)"
proof -
  obtain i where none: "\<not> list_ex (\<lambda>i. M_goalie (pl w i)) (enabled_slots s w)"
    and i: "List.find (\<lambda>i. M_unum (pl w i) = unum) (rev (enabled_slots s w)) = Some i"
    and w': "w' = snd (changePlayerToGoalie s i w)" and pm: "M_playmode w \<noteq> PM_PlayOn"
    using assms(2,3)
    by (auto simp: OnlineCoach_change_player_type_goalie_def change_player_type_goalie_impl_def
        split: if_splits option.splits)
  have ie: "i \<in> set (enabled_slots s w)" and unum: "M_unum (pl w i) = unum"
    using i nth_mem[of _ "rev (enabled_slots s w)"] by (auto simp: find_Some_iff)
  have len: "i < length (M_players w)"
    using team_slots_side[OF assms(1)] ie by (simp add: enabled_slots_def)
  have eq: "w' = upd_player i changeToGoalie w"
    using changePlayerToGoalie_effect[OF assms(1) ie none] w' by simp
  have slots: "enabled_slots s w' = enabled_slots s w"
    using ie len unfolding eq
    by (auto simp: enabled_slots_def team_slots_def upd_player_def nth_list_update
        changeToGoalie_reads team_def intro!: filter_cong)
  have "filter (\<lambda>j. M_goalie (pl w' j)) (enabled_slots s w) = filter (\<lambda>j. j = i) (enabled_slots s w)"
    using none len unfolding eq
    by (intro filter_cong)
       (auto simp: upd_player_def nth_list_update list_ex_iff changeToGoalie_reads)
  then have one: "filter (\<lambda>j. M_goalie (pl w' j)) (enabled_slots s w') = [i]"
    using filter_single[OF distinct_enabled_slots ie] slots by simp
  have "M_unum (pl w' i) = unum"
    using unum len unfolding eq by (simp add: upd_player_def changeToGoalie_reads)
  then show ?thesis using one none pm by (auto simp: list_ex_iff filter_empty_conv)
qed

end
