(* ===== verification/Hetero.thy ===== *)
theory Hetero
  imports Roster
begin

text \<open>
  Heterogeneous players (heteroplayer.cpp): the random generation of player types with its
  trade-offs and their validation.  The engine of its own is a stream of uniform samples like the
  generator of the server; where it is seeded from is left out.
\<close>

section \<open>Default types\<close>

definition maximum_dist_in_pitch :: real where
  "maximum_dist_in_pitch = sqrt (PITCH_LENGTH ^ 2 + PITCH_WIDTH ^ 2)"

definition setDefaultObservationParams :: "hetero \<Rightarrow> hetero" where
  "setDefaultObservationParams h =
     h\<lparr>ht_unumFarLength := 20, ht_unumTooFarLength := 40,
       ht_teamFarLength := maximum_dist_in_pitch, ht_teamTooFarLength := maximum_dist_in_pitch,
       ht_playerMaxObservationLength := maximum_dist_in_pitch,
       ht_ballVelFarLength := 20, ht_ballVelTooFarLength := 40,
       ht_ballMaxObservationLength := maximum_dist_in_pitch,
       ht_landVelFarLength := 20, ht_landVelTooFarLength := 40,
       ht_landMaxObservationLength := maximum_dist_in_pitch\<rparr>"

definition setDefaultGaussianObservationParams :: "sparam \<Rightarrow> hetero \<Rightarrow> hetero" where
  "setDefaultGaussianObservationParams sp h =
     h\<lparr>ht_distNoiseRate := distNoiseRate sp, ht_focusDistNoiseRate := focusDistNoiseRate sp,
       ht_landDistNoiseRate := landDistNoiseRate sp,
       ht_landFocusDistNoiseRate := landFocusDistNoiseRate sp\<rparr>"

text \<open>\<^verbatim>\<open>setDefault\<close> assigns every field, whatever \<open>h\<close> was.\<close>

definition setDefault :: "sparam \<Rightarrow> hetero \<Rightarrow> hetero" where
  "setDefault sp h =
     setDefaultGaussianObservationParams sp (setDefaultObservationParams
       (h\<lparr>ht_playerSpeedMax := playerSpeedMax sp, ht_staminaIncMax := staminaInc sp,
          ht_playerDecay := playerDecay sp, ht_inertiaMoment := inertiaMoment sp,
          ht_dashPowerRate := dashPowerRate sp, ht_playerSize := playerSize sp,
          ht_kickableMargin := kickableMargin sp, ht_kickRand := kickRand sp,
          ht_extraStamina := extraStamina sp, ht_effortMax := effortInit sp,
          ht_effortMin := effortMin sp, ht_kickPowerRate := kickPowerRate sp,
          ht_foulDetectProbability := foulDetectProbability sp,
          ht_catchAreaLengthStretch := 1\<rparr>))"

section \<open>Random types\<close>

definition delta :: "real \<Rightarrow> real \<Rightarrow> rng \<Rightarrow> real \<times> rng" where
  "delta lo hi g =
     (if lo = hi then (lo, g)
      else let minv = min lo hi; maxv = max lo hi
           in (minv + (maxv - minv) * shd g, stl g))"

text \<open>
  One trial of the constructor: \<open>None\<close> is a \<^verbatim>\<open>continue\<close> or a type whose real maximal speed is
  out of range.  With a decay of one the quotient is infinite or not a number, and the comparisons
  fail.
\<close>

definition real_speed_max :: "sparam \<Rightarrow> hetero \<Rightarrow> real" where
  "real_speed_max sp h =
     (maxPower sp * ht_dashPowerRate h * ht_effortMax h) / (1 - ht_playerDecay h)"

definition speed_in_range :: "sparam \<Rightarrow> hetero \<Rightarrow> bool" where
  "speed_in_range sp h \<longleftrightarrow>
     ht_playerDecay h \<noteq> 1
     \<and> playerSpeedMaxMin sp - EPS < real_speed_max sp h
     \<and> real_speed_max sp h < ht_playerSpeedMax h + EPS"

definition draw_speed :: "sparam \<Rightarrow> pparam \<Rightarrow> hetero \<Rightarrow> rng \<Rightarrow> hetero option \<times> rng" where
  "draw_speed sp pp h g =
     (let (d, g1) = delta (playerSpeedMaxDeltaMin pp) (playerSpeedMaxDeltaMax pp) g;
          v = playerSpeedMax sp + d;
          s = staminaInc sp + d * staminaIncMaxDeltaFactor pp
      in (if v \<le> 0 \<or> s \<le> 0 then None
          else Some (h\<lparr>ht_playerSpeedMax := v, ht_staminaIncMax := s\<rparr>), g1))"

definition draw_decay :: "sparam \<Rightarrow> pparam \<Rightarrow> hetero \<Rightarrow> rng \<Rightarrow> hetero option \<times> rng" where
  "draw_decay sp pp h g =
     (let (d, g1) = delta (playerDecayDeltaMin pp) (playerDecayDeltaMax pp) g;
          v = playerDecay sp + d;
          m = inertiaMoment sp + d * inertiaMomentDeltaFactor pp
      in (if v \<le> 0 \<or> m < 0 then None
          else Some (h\<lparr>ht_playerDecay := v, ht_inertiaMoment := m\<rparr>), g1))"

definition draw_size :: "sparam \<Rightarrow> pparam \<Rightarrow> hetero \<Rightarrow> rng \<Rightarrow> hetero option \<times> rng" where
  "draw_size sp pp h g =
     (let (d, g1) = delta (dashPowerRateDeltaMin pp) (dashPowerRateDeltaMax pp) g;
          r = dashPowerRate sp + d;
          z = playerSize sp + d * playerSizeDeltaFactor pp
      in (if r \<le> 0 \<or> z \<le> 0 then None
          else Some (h\<lparr>ht_dashPowerRate := r, ht_playerSize := z\<rparr>), g1))"

definition draw_dash :: "sparam \<Rightarrow> pparam \<Rightarrow> hetero \<Rightarrow> rng \<Rightarrow> hetero option \<times> rng" where
  "draw_dash sp pp h g =
     (let (d, g1) = delta (newDashPowerRateDeltaMin pp) (newDashPowerRateDeltaMax pp) g;
          r = dashPowerRate sp + d;
          s = staminaInc sp + d * newStaminaIncMaxDeltaFactor pp
      in (if r \<le> 0 \<or> s \<le> 0 then None
          else Some (h\<lparr>ht_dashPowerRate := r, ht_staminaIncMax := s\<rparr>), g1))"

definition draw_kick :: "sparam \<Rightarrow> pparam \<Rightarrow> hetero \<Rightarrow> rng \<Rightarrow> hetero option \<times> rng" where
  "draw_kick sp pp h g =
     (let (d, g1) = delta (kickableMarginDeltaMin pp) (kickableMarginDeltaMax pp) g;
          m = kickableMargin sp + d;
          r = kickRand sp + d * kickRandDeltaFactor pp
      in (if m \<le> 0 \<or> r < 0 then None
          else Some (h\<lparr>ht_kickableMargin := m, ht_kickRand := r\<rparr>), g1))"

definition draw_stamina :: "sparam \<Rightarrow> pparam \<Rightarrow> hetero \<Rightarrow> rng \<Rightarrow> hetero option \<times> rng" where
  "draw_stamina sp pp h g =
     (let (d, g1) = delta (extraStaminaDeltaMin pp) (extraStaminaDeltaMax pp) g;
          x = extraStamina sp + d;
          emax = effortInit sp + d * effortMaxDeltaFactor pp;
          emin = effortMin sp + d * effortMinDeltaFactor pp
      in (if x < 0 \<or> emax \<le> 0 \<or> emin \<le> 0 then None
          else Some (h\<lparr>ht_extraStamina := x, ht_effortMax := emax, ht_effortMin := emin\<rparr>), g1))"

definition draw_power :: "sparam \<Rightarrow> pparam \<Rightarrow> hetero \<Rightarrow> rng \<Rightarrow> hetero option \<times> rng" where
  "draw_power sp pp h g =
     (let (d, g1) = delta (kickPowerRateDeltaMin pp) (kickPowerRateDeltaMax pp) g
      in (Some (h\<lparr>ht_kickPowerRate := kickPowerRate sp + d,
                  ht_foulDetectProbability :=
                    foulDetectProbability sp + d * foulDetectProbabilityDeltaFactor pp\<rparr>), g1))"

definition draw_catch :: "sparam \<Rightarrow> pparam \<Rightarrow> hetero \<Rightarrow> rng \<Rightarrow> hetero option \<times> rng" where
  "draw_catch sp pp h g =
     (let (d, g1) = delta (catchAreaLengthStretchMin pp) (catchAreaLengthStretchMax pp) g
      in (Some (h\<lparr>ht_catchAreaLengthStretch := d\<rparr>), g1))"

text \<open>The draws one after the other; the first failure ends the trial.\<close>

fun chain ::
  "(hetero \<Rightarrow> rng \<Rightarrow> hetero option \<times> rng) list \<Rightarrow> hetero \<Rightarrow> rng \<Rightarrow> hetero option \<times> rng" where
  "chain [] h g = (Some h, g)"
| "chain (f # fs) h g =
     (case f h g of
        (None, g1) \<Rightarrow> (None, g1)
      | (Some h1, g1) \<Rightarrow> chain fs h1 g1)"

definition trial :: "sparam \<Rightarrow> pparam \<Rightarrow> hetero \<Rightarrow> rng \<Rightarrow> hetero option \<times> rng" where
  "trial sp pp h g =
     (case chain [draw_speed sp pp, draw_decay sp pp, draw_size sp pp, draw_dash sp pp,
                  draw_kick sp pp, draw_stamina sp pp, draw_power sp pp, draw_catch sp pp] h g of
        (None, g1) \<Rightarrow> (None, g1)
      | (Some h1, g1) \<Rightarrow>
          let h2 = setDefaultGaussianObservationParams sp (setDefaultObservationParams h1)
          in (if speed_in_range sp h2 then Some h2 else None, g1))"

fun trials :: "nat \<Rightarrow> sparam \<Rightarrow> pparam \<Rightarrow> hetero \<Rightarrow> rng \<Rightarrow> hetero \<times> rng" where
  "trials 0 sp pp h g = (setDefault sp h, g)"
| "trials (Suc n) sp pp h g =
     (case trial sp pp h g of
        (Some h1, g1) \<Rightarrow> (h1, g1)
      | (None, g1) \<Rightarrow> trials n sp pp h g1)"

definition MAX_TRIAL :: nat where "MAX_TRIAL = 1000"

definition HeteroPlayer :: "sparam \<Rightarrow> pparam \<Rightarrow> hetero \<Rightarrow> rng \<Rightarrow> hetero \<times> rng" where
  "HeteroPlayer sp pp h g = trials MAX_TRIAL sp pp h g"

text \<open>\<^verbatim>\<open>Stadium::createObjects\<close>: the default type, then random ones.\<close>

fun more_types :: "nat \<Rightarrow> sparam \<Rightarrow> pparam \<Rightarrow> hetero \<Rightarrow> rng \<Rightarrow> hetero list \<times> rng" where
  "more_types 0 sp pp h g = ([], g)"
| "more_types (Suc n) sp pp h g =
     (let (t, g1) = HeteroPlayer sp pp h g; (ts, g2) = more_types n sp pp h g1 in (t # ts, g2))"

definition create_types :: "sparam \<Rightarrow> pparam \<Rightarrow> hetero \<Rightarrow> rng \<Rightarrow> hetero list \<times> rng" where
  "create_types sp pp h g =
     (let (ts, g1) = more_types (nat (playerTypes pp) - 1) sp pp h g in (setDefault sp h # ts, g1))"

section \<open>What is generated\<close>

lemma delta_range:
  assumes "rng_ok g"
  shows "min lo hi \<le> fst (delta lo hi g) \<and> fst (delta lo hi g) \<le> max lo hi \<and> rng_ok (snd (delta lo hi g))"
proof -
  have u: "0 \<le> shd g" "shd g < 1" using rng_ok_shd[OF assms] by auto
  define m M where "m = min lo hi" and "M = max lo hi"
  have "(M - m) * shd g \<le> (M - m) * 1" "0 \<le> (M - m) * shd g"
    using u by (intro mult_left_mono mult_nonneg_nonneg; simp add: m_def M_def)+
  then show ?thesis using rng_ok_stl[OF assms] assms
    by (auto simp: delta_def Let_def m_def[symmetric] M_def[symmetric]) (simp_all add: m_def M_def)
qed

text \<open>
  The contract of a generated type: each trade-off couples two parameters through one delta from
  the configured interval, and the real maximal speed is in range.
\<close>

definition in_span :: "real \<Rightarrow> real \<Rightarrow> real \<Rightarrow> bool" where
  "in_span lo hi d \<longleftrightarrow> min lo hi \<le> d \<and> d \<le> max lo hi"

definition speed_ok :: "sparam \<Rightarrow> pparam \<Rightarrow> hetero \<Rightarrow> bool" where
  "speed_ok sp pp h \<longleftrightarrow> 0 < ht_playerSpeedMax h
     \<and> in_span (playerSpeedMaxDeltaMin pp) (playerSpeedMaxDeltaMax pp) (ht_playerSpeedMax h - playerSpeedMax sp)"

definition decay_ok :: "sparam \<Rightarrow> pparam \<Rightarrow> hetero \<Rightarrow> bool" where
  "decay_ok sp pp h \<longleftrightarrow> 0 < ht_playerDecay h \<and> 0 \<le> ht_inertiaMoment h
     \<and> in_span (playerDecayDeltaMin pp) (playerDecayDeltaMax pp) (ht_playerDecay h - playerDecay sp)
     \<and> ht_inertiaMoment h - inertiaMoment sp
         = (ht_playerDecay h - playerDecay sp) * inertiaMomentDeltaFactor pp"

definition dash_ok :: "sparam \<Rightarrow> pparam \<Rightarrow> hetero \<Rightarrow> bool" where
  "dash_ok sp pp h \<longleftrightarrow> 0 < ht_dashPowerRate h \<and> 0 < ht_staminaIncMax h
     \<and> in_span (newDashPowerRateDeltaMin pp) (newDashPowerRateDeltaMax pp) (ht_dashPowerRate h - dashPowerRate sp)
     \<and> ht_staminaIncMax h - staminaInc sp
         = (ht_dashPowerRate h - dashPowerRate sp) * newStaminaIncMaxDeltaFactor pp"

definition kick_ok :: "sparam \<Rightarrow> pparam \<Rightarrow> hetero \<Rightarrow> bool" where
  "kick_ok sp pp h \<longleftrightarrow> 0 < ht_kickableMargin h \<and> 0 \<le> ht_kickRand h
     \<and> in_span (kickableMarginDeltaMin pp) (kickableMarginDeltaMax pp) (ht_kickableMargin h - kickableMargin sp)
     \<and> ht_kickRand h - kickRand sp = (ht_kickableMargin h - kickableMargin sp) * kickRandDeltaFactor pp"

definition effort_ok :: "sparam \<Rightarrow> pparam \<Rightarrow> hetero \<Rightarrow> bool" where
  "effort_ok sp pp h \<longleftrightarrow> 0 \<le> ht_extraStamina h \<and> 0 < ht_effortMax h \<and> 0 < ht_effortMin h
     \<and> in_span (extraStaminaDeltaMin pp) (extraStaminaDeltaMax pp) (ht_extraStamina h - extraStamina sp)
     \<and> ht_effortMax h - effortInit sp = (ht_extraStamina h - extraStamina sp) * effortMaxDeltaFactor pp
     \<and> ht_effortMin h - effortMin sp = (ht_extraStamina h - extraStamina sp) * effortMinDeltaFactor pp"

definition bulk_ok :: "sparam \<Rightarrow> pparam \<Rightarrow> hetero \<Rightarrow> bool" where
  "bulk_ok sp pp h \<longleftrightarrow> 0 < ht_playerSize h"

definition stretch_ok :: "sparam \<Rightarrow> pparam \<Rightarrow> hetero \<Rightarrow> bool" where
  "stretch_ok sp pp h \<longleftrightarrow>
     in_span (catchAreaLengthStretchMin pp) (catchAreaLengthStretchMax pp) (ht_catchAreaLengthStretch h)"

definition type_ok :: "sparam \<Rightarrow> pparam \<Rightarrow> hetero \<Rightarrow> bool" where
  "type_ok sp pp h \<longleftrightarrow>
     speed_ok sp pp h \<and> decay_ok sp pp h \<and> bulk_ok sp pp h \<and> dash_ok sp pp h \<and> kick_ok sp pp h
     \<and> effort_ok sp pp h \<and> stretch_ok sp pp h \<and> speed_in_range sp h"

lemmas type_ok_defs = speed_ok_def decay_ok_def dash_ok_def kick_ok_def effort_ok_def bulk_ok_def stretch_ok_def

text \<open>Each draw keeps the samples in range, establishes its own trade-off and keeps the earlier.\<close>

lemma draw_speed_Some:
  assumes "draw_speed sp pp h g = (Some h1, g1)" and "rng_ok g"
  shows "rng_ok g1
    \<and> speed_ok sp pp h1"
  using assms(1) delta_range[OF assms(2), of "playerSpeedMaxDeltaMin pp" "playerSpeedMaxDeltaMax pp"]
  by (auto simp: draw_speed_def type_ok_defs in_span_def Let_def split_beta split: if_splits)

lemma draw_decay_Some:
  assumes "draw_decay sp pp h g = (Some h1, g1)" and "rng_ok g"
  shows "rng_ok g1
    \<and> decay_ok sp pp h1
    \<and> (speed_ok sp pp h \<longrightarrow> speed_ok sp pp h1)"
  using assms(1) delta_range[OF assms(2), of "playerDecayDeltaMin pp" "playerDecayDeltaMax pp"]
  by (auto simp: draw_decay_def type_ok_defs in_span_def Let_def split_beta split: if_splits)

lemma draw_size_Some:
  assumes "draw_size sp pp h g = (Some h1, g1)" and "rng_ok g"
  shows "rng_ok g1
    \<and> bulk_ok sp pp h1
    \<and> (speed_ok sp pp h \<longrightarrow> speed_ok sp pp h1)
    \<and> (decay_ok sp pp h \<longrightarrow> decay_ok sp pp h1)"
  using assms(1) delta_range[OF assms(2), of "dashPowerRateDeltaMin pp" "dashPowerRateDeltaMax pp"]
  by (auto simp: draw_size_def type_ok_defs in_span_def Let_def split_beta split: if_splits)

lemma draw_dash_Some:
  assumes "draw_dash sp pp h g = (Some h1, g1)" and "rng_ok g"
  shows "rng_ok g1
    \<and> dash_ok sp pp h1
    \<and> (speed_ok sp pp h \<longrightarrow> speed_ok sp pp h1)
    \<and> (decay_ok sp pp h \<longrightarrow> decay_ok sp pp h1)
    \<and> (bulk_ok sp pp h \<longrightarrow> bulk_ok sp pp h1)"
  using assms(1) delta_range[OF assms(2), of "newDashPowerRateDeltaMin pp" "newDashPowerRateDeltaMax pp"]
  by (auto simp: draw_dash_def type_ok_defs in_span_def Let_def split_beta split: if_splits)

lemma draw_kick_Some:
  assumes "draw_kick sp pp h g = (Some h1, g1)" and "rng_ok g"
  shows "rng_ok g1
    \<and> kick_ok sp pp h1
    \<and> (speed_ok sp pp h \<longrightarrow> speed_ok sp pp h1)
    \<and> (decay_ok sp pp h \<longrightarrow> decay_ok sp pp h1)
    \<and> (bulk_ok sp pp h \<longrightarrow> bulk_ok sp pp h1)
    \<and> (dash_ok sp pp h \<longrightarrow> dash_ok sp pp h1)"
  using assms(1) delta_range[OF assms(2), of "kickableMarginDeltaMin pp" "kickableMarginDeltaMax pp"]
  by (auto simp: draw_kick_def type_ok_defs in_span_def Let_def split_beta split: if_splits)

lemma draw_stamina_Some:
  assumes "draw_stamina sp pp h g = (Some h1, g1)" and "rng_ok g"
  shows "rng_ok g1
    \<and> effort_ok sp pp h1
    \<and> (speed_ok sp pp h \<longrightarrow> speed_ok sp pp h1)
    \<and> (decay_ok sp pp h \<longrightarrow> decay_ok sp pp h1)
    \<and> (bulk_ok sp pp h \<longrightarrow> bulk_ok sp pp h1)
    \<and> (dash_ok sp pp h \<longrightarrow> dash_ok sp pp h1)
    \<and> (kick_ok sp pp h \<longrightarrow> kick_ok sp pp h1)"
  using assms(1) delta_range[OF assms(2), of "extraStaminaDeltaMin pp" "extraStaminaDeltaMax pp"]
  by (auto simp: draw_stamina_def type_ok_defs in_span_def Let_def split_beta split: if_splits)

lemma draw_power_Some:
  assumes "draw_power sp pp h g = (Some h1, g1)" and "rng_ok g"
  shows "rng_ok g1
    \<and> (speed_ok sp pp h \<longrightarrow> speed_ok sp pp h1)
    \<and> (decay_ok sp pp h \<longrightarrow> decay_ok sp pp h1)
    \<and> (bulk_ok sp pp h \<longrightarrow> bulk_ok sp pp h1)
    \<and> (dash_ok sp pp h \<longrightarrow> dash_ok sp pp h1)
    \<and> (kick_ok sp pp h \<longrightarrow> kick_ok sp pp h1)
    \<and> (effort_ok sp pp h \<longrightarrow> effort_ok sp pp h1)"
  using assms(1) delta_range[OF assms(2), of "kickPowerRateDeltaMin pp" "kickPowerRateDeltaMax pp"]
  by (auto simp: draw_power_def type_ok_defs in_span_def Let_def split_beta split: if_splits)

lemma draw_catch_Some:
  assumes "draw_catch sp pp h g = (Some h1, g1)" and "rng_ok g"
  shows "rng_ok g1
    \<and> stretch_ok sp pp h1
    \<and> (speed_ok sp pp h \<longrightarrow> speed_ok sp pp h1)
    \<and> (decay_ok sp pp h \<longrightarrow> decay_ok sp pp h1)
    \<and> (bulk_ok sp pp h \<longrightarrow> bulk_ok sp pp h1)
    \<and> (dash_ok sp pp h \<longrightarrow> dash_ok sp pp h1)
    \<and> (kick_ok sp pp h \<longrightarrow> kick_ok sp pp h1)
    \<and> (effort_ok sp pp h \<longrightarrow> effort_ok sp pp h1)"
  using assms(1) delta_range[OF assms(2), of "catchAreaLengthStretchMin pp" "catchAreaLengthStretchMax pp"]
  by (auto simp: draw_catch_def type_ok_defs in_span_def Let_def split_beta split: if_splits)

lemma draws_rng:
  assumes "rng_ok g"
  shows "rng_ok (snd (draw_speed sp pp h g))" "rng_ok (snd (draw_decay sp pp h g))"
    "rng_ok (snd (draw_size sp pp h g))" "rng_ok (snd (draw_dash sp pp h g))"
    "rng_ok (snd (draw_kick sp pp h g))" "rng_ok (snd (draw_stamina sp pp h g))"
    "rng_ok (snd (draw_power sp pp h g))" "rng_ok (snd (draw_catch sp pp h g))"
  using delta_range[OF assms]
  by (simp_all add: draw_speed_def draw_decay_def draw_size_def draw_dash_def draw_kick_def
      draw_stamina_def draw_power_def draw_catch_def Let_def split_beta)

lemma chain_rng:
  assumes "\<And>f h g. f \<in> set fs \<Longrightarrow> rng_ok g \<Longrightarrow> rng_ok (snd (f h g))" and "rng_ok g"
  shows "rng_ok (snd (chain fs h g))"
  using assms
proof (induction fs arbitrary: h g)
  case (Cons f fs)
  have "rng_ok (snd (f h g))" using Cons.prems by simp
  then show ?case using Cons.IH Cons.prems(1) by (auto split: prod.split option.split)
qed simp

lemma trial_rng:
  assumes "rng_ok g"
  shows "rng_ok (snd (trial sp pp h g))"
proof -
  have "rng_ok (snd (chain [draw_speed sp pp, draw_decay sp pp, draw_size sp pp, draw_dash sp pp,
      draw_kick sp pp, draw_stamina sp pp, draw_power sp pp, draw_catch sp pp] h g))"
    using assms by (intro chain_rng) (auto simp: draws_rng)
  then show ?thesis
    by (auto simp: trial_def Let_def simp del: chain.simps split: prod.splits option.splits)
qed

lemma type_ok_observation:
  "X \<in> {speed_ok, decay_ok, bulk_ok, dash_ok, kick_ok, effort_ok, stretch_ok} \<Longrightarrow>
     X sp pp (setDefaultGaussianObservationParams sp (setDefaultObservationParams h)) = X sp pp h"
  by (auto simp: type_ok_defs setDefaultGaussianObservationParams_def
      setDefaultObservationParams_def)

lemma chain_Cons_Some:
  assumes "chain (f # fs) h g = (Some h', g')"
  obtains h1 g1 where "f h g = (Some h1, g1)" "chain fs h1 g1 = (Some h', g')"
  using assms by (auto split: prod.splits option.splits)

lemma chain_type_ok:
  assumes "chain [draw_speed sp pp, draw_decay sp pp, draw_size sp pp, draw_dash sp pp,
                  draw_kick sp pp, draw_stamina sp pp, draw_power sp pp, draw_catch sp pp] h g
             = (Some h', g')"
    and "rng_ok g"
  shows "speed_ok sp pp h' \<and> decay_ok sp pp h' \<and> bulk_ok sp pp h' \<and> dash_ok sp pp h'
    \<and> kick_ok sp pp h' \<and> effort_ok sp pp h' \<and> stretch_ok sp pp h'"
proof -
  obtain h1 g1 h2 g2 h3 g3 h4 g4 h5 g5 h6 g6 h7 g7 where
    d: "draw_speed sp pp h g = (Some h1, g1)" "draw_decay sp pp h1 g1 = (Some h2, g2)"
      "draw_size sp pp h2 g2 = (Some h3, g3)" "draw_dash sp pp h3 g3 = (Some h4, g4)"
      "draw_kick sp pp h4 g4 = (Some h5, g5)" "draw_stamina sp pp h5 g5 = (Some h6, g6)"
      "draw_power sp pp h6 g6 = (Some h7, g7)" "draw_catch sp pp h7 g7 = (Some h', g')"
    using assms(1) by (elim chain_Cons_Some) auto
  note a = draw_speed_Some[OF d(1) assms(2)]
  note b = draw_decay_Some[OF d(2) conjunct1[OF a]]
  note c = draw_size_Some[OF d(3) conjunct1[OF b]]
  note e = draw_dash_Some[OF d(4) conjunct1[OF c]]
  note f = draw_kick_Some[OF d(5) conjunct1[OF e]]
  note i = draw_stamina_Some[OF d(6) conjunct1[OF f]]
  note j = draw_power_Some[OF d(7) conjunct1[OF i]]
  note k = draw_catch_Some[OF d(8) conjunct1[OF j]]
  from a b c e f i j k show ?thesis by blast
qed

lemma trial_type_ok:
  assumes "trial sp pp h g = (Some h', g')" and "rng_ok g"
  shows "type_ok sp pp h'"
proof -
  obtain h1 g1 where
    c: "chain [draw_speed sp pp, draw_decay sp pp, draw_size sp pp, draw_dash sp pp,
               draw_kick sp pp, draw_stamina sp pp, draw_power sp pp, draw_catch sp pp] h g
          = (Some h1, g1)"
    and h': "h' = setDefaultGaussianObservationParams sp (setDefaultObservationParams h1)"
      "speed_in_range sp h'"
    using assms(1)
    by (auto simp: trial_def Let_def simp del: chain.simps split: prod.splits option.splits if_splits)
  show ?thesis
    using chain_type_ok[OF c assms(2)] h' by (simp add: type_ok_def type_ok_observation)
qed

lemma trials_type_ok:
  "rng_ok g \<Longrightarrow> fst (trials n sp pp h g) = setDefault sp h \<or> type_ok sp pp (fst (trials n sp pp h g))"
proof (induction n arbitrary: g)
  case (Suc n)
  obtain r g1 where t: "trial sp pp h g = (r, g1)" by fastforce
  have "rng_ok g1" using trial_rng[OF Suc.prems] t by (metis snd_conv)
  then show ?case using Suc.IH trial_type_ok[of sp pp h g _ g1] Suc.prems t by (cases r) auto
qed simp


end
