(* ===== verification/Hearing.thy ===== *)
theory Hearing
  imports Audio
begin

text \<open>
  Properties of the audio model: in which order cached messages are delivered, what the hearing
  capacity admits, and that the player in focus is heard.
\<close>

section \<open>Taking out a message\<close>

lemma mset_remove_nth: "i < length xs \<Longrightarrow> add_mset (xs ! i) (mset (remove_nth i xs)) = mset xs"
  unfolding remove_nth_def
  by (metis append_take_drop_id Cons_nth_drop_Suc mset_append mset.simps(2) union_mset_add_mset_right)

lemma Unfocused_getMsg_Some:
  assumes "Unfocused_getMsg msgs g = Some ((m, rest), g')" and "rng_ok g"
  shows "mset msgs = add_mset m (mset rest) \<and> rng_ok g'"
proof (cases "length msgs = 1")
  case True
  then obtain x where "msgs = [x]" by (cases msgs) auto
  then show ?thesis using assms by (auto simp: Unfocused_getMsg_def)
next
  case False
  then have len: "1 < length msgs" using assms(1) by (cases msgs) (auto simp: Unfocused_getMsg_def)
  define idx where "idx = nat (fst (irand (int (length msgs)) g))"
  have idx: "idx < length msgs"
    using irand_bounds[OF assms(2), of "int (length msgs)"] len by (cases msgs) (auto simp: idx_def nat_less_iff)
  have "m = msgs ! idx" "rest = remove_nth idx msgs" "g' = stl g"
    using assms(1) False len
    by (auto simp: Unfocused_getMsg_def idx_def Let_def split_beta irand_def split: if_splits)
  then show ?thesis using mset_remove_nth[OF idx] rng_ok_stl[OF assms(2)] by simp
qed

lemma Unfocused_getMsg_total: "msgs \<noteq> [] \<Longrightarrow> \<exists>r. Unfocused_getMsg msgs g = Some r"
  by (simp add: Unfocused_getMsg_def split_beta)

lemma segment_append: "takeWhile P xs @ takeWhile Q (dropWhile P xs) @ dropWhile Q (dropWhile P xs) = xs"
  by (metis takeWhile_dropWhile_id)

lemma Focused_getMsg_Some:
  assumes "Focused_getMsg key msgs g = Some ((m, rest), g')" and "rng_ok g"
  shows "mset msgs = add_mset m (mset rest) \<and> rng_ok g'
    \<and> ((\<exists>x \<in> set msgs. Some (fst x) = key) \<longrightarrow> Some (fst m) = key)"
proof -
  define b fr where "b = takeWhile (\<lambda>e. Some (fst e) \<noteq> key) msgs"
    and "fr = dropWhile (\<lambda>e. Some (fst e) \<noteq> key) msgs"
  define seg where "seg = takeWhile (\<lambda>e. Some (fst e) = key) fr"
  have msgs: "msgs = b @ fr" by (simp add: b_def fr_def)
  show ?thesis
  proof (cases "seg = []")
    case True
    have "fr = []"
    proof (rule ccontr)
      assume "fr \<noteq> []"
      then have "Some (fst (hd fr)) = key" using hd_dropWhile[of "\<lambda>e. Some (fst e) \<noteq> key" msgs]
        by (simp add: fr_def)
      then show False using True \<open>fr \<noteq> []\<close> by (cases fr) (simp_all add: seg_def)
    qed
    then have "\<not> (\<exists>x \<in> set msgs. Some (fst x) = key)"
      by (auto simp: fr_def dropWhile_eq_Nil_conv)
    then show ?thesis
      using assms True Unfocused_getMsg_Some[of msgs g m rest g']
      by (auto simp: Focused_getMsg_def Let_def b_def[symmetric] fr_def[symmetric] seg_def[symmetric])
  next
    case False
    then have "length seg = 1" "m = hd seg" "rest = b @ tl fr" "g' = g"
      using assms(1)
      by (auto simp: Focused_getMsg_def Let_def b_def[symmetric] fr_def[symmetric] seg_def[symmetric]
          split: if_splits)
    moreover obtain x xs where "fr = x # xs" "Some (fst x) = key"
      using False by (cases fr) (auto simp: seg_def split: if_splits)
    ultimately show ?thesis using msgs assms(2) by (auto simp: seg_def)
  qed
qed

lemma getMsg_Some:
  assumes "getMsg e msgs g = Some ((m, rest), g')" and "rng_ok g"
  shows "mset msgs = add_mset m (mset rest) \<and> rng_ok g'
    \<and> (E_focused e \<and> (\<exists>x \<in> set msgs. Some (fst x) = E_key e) \<longrightarrow> Some (fst m) = E_key e)"
  using assms Focused_getMsg_Some[of "E_key e" msgs g m rest g'] Unfocused_getMsg_Some[of msgs g m rest g']
  by (auto simp: getMsg_def split: if_splits)

section \<open>The order of delivery\<close>

text \<open>The abstract view of a cycle: the messages in some order, without any random numbers.\<close>

fun heard_in ::
  "sparam \<Rightarrow> nat \<Rightarrow> ear8 \<Rightarrow> (nat \<times> string) list \<Rightarrow> world \<Rightarrow> world \<times> heard list" where
  "heard_in sp me e [] w = (w, [])"
| "heard_in sp me e (m # ms) w =
     (case sendCachedNonSelfPlayerAudio sp me e (fst m) (snd m) w of
        (w1, out) \<Rightarrow> (case heard_in sp me e ms w1 of (w2, out2) \<Rightarrow> (w2, out @ out2)))"

lemma send_rng:
  "sendCachedNonSelfPlayerAudio sp me e k msg (w\<lparr>w_rng := g\<rparr>) =
     (case sendCachedNonSelfPlayerAudio sp me e k msg w of (w1, out) \<Rightarrow> (w1\<lparr>w_rng := g\<rparr>, out))"
  by (simp add: sendCachedNonSelfPlayerAudio_def Let_def postNonSelfPlayer_def upd_player_def)

lemma send_keeps_rng: "w_rng (fst (sendCachedNonSelfPlayerAudio sp me e k msg w)) = w_rng w"
  by (simp add: sendCachedNonSelfPlayerAudio_def Let_def postNonSelfPlayer_def upd_player_def)

lemma rng_self [simp]: "(w :: world)\<lparr>w_rng := w_rng w\<rparr> = w"
  by (cases w) simp

lemma heard_in_rng:
  "heard_in sp me e ms (w\<lparr>w_rng := g\<rparr>) =
     (case heard_in sp me e ms w of (w1, out) \<Rightarrow> (w1\<lparr>w_rng := g\<rparr>, out))"
proof (induction ms arbitrary: w)
  case (Cons m ms)
  then show ?case
    by (simp add: send_rng split: prod.split)
qed simp

lemma deliver_order:
  assumes "deliver sp me e n msgs w = Some (w', out)" and "rng_ok (w_rng w)"
  shows "\<exists>order. mset order = mset msgs
    \<and> (E_focused e \<and> (\<exists>x \<in> set msgs. Some (fst x) = E_key e) \<longrightarrow> Some (fst (hd order)) = E_key e)
    \<and> heard_in sp me e order w = (w'\<lparr>w_rng := w_rng w\<rparr>, out)"
  using assms
proof (induction sp me e n msgs w arbitrary: w' out rule: deliver.induct)
  case (1 sp me e n w)
  then show ?case by auto
next
  case (2 sp me e m ms w)
  then show ?case by simp
next
  case (3 sp me e n m ms w)
  from "3.prems"(1) obtain k msg rest g w1 out1 out2 where
    get: "getMsg e (m # ms) (w_rng w) = Some (((k, msg), rest), g)"
    and send: "sendCachedNonSelfPlayerAudio sp me e k msg (w\<lparr>w_rng := g\<rparr>) = (w1, out1)"
    and rec: "deliver sp me e n rest w1 = Some (w', out2)" and out: "out = out1 @ out2"
    by (auto split: option.splits prod.splits)
  note get' = getMsg_Some[OF get "3.prems"(2)]
  have w1: "w_rng w1 = g" using send_keeps_rng[of sp me e k msg "w\<lparr>w_rng := g\<rparr>"] send by simp
  have "rng_ok (w_rng w1)" using get' w1 by simp
  from "3.IH"[OF get refl refl refl send[symmetric] rec this] w1
  obtain order where o: "mset order = mset rest"
    "heard_in sp me e order w1 = (w'\<lparr>w_rng := g\<rparr>, out2)" by auto
  obtain v where v: "sendCachedNonSelfPlayerAudio sp me e k msg w = (v, out1)" "w1 = v\<lparr>w_rng := g\<rparr>"
    using send by (auto simp: send_rng split: prod.splits)
  have vr: "w_rng v = w_rng w" using send_keeps_rng[of sp me e k msg w] v by simp
  have v_self: "v\<lparr>w_rng := w_rng w\<rparr> = v" unfolding vr[symmetric] by (rule rng_self)
  have "heard_in sp me e order v = (w'\<lparr>w_rng := w_rng w\<rparr>, out2)"
    using o(2) heard_in_rng[where sp = sp and me = me and e = e and ms = order and w = w1 and g = "w_rng w"] v v_self
    by simp
  then have "heard_in sp me e ((k, msg) # order) w = (w'\<lparr>w_rng := w_rng w\<rparr>, out)"
    using v(1) out by simp
  moreover have "mset ((k, msg) # order) = mset (m # ms)" using get' o(1) by simp
  ultimately show ?case using get' by (intro exI[of _ "(k, msg) # order"]) auto
qed

section \<open>Every message is delivered\<close>

definition focus_once :: "ear8 \<Rightarrow> (nat \<times> string) list \<Rightarrow> bool" where
  "focus_once e msgs \<longleftrightarrow>
     \<not> E_focused e \<or> length (filter (\<lambda>m. Some (fst m) = E_key e) msgs) \<le> 1"

lemma getMsg_total:
  assumes "msgs \<noteq> []" and "focus_once e msgs"
  shows "\<exists>r. getMsg e msgs g = Some r"
proof (cases "E_focused e")
  case True
  define seg where
    "seg = takeWhile (\<lambda>m. Some (fst m) = E_key e) (dropWhile (\<lambda>m. Some (fst m) \<noteq> E_key e) msgs)"
  define P where "P = (\<lambda>m :: nat \<times> string. Some (fst m) = E_key e)"
  have "length (filter P seg) \<le> length (filter P msgs)"
  proof -
    have "filter P (takeWhile (\<lambda>m. \<not> P m) msgs @ seg @ dropWhile P (dropWhile (\<lambda>m. \<not> P m) msgs))
        = filter P msgs"
      unfolding seg_def P_def by (simp only: segment_append)
    from arg_cong[OF this, of length] show ?thesis by simp
  qed
  moreover have "filter P seg = seg" by (auto simp: seg_def P_def filter_id_conv dest: set_takeWhileD)
  ultimately have "length seg \<le> 1" using assms(2) True by (simp add: focus_once_def P_def)
  then have "seg = [] \<or> length seg = 1" by (cases seg) auto
  then show ?thesis
    using True Unfocused_getMsg_total[OF assms(1)]
    by (auto simp: getMsg_def Focused_getMsg_def Let_def seg_def[symmetric])
next
  case False
  then show ?thesis using Unfocused_getMsg_total[OF assms(1), of g] by (simp add: getMsg_def)
qed

lemma focus_once_rest:
  assumes "mset msgs = add_mset m (mset rest)" and "focus_once e msgs"
  shows "focus_once e rest"
proof -
  have "length (filter P rest) \<le> length (filter P msgs)" for P
  proof -
    have "size (filter_mset P (mset rest)) \<le> size (filter_mset P (mset msgs))"
      using assms(1) by simp
    then show ?thesis by (metis mset_filter size_mset)
  qed
  then show ?thesis using assms(2) order_trans unfolding focus_once_def by blast
qed

lemma deliver_total:
  assumes "length msgs \<le> n" and "focus_once e msgs" and "rng_ok (w_rng w)"
  shows "\<exists>w' out. deliver sp me e n msgs w = Some (w', out)"
  using assms
proof (induction sp me e n msgs w rule: deliver.induct)
  case (3 sp me e n m ms w)
  obtain k msg rest g where get: "getMsg e (m # ms) (w_rng w) = Some (((k, msg), rest), g)"
    using getMsg_total[OF _ "3.prems"(2)] by fastforce
  obtain w1 out1 where send: "sendCachedNonSelfPlayerAudio sp me e k msg (w\<lparr>w_rng := g\<rparr>) = (w1, out1)"
    by fastforce
  note get' = getMsg_Some[OF get "3.prems"(3)]
  have "size (mset (m # ms)) = size (add_mset (k, msg) (mset rest))" using get' by simp
  then have "length rest \<le> n" using "3.prems"(1) by simp
  moreover have "rng_ok (w_rng w1)"
    using get' send send_keeps_rng[of sp me e k msg "w\<lparr>w_rng := g\<rparr>"] by simp
  ultimately have "\<exists>w' out. deliver sp me e n rest w1 = Some (w', out)"
    using "3.IH"[OF get refl refl refl send[symmetric]] focus_once_rest[of "m # ms" "(k, msg)" rest e]
      get' "3.prems"(2) by simp
  then show ?case using get send by auto
qed simp_all


text \<open>A message of the player in focus is heard in full, whatever the random choices are, if the
  capacity for his side pays for one message and the ear is on for complete messages of it.\<close>

theorem focus_heard:
  assumes "rng_ok (w_rng w)" and "getFocusTarget e = Some k"
    and "filter (\<lambda>m. fst m = k) (E_player_msgs e) = [(k, msg)]"
    and "canHearFullFrom sp (pl w k) (pl w me)" and "ear_complete (M_side (pl w k)) e"
  shows "\<exists>w' e' out. newCycle sp me e w = Some (w', e', out)
    \<and> (if M_side (pl w me) = M_side (pl w k)
        then AllyAudioFull (M_time w) (Rad2IDeg (angleFromBody (M_pos (pl w k)) (pl w me)))
               (M_unum (pl w k)) msg
        else OppAudioFull (M_time w) (Rad2IDeg (angleFromBody (M_pos (pl w k)) (pl w me))) msg) \<in> set out"
proof -
  have foc: "E_focused e" "E_key e = Some k"
    using assms(2) by (auto simp: getFocusTarget_def split: if_splits)
  have once: "focus_once e (E_player_msgs e)" using foc assms(3) by (simp add: focus_once_def)
  have here: "(k, msg) \<in> set (E_player_msgs e)"
  proof -
    have "(k, msg) \<in> set (filter (\<lambda>m. fst m = k) (E_player_msgs e))" unfolding assms(3) by simp
    then show ?thesis by simp
  qed
  obtain w' out where d: "deliver sp me e (length (E_player_msgs e)) (E_player_msgs e) w = Some (w', out)"
    using deliver_total[OF le_refl once assms(1)] by blast
  obtain order where o: "mset order = mset (E_player_msgs e)" "Some (fst (hd order)) = E_key e"
    "heard_in sp me e order w = (w'\<lparr>w_rng := w_rng w\<rparr>, out)"
    using deliver_order[OF d assms(1)] foc here by force
  have set: "set order = set (E_player_msgs e)" using mset_eq_setD[OF o(1)] .
  then obtain x xs where x: "order = x # xs" using here by (cases order) auto
  then have "x \<in> set (filter (\<lambda>m. fst m = k) (E_player_msgs e))" using o(2) foc set by auto
  then have "x = (k, msg)" using assms(3) by simp
  then show ?thesis
    using o(3) x d assms(4,5)
    by (auto simp: newCycle_def sendCachedNonSelfPlayerAudio_def Let_def split: prod.splits)
qed

text \<open>Two cached messages of the player in focus make the delivery undefined.\<close>

theorem focused_twice:
  assumes "E_focused e" and "E_key e = Some k" and "k \<notin> fst ` set pre"
    and "E_player_msgs e = pre @ (k, a) # (k, b) # post"
  shows "newCycle sp me e w = None"
proof -
  have d: "dropWhile (\<lambda>m. Some (fst m) \<noteq> Some k) (pre @ (k, a) # (k, b) # post) = (k, a) # (k, b) # post"
    using assms(3) by (intro dropWhile_append2[THEN trans]) (auto simp: image_iff)
  have get: "getMsg e (E_player_msgs e) g = None" for g
    using assms d by (simp add: getMsg_def Focused_getMsg_def Let_def)
  obtain x xs where c: "E_player_msgs e = x # xs" using assms(4) by (cases pre) auto
  show ?thesis using get c by (simp add: newCycle_def)
qed

section \<open>Hearing capacity\<close>

definition ally_full :: "heard list \<Rightarrow> nat" where
  "ally_full out = length (filter (\<lambda>h. case h of AllyAudioFull _ _ _ _ \<Rightarrow> True | _ \<Rightarrow> False) out)"

definition opp_full :: "heard list \<Rightarrow> nat" where
  "opp_full out = length (filter (\<lambda>h. case h of OppAudioFull _ _ _ \<Rightarrow> True | _ \<Rightarrow> False) out)"

definition within_capacity :: "sparam \<Rightarrow> int \<Rightarrow> int \<Rightarrow> nat \<Rightarrow> bool" where
  "within_capacity sp cap cap' n \<longleftrightarrow> cap' = cap - int n * hearDecay sp \<and> (n = 0 \<or> 0 \<le> cap')"

lemma full_append [simp]:
  "ally_full (xs @ ys) = ally_full xs + ally_full ys"
  "opp_full (xs @ ys) = opp_full xs + opp_full ys"
  by (simp_all add: ally_full_def opp_full_def)

lemma send_capacity:
  assumes "sendCachedNonSelfPlayerAudio sp me e k msg w = (w1, out)" and "me < length (M_players w)"
  shows "within_capacity sp (M_hear_capacity_from_teammate (pl w me))
           (M_hear_capacity_from_teammate (pl w1 me)) (ally_full out)"
    "within_capacity sp (M_hear_capacity_from_opponent (pl w me))
           (M_hear_capacity_from_opponent (pl w1 me)) (opp_full out)"
    "length (M_players w1) = length (M_players w)"
  using assms
  by (auto simp: sendCachedNonSelfPlayerAudio_def postNonSelfPlayer_def upd_player_def Let_def
      canHearFullFrom_def decrementHearCapacity_def within_capacity_def ally_full_def opp_full_def
      split: if_splits)

lemma within_capacity_trans:
  "within_capacity sp a b m \<Longrightarrow> within_capacity sp b c n \<Longrightarrow> 0 \<le> hearDecay sp \<Longrightarrow>
     within_capacity sp a c (m + n)"
  by (auto simp: within_capacity_def algebra_simps)

lemma deliver_capacity:
  assumes "deliver sp me e n msgs w = Some (w', out)" and "me < length (M_players w)" and "0 \<le> hearDecay sp"
  shows "within_capacity sp (M_hear_capacity_from_teammate (pl w me))
           (M_hear_capacity_from_teammate (pl w' me)) (ally_full out)
    \<and> within_capacity sp (M_hear_capacity_from_opponent (pl w me))
           (M_hear_capacity_from_opponent (pl w' me)) (opp_full out)"
  using assms
proof (induction sp me e n msgs w arbitrary: w' out rule: deliver.induct)
  case (1 sp me e n w)
  then show ?case by (auto simp: within_capacity_def ally_full_def opp_full_def)
next
  case (3 sp me e n m ms w)
  from "3.prems"(1) obtain k msg rest g w1 out1 out2 where
    get: "getMsg e (m # ms) (w_rng w) = Some (((k, msg), rest), g)"
    and send: "sendCachedNonSelfPlayerAudio sp me e k msg (w\<lparr>w_rng := g\<rparr>) = (w1, out1)"
    and rec: "deliver sp me e n rest w1 = Some (w', out2)" and out: "out = out1 @ out2"
    by (auto split: option.splits prod.splits)
  have me: "me < length (M_players (w\<lparr>w_rng := g\<rparr>))" using "3.prems"(2) by simp
  note s = send_capacity[OF send me]
  have "me < length (M_players w1)" using s(3) me by simp
  from "3.IH"[OF get refl refl refl send[symmetric] rec this "3.prems"(3)] s(1,2) out "3.prems"(3)
  show ?case by (auto intro: within_capacity_trans)
qed simp

text \<open>C29: in one cycle a player hears in full at most as many messages of team-mates, and of
  opponents, as his hearing capacity pays for; each costs the hearing decay.\<close>

theorem hearing_capacity:
  assumes "newCycle sp me e w = Some (w', e', out)" and "me < length (M_players w)"
    and "0 \<le> hearDecay sp"
  shows "int (ally_full out) * hearDecay sp \<le> max 0 (M_hear_capacity_from_teammate (pl w me))
    \<and> int (opp_full out) * hearDecay sp \<le> max 0 (M_hear_capacity_from_opponent (pl w me))
    \<and> M_hear_capacity_from_teammate (pl w' me)
        = M_hear_capacity_from_teammate (pl w me) - int (ally_full out) * hearDecay sp"
proof -
  obtain out2 where d: "deliver sp me e (length (E_player_msgs e)) (E_player_msgs e) w = Some (w', out2)"
    and out: "out = concat (map (\<lambda>(s, msg). sendCoachAudio_v7 me s msg w) (E_coach_msgs e))
      @ concat (map (\<lambda>msg. sendSelfAudio me msg w) (E_self_msgs e)) @ out2"
    using assms(1) by (auto simp: newCycle_def)
  have none: "ally_full (concat (map (\<lambda>(s, msg). sendCoachAudio_v7 me s msg w) xs)) = 0"
    "opp_full (concat (map (\<lambda>(s, msg). sendCoachAudio_v7 me s msg w) xs)) = 0" for xs
    by (auto simp: ally_full_def opp_full_def sendCoachAudio_v7_def filter_empty_conv)
  have none2: "ally_full (concat (map (\<lambda>msg. sendSelfAudio me msg w) ys)) = 0"
    "opp_full (concat (map (\<lambda>msg. sendSelfAudio me msg w) ys)) = 0" for ys
    by (auto simp: ally_full_def opp_full_def sendSelfAudio_def filter_empty_conv)
  have "ally_full out = ally_full out2" "opp_full out = opp_full out2"
    using none none2 by (simp_all add: out)
  then show ?thesis
    using deliver_capacity[OF d assms(2,3)] by (auto simp: within_capacity_def)
qed

end
