(* ===== verification/ClientExamples.thy ===== *)
theory ClientExamples
  imports Examples Standings Sight Bench Hetero Hearing
begin

text \<open>
  The match of Examples with coaches and clients: the theorems about the server as a machine, the
  coaches, the player types, hearing and sight are applied to it.
\<close>

section \<open>The machine\<close>

text \<open>A second left player joins, and the trainer moves the ball.\<close>

definition after_join :: world where
  "after_join = snd (initPlayer default_param True True ''A'' 18 True match)"

definition after_move_ball :: world where
  "after_move_ball = moveBall (PVector 10 5) (PVector 0 0) (clearBallCatcher after_join)"

theorem match_history_witness:
  "team_le (M_team_l match) (M_team_l after_move_ball)
   \<and> map ident (M_players after_move_ball) = map ident (M_players match)"
proof -
  have "event default_param match_param 1 match after_join"
    unfolding after_join_def by (rule event.Join) (rule prod.collapse[symmetric])
  moreover have "Coach_parse_command default_param match_param (changePlayMode default_param 1)
      (T_move 3 ''(ball)'' None (PVector 10 5) 0 (PVector 0 0)) after_join new_Coach
      = Some (after_move_ball, new_Coach, [Reply ''(ok move)''])"
    by (simp add: parse_move_def move_ball_command_def after_move_ball_def Let_def)
  then have "event default_param match_param 1 after_join after_move_ball" by (rule event.Trainer)
  ultimately have "(event default_param match_param 1)\<^sup>*\<^sup>* match after_move_ball"
    by (metis rtranclp.rtrancl_refl rtranclp.rtrancl_into_rtrancl)
  from match_history[OF this] show ?thesis by blast
qed


section \<open>Coaches\<close>

text \<open>The left team has eleven players, all of the default type.\<close>

definition eleven :: world where
  "eleven = upd_team LEFT (\<lambda>t. t\<lparr>T_size := 11, T_ptype_count := (ptype_zero match_param)(- 1 \<mapsto> 11)\<rparr>) match"

lemma eleven_ok: "bench_ok LEFT eleven"
  using match_ident by (simp add: bench_ok_def eleven_def upd_team_def team_def MAX_PLAYER_def)

theorem substitution_limits_witness:
  "subs_ok match_param
     (team LEFT (fst (OnlineCoach_change_player_type default_param match_param LEFT 3 0 eleven)))"
proof -
  have t: "T_subs_count (team LEFT eleven) = 0"
    "T_ptype_count (team LEFT eleven) = (ptype_zero match_param)(- 1 \<mapsto> 11)"
    "T_ptype_used_count (team LEFT eleven) = ptype_zero match_param"
    by (simp_all add: eleven_def upd_team_def team_def match_def map_players_def empty_pitch_def
        new_world_def new_Team_def named_def Let_def)
  have m: "1 \<le> ptMax match_param" "0 \<le> subsMax match_param"
    by (simp_all add: match_param_def default_pparam_def)
  have "subs_ok match_param (team LEFT eleven)"
    using m by (simp add: subs_ok_def ptypeCount_def ptypeUsedCount_def t ptype_zero_def)
  from substitution_limits[OF eleven_ok this m(1) prod.collapse[symmetric]] show ?thesis by blast
qed

definition advice :: "string \<Rightarrow> clang_msg" where
  "advice s = \<lparr>Msg_type = ADVICE, Msg_time_recv = 0, Msg_time_send = 0, Msg_side = NEUTRAL,
               Msg_min_ver = 7, Msg_max_ver = 8, Msg_text = s\<rparr>"

definition one_left :: olcoach where
  "one_left = (new_OnlineCoach default_param LEFT)\<lparr>OC_advice_messages_left := 1\<rparr>"


definition waiting :: olcoach where
  "waiting = one_left\<lparr>OC_message_queue := [advice ''a'', advice ''b'']\<rparr>"

text \<open>Two messages are sent, although one per cycle is configured.\<close>

theorem queue_flushed_witness:
  "clangMessPerCycle default_param = 1
   \<and> length (snd (check_message_queue default_param 100 match waiting)) = 2"
proof -
  have m: "clangMessPerCycle default_param = 1" by (simp add: default_param_def)
  have "message_due default_param 100 match (advice s)" for s
    by (simp add: message_due_def match_reads)
  then show ?thesis
    using queue_flushed[of default_param 100 match waiting] m by (simp add: waiting_def)
qed

theorem one_goalie_witness:
  "\<exists>w' out. OnlineCoach_change_player_type_goalie LEFT 3 eleven = (w', out)
     \<and> (\<exists>i. filter (\<lambda>i. M_goalie (pl w' i)) (enabled_slots LEFT w') = [i] \<and> M_unum (pl w' i) = 3)"
proof -
  have pl: "pl eleven i = pl match i" for i by (simp add: eleven_def upd_team_def)
  have slots: "team_slots LEFT eleven = [0,1,2,3,4,5,6,7,8,9,10]"
    by (simp add: team_slots_def team_def eleven_def upd_team_def slot_def upt_rec)
  have en: "enabled_slots LEFT eleven = [0,1,2,3,4,5,6,7,8,9,10]"
    using match_player(3) by (simp add: enabled_slots_def slots pl)
  have goalie: "\<not> M_goalie (pl eleven i)" "M_unum (pl eleven i) = int i + 1" if "i < 11" for i
    using match_player(2,6)[of i] that by (simp_all add: pl)
  have pm: "M_playmode eleven = PM_BeforeKickOff" by (simp add: eleven_def upd_team_def match_reads)
  let ?r = "OnlineCoach_change_player_type_goalie LEFT 3 eleven"
  have "fst ?r = upd_player 2 changeToGoalie eleven"
    using goalie match_player(3)[of 2]
    by (simp add: OnlineCoach_change_player_type_goalie_def change_player_type_goalie_impl_def
        changePlayerToGoalie_def en slots pl pm)
  moreover have "M_goalie (pl (upd_player 2 changeToGoalie eleven) 2)"
    by (simp add: upd_player_def changeToGoalie_def setEnable_def eleven_def upd_team_def
        match_players(1) Let_def)
  ultimately have "fst ?r \<noteq> eleven" using goalie(1)[of 2] by auto
  from one_goalie[OF eleven_ok prod.collapse[symmetric] this] show ?thesis by (metis prod.collapse)
qed

section \<open>Player types\<close>


section \<open>Hearing\<close>

lemma match_rng: "rng_ok (w_rng match)"
  by (simp add: match_def upd_team_def map_players_def empty_pitch_def new_world_def Let_def
      rng_ok_sconst)

text \<open>The first player has cached a word of a team-mate and one of an opponent.\<close>

definition two_words :: ear8 where
  "two_words = new_ear8\<lparr>E_player_msgs := [(3, ''left''), (14, ''out'')]\<rparr>"


theorem focus_heard_witness:
  "\<exists>w' e' out. newCycle default_param 0 (focusOn 3 two_words) match = Some (w', e', out)
     \<and> AllyAudioFull 0 (Rad2IDeg (angleFromBody (M_pos (pl match 3)) (pl match 0))) 4 ''left'' \<in> set out"
proof -
  have cap: "M_hear_capacity_from_teammate (pl match 0) = hearMax default_param"
    by (simp add: match_players(2) on_pitch_def new_player_def recoverAll_def
        recoverStaminaCapacity_def setPlayerType_def Let_def)
  have "canHearFullFrom default_param (pl match 3) (pl match 0)"
    using match_player(1)[of 0] match_player(1)[of 3] cap
    by (simp add: canHearFullFrom_def default_param_def)
  moreover have "getFocusTarget (focusOn 3 two_words) = Some 3"
    "filter (\<lambda>m. fst m = 3) (E_player_msgs (focusOn 3 two_words)) = [(3, ''left'')]"
    "ear_complete (M_side (pl match 3)) (focusOn 3 two_words)"
    using match_player(1)[of 3]
    by (simp_all add: getFocusTarget_def focusOn_def two_words_def new_ear8_def ear_complete_def)
  ultimately show ?thesis
    using focus_heard[OF match_rng, of "focusOn 3 two_words" 3 "''left''" default_param 0]
      match_player(1)[of 0] match_player(1,2)[of 3]
    by (simp add: match_reads)
qed

theorem hearing_capacity_witness:
  "\<exists>w' e' out. newCycle default_param 0 two_words match = Some (w', e', out)
     \<and> int (ally_full out) * hearDecay default_param \<le> hearMax default_param"
proof -
  have cap: "M_hear_capacity_from_teammate (pl match 0) = hearMax default_param"
    by (simp add: match_players(2) on_pitch_def new_player_def recoverAll_def
        recoverStaminaCapacity_def setPlayerType_def Let_def)
  have "focus_once two_words (E_player_msgs two_words)"
    by (simp add: focus_once_def two_words_def new_ear8_def)
  then obtain v o' where "deliver default_param 0 two_words (length (E_player_msgs two_words))
      (E_player_msgs two_words) match = Some (v, o')"
    using deliver_total[OF order_refl _ match_rng] by blast
  then obtain w' e' out where n: "newCycle default_param 0 two_words match = Some (w', e', out)"
    by (simp add: newCycle_def)
  have "0 \<le> hearDecay default_param" "0 \<le> hearMax default_param" by (simp_all add: default_param_def)
  with hearing_capacity[OF n] n cap show ?thesis by (auto simp: match_players(1))
qed

section \<open>Sight\<close>

definition watcher :: player where
  "watcher = runner\<lparr>M_pos := PVector 10 5, M_version := 18\<rparr>"

theorem line_ahead_witness:
  "\<exists>s l. sendLines default_param V18 watcher = [s] \<and> V_obj s = Line l \<and> looks_at_line watcher l"
  by (rule line_ahead) (simp_all add: on_the_pitch_def watcher_def)

theorem distance_told_witness:
  "fst (calcDist default_param (\<lambda>u. u) False watcher 10 10 (sconst 0))
     \<le> fst (calcDist default_param (\<lambda>u. u) False watcher 20 20 (sconst 0))"
proof -
  have "0 < distQStep default_param" by (simp add: distQStep_def default_param_def)
  from distance_told[OF this _ _ prod.collapse[symmetric] prod.collapse[symmetric], of 10 20]
  show ?thesis by auto
qed

end
