(* ===== verification/Timers.thy ===== *)
theory Timers
  imports Coach Degrees
begin

text \<open>
  The clocks of the server (stdtimer.cpp, synctimer.cpp), the intervals they work with
  (serverparam.cpp) and the wait for the clients of the synchronous mode
  (\<^verbatim>\<open>Stadium::doSendThink\<close>).  A timer is the state of the local variables of
  \<^verbatim>\<open>run\<close>; one pass of its loop yields the new state and the calls it makes on the
  \<^verbatim>\<open>Timeable\<close>, in order.  The time a pass took and the messages that have arrived are
  inputs.
\<close>

section \<open>Intervals (serverparam.cpp)\<close>

text \<open>An \<^verbatim>\<open>int\<close> result out of range is undefined: \<open>None\<close>.\<close>

definition int32 :: "int \<Rightarrow> int option" where
  "int32 x = (if - (2 ^ 31) \<le> x \<and> x < 2 ^ 31 then Some x else None)"

text \<open>\<^verbatim>\<open>lcm\<close>: the multiples of the larger argument are tried in turn.  The C++ remainder is
  zero exactly when the divisor divides; a remainder by zero is undefined.\<close>

function lcm_loop :: "int \<Rightarrow> int \<Rightarrow> int \<Rightarrow> int \<Rightarrow> int option" where
  "lcm_loop a b larger idx0 =
     (let idx = idx0 + 1; tmp = larger * idx
      in if a = 0 \<or> b = 0 \<or> int32 tmp = None \<or> int32 idx = None then None
         else if \<not> a dvd tmp \<or> \<not> b dvd tmp then lcm_loop a b larger idx
         else Some tmp)"
  by pat_completeness auto

termination
  by (relation "measure (\<lambda>(a, b, larger, idx). nat (2 ^ 31 - idx))")
    (auto simp: int32_def split: if_splits)

declare lcm_loop.simps [simp del]

definition lcm_cpp :: "int \<Rightarrow> int \<Rightarrow> int option" where
  "lcm_cpp a b = lcm_loop a b (max a b) 0"

record timing =
  M_simulator_step :: int
  M_sense_body_step :: int
  M_send_vi_step :: int
  M_send_step :: int
  M_recv_step :: int
  M_lcm_step :: int
  M_synch_offset :: int
  M_synch_see_offset :: int
  M_synch_mode :: bool
  M_synch_micro_sleep :: int
  M_slow_down_factor :: int
  M_raw_half_time :: int
  M_half_time :: int
  M_raw_extra_half_time :: int
  M_extra_half_time :: int

text \<open>The values of \<^verbatim>\<open>setDefaults\<close>.\<close>

definition timing_defaults :: timing where
  "timing_defaults =
     \<lparr>M_simulator_step = 100, M_sense_body_step = 100, M_send_vi_step = 100, M_send_step = 150,
      M_recv_step = 10, M_lcm_step = 300, M_synch_offset = 60, M_synch_see_offset = 0,
      M_synch_mode = False, M_synch_micro_sleep = 1, M_slow_down_factor = 1,
      M_raw_half_time = 300, M_half_time = 3000, M_raw_extra_half_time = 100, M_extra_half_time = 1000\<rparr>"

definition lcm_step :: "timing \<Rightarrow> int option" where
  "lcm_step T = do {
     a \<leftarrow> lcm_cpp (max (M_synch_see_offset T) 1) (if M_synch_mode T then M_synch_offset T else 1);
     b \<leftarrow> lcm_cpp (M_send_vi_step T) a;
     c \<leftarrow> lcm_cpp (M_sense_body_step T) b;
     d \<leftarrow> lcm_cpp (M_recv_step T) c;
     e \<leftarrow> lcm_cpp (M_send_step T) d;
     lcm_cpp (M_simulator_step T) e }"

text \<open>The quotient of two \<^verbatim>\<open>int\<close>s is truncated; a division by zero is undefined in C++ and the
  callers keep the factor positive.  A simulator step shorter than the factor would make the
  quotient \<open>0\<close> and the scaler infinite.\<close>

definition cdiv :: "int \<Rightarrow> int \<Rightarrow> int" where
  "cdiv a b = sgn a * sgn b * (\<bar>a\<bar> div \<bar>b\<bar>)"

definition getHalfTimeScaler :: "timing \<Rightarrow> real" where
  "getHalfTimeScaler T =
     (let value = 1000 / of_int (cdiv (M_simulator_step T) (M_slow_down_factor T))
      in if value \<noteq> 0 then value else EPS)"

definition setHalfTime :: "int \<Rightarrow> timing \<Rightarrow> timing" where
  "setHalfTime value T =
     T\<lparr>M_raw_half_time := value,
       M_half_time := trunc_real (of_int value * getHalfTimeScaler T + 0.5)\<rparr>"

definition setExtraHalfTime :: "int \<Rightarrow> timing \<Rightarrow> timing" where
  "setExtraHalfTime value T =
     T\<lparr>M_raw_extra_half_time := (if value < 0 then 0 else value),
       M_extra_half_time := trunc_real (of_int value * getHalfTimeScaler T + 0.5)\<rparr>"

definition setSlowDownFactor :: "timing \<Rightarrow> timing option" where
  "setSlowDownFactor T = do {
     let f = max 1 (M_slow_down_factor T);
     sim \<leftarrow> int32 (M_simulator_step T * f);
     sb \<leftarrow> int32 (M_sense_body_step T * f);
     vi \<leftarrow> int32 (M_send_vi_step T * f);
     send \<leftarrow> int32 (M_send_step T * f);
     off \<leftarrow> int32 (M_synch_offset T * f);
     see \<leftarrow> int32 (M_synch_see_offset T * f);
     let T1 = T\<lparr>M_slow_down_factor := f, M_simulator_step := sim, M_sense_body_step := sb,
                M_send_vi_step := vi, M_send_step := send, M_synch_offset := off,
                M_synch_see_offset := see\<rparr>;
     l \<leftarrow> lcm_step T1;
     let T2 = T1\<lparr>M_lcm_step := l\<rparr>;
     Some (T2\<lparr>M_half_time := trunc_real (of_int (M_raw_half_time T2) * getHalfTimeScaler T2 + 0.5),
              M_extra_half_time :=
                trunc_real (of_int (M_raw_extra_half_time T2) * getHalfTimeScaler T2 + 0.5)\<rparr>) }"

definition setSynchMode :: "bool \<Rightarrow> timing \<Rightarrow> timing option" where
  "setSynchMode value T =
     (if M_synch_mode T \<noteq> value
      then let T1 = T\<lparr>M_synch_mode := value\<rparr>
           in map_option (\<lambda>l. T1\<lparr>M_lcm_step := l\<rparr>) (lcm_step T1)
      else Some T)"

definition getRawSimStep :: "timing \<Rightarrow> int" where
  "getRawSimStep T = cdiv (M_simulator_step T) (M_slow_down_factor T)"

definition getRawSenseBodyStep :: "timing \<Rightarrow> int" where
  "getRawSenseBodyStep T = cdiv (M_sense_body_step T) (M_slow_down_factor T)"

definition getRawCoachVisualStep :: "timing \<Rightarrow> int" where
  "getRawCoachVisualStep T = cdiv (M_send_vi_step T) (M_slow_down_factor T)"

definition getRawSendStep :: "timing \<Rightarrow> int" where
  "getRawSendStep T = cdiv (M_send_step T) (M_slow_down_factor T)"

definition getRawSynchOffset :: "timing \<Rightarrow> int" where
  "getRawSynchOffset T = cdiv (M_synch_offset T) (M_slow_down_factor T)"

section \<open>The timers\<close>

datatype tcall = RecvFromClients | NewSimulatorStep | SendSenseBody | SendVisuals
  | SendSynchVisuals | SendCoachMessages | SendThink | Quit

record timer =
  lcmt :: real
  c_simt :: int
  c_sent :: int
  c_rect :: int
  c_sbt :: int
  c_svt :: int
  c_synch :: int
  c_synch_see :: int
  sent_synch_see :: bool

definition timer_start :: timer where
  "timer_start = \<lparr>lcmt = 0, c_simt = 1, c_sent = 1, c_rect = 1, c_sbt = 1, c_svt = 1, c_synch = 1,
                  c_synch_see = 1, sent_synch_see = False\<rparr>"

definition TIMEDELTA :: real where "TIMEDELTA = 10"

text \<open>The numbers of messages in one sequence.\<close>

definition q_simt :: "timing \<Rightarrow> int" where "q_simt T = cdiv (M_lcm_step T) (M_simulator_step T)"
definition q_sent :: "timing \<Rightarrow> int" where "q_sent T = cdiv (M_lcm_step T) (M_send_step T) * 4"
definition q_rect :: "timing \<Rightarrow> int" where "q_rect T = cdiv (M_lcm_step T) (M_recv_step T)"
definition q_sbt :: "timing \<Rightarrow> int" where "q_sbt T = cdiv (M_lcm_step T) (M_sense_body_step T)"
definition q_svt :: "timing \<Rightarrow> int" where "q_svt T = cdiv (M_lcm_step T) (M_send_vi_step T)"

text \<open>The blocks of the loop: a test, perhaps a call, and the counter.\<close>

type_synonym pass = "timer \<times> tcall list"

definition catch_up :: "int \<Rightarrow> real \<Rightarrow> real \<Rightarrow> int" where
  "catch_up q s l = (if q \<le> \<lfloor>l / s\<rfloor> then 1 else \<lfloor>l / s\<rfloor> + 1)"

definition recv_block :: "timing \<Rightarrow> pass \<Rightarrow> pass" where
  "recv_block T = (\<lambda>(t, cs).
     if lcmt t \<ge> of_int (M_recv_step T * c_rect t)
     then (t\<lparr>c_rect := catch_up (q_rect T) (of_int (M_recv_step T)) (lcmt t)\<rparr>, cs @ [RecvFromClients])
     else (t, cs))"

definition sim_block :: "timing \<Rightarrow> pass \<Rightarrow> pass" where
  "sim_block T = (\<lambda>(t, cs).
     if lcmt t \<ge> of_int (M_simulator_step T * c_simt t)
     then (t\<lparr>c_simt := (if q_simt T \<le> c_simt t then 1 else c_simt t + 1), sent_synch_see := False\<rparr>,
           cs @ [NewSimulatorStep])
     else (t, cs))"

definition sense_block :: "timing \<Rightarrow> pass \<Rightarrow> pass" where
  "sense_block T = (\<lambda>(t, cs).
     if lcmt t \<ge> of_int (M_sense_body_step T * c_sbt t)
     then (t\<lparr>c_sbt := catch_up (q_sbt T) (of_int (M_sense_body_step T)) (lcmt t)\<rparr>, cs @ [SendSenseBody])
     else (t, cs))"

definition visual_block :: "timing \<Rightarrow> pass \<Rightarrow> pass" where
  "visual_block T = (\<lambda>(t, cs).
     if lcmt t \<ge> (of_int (M_send_step T) * 0.25) * of_int (c_sent t)
     then (t\<lparr>c_sent := catch_up (q_sent T) (of_int (M_send_step T) * 0.25) (lcmt t)\<rparr>, cs @ [SendVisuals])
     else (t, cs))"

definition synch_see_block :: "timing \<Rightarrow> pass \<Rightarrow> pass" where
  "synch_see_block T = (\<lambda>(t, cs).
     if \<not> sent_synch_see t
        \<and> lcmt t \<ge> of_int (M_simulator_step T * (c_synch_see t - 1) + M_synch_see_offset T)
     then (t\<lparr>c_synch_see := c_synch_see t + 1, sent_synch_see := True\<rparr>, cs @ [SendSynchVisuals])
     else (t, cs))"

definition coach_block :: "timing \<Rightarrow> pass \<Rightarrow> pass" where
  "coach_block T = (\<lambda>(t, cs).
     if lcmt t \<ge> of_int (M_send_vi_step T * c_svt t)
     then (t\<lparr>c_svt := catch_up (q_svt T) (of_int (M_send_vi_step T)) (lcmt t)\<rparr>, cs @ [SendCoachMessages])
     else (t, cs))"

definition think_block :: "timing \<Rightarrow> pass \<Rightarrow> pass" where
  "think_block T = (\<lambda>(t, cs).
     if lcmt t \<ge> of_int (M_simulator_step T * (c_synch t - 1) + M_synch_offset T)
     then (t\<lparr>c_synch := c_synch t + 1\<rparr>, cs @ [SendThink])
     else (t, cs))"

text \<open>The end of a sequence; \<^verbatim>\<open>c_synch\<close> is a variable of the synchronous timer only.\<close>

definition reset_block :: "timing \<Rightarrow> pass \<Rightarrow> pass" where
  "reset_block T = (\<lambda>(t, cs).
     if lcmt t \<ge> of_int (M_lcm_step T)
     then (t\<lparr>lcmt := 0, c_synch := 1, c_synch_see := 1\<rparr>, cs)
     else (t, cs))"

text \<open>One pass of \<^verbatim>\<open>SyncTimer::run\<close>.\<close>

definition sync_pass :: "timing \<Rightarrow> timer \<Rightarrow> pass" where
  "sync_pass T t =
     reset_block T (think_block T (coach_block T (synch_see_block T (visual_block T
       (sense_block T (sim_block T (t\<lparr>lcmt := lcmt t + TIMEDELTA\<rparr>, [])))))))"

text \<open>One pass of \<^verbatim>\<open>StandardTimer::run\<close>, \<open>elapsed\<close> milliseconds after the start of the one
  before: it sleeps for the rest of the interval, which the runtime ends at once when it is
  negative.\<close>

definition real_time :: "real \<Rightarrow> real" where
  "real_time elapsed =
     (let sleep_count = TIMEDELTA - elapsed
      in if sleep_count < 0 then elapsed else sleep_count + elapsed)"

definition skip_block :: "timing \<Rightarrow> timer \<Rightarrow> timer" where
  "skip_block T t =
     (if lcmt t \<ge> of_int (M_simulator_step T * c_simt t)
      then let c = \<lfloor>lcmt t / of_int (M_simulator_step T)\<rfloor>
           in t\<lparr>c_simt := c, lcmt := of_int (M_simulator_step T * c)\<rparr>
      else t)"

definition std_pass :: "timing \<Rightarrow> real \<Rightarrow> timer \<Rightarrow> pass" where
  "std_pass T elapsed t =
     reset_block T (coach_block T (synch_see_block T (visual_block T (sense_block T (sim_block T
       (recv_block T (skip_block T (t\<lparr>lcmt := lcmt t + real_time elapsed\<rparr>), [])))))))"

text \<open>The loop of a timer on a \<^verbatim>\<open>Timeable\<close> with state \<open>w\<close>: \<open>body i\<close> is its \<open>i\<close>-th pass.  It
  does not end while the server is alive, hence the fuel.\<close>

fun timer_run :: "(nat \<Rightarrow> timer \<Rightarrow> pass) \<Rightarrow> ('w \<Rightarrow> bool) \<Rightarrow> (tcall \<Rightarrow> 'w \<Rightarrow> 'w) \<Rightarrow> nat \<Rightarrow> nat \<Rightarrow> timer \<Rightarrow> 'w
    \<Rightarrow> 'w option" where
  "timer_run body alive exec 0 i t w = (if alive w then None else Some (exec Quit w))"
| "timer_run body alive exec (Suc n) i t w =
     (if alive w then let (t1, cs) = body i t in timer_run body alive exec n (Suc i) t1 (fold exec cs w)
      else Some (exec Quit w))"

definition SyncTimer_run :: "timing \<Rightarrow> ('w \<Rightarrow> bool) \<Rightarrow> (tcall \<Rightarrow> 'w \<Rightarrow> 'w) \<Rightarrow> nat \<Rightarrow> 'w \<Rightarrow> 'w option" where
  "SyncTimer_run T alive exec n w = timer_run (\<lambda>i. sync_pass T) alive exec n 0 timer_start w"

definition StandardTimer_run ::
  "timing \<Rightarrow> (nat \<Rightarrow> real) \<Rightarrow> ('w \<Rightarrow> bool) \<Rightarrow> (tcall \<Rightarrow> 'w \<Rightarrow> 'w) \<Rightarrow> nat \<Rightarrow> 'w \<Rightarrow> 'w option" where
  "StandardTimer_run T elapsed alive exec n w =
     timer_run (\<lambda>i. std_pass T (elapsed i)) alive exec n 0 timer_start w"


section \<open>The sequence length\<close>

lemma int32_Some: "int32 x = Some y \<longleftrightarrow> y = x \<and> - (2 ^ 31) \<le> x \<and> x < 2 ^ 31"
  by (auto simp: int32_def)

lemma int32_le: "0 < i \<Longrightarrow> i \<le> x \<Longrightarrow> x < 2 ^ 31 \<Longrightarrow> int32 x = Some x \<and> int32 i = Some i"
  by (simp add: int32_def)

lemma lcm_loop_lcm:
  assumes "0 < a" "0 < b" "larger = max a b" "0 \<le> idx" "larger * idx < lcm a b"
  shows "lcm_loop a b larger idx = int32 (lcm a b)"
  using assms
proof (induction a b larger idx rule: lcm_loop.induct)
  case (1 a b larger idx)
  let ?tmp = "larger * (idx + 1)"
  have pos: "0 < larger" "0 < lcm a b" using 1(2-4) by (auto simp: lcm_pos_int)
  have "larger dvd lcm a b" using 1(4) by (cases "a \<le> b") (simp_all add: max_def)
  then obtain k where k: "lcm a b = larger * k" by (rule dvdE)
  have "idx < k" using 1(6) pos(1) by (simp add: k mult_less_cancel_left_pos)
  then have le: "?tmp \<le> lcm a b" using pos(1) unfolding k by (intro mult_left_mono) auto
  have idx: "0 < idx + 1" "idx + 1 \<le> ?tmp"
    using 1(5) pos(1) by (auto simp: mult_le_cancel_right1)
  show ?case
  proof (cases "?tmp < 2 ^ 31")
    case False
    then have "int32 ?tmp = None" "int32 (lcm a b) = None" using le by (simp_all add: int32_def)
    then show ?thesis by (subst lcm_loop.simps) simp
  next
    case True
    then have rng: "int32 ?tmp = Some ?tmp" "int32 (idx + 1) = Some (idx + 1)"
      using int32_le[OF idx True] by blast+
    show ?thesis
    proof (cases "a dvd ?tmp \<and> b dvd ?tmp")
      case both: True
      then have "lcm a b dvd ?tmp" by simp
      then have "lcm a b = ?tmp" using zdvd_imp_le[of "lcm a b" ?tmp] le idx by simp
      then show ?thesis using both rng 1(2,3) by (subst lcm_loop.simps) simp
    next
      case no: False
      then have "?tmp \<noteq> lcm a b" by (metis dvd_lcm1 dvd_lcm2)
      then have "?tmp < lcm a b" using le by simp
      then have "lcm_loop a b larger (idx + 1) = int32 (lcm a b)"
        using 1(1)[of "idx + 1" ?tmp] no rng idx 1(2-4) by auto
      then show ?thesis using no rng 1(2,3) by (subst lcm_loop.simps) auto
    qed
  qed
qed

lemma lcm_cpp_lcm: "0 < a \<Longrightarrow> 0 < b \<Longrightarrow> lcm_cpp a b = int32 (lcm a b)"
  unfolding lcm_cpp_def by (rule lcm_loop_lcm) (auto simp: lcm_pos_int)

definition positive_steps :: "timing \<Rightarrow> bool" where
  "positive_steps T \<longleftrightarrow>
     0 < M_simulator_step T \<and> 0 < M_sense_body_step T \<and> 0 < M_send_vi_step T \<and> 0 < M_send_step T
     \<and> 0 < M_recv_step T \<and> 0 < M_synch_offset T"

definition sequence_length :: "timing \<Rightarrow> int" where
  "sequence_length T =
     lcm (M_simulator_step T) (lcm (M_send_step T) (lcm (M_recv_step T) (lcm (M_sense_body_step T)
       (lcm (M_send_vi_step T) (lcm (max (M_synch_see_offset T) 1)
         (if M_synch_mode T then M_synch_offset T else 1))))))"

lemma lcm_ge: "0 < a \<Longrightarrow> 0 < b \<Longrightarrow> (b :: int) \<le> lcm a b"
  by (simp add: lcm_pos_int zdvd_imp_le)

lemma lcm_step_eq:
  assumes "positive_steps T"
  shows "lcm_step T = int32 (sequence_length T)"
proof -
  have chain: "int32 x \<bind> (\<lambda>y. int32 (lcm a y)) = int32 (lcm a x)" if "0 < a" "0 < x" for a x
    using lcm_ge[OF that] that by (auto simp: int32_def)
  have last: "int32 x \<bind> lcm_cpp a = int32 (lcm a x)" if "0 < a" "0 < x" for a x
  proof (cases "int32 x")
    case None
    then show ?thesis using chain[OF that] by simp
  next
    case (Some y)
    then have "y = x" by (simp add: int32_Some)
    then show ?thesis using Some that by (simp add: lcm_cpp_lcm)
  qed
  have step: "int32 x \<bind> (\<lambda>y. lcm_cpp a y \<bind> f) = int32 (lcm a x) \<bind> f"
    if "0 < a" "0 < x" for a x f
    using arg_cong[OF last[OF that], of "\<lambda>m. m \<bind> f"] by (simp add: bind_assoc)
  show ?thesis
    using assms unfolding lcm_step_def sequence_length_def positive_steps_def
    by (cases "M_synch_mode T") (simp_all add: lcm_cpp_lcm step last lcm_pos_int)
qed

lemma sequence_length_dvd:
  "M_simulator_step T dvd sequence_length T" "M_send_step T dvd sequence_length T"
  "M_recv_step T dvd sequence_length T" "M_sense_body_step T dvd sequence_length T"
  "M_send_vi_step T dvd sequence_length T"
  unfolding sequence_length_def by (auto intro: dvd_lcmI1 dvd_lcmI2)

lemma sequence_length_pos: "positive_steps T \<Longrightarrow> 0 < sequence_length T"
  by (auto simp: sequence_length_def positive_steps_def lcm_pos_int)

lemma cdiv_nonneg: "0 \<le> a \<Longrightarrow> 0 < b \<Longrightarrow> cdiv a b = a div b"
  by (cases "a = 0") (simp_all add: cdiv_def)

lemma cdiv_mult: "0 < x \<Longrightarrow> 0 < f \<Longrightarrow> cdiv (x * f) f = x"
  by (simp add: cdiv_nonneg)

text \<open>The intervals after slowing down by \<open>f\<close>; the interval of the network stays.\<close>

definition slowed :: "int \<Rightarrow> timing \<Rightarrow> timing" where
  "slowed f T =
     T\<lparr>M_slow_down_factor := f, M_simulator_step := M_simulator_step T * f,
       M_sense_body_step := M_sense_body_step T * f, M_send_vi_step := M_send_vi_step T * f,
       M_send_step := M_send_step T * f, M_synch_offset := M_synch_offset T * f,
       M_synch_see_offset := M_synch_see_offset T * f\<rparr>"

lemma int32_pos: "0 \<le> x \<Longrightarrow> int32 x = (if x < 2 ^ 31 then Some x else None)"
  by (simp add: int32_def)

lemma slowed_le:
  assumes "positive_steps (slowed f T)" 
  shows "M_simulator_step T * f \<le> sequence_length (slowed f T)"
    "M_sense_body_step T * f \<le> sequence_length (slowed f T)"
    "M_send_vi_step T * f \<le> sequence_length (slowed f T)"
    "M_send_step T * f \<le> sequence_length (slowed f T)"
    "M_synch_see_offset T * f \<le> sequence_length (slowed f T)"
proof -
  let ?L = "sequence_length (slowed f T)"
  have le: "x dvd ?L \<Longrightarrow> x \<le> ?L" for x
    using sequence_length_pos[OF assms] zdvd_imp_le by blast
  have "max (M_synch_see_offset T * f) 1 dvd ?L"
    unfolding sequence_length_def by (auto simp: slowed_def intro!: dvd_lcmI1 dvd_lcmI2)
  from le[OF this] show "M_synch_see_offset T * f \<le> ?L" by simp
qed (use sequence_length_dvd[of "slowed f T"] sequence_length_pos[OF assms] in
      \<open>simp_all add: slowed_def zdvd_imp_le\<close>)

lemma setSlowDownFactor_eq:
  assumes "positive_steps T" "0 \<le> M_synch_see_offset T" "f = max 1 (M_slow_down_factor T)"
  shows "setSlowDownFactor T =
    (if sequence_length (slowed f T) < 2 ^ 31 \<and> M_synch_offset T * f < 2 ^ 31
     then let T1 = (slowed f T)\<lparr>M_lcm_step := sequence_length (slowed f T)\<rparr>
          in Some (T1\<lparr>M_half_time := trunc_real (of_int (M_raw_half_time T1) * getHalfTimeScaler T1 + 0.5),
                      M_extra_half_time :=
                        trunc_real (of_int (M_raw_extra_half_time T1) * getHalfTimeScaler T1 + 0.5)\<rparr>)
     else None)"
proof -
  let ?U = "slowed f T"
  have f: "1 \<le> f" using assms(3) by simp
  have pos: "positive_steps ?U" using assms(1) f by (simp add: positive_steps_def slowed_def)
  have nonneg: "0 \<le> M_simulator_step T * f" "0 \<le> M_sense_body_step T * f" "0 \<le> M_send_vi_step T * f"
    "0 \<le> M_send_step T * f" "0 \<le> M_synch_offset T * f" "0 \<le> M_synch_see_offset T * f"
    using assms(1,2) f by (simp_all add: positive_steps_def)
  have U: "lcm_step ?U = (if sequence_length ?U < 2 ^ 31 then Some (sequence_length ?U) else None)"
    using lcm_step_eq[OF pos] sequence_length_pos[OF pos] by (simp add: int32_pos)
  note le = slowed_le[OF pos]
  show ?thesis
  proof (cases "sequence_length ?U < 2 ^ 31 \<and> M_synch_offset T * f < 2 ^ 31")
    case True
    note lt = le[THEN le_less_trans, OF conjunct1[OF True]]
    have "setSlowDownFactor T =
      (let T1 = ?U\<lparr>M_lcm_step := sequence_length ?U\<rparr>
       in Some (T1\<lparr>M_half_time := trunc_real (of_int (M_raw_half_time T1) * getHalfTimeScaler T1 + 0.5),
                   M_extra_half_time :=
                     trunc_real (of_int (M_raw_extra_half_time T1) * getHalfTimeScaler T1 + 0.5)\<rparr>))"
      unfolding setSlowDownFactor_def Let_def assms(3)[symmetric]
      by (simp only: int32_pos[OF nonneg(1)] int32_pos[OF nonneg(2)] int32_pos[OF nonneg(3)]
          int32_pos[OF nonneg(4)] int32_pos[OF nonneg(5)] int32_pos[OF nonneg(6)] lt True if_True
          Option.bind.simps slowed_def[symmetric] U)
    then show ?thesis using True by simp
  next
    case False
    have "setSlowDownFactor T = None"
      unfolding setSlowDownFactor_def Let_def assms(3)[symmetric]
      using False
      by (simp only: int32_pos[OF nonneg(1)] int32_pos[OF nonneg(2)] int32_pos[OF nonneg(3)]
          int32_pos[OF nonneg(4)] int32_pos[OF nonneg(5)] int32_pos[OF nonneg(6)])
        (auto simp: U slowed_def[symmetric])
    with False show ?thesis by (simp only: if_False)
  qed
qed

text \<open>Slowing the server down by a factor multiplies its intervals by it: the intervals the
  clients are told are the configured ones, a half lasts as many cycles as it would without the
  factor, and the sequence of the timers lasts the least common multiple of the intervals.  It
  fails, by an overflow, exactly when that multiple or the offset leaves the range.\<close>

theorem slow_down:
  assumes "positive_steps T" and "0 \<le> M_synch_see_offset T" and "f = max 1 (M_slow_down_factor T)"
  shows "(setSlowDownFactor T = None \<longleftrightarrow>
       2 ^ 31 \<le> sequence_length (slowed f T) \<or> 2 ^ 31 \<le> M_synch_offset T * f)
     \<and> (setSlowDownFactor T = Some T' \<longrightarrow>
          getRawSimStep T' = M_simulator_step T \<and> getRawSenseBodyStep T' = M_sense_body_step T
          \<and> getRawCoachVisualStep T' = M_send_vi_step T \<and> getRawSendStep T' = M_send_step T
          \<and> getRawSynchOffset T' = M_synch_offset T
          \<and> M_simulator_step T' = M_simulator_step T * f \<and> M_recv_step T' = M_recv_step T
          \<and> M_lcm_step T' = sequence_length (slowed f T)
          \<and> M_half_time T' = trunc_real (of_int (M_raw_half_time T) * 1000 / of_int (M_simulator_step T) + 0.5))"
proof -
  have f: "0 < f" using assms(3) by simp
  show ?thesis
    using f assms(1) unfolding setSlowDownFactor_eq[OF assms] positive_steps_def
    by (auto simp: Let_def slowed_def getRawSimStep_def getRawSenseBodyStep_def getRawCoachVisualStep_def
        getRawSendStep_def getRawSynchOffset_def getHalfTimeScaler_def cdiv_mult)
qed

theorem slow_down_witness:
  "(\<exists>T'. setSlowDownFactor (timing_defaults\<lparr>M_slow_down_factor := 3\<rparr>) = Some T'
      \<and> getRawSendStep T' = 150 \<and> M_simulator_step T' = 300 \<and> M_lcm_step T' = 900)
   \<and> setSlowDownFactor (timing_defaults\<lparr>M_slow_down_factor := 10000000\<rparr>) = None"
proof -
  let ?T = "timing_defaults\<lparr>M_slow_down_factor := 3\<rparr>"
  let ?U = "timing_defaults\<lparr>M_slow_down_factor := 10000000\<rparr>"
  have hyp: "positive_steps ?T" "0 \<le> M_synch_see_offset ?T" "3 = max 1 (M_slow_down_factor ?T)"
    "positive_steps ?U" "0 \<le> M_synch_see_offset ?U" "10000000 = max 1 (M_slow_down_factor ?U)"
    by (simp_all add: positive_steps_def timing_defaults_def)
  have seq: "sequence_length (slowed 3 ?T) = 900" "sequence_length (slowed 10000000 ?U) = 3000000000"
    by (simp_all add: sequence_length_def slowed_def timing_defaults_def lcm_altdef_int gcd_code_int)
  obtain T' where T': "setSlowDownFactor ?T = Some T'"
    using slow_down[OF hyp(1-3)] seq by (fastforce simp: timing_defaults_def)
  then show ?thesis
    using slow_down[OF hyp(1-3), of T'] slow_down[OF hyp(4-6)] seq
    by (auto simp: timing_defaults_def)
qed

end
