(* ===== verification/Schedule.thy ===== *)
theory Schedule
  imports Timers
begin

text \<open>
  The schedule of the timers.  In an ideal clock the message of period \<open>s\<close> and offset \<open>off\<close> is due
  at the instants \<open>m * s + off\<close>; the timers look at the clock every \<^verbatim>\<open>TIMEDELTA\<close> milliseconds and
  count modulo the length of a sequence.
\<close>

section \<open>Instants\<close>

text \<open>The index of the last instant up to \<open>x\<close>, and whether one lies in the \<open>k\<close>-th interval.\<close>

definition passed :: "real \<Rightarrow> real \<Rightarrow> real \<Rightarrow> int" where
  "passed s off x = \<lfloor>(x - off) / s\<rfloor>"

definition due :: "real \<Rightarrow> real \<Rightarrow> nat \<Rightarrow> bool" where
  "due s off k \<longleftrightarrow> passed s off (TIMEDELTA * real k) < passed s off (TIMEDELTA * real (Suc k))"

lemma passed_mono: "0 < s \<Longrightarrow> x \<le> y \<Longrightarrow> passed s off x \<le> passed s off y"
  by (simp add: passed_def floor_mono divide_right_mono)

lemma passed_le_iff: "0 < s \<Longrightarrow> m \<le> passed s off x \<longleftrightarrow> s * of_int m + off \<le> x"
  by (simp add: passed_def le_floor_iff pos_le_divide_eq algebra_simps)

lemma passed_step: "0 < s \<Longrightarrow> y \<le> x + s \<Longrightarrow> passed s off y \<le> passed s off x + 1"
  using passed_le_iff[of s "passed s off x + 2" off y] passed_le_iff[of s "passed s off x + 1" off x]
  by (simp add: algebra_simps)

lemma passed_shift: "0 < s \<Longrightarrow> passed s off (x + s * of_int n) = passed s off x + n"
proof -
  assume s: "0 < s"
  have "(x + s * of_int n - off) / s = (x - off) / s + of_int n"
    using s by (simp add: field_simps)
  then show ?thesis by (simp add: passed_def)
qed

lemma passed_zero: "0 < s \<Longrightarrow> passed s 0 0 = 0" "0 < s \<Longrightarrow> 0 < off \<Longrightarrow> off \<le> s \<Longrightarrow> passed s off 0 = - 1"
  by (simp_all add: passed_def floor_eq_iff field_simps)

lemma due_instant:
  assumes "0 < s"
  shows "due s off k \<longleftrightarrow>
    (\<exists>m::int. TIMEDELTA * real k < s * of_int m + off \<and> s * of_int m + off \<le> TIMEDELTA * real (Suc k))"
proof
  assume "due s off k"
  then show "\<exists>m::int. TIMEDELTA * real k < s * of_int m + off \<and> s * of_int m + off \<le> TIMEDELTA * real (Suc k)"
    unfolding due_def using passed_le_iff[OF assms] by (metis linorder_not_le order_refl)
next
  assume "\<exists>m::int. TIMEDELTA * real k < s * of_int m + off \<and> s * of_int m + off \<le> TIMEDELTA * real (Suc k)"
  then obtain m :: int where "\<not> m \<le> passed s off (TIMEDELTA * real k)"
    "m \<le> passed s off (TIMEDELTA * real (Suc k))"
    using passed_le_iff[OF assms] by (metis linorder_not_le)
  then show "due s off k" unfolding due_def by linarith
qed

section \<open>Regular intervals\<close>

text \<open>What the parameters must satisfy for the timers to keep the schedule.\<close>

definition regular :: "timing \<Rightarrow> bool" where
  "regular T \<longleftrightarrow>
     positive_steps T \<and> TIMEDELTA \<le> of_int (M_simulator_step T)
     \<and> 0 \<le> M_synch_see_offset T \<and> of_int (M_synch_see_offset T) + TIMEDELTA \<le> of_int (M_simulator_step T)
     \<and> M_synch_offset T \<le> M_simulator_step T
     \<and> 0 < M_lcm_step T \<and> 10 dvd M_lcm_step T \<and> M_simulator_step T dvd M_lcm_step T
     \<and> M_send_step T dvd M_lcm_step T \<and> M_recv_step T dvd M_lcm_step T
     \<and> M_sense_body_step T dvd M_lcm_step T \<and> M_send_vi_step T dvd M_lcm_step T"

lemma regular_slowed:
  assumes "positive_steps T" "0 \<le> M_synch_see_offset T" "M_synch_see_offset T + 10 \<le> M_simulator_step T"
    "M_synch_offset T \<le> M_simulator_step T" "10 dvd M_recv_step T"
    "setSlowDownFactor T = Some T'"
  shows "regular T'"
proof -
  define f where "f = max 1 (M_slow_down_factor T)"
  have f: "1 \<le> f" by (simp add: f_def)
  let ?U = "slowed f T"
  have U: "positive_steps ?U" using assms(1) f by (simp add: positive_steps_def slowed_def)
  have T': "M_lcm_step T' = sequence_length ?U" "M_simulator_step T' = M_simulator_step ?U"
    "M_send_step T' = M_send_step ?U" "M_recv_step T' = M_recv_step ?U"
    "M_sense_body_step T' = M_sense_body_step ?U" "M_send_vi_step T' = M_send_vi_step ?U"
    "M_synch_offset T' = M_synch_offset ?U" "M_synch_see_offset T' = M_synch_see_offset ?U"
    using assms(6) unfolding setSlowDownFactor_eq[OF assms(1,2) f_def]
    by (auto simp: Let_def split: if_splits)
  have "10 dvd sequence_length ?U"
    using dvd_trans[OF assms(5)] sequence_length_dvd(3)[of ?U] by (simp add: slowed_def)
  moreover have f10: "(M_synch_see_offset T + 10) * f \<le> M_simulator_step T * f" "M_synch_offset T * f \<le> M_simulator_step T * f"
    "0 \<le> M_synch_see_offset T * f"
    using assms(2-4) f by (simp_all add: mult_right_mono)
  moreover have "M_synch_see_offset T * f + 10 \<le> M_simulator_step T * f"
    using f10(1) f by (simp add: distrib_right)
  then have "(of_int (M_synch_see_offset T * f) + 10 :: real) \<le> of_int (M_simulator_step T * f)" by linarith
  moreover have "(10 :: real) \<le> of_int (M_simulator_step T * f)" using calculation(4,5) by linarith
  ultimately show ?thesis
    using U sequence_length_pos[OF U] sequence_length_dvd[of ?U]
    unfolding regular_def T' TIMEDELTA_def positive_steps_def
    by (simp add: slowed_def T')
qed

section \<open>The counters\<close>

text \<open>The counter of a message when the clock shows \<open>x\<close>.\<close>

definition counter :: "timing \<Rightarrow> real \<Rightarrow> real \<Rightarrow> int" where
  "counter T s x = (if of_int (M_lcm_step T) \<le> x then 1 else passed s 0 x + 1)"

lemma fires: "0 < s \<Longrightarrow> c = passed s 0 l + 1 \<Longrightarrow> s * of_int c \<le> x \<longleftrightarrow> passed s 0 l < passed s 0 x"
  using passed_le_iff[of s c 0 x] by auto

lemma catch_up_counter:
  assumes "0 < s" "of_int (M_lcm_step T) = s * of_int q"
  shows "catch_up q s x = counter T s x"
  using passed_le_iff[OF assms(1), of q 0 x] assms(2)
  by (auto simp: catch_up_def counter_def passed_def)

lemma counter_keeps:
  assumes "0 < s" "of_int (M_lcm_step T) = s * of_int q" "l < of_int (M_lcm_step T)" "l \<le> x"
    "\<not> passed s 0 l < passed s 0 x"
  shows "passed s 0 l + 1 = counter T s x"
proof -
  have "passed s 0 l = passed s 0 x" using passed_mono[OF assms(1,4), of 0] assms(5) by simp
  moreover have "\<not> q \<le> passed s 0 l" using passed_le_iff[OF assms(1), of q 0 l] assms(2,3) by simp
  ultimately have "\<not> of_int (M_lcm_step T) \<le> x" using passed_le_iff[OF assms(1), of q 0 x] assms(2) by simp
  with \<open>passed s 0 l = passed s 0 x\<close> show ?thesis by (simp add: counter_def)
qed

lemma quotient:
  assumes "regular T"
  shows "of_int (M_lcm_step T) = (of_int (M_simulator_step T) :: real) * of_int (q_simt T)"
    "of_int (M_lcm_step T) = (of_int (M_recv_step T) :: real) * of_int (q_rect T)"
    "of_int (M_lcm_step T) = (of_int (M_sense_body_step T) :: real) * of_int (q_sbt T)"
    "of_int (M_lcm_step T) = (of_int (M_send_vi_step T) :: real) * of_int (q_svt T)"
    "of_int (M_lcm_step T) = (of_int (M_send_step T) * 0.25 :: real) * of_int (q_sent T)"
proof -
  have q: "of_int L = (of_int s :: real) * of_int (cdiv L s)" if "s dvd L" "0 < s" "0 < L" for L s
    using that by (simp add: cdiv_nonneg flip: of_int_mult)
  show "of_int (M_lcm_step T) = (of_int (M_simulator_step T) :: real) * of_int (q_simt T)"
    "of_int (M_lcm_step T) = (of_int (M_recv_step T) :: real) * of_int (q_rect T)"
    "of_int (M_lcm_step T) = (of_int (M_sense_body_step T) :: real) * of_int (q_sbt T)"
    "of_int (M_lcm_step T) = (of_int (M_send_vi_step T) :: real) * of_int (q_svt T)"
    "of_int (M_lcm_step T) = (of_int (M_send_step T) * 0.25 :: real) * of_int (q_sent T)"
    using assms q
    by (simp_all add: regular_def positive_steps_def q_simt_def q_rect_def q_sbt_def q_svt_def q_sent_def)
qed

text \<open>The blocks of the loop, when the clock has gone from \<open>l\<close> to what the timer shows.\<close>

abbreviation sim :: "timing \<Rightarrow> real" where "sim T \<equiv> of_int (M_simulator_step T)"
abbreviation body :: "timing \<Rightarrow> real" where "body T \<equiv> of_int (M_sense_body_step T)"
abbreviation look :: "timing \<Rightarrow> real" where "look T \<equiv> of_int (M_send_vi_step T)"
abbreviation recv :: "timing \<Rightarrow> real" where "recv T \<equiv> of_int (M_recv_step T)"
abbreviation see :: "timing \<Rightarrow> real" where "see T \<equiv> of_int (M_send_step T) * 0.25"

definition crosses :: "real \<Rightarrow> real \<Rightarrow> real \<Rightarrow> bool" where
  "crosses s l x \<longleftrightarrow> passed s 0 l < passed s 0 x"

definition calls :: "bool \<Rightarrow> tcall \<Rightarrow> tcall list" where
  "calls b c = (if b then [c] else [])"

lemma regular_pos:
  "regular T \<Longrightarrow> 0 < sim T \<and> 0 < body T \<and> 0 < look T \<and> 0 < recv T \<and> 0 < see T"
  by (simp add: regular_def positive_steps_def)

lemma recv_block:
  assumes "regular T" "l < of_int (M_lcm_step T)" "l \<le> lcmt t" "c_rect t = passed (recv T) 0 l + 1"
  shows "recv_block T (t, cs) =
    (t\<lparr>c_rect := counter T (recv T) (lcmt t)\<rparr>, cs @ calls (crosses (recv T) l (lcmt t)) RecvFromClients)"
  using fires[of "recv T" "c_rect t" l "lcmt t"] catch_up_counter[OF _ quotient(2)[OF assms(1)]]
    counter_keeps[OF _ quotient(2)[OF assms(1)] assms(2,3)] regular_pos[OF assms(1)] assms(4)
  by (auto simp: recv_block_def crosses_def calls_def)

lemma sense_block:
  assumes "regular T" "l < of_int (M_lcm_step T)" "l \<le> lcmt t" "c_sbt t = passed (body T) 0 l + 1"
  shows "sense_block T (t, cs) =
    (t\<lparr>c_sbt := counter T (body T) (lcmt t)\<rparr>, cs @ calls (crosses (body T) l (lcmt t)) SendSenseBody)"
  using fires[of "body T" "c_sbt t" l "lcmt t"] catch_up_counter[OF _ quotient(3)[OF assms(1)]]
    counter_keeps[OF _ quotient(3)[OF assms(1)] assms(2,3)] regular_pos[OF assms(1)] assms(4)
  by (auto simp: sense_block_def crosses_def calls_def)

lemma visual_block:
  assumes "regular T" "l < of_int (M_lcm_step T)" "l \<le> lcmt t" "c_sent t = passed (see T) 0 l + 1"
  shows "visual_block T (t, cs) =
    (t\<lparr>c_sent := counter T (see T) (lcmt t)\<rparr>, cs @ calls (crosses (see T) l (lcmt t)) SendVisuals)"
  using fires[of "see T" "c_sent t" l "lcmt t"] catch_up_counter[OF _ quotient(5)[OF assms(1)]]
    counter_keeps[OF _ quotient(5)[OF assms(1)] assms(2,3)] regular_pos[OF assms(1)] assms(4)
  unfolding visual_block_def crosses_def calls_def by auto

lemma coach_block:
  assumes "regular T" "l < of_int (M_lcm_step T)" "l \<le> lcmt t" "c_svt t = passed (look T) 0 l + 1"
  shows "coach_block T (t, cs) =
    (t\<lparr>c_svt := counter T (look T) (lcmt t)\<rparr>, cs @ calls (crosses (look T) l (lcmt t)) SendCoachMessages)"
  using fires[of "look T" "c_svt t" l "lcmt t"] catch_up_counter[OF _ quotient(4)[OF assms(1)]]
    counter_keeps[OF _ quotient(4)[OF assms(1)] assms(2,3)] regular_pos[OF assms(1)] assms(4)
  by (auto simp: coach_block_def crosses_def calls_def)

text \<open>The simulation step counts by one: before it the counter is that of the step which is due.\<close>

lemma sim_block:
  assumes "regular T" "l < of_int (M_lcm_step T)" "l \<le> lcmt t"
    and "c_simt t = (if crosses (sim T) l (lcmt t) then passed (sim T) 0 (lcmt t) else passed (sim T) 0 l + 1)"
  shows "sim_block T (t, cs) =
    (t\<lparr>c_simt := counter T (sim T) (lcmt t), sent_synch_see := sent_synch_see t \<and> \<not> crosses (sim T) l (lcmt t)\<rparr>,
     cs @ calls (crosses (sim T) l (lcmt t)) NewSimulatorStep)"
proof -
  have pos: "0 < sim T" using regular_pos[OF assms(1)] by simp
  have le: "sim T * of_int c \<le> lcmt t \<longleftrightarrow> c \<le> passed (sim T) 0 (lcmt t)" for c
    using passed_le_iff[OF pos, of c 0 "lcmt t"] by simp
  have fire: "of_int (M_simulator_step T * c_simt t) \<le> lcmt t \<longleftrightarrow> crosses (sim T) l (lcmt t)"
    using assms(4) by (auto simp: le crosses_def)
  have q: "q_simt T \<le> passed (sim T) 0 (lcmt t) \<longleftrightarrow> of_int (M_lcm_step T) \<le> lcmt t"
    using le[of "q_simt T"] quotient(1)[OF assms(1)] by simp
  show ?thesis
  proof (cases "crosses (sim T) l (lcmt t)")
    case True
    then show ?thesis using assms(4) q fire by (simp add: sim_block_def calls_def counter_def)
  next
    case False
    then have "c_simt t = counter T (sim T) (lcmt t)"
      using counter_keeps[OF pos quotient(1)[OF assms(1)] assms(2,3)] assms(4) by (simp add: crosses_def)
    then show ?thesis using False fire by (simp add: sim_block_def calls_def)
  qed
qed


section \<open>The visual messages of the synchronous clients\<close>

abbreviation see_at :: "timing \<Rightarrow> real" where "see_at T \<equiv> of_int (M_synch_see_offset T)"
abbreviation think_at :: "timing \<Rightarrow> real" where "think_at T \<equiv> of_int (M_synch_offset T)"

text \<open>They go out once in a step, with an offset or right after the step, and in the very first
  interval: the flag is cleared by the step only.\<close>

definition see_inv :: "timing \<Rightarrow> bool \<Rightarrow> real \<Rightarrow> timer \<Rightarrow> bool" where
  "see_inv T first l t \<longleftrightarrow>
     (if M_synch_see_offset T = 0
      then sent_synch_see t = (\<not> first) \<and> c_synch_see t \<le> passed (sim T) 0 l + 2 \<and> (first \<longrightarrow> c_synch_see t = 1)
      else c_synch_see t = passed (sim T) (see_at T) l + 2
        \<and> sent_synch_see t = (passed (sim T) (see_at T) l = passed (sim T) 0 l))"

lemma see_inv_cong:
  "sent_synch_see t = sent_synch_see t' \<Longrightarrow> c_synch_see t = c_synch_see t' \<Longrightarrow> see_inv T b l t = see_inv T b l t'"
  by (simp add: see_inv_def)

lemma passed_offset:
  assumes "0 < s" "0 \<le> off" "off + d \<le> s" "0 \<le> d"
  shows "passed s off x \<le> passed s 0 x" "passed s 0 x \<le> passed s off x + 1"
    "passed s off l < passed s off x \<Longrightarrow> x \<le> l + d \<Longrightarrow> passed s off l + 1 = passed s off x \<and> passed s off x = passed s 0 x"
proof -
  show le: "passed s off x \<le> passed s 0 x" for x
    using assms by (simp add: passed_def floor_mono divide_right_mono)
  show up: "passed s 0 x \<le> passed s off x + 1" for x
    using passed_le_iff[OF assms(1), of "passed s 0 x - 1" off x] passed_le_iff[OF assms(1), of "passed s 0 x" 0 x] assms
    by (simp add: algebra_simps)
  assume lt: "passed s off l < passed s off x" and d: "x \<le> l + d"
  have one: "passed s off x \<le> passed s off l + 1"
    using passed_step[OF assms(1), of x l off] assms(2,3) d by simp
  have "\<not> passed s off x + 1 \<le> passed s 0 x"
  proof
    assume "passed s off x + 1 \<le> passed s 0 x"
    then have "s * of_int (passed s off x + 1) \<le> x" using passed_le_iff[OF assms(1), of _ 0 x] by simp
    then have "s * of_int (passed s off x) + off \<le> l" using d assms(3) by (simp add: algebra_simps)
    then show False using passed_le_iff[OF assms(1), of "passed s off x" off l] lt by simp
  qed
  then show "passed s off l + 1 = passed s off x \<and> passed s off x = passed s 0 x"
    using one lt le[of x] by linarith
qed

lemma synch_see_block:
  assumes "regular T" and "l \<le> lcmt t" and "lcmt t \<le> l + TIMEDELTA" and "see_inv T first l t"
    and l0: "0 \<le> l"
  defines "u \<equiv> t\<lparr>sent_synch_see := sent_synch_see t \<and> \<not> crosses (sim T) l (lcmt t)\<rparr>"
    and "b \<equiv> passed (sim T) (see_at T) l < passed (sim T) (see_at T) (lcmt t) \<or> M_synch_see_offset T = 0 \<and> first"
  shows "\<exists>c sent. synch_see_block T (u, cs) = (u\<lparr>c_synch_see := c, sent_synch_see := sent\<rparr>, cs @ calls b SendSynchVisuals)
    \<and> see_inv T False (lcmt t) (u\<lparr>c_synch_see := c, sent_synch_see := sent\<rparr>)"
proof -
  have pos: "0 < sim T" using regular_pos[OF assms(1)] by simp
  let ?x = "lcmt t" and ?c = "c_synch_see t"
  have cond: "of_int (M_simulator_step T * (?c - 1) + M_synch_see_offset T) \<le> ?x
      \<longleftrightarrow> ?c - 1 \<le> passed (sim T) (see_at T) ?x"
    using passed_le_iff[OF pos, of "?c - 1" "see_at T" ?x] by simp
  have mono: "passed (sim T) 0 l \<le> passed (sim T) 0 ?x" using passed_mono[OF pos assms(2)] .
  have nonneg: "0 \<le> see_at T" "see_at T + TIMEDELTA \<le> sim T" using assms(1) by (simp_all add: regular_def)
  note off = passed_offset[OF pos nonneg]
  let ?fire = "(\<not> sent_synch_see t \<or> crosses (sim T) l ?x) \<and> ?c - 1 \<le> passed (sim T) (see_at T) ?x"
  let ?c' = "if ?fire then ?c + 1 else ?c"
  let ?s' = "?fire \<or> sent_synch_see u"
  have block: "synch_see_block T (u, cs) =
      (u\<lparr>c_synch_see := ?c', sent_synch_see := ?s'\<rparr>, cs @ calls ?fire SendSynchVisuals)"
    using cond by (simp add: synch_see_block_def u_def calls_def)
  have "b = ?fire \<and> see_inv T False ?x (u\<lparr>c_synch_see := ?c', sent_synch_see := ?s'\<rparr>)"
  proof (cases "M_synch_see_offset T = 0")
    case True
    have "b = (crosses (sim T) l ?x \<or> first)" using True by (simp add: b_def crosses_def)
    moreover have s: "sent_synch_see t = (\<not> first)" "?c \<le> passed (sim T) 0 l + 2" "first \<Longrightarrow> ?c = 1"
      using assms(4) True by (simp_all add: see_inv_def)
    moreover have "0 \<le> passed (sim T) 0 ?x"
      if first using passed_le_iff[OF pos, of 0 0 ?x] assms(2) l0 by simp
    ultimately show ?thesis
      using True mono by (auto simp: see_inv_def u_def crosses_def)
  next
    case False
    have d: "0 \<le> TIMEDELTA" by (simp add: TIMEDELTA_def)
    have "passed (sim T) (see_at T) l \<le> passed (sim T) (see_at T) ?x" using passed_mono[OF pos assms(2)] .
    moreover have s: "?c = passed (sim T) (see_at T) l + 2"
        "sent_synch_see t = (passed (sim T) (see_at T) l = passed (sim T) 0 l)"
      using assms(4) False by (simp_all add: see_inv_def)
    moreover have "passed (sim T) (see_at T) ?x \<le> passed (sim T) 0 ?x" "passed (sim T) (see_at T) l \<le> passed (sim T) 0 l"
      using off(1)[OF d] by simp_all
    moreover note off(3)[OF d _ assms(3)]
    ultimately show ?thesis
      using False mono
      by (cases "passed (sim T) (see_at T) l < passed (sim T) (see_at T) ?x")
        (auto simp: see_inv_def u_def b_def crosses_def simp del: of_int_eq_iff)
  qed
  then show ?thesis unfolding block by (intro exI[of _ ?c'] exI[of _ ?s']) simp
qed


section \<open>The synchronous timer\<close>

definition schedule :: "timing \<Rightarrow> nat \<Rightarrow> tcall list" where
  "schedule T k =
     calls (due (sim T) 0 k) NewSimulatorStep @ calls (due (body T) 0 k) SendSenseBody
     @ calls (due (see T) 0 k) SendVisuals
     @ calls (due (sim T) (see_at T) k \<or> M_synch_see_offset T = 0 \<and> k = 0) SendSynchVisuals
     @ calls (due (look T) 0 k) SendCoachMessages @ calls (due (sim T) (think_at T) k) SendThink"

text \<open>What the clock shows at the start of the \<open>k\<close>-th interval.\<close>

definition clock :: "timing \<Rightarrow> nat \<Rightarrow> real" where
  "clock T k = TIMEDELTA * real (k mod nat (M_lcm_step T div 10))"

definition on_clock :: "timing \<Rightarrow> real \<Rightarrow> timer \<Rightarrow> bool" where
  "on_clock T l t \<longleftrightarrow>
     lcmt t = l \<and> c_simt t = passed (sim T) 0 l + 1 \<and> c_sbt t = passed (body T) 0 l + 1
     \<and> c_sent t = passed (see T) 0 l + 1 \<and> c_svt t = passed (look T) 0 l + 1
     \<and> c_rect t = passed (recv T) 0 l + 1"

lemma clock_step:
  assumes "regular T"
  shows "0 \<le> clock T k" "clock T k + TIMEDELTA \<le> of_int (M_lcm_step T)"
    "clock T (Suc k) = (if of_int (M_lcm_step T) \<le> clock T k + TIMEDELTA then 0 else clock T k + TIMEDELTA)"
    "\<exists>n. TIMEDELTA * real k = clock T k + of_int (M_lcm_step T) * of_int n"
proof -
  define N where "N = nat (M_lcm_step T div 10)"
  have L: "M_lcm_step T = 10 * int N" "0 < N"
    using assms unfolding N_def by (auto simp: regular_def elim!: dvdE)
  have lt: "k mod N < N" using L(2) by simp
  show "0 \<le> clock T k" by (simp add: clock_def TIMEDELTA_def)
  show le: "clock T k + TIMEDELTA \<le> of_int (M_lcm_step T)"
    using lt by (simp add: clock_def L(1) TIMEDELTA_def N_def[symmetric])
  show "clock T (Suc k) = (if of_int (M_lcm_step T) \<le> clock T k + TIMEDELTA then 0 else clock T k + TIMEDELTA)"
    using lt by (auto simp: clock_def L(1) TIMEDELTA_def N_def[symmetric] mod_Suc)
  have "real k = real (k mod N) + real N * real (k div N)"
    by (metis mod_mult_div_eq of_nat_add of_nat_mult)
  then have "TIMEDELTA * real k = clock T k + of_int (M_lcm_step T) * of_int (int (k div N))"
    by (simp add: clock_def L(1) TIMEDELTA_def N_def[symmetric])
  then show "\<exists>n. TIMEDELTA * real k = clock T k + of_int (M_lcm_step T) * of_int n" by blast
qed

lemma due_clock:
  assumes "regular T" "0 < s" "of_int (M_lcm_step T) = s * of_int q"
  shows "due s off k \<longleftrightarrow> passed s off (clock T k) < passed s off (clock T k + TIMEDELTA)"
proof -
  obtain n where "TIMEDELTA * real k = clock T k + of_int (M_lcm_step T) * of_int n"
    using clock_step(4)[OF assms(1), of k] by blast
  then have n: "TIMEDELTA * real k = clock T k + s * of_int (q * n)" by (simp add: assms(3))
  then have "TIMEDELTA * real (Suc k) = clock T k + TIMEDELTA + s * of_int (q * n)"
    by (simp add: algebra_simps)
  then show ?thesis unfolding due_def n by (simp only: passed_shift[OF assms(2)]) simp
qed

lemma passed_full:
  assumes "0 < s" "of_int (M_lcm_step T) = s * of_int q"
  shows "passed s off (of_int (M_lcm_step T)) = passed s off 0 + q"
  using passed_shift[OF assms(1), of off 0 q] assms(2) by simp

lemma due_schedule:
  assumes "regular T"
  shows "schedule T k =
    calls (crosses (sim T) (clock T k) (clock T k + TIMEDELTA)) NewSimulatorStep
    @ calls (crosses (body T) (clock T k) (clock T k + TIMEDELTA)) SendSenseBody
    @ calls (crosses (see T) (clock T k) (clock T k + TIMEDELTA)) SendVisuals
    @ calls (passed (sim T) (see_at T) (clock T k) < passed (sim T) (see_at T) (clock T k + TIMEDELTA)
             \<or> M_synch_see_offset T = 0 \<and> k = 0) SendSynchVisuals
    @ calls (crosses (look T) (clock T k) (clock T k + TIMEDELTA)) SendCoachMessages
    @ calls (passed (sim T) (think_at T) (clock T k) < passed (sim T) (think_at T) (clock T k + TIMEDELTA)) SendThink"
  using regular_pos[OF assms] due_clock[OF assms _ quotient(1)[OF assms]] due_clock[OF assms _ quotient(3)[OF assms]]
    due_clock[OF assms _ quotient(4)[OF assms]] due_clock[OF assms _ quotient(5)[OF assms]]
  by (simp only: schedule_def crosses_def)


lemma reset_clock:
  assumes "regular T" "lcmt t = x"
    and "c_simt t = counter T (sim T) x" "c_sbt t = counter T (body T) x" "c_sent t = counter T (see T) x"
    "c_svt t = counter T (look T) x" "c_rect t = counter T (recv T) x"
  shows "on_clock T (if of_int (M_lcm_step T) \<le> x then 0 else x) (fst (reset_block T (t, cs)))"
    "snd (reset_block T (t, cs)) = cs"
  using assms regular_pos[OF assms(1)] by (simp_all add: reset_block_def on_clock_def counter_def passed_zero)

lemma reset_see:
  assumes "regular T" "see_inv T False (lcmt t) t" "lcmt t \<le> of_int (M_lcm_step T)"
  shows "see_inv T False (lcmt (fst (reset_block T (t, cs)))) (fst (reset_block T (t, cs)))"
proof (cases "of_int (M_lcm_step T) \<le> lcmt t")
  case False
  then show ?thesis using assms(2) by (simp add: reset_block_def)
next
  case True
  have pos: "0 < sim T" using regular_pos[OF assms(1)] by simp
  have L: "lcmt t = of_int (M_lcm_step T)" using True assms(3) by simp
  note full = passed_full[OF pos quotient(1)[OF assms(1)]]
  have "M_synch_see_offset T \<noteq> 0 \<Longrightarrow> passed (sim T) (see_at T) 0 = - 1"
    using assms(1) passed_zero(2)[OF pos, of "see_at T"] by (simp add: regular_def TIMEDELTA_def)
  then show ?thesis
    using assms(2) L by (auto simp: reset_block_def see_inv_def full passed_zero(1)[OF pos])
qed

text \<open>The counter of \<^verbatim>\<open>sendThink\<close> goes up by one and starts again with the sequence.\<close>

lemma think_block:
  assumes "regular T" "l \<le> lcmt t" "lcmt t \<le> l + TIMEDELTA" "c_synch t = passed (sim T) (think_at T) l + 2"
  shows "think_block T (t, cs) =
    (t\<lparr>c_synch := passed (sim T) (think_at T) (lcmt t) + 2\<rparr>,
     cs @ calls (passed (sim T) (think_at T) l < passed (sim T) (think_at T) (lcmt t)) SendThink)"
proof -
  have pos: "0 < sim T" "TIMEDELTA \<le> sim T" using assms(1) regular_pos by (auto simp: regular_def TIMEDELTA_def)
  have "of_int (M_simulator_step T * (c_synch t - 1) + M_synch_offset T) \<le> lcmt t
      \<longleftrightarrow> c_synch t - 1 \<le> passed (sim T) (think_at T) (lcmt t)"
    using passed_le_iff[OF pos(1), of "c_synch t - 1" "think_at T" "lcmt t"] by simp
  moreover have "passed (sim T) (think_at T) l \<le> passed (sim T) (think_at T) (lcmt t)"
    "passed (sim T) (think_at T) (lcmt t) \<le> passed (sim T) (think_at T) l + 1"
    using passed_mono[OF pos(1) assms(2)] passed_step[OF pos(1), of "lcmt t" l] assms(3) pos(2) by auto
  ultimately show ?thesis using assms(4) by (auto simp: think_block_def calls_def)
qed

definition sync_at :: "timing \<Rightarrow> nat \<Rightarrow> timer \<Rightarrow> bool" where
  "sync_at T k t \<longleftrightarrow>
     on_clock T (clock T k) (t\<lparr>c_rect := passed (recv T) 0 (clock T k) + 1\<rparr>) \<and> see_inv T (k = 0) (clock T k) t
     \<and> c_synch t = passed (sim T) (think_at T) (clock T k) + 2"

lemma sync_pass_schedule:
  assumes "regular T" "sync_at T k t"
  shows "snd (sync_pass T t) = schedule T k \<and> sync_at T (Suc k) (fst (sync_pass T t))"
proof -
  let ?l = "clock T k"
  let ?x = "clock T k + TIMEDELTA"
  note cl = clock_step[OF assms(1)] and pos = regular_pos[OF assms(1)]
  have d: "0 < TIMEDELTA" "TIMEDELTA \<le> sim T" using assms(1) by (simp_all add: regular_def TIMEDELTA_def)
  have l: "?l < of_int (M_lcm_step T)" "?l \<le> ?x" using cl(2)[of k] d by simp_all
  have step: "passed (sim T) 0 ?x = passed (sim T) 0 ?l + 1" if "crosses (sim T) ?l ?x"
    using that passed_step[of "sim T" ?x ?l 0] d pos by (simp add: crosses_def)
  note at = assms(2)[unfolded sync_at_def on_clock_def]
  define v where "v = t\<lparr>lcmt := ?x, c_simt := counter T (sim T) ?x, c_sbt := counter T (body T) ?x,
                          c_sent := counter T (see T) ?x\<rparr>"
  define u where "u = v\<lparr>sent_synch_see := sent_synch_see v \<and> \<not> crosses (sim T) ?l (lcmt v)\<rparr>"
  define cs where "cs = calls (crosses (sim T) ?l ?x) NewSimulatorStep
    @ calls (crosses (body T) ?l ?x) SendSenseBody @ calls (crosses (see T) ?l ?x) SendVisuals"
  have first: "visual_block T (sense_block T (sim_block T (t\<lparr>lcmt := lcmt t + TIMEDELTA\<rparr>, []))) = (u, cs)"
    using at l step
    by (simp add: sim_block[OF assms(1) l(1)] sense_block[OF assms(1) l(1)] visual_block[OF assms(1) l(1)]
        u_def v_def cs_def)
  have v: "lcmt v = ?x" "see_inv T (k = 0) ?l v" using at by (simp_all add: v_def see_inv_def)
  obtain c s where see: "synch_see_block T (u, cs) = (u\<lparr>c_synch_see := c, sent_synch_see := s\<rparr>,
        cs @ calls (passed (sim T) (see_at T) ?l < passed (sim T) (see_at T) ?x \<or> M_synch_see_offset T = 0 \<and> k = 0)
               SendSynchVisuals)"
      "see_inv T False ?x (u\<lparr>c_synch_see := c, sent_synch_see := s\<rparr>)"
    using synch_see_block[OF assms(1), of ?l v "k = 0" cs] v l cl(1)[of k] unfolding u_def by auto
  define z where "z = u\<lparr>c_synch_see := c, sent_synch_see := s, c_svt := counter T (look T) ?x,
                          c_synch := passed (sim T) (think_at T) ?x + 2\<rparr>"
  have u: "lcmt u = ?x" "c_svt u = passed (look T) 0 ?l + 1" "c_synch u = passed (sim T) (think_at T) ?l + 2"
    using at by (simp_all add: u_def v_def)
  have z: "think_block T (coach_block T (synch_see_block T (u, cs))) = (z, schedule T k)"
    using u l unfolding see(1)
    by (simp add: coach_block[OF assms(1) l(1)] think_block[OF assms(1), of ?l] z_def due_schedule[OF assms(1)] cs_def
        TIMEDELTA_def)
  have pass: "sync_pass T t = reset_block T (z, schedule T k)"
    by (simp only: sync_pass_def first z)
  have zx: "lcmt z = ?x" "see_inv T False ?x z"
    using see(2) u(1) see_inv_cong[of z "u\<lparr>c_synch_see := c, sent_synch_see := s\<rparr>" T False ?x]
    by (simp_all add: z_def)
  let ?z' = "fst (reset_block T (z, schedule T k))"
  let ?r = "counter T (recv T) ?x"
  have "on_clock T (clock T (Suc k)) (fst (reset_block T (z\<lparr>c_rect := ?r\<rparr>, schedule T k)))"
    using reset_clock(1)[OF assms(1), of "z\<lparr>c_rect := ?r\<rparr>" ?x] unfolding cl(3)
    by (simp add: z_def u_def v_def)
  moreover have "fst (reset_block T (z\<lparr>c_rect := ?r\<rparr>, schedule T k)) =
      ?z'\<lparr>c_rect := passed (recv T) 0 (clock T (Suc k)) + 1\<rparr>"
    using cl(3)[of k] zx(1) pos by (simp add: reset_block_def counter_def passed_zero)
  moreover have "see_inv T False (clock T (Suc k)) ?z'"
    using reset_see[OF assms(1), of z "schedule T k"] zx cl(2)[of k] cl(3)[of k] by (simp add: reset_block_def split: if_splits)
  moreover have "c_synch ?z' = passed (sim T) (think_at T) (clock T (Suc k)) + 2"
    using cl(3)[of k] zx(1) passed_zero(2)[of "sim T" "think_at T"] assms(1)
    by (simp add: reset_block_def z_def u_def v_def regular_def positive_steps_def)
  moreover have "snd (reset_block T (z, schedule T k)) = schedule T k" by (simp add: reset_block_def)
  ultimately show ?thesis unfolding pass sync_at_def by simp
qed

lemma sync_at_start: "regular T \<Longrightarrow> sync_at T 0 timer_start"
  using regular_pos[of T] passed_zero(2)[of "sim T" "think_at T"] passed_zero(2)[of "sim T" "see_at T"]
  by (simp add: sync_at_def on_clock_def see_inv_def clock_def timer_start_def passed_zero(1) regular_def
      positive_steps_def TIMEDELTA_def)

text \<open>A loop whose passes make these calls while the server is alive.\<close>

lemma timer_run_schedule:
  assumes pass: "\<And>k t. I k t \<Longrightarrow> snd (go k t) = sched k \<and> I (Suc k) (fst (go k t))"
    and "I i t" and "\<And>m. m < n \<Longrightarrow> alive (fold exec (concat (map sched [i..<i + m])) w)"
    and "\<not> alive (fold exec (concat (map sched [i..<i + n])) w)" and "n \<le> fuel"
  shows "timer_run go alive exec fuel i t w = Some (exec Quit (fold exec (concat (map sched [i..<i + n])) w))"
  using assms(2-)
proof (induction n arbitrary: i t w fuel)
  case 0
  then show ?case by (cases fuel) simp_all
next
  case (Suc n)
  then obtain f where f: "fuel = Suc f" "n \<le> f" by (cases fuel) simp_all
  have up: "fold exec (concat (map sched [i..<i + Suc m])) w
      = fold exec (concat (map sched [Suc i..<Suc i + m])) (fold exec (sched i) w)" for m
    by (simp add: upt_conv_Cons del: upt_Suc)
  have "timer_run go alive exec f (Suc i) (fst (go i t)) (fold exec (sched i) w)
      = Some (exec Quit (fold exec (concat (map sched [Suc i..<Suc i + n])) (fold exec (sched i) w)))"
  proof (rule Suc.IH)
    show "I (Suc i) (fst (go i t))" using pass[OF Suc.prems(1)] by simp
    show "alive (fold exec (concat (map sched [Suc i..<Suc i + m])) (fold exec (sched i) w))" if "m < n" for m
      using Suc.prems(2)[of "Suc m"] that unfolding up by simp
    show "\<not> alive (fold exec (concat (map sched [Suc i..<Suc i + n])) (fold exec (sched i) w))"
      using Suc.prems(3) unfolding up .
    show "n \<le> f" by (rule f(2))
  qed
  then show ?case
    using Suc.prems(2)[of 0] pass[OF Suc.prems(1)] f(1) unfolding up
    by (simp add: case_prod_beta Let_def)
qed


text \<open>C24: whatever the server does, the synchronous timer makes the calls of the ideal schedule: in
  its \<open>k\<close>-th pass, in this order, a simulation step, the sense body, the visual, the synchronous
  visual and the coach messages and the think command, each exactly if one of its instants
  \<open>m * period + offset\<close> lies in the \<open>k\<close>-th interval; it stops after the pass in which the server
  dies.  The first pass also sends the synchronous visual messages when their offset is zero.\<close>

theorem sync_schedule:
  assumes "regular T"
    and "\<And>m. m < n \<Longrightarrow> alive (fold exec (concat (map (schedule T) [0..<m])) w)"
    and "\<not> alive (fold exec (concat (map (schedule T) [0..<n])) w)" and "n \<le> fuel"
  shows "SyncTimer_run T alive exec fuel w =
    Some (exec Quit (fold exec (concat (map (schedule T) [0..<n])) w))"
  unfolding SyncTimer_run_def
  using timer_run_schedule[of "sync_at T" "\<lambda>i. sync_pass T" "schedule T" 0 timer_start n alive exec w fuel]
    sync_pass_schedule[OF assms(1)] sync_at_start[OF assms(1)] assms(2-4)
  by simp


lemma regular_defaults: "regular timing_defaults"
  by (simp add: regular_def positive_steps_def timing_defaults_def TIMEDELTA_def)

lemma first_cycle:
  "schedule timing_defaults 0 = [SendSynchVisuals]" "schedule timing_defaults 1 = []"
  "schedule timing_defaults 2 = []" "schedule timing_defaults 3 = [SendVisuals]"
  "schedule timing_defaults 4 = []" "schedule timing_defaults 5 = [SendThink]"
  by (simp_all add: schedule_def due_def passed_def calls_def TIMEDELTA_def timing_defaults_def floor_eq_iff)

theorem sync_schedule_witness:
  "SyncTimer_run timing_defaults (\<lambda>cs. SendThink \<notin> set cs) (\<lambda>c cs. cs @ [c]) 10 []
     = Some [SendSynchVisuals, SendVisuals, SendThink, Quit]"
proof -
  have list: "[0..<6] = [0, 1, 2, 3, 4, 5::nat]" by (simp add: upt_rec)
  have app: "fold (\<lambda>c cs. cs @ [c]) xs ys = ys @ xs" for xs ys :: "tcall list"
    by (induction xs arbitrary: ys) simp_all
  have none: "SendThink \<notin> set (schedule timing_defaults k)" if "k < 5" for k
  proof -
    have "k = 0 \<or> k = 1 \<or> k = 2 \<or> k = 3 \<or> k = 4" using that by linarith
    then show ?thesis using first_cycle by (elim disjE) simp_all
  qed
  have early: "SendThink \<notin> set (fold (\<lambda>c cs. cs @ [c]) (concat (map (schedule timing_defaults) [0..<m])) [])"
    if "m < 6" for m
    using that none by (auto simp: app)
  have "SyncTimer_run timing_defaults (\<lambda>cs. SendThink \<notin> set cs) (\<lambda>c cs. cs @ [c]) 10 []
     = Some ((\<lambda>c cs. cs @ [c]) Quit
         (fold (\<lambda>c cs. cs @ [c]) (concat (map (schedule timing_defaults) [0..<6])) []))"
    by (rule sync_schedule[where n = 6 and alive = "\<lambda>cs. SendThink \<notin> set cs" and exec = "\<lambda>c cs. cs @ [c]" and w = "[]", OF regular_defaults early]) (simp_all add: list first_cycle[simplified])
  then show ?thesis by (simp add: list first_cycle[simplified])
qed


section \<open>The standard timer\<close>

text \<open>One pass, \<open>elapsed\<close> milliseconds after the one before: the clock shows \<open>x\<close> in the end, and no
  more than one simulation step is made: whole steps which have been missed are dropped.\<close>

lemma real_time_ge: "TIMEDELTA \<le> real_time e" "e \<le> TIMEDELTA \<Longrightarrow> real_time e = TIMEDELTA"
  by (simp_all add: real_time_def Let_def)

definition shown :: "timing \<Rightarrow> real \<Rightarrow> real \<Rightarrow> real" where
  "shown T l a = (if crosses (sim T) l a then sim T * of_int (passed (sim T) 0 a) else a)"

lemma shown:
  assumes "regular T" "l \<le> a"
  shows "shown T l a \<le> a" "l \<le> shown T l a" "passed (sim T) 0 (shown T l a) = passed (sim T) 0 a"
    "crosses (sim T) l (shown T l a) = crosses (sim T) l a"
proof -
  have pos: "0 < sim T" using regular_pos[OF assms(1)] by simp
  have le: "sim T * of_int (passed (sim T) 0 a) \<le> a"
    using passed_le_iff[OF pos, of "passed (sim T) 0 a" 0 a] by simp
  have "l < sim T * of_int (passed (sim T) 0 a)" if "crosses (sim T) l a"
    using that passed_le_iff[OF pos, of "passed (sim T) 0 a" 0 l] by (simp add: crosses_def)
  then show "shown T l a \<le> a" "l \<le> shown T l a" using le assms(2) by (auto simp: shown_def)
  show p: "passed (sim T) 0 (shown T l a) = passed (sim T) 0 a"
    using pos by (simp add: shown_def passed_def)
  show "crosses (sim T) l (shown T l a) = crosses (sim T) l a" by (simp add: crosses_def p)
qed

lemma skip_block:
  assumes "regular T" "l \<le> lcmt t" "c_simt t = passed (sim T) 0 l + 1"
  shows "skip_block T t = t\<lparr>lcmt := shown T l (lcmt t), c_simt :=
    (if crosses (sim T) l (lcmt t) then passed (sim T) 0 (lcmt t) else passed (sim T) 0 l + 1)\<rparr>"
  using fires[of "sim T" "c_simt t" l "lcmt t"] regular_pos[OF assms(1)] assms(3)
  by (auto simp: skip_block_def shown_def crosses_def passed_def Let_def)

definition std_before :: "timing \<Rightarrow> real \<Rightarrow> real \<Rightarrow> timer \<Rightarrow> timer" where
  "std_before T l x t = t\<lparr>lcmt := x, c_rect := counter T (recv T) x, c_simt := counter T (sim T) x,
     c_sbt := counter T (body T) x, c_sent := counter T (see T) x\<rparr>"

definition std_calls :: "timing \<Rightarrow> real \<Rightarrow> real \<Rightarrow> bool \<Rightarrow> tcall list" where
  "std_calls T l x b = calls (crosses (recv T) l x) RecvFromClients @ calls (crosses (sim T) l x) NewSimulatorStep
     @ calls (crosses (body T) l x) SendSenseBody @ calls (crosses (see T) l x) SendVisuals
     @ calls b SendSynchVisuals @ calls (crosses (look T) l x) SendCoachMessages"

lemma std_pass_blocks:
  fixes e :: real
  assumes "regular T" "on_clock T l t" "l < of_int (M_lcm_step T)"
  defines "x \<equiv> shown T l (l + real_time e)"
  defines "v \<equiv> std_before T l x t"
  defines "u \<equiv> v\<lparr>sent_synch_see := sent_synch_see v \<and> \<not> crosses (sim T) l (lcmt v)\<rparr>"
  shows "std_pass T e t = reset_block T (coach_block T (synch_see_block T
    (u, calls (crosses (recv T) l x) RecvFromClients @ calls (crosses (sim T) l x) NewSimulatorStep
        @ calls (crosses (body T) l x) SendSenseBody @ calls (crosses (see T) l x) SendVisuals)))"
proof -
  have a: "l \<le> l + real_time e" using real_time_ge(1)[of e] by (simp add: TIMEDELTA_def)
  note sh = shown[OF assms(1) a, folded x_def]
  note at = assms(2)[unfolded on_clock_def]
  have skip: "skip_block T (t\<lparr>lcmt := lcmt t + real_time e\<rparr>) = t\<lparr>lcmt := x, c_simt :=
      (if crosses (sim T) l x then passed (sim T) 0 x else passed (sim T) 0 l + 1)\<rparr>"
    using skip_block[OF assms(1), of l "t\<lparr>lcmt := lcmt t + real_time e\<rparr>"] at a sh(3,4) by (simp add: x_def)
  have "visual_block T (sense_block T (sim_block T (recv_block T (skip_block T (t\<lparr>lcmt := lcmt t + real_time e\<rparr>), []))))
    = (u, calls (crosses (recv T) l x) RecvFromClients @ calls (crosses (sim T) l x) NewSimulatorStep
        @ calls (crosses (body T) l x) SendSenseBody @ calls (crosses (see T) l x) SendVisuals)"
    unfolding skip using at sh(2)
    by (simp add: recv_block[OF assms(1,3)] sim_block[OF assms(1,3)] sense_block[OF assms(1,3)]
        visual_block[OF assms(1,3)] u_def v_def std_before_def)
  then show ?thesis by (simp only: std_pass_def)
qed

lemma std_pass_on_clock:
  fixes e :: real
  assumes "regular T" "on_clock T l t" "l < of_int (M_lcm_step T)"
  defines "x \<equiv> shown T l (l + real_time e)"
  defines "v \<equiv> std_before T l x t"
  defines "u \<equiv> v\<lparr>sent_synch_see := sent_synch_see v \<and> \<not> crosses (sim T) l (lcmt v)\<rparr>"
  assumes "\<And>cs. synch_see_block T (u, cs) = (u\<lparr>c_synch_see := c, sent_synch_see := s\<rparr>, cs @ calls b SendSynchVisuals)"
  defines "z \<equiv> u\<lparr>c_synch_see := c, sent_synch_see := s, c_svt := counter T (look T) x\<rparr>"
  shows "std_pass T e t = reset_block T (z, std_calls T l x b)"
    and "on_clock T (if of_int (M_lcm_step T) \<le> x then 0 else x) (fst (std_pass T e t))"
    and "snd (std_pass T e t) = std_calls T l x b"
proof -
  have a: "l \<le> l + real_time e" using real_time_ge(1)[of e] by (simp add: TIMEDELTA_def)
  note sh = shown[OF assms(1) a, folded x_def]
  have u: "lcmt u = x" "c_svt u = passed (look T) 0 l + 1"
    using assms(2) by (simp_all add: u_def v_def std_before_def on_clock_def)
  show pass: "std_pass T e t = reset_block T (z, std_calls T l x b)"
    using std_pass_blocks[OF assms(1-3), of e, folded x_def, folded v_def, folded u_def] u sh(2) unfolding assms(7)
    by (simp add: coach_block[OF assms(1,3)] z_def std_calls_def)
  show "on_clock T (if of_int (M_lcm_step T) \<le> x then 0 else x) (fst (std_pass T e t))"
    unfolding pass by (rule reset_clock(1)[OF assms(1)]) (simp_all add: z_def u_def v_def std_before_def)
  show "snd (std_pass T e t) = std_calls T l x b"
    unfolding pass by (simp add: reset_block_def)
qed

lemma synch_see_some:
  "\<exists>b c s. \<forall>cs. synch_see_block T (u, cs) = (u\<lparr>c_synch_see := c, sent_synch_see := s\<rparr>, cs @ calls b SendSynchVisuals)"
proof (cases "snd (synch_see_block T (u, [])) = []")
  case True
  then have "\<forall>cs. synch_see_block T (u, cs) = (u\<lparr>c_synch_see := c_synch_see u, sent_synch_see := sent_synch_see u\<rparr>,
      cs @ calls False SendSynchVisuals)"
    by (auto simp: synch_see_block_def calls_def split: if_splits)
  then show ?thesis by blast
next
  case False
  then have "\<forall>cs. synch_see_block T (u, cs) = (u\<lparr>c_synch_see := c_synch_see u + 1, sent_synch_see := True\<rparr>,
      cs @ calls True SendSynchVisuals)"
    by (auto simp: synch_see_block_def calls_def split: if_splits)
  then show ?thesis by blast
qed

text \<open>The calls of the passes which took these times.\<close>

fun std_trace :: "timing \<Rightarrow> real list \<Rightarrow> timer \<Rightarrow> tcall list" where
  "std_trace T [] t = []"
| "std_trace T (e # es) t = (let (t1, cs) = std_pass T e t in cs @ std_trace T es t1)"

lemma steps_in_calls: "count_list (std_calls T l x b) NewSimulatorStep = (if crosses (sim T) l x then 1 else 0)"
  by (simp add: std_calls_def calls_def)

lemma trace_bound:
  assumes "regular T" "on_clock T l t" "l < of_int (M_lcm_step T)" "0 \<le> l"
  shows "sim T * real (count_list (std_trace T es t) NewSimulatorStep)
      \<le> sum_list (map real_time es) + (l - sim T * of_int (passed (sim T) 0 l))"
  using assms(2-4)
proof (induction es arbitrary: t l)
  case Nil
  then show ?case using passed_le_iff[of "sim T" "passed (sim T) 0 l" 0 l] regular_pos[OF assms(1)] by simp
next
  case (Cons e es)
  have pos: "0 < sim T" using regular_pos[OF assms(1)] by simp
  have a: "l \<le> l + real_time e" using real_time_ge(1)[of e] by (simp add: TIMEDELTA_def)
  define x where "x = shown T l (l + real_time e)"
  define l' where "l' = (if of_int (M_lcm_step T) \<le> x then 0 else x)"
  note sh = shown[OF assms(1) a, folded x_def]
  obtain b where pass: "on_clock T l' (fst (std_pass T e t))" "snd (std_pass T e t) = std_calls T l x b"
    using std_pass_on_clock(2,3)[OF assms(1) Cons.prems(1,2), of e] synch_see_some unfolding x_def l'_def by metis
  have l': "l' < of_int (M_lcm_step T)" "0 \<le> l'"
    using assms(1) sh(2) Cons.prems(3) by (auto simp: l'_def regular_def)
  have IH: "sim T * real (count_list (std_trace T es (fst (std_pass T e t))) NewSimulatorStep)
      \<le> sum_list (map real_time es) + (l' - sim T * of_int (passed (sim T) 0 l'))"
    by (rule Cons.IH[OF pass(1) l'])
  have frac: "(if crosses (sim T) l x then sim T else 0) + (l' - sim T * of_int (passed (sim T) 0 l'))
      \<le> real_time e + (l - sim T * of_int (passed (sim T) 0 l))"
  proof (cases "crosses (sim T) l x")
    case True
    then have c: "crosses (sim T) l (l + real_time e)" using sh(4) by simp
    then have "x = sim T * of_int (passed (sim T) 0 x)" using sh(3) by (simp add: x_def shown_def)
    then have "l' - sim T * of_int (passed (sim T) 0 l') = 0"
      using pos by (simp add: l'_def passed_zero(1))
    moreover have "sim T * of_int (passed (sim T) 0 l + 1) \<le> l + real_time e"
      using c passed_le_iff[OF pos, of "passed (sim T) 0 l + 1" 0 "l + real_time e"] by (simp add: crosses_def)
    ultimately show ?thesis using True by (simp add: algebra_simps)
  next
    case False
    then have "x = l + real_time e" using sh(4) by (simp add: x_def shown_def)
    moreover have "passed (sim T) 0 x = passed (sim T) 0 l"
      using False passed_mono[OF pos sh(2), of 0] by (simp add: crosses_def)
    moreover from this have "\<not> of_int (M_lcm_step T) \<le> x"
      using Cons.prems(2) passed_le_iff[OF pos, of "q_simt T" 0] quotient(1)[OF assms(1)] by (metis add_0_right linorder_not_le)
    ultimately show ?thesis using False by (simp add: l'_def)
  qed
  show ?case
    using IH frac pass(2) by (simp add: case_prod_beta Let_def steps_in_calls algebra_simps split: if_splits)
qed


text \<open>The simulation never runs faster than its period, however slow some passes were: a timer
  which has fallen behind drops the steps it missed.\<close>

theorem step_rate:
  assumes "regular T"
  shows "of_int (M_simulator_step T) * real (count_list (std_trace T es timer_start) NewSimulatorStep)
    \<le> sum_list (map real_time es)"
proof -
  have "on_clock T 0 timer_start" "(0::real) < of_int (M_lcm_step T)"
    using assms regular_pos[OF assms] by (simp_all add: on_clock_def timer_start_def passed_zero(1) regular_def)
  from trace_bound[OF assms this, of es] show ?thesis using regular_pos[OF assms] by (simp add: passed_zero(1))
qed

theorem step_rate_witness:
  "100 * real (count_list (std_trace timing_defaults [250, 10, 3] timer_start) NewSimulatorStep) \<le> 270"
  using step_rate[OF regular_defaults, of "[250, 10, 3]"]
  by (simp add: timing_defaults_def real_time_def TIMEDELTA_def)

text \<open>The schedule of the standard timer: it also polls the clients, and knows no think command.\<close>

definition std_schedule :: "timing \<Rightarrow> nat \<Rightarrow> tcall list" where
  "std_schedule T k =
     calls (due (recv T) 0 k) RecvFromClients @ calls (due (sim T) 0 k) NewSimulatorStep
     @ calls (due (body T) 0 k) SendSenseBody @ calls (due (see T) 0 k) SendVisuals
     @ calls (due (sim T) (see_at T) k \<or> M_synch_see_offset T = 0 \<and> k = 0) SendSynchVisuals
     @ calls (due (look T) 0 k) SendCoachMessages"

lemma shown_on_time:
  assumes "regular T" "10 dvd M_simulator_step T"
  shows "shown T (clock T k) (clock T k + TIMEDELTA) = clock T k + TIMEDELTA"
proof (cases "crosses (sim T) (clock T k) (clock T k + TIMEDELTA)")
  case True
  have pos: "0 < sim T" using regular_pos[OF assms(1)] by simp
  define p where "p = passed (sim T) 0 (clock T k + TIMEDELTA)"
  obtain s where s: "M_simulator_step T = 10 * s" using assms(2) by blast
  define j where "j = int (k mod nat (M_lcm_step T div 10))"
  have c: "clock T k = 10 * of_int j" by (simp add: clock_def j_def TIMEDELTA_def)
  have "sim T * of_int p \<le> clock T k + TIMEDELTA" "clock T k < sim T * of_int p"
    using True passed_le_iff[OF pos, of p 0] by (auto simp: p_def crosses_def not_le[symmetric])
  then have "10 * of_int (s * p) \<le> (10 * of_int (j + 1) :: real)" "(10 * of_int j :: real) < 10 * of_int (s * p)"
    by (simp_all add: c s TIMEDELTA_def)
  then have "(of_int (s * p) :: real) \<le> of_int (j + 1)" "(of_int j :: real) < of_int (s * p)" by simp_all
  then have "s * p = j + 1" unfolding of_int_le_iff of_int_less_iff by simp
  then have "sim T * of_int p = 10 * of_int (j + 1)" by (simp add: s mult.assoc flip: of_int_mult)
  then have "sim T * of_int (passed (sim T) 0 (clock T k + TIMEDELTA)) = clock T k + TIMEDELTA"
    by (simp add: p_def[symmetric]) (simp add: c TIMEDELTA_def)
  then show ?thesis using True by (simp add: shown_def)
qed (simp add: shown_def)

lemma std_pass_schedule:
  assumes "regular T" "10 dvd M_simulator_step T" "e \<le> TIMEDELTA"
    and "on_clock T (clock T k) t \<and> see_inv T (k = 0) (clock T k) t"
  shows "snd (std_pass T e t) = std_schedule T k
    \<and> on_clock T (clock T (Suc k)) (fst (std_pass T e t)) \<and> see_inv T False (clock T (Suc k)) (fst (std_pass T e t))"
proof -
  let ?l = "clock T k" and ?x = "clock T k + TIMEDELTA"
  note cl = clock_step[OF assms(1)]
  have sh: "shown T ?l (?l + real_time e) = ?x" using shown_on_time[OF assms(1,2)] real_time_ge(2)[OF assms(3)] by simp
  have l: "?l < of_int (M_lcm_step T)" "?l \<le> ?x" using cl(2)[of k] by (simp_all add: TIMEDELTA_def)
  define v where "v = std_before T ?l ?x t"
  define u where "u = v\<lparr>sent_synch_see := sent_synch_see v \<and> \<not> crosses (sim T) ?l (lcmt v)\<rparr>"
  define b where "b \<longleftrightarrow> passed (sim T) (see_at T) ?l < passed (sim T) (see_at T) ?x \<or> M_synch_see_offset T = 0 \<and> k = 0"
  have v: "lcmt v = ?x" "see_inv T (k = 0) ?l v"
    using assms(4) see_inv_cong[of v t T "k = 0" ?l] by (simp_all add: v_def std_before_def)
  obtain b' c s where some: "\<forall>cs. synch_see_block T (u, cs) = (u\<lparr>c_synch_see := c, sent_synch_see := s\<rparr>, cs @ calls b' SendSynchVisuals)"
    using synch_see_some by blast
  moreover obtain c' s' where "synch_see_block T (u, []) = (u\<lparr>c_synch_see := c', sent_synch_see := s'\<rparr>, calls b SendSynchVisuals)"
      "see_inv T False ?x (u\<lparr>c_synch_see := c', sent_synch_see := s'\<rparr>)"
    using synch_see_block[OF assms(1), of ?l v "k = 0" "[]"] v l cl(1)[of k] unfolding u_def b_def by auto
  ultimately have see: "\<And>cs. synch_see_block T (u, cs) = (u\<lparr>c_synch_see := c, sent_synch_see := s\<rparr>, cs @ calls b SendSynchVisuals)"
    "see_inv T False ?x (u\<lparr>c_synch_see := c, sent_synch_see := s\<rparr>)"
    by (auto simp: calls_def split: if_splits)
  note pass = std_pass_on_clock[OF assms(1) conjunct1[OF assms(4)] l(1), of e, unfolded sh, folded v_def, folded u_def, OF see(1)]
  let ?z = "u\<lparr>c_synch_see := c, sent_synch_see := s, c_svt := counter T (look T) ?x\<rparr>"
  have "see_inv T False (lcmt ?z) ?z"
    using see(2) see_inv_cong[of ?z "u\<lparr>c_synch_see := c, sent_synch_see := s\<rparr>" T False ?x] v(1) by (simp add: u_def)
  then have "see_inv T False (lcmt (fst (std_pass T e t))) (fst (std_pass T e t))"
    unfolding pass(1) using reset_see[OF assms(1), of ?z] v(1) cl(2)[of k] by (simp add: u_def)
  moreover have "on_clock T (clock T (Suc k)) (fst (std_pass T e t))" using pass(2) unfolding cl(3) .
  moreover have "std_calls T ?l ?x b = std_schedule T k"
    using regular_pos[OF assms(1)] due_clock[OF assms(1) _ quotient(1)[OF assms(1)]]
      due_clock[OF assms(1) _ quotient(2)[OF assms(1)]] due_clock[OF assms(1) _ quotient(3)[OF assms(1)]]
      due_clock[OF assms(1) _ quotient(4)[OF assms(1)]] due_clock[OF assms(1) _ quotient(5)[OF assms(1)]]
    by (simp only: std_calls_def std_schedule_def crosses_def b_def)
  ultimately show ?thesis using pass(3) by (simp add: on_clock_def)
qed

text \<open>A standard timer whose passes are in time, with a step of a whole number of polling
  intervals, makes the calls of the same ideal schedule, after it has received the messages of
  the clients, until the server dies.\<close>

theorem standard_schedule:
  assumes "regular T" and "10 dvd M_simulator_step T" and "\<And>i. elapsed i \<le> TIMEDELTA"
    and "\<And>m. m < n \<Longrightarrow> alive (fold exec (concat (map (std_schedule T) [0..<m])) w)"
    and "\<not> alive (fold exec (concat (map (std_schedule T) [0..<n])) w)" and "n \<le> fuel"
  shows "StandardTimer_run T elapsed alive exec fuel w =
    Some (exec Quit (fold exec (concat (map (std_schedule T) [0..<n])) w))"
proof -
  let ?I = "\<lambda>k t. on_clock T (clock T k) t \<and> see_inv T (k = 0) (clock T k) t"
  have "?I 0 timer_start"
    using sync_at_start[OF assms(1)] regular_pos[OF assms(1)]
    by (simp add: sync_at_def on_clock_def timer_start_def clock_def passed_zero(1))
  then show ?thesis
    unfolding StandardTimer_run_def
    using timer_run_schedule[of ?I "\<lambda>i. std_pass T (elapsed i)" "std_schedule T" 0 timer_start n alive exec w fuel]
      std_pass_schedule[OF assms(1,2,3)] assms(4-6)
    by simp
qed


theorem standard_schedule_witness:
  "StandardTimer_run timing_defaults (\<lambda>i. 5) (\<lambda>cs. cs = []) (\<lambda>c cs. cs @ [c]) 10 []
     = Some [RecvFromClients, SendSynchVisuals, Quit]"
proof -
  have dvd: "10 dvd M_simulator_step timing_defaults" by (simp add: timing_defaults_def)
  have "std_schedule timing_defaults 0 = [RecvFromClients, SendSynchVisuals]"
    by (simp add: std_schedule_def due_def passed_def calls_def TIMEDELTA_def timing_defaults_def floor_eq_iff)
  then show ?thesis
    using standard_schedule[where n = 1 and alive = "\<lambda>cs. cs = []" and exec = "\<lambda>c cs. cs @ [c]"
        and w = "[]" and elapsed = "\<lambda>i. 5" and fuel = 10, OF regular_defaults dvd]
    by (simp add: TIMEDELTA_def)
qed

end
