(* ===== verification/Thinking.thy ===== *)
theory Thinking
  imports Coach
begin

text \<open>
  The wait for the clients in the synchronous mode (\<^verbatim>\<open>Stadium::doSendThink\<close>): every client is
  told to think and the server polls until all of them have answered or 1250 milliseconds have
  passed; a client may miss twenty cycles in a row.  What arrives in a poll and what the clock
  shows after it are inputs.
\<close>

section \<open>Clients and the static variables\<close>

record clients =
  K_world :: world
  K_trainer :: coach
  K_trainer_connected :: bool
  K_olcoaches :: "olcoach list"
  K_olcoaches_connected :: "bool list"

record think_state =
  cycles_missed :: int
  monitor_wait_count :: int

datatype thinker = ThinkPlayer nat | ThinkCoach nat | ThinkTrainer

definition max_msec_waited :: real where "max_msec_waited = 25 * 50"
definition max_cycles_missed :: int where "max_cycles_missed = 20"

definition wait_players :: "clients \<Rightarrow> bool list" where
  "wait_players k = map M_enable (M_players (K_world k))"

definition wait_coach :: "clients \<Rightarrow> bool list" where
  "wait_coach k = map C_eye (K_olcoaches k)"

definition wait_trainer :: "clients \<Rightarrow> bool" where
  "wait_trainer k = C_eye (K_trainer k)"

text \<open>Who is sent the command.\<close>

definition think_sent :: "clients \<Rightarrow> thinker list" where
  "think_sent k =
     map ThinkPlayer (filter (\<lambda>i. wait_players k ! i \<and> M_connected (pl (K_world k) i)) [0..<length (wait_players k)])
     @ map ThinkCoach (filter (\<lambda>i. wait_coach k ! i \<and> K_olcoaches_connected k ! i) [0..<length (wait_coach k)])
     @ (if wait_trainer k \<and> K_trainer_connected k then [ThinkTrainer] else [])"

text \<open>Who is still to answer.\<close>

definition player_missing :: "bool list \<Rightarrow> clients \<Rightarrow> nat \<Rightarrow> bool" where
  "player_missing wp k i \<longleftrightarrow>
     wp ! i \<and> M_connected (pl (K_world k) i) \<and> \<not> M_done_received (pl (K_world k) i) \<and> M_enable (pl (K_world k) i)"

definition coach_missing :: "bool list \<Rightarrow> clients \<Rightarrow> nat \<Rightarrow> bool" where
  "coach_missing wc k i \<longleftrightarrow>
     wc ! i \<and> K_olcoaches_connected k ! i \<and> \<not> C_done_received (K_olcoaches k ! i) \<and> C_assigned (K_olcoaches k ! i)"

definition think_done :: "bool list \<Rightarrow> bool list \<Rightarrow> bool \<Rightarrow> clients \<Rightarrow> bool" where
  "think_done wp wc wt k \<longleftrightarrow>
     \<not> (list_ex (player_missing wp k) [0..<length wp]) \<and> \<not> (list_ex (coach_missing wc k) [0..<length wc])
     \<and> \<not> (wt \<and> K_trainer_connected k \<and> \<not> C_done_received (K_trainer k))"

section \<open>The loop\<close>

text \<open>The number of polls, whether the time was up, and the clients after the last poll.\<close>

partial_function (option) think_wait ::
  "(nat \<Rightarrow> clients \<Rightarrow> clients) \<Rightarrow> (nat \<Rightarrow> real) \<Rightarrow> (clients \<Rightarrow> bool) \<Rightarrow> nat \<Rightarrow> clients
     \<Rightarrow> (nat \<times> bool \<times> clients) option" where
  "think_wait recv elapsed answered i k =
     (let k1 = recv i k
      in if elapsed i > max_msec_waited then Some (Suc i, True, k1)
         else if answered k1 then Some (Suc i, False, k1)
         else think_wait recv elapsed answered (Suc i) k1)"

text \<open>The milliseconds slept before the clients are told.\<close>

definition think_pause :: "bool \<Rightarrow> clients \<Rightarrow> think_state \<Rightarrow> int \<times> think_state" where
  "think_pause monitors k st =
     (if M_time (K_world k) \<le> 0 then (50, st)
      else if monitors then
        let n = monitor_wait_count st + 1
        in if n \<ge> 32 then (20, st\<lparr>monitor_wait_count := 0\<rparr>) else (0, st\<lparr>monitor_wait_count := n\<rparr>)
      else (0, st))"

record think_result =
  shutdown :: bool
  num_sleeps :: nat
  incomplete :: bool
  told :: "thinker list"

definition doSendThink ::
  "bool \<Rightarrow> (nat \<Rightarrow> clients \<Rightarrow> clients) \<Rightarrow> (nat \<Rightarrow> real) \<Rightarrow> clients \<times> think_state
     \<Rightarrow> (think_result \<times> clients \<times> think_state) option" where
  "doSendThink monitors recv elapsed = (\<lambda>(k, st). do {
     let st1 = snd (think_pause monitors k st);
     (n, late, k1) \<leftarrow> think_wait recv elapsed (think_done (wait_players k) (wait_coach k) (wait_trainer k)) 0 k;
     let missed = (if late then (if M_time (K_world k1) > 0 then cycles_missed st1 + 1 else cycles_missed st1)
                   else 0);
     let down = (late \<and> missed > max_cycles_missed);
     let k2 = (if down then k1\<lparr>K_world := (K_world k1)\<lparr>M_alive := False\<rparr>\<rparr> else k1);
     Some (\<lparr>shutdown = down, num_sleeps = n, incomplete = late, told = think_sent k\<rparr>,
           k2, st1\<lparr>cycles_missed := missed\<rparr>) })"


section \<open>The wait ends\<close>

lemma think_wait_returns:
  assumes "elapsed (i + n) > max_msec_waited"
  shows "\<exists>j \<le> n. \<exists>late k'. think_wait recv elapsed ans i k = Some (Suc (i + j), late, k') \<and> (late \<or> ans k')"
  using assms
proof (induction n arbitrary: i k)
  case 0
  then have "think_wait recv elapsed ans i k = Some (Suc (i + 0), True, recv i k)"
    by (subst think_wait.simps) (simp add: Let_def)
  then show ?case by blast
next
  case (Suc n)
  let ?k1 = "recv i k"
  show ?case
  proof (cases "elapsed i > max_msec_waited \<or> ans ?k1")
    case True
    then have "think_wait recv elapsed ans i k = Some (Suc (i + 0), elapsed i > max_msec_waited, ?k1)"
      using True by (subst think_wait.simps) (auto simp: Let_def)
    then show ?thesis using True by blast
  next
    case False
    obtain j late k' where j: "j \<le> n" "think_wait recv elapsed ans (Suc i) ?k1 = Some (Suc (Suc i + j), late, k')" "late \<or> ans k'"
      using Suc.IH[of "Suc i" ?k1] Suc.prems by auto
    then have "think_wait recv elapsed ans i k = Some (Suc (i + Suc j), late, k')"
      using False by (subst think_wait.simps) (simp add: Let_def)
    then show ?thesis using j by (intro exI[of _ "Suc j"]) auto
  qed
qed

text \<open>C39: the wait for the clients ends whatever they do: when a poll takes at least \<open>sleep\<close>
  microseconds, at most \<open>1250000 / sleep + 1\<close> polls are made; the wait ends early only when every
  client which was told to think has answered, has gone or was never there.\<close>

theorem think_returns:
  assumes "0 < sleep" and "\<And>i. elapsed i \<ge> real (Suc i) * sleep / 1000"
  shows "\<exists>r k' st'. doSendThink monitors recv elapsed (k, st) = Some (r, k', st')
    \<and> real (num_sleeps r) \<le> 1250000 / sleep + 1
    \<and> (\<not> incomplete r \<longrightarrow> think_done (wait_players k) (wait_coach k) (wait_trainer k) k')"
proof -
  define n where "n = nat \<lfloor>1250000 / sleep\<rfloor>"
  have "1250000 / sleep < real (Suc n)" "real n \<le> 1250000 / sleep"
    using assms(1) by (simp_all add: n_def) linarith
  then have n: "1250000 < real (Suc n) * sleep" "real (Suc n) \<le> 1250000 / sleep + 1"
    using assms(1) by (simp_all add: pos_divide_less_eq)
  then have "elapsed (0 + n) > max_msec_waited"
    using assms(2)[of n] by (simp add: max_msec_waited_def)
  then obtain j late k' where j: "j \<le> n"
      "think_wait recv elapsed (think_done (wait_players k) (wait_coach k) (wait_trainer k)) 0 k = Some (Suc (0 + j), late, k')"
      "late \<or> think_done (wait_players k) (wait_coach k) (wait_trainer k) k'"
    using think_wait_returns by blast
  then show ?thesis using n(2) by (auto simp: doSendThink_def Let_def)
qed

section \<open>Missed cycles\<close>

text \<open>Calls of \<^verbatim>\<open>doSendThink\<close> with what arrives during each, and the rest of the server's work
  (\<open>work\<close>) before it.\<close>

fun think_calls ::
  "(bool \<times> (nat \<Rightarrow> clients \<Rightarrow> clients) \<times> (nat \<Rightarrow> real) \<times> (clients \<Rightarrow> clients)) list
     \<Rightarrow> clients \<times> think_state \<Rightarrow> think_result list option" where
  "think_calls [] s = Some []"
| "think_calls ((monitors, recv, elapsed, work) # envs) s = do {
     (r, k, st) \<leftarrow> doSendThink monitors recv elapsed (work (fst s), snd s);
     rs \<leftarrow> think_calls envs (k, st);
     Some (r # rs) }"

definition running :: "clients \<Rightarrow> bool" where
  "running k \<longleftrightarrow> 0 < M_time (K_world k)"

lemma think_wait_running:
  assumes "think_wait recv elapsed ans i k = Some r" "\<forall>i k. running k \<longrightarrow> running (recv i k)" "running k"
  shows "running (snd (snd r))"
proof -
  have "(\<forall>i k. running k \<longrightarrow> running (recv i k)) \<longrightarrow> running k \<longrightarrow> running (snd (snd r))"
    by (rule think_wait.raw_induct[OF _ assms(1), where
          P = "\<lambda>recv _ _ _ k r. (\<forall>i k. running k \<longrightarrow> running (recv i k)) \<longrightarrow> running k \<longrightarrow> running (snd (snd r))"])
      (auto simp: Let_def split: if_splits)
  then show ?thesis using assms(2,3) by blast
qed

lemma doSendThink_running:
  assumes "doSendThink monitors recv elapsed (k, st) = Some (r, k', st')"
    and "\<forall>i k. running k \<longrightarrow> running (recv i k)" "running k"
  shows "running k' \<and> cycles_missed st' = (if incomplete r then cycles_missed st + 1 else 0)
    \<and> shutdown r = (incomplete r \<and> max_cycles_missed < cycles_missed st')"
proof -
  obtain n late k1 where w: "think_wait recv elapsed (think_done (wait_players k) (wait_coach k) (wait_trainer k)) 0 k = Some (n, late, k1)"
    using assms(1)
    by (cases "think_wait recv elapsed (think_done (wait_players k) (wait_coach k) (wait_trainer k)) 0 k")
      (auto simp: doSendThink_def Let_def)
  then have "running k1" using think_wait_running[OF w assms(2,3)] by simp
  then show ?thesis
    using assms(1) w by (auto simp: doSendThink_def Let_def think_pause_def running_def)
qed

text \<open>C23: the server shuts down in a call exactly when the clients have missed more than twenty
  cycles in a row, this one included; one cycle in which all have answered starts the count
  again.\<close>

theorem think_shutdown:
  assumes "think_calls envs (k, st) = Some rs" and "running k" and "cycles_missed st = 0"
    and "\<And>monitors recv elapsed work. (monitors, recv, elapsed, work) \<in> set envs \<Longrightarrow>
      (\<forall>k. running k \<longrightarrow> running (work k)) \<and> (\<forall>i k. running k \<longrightarrow> running (recv i k))"
    and "i < length rs"
  shows "shutdown (rs ! i) \<longleftrightarrow> 20 < length (takeWhile incomplete (rev (take (Suc i) rs)))"
proof -
  have "\<lbrakk>think_calls envs s = Some rs; running (fst s);
      \<And>monitors recv elapsed work. (monitors, recv, elapsed, work) \<in> set envs \<Longrightarrow>
        (\<forall>k. running k \<longrightarrow> running (work k)) \<and> (\<forall>i k. running k \<longrightarrow> running (recv i k));
      i < length rs; cycles_missed (snd s) = int (length (takeWhile incomplete (rev past)))\<rbrakk>
    \<Longrightarrow> shutdown (rs ! i) \<longleftrightarrow> 20 < length (takeWhile incomplete (rev (past @ take (Suc i) rs)))" for s past
  proof (induction envs s arbitrary: rs i past rule: think_calls.induct)
    case (1 s)
    then show ?case by simp
  next
    case (2 monitors recv elapsed work envs s)
    obtain r k' st' rs' where r: "doSendThink monitors recv elapsed (work (fst s), snd s) = Some (r, k', st')"
        "think_calls envs (k', st') = Some rs'" "rs = r # rs'"
      using "2.prems"(1) by auto
    have env: "(\<forall>k. running k \<longrightarrow> running (work k)) \<and> (\<forall>i k. running k \<longrightarrow> running (recv i k))"
      using "2.prems"(3)[of monitors recv elapsed work] by simp
    note st = doSendThink_running[OF r(1) conjunct2[OF env]]
    have st: "running k'" "cycles_missed st' = (if incomplete r then cycles_missed (snd s) + 1 else 0)"
      "shutdown r = (incomplete r \<and> max_cycles_missed < cycles_missed st')"
      using st env "2.prems"(2) by simp_all
    have here: "cycles_missed st' = int (length (takeWhile incomplete (rev (past @ [r]))))"
      using st(2) "2.prems"(5) by simp
    show ?case
    proof (cases i)
      case 0
      then show ?thesis using st(3) here r(3) by (auto simp: max_cycles_missed_def)
    next
      case (Suc j)
      have "shutdown (rs' ! j) \<longleftrightarrow> 20 < length (takeWhile incomplete (rev ((past @ [r]) @ take (Suc j) rs')))"
      proof (rule "2.IH"[OF r(1) refl refl, of rs' j "past @ [r]"])
        show "think_calls envs (k', st') = Some rs'" by (rule r(2))
        show "running (fst (k', st'))" using st(1) by simp
        show "(\<forall>k. running k \<longrightarrow> running (work' k)) \<and> (\<forall>i k. running k \<longrightarrow> running (recv' i k))"
          if "(monitors', recv', elapsed', work') \<in> set envs" for monitors' recv' elapsed' work'
          using "2.prems"(3)[of monitors' recv' elapsed' work'] that by simp
        show "j < length rs'" using "2.prems"(4) Suc r(3) by simp
        show "cycles_missed (snd (k', st')) = int (length (takeWhile incomplete (rev (past @ [r]))))"
          using here by simp
      qed
      then show ?thesis using r(3) Suc by simp
    qed
  qed
  from this[of "(k, st)" "[]"] show ?thesis using assms by simp
qed



section \<open>Examples\<close>

definition cycle_five :: clients where
  "cycle_five = \<lparr>K_world = (new_world default_param default_pparam [] \<lparr>M_wind_vector = PVector 0 0, M_wind_rand = 0\<rparr>
       (sconst 0))\<lparr>M_time := 5\<rparr>, K_trainer = new_Coach, K_trainer_connected = False,
     K_olcoaches = [new_OnlineCoach default_param LEFT, new_OnlineCoach default_param RIGHT],
     K_olcoaches_connected = [False, False]\<rparr>"

definition fresh :: think_state where
  "fresh = \<lparr>cycles_missed = 0, monitor_wait_count = 0\<rparr>"

theorem think_returns_witness:
  "\<exists>r k' st'. doSendThink True (\<lambda>i k. k) (\<lambda>i. real (Suc i)) (cycle_five, fresh) = Some (r, k', st')
    \<and> real (num_sleeps r) \<le> 1251"
  using think_returns[of 1000 "\<lambda>i. real (Suc i)" True "\<lambda>i k. k" cycle_five fresh] by auto

lemma late_calls:
  "\<exists>rs. think_calls (replicate n (False, \<lambda>i k. k, \<lambda>i. 2000, \<lambda>k. k)) s = Some rs
    \<and> length rs = n \<and> (\<forall>r \<in> set rs. incomplete r)"
proof (induction n arbitrary: s)
  case 0
  then show ?case by simp
next
  case (Suc n)
  have "think_wait (\<lambda>i k. k) (\<lambda>i. 2000) ans 0 k = Some (1, True, k)" for ans k
    by (subst think_wait.simps) (simp add: max_msec_waited_def)
  then obtain r k' st' where r: "doSendThink False (\<lambda>i k. k) (\<lambda>i. 2000) s = Some (r, k', st')" "incomplete r"
    by (cases s) (simp add: doSendThink_def Let_def)
  obtain rs where "think_calls (replicate n (False, \<lambda>i k. k, \<lambda>i. 2000, \<lambda>k. k)) (k', st') = Some rs"
      "length rs = n" "\<forall>r \<in> set rs. incomplete r"
    using Suc.IH by blast
  then show ?case using r by simp
qed

theorem think_shutdown_witness:
  "\<exists>rs. think_calls (replicate 21 (False, \<lambda>i k. k, \<lambda>i. 2000, \<lambda>k. k)) (cycle_five, fresh) = Some rs
    \<and> shutdown (rs ! 20) \<and> \<not> shutdown (rs ! 19)"
proof -
  obtain rs where rs: "think_calls (replicate 21 (False, \<lambda>i k. k, \<lambda>i. 2000, \<lambda>k. k)) (cycle_five, fresh) = Some rs"
      "length rs = 21" "\<forall>r \<in> set rs. incomplete r"
    using late_calls by blast
  have tw: "length (takeWhile incomplete (rev (take m rs))) = min m 21" for m
  proof -
    have "takeWhile incomplete (rev (take m rs)) = rev (take m rs)"
      using rs(3) by (auto simp: takeWhile_eq_all_conv dest: in_set_takeD)
    then have "length (takeWhile incomplete (rev (take m rs))) = length (rev (take m rs))" by (rule arg_cong)
    then show ?thesis using rs(2) by simp
  qed
  have run: "running cycle_five" "cycles_missed fresh = 0"
    by (simp_all add: running_def cycle_five_def fresh_def)
  have "shutdown (rs ! i) \<longleftrightarrow> 20 < length (takeWhile incomplete (rev (take (Suc i) rs)))" if "i < 21" for i
    by (rule think_shutdown[OF rs(1) run]) (use rs(2) that in auto)
  then show ?thesis using rs(1) unfolding tw by simp
qed

end
