(* ===== verification/Clang.thy ===== *)
theory Clang
  imports Coach
begin

text \<open>
  The coach language: the objects a message of a coach is made of (rcss/clang).  A class with its
  virtual functions is a datatype with one constructor per subclass, a \<^verbatim>\<open>shared_ptr\<close> an
  option, a \<^verbatim>\<open>std::list\<close> a list.  Objects are copied and printed; a copy through a null
  pointer is undefined.
\<close>

section \<open>Operators (compop.cpp, arithop.cpp)\<close>

datatype comp_op = CO_L | CO_LE | CO_E | CO_NE | CO_GE | CO_G

fun CompOp_getStr :: "comp_op \<Rightarrow> string" where
  "CompOp_getStr CO_L = ''<''"
| "CompOp_getStr CO_LE = ''<=''"
| "CompOp_getStr CO_E = ''==''"
| "CompOp_getStr CO_NE = ''!=''"
| "CompOp_getStr CO_GE = ''>=''"
| "CompOp_getStr CO_G = ''>''"

fun CompOp_swap :: "comp_op \<Rightarrow> comp_op" where
  "CompOp_swap CO_L = CO_G"
| "CompOp_swap CO_LE = CO_GE"
| "CompOp_swap CO_E = CO_E"
| "CompOp_swap CO_NE = CO_NE"
| "CompOp_swap CO_GE = CO_LE"
| "CompOp_swap CO_G = CO_L"

fun CompOp_inverse :: "comp_op \<Rightarrow> comp_op" where
  "CompOp_inverse CO_L = CO_GE"
| "CompOp_inverse CO_LE = CO_G"
| "CompOp_inverse CO_E = CO_NE"
| "CompOp_inverse CO_NE = CO_E"
| "CompOp_inverse CO_GE = CO_L"
| "CompOp_inverse CO_G = CO_LE"

datatype arith_op = AO_PLUS | AO_MINUS | AO_MULT | AO_DIV

fun ArithOp_getStr :: "arith_op \<Rightarrow> string" where
  "ArithOp_getStr AO_PLUS = ''+''"
| "ArithOp_getStr AO_MINUS = ''-''"
| "ArithOp_getStr AO_MULT = ''*''"
| "ArithOp_getStr AO_DIV = ''/''"

section \<open>Uniform numbers and ball moves (clangutil.h, clangutil.cpp)\<close>

text \<open>\<^verbatim>\<open>UNum\<close>: a number, with \<open>0\<close> for all players and \<open>12\<close> (\<^verbatim>\<open>uMax\<close>) for none, or a
  variable which may be bound to one.\<close>

record unum =
  UN_unum :: int
  UN_var :: string

definition uAll :: int where "uAll = 0"
definition uMax :: int where "uMax = 12"

definition UNum_number :: "int \<Rightarrow> unum" where
  "UNum_number n = \<lparr>UN_unum = n, UN_var = []\<rparr>"

definition UNum_variable :: "string \<Rightarrow> unum" where
  "UNum_variable v = \<lparr>UN_unum = uMax, UN_var = v\<rparr>"

definition UNum_isValid :: "unum \<Rightarrow> bool" where
  "UNum_isValid u \<longleftrightarrow> UN_unum u \<noteq> uMax"

definition UNum_isWildCard :: "unum \<Rightarrow> bool" where
  "UNum_isWildCard u \<longleftrightarrow> UN_unum u = uAll"

definition UNum_isBindable :: "unum \<Rightarrow> bool" where
  "UNum_isBindable u \<longleftrightarrow> length (UN_var u) > 0"

definition UNum_bind :: "int \<Rightarrow> unum \<Rightarrow> bool \<times> unum" where
  "UNum_bind n u =
     (if UNum_isBindable u \<and> n \<noteq> uMax \<and> n \<noteq> uAll then (True, u\<lparr>UN_unum := n\<rparr>) else (False, u))"

definition UNum_unBind :: "unum \<Rightarrow> bool \<times> unum" where
  "UNum_unBind u = (if UNum_isBindable u then (True, u\<lparr>UN_unum := uMax\<rparr>) else (False, u))"

definition UNum_incr :: "unum \<Rightarrow> unum" where
  "UNum_incr u = (if UN_unum u \<noteq> uAll \<and> UN_unum u \<noteq> uMax then u\<lparr>UN_unum := UN_unum u + 1\<rparr> else u)"

definition UNum_decr :: "unum \<Rightarrow> unum" where
  "UNum_decr u =
     (if UN_unum u = 1 then u\<lparr>UN_unum := uMax\<rparr>
      else if UN_unum u \<noteq> uAll \<and> UN_unum u \<noteq> uMax then u\<lparr>UN_unum := UN_unum u - 1\<rparr> else u)"

definition UNum_eq :: "unum \<Rightarrow> unum \<Rightarrow> bool" where
  "UNum_eq u v \<longleftrightarrow>
     UNum_isValid u \<and> UNum_isValid v
     \<and> (UN_unum u = UN_unum v \<or> UNum_isWildCard u \<or> UNum_isWildCard v)"

text \<open>The number is printed as an \<^verbatim>\<open>unsigned int\<close>.\<close>

definition UNum_print :: "unum \<Rightarrow> string" where
  "UNum_print u =
     (if UNum_isBindable u then UN_var u
      else if UNum_isValid u then show_int (UN_unum u mod 2 ^ 32) else ''(null)'')"

type_synonym unum_set = "unum list"

definition UNumSet_contains :: "unum_set \<Rightarrow> unum \<Rightarrow> bool" where
  "UNumSet_contains s u \<longleftrightarrow> UNum_isValid u \<and> list_ex (\<lambda>i. UNum_eq u i) s"

definition UNumSet_add :: "unum \<Rightarrow> unum_set \<Rightarrow> unum_set" where
  "UNumSet_add u s = s @ [u]"

text \<open>The elements with a blank between them.\<close>

fun separated :: "string list \<Rightarrow> string" where
  "separated [] = []"
| "separated [s] = s"
| "separated (s # t # ss) = s @ '' '' @ separated (t # ss)"

definition UNumSet_print :: "unum_set \<Rightarrow> string" where
  "UNumSet_print s = ''{'' @ separated (map UNum_print s) @ ''}''"

datatype ball_move_token = BMT_None | BMT_Pass | BMT_Dribble | BMT_Clear | BMT_Score | BMT_All

fun bmt_index :: "ball_move_token \<Rightarrow> nat" where
  "bmt_index BMT_None = 0"
| "bmt_index BMT_Pass = 1"
| "bmt_index BMT_Dribble = 2"
| "bmt_index BMT_Clear = 3"
| "bmt_index BMT_Score = 4"
| "bmt_index BMT_All = 5"

definition TOKEN_STRINGS :: "string list" where
  "TOKEN_STRINGS = [''NONE'', ''p'', ''d'', ''c'', ''s'', ''ALL'']"

definition TOKEN_MAX :: nat where "TOKEN_MAX = 4"

unbundle bit_operations_syntax

text \<open>\<^verbatim>\<open>BallMove\<close>: a bit set.\<close>

type_synonym ball_move = u32

definition BallMove_addToken :: "ball_move_token \<Rightarrow> ball_move \<Rightarrow> ball_move" where
  "BallMove_addToken t m =
     (let i = bmt_index t
      in if i < 1 \<or> i > TOKEN_MAX then m
         else if i = bmt_index BMT_All then NOT 0
         else m OR push_bit (i - 1) 1)"

definition BallMove_removeToken :: "ball_move_token \<Rightarrow> ball_move \<Rightarrow> ball_move" where
  "BallMove_removeToken t m =
     (let i = bmt_index t
      in if i < 1 \<or> i > TOKEN_MAX then m
         else if i = bmt_index BMT_All then 0
         else m AND NOT (push_bit (i - 1) 1))"

definition BallMove_isMember :: "ball_move_token \<Rightarrow> ball_move \<Rightarrow> bool" where
  "BallMove_isMember t m \<longleftrightarrow>
     (let i = bmt_index t
      in if i < 1 \<or> i > TOKEN_MAX then False
         else if i = bmt_index BMT_All then NOT (push_bit TOKEN_MAX (NOT 0) OR m) = 0
         else m AND push_bit (i - 1) 1 \<noteq> 0)"

definition bmts :: "ball_move_token list" where
  "bmts = [BMT_Pass, BMT_Dribble, BMT_Clear, BMT_Score]"

definition BallMove_print :: "ball_move \<Rightarrow> string" where
  "BallMove_print m =
     ''{'' @ concat (map (\<lambda>t. if BallMove_isMember t m then TOKEN_STRINGS ! bmt_index t else []) bmts) @ ''}''"

lemma isMember_bit:
  "t \<in> set bmts \<Longrightarrow> BallMove_isMember t m \<longleftrightarrow> bit m (bmt_index t - 1)"
  by (auto simp: BallMove_isMember_def TOKEN_MAX_def bmts_def and_exp_eq_0_iff_not_bit push_bit_of_1 Let_def)

lemma addToken_bit:
  "u \<in> set bmts \<Longrightarrow> bit (BallMove_addToken u m) n \<longleftrightarrow> bit m n \<or> n = bmt_index u - 1"
  by (auto simp: BallMove_addToken_def TOKEN_MAX_def bmts_def Let_def bit_or_iff push_bit_of_1 bit_exp_iff
      possible_bit_def)

lemma addToken_isMember:
  "t \<in> set bmts \<Longrightarrow> u \<in> set bmts \<Longrightarrow>
     BallMove_isMember t (BallMove_addToken u m) \<longleftrightarrow> t = u \<or> BallMove_isMember t m"
  by (auto simp: isMember_bit addToken_bit) (auto simp: bmts_def)

section \<open>Points (region.h, region.cpp)\<close>

text \<open>A pointer prints as \<open>(null)\<close> when it is null.\<close>

definition ptr :: "('a \<Rightarrow> string) \<Rightarrow> 'a option \<Rightarrow> string" where
  "ptr f p = (case p of None \<Rightarrow> ''(null)'' | Some x \<Rightarrow> f x)"

lemma ptr_cong [fundef_cong]:
  "p = q \<Longrightarrow> (\<And>x. q = Some x \<Longrightarrow> f x = g x) \<Longrightarrow> ptr f p = ptr g q"
  by (simp add: ptr_def split: option.split)

lemma ptr_simps [simp]: "ptr f None = ''(null)''" "ptr f (Some x) = f x"
  by (simp_all add: ptr_def)

text \<open>The copy of the object behind a pointer which is dereferenced unchecked, and behind one
  which is tested first: \<open>None\<close> is a null dereference.\<close>

definition deref :: "('a \<Rightarrow> 'a option) \<Rightarrow> 'a option \<Rightarrow> 'a option option" where
  "deref f p = (case p of None \<Rightarrow> None | Some x \<Rightarrow> map_option Some (f x))"

definition copy :: "('a \<Rightarrow> 'a option) \<Rightarrow> 'a option \<Rightarrow> 'a option option" where
  "copy f p = (case p of None \<Rightarrow> Some None | Some x \<Rightarrow> map_option Some (f x))"

lemma deref_cong [fundef_cong]:
  "p = q \<Longrightarrow> (\<And>x. q = Some x \<Longrightarrow> f x = g x) \<Longrightarrow> deref f p = deref g q"
  by (simp add: deref_def split: option.split)

lemma copy_cong [fundef_cong]:
  "p = q \<Longrightarrow> (\<And>x. q = Some x \<Longrightarrow> f x = g x) \<Longrightarrow> copy f p = copy g q"
  by (simp add: copy_def split: option.split)

datatype point =
    PointSimple real real
  | PointRel real real "point option"
  | PointBall
  | PointPlayer bool unum
  | PointArith "point option" "point option" arith_op

definition our_opp :: "bool \<Rightarrow> string" where
  "our_opp our_side = (if our_side then ''our'' else ''opp'')"

text \<open>\<open>sr\<close> is the output of a \<^verbatim>\<open>double\<close> on a stream.\<close>

definition PointSimple_print :: "(real \<Rightarrow> string) \<Rightarrow> real \<Rightarrow> real \<Rightarrow> string" where
  "PointSimple_print sr x y = ''(pt '' @ sr x @ '' '' @ sr y @ '')''"

definition PointRel_print :: "(real \<Rightarrow> string) \<Rightarrow> real \<Rightarrow> real \<Rightarrow> string \<Rightarrow> string" where
  "PointRel_print sr x y origin = ''(pt '' @ sr x @ '' '' @ sr y @ '' '' @ origin @ '')''"

definition PointBall_print :: string where
  "PointBall_print = ''(pt ball)''"

definition PointPlayer_print :: "bool \<Rightarrow> unum \<Rightarrow> string" where
  "PointPlayer_print our_side u = ''(pt '' @ our_opp our_side @ '' '' @ UNum_print u @ '')''"

definition PointArith_print :: "string \<Rightarrow> string \<Rightarrow> arith_op \<Rightarrow> string" where
  "PointArith_print p q arith = ''('' @ p @ '' '' @ ArithOp_getStr arith @ '' '' @ q @ '')''"

fun Point_print :: "(real \<Rightarrow> string) \<Rightarrow> point \<Rightarrow> string" where
  "Point_print sr (PointSimple x y) = PointSimple_print sr x y"
| "Point_print sr (PointRel x y origin) = PointRel_print sr x y (ptr (Point_print sr) origin)"
| "Point_print sr PointBall = PointBall_print"
| "Point_print sr (PointPlayer our_side u) = PointPlayer_print our_side u"
| "Point_print sr (PointArith p q arith) = PointArith_print (ptr (Point_print sr) p) (ptr (Point_print sr) q) arith"

text \<open>The copy constructor of \<^verbatim>\<open>PointArith\<close> does not test its pointers.\<close>

fun Point_deepCopy :: "point \<Rightarrow> point option" where
  "Point_deepCopy (PointSimple x y) = Some (PointSimple x y)"
| "Point_deepCopy (PointRel x y origin) = map_option (PointRel x y) (copy Point_deepCopy origin)"
| "Point_deepCopy PointBall = Some PointBall"
| "Point_deepCopy (PointPlayer our_side u) = Some (PointPlayer our_side u)"
| "Point_deepCopy (PointArith p q arith) = do {
     p' \<leftarrow> deref Point_deepCopy p;
     q' \<leftarrow> deref Point_deepCopy q;
     Some (PointArith p' q' arith) }"

section \<open>Regions (region.h, region.cpp)\<close>

datatype region =
    RegNull
  | RegQuad "point option" "point option" "point option" "point option"
  | RegArc real real real real "point option"
  | RegUnion "region option list"
  | RegNamed string
  | RegPoint "point option"
  | RegTri "point option" "point option" "point option"
  | RegRec "point option" "point option"

definition quoted :: "string \<Rightarrow> string" where
  "quoted s = CHR 0x22 # s @ [CHR 0x22]"

text \<open>The elements, each after a blank.\<close>

definition spaced :: "('a \<Rightarrow> string) \<Rightarrow> 'a list \<Rightarrow> string" where
  "spaced f xs = concat (map (\<lambda>x. '' '' @ f x) xs)"

lemma spaced_cong [fundef_cong]:
  "xs = ys \<Longrightarrow> (\<And>x. x \<in> set ys \<Longrightarrow> f x = g x) \<Longrightarrow> spaced f xs = spaced g ys"
  unfolding spaced_def by (auto intro!: arg_cong[of _ _ concat])

definition RegNull_print :: string where
  "RegNull_print = ''(null)''"

text \<open>The loop stops after three of the four points.\<close>

definition RegQuad_print :: "string list \<Rightarrow> string" where
  "RegQuad_print ps = ''(quad'' @ spaced (\<lambda>i. ps ! i) [0..<3] @ '')''"

definition RegArc_print :: "(real \<Rightarrow> string) \<Rightarrow> real \<Rightarrow> real \<Rightarrow> real \<Rightarrow> real \<Rightarrow> string \<Rightarrow> string" where
  "RegArc_print sr start_rad end_rad start_ang span_ang center =
     ''(arc '' @ center @ '' '' @ sr start_rad @ '' '' @ sr end_rad @ '' '' @ sr start_ang
     @ '' '' @ sr span_ang @ '')''"

definition RegNamed_print :: "string \<Rightarrow> string" where
  "RegNamed_print name = quoted name"

definition RegTri_print :: "string list \<Rightarrow> string" where
  "RegTri_print ps = ''(tri'' @ spaced (\<lambda>i. ps ! i) [0..<3] @ '')''"

definition RegRec_print :: "string list \<Rightarrow> string" where
  "RegRec_print ps = ''(rec'' @ spaced (\<lambda>i. ps ! i) [0..<2] @ '')''"

definition RegUnion_print :: "string list \<Rightarrow> string" where
  "RegUnion_print rs = ''(reg'' @ spaced (\<lambda>r. r) rs @ '')''"

fun Region_print :: "(real \<Rightarrow> string) \<Rightarrow> region \<Rightarrow> string" where
  "Region_print sr RegNull = RegNull_print"
| "Region_print sr (RegQuad p q r s) = RegQuad_print (map (ptr (Point_print sr)) [p, q, r, s])"
| "Region_print sr (RegArc start_rad end_rad start_ang span_ang center) =
     RegArc_print sr start_rad end_rad start_ang span_ang (ptr (Point_print sr) center)"
| "Region_print sr (RegUnion rs) = RegUnion_print (map (ptr (Region_print sr)) rs)"
| "Region_print sr (RegNamed name) = RegNamed_print name"
| "Region_print sr (RegPoint p) = ptr (Point_print sr) p"
| "Region_print sr (RegTri p q r) = RegTri_print (map (ptr (Point_print sr)) [p, q, r])"
| "Region_print sr (RegRec p q) = RegRec_print (map (ptr (Point_print sr)) [p, q])"

text \<open>The copies of a list, in order.\<close>

fun copy_all :: "('a \<Rightarrow> 'a option) \<Rightarrow> 'a option list \<Rightarrow> 'a option list option" where
  "copy_all f [] = Some []"
| "copy_all f (p # ps) = do { p' \<leftarrow> deref f p; ps' \<leftarrow> copy_all f ps; Some (p' # ps') }"

lemma copy_all_cong [fundef_cong]:
  "ps = qs \<Longrightarrow> (\<And>x. Some x \<in> set qs \<Longrightarrow> f x = g x) \<Longrightarrow> copy_all f ps = copy_all g qs"
proof (induction ps arbitrary: qs)
  case Nil
  then show ?case by simp
next
  case (Cons p ps)
  have "deref f p = deref g p" "copy_all f ps = copy_all g ps"
    using Cons by (auto intro!: deref_cong)
  then show ?case using Cons.prems(1) by auto
qed

definition RegQuad_deepCopy ::
  "point option \<Rightarrow> point option \<Rightarrow> point option \<Rightarrow> point option \<Rightarrow> region option" where
  "RegQuad_deepCopy p q r s = do {
     p' \<leftarrow> copy Point_deepCopy p; q' \<leftarrow> copy Point_deepCopy q;
     r' \<leftarrow> copy Point_deepCopy r; s' \<leftarrow> copy Point_deepCopy s;
     Some (RegQuad p' q' r' s') }"

definition RegArc_deepCopy :: "real \<Rightarrow> real \<Rightarrow> real \<Rightarrow> real \<Rightarrow> point option \<Rightarrow> region option" where
  "RegArc_deepCopy start_rad end_rad start_ang span_ang center =
     map_option (RegArc start_rad end_rad start_ang span_ang) (copy Point_deepCopy center)"

text \<open>\<^verbatim>\<open>RegUnion::deepCopy\<close> pushes the copies to the front of the new list.\<close>

definition RegUnion_deepCopy :: "region option list \<Rightarrow> region" where
  "RegUnion_deepCopy copies = RegUnion (foldl (\<lambda>regs r. r # regs) [] copies)"

definition RegTri_deepCopy :: "point option \<Rightarrow> point option \<Rightarrow> point option \<Rightarrow> region option" where
  "RegTri_deepCopy p q r = do {
     p' \<leftarrow> copy Point_deepCopy p; q' \<leftarrow> copy Point_deepCopy q; r' \<leftarrow> copy Point_deepCopy r;
     Some (RegTri p' q' r') }"

definition RegRec_deepCopy :: "point option \<Rightarrow> point option \<Rightarrow> region option" where
  "RegRec_deepCopy p q = do {
     p' \<leftarrow> copy Point_deepCopy p; q' \<leftarrow> copy Point_deepCopy q; Some (RegRec p' q') }"

fun Region_deepCopy :: "region \<Rightarrow> region option" where
  "Region_deepCopy RegNull = Some RegNull"
| "Region_deepCopy (RegQuad p q r s) = RegQuad_deepCopy p q r s"
| "Region_deepCopy (RegArc start_rad end_rad start_ang span_ang center) =
     RegArc_deepCopy start_rad end_rad start_ang span_ang center"
| "Region_deepCopy (RegUnion rs) = map_option RegUnion_deepCopy (copy_all Region_deepCopy rs)"
| "Region_deepCopy (RegNamed name) = Some (RegNamed name)"
| "Region_deepCopy (RegPoint p) = map_option RegPoint (deref Point_deepCopy p)"
| "Region_deepCopy (RegTri p q r) = RegTri_deepCopy p q r"
| "Region_deepCopy (RegRec p q) = RegRec_deepCopy p q"

section \<open>Actions (clangaction.cpp)\<close>

datatype action =
    ActPos "region option"
  | ActHome "region option"
  | ActBallToReg "region option" ball_move
  | ActBallToPlayer unum_set
  | ActMark unum_set
  | ActMarkLinePlayer unum_set
  | ActMarkLineReg "region option"
  | ActOffsidesLine "region option"
  | ActHetType int
  | ActNamed string
  | ActPassReg "region option"
  | ActPassUNum unum_set
  | ActDribble "region option"
  | ActClear "region option"
  | ActShoot
  | ActHold
  | ActIntercept
  | ActTackle unum_set

definition ActPos_print :: "(real \<Rightarrow> string) \<Rightarrow> region option \<Rightarrow> string" where
  "ActPos_print sr r = ''(pos '' @ ptr (Region_print sr) r @ '')''"

definition ActHome_print :: "(real \<Rightarrow> string) \<Rightarrow> region option \<Rightarrow> string" where
  "ActHome_print sr r = ''(home '' @ ptr (Region_print sr) r @ '')''"

definition ActBallToReg_print :: "(real \<Rightarrow> string) \<Rightarrow> region option \<Rightarrow> ball_move \<Rightarrow> string" where
  "ActBallToReg_print sr r bmtset =
     ''(bto '' @ ptr (Region_print sr) r @ '' '' @ BallMove_print bmtset @ '')''"

definition ActBallToPlayer_print :: "unum_set \<Rightarrow> string" where
  "ActBallToPlayer_print players = ''(bto '' @ UNumSet_print players @ '')''"

definition ActMark_print :: "unum_set \<Rightarrow> string" where
  "ActMark_print players = ''(mark '' @ UNumSet_print players @ '')''"

definition ActMarkLinePlayer_print :: "unum_set \<Rightarrow> string" where
  "ActMarkLinePlayer_print players = ''(markl '' @ UNumSet_print players @ '')''"

definition ActMarkLineReg_print :: "(real \<Rightarrow> string) \<Rightarrow> region option \<Rightarrow> string" where
  "ActMarkLineReg_print sr r = ''(markl '' @ ptr (Region_print sr) r @ '')''"

definition ActOffsidesLine_print :: "(real \<Rightarrow> string) \<Rightarrow> region option \<Rightarrow> string" where
  "ActOffsidesLine_print sr r = ''(oline '' @ ptr (Region_print sr) r @ '')''"

definition ActHetType_print :: "int \<Rightarrow> string" where
  "ActHetType_print player_type = ''(htype '' @ show_int player_type @ '')''"

definition ActNamed_print :: "string \<Rightarrow> string" where
  "ActNamed_print name = quoted name"

definition ActPassReg_print :: "(real \<Rightarrow> string) \<Rightarrow> region option \<Rightarrow> string" where
  "ActPassReg_print sr r = ''(pass '' @ ptr (Region_print sr) r @ '')''"

definition ActPassUNum_print :: "unum_set \<Rightarrow> string" where
  "ActPassUNum_print players = ''(pass '' @ UNumSet_print players @ '')''"

definition ActDribble_print :: "(real \<Rightarrow> string) \<Rightarrow> region option \<Rightarrow> string" where
  "ActDribble_print sr r = ''(dribble '' @ ptr (Region_print sr) r @ '')''"

definition ActClear_print :: "(real \<Rightarrow> string) \<Rightarrow> region option \<Rightarrow> string" where
  "ActClear_print sr r = ''(clear '' @ ptr (Region_print sr) r @ '')''"

definition ActShoot_print :: string where "ActShoot_print = ''(shoot)''"
definition ActHold_print :: string where "ActHold_print = ''(hold)''"
definition ActIntercept_print :: string where "ActIntercept_print = ''(intercept)''"

definition ActTackle_print :: "unum_set \<Rightarrow> string" where
  "ActTackle_print players = ''(tackle '' @ UNumSet_print players @ '')''"

fun Action_print :: "(real \<Rightarrow> string) \<Rightarrow> action \<Rightarrow> string" where
  "Action_print sr (ActPos r) = ActPos_print sr r"
| "Action_print sr (ActHome r) = ActHome_print sr r"
| "Action_print sr (ActBallToReg r m) = ActBallToReg_print sr r m"
| "Action_print sr (ActBallToPlayer ps) = ActBallToPlayer_print ps"
| "Action_print sr (ActMark ps) = ActMark_print ps"
| "Action_print sr (ActMarkLinePlayer ps) = ActMarkLinePlayer_print ps"
| "Action_print sr (ActMarkLineReg r) = ActMarkLineReg_print sr r"
| "Action_print sr (ActOffsidesLine r) = ActOffsidesLine_print sr r"
| "Action_print sr (ActHetType n) = ActHetType_print n"
| "Action_print sr (ActNamed name) = ActNamed_print name"
| "Action_print sr (ActPassReg r) = ActPassReg_print sr r"
| "Action_print sr (ActPassUNum ps) = ActPassUNum_print ps"
| "Action_print sr (ActDribble r) = ActDribble_print sr r"
| "Action_print sr (ActClear r) = ActClear_print sr r"
| "Action_print sr ActShoot = ActShoot_print"
| "Action_print sr ActHold = ActHold_print"
| "Action_print sr ActIntercept = ActIntercept_print"
| "Action_print sr (ActTackle ps) = ActTackle_print ps"

text \<open>The actions without a region copy themselves; their sets are values.\<close>

definition ActPos_deepCopy :: "region option \<Rightarrow> action option" where
  "ActPos_deepCopy r = map_option ActPos (copy Region_deepCopy r)"

definition ActHome_deepCopy :: "region option \<Rightarrow> action option" where
  "ActHome_deepCopy r = map_option ActHome (copy Region_deepCopy r)"

definition ActBallToReg_deepCopy :: "region option \<Rightarrow> ball_move \<Rightarrow> action option" where
  "ActBallToReg_deepCopy r bmtset = map_option (\<lambda>r'. ActBallToReg r' bmtset) (copy Region_deepCopy r)"

definition ActMarkLineReg_deepCopy :: "region option \<Rightarrow> action option" where
  "ActMarkLineReg_deepCopy r = map_option ActMarkLineReg (copy Region_deepCopy r)"

definition ActOffsidesLine_deepCopy :: "region option \<Rightarrow> action option" where
  "ActOffsidesLine_deepCopy r = map_option ActOffsidesLine (copy Region_deepCopy r)"

definition ActPassReg_deepCopy :: "region option \<Rightarrow> action option" where
  "ActPassReg_deepCopy r = map_option ActPassReg (copy Region_deepCopy r)"

definition ActDribble_deepCopy :: "region option \<Rightarrow> action option" where
  "ActDribble_deepCopy r = map_option ActDribble (copy Region_deepCopy r)"

definition ActClear_deepCopy :: "region option \<Rightarrow> action option" where
  "ActClear_deepCopy r = map_option ActClear (copy Region_deepCopy r)"

fun Action_deepCopy :: "action \<Rightarrow> action option" where
  "Action_deepCopy (ActPos r) = ActPos_deepCopy r"
| "Action_deepCopy (ActHome r) = ActHome_deepCopy r"
| "Action_deepCopy (ActBallToReg r m) = ActBallToReg_deepCopy r m"
| "Action_deepCopy (ActMarkLineReg r) = ActMarkLineReg_deepCopy r"
| "Action_deepCopy (ActOffsidesLine r) = ActOffsidesLine_deepCopy r"
| "Action_deepCopy (ActPassReg r) = ActPassReg_deepCopy r"
| "Action_deepCopy (ActDribble r) = ActDribble_deepCopy r"
| "Action_deepCopy (ActClear r) = ActClear_deepCopy r"
| "Action_deepCopy a = Some a"

end
