(* ===== verification/Advice.thy ===== *)
theory Advice
  imports Clang
begin

text \<open>
  The coach language, continued: directives, conditions, rules, tokens, definitions and messages,
  with their printed form, their copies and the value of a condition.
\<close>

section \<open>Directives (coach\_lang\_comp.cpp)\<close>

text \<open>What an unchecked dereference prints; null is not defined.\<close>

definition obj :: "('a \<Rightarrow> string) \<Rightarrow> 'a option \<Rightarrow> string" where
  "obj f p = (case p of None \<Rightarrow> undefined | Some x \<Rightarrow> f x)"

lemma obj_cong [fundef_cong]:
  "p = q \<Longrightarrow> (\<And>x. q = Some x \<Longrightarrow> f x = g x) \<Longrightarrow> obj f p = obj g q"
  by (simp add: obj_def split: option.split)

lemma obj_Some [simp]: "obj f (Some x) = f x"
  by (simp add: obj_def)

datatype dir =
    DirComm bool bool unum_set "action option list"
  | DirNamed string

text \<open>The actions follow each other without a blank.\<close>

definition DirComm_print :: "bool \<Rightarrow> bool \<Rightarrow> unum_set \<Rightarrow> string list \<Rightarrow> string" where
  "DirComm_print positive our_side players actions =
     ''('' @ (if positive then ''do'' else ''dont'') @ '' '' @ our_opp our_side @ '' ''
     @ UNumSet_print players @ '' '' @ (if actions = [] then ''(null)'' else concat actions) @ '')''"

definition DirNamed_print :: "string \<Rightarrow> string" where
  "DirNamed_print name = quoted name"

fun Dir_print :: "(real \<Rightarrow> string) \<Rightarrow> dir \<Rightarrow> string" where
  "Dir_print sr (DirComm positive our_side players actions) =
     DirComm_print positive our_side players (map (obj (Action_print sr)) actions)"
| "Dir_print sr (DirNamed name) = DirNamed_print name"

definition DirComm_deepCopy :: "bool \<Rightarrow> bool \<Rightarrow> unum_set \<Rightarrow> action option list \<Rightarrow> dir option" where
  "DirComm_deepCopy positive our_side players actions =
     map_option (DirComm positive our_side players) (copy_all Action_deepCopy actions)"

fun Dir_deepCopy :: "dir \<Rightarrow> dir option" where
  "Dir_deepCopy (DirComm positive our_side players actions) = DirComm_deepCopy positive our_side players actions"
| "Dir_deepCopy (DirNamed name) = Some (DirNamed name)"

section \<open>Conditions (cond.h, cond.cpp)\<close>

datatype clang_playmode =
    CPM_None | CPM_BeforeKickOff | CPM_TimeOver | CPM_PlayOn | CPM_KickOff_Our | CPM_KickOff_Opp
  | CPM_KickIn_Our | CPM_KickIn_Opp | CPM_FreeKick_Our | CPM_FreeKick_Opp | CPM_CornerKick_Our
  | CPM_CornerKick_Opp | CPM_GoalKick_Our | CPM_GoalKick_Opp | CPM_GoalieCatch_Our
  | CPM_GoalieCatch_Opp | CPM_AfterGoal_Our | CPM_AfterGoal_Opp

fun MODE_STRINGS :: "clang_playmode \<Rightarrow> string" where
  "MODE_STRINGS CPM_None = []"
| "MODE_STRINGS CPM_BeforeKickOff = ''bko''"
| "MODE_STRINGS CPM_TimeOver = ''time_over''"
| "MODE_STRINGS CPM_PlayOn = ''play_on''"
| "MODE_STRINGS CPM_KickOff_Our = ''ko_our''"
| "MODE_STRINGS CPM_KickOff_Opp = ''ko_opp''"
| "MODE_STRINGS CPM_KickIn_Our = ''ki_our''"
| "MODE_STRINGS CPM_KickIn_Opp = ''ki_opp''"
| "MODE_STRINGS CPM_FreeKick_Our = ''fk_our''"
| "MODE_STRINGS CPM_FreeKick_Opp = ''fk_opp''"
| "MODE_STRINGS CPM_CornerKick_Our = ''ck_our''"
| "MODE_STRINGS CPM_CornerKick_Opp = ''ck_opp''"
| "MODE_STRINGS CPM_GoalKick_Our = ''gk_our''"
| "MODE_STRINGS CPM_GoalKick_Opp = ''gk_opp''"
| "MODE_STRINGS CPM_GoalieCatch_Our = ''gc_our''"
| "MODE_STRINGS CPM_GoalieCatch_Opp = ''gc_opp''"
| "MODE_STRINGS CPM_AfterGoal_Our = ''ag_our''"
| "MODE_STRINGS CPM_AfterGoal_Opp = ''ag_opp''"

datatype cond =
    CondBool bool
  | CondPlayerPos bool unum_set int int "region option"
  | CondBallPos "region option"
  | CondBallOwner bool unum_set
  | CondPlayMode clang_playmode
  | CondAnd "cond option list"
  | CondOr "cond option list"
  | CondNot "cond option"
  | CondNamed string
  | CondTime int comp_op
  | CondOppGoal int comp_op
  | CondOurGoal int comp_op
  | CondGoalDiff int comp_op
  | CondUNum unum unum_set

definition CondBool_print :: "bool \<Rightarrow> string" where
  "CondBool_print state = ''('' @ (if state then ''true'' else ''false'') @ '')''"

definition CondPlayerPos_print :: "(real \<Rightarrow> string) \<Rightarrow> bool \<Rightarrow> unum_set \<Rightarrow> int \<Rightarrow> int \<Rightarrow> region option \<Rightarrow> string" where
  "CondPlayerPos_print sr our_side players min_match max_match r =
     ''(ppos '' @ our_opp our_side @ '' '' @ UNumSet_print players @ '' '' @ show_int min_match
     @ '' '' @ show_int max_match @ '' '' @ ptr (Region_print sr) r @ '')''"

definition CondBallPos_print :: "(real \<Rightarrow> string) \<Rightarrow> region option \<Rightarrow> string" where
  "CondBallPos_print sr r = ''(bpos '' @ ptr (Region_print sr) r @ '')''"

definition CondBallOwner_print :: "bool \<Rightarrow> unum_set \<Rightarrow> string" where
  "CondBallOwner_print our_side players =
     ''(bowner '' @ our_opp our_side @ '' '' @ UNumSet_print players @ '')''"

definition CondPlayMode_print :: "clang_playmode \<Rightarrow> string" where
  "CondPlayMode_print pm = ''(playm '' @ MODE_STRINGS pm @ '')''"

definition CondAnd_print :: "string list \<Rightarrow> string" where
  "CondAnd_print cs = ''(and'' @ spaced (\<lambda>c. c) cs @ '')''"

definition CondOr_print :: "string list \<Rightarrow> string" where
  "CondOr_print cs = ''(or'' @ spaced (\<lambda>c. c) cs @ '')''"

definition CondNot_print :: "string option \<Rightarrow> string" where
  "CondNot_print c = ''(not '' @ (case c of None \<Rightarrow> ''(null)'' @ [CHR 0x0A] | Some s \<Rightarrow> s) @ '')''"

definition CondNamed_print :: "string \<Rightarrow> string" where
  "CondNamed_print name = quoted name"

definition CondTime_print :: "int \<Rightarrow> comp_op \<Rightarrow> string" where
  "CondTime_print v cmp = ''(time '' @ CompOp_getStr cmp @ '' '' @ show_int v @ '')''"

definition CondOppGoal_print :: "int \<Rightarrow> comp_op \<Rightarrow> string" where
  "CondOppGoal_print v cmp = ''(opp_goals '' @ CompOp_getStr cmp @ '' '' @ show_int v @ '')''"

definition CondOurGoal_print :: "int \<Rightarrow> comp_op \<Rightarrow> string" where
  "CondOurGoal_print v cmp = ''(our_goals '' @ CompOp_getStr cmp @ '' '' @ show_int v @ '')''"

definition CondGoalDiff_print :: "int \<Rightarrow> comp_op \<Rightarrow> string" where
  "CondGoalDiff_print v cmp = ''(goal_diff '' @ CompOp_getStr cmp @ '' '' @ show_int v @ '')''"

definition CondUNum_print :: "unum \<Rightarrow> unum_set \<Rightarrow> string" where
  "CondUNum_print u s = ''(unum '' @ UNum_print u @ '' '' @ UNumSet_print s @ '')''"

fun Cond_print :: "(real \<Rightarrow> string) \<Rightarrow> cond \<Rightarrow> string" where
  "Cond_print sr (CondBool state) = CondBool_print state"
| "Cond_print sr (CondPlayerPos our_side ps mn mx r) = CondPlayerPos_print sr our_side ps mn mx r"
| "Cond_print sr (CondBallPos r) = CondBallPos_print sr r"
| "Cond_print sr (CondBallOwner our_side ps) = CondBallOwner_print our_side ps"
| "Cond_print sr (CondPlayMode pm) = CondPlayMode_print pm"
| "Cond_print sr (CondAnd cs) = CondAnd_print (map (ptr (Cond_print sr)) cs)"
| "Cond_print sr (CondOr cs) = CondOr_print (map (ptr (Cond_print sr)) cs)"
| "Cond_print sr (CondNot c) = CondNot_print (map_option (Cond_print sr) c)"
| "Cond_print sr (CondNamed name) = CondNamed_print name"
| "Cond_print sr (CondTime v cmp) = CondTime_print v cmp"
| "Cond_print sr (CondOppGoal v cmp) = CondOppGoal_print v cmp"
| "Cond_print sr (CondOurGoal v cmp) = CondOurGoal_print v cmp"
| "Cond_print sr (CondGoalDiff v cmp) = CondGoalDiff_print v cmp"
| "Cond_print sr (CondUNum u s) = CondUNum_print u s"

definition CondPlayerPos_deepCopy :: "bool \<Rightarrow> unum_set \<Rightarrow> int \<Rightarrow> int \<Rightarrow> region option \<Rightarrow> cond option" where
  "CondPlayerPos_deepCopy our_side ps mn mx r =
     map_option (CondPlayerPos our_side ps mn mx) (copy Region_deepCopy r)"

definition CondBallPos_deepCopy :: "region option \<Rightarrow> cond option" where
  "CondBallPos_deepCopy r = map_option CondBallPos (copy Region_deepCopy r)"

fun Cond_deepCopy :: "cond \<Rightarrow> cond option" where
  "Cond_deepCopy (CondPlayerPos our_side ps mn mx r) = CondPlayerPos_deepCopy our_side ps mn mx r"
| "Cond_deepCopy (CondBallPos r) = CondBallPos_deepCopy r"
| "Cond_deepCopy (CondAnd cs) = map_option CondAnd (copy_all Cond_deepCopy cs)"
| "Cond_deepCopy (CondOr cs) = map_option CondOr (copy_all Cond_deepCopy cs)"
| "Cond_deepCopy (CondNot c) = map_option CondNot (copy Cond_deepCopy c)"
| "Cond_deepCopy c = Some c"

text \<open>
  The value of a condition in a context, an abstract class whose \<open>lookup\<close> decides the basic
  conditions.  A null pointer throws: \<open>None\<close>.
\<close>

fun CondAnd_eval :: "('a \<Rightarrow> bool option) \<Rightarrow> 'a option list \<Rightarrow> bool option" where
  "CondAnd_eval ev [] = Some True"
| "CondAnd_eval ev (p # ps) =
     (case p of None \<Rightarrow> None
      | Some c \<Rightarrow> (case ev c of None \<Rightarrow> None | Some b \<Rightarrow> if \<not> b then Some False else CondAnd_eval ev ps))"

fun CondOr_eval :: "('a \<Rightarrow> bool option) \<Rightarrow> 'a option list \<Rightarrow> bool option" where
  "CondOr_eval ev [] = Some False"
| "CondOr_eval ev (p # ps) =
     (case p of None \<Rightarrow> None
      | Some c \<Rightarrow> (case ev c of None \<Rightarrow> None | Some b \<Rightarrow> if b then Some True else CondOr_eval ev ps))"

definition CondNot_eval :: "('a \<Rightarrow> bool option) \<Rightarrow> 'a option \<Rightarrow> bool option" where
  "CondNot_eval ev p = (case p of None \<Rightarrow> None | Some c \<Rightarrow> map_option Not (ev c))"

lemma CondAnd_eval_cong [fundef_cong]:
  "ps = qs \<Longrightarrow> (\<And>x. Some x \<in> set qs \<Longrightarrow> f x = g x) \<Longrightarrow> CondAnd_eval f ps = CondAnd_eval g qs"
proof (induction ps arbitrary: qs)
  case (Cons p ps)
  have "CondAnd_eval f ps = CondAnd_eval g ps" using Cons by auto
  then show ?case using Cons.prems by (auto split: option.split)
qed simp

lemma CondOr_eval_cong [fundef_cong]:
  "ps = qs \<Longrightarrow> (\<And>x. Some x \<in> set qs \<Longrightarrow> f x = g x) \<Longrightarrow> CondOr_eval f ps = CondOr_eval g qs"
proof (induction ps arbitrary: qs)
  case (Cons p ps)
  have "CondOr_eval f ps = CondOr_eval g ps" using Cons by auto
  then show ?case using Cons.prems by (auto split: option.split)
qed simp

lemma CondNot_eval_cong [fundef_cong]:
  "p = q \<Longrightarrow> (\<And>x. q = Some x \<Longrightarrow> f x = g x) \<Longrightarrow> CondNot_eval f p = CondNot_eval g q"
  by (simp add: CondNot_eval_def split: option.split)

fun Cond_eval :: "(cond \<Rightarrow> bool) \<Rightarrow> cond \<Rightarrow> bool option" where
  "Cond_eval lookup (CondBool state) = Some state"
| "Cond_eval lookup (CondAnd cs) = CondAnd_eval (Cond_eval lookup) cs"
| "Cond_eval lookup (CondOr cs) = CondOr_eval (Cond_eval lookup) cs"
| "Cond_eval lookup (CondNot c) = CondNot_eval (Cond_eval lookup) c"
| "Cond_eval lookup c = Some (lookup c)"

section \<open>Rules (rule.cpp)\<close>

type_synonym rule_id_list = "string list"

definition RuleIDList_all :: "rule_id_list \<Rightarrow> bool" where
  "RuleIDList_all ids \<longleftrightarrow> ids = []"

definition RuleIDList_unary :: "rule_id_list \<Rightarrow> bool" where
  "RuleIDList_unary ids \<longleftrightarrow> length ids = 1"

definition RuleIDList_print :: "rule_id_list \<Rightarrow> string" where
  "RuleIDList_print ids =
     (if RuleIDList_all ids then ''all''
      else if RuleIDList_unary ids then hd ids
      else ''('' @ separated ids @ '')'')"

record activate_rules =
  AR_on :: bool
  AR_rids :: rule_id_list

definition ActivateRules_print :: "activate_rules \<Rightarrow> string" where
  "ActivateRules_print a =
     ''('' @ (if AR_on a then ''on'' else ''off'') @ '' ''
     @ (if RuleIDList_all (AR_rids a) then ''all'' else RuleIDList_print (AR_rids a)) @ '')''"

datatype crule =
    SimpleRule "cond option" "dir option list"
  | NestedRule "cond option" "crule option list"
  | IDListRule rule_id_list

definition SimpleRule_print :: "(real \<Rightarrow> string) \<Rightarrow> cond option \<Rightarrow> dir option list \<Rightarrow> string" where
  "SimpleRule_print sr c dirs = ''('' @ ptr (Cond_print sr) c @ spaced (obj (Dir_print sr)) dirs @ '')''"

definition NestedRule_print :: "(real \<Rightarrow> string) \<Rightarrow> cond option \<Rightarrow> string list \<Rightarrow> string" where
  "NestedRule_print sr c rules = ''('' @ ptr (Cond_print sr) c @ spaced (\<lambda>r. r) rules @ '')''"

fun Rule_print :: "(real \<Rightarrow> string) \<Rightarrow> crule \<Rightarrow> string" where
  "Rule_print sr (SimpleRule c dirs) = SimpleRule_print sr c dirs"
| "Rule_print sr (NestedRule c rules) = NestedRule_print sr c (map (obj (Rule_print sr)) rules)"
| "Rule_print sr (IDListRule ids) = RuleIDList_print ids"

definition SimpleRule_deepCopy :: "cond option \<Rightarrow> dir option list \<Rightarrow> crule option" where
  "SimpleRule_deepCopy c dirs = do {
     new_dirs \<leftarrow> copy_all Dir_deepCopy dirs;
     c' \<leftarrow> deref Cond_deepCopy c;
     Some (SimpleRule c' new_dirs) }"

definition NestedRule_deepCopy :: "cond option \<Rightarrow> crule option list option \<Rightarrow> crule option" where
  "NestedRule_deepCopy c rules = do {
     new_rules \<leftarrow> rules;
     c' \<leftarrow> deref Cond_deepCopy c;
     Some (NestedRule c' new_rules) }"

fun Rule_deepCopy :: "crule \<Rightarrow> crule option" where
  "Rule_deepCopy (SimpleRule c dirs) = SimpleRule_deepCopy c dirs"
| "Rule_deepCopy (NestedRule c rules) = NestedRule_deepCopy c (copy_all Rule_deepCopy rules)"
| "Rule_deepCopy (IDListRule ids) = Some (IDListRule ids)"


section \<open>Tokens and definitions (coach\_lang\_comp.cpp)\<close>

datatype token =
    TokClear
  | TokRule int "cond option" "dir option list"

definition TokClear_print :: string where
  "TokClear_print = ''(clear)''"

definition TokRule_print :: "(real \<Rightarrow> string) \<Rightarrow> int \<Rightarrow> cond option \<Rightarrow> dir option list \<Rightarrow> string" where
  "TokRule_print sr ttl c dirs =
     ''('' @ show_int ttl @ '' '' @ ptr (Cond_print sr) c @ spaced (ptr (Dir_print sr)) dirs @ '')''"

fun Token_print :: "(real \<Rightarrow> string) \<Rightarrow> token \<Rightarrow> string" where
  "Token_print sr TokClear = TokClear_print"
| "Token_print sr (TokRule ttl c dirs) = TokRule_print sr ttl c dirs"

definition TokRule_deepCopy :: "int \<Rightarrow> cond option \<Rightarrow> dir option list \<Rightarrow> token option" where
  "TokRule_deepCopy ttl c dirs = do {
     new_cond \<leftarrow> copy Cond_deepCopy c;
     new_dirs \<leftarrow> copy_all Dir_deepCopy dirs;
     Some (TokRule ttl new_cond new_dirs) }"

fun Token_deepCopy :: "token \<Rightarrow> token option" where
  "Token_deepCopy TokClear = Some TokClear"
| "Token_deepCopy (TokRule ttl c dirs) = TokRule_deepCopy ttl c dirs"

datatype def =
    DefCond string "cond option"
  | DefDir string "dir option"
  | DefReg string "region option"
  | DefAct string "action option"
  | DefRule string "crule option" bool

definition DefCond_print :: "(real \<Rightarrow> string) \<Rightarrow> string \<Rightarrow> cond option \<Rightarrow> string" where
  "DefCond_print sr name c =
     ''(definec '' @ quoted name @ '' '' @ (case c of None \<Rightarrow> '' (null)'' | Some c \<Rightarrow> Cond_print sr c) @ '')''"

definition DefDir_print :: "(real \<Rightarrow> string) \<Rightarrow> string \<Rightarrow> dir option \<Rightarrow> string" where
  "DefDir_print sr name d = ''(defined '' @ quoted name @ '' '' @ ptr (Dir_print sr) d @ '')''"

definition DefReg_print :: "(real \<Rightarrow> string) \<Rightarrow> string \<Rightarrow> region option \<Rightarrow> string" where
  "DefReg_print sr name r = ''(definer '' @ quoted name @ '' '' @ ptr (Region_print sr) r @ '')''"

definition DefAct_print :: "(real \<Rightarrow> string) \<Rightarrow> string \<Rightarrow> action option \<Rightarrow> string" where
  "DefAct_print sr name a = ''(definea '' @ quoted name @ '' '' @ ptr (Action_print sr) a @ '')''"

definition DefRule_print :: "(real \<Rightarrow> string) \<Rightarrow> string \<Rightarrow> crule option \<Rightarrow> bool \<Rightarrow> string" where
  "DefRule_print sr name r model =
     ''(definerule '' @ name @ (if model then '' model '' else '' direc '')
     @ ptr (Rule_print sr) r @ '')''"

fun Def_print :: "(real \<Rightarrow> string) \<Rightarrow> def \<Rightarrow> string" where
  "Def_print sr (DefCond name c) = DefCond_print sr name c"
| "Def_print sr (DefDir name d) = DefDir_print sr name d"
| "Def_print sr (DefReg name r) = DefReg_print sr name r"
| "Def_print sr (DefAct name a) = DefAct_print sr name a"
| "Def_print sr (DefRule name r model) = DefRule_print sr name r model"

definition DefRule_deepCopy :: "string \<Rightarrow> crule option \<Rightarrow> bool \<Rightarrow> def option" where
  "DefRule_deepCopy name r model = map_option (\<lambda>r'. DefRule name r' model) (copy Rule_deepCopy r)"

text \<open>The copy constructors of the other four do not test their pointer.\<close>

fun Def_deepCopy :: "def \<Rightarrow> def option" where
  "Def_deepCopy (DefCond name c) = map_option (DefCond name) (deref Cond_deepCopy c)"
| "Def_deepCopy (DefDir name d) = map_option (DefDir name) (deref Dir_deepCopy d)"
| "Def_deepCopy (DefReg name r) = map_option (DefReg name) (deref Region_deepCopy r)"
| "Def_deepCopy (DefAct name a) = map_option (DefAct name) (deref Action_deepCopy a)"
| "Def_deepCopy (DefRule name r model) = DefRule_deepCopy name r model"

section \<open>Messages\<close>

datatype meta_token = MetaTokenVer real

fun MetaToken_print :: "(real \<Rightarrow> string) \<Rightarrow> meta_token \<Rightarrow> string" where
  "MetaToken_print sr (MetaTokenVer ver) = ''(ver '' @ sr ver @ '')''"

fun MetaToken_deepCopy :: "meta_token \<Rightarrow> meta_token option" where
  "MetaToken_deepCopy (MetaTokenVer ver) = Some (MetaTokenVer ver)"

datatype msg_body =
    MetaMsg "meta_token option list"
  | FreeformMsg string
  | UnsuppMsg
  | InfoMsg "token option list"
  | AdviceMsg "token option list"
  | DefineMsg "def option list"
  | DelMsg rule_id_list
  | RuleMsg "activate_rules list"

definition MetaMsg_print :: "(real \<Rightarrow> string) \<Rightarrow> meta_token option list \<Rightarrow> string" where
  "MetaMsg_print sr ts = ''(meta'' @ spaced (ptr (MetaToken_print sr)) ts @ '')''"

definition FreeformMsg_print :: "string \<Rightarrow> string" where
  "FreeformMsg_print str = ''(freeform '' @ quoted str @ '')''"

definition UnsuppMsg_print :: string where
  "UnsuppMsg_print = ''(unsupported_clang)''"

definition InfoMsg_print :: "(real \<Rightarrow> string) \<Rightarrow> token option list \<Rightarrow> string" where
  "InfoMsg_print sr ts = ''(info'' @ spaced (ptr (Token_print sr)) ts @ '')''"

definition AdviceMsg_print :: "(real \<Rightarrow> string) \<Rightarrow> token option list \<Rightarrow> string" where
  "AdviceMsg_print sr ts = ''(advice'' @ spaced (ptr (Token_print sr)) ts @ '')''"

definition DefineMsg_print :: "(real \<Rightarrow> string) \<Rightarrow> def option list \<Rightarrow> string" where
  "DefineMsg_print sr ds = ''(define'' @ spaced (ptr (Def_print sr)) ds @ '')''"

definition DelMsg_print :: "rule_id_list \<Rightarrow> string" where
  "DelMsg_print rids = ''(delete '' @ RuleIDList_print rids @ '')''"

definition RuleMsg_print :: "activate_rules list \<Rightarrow> string" where
  "RuleMsg_print active = ''(rule '' @ concat (map ActivateRules_print active) @ '')''"

fun Msg_print :: "(real \<Rightarrow> string) \<Rightarrow> msg_body \<Rightarrow> string" where
  "Msg_print sr (MetaMsg ts) = MetaMsg_print sr ts"
| "Msg_print sr (FreeformMsg str) = FreeformMsg_print str"
| "Msg_print sr UnsuppMsg = UnsuppMsg_print"
| "Msg_print sr (InfoMsg ts) = InfoMsg_print sr ts"
| "Msg_print sr (AdviceMsg ts) = AdviceMsg_print sr ts"
| "Msg_print sr (DefineMsg ds) = DefineMsg_print sr ds"
| "Msg_print sr (DelMsg rids) = DelMsg_print rids"
| "Msg_print sr (RuleMsg active) = RuleMsg_print active"

fun Msg_getType :: "msg_body \<Rightarrow> clang_type" where
  "Msg_getType (MetaMsg ts) = META"
| "Msg_getType (FreeformMsg str) = FREEFORM"
| "Msg_getType UnsuppMsg = UNSUP"
| "Msg_getType (InfoMsg ts) = INFO"
| "Msg_getType (AdviceMsg ts) = ADVICE"
| "Msg_getType (DefineMsg ds) = DEFINE"
| "Msg_getType (DelMsg rids) = DEL"
| "Msg_getType (RuleMsg active) = RULE"

definition MetaMsg_deepCopy :: "meta_token option list \<Rightarrow> msg_body option" where
  "MetaMsg_deepCopy ts = map_option MetaMsg (copy_all MetaToken_deepCopy ts)"

definition InfoMsg_deepCopy :: "token option list \<Rightarrow> msg_body option" where
  "InfoMsg_deepCopy ts = map_option InfoMsg (copy_all Token_deepCopy ts)"

definition AdviceMsg_deepCopy :: "token option list \<Rightarrow> msg_body option" where
  "AdviceMsg_deepCopy ts = map_option AdviceMsg (copy_all Token_deepCopy ts)"

definition DefineMsg_deepCopy :: "def option list \<Rightarrow> msg_body option" where
  "DefineMsg_deepCopy ds = map_option DefineMsg (copy_all Def_deepCopy ds)"

fun Msg_deepCopy :: "msg_body \<Rightarrow> msg_body option" where
  "Msg_deepCopy (MetaMsg ts) = MetaMsg_deepCopy ts"
| "Msg_deepCopy (InfoMsg ts) = InfoMsg_deepCopy ts"
| "Msg_deepCopy (AdviceMsg ts) = AdviceMsg_deepCopy ts"
| "Msg_deepCopy (DefineMsg ds) = DefineMsg_deepCopy ds"
| "Msg_deepCopy m = Some m"

end
