(* ===== verification/Builder.thy ===== *)
theory Builder
  imports Advice
begin

text \<open>
  The builder of messages (rcss/clang/clangmsgbuilder.cpp): a stack of typed items.  The parser
  calls one operation for each phrase it has read; an operation takes its parts off the stack and
  pushes the object it makes, or throws.
\<close>

section \<open>The stack\<close>

text \<open>The exceptions of the builder, and the error of the parser itself.\<close>

datatype builder_err = NoItems | WrongItem | NotEmpty | OverMaxString | SyntaxError

datatype item_type = IT_NONE
  | IT_META
  | IT_ACTION
  | IT_DIR
  | IT_COND
  | IT_CONDLIST
  | IT_TOKEN
  | IT_DEF
  | IT_REG
  | IT_POINT
  | IT_UNUM
  | IT_BMT
  | IT_UNUMSET
  | IT_STR
  | IT_RIDLIST
  | IT_ACTIVATE
  | IT_RULE
  | IT_RID

text \<open>An item carries its type in \<^verbatim>\<open>m_type\<close> and the object in \<^verbatim>\<open>m_item\<close>.\<close>

datatype item =
    I_Meta (it_meta: "meta_token")
  | I_Action (it_action: "action")
  | I_Dir (it_dir: "dir")
  | I_Cond (it_cond: "cond")
  | I_CondList (it_condlist: "cond option list")
  | I_Token (it_token: "token")
  | I_Def (it_def: "def")
  | I_Reg (it_reg: "region")
  | I_Point (it_point: "point")
  | I_UNum (it_unum: "unum")
  | I_BMT (it_bmt: "ball_move_token")
  | I_UNumSet (it_unumset: "unum_set")
  | I_Str (it_str: "string")
  | I_RIDList (it_ridlist: "rule_id_list")
  | I_Activate (it_activate: "activate_rules")
  | I_Rule (it_rule: "crule")
  | I_RID (it_rid: "string")

fun m_type :: "item \<Rightarrow> item_type" where
  "m_type (I_Meta x) = IT_META"
| "m_type (I_Action x) = IT_ACTION"
| "m_type (I_Dir x) = IT_DIR"
| "m_type (I_Cond x) = IT_COND"
| "m_type (I_CondList x) = IT_CONDLIST"
| "m_type (I_Token x) = IT_TOKEN"
| "m_type (I_Def x) = IT_DEF"
| "m_type (I_Reg x) = IT_REG"
| "m_type (I_Point x) = IT_POINT"
| "m_type (I_UNum x) = IT_UNUM"
| "m_type (I_BMT x) = IT_BMT"
| "m_type (I_UNumSet x) = IT_UNUMSET"
| "m_type (I_Str x) = IT_STR"
| "m_type (I_RIDList x) = IT_RIDLIST"
| "m_type (I_Activate x) = IT_ACTIVATE"
| "m_type (I_Rule x) = IT_RULE"
| "m_type (I_RID x) = IT_RID"

record builder =
  M_items :: "item list"
  M_msg :: "(msg_body \<times> clang_msg) option"
  M_min_ver :: u32
  M_max_ver :: u32
  M_str_var_size :: u32
  M_freeform_msg_size :: u32

definition MsgBuilder_new :: builder where
  "MsgBuilder_new = \<lparr>M_items = [], M_msg = None, M_min_ver = - 1, M_max_ver = 0, M_str_var_size = 8,
                     M_freeform_msg_size = 128\<rparr>"

definition setFreeformMsgSize :: "u32 \<Rightarrow> builder \<Rightarrow> builder" where
  "setFreeformMsgSize len b = b\<lparr>M_freeform_msg_size := len\<rparr>"

definition setStrVarSize :: "u32 \<Rightarrow> builder \<Rightarrow> builder" where
  "setStrVarSize len b = b\<lparr>M_str_var_size := len\<rparr>"

definition STR_SIZE :: nat where "STR_SIZE = 8"

text \<open>A result or the exception which ends the parse.\<close>

type_synonym 'a built = "builder_err + 'a"

fun and_then :: "'a built \<Rightarrow> ('a \<Rightarrow> 'b built) \<Rightarrow> 'b built" where
  "and_then (Inl e) f = Inl e"
| "and_then (Inr x) f = f x"

definition isItem :: "item_type \<Rightarrow> builder \<Rightarrow> bool" where
  "isItem t b \<longleftrightarrow> M_items b \<noteq> [] \<and> m_type (hd (M_items b)) = t"

definition checkIsItem :: "item_type \<Rightarrow> builder \<Rightarrow> unit built" where
  "checkIsItem t b =
     (if M_items b \<noteq> [] then if m_type (hd (M_items b)) = t then Inr () else Inl WrongItem
      else Inl NoItems)"

definition getMetaToken :: "builder \<Rightarrow> meta_token \<times> builder" where
  "getMetaToken b = (it_meta (hd (M_items b)), b\<lparr>M_items := tl (M_items b)\<rparr>)"

definition getAction :: "builder \<Rightarrow> action \<times> builder" where
  "getAction b = (it_action (hd (M_items b)), b\<lparr>M_items := tl (M_items b)\<rparr>)"

definition getDir :: "builder \<Rightarrow> dir \<times> builder" where
  "getDir b = (it_dir (hd (M_items b)), b\<lparr>M_items := tl (M_items b)\<rparr>)"

definition getCond :: "builder \<Rightarrow> cond \<times> builder" where
  "getCond b = (it_cond (hd (M_items b)), b\<lparr>M_items := tl (M_items b)\<rparr>)"

definition getCondList :: "builder \<Rightarrow> (cond option list) \<times> builder" where
  "getCondList b = (it_condlist (hd (M_items b)), b\<lparr>M_items := tl (M_items b)\<rparr>)"

definition getToken :: "builder \<Rightarrow> token \<times> builder" where
  "getToken b = (it_token (hd (M_items b)), b\<lparr>M_items := tl (M_items b)\<rparr>)"

definition getDef :: "builder \<Rightarrow> def \<times> builder" where
  "getDef b = (it_def (hd (M_items b)), b\<lparr>M_items := tl (M_items b)\<rparr>)"

definition getRegion :: "builder \<Rightarrow> region \<times> builder" where
  "getRegion b = (it_reg (hd (M_items b)), b\<lparr>M_items := tl (M_items b)\<rparr>)"

definition getPoint :: "builder \<Rightarrow> point \<times> builder" where
  "getPoint b = (it_point (hd (M_items b)), b\<lparr>M_items := tl (M_items b)\<rparr>)"

definition getUNum :: "builder \<Rightarrow> unum \<times> builder" where
  "getUNum b = (it_unum (hd (M_items b)), b\<lparr>M_items := tl (M_items b)\<rparr>)"

definition getBMT :: "builder \<Rightarrow> ball_move_token \<times> builder" where
  "getBMT b = (it_bmt (hd (M_items b)), b\<lparr>M_items := tl (M_items b)\<rparr>)"

definition getUNumSet :: "builder \<Rightarrow> unum_set \<times> builder" where
  "getUNumSet b = (it_unumset (hd (M_items b)), b\<lparr>M_items := tl (M_items b)\<rparr>)"

definition getStr :: "builder \<Rightarrow> string \<times> builder" where
  "getStr b = (it_str (hd (M_items b)), b\<lparr>M_items := tl (M_items b)\<rparr>)"

definition getRIDList :: "builder \<Rightarrow> rule_id_list \<times> builder" where
  "getRIDList b = (it_ridlist (hd (M_items b)), b\<lparr>M_items := tl (M_items b)\<rparr>)"

definition getActivateRules :: "builder \<Rightarrow> activate_rules \<times> builder" where
  "getActivateRules b = (it_activate (hd (M_items b)), b\<lparr>M_items := tl (M_items b)\<rparr>)"

definition getRule :: "builder \<Rightarrow> crule \<times> builder" where
  "getRule b = (it_rule (hd (M_items b)), b\<lparr>M_items := tl (M_items b)\<rparr>)"

definition getRID :: "builder \<Rightarrow> string \<times> builder" where
  "getRID b = (it_rid (hd (M_items b)), b\<lparr>M_items := tl (M_items b)\<rparr>)"

definition checkAndGetMetaToken :: "builder \<Rightarrow> (meta_token \<times> builder) built" where
  "checkAndGetMetaToken b = and_then (checkIsItem IT_META b) (\<lambda>_. Inr (getMetaToken b))"

definition checkAndGetAction :: "builder \<Rightarrow> (action \<times> builder) built" where
  "checkAndGetAction b = and_then (checkIsItem IT_ACTION b) (\<lambda>_. Inr (getAction b))"

definition checkAndGetDir :: "builder \<Rightarrow> (dir \<times> builder) built" where
  "checkAndGetDir b = and_then (checkIsItem IT_DIR b) (\<lambda>_. Inr (getDir b))"

definition checkAndGetCond :: "builder \<Rightarrow> (cond \<times> builder) built" where
  "checkAndGetCond b = and_then (checkIsItem IT_COND b) (\<lambda>_. Inr (getCond b))"

definition checkAndGetCondList :: "builder \<Rightarrow> ((cond option list) \<times> builder) built" where
  "checkAndGetCondList b = and_then (checkIsItem IT_CONDLIST b) (\<lambda>_. Inr (getCondList b))"

definition checkAndGetToken :: "builder \<Rightarrow> (token \<times> builder) built" where
  "checkAndGetToken b = and_then (checkIsItem IT_TOKEN b) (\<lambda>_. Inr (getToken b))"

definition checkAndGetDef :: "builder \<Rightarrow> (def \<times> builder) built" where
  "checkAndGetDef b = and_then (checkIsItem IT_DEF b) (\<lambda>_. Inr (getDef b))"

definition checkAndGetRegion :: "builder \<Rightarrow> (region \<times> builder) built" where
  "checkAndGetRegion b = and_then (checkIsItem IT_REG b) (\<lambda>_. Inr (getRegion b))"

definition checkAndGetPoint :: "builder \<Rightarrow> (point \<times> builder) built" where
  "checkAndGetPoint b = and_then (checkIsItem IT_POINT b) (\<lambda>_. Inr (getPoint b))"

definition checkAndGetUNum :: "builder \<Rightarrow> (unum \<times> builder) built" where
  "checkAndGetUNum b = and_then (checkIsItem IT_UNUM b) (\<lambda>_. Inr (getUNum b))"

definition checkAndGetBMT :: "builder \<Rightarrow> (ball_move_token \<times> builder) built" where
  "checkAndGetBMT b = and_then (checkIsItem IT_BMT b) (\<lambda>_. Inr (getBMT b))"

definition checkAndGetUNumSet :: "builder \<Rightarrow> (unum_set \<times> builder) built" where
  "checkAndGetUNumSet b = and_then (checkIsItem IT_UNUMSET b) (\<lambda>_. Inr (getUNumSet b))"

definition checkAndGetStr :: "builder \<Rightarrow> (string \<times> builder) built" where
  "checkAndGetStr b = and_then (checkIsItem IT_STR b) (\<lambda>_. Inr (getStr b))"

definition checkAndGetRIDList :: "builder \<Rightarrow> (rule_id_list \<times> builder) built" where
  "checkAndGetRIDList b = and_then (checkIsItem IT_RIDLIST b) (\<lambda>_. Inr (getRIDList b))"

definition checkAndGetActivateRules :: "builder \<Rightarrow> (activate_rules \<times> builder) built" where
  "checkAndGetActivateRules b = and_then (checkIsItem IT_ACTIVATE b) (\<lambda>_. Inr (getActivateRules b))"

definition checkAndGetRule :: "builder \<Rightarrow> (crule \<times> builder) built" where
  "checkAndGetRule b = and_then (checkIsItem IT_RULE b) (\<lambda>_. Inr (getRule b))"

definition checkAndGetRID :: "builder \<Rightarrow> (string \<times> builder) built" where
  "checkAndGetRID b = and_then (checkIsItem IT_RID b) (\<lambda>_. Inr (getRID b))"

definition addMetaToken :: "meta_token \<Rightarrow> builder \<Rightarrow> builder" where
  "addMetaToken x b = b\<lparr>M_items := I_Meta x # M_items b\<rparr>"

definition addAction :: "action \<Rightarrow> builder \<Rightarrow> builder" where
  "addAction x b = b\<lparr>M_items := I_Action x # M_items b\<rparr>"

definition addDir :: "dir \<Rightarrow> builder \<Rightarrow> builder" where
  "addDir x b = b\<lparr>M_items := I_Dir x # M_items b\<rparr>"

definition addCond :: "cond \<Rightarrow> builder \<Rightarrow> builder" where
  "addCond x b = b\<lparr>M_items := I_Cond x # M_items b\<rparr>"

definition addCondList :: "cond option list \<Rightarrow> builder \<Rightarrow> builder" where
  "addCondList x b = b\<lparr>M_items := I_CondList x # M_items b\<rparr>"

definition addToken :: "token \<Rightarrow> builder \<Rightarrow> builder" where
  "addToken x b = b\<lparr>M_items := I_Token x # M_items b\<rparr>"

definition addDef :: "def \<Rightarrow> builder \<Rightarrow> builder" where
  "addDef x b = b\<lparr>M_items := I_Def x # M_items b\<rparr>"

definition addRegion :: "region \<Rightarrow> builder \<Rightarrow> builder" where
  "addRegion x b = b\<lparr>M_items := I_Reg x # M_items b\<rparr>"

definition addPoint :: "point \<Rightarrow> builder \<Rightarrow> builder" where
  "addPoint x b = b\<lparr>M_items := I_Point x # M_items b\<rparr>"

definition addUNum :: "unum \<Rightarrow> builder \<Rightarrow> builder" where
  "addUNum x b = b\<lparr>M_items := I_UNum x # M_items b\<rparr>"

definition addBMT :: "ball_move_token \<Rightarrow> builder \<Rightarrow> builder" where
  "addBMT x b = b\<lparr>M_items := I_BMT x # M_items b\<rparr>"

definition addUNumSet :: "unum_set \<Rightarrow> builder \<Rightarrow> builder" where
  "addUNumSet x b = b\<lparr>M_items := I_UNumSet x # M_items b\<rparr>"

definition addStr :: "string \<Rightarrow> builder \<Rightarrow> builder" where
  "addStr x b = b\<lparr>M_items := I_Str x # M_items b\<rparr>"

definition addRIDList :: "rule_id_list \<Rightarrow> builder \<Rightarrow> builder" where
  "addRIDList x b = b\<lparr>M_items := I_RIDList x # M_items b\<rparr>"

definition addActivateRules :: "activate_rules \<Rightarrow> builder \<Rightarrow> builder" where
  "addActivateRules x b = b\<lparr>M_items := I_Activate x # M_items b\<rparr>"

definition addRule :: "crule \<Rightarrow> builder \<Rightarrow> builder" where
  "addRule x b = b\<lparr>M_items := I_Rule x # M_items b\<rparr>"

definition addRID :: "string \<Rightarrow> builder \<Rightarrow> builder" where
  "addRID x b = b\<lparr>M_items := I_RID x # M_items b\<rparr>"

text \<open>\<^verbatim>\<open>while ( isItem( t ) )\<close>: what is taken from the top, one by one.\<close>

fun while_item :: "item_type \<Rightarrow> (item \<Rightarrow> 'a \<Rightarrow> 'a) \<Rightarrow> item list \<Rightarrow> 'a \<Rightarrow> 'a \<times> item list" where
  "while_item t f [] acc = (acc, [])"
| "while_item t f (x # s) acc = (if m_type x = t then while_item t f s (f x acc) else (acc, x # s))"

text \<open>The form of most operations: there must be one such item, and all on top are taken.\<close>

definition take_items :: "item_type \<Rightarrow> (item \<Rightarrow> 'a \<Rightarrow> 'a) \<Rightarrow> 'a \<Rightarrow> builder \<Rightarrow> ('a \<times> builder) built" where
  "take_items t f acc b = and_then (checkIsItem t b)
     (\<lambda>_. let (r, s) = while_item t f (M_items b) acc in Inr (r, b\<lparr>M_items := s\<rparr>))"

definition checked_name :: "string \<Rightarrow> 'a built \<Rightarrow> 'a built" where
  "checked_name name r = (if length name > STR_SIZE then Inl OverMaxString else r)"

section \<open>Versions and the message\<close>

text \<open>\<^verbatim>\<open>MsgBuilder::setVer\<close> keeps its own range and passes the call on to the message.\<close>

definition version_range :: "u32 \<Rightarrow> u32 \<Rightarrow> u32 \<times> u32 \<Rightarrow> u32 \<times> u32" where
  "version_range mn mx = (\<lambda>(lo, hi).
     if mn = mx
     then
       if mn < hi then (mn, hi)
       else if mn > lo then (lo, mn)
       else if hi < lo then (mn, mn)
       else (lo, hi)
     else
       let lo1 = (if mn < lo then mn else lo);
           hi1 = (if mx > hi then mx else hi)
       in if mn > mx \<and> hi1 < lo1 \<and> mn > hi1 \<and> mx < lo1 then (mn, mx) else (lo1, hi1))"

definition builder_setVer :: "u32 \<Rightarrow> u32 \<Rightarrow> builder \<Rightarrow> builder" where
  "builder_setVer mn mx b =
     (let (lo, hi) = version_range mn mx (M_min_ver b, M_max_ver b)
      in b\<lparr>M_min_ver := lo, M_max_ver := hi,
           M_msg := map_option (\<lambda>(body, m). (body, setVer mn mx m)) (M_msg b)\<rparr>)"

text \<open>The constructor of \<^verbatim>\<open>Msg\<close>; the text is filled in when the message is taken.\<close>

definition Msg_new :: "msg_body \<Rightarrow> clang_msg" where
  "Msg_new body = \<lparr>Msg_type = Msg_getType body, Msg_time_recv = - 1, Msg_time_send = - 1,
                  Msg_side = NEUTRAL, Msg_min_ver = - 1, Msg_max_ver = 0, Msg_text = []\<rparr>"

definition builder_getMsg :: "(real \<Rightarrow> string) \<Rightarrow> builder \<Rightarrow> clang_msg option" where
  "builder_getMsg sr b = map_option (\<lambda>(body, m). m\<lparr>Msg_text := Msg_print sr body\<rparr>) (M_msg b)"

definition checkItemsEmpty :: "builder \<Rightarrow> unit built" where
  "checkItemsEmpty b = (if M_items b \<noteq> [] then Inl NotEmpty else Inr ())"

definition setMsg :: "msg_body \<Rightarrow> builder \<Rightarrow> builder built" where
  "setMsg body b =
     (let b1 = b\<lparr>M_msg := Some (body, Msg_new body)\<rparr>;
          b2 = builder_setVer (M_min_ver b1) (M_max_ver b1) b1
      in and_then (checkItemsEmpty b2) (\<lambda>_. Inr b2))"

definition upd_msg :: "(clang_msg \<Rightarrow> clang_msg) \<Rightarrow> builder \<Rightarrow> builder" where
  "upd_msg f b = b\<lparr>M_msg := map_option (\<lambda>(body, m). (body, f m)) (M_msg b)\<rparr>"

definition setTime :: "int \<Rightarrow> builder \<Rightarrow> builder" where
  "setTime t = upd_msg (\<lambda>m. m\<lparr>Msg_time_send := t\<rparr>)"

definition setSide :: "side \<Rightarrow> builder \<Rightarrow> builder" where
  "setSide s = upd_msg (\<lambda>m. m\<lparr>Msg_side := s\<rparr>)"

definition setTimeRecv :: "int \<Rightarrow> builder \<Rightarrow> builder" where
  "setTimeRecv t = upd_msg (\<lambda>m. m\<lparr>Msg_time_recv := t\<rparr>)"

section \<open>The operations\<close>

text \<open>Messages.\<close>

definition buildMetaMsg :: "builder \<Rightarrow> builder built" where
  "buildMetaMsg b = and_then (take_items IT_META (\<lambda>x l. Some (it_meta x) # l) [] b)
     (\<lambda>(ts, b1). setMsg (MetaMsg ts) b1)"

definition buildDefineMsg :: "builder \<Rightarrow> builder built" where
  "buildDefineMsg b = and_then (take_items IT_DEF (\<lambda>x l. Some (it_def x) # l) [] b)
     (\<lambda>(ts, b1). setMsg (DefineMsg ts) b1)"

definition buildInfoMsg :: "builder \<Rightarrow> builder built" where
  "buildInfoMsg b = and_then (take_items IT_TOKEN (\<lambda>x l. Some (it_token x) # l) [] b)
     (\<lambda>(ts, b1). setMsg (InfoMsg ts) b1)"

definition buildAdviceMsg :: "builder \<Rightarrow> builder built" where
  "buildAdviceMsg b = and_then (take_items IT_TOKEN (\<lambda>x l. Some (it_token x) # l) [] b)
     (\<lambda>(ts, b1). setMsg (AdviceMsg ts) b1)"

definition buildMetaTokenVer :: "real \<Rightarrow> builder \<Rightarrow> builder built" where
  "buildMetaTokenVer ver b = Inr (addMetaToken (MetaTokenVer ver) b)"

definition buildDefineCond :: "string \<Rightarrow> builder \<Rightarrow> builder built" where
  "buildDefineCond name b = checked_name name
     (and_then (checkAndGetCond b) (\<lambda>(x, b1). Inr (addDef (DefCond name (Some x)) b1)))"

definition buildDefineDir :: "string \<Rightarrow> builder \<Rightarrow> builder built" where
  "buildDefineDir name b = checked_name name
     (and_then (checkAndGetDir b) (\<lambda>(x, b1). Inr (addDef (DefDir name (Some x)) b1)))"

definition buildDefineReg :: "string \<Rightarrow> builder \<Rightarrow> builder built" where
  "buildDefineReg name b = checked_name name
     (and_then (checkAndGetRegion b) (\<lambda>(x, b1). Inr (addDef (DefReg name (Some x)) b1)))"

definition buildDefineAct :: "string \<Rightarrow> builder \<Rightarrow> builder built" where
  "buildDefineAct name b = checked_name name
     (and_then (checkAndGetAction b) (\<lambda>(x, b1). Inr (addDef (DefAct name (Some x)) b1)))"

definition buildFreeformMsg :: "string \<Rightarrow> builder \<Rightarrow> builder built" where
  "buildFreeformMsg str b = setMsg (FreeformMsg str) b"

definition buildUnsuppMsg :: "builder \<Rightarrow> builder built" where
  "buildUnsuppMsg b = setMsg UnsuppMsg b"

text \<open>Tokens.\<close>

definition buildTokenRule :: "int \<Rightarrow> builder \<Rightarrow> builder built" where
  "buildTokenRule ttl b = and_then (take_items IT_DIR (\<lambda>x l. Some (it_dir x) # l) [] b)
     (\<lambda>(dirs, b1). and_then (checkAndGetCond b1) (\<lambda>(c, b2). Inr (addToken (TokRule ttl (Some c) dirs) b2)))"

definition buildTokenClear :: "builder \<Rightarrow> builder built" where
  "buildTokenClear b = Inr (addToken TokClear b)"

text \<open>Actions.\<close>

definition buildActPos :: "builder \<Rightarrow> builder built" where
  "buildActPos b = and_then (checkAndGetRegion b) (\<lambda>(r, b1). Inr (addAction (ActPos (Some r)) b1))"

definition buildActHome :: "builder \<Rightarrow> builder built" where
  "buildActHome b = and_then (checkAndGetRegion b) (\<lambda>(r, b1). Inr (addAction (ActHome (Some r)) b1))"

definition buildActMarkLineReg :: "builder \<Rightarrow> builder built" where
  "buildActMarkLineReg b = and_then (checkAndGetRegion b) (\<lambda>(r, b1). Inr (addAction (ActMarkLineReg (Some r)) b1))"

definition buildActOffsideLine :: "builder \<Rightarrow> builder built" where
  "buildActOffsideLine b = and_then (checkAndGetRegion b) (\<lambda>(r, b1). Inr (addAction (ActOffsidesLine (Some r)) b1))"

definition buildActPassReg :: "builder \<Rightarrow> builder built" where
  "buildActPassReg b = and_then (checkAndGetRegion b) (\<lambda>(r, b1). Inr (addAction (ActPassReg (Some r)) b1))"

definition buildActDribble :: "builder \<Rightarrow> builder built" where
  "buildActDribble b = and_then (checkAndGetRegion b) (\<lambda>(r, b1). Inr (addAction (ActDribble (Some r)) b1))"

definition buildActClear :: "builder \<Rightarrow> builder built" where
  "buildActClear b = and_then (checkAndGetRegion b) (\<lambda>(r, b1). Inr (addAction (ActClear (Some r)) b1))"

definition buildActBallToPlayer :: "builder \<Rightarrow> builder built" where
  "buildActBallToPlayer b = and_then (checkAndGetUNumSet b) (\<lambda>(ps, b1). Inr (addAction (ActBallToPlayer ps) b1))"

definition buildActMark :: "builder \<Rightarrow> builder built" where
  "buildActMark b = and_then (checkAndGetUNumSet b) (\<lambda>(ps, b1). Inr (addAction (ActMark ps) b1))"

definition buildActMarkLinePlayer :: "builder \<Rightarrow> builder built" where
  "buildActMarkLinePlayer b = and_then (checkAndGetUNumSet b) (\<lambda>(ps, b1). Inr (addAction (ActMarkLinePlayer ps) b1))"

definition buildActPassUNum :: "builder \<Rightarrow> builder built" where
  "buildActPassUNum b = and_then (checkAndGetUNumSet b) (\<lambda>(ps, b1). Inr (addAction (ActPassUNum ps) b1))"

definition buildActTackle :: "builder \<Rightarrow> builder built" where
  "buildActTackle b = and_then (checkAndGetUNumSet b) (\<lambda>(ps, b1). Inr (addAction (ActTackle ps) b1))"

definition buildActBallToReg :: "builder \<Rightarrow> builder built" where
  "buildActBallToReg b = and_then (take_items IT_BMT (\<lambda>x m. BallMove_addToken (it_bmt x) m) 0 b)
     (\<lambda>(bm, b1). and_then (checkAndGetRegion b1) (\<lambda>(r, b2). Inr (addAction (ActBallToReg (Some r) bm) b2)))"

definition buildActHetType :: "int \<Rightarrow> builder \<Rightarrow> builder built" where
  "buildActHetType n b = Inr (addAction (ActHetType n) b)"

definition buildActNamed :: "string \<Rightarrow> builder \<Rightarrow> builder built" where
  "buildActNamed name b = checked_name name (Inr (addAction (ActNamed name) b))"

definition buildActShoot :: "builder \<Rightarrow> builder built" where
  "buildActShoot b = Inr (addAction ActShoot b)"

definition buildActHold :: "builder \<Rightarrow> builder built" where
  "buildActHold b = Inr (addAction ActHold b)"

definition buildActIntercept :: "builder \<Rightarrow> builder built" where
  "buildActIntercept b = Inr (addAction ActIntercept b)"

text \<open>Directives.\<close>

definition buildDirComm :: "bool \<Rightarrow> bool \<Rightarrow> builder \<Rightarrow> builder built" where
  "buildDirComm do_dont our_side b = and_then (take_items IT_ACTION (\<lambda>x l. Some (it_action x) # l) [] b)
     (\<lambda>(acts, b1). and_then (checkAndGetUNumSet b1)
       (\<lambda>(ps, b2). Inr (addDir (DirComm do_dont our_side ps acts) b2)))"

definition buildDirNamed :: "string \<Rightarrow> builder \<Rightarrow> builder built" where
  "buildDirNamed name b = checked_name name (Inr (addDir (DirNamed name) b))"

text \<open>Conditions.\<close>

definition buildCondTrue :: "builder \<Rightarrow> builder built" where
  "buildCondTrue b = Inr (addCond (CondBool True) b)"

definition buildCondFalse :: "builder \<Rightarrow> builder built" where
  "buildCondFalse b = Inr (addCond (CondBool False) b)"

definition buildCondPlayerPos :: "bool \<Rightarrow> int \<Rightarrow> int \<Rightarrow> builder \<Rightarrow> builder built" where
  "buildCondPlayerPos our_side mn mx b = and_then (checkAndGetRegion b)
     (\<lambda>(r, b1). and_then (checkAndGetUNumSet b1)
       (\<lambda>(ps, b2). Inr (addCond (CondPlayerPos our_side ps mn mx (Some r)) b2)))"

definition buildCondBallPos :: "builder \<Rightarrow> builder built" where
  "buildCondBallPos b = and_then (checkAndGetRegion b) (\<lambda>(r, b1). Inr (addCond (CondBallPos (Some r)) b1))"

definition buildCondBallOwner :: "bool \<Rightarrow> builder \<Rightarrow> builder built" where
  "buildCondBallOwner our_side b =
     and_then (checkAndGetUNumSet b) (\<lambda>(ps, b1). Inr (addCond (CondBallOwner our_side ps) b1))"

definition buildCondPlayMode :: "clang_playmode \<Rightarrow> builder \<Rightarrow> builder built" where
  "buildCondPlayMode pm b = Inr (addCond (CondPlayMode pm) b)"

definition buildCondAnd :: "builder \<Rightarrow> builder built" where
  "buildCondAnd b = and_then (checkAndGetCondList b) (\<lambda>(l, b1). Inr (addCond (CondAnd l) b1))"

definition buildCondOr :: "builder \<Rightarrow> builder built" where
  "buildCondOr b = and_then (checkAndGetCondList b) (\<lambda>(l, b1). Inr (addCond (CondOr l) b1))"

definition buildCondNot :: "builder \<Rightarrow> builder built" where
  "buildCondNot b = and_then (checkAndGetCond b) (\<lambda>(c, b1). Inr (addCond (CondNot (Some c)) b1))"

definition buildCondNamed :: "string \<Rightarrow> builder \<Rightarrow> builder built" where
  "buildCondNamed name b = checked_name name (Inr (addCond (CondNamed name) b))"

definition buildCondTime :: "int \<Rightarrow> comp_op \<Rightarrow> builder \<Rightarrow> builder built" where
  "buildCondTime v cmp b = Inr (addCond (CondTime v cmp) b)"

definition buildCondOppGoal :: "int \<Rightarrow> comp_op \<Rightarrow> builder \<Rightarrow> builder built" where
  "buildCondOppGoal v cmp b = Inr (addCond (CondOppGoal v cmp) b)"

definition buildCondOurGoal :: "int \<Rightarrow> comp_op \<Rightarrow> builder \<Rightarrow> builder built" where
  "buildCondOurGoal v cmp b = Inr (addCond (CondOurGoal v cmp) b)"

definition buildCondGoalDiff :: "int \<Rightarrow> comp_op \<Rightarrow> builder \<Rightarrow> builder built" where
  "buildCondGoalDiff v cmp b = Inr (addCond (CondGoalDiff v cmp) b)"

definition buildCondUNum :: "unum \<Rightarrow> builder \<Rightarrow> builder built" where
  "buildCondUNum u b = and_then (checkAndGetUNumSet b) (\<lambda>(s, b1). Inr (addCond (CondUNum u s) b1))"

definition buildAddToCondList :: "builder \<Rightarrow> builder built" where
  "buildAddToCondList b = and_then (checkAndGetCond b)
     (\<lambda>(c, b1). and_then (checkAndGetCondList b1) (\<lambda>(l, b2). Inr (addCondList (l @ [Some c]) b2)))"

definition buildCreateCondList :: "builder \<Rightarrow> builder built" where
  "buildCreateCondList b = and_then (checkAndGetCond b) (\<lambda>(c, b1). Inr (addCondList [Some c] b1))"

text \<open>Regions.\<close>

definition buildRegNull :: "builder \<Rightarrow> builder built" where
  "buildRegNull b = Inr (addRegion RegNull b)"

definition buildRegQuad :: "builder \<Rightarrow> builder built" where
  "buildRegQuad b = and_then (checkAndGetPoint b) (\<lambda>(p4, b1). and_then (checkAndGetPoint b1)
     (\<lambda>(p3, b2). and_then (checkAndGetPoint b2) (\<lambda>(p2, b3). and_then (checkAndGetPoint b3)
       (\<lambda>(p1, b4). Inr (addRegion (RegQuad (Some p1) (Some p2) (Some p3) (Some p4)) b4)))))"

definition buildRegArc :: "real \<Rightarrow> real \<Rightarrow> real \<Rightarrow> real \<Rightarrow> builder \<Rightarrow> builder built" where
  "buildRegArc start_rad end_rad start_ang span_ang b = and_then (checkAndGetPoint b)
     (\<lambda>(p, b1). Inr (addRegion (RegArc start_rad end_rad start_ang span_ang (Some p)) b1))"

definition buildRegUnion :: "builder \<Rightarrow> builder built" where
  "buildRegUnion b = and_then (take_items IT_REG (\<lambda>x l. Some (it_reg x) # l) [] b)
     (\<lambda>(rs, b1). Inr (addRegion (RegUnion rs) b1))"

definition buildRegNamed :: "string \<Rightarrow> builder \<Rightarrow> builder built" where
  "buildRegNamed name b = checked_name name (Inr (addRegion (RegNamed name) b))"

definition buildRegPoint :: "builder \<Rightarrow> builder built" where
  "buildRegPoint b = and_then (checkAndGetPoint b) (\<lambda>(p, b1). Inr (addRegion (RegPoint (Some p)) b1))"

definition buildRegTri :: "builder \<Rightarrow> builder built" where
  "buildRegTri b = and_then (checkAndGetPoint b) (\<lambda>(p3, b1). and_then (checkAndGetPoint b1)
     (\<lambda>(p2, b2). and_then (checkAndGetPoint b2)
       (\<lambda>(p1, b3). Inr (addRegion (RegTri (Some p1) (Some p2) (Some p3)) b3))))"

definition buildRegRec :: "builder \<Rightarrow> builder built" where
  "buildRegRec b = and_then (checkAndGetPoint b) (\<lambda>(p2, b1). and_then (checkAndGetPoint b1)
     (\<lambda>(p1, b2). Inr (addRegion (RegRec (Some p1) (Some p2)) b2)))"

text \<open>Points.\<close>

definition buildPointSimple :: "real \<Rightarrow> real \<Rightarrow> builder \<Rightarrow> builder built" where
  "buildPointSimple x y b = Inr (addPoint (PointSimple x y) b)"

definition buildPointRel :: "real \<Rightarrow> real \<Rightarrow> builder \<Rightarrow> builder built" where
  "buildPointRel x y b = and_then (checkAndGetPoint b) (\<lambda>(p, b1). Inr (addPoint (PointRel x y (Some p)) b1))"

definition buildPointBall :: "builder \<Rightarrow> builder built" where
  "buildPointBall b = Inr (addPoint PointBall b)"

definition buildPointPlayer :: "bool \<Rightarrow> unum \<Rightarrow> builder \<Rightarrow> builder built" where
  "buildPointPlayer our_side u b = Inr (addPoint (PointPlayer our_side u) b)"

definition buildPointArith :: "arith_op \<Rightarrow> builder \<Rightarrow> builder built" where
  "buildPointArith arith b = and_then (checkAndGetPoint b) (\<lambda>(second, b1). and_then (checkAndGetPoint b1)
     (\<lambda>(first, b2). Inr (addPoint (PointArith (Some first) (Some second) arith) b2)))"

text \<open>Numbers and ball moves: each number taken is added at the end of the set.\<close>

definition buildUNum :: "unum \<Rightarrow> builder \<Rightarrow> builder built" where
  "buildUNum u b = Inr (addUNum u b)"

definition buildUNumSet :: "builder \<Rightarrow> builder built" where
  "buildUNumSet b = and_then (take_items IT_UNUM (\<lambda>x s. UNumSet_add (it_unum x) s) [] b)
     (\<lambda>(s, b1). Inr (addUNumSet s b1))"

definition buildBallMoveToken :: "ball_move_token \<Rightarrow> builder \<Rightarrow> builder built" where
  "buildBallMoveToken t b = Inr (addBMT t b)"

text \<open>Rules.\<close>

definition buildRuleMsg :: "builder \<Rightarrow> builder built" where
  "buildRuleMsg b = and_then (take_items IT_ACTIVATE (\<lambda>x l. it_activate x # l) [] b)
     (\<lambda>(l, b1). setMsg (RuleMsg l) b1)"

definition buildActivateAllRules :: "bool \<Rightarrow> builder \<Rightarrow> builder built" where
  "buildActivateAllRules on b = Inr (addActivateRules \<lparr>AR_on = on, AR_rids = []\<rparr> b)"

text \<open>A single rule or a list of rules from the top of the stack.\<close>

definition rid_or_list :: "builder \<Rightarrow> (rule_id_list \<times> builder) built" where
  "rid_or_list b =
     (if isItem IT_RID b then let (rid, b1) = getRID b in Inr ([rid], b1) else checkAndGetRIDList b)"

definition buildActivateRules :: "bool \<Rightarrow> builder \<Rightarrow> builder built" where
  "buildActivateRules on b = and_then (rid_or_list b)
     (\<lambda>(rids, b1). Inr (addActivateRules \<lparr>AR_on = on, AR_rids = rids\<rparr> b1))"

definition buildRuleID :: "string \<Rightarrow> builder \<Rightarrow> builder built" where
  "buildRuleID rid b = checked_name rid (Inr (addRID rid b))"

definition buildRuleIDList :: "builder \<Rightarrow> builder built" where
  "buildRuleIDList b = and_then (take_items IT_RID (\<lambda>x l. it_rid x # l) [] b)
     (\<lambda>(rids, b1). Inr (addRIDList rids b1))"

definition buildRuleIDListALL :: "builder \<Rightarrow> builder built" where
  "buildRuleIDListALL b = Inr (addRIDList [] b)"

definition buildDelMsg :: "builder \<Rightarrow> builder built" where
  "buildDelMsg b = and_then (rid_or_list b) (\<lambda>(rids, b1). setMsg (DelMsg rids) b1)"

definition buildDefineModelRule :: "string \<Rightarrow> builder \<Rightarrow> builder built" where
  "buildDefineModelRule rid b = checked_name rid
     (and_then (checkAndGetRule b) (\<lambda>(r, b1). Inr (addDef (DefRule rid (Some r) True) b1)))"

definition buildDefineDirectiveRule :: "string \<Rightarrow> builder \<Rightarrow> builder built" where
  "buildDefineDirectiveRule rid b = checked_name rid
     (and_then (checkAndGetRule b) (\<lambda>(r, b1). Inr (addDef (DefRule rid (Some r) False) b1)))"

definition buildSimpleRule :: "builder \<Rightarrow> builder built" where
  "buildSimpleRule b = and_then (take_items IT_DIR (\<lambda>x l. Some (it_dir x) # l) [] b)
     (\<lambda>(dirs, b1). and_then (checkAndGetCond b1) (\<lambda>(c, b2). Inr (addRule (SimpleRule (Some c) dirs) b2)))"

definition buildNestedRule :: "builder \<Rightarrow> builder built" where
  "buildNestedRule b = and_then (take_items IT_RULE (\<lambda>x l. Some (it_rule x) # l) [] b)
     (\<lambda>(rules, b1). and_then (checkAndGetCond b1) (\<lambda>(c, b2). Inr (addRule (NestedRule (Some c) rules) b2)))"

definition buildIDRule :: "builder \<Rightarrow> builder built" where
  "buildIDRule b = and_then (checkAndGetRIDList b) (\<lambda>(rids, b1). Inr (addRule (IDListRule rids) b1))"

section \<open>Parsing\<close>

text \<open>The parser makes these calls in turn, up to the first exception.\<close>

type_synonym call = "builder \<Rightarrow> builder built"

fun build_all :: "call list \<Rightarrow> builder \<Rightarrow> builder built" where
  "build_all [] b = Inr b"
| "build_all (c # cs) b = and_then (c b) (build_all cs)"

lemma and_then_assoc: "and_then (and_then m f) g = and_then m (\<lambda>x. and_then (f x) g)"
  by (cases m) simp_all

lemma build_all_append [simp]: "build_all (cs @ ds) b = and_then (build_all cs b) (build_all ds)"
proof (induction cs arbitrary: b)
  case (Cons c cs)
  then show ?case by (cases "c b") simp_all
qed simp

end
