(* ===== verification/Parsing.thy ===== *)
theory Parsing
  imports Builder
begin

text \<open>
  Parsing a message of the coach language.  The grammar (rcss/clang/coach\_lang\_parser.ypp) reads
  the parts of a phrase from left to right and then calls the builder: \<open>msg_calls m\<close> are the calls
  for the message which denotes \<open>m\<close>.  The theorems say what the builder makes of them.
\<close>

section \<open>The calls of the grammar\<close>

definition at_ptr :: "('a \<Rightarrow> 'b list) \<Rightarrow> 'a option \<Rightarrow> 'b list" where
  "at_ptr f p = (case p of None \<Rightarrow> [] | Some x \<Rightarrow> f x)"

lemma at_ptr_cong [fundef_cong]:
  "p = q \<Longrightarrow> (\<And>x. q = Some x \<Longrightarrow> f x = g x) \<Longrightarrow> at_ptr f p = at_ptr g q"
  by (simp add: at_ptr_def split: option.split)

lemma at_ptr_Some [simp]: "at_ptr f (Some x) = f x"
  by (simp add: at_ptr_def)

definition ver :: "u32 \<Rightarrow> call" where
  "ver v b = Inr (builder_setVer v v b)"

text \<open>A name or a text longer than the builder allows is an error of the parser.\<close>

definition name_fits :: "string \<Rightarrow> call" where
  "name_fits name b = (if int (length name) > uint (M_str_var_size b) then Inl SyntaxError else Inr b)"

definition text_fits :: "string \<Rightarrow> call" where
  "text_fits str b = (if int (length str) > uint (M_freeform_msg_size b) then Inl SyntaxError else Inr b)"

text \<open>A number, or a variable, which needs version 8.\<close>

definition unum_calls :: "unum \<Rightarrow> call list" where
  "unum_calls u = (if UN_var u = [] then [buildUNum u] else [name_fits (UN_var u), buildUNum u, ver 8])"

definition unum_set_calls :: "unum_set \<Rightarrow> call list" where
  "unum_set_calls s = concat (map unum_calls s) @ [buildUNumSet]"

fun point_calls :: "point \<Rightarrow> call list" where
  "point_calls (PointSimple x y) = [buildPointSimple x y]"
| "point_calls (PointRel x y p) = at_ptr point_calls p @ [buildPointRel x y]"
| "point_calls PointBall = [buildPointBall]"
| "point_calls (PointPlayer our_side u) =
     (if UN_var u = [] then [buildPointPlayer our_side u]
      else [name_fits (UN_var u), buildPointPlayer our_side u, ver 8])"
| "point_calls (PointArith p q arith) =
     at_ptr point_calls p @ at_ptr point_calls q @ [buildPointArith arith, ver 8]"

fun region_calls :: "region \<Rightarrow> call list" where
  "region_calls RegNull = [buildRegNull]"
| "region_calls (RegQuad p q r s) =
     concat (map (at_ptr point_calls) [p, q, r, s]) @ [buildRegQuad, ver 7]"
| "region_calls (RegArc start_rad end_rad start_ang span_ang p) =
     at_ptr point_calls p @ [buildRegArc start_rad end_rad start_ang span_ang]"
| "region_calls (RegUnion rs) = concat (map (at_ptr region_calls) rs) @ [buildRegUnion]"
| "region_calls (RegNamed name) = [name_fits name, buildRegNamed name]"
| "region_calls (RegPoint p) = at_ptr point_calls p @ [buildRegPoint]"
| "region_calls (RegTri p q r) = concat (map (at_ptr point_calls) [p, q, r]) @ [buildRegTri, ver 8]"
| "region_calls (RegRec p q) = concat (map (at_ptr point_calls) [p, q]) @ [buildRegRec, ver 8]"

definition ball_move_calls :: "ball_move \<Rightarrow> call list" where
  "ball_move_calls m = map buildBallMoveToken (filter (\<lambda>t. BallMove_isMember t m) bmts)"

fun action_calls :: "action \<Rightarrow> call list" where
  "action_calls (ActPos r) = at_ptr region_calls r @ [buildActPos]"
| "action_calls (ActHome r) = at_ptr region_calls r @ [buildActHome]"
| "action_calls (ActBallToReg r m) = at_ptr region_calls r @ ball_move_calls m @ [buildActBallToReg]"
| "action_calls (ActBallToPlayer s) = unum_set_calls s @ [buildActBallToPlayer]"
| "action_calls (ActMark s) = unum_set_calls s @ [buildActMark]"
| "action_calls (ActMarkLinePlayer s) = unum_set_calls s @ [buildActMarkLinePlayer]"
| "action_calls (ActMarkLineReg r) = at_ptr region_calls r @ [buildActMarkLineReg]"
| "action_calls (ActOffsidesLine r) = at_ptr region_calls r @ [buildActOffsideLine]"
| "action_calls (ActHetType n) = [buildActHetType n]"
| "action_calls (ActNamed name) = [name_fits name, buildActNamed name]"
| "action_calls (ActPassReg r) = at_ptr region_calls r @ [buildActPassReg, ver 8]"
| "action_calls (ActPassUNum s) = unum_set_calls s @ [buildActPassUNum, ver 8]"
| "action_calls (ActDribble r) = at_ptr region_calls r @ [buildActDribble, ver 8]"
| "action_calls (ActClear r) = at_ptr region_calls r @ [buildActClear, ver 8]"
| "action_calls ActShoot = [buildActShoot, ver 8]"
| "action_calls ActHold = [buildActHold, ver 8]"
| "action_calls ActIntercept = [buildActIntercept, ver 8]"
| "action_calls (ActTackle s) = unum_set_calls s @ [buildActTackle, ver 8]"

fun dir_calls :: "dir \<Rightarrow> call list" where
  "dir_calls (DirComm do_dont our_side s acts) =
     unum_set_calls s @ concat (map (at_ptr action_calls) acts) @ [buildDirComm do_dont our_side]"
| "dir_calls (DirNamed name) = [name_fits name, buildDirNamed name]"

text \<open>\<open>condition_list\<close>: the first condition makes the list, the others are added to it.\<close>

fun cond_list_calls :: "call list list \<Rightarrow> call list" where
  "cond_list_calls [] = []"
| "cond_list_calls (c # cs) = c @ [buildCreateCondList] @ concat (map (\<lambda>c. c @ [buildAddToCondList]) cs)"

text \<open>The name of a condition is passed on with its quotation marks.\<close>

fun cond_calls :: "cond \<Rightarrow> call list" where
  "cond_calls (CondBool state) = [if state then buildCondTrue else buildCondFalse]"
| "cond_calls (CondPlayerPos our_side s mn mx r) =
     unum_set_calls s @ at_ptr region_calls r @ [buildCondPlayerPos our_side mn mx]"
| "cond_calls (CondBallPos r) = at_ptr region_calls r @ [buildCondBallPos]"
| "cond_calls (CondBallOwner our_side s) = unum_set_calls s @ [buildCondBallOwner our_side]"
| "cond_calls (CondPlayMode pm) = [buildCondPlayMode pm]"
| "cond_calls (CondAnd cs) = cond_list_calls (map (at_ptr cond_calls) cs) @ [buildCondAnd]"
| "cond_calls (CondOr cs) = cond_list_calls (map (at_ptr cond_calls) cs) @ [buildCondOr]"
| "cond_calls (CondNot c) = at_ptr cond_calls c @ [buildCondNot]"
| "cond_calls (CondNamed name) = [name_fits (quoted name), buildCondNamed (quoted name)]"
| "cond_calls (CondTime v cmp) = [buildCondTime v cmp, ver 8]"
| "cond_calls (CondOppGoal v cmp) = [buildCondOppGoal v cmp, ver 8]"
| "cond_calls (CondOurGoal v cmp) = [buildCondOurGoal v cmp, ver 8]"
| "cond_calls (CondGoalDiff v cmp) = [buildCondGoalDiff v cmp, ver 8]"
| "cond_calls (CondUNum u s) = unum_set_calls s @ [name_fits (UN_var u), buildCondUNum u, ver 8]"

text \<open>\<open>id_list\<close>: all rules, a list of rules, or a single one, which becomes a list of one.\<close>

definition id_list_calls :: "rule_id_list \<Rightarrow> call list" where
  "id_list_calls ids = (if ids = [] then [buildRuleIDListALL] else concat (map (\<lambda>i. [name_fits i, buildRuleID i]) ids) @ [buildRuleIDList])"

fun rule_calls :: "crule \<Rightarrow> call list" where
  "rule_calls (SimpleRule c dirs) =
     at_ptr cond_calls c @ concat (map (at_ptr dir_calls) dirs) @ [buildSimpleRule]"
| "rule_calls (NestedRule c rules) =
     at_ptr cond_calls c @ concat (map (at_ptr rule_calls) rules) @ [buildNestedRule]"
| "rule_calls (IDListRule ids) = id_list_calls ids @ [buildIDRule]"

fun token_calls :: "token \<Rightarrow> call list" where
  "token_calls TokClear = [buildTokenClear]"
| "token_calls (TokRule ttl c dirs) =
     at_ptr cond_calls c @ concat (map (at_ptr dir_calls) dirs) @ [buildTokenRule ttl]"

fun def_calls :: "def \<Rightarrow> call list" where
  "def_calls (DefCond name c) = at_ptr cond_calls c @ [name_fits name, buildDefineCond name]"
| "def_calls (DefDir name d) = at_ptr dir_calls d @ [name_fits name, buildDefineDir name]"
| "def_calls (DefReg name r) = at_ptr region_calls r @ [name_fits name, buildDefineReg name]"
| "def_calls (DefAct name a) = at_ptr action_calls a @ [name_fits name, buildDefineAct name]"
| "def_calls (DefRule name r model) = at_ptr rule_calls r
     @ [name_fits name, if model then buildDefineModelRule name else buildDefineDirectiveRule name, ver 8]"

fun meta_calls :: "meta_token \<Rightarrow> call list" where
  "meta_calls (MetaTokenVer v) = [buildMetaTokenVer v]"

definition activate_calls :: "activate_rules \<Rightarrow> call list" where
  "activate_calls a = id_list_calls (AR_rids a) @ [buildActivateRules (AR_on a)]"

fun msg_calls :: "msg_body \<Rightarrow> call list" where
  "msg_calls (MetaMsg ts) = concat (map (at_ptr meta_calls) ts) @ [buildMetaMsg, ver 7]"
| "msg_calls (FreeformMsg str) = [text_fits str, buildFreeformMsg str, \<lambda>b. Inr (builder_setVer 8 7 b)]"
| "msg_calls UnsuppMsg = [buildUnsuppMsg, \<lambda>b. Inr (builder_setVer 8 7 b)]"
| "msg_calls (InfoMsg ts) = concat (map (at_ptr token_calls) ts) @ [buildInfoMsg, ver 7]"
| "msg_calls (AdviceMsg ts) = concat (map (at_ptr token_calls) ts) @ [buildAdviceMsg, ver 7]"
| "msg_calls (DefineMsg ds) =
     concat (map (at_ptr def_calls) ds) @ [buildDefineMsg, \<lambda>b. Inr (builder_setVer 8 7 b)]"
| "msg_calls (DelMsg ids) = id_list_calls ids @ [buildDelMsg, ver 8]"
| "msg_calls (RuleMsg acts) = concat (map activate_calls acts) @ [buildRuleMsg, ver 8]"

end
