(* ===== verification/Reading.thy ===== *)
theory Reading
  imports Parsing
begin

text \<open>
  What the builder makes of the calls of the grammar: the object which was said, up to the order of
  the numbers in a set, the nesting of unions of regions and the quotation marks of condition
  names; or the error of the parser when a name is too long.  The locale-free core is the relation
  \<open>builds\<close> between a list of calls, the versions they ask for and the item they leave on the stack.
\<close>

section \<open>Stacks\<close>

definition setv :: "u32 list \<Rightarrow> builder \<Rightarrow> builder" where
  "setv vs b = fold (\<lambda>v. builder_setVer v v) vs b"

definition stacked :: "u32 list \<Rightarrow> item list \<Rightarrow> builder \<Rightarrow> builder" where
  "stacked vs s b = (setv vs b)\<lparr>M_items := s\<rparr>"

lemma builder_setVer_items [simp]:
  "builder_setVer mn mx (b\<lparr>M_items := s\<rparr>) = (builder_setVer mn mx b)\<lparr>M_items := s\<rparr>"
  "M_str_var_size (builder_setVer mn mx b) = M_str_var_size b"
  "M_freeform_msg_size (builder_setVer mn mx b) = M_freeform_msg_size b"
  by (simp_all add: builder_setVer_def split: prod.split)

lemma setv_simps [simp]:
  "M_str_var_size (setv vs b) = M_str_var_size b"
  "M_freeform_msg_size (setv vs b) = M_freeform_msg_size b"
  "setv [] b = b"
  by (induction vs arbitrary: b) (simp_all add: setv_def)

lemma stacked_simps [simp]:
  "M_items (stacked vs s b) = s"
  "(stacked vs s b)\<lparr>M_items := s'\<rparr> = stacked vs s' b"
  "M_str_var_size (stacked vs s b) = M_str_var_size b"
  "M_freeform_msg_size (stacked vs s b) = M_freeform_msg_size b"
  by (simp_all add: stacked_def)

lemma ver_stacked [simp]: "ver v (stacked vs s b) = Inr (stacked (vs @ [v]) s b)"
  by (simp add: ver_def stacked_def setv_def)

lemmas item_ops =
  checkAndGetMetaToken_def checkAndGetAction_def checkAndGetDir_def checkAndGetCond_def
  checkAndGetCondList_def checkAndGetToken_def checkAndGetDef_def checkAndGetRegion_def
  checkAndGetPoint_def checkAndGetUNum_def checkAndGetBMT_def checkAndGetUNumSet_def
  checkAndGetStr_def checkAndGetRIDList_def checkAndGetActivateRules_def checkAndGetRule_def
  checkAndGetRID_def checkIsItem_def
  getMetaToken_def getAction_def getDir_def getCond_def getCondList_def getToken_def getDef_def
  getRegion_def getPoint_def getUNum_def getBMT_def getUNumSet_def getStr_def getRIDList_def
  getActivateRules_def getRule_def getRID_def
  addMetaToken_def addAction_def addDir_def addCond_def addCondList_def addToken_def addDef_def
  addRegion_def addPoint_def addUNum_def addBMT_def addUNumSet_def addStr_def addRIDList_def
  addActivateRules_def addRule_def addRID_def

lemma and_then_if [simp]:
  "and_then (if c then Inr x else Inl e) f = (if c then f x else Inl e)"
  "and_then (if c then Inl e else Inr x) f = (if c then Inl e else f x)"
  by simp_all

subsection \<open>Taking items of one type\<close>

definition top_not :: "item_type \<Rightarrow> item list \<Rightarrow> bool" where
  "top_not t s \<longleftrightarrow> s = [] \<or> m_type (hd s) \<noteq> t"

lemma while_item_fold:
  "\<lbrakk>\<forall>x \<in> set xs. m_type x = t; top_not t s\<rbrakk> \<Longrightarrow> while_item t f (xs @ s) acc = (fold f xs acc, s)"
proof (induction xs arbitrary: acc)
  case Nil
  then show ?case by (cases s) (simp_all add: top_not_def)
qed simp

lemma take_items_stacked:
  assumes "xs \<noteq> []" "\<forall>x \<in> set xs. m_type x = t" "top_not t s"
  shows "take_items t f acc (stacked vs (xs @ s) b) = Inr (fold f xs acc, stacked vs s b)"
  using assms while_item_fold[OF assms(2,3), of f acc]
  by (cases xs) (simp_all add: take_items_def checkIsItem_def)

lemma fold_cons: "fold (\<lambda>x l. f x # l) xs acc = rev (map f xs) @ acc"
  by (induction xs arbitrary: acc) simp_all

lemma fold_snoc: "fold (\<lambda>x l. l @ [f x]) xs acc = acc @ map f xs"
  by (induction xs arbitrary: acc) simp_all

section \<open>Calls which leave one item\<close>

text \<open>Some operations take all items of a type off the stack, so a phrase must not find one of its
  own below: the grammar never leaves one of these there.\<close>

definition quiet :: "item list \<Rightarrow> bool" where
  "quiet s \<longleftrightarrow> top_not IT_REG s \<and> top_not IT_UNUM s \<and> top_not IT_RID s"

definition anywhere :: "item list \<Rightarrow> bool" where
  "anywhere s \<longleftrightarrow> True"

definition builds :: "(item list \<Rightarrow> bool) \<Rightarrow> call list \<Rightarrow> bool \<Rightarrow> u32 list \<Rightarrow> item \<Rightarrow> bool" where
  "builds Q cs ok vs i \<longleftrightarrow>
     (\<forall>us s b. Q s \<longrightarrow> M_str_var_size b = 8 \<longrightarrow>
        build_all cs (stacked us s b) = (if ok then Inr (stacked (us @ vs) (i # s) b) else Inl SyntaxError))"

lemma buildsI:
  assumes "\<And>us s b. Q s \<Longrightarrow> M_str_var_size b = 8 \<Longrightarrow>
    build_all cs (stacked us s b) = (if ok then Inr (stacked (us @ vs) (i # s) b) else Inl SyntaxError)"
  shows "builds Q cs ok vs i"
  using assms by (simp add: builds_def)

lemma buildsD:
  "builds Q cs ok vs i \<Longrightarrow> Q s \<Longrightarrow> M_str_var_size b = 8 \<Longrightarrow>
    build_all cs (stacked us s b) = (if ok then Inr (stacked (us @ vs) (i # s) b) else Inl SyntaxError)"
  by (simp add: builds_def)

lemma builds_quiet: "builds anywhere cs ok vs i \<Longrightarrow> builds quiet cs ok vs i"
  by (simp add: builds_def anywhere_def)

lemma builds_anywhere:
  "builds anywhere cs ok vs i \<Longrightarrow> M_str_var_size b = 8 \<Longrightarrow>
    build_all cs (stacked us s b) = (if ok then Inr (stacked (us @ vs) (i # s) b) else Inl SyntaxError)"
  by (simp add: builds_def anywhere_def)

lemma build_all_list:
  assumes "\<And>x. x \<in> set xs \<Longrightarrow> builds quiet (f x) (P x) (v x) (g x) \<and> quiet [g x]" "quiet s" "M_str_var_size b = 8"
  shows "build_all (concat (map f xs)) (stacked us s b) =
    (if list_all P xs then Inr (stacked (us @ concat (map v xs)) (rev (map g xs) @ s) b) else Inl SyntaxError)"
  using assms
proof (induction xs arbitrary: us s)
  case Nil
  then show ?case by simp
next
  case (Cons x xs)
  have q: "builds quiet (f x) (P x) (v x) (g x)" "quiet [g x]" using Cons.prems(1)[of x] by auto
  from q(2) have "quiet (g x # s)" by (simp add: quiet_def top_not_def)
  note x = q(1) this
  show ?case
    using Cons.IH[OF _ x(2) Cons.prems(3)] Cons.prems(1) buildsD[OF x(1) Cons.prems(2,3)]
    by simp
qed

text \<open>Names.\<close>

definition fits :: "string \<Rightarrow> bool" where
  "fits name \<longleftrightarrow> length name \<le> 8"

lemma name_fits_stacked:
  "M_str_var_size b = 8 \<Longrightarrow> name_fits name (stacked us s b) = (if fits name then Inr (stacked us s b) else Inl SyntaxError)"
  by (auto simp: name_fits_def fits_def)

lemma checked_name_fits: "fits name \<Longrightarrow> checked_name name r = r"
  by (simp add: checked_name_def fits_def STR_SIZE_def)

section \<open>Points\<close>

text \<open>A pointer of a parsed object is never null.\<close>

definition ptr_ok :: "('a \<Rightarrow> bool) \<Rightarrow> 'a option \<Rightarrow> bool" where
  "ptr_ok P p = (case p of None \<Rightarrow> False | Some x \<Rightarrow> P x)"

lemma ptr_ok_cong [fundef_cong]:
  "p = q \<Longrightarrow> (\<And>x. q = Some x \<Longrightarrow> f x = g x) \<Longrightarrow> ptr_ok f p = ptr_ok g q"
  by (simp add: ptr_ok_def split: option.split)

lemma ptr_ok_Some [simp]: "ptr_ok P (Some x) = P x"
  by (simp add: ptr_ok_def)

lemma ptr_ok_the: "ptr_ok P p \<Longrightarrow> Some (the p) = p"
  by (simp add: ptr_ok_def split: option.splits)

lemma ptr_okE: "ptr_ok P p \<Longrightarrow> (\<And>x. p = Some x \<Longrightarrow> P x \<Longrightarrow> R) \<Longrightarrow> R"
  by (simp add: ptr_ok_def split: option.splits)

declare option.pred_cong [fundef_cong]

definition var_vers :: "unum \<Rightarrow> u32 list" where
  "var_vers u = (if UN_var u = [] then [] else [8])"

fun point_shape :: "point \<Rightarrow> bool" where
  "point_shape (PointRel x y p) = ptr_ok point_shape p"
| "point_shape (PointArith p q arith) = (ptr_ok point_shape p \<and> ptr_ok point_shape q)"
| "point_shape p = True"

fun point_names :: "point \<Rightarrow> bool" where
  "point_names (PointRel x y p) = pred_option point_names p"
| "point_names (PointPlayer our_side u) = fits (UN_var u)"
| "point_names (PointArith p q arith) = (pred_option point_names p \<and> pred_option point_names q)"
| "point_names p = True"

fun point_vers :: "point \<Rightarrow> u32 list" where
  "point_vers (PointRel x y p) = at_ptr point_vers p"
| "point_vers (PointPlayer our_side u) = var_vers u"
| "point_vers (PointArith p q arith) = at_ptr point_vers p @ at_ptr point_vers q @ [8]"
| "point_vers p = []"

lemma quiet_Cons [simp]: "quiet (i # s) \<longleftrightarrow> m_type i \<noteq> IT_REG \<and> m_type i \<noteq> IT_UNUM \<and> m_type i \<noteq> IT_RID"
  by (simp add: quiet_def top_not_def)

lemma quiet_Nil [simp]: "quiet []"
  by (simp add: quiet_def top_not_def)

lemma builds_point: "point_shape p \<Longrightarrow> builds anywhere (point_calls p) (point_names p) (point_vers p) (I_Point p)"
proof (induction p rule: point_calls.induct)
  case (1 x y)
  then show ?case by (auto intro!: buildsI simp: buildPointSimple_def item_ops)
next
  case (2 x y p)
  then obtain q where "p = Some q" "builds anywhere (point_calls q) (point_names q) (point_vers q) (I_Point q)"
    by (auto elim: ptr_okE)
  then show ?case by (auto intro!: buildsI simp: buildPointRel_def item_ops builds_anywhere)
next
  case 3
  then show ?case by (auto intro!: buildsI simp: buildPointBall_def item_ops)
next
  case (4 our_side u)
  then show ?case
    by (auto intro!: buildsI simp: buildPointPlayer_def item_ops var_vers_def name_fits_stacked fits_def)
next
  case (5 p q arith)
  then obtain p' q' where "p = Some p'" "q = Some q'"
      "builds anywhere (point_calls p') (point_names p') (point_vers p') (I_Point p')"
      "builds anywhere (point_calls q') (point_names q') (point_vers q') (I_Point q')"
    by (auto elim!: ptr_okE)
  then show ?case by (auto intro!: buildsI simp: buildPointArith_def item_ops builds_anywhere)
qed

lemma builds_at_point:
  "ptr_ok point_shape p \<Longrightarrow>
     builds anywhere (at_ptr point_calls p) (pred_option point_names p) (at_ptr point_vers p) (I_Point (the p))"
  by (auto elim!: ptr_okE intro!: builds_point)

section \<open>Numbers and ball moves\<close>

definition unum_set_vers :: "unum_set \<Rightarrow> u32 list" where
  "unum_set_vers s = concat (map var_vers s)"

definition unum_set_names :: "unum_set \<Rightarrow> bool" where
  "unum_set_names s \<longleftrightarrow> list_all (\<lambda>u. fits (UN_var u)) s"

lemma build_unums:
  assumes "M_str_var_size b = 8"
  shows "build_all (concat (map unum_calls us)) (stacked vs s b) =
    (if unum_set_names us then Inr (stacked (vs @ unum_set_vers us) (rev (map I_UNum us) @ s) b) else Inl SyntaxError)"
proof (induction us arbitrary: vs s)
  case Nil
  then show ?case by (simp add: unum_set_names_def unum_set_vers_def)
next
  case (Cons u us)
  have "build_all (unum_calls u) (stacked vs s b) =
      (if fits (UN_var u) then Inr (stacked (vs @ var_vers u) (I_UNum u # s) b) else Inl SyntaxError)"
    using assms by (auto simp: unum_calls_def var_vers_def name_fits_stacked buildUNum_def item_ops fits_def)
  then show ?case using Cons by (simp add: unum_set_names_def unum_set_vers_def)
qed

lemma builds_unum_set:
  assumes "us \<noteq> []"
  shows "builds quiet (unum_set_calls us) (unum_set_names us) (unum_set_vers us) (I_UNumSet (rev us))"
proof (rule buildsI)
  fix vs s and b :: builder
  assume s: "quiet s" and b: "M_str_var_size b = 8"
  have "fold (\<lambda>x s. UNumSet_add (it_unum x) s) (rev (map I_UNum us)) [] = rev us"
    by (simp add: UNumSet_add_def fold_snoc rev_map comp_def)
  then have "take_items IT_UNUM (\<lambda>x s. UNumSet_add (it_unum x) s) [] (stacked ws (rev (map I_UNum us) @ s) b)
      = Inr (rev us, stacked ws s b)" for ws
    using assms s by (subst take_items_stacked) (auto simp: quiet_def)
  then show "build_all (unum_set_calls us) (stacked vs s b) =
      (if unum_set_names us then Inr (stacked (vs @ unum_set_vers us) (I_UNumSet (rev us) # s) b) else Inl SyntaxError)"
    by (simp add: unum_set_calls_def build_unums[OF b] buildUNumSet_def item_ops)
qed

text \<open>The bits of a ball move.\<close>

definition ball_move_ok :: "ball_move \<Rightarrow> bool" where
  "ball_move_ok m \<longleftrightarrow> m \<noteq> 0 \<and> take_bit 4 m = m"

definition ball_move_tokens :: "ball_move \<Rightarrow> ball_move_token list" where
  "ball_move_tokens m = filter (\<lambda>t. BallMove_isMember t m) bmts"

lemma fold_addToken_bit:
  "set ts \<subseteq> set bmts \<Longrightarrow>
     bit (fold (\<lambda>x m. BallMove_addToken (it_bmt x) m) (map I_BMT ts) m0) n \<longleftrightarrow>
     bit m0 n \<or> (\<exists>t \<in> set ts. n = bmt_index t - 1)"
  by (induction ts arbitrary: m0) (auto simp: addToken_bit)

lemma ball_move_bit:
  assumes "ball_move_ok m"
  shows "bit m n \<longleftrightarrow> (\<exists>t \<in> set (ball_move_tokens m). n = bmt_index t - 1)"
proof -
  have "bit m n \<Longrightarrow> n < 4"
    using assms by (metis ball_move_ok_def bit_take_bit_iff)
  moreover have "n < 4 \<Longrightarrow> \<exists>t \<in> set bmts. n = bmt_index t - 1"
    by (auto simp: bmts_def numeral_eq_Suc less_Suc_eq)
  moreover have "t \<in> set (ball_move_tokens m) \<longleftrightarrow> t \<in> set bmts \<and> bit m (bmt_index t - 1)" for t
    using isMember_bit[of t m] by (auto simp: ball_move_tokens_def)
  ultimately show ?thesis by blast
qed

lemma ball_move_read:
  assumes "ball_move_ok m"
  shows "fold (\<lambda>x m. BallMove_addToken (it_bmt x) m) (rev (map I_BMT (ball_move_tokens m))) 0 = m"
proof (rule bit_word_eqI)
  fix n
  have sub: "set (rev (ball_move_tokens m)) \<subseteq> set bmts" by (auto simp: ball_move_tokens_def)
  show "bit (fold (\<lambda>x m. BallMove_addToken (it_bmt x) m) (rev (map I_BMT (ball_move_tokens m))) 0) n = bit m n"
    unfolding rev_map fold_addToken_bit[OF sub] ball_move_bit[OF assms] by simp
qed

lemma ball_move_tokens_nonempty: "ball_move_ok m \<Longrightarrow> ball_move_tokens m \<noteq> []"
  using ball_move_bit[of m] by (auto simp: ball_move_ok_def intro: bit_word_eqI)

lemma build_ball_move:
  "build_all (ball_move_calls m) (stacked vs s b) = Inr (stacked vs (rev (map I_BMT (ball_move_tokens m)) @ s) b)"
proof -
  have "build_all (map buildBallMoveToken ts) (stacked vs s b) = Inr (stacked vs (rev (map I_BMT ts) @ s) b)" for ts
    by (induction ts arbitrary: s) (simp_all add: buildBallMoveToken_def item_ops)
  then show ?thesis by (simp add: ball_move_calls_def ball_move_tokens_def)
qed

section \<open>Regions\<close>

text \<open>A union takes every region on top of the stack, those before it as well: \<open>absorb acc r\<close> are
  the regions on the stack after \<open>r\<close>, the last one on top.\<close>

fun absorb :: "region list \<Rightarrow> region \<Rightarrow> region list" where
  "absorb acc (RegUnion rs) =
     [RegUnion (map Some (foldl (\<lambda>a p. case p of None \<Rightarrow> a | Some r \<Rightarrow> absorb a r) acc rs))]"
| "absorb acc r = acc @ [r]"

abbreviation absorb_ptr :: "region list \<Rightarrow> region option \<Rightarrow> region list" where
  "absorb_ptr a p \<equiv> (case p of None \<Rightarrow> a | Some r \<Rightarrow> absorb a r)"

definition received_region :: "region \<Rightarrow> region" where
  "received_region r = hd (absorb [] r)"

lemma absorb_Nil: "absorb [] r = [received_region r]"
  by (cases r) (simp_all add: received_region_def)

lemma absorb_nonempty: "absorb acc r \<noteq> []"
  by (cases r) simp_all

fun region_shape :: "region \<Rightarrow> bool" where
  "region_shape (RegQuad p q r s) =
     (ptr_ok point_shape p \<and> ptr_ok point_shape q \<and> ptr_ok point_shape r \<and> ptr_ok point_shape s)"
| "region_shape (RegArc start_rad end_rad start_ang span_ang p) = ptr_ok point_shape p"
| "region_shape (RegUnion rs) = (rs \<noteq> [] \<and> list_all (ptr_ok region_shape) rs)"
| "region_shape (RegPoint p) = ptr_ok point_shape p"
| "region_shape (RegTri p q r) = (ptr_ok point_shape p \<and> ptr_ok point_shape q \<and> ptr_ok point_shape r)"
| "region_shape (RegRec p q) = (ptr_ok point_shape p \<and> ptr_ok point_shape q)"
| "region_shape r = True"

fun region_names :: "region \<Rightarrow> bool" where
  "region_names (RegQuad p q r s) = list_all (pred_option point_names) [p, q, r, s]"
| "region_names (RegArc start_rad end_rad start_ang span_ang p) = pred_option point_names p"
| "region_names (RegUnion rs) = list_all (pred_option region_names) rs"
| "region_names (RegPoint p) = pred_option point_names p"
| "region_names (RegTri p q r) = list_all (pred_option point_names) [p, q, r]"
| "region_names (RegRec p q) = list_all (pred_option point_names) [p, q]"
| "region_names (RegNamed name) = fits name"
| "region_names RegNull = True"

fun region_vers :: "region \<Rightarrow> u32 list" where
  "region_vers (RegQuad p q r s) = concat (map (at_ptr point_vers) [p, q, r, s]) @ [7]"
| "region_vers (RegArc start_rad end_rad start_ang span_ang p) = at_ptr point_vers p"
| "region_vers (RegUnion rs) = concat (map (at_ptr region_vers) rs)"
| "region_vers (RegPoint p) = at_ptr point_vers p"
| "region_vers (RegTri p q r) = concat (map (at_ptr point_vers) [p, q, r]) @ [8]"
| "region_vers (RegRec p q) = concat (map (at_ptr point_vers) [p, q]) @ [8]"
| "region_vers r = []"

lemmas build_point = builds_anywhere[OF builds_at_point]

lemma build_region:
  assumes "region_shape r" "top_not IT_REG s" "M_str_var_size b = 8"
  shows "build_all (region_calls r) (stacked us (rev (map I_Reg acc) @ s) b) =
    (if region_names r then Inr (stacked (us @ region_vers r) (rev (map I_Reg (absorb acc r)) @ s) b) else Inl SyntaxError)"
  using assms(1)
proof (induction r arbitrary: us acc rule: region_calls.induct)
  case 1
  then show ?case by (simp add: buildRegNull_def item_ops)
next
  case (2 p q r s)
  then show ?case by (simp add: buildRegQuad_def item_ops build_point assms(3) ptr_ok_the[of point_shape])
next
  case (3 start_rad end_rad start_ang span_ang p)
  then show ?case by (simp add: buildRegArc_def item_ops build_point assms(3) ptr_ok_the[of point_shape])
next
  case (4 rs)
  have list: "build_all (concat (map (at_ptr region_calls) ps)) (stacked us (rev (map I_Reg acc) @ s) b) =
    (if list_all (pred_option region_names) ps
     then Inr (stacked (us @ concat (map (at_ptr region_vers) ps)) (rev (map I_Reg (foldl absorb_ptr acc ps)) @ s) b)
     else Inl SyntaxError)"
    if "set ps \<subseteq> set rs" for ps us acc
    using that
  proof (induction ps arbitrary: us acc)
    case Nil
    then show ?case by simp
  next
    case (Cons p ps)
    then obtain r where r: "p = Some r" "region_shape r" "Some r \<in> set rs"
      using "4.prems" by (auto simp: list_all_iff elim!: ptr_okE)
    show ?case using Cons "4.IH"[OF r(3) refl r(2)] r(1) by simp
  qed
  have "foldl absorb_ptr acc rs \<noteq> []"
  proof -
    obtain ps p where "rs = ps @ [Some p]"
      using "4.prems" by (cases rs rule: rev_cases) (auto simp: list_all_iff elim!: ptr_okE)
    then show ?thesis by (simp add: absorb_nonempty)
  qed
  then have "take_items IT_REG (\<lambda>x l. Some (it_reg x) # l) [] (stacked ws (rev (map I_Reg (foldl absorb_ptr acc rs)) @ s) b)
      = Inr (map Some (foldl absorb_ptr acc rs), stacked ws s b)" for ws
    using assms(2) by (subst take_items_stacked) (auto simp: fold_cons rev_map comp_def)
  then show ?case by (simp add: list buildRegUnion_def item_ops)
next
  case (5 name)
  then show ?case by (simp add: buildRegNamed_def item_ops name_fits_stacked assms(3) checked_name_fits)
next
  case (6 p)
  then show ?case by (simp add: buildRegPoint_def item_ops build_point assms(3) ptr_ok_the[of point_shape])
next
  case (7 p q r)
  then show ?case by (simp add: buildRegTri_def item_ops build_point assms(3) ptr_ok_the[of point_shape])
next
  case (8 p q)
  then show ?case by (simp add: buildRegRec_def item_ops build_point assms(3) ptr_ok_the[of point_shape])
qed

lemma builds_region:
  "ptr_ok region_shape r \<Longrightarrow>
     builds quiet (at_ptr region_calls r) (pred_option region_names r) (at_ptr region_vers r)
       (I_Reg (received_region (the r)))"
  using build_region[where acc = "[]"]
  by (auto simp: absorb_Nil quiet_def intro!: buildsI elim!: ptr_okE)

section \<open>Actions and directives\<close>

fun action_shape :: "action \<Rightarrow> bool" where
  "action_shape (ActPos r) = ptr_ok region_shape r"
| "action_shape (ActHome r) = ptr_ok region_shape r"
| "action_shape (ActBallToReg r m) = (ptr_ok region_shape r \<and> ball_move_ok m)"
| "action_shape (ActBallToPlayer s) = (s \<noteq> [])"
| "action_shape (ActMark s) = (s \<noteq> [])"
| "action_shape (ActMarkLinePlayer s) = (s \<noteq> [])"
| "action_shape (ActMarkLineReg r) = ptr_ok region_shape r"
| "action_shape (ActOffsidesLine r) = ptr_ok region_shape r"
| "action_shape (ActPassReg r) = ptr_ok region_shape r"
| "action_shape (ActPassUNum s) = (s \<noteq> [])"
| "action_shape (ActDribble r) = ptr_ok region_shape r"
| "action_shape (ActClear r) = ptr_ok region_shape r"
| "action_shape (ActTackle s) = (s \<noteq> [])"
| "action_shape a = True"

text \<open>The region and the numbers of an action.\<close>

fun action_region :: "action \<Rightarrow> region option" where
  "action_region (ActPos r) = r"
| "action_region (ActHome r) = r"
| "action_region (ActBallToReg r m) = r"
| "action_region (ActMarkLineReg r) = r"
| "action_region (ActOffsidesLine r) = r"
| "action_region (ActPassReg r) = r"
| "action_region (ActDribble r) = r"
| "action_region (ActClear r) = r"
| "action_region a = None"

fun action_players :: "action \<Rightarrow> unum_set" where
  "action_players (ActBallToPlayer s) = s"
| "action_players (ActMark s) = s"
| "action_players (ActMarkLinePlayer s) = s"
| "action_players (ActPassUNum s) = s"
| "action_players (ActTackle s) = s"
| "action_players a = []"

fun action_name :: "action \<Rightarrow> string" where
  "action_name (ActNamed name) = name"
| "action_name a = []"

text \<open>The actions of version 8.\<close>

fun new_action :: "action \<Rightarrow> bool" where
  "new_action (ActPassReg r) = True"
| "new_action (ActPassUNum s) = True"
| "new_action (ActDribble r) = True"
| "new_action (ActClear r) = True"
| "new_action ActShoot = True"
| "new_action ActHold = True"
| "new_action ActIntercept = True"
| "new_action (ActTackle s) = True"
| "new_action a = False"

definition action_names :: "action \<Rightarrow> bool" where
  "action_names a \<longleftrightarrow> pred_option region_names (action_region a) \<and> unum_set_names (action_players a)
     \<and> fits (action_name a)"

definition action_vers :: "action \<Rightarrow> u32 list" where
  "action_vers a = at_ptr region_vers (action_region a) @ unum_set_vers (action_players a)
     @ (if new_action a then [8] else [])"

definition rr :: "region option \<Rightarrow> region option" where
  "rr = map_option received_region"

lemma rr_the: "ptr_ok region_shape r \<Longrightarrow> Some (received_region (the r)) = rr r"
  by (auto simp: rr_def elim: ptr_okE)

fun received_action :: "action \<Rightarrow> action" where
  "received_action (ActPos r) = ActPos (rr r)"
| "received_action (ActHome r) = ActHome (rr r)"
| "received_action (ActBallToReg r m) = ActBallToReg (rr r) m"
| "received_action (ActBallToPlayer s) = ActBallToPlayer (rev s)"
| "received_action (ActMark s) = ActMark (rev s)"
| "received_action (ActMarkLinePlayer s) = ActMarkLinePlayer (rev s)"
| "received_action (ActMarkLineReg r) = ActMarkLineReg (rr r)"
| "received_action (ActOffsidesLine r) = ActOffsidesLine (rr r)"
| "received_action (ActPassReg r) = ActPassReg (rr r)"
| "received_action (ActPassUNum s) = ActPassUNum (rev s)"
| "received_action (ActDribble r) = ActDribble (rr r)"
| "received_action (ActClear r) = ActClear (rr r)"
| "received_action (ActTackle s) = ActTackle (rev s)"
| "received_action a = a"

lemmas action_ops =
  buildActPos_def buildActHome_def buildActBallToReg_def buildActBallToPlayer_def buildActMark_def
  buildActMarkLinePlayer_def buildActMarkLineReg_def buildActOffsideLine_def buildActHetType_def
  buildActNamed_def buildActPassReg_def buildActPassUNum_def buildActDribble_def buildActClear_def
  buildActShoot_def buildActHold_def buildActIntercept_def buildActTackle_def

lemma empty_names [simp]: "unum_set_names []" "fits []" "unum_set_vers [] = []"
  by (simp_all add: unum_set_names_def fits_def unum_set_vers_def)

lemma at_ptr_None [simp]: "at_ptr f None = []"
  by (simp add: at_ptr_def)

lemmas build_region_ptr = buildsD[OF builds_region]
lemmas build_unum_set = buildsD[OF builds_unum_set]

lemma take_ball_move:
  assumes "ball_move_ok m" "quiet s"
  shows "take_items IT_BMT (\<lambda>x m. BallMove_addToken (it_bmt x) m) 0
      (stacked vs (rev (map I_BMT (ball_move_tokens m)) @ I_Reg r # s) b) = Inr (m, stacked vs (I_Reg r # s) b)"
  using assms ball_move_tokens_nonempty[OF assms(1)]
  by (subst take_items_stacked) (auto simp: ball_move_read top_not_def)

lemma builds_action:
  assumes "action_shape a"
  shows "builds quiet (action_calls a) (action_names a) (action_vers a) (I_Action (received_action a))"
proof (rule buildsI)
  fix us s and b :: builder
  assume "quiet s" "M_str_var_size b = 8"
  note ctx = this build_region_ptr[OF _ this] build_unum_set[OF _ this] name_fits_stacked[OF this(2)]
    rr_the checked_name_fits build_ball_move take_ball_move[OF _ this(1)]
  show "build_all (action_calls a) (stacked us s b) = (if action_names a
      then Inr (stacked (us @ action_vers a) (I_Action (received_action a) # s) b) else Inl SyntaxError)"
    using assms
    by (cases a) (simp_all add: ctx action_ops item_ops action_names_def action_vers_def)
qed

lemma builds_at_action:
  "ptr_ok action_shape p \<Longrightarrow> builds quiet (at_ptr action_calls p) (pred_option action_names p)
     (at_ptr action_vers p) (I_Action (received_action (the p)))"
  by (auto elim!: ptr_okE intro!: builds_action)

text \<open>The parts of a list, read in turn and taken together.\<close>

lemma build_parts:
  assumes "list_all (ptr_ok shape) ps" "quiet s" "M_str_var_size b = 8" "\<And>x. quiet [I x]"
    and "\<And>p. ptr_ok shape p \<Longrightarrow>
      builds quiet (at_ptr calls p) (pred_option names p) (at_ptr vers p) (I (recv (the p)))"
  shows "build_all (concat (map (at_ptr calls) ps)) (stacked us s b) =
    (if list_all (pred_option names) ps
     then Inr (stacked (us @ concat (map (at_ptr vers) ps)) (rev (map (\<lambda>p. I (recv (the p))) ps) @ s) b)
     else Inl SyntaxError)"
  by (rule build_all_list[OF _ assms(2,3)]) (use assms in \<open>auto simp: list_all_iff\<close>)

lemma take_parts:
  assumes "ps \<noteq> []" "list_all (ptr_ok shape) ps" "top_not t s" "\<And>x. m_type (I x) = t" "\<And>x. it (I x) = x"
  shows "take_items t (\<lambda>x l. Some (it x) # l) [] (stacked vs (rev (map (\<lambda>p. I (recv (the p))) ps) @ s) b) =
    Inr (map (map_option recv) ps, stacked vs s b)"
proof -
  have "map (\<lambda>p. Some (recv (the p))) ps = map (map_option recv) ps"
    using assms(2) by (auto simp: list_all_iff elim!: ptr_okE)
  then show ?thesis
    using assms(1,3-5) by (subst take_items_stacked) (auto simp: fold_cons rev_map comp_def)
qed

fun dir_shape :: "dir \<Rightarrow> bool" where
  "dir_shape (DirComm do_dont our_side s acts) = (s \<noteq> [] \<and> acts \<noteq> [] \<and> list_all (ptr_ok action_shape) acts)"
| "dir_shape (DirNamed name) = True"

fun dir_names :: "dir \<Rightarrow> bool" where
  "dir_names (DirComm do_dont our_side s acts) = (unum_set_names s \<and> list_all (pred_option action_names) acts)"
| "dir_names (DirNamed name) = fits name"

fun dir_vers :: "dir \<Rightarrow> u32 list" where
  "dir_vers (DirComm do_dont our_side s acts) = unum_set_vers s @ concat (map (at_ptr action_vers) acts)"
| "dir_vers (DirNamed name) = []"

fun received_dir :: "dir \<Rightarrow> dir" where
  "received_dir (DirComm do_dont our_side s acts) =
     DirComm do_dont our_side (rev s) (map (map_option received_action) acts)"
| "received_dir (DirNamed name) = DirNamed name"

lemma builds_dir:
  assumes "ptr_ok dir_shape p"
  shows "builds quiet (at_ptr dir_calls p) (pred_option dir_names p) (at_ptr dir_vers p) (I_Dir (received_dir (the p)))"
proof (rule buildsI)
  fix us s and b :: builder
  assume s: "quiet s" and b: "M_str_var_size b = 8"
  show "build_all (at_ptr dir_calls p) (stacked us s b) = (if pred_option dir_names p
      then Inr (stacked (us @ at_ptr dir_vers p) (I_Dir (received_dir (the p)) # s) b) else Inl SyntaxError)"
  proof (cases "the p")
    case (DirComm do_dont our_side players acts)
    then have p: "p = Some (DirComm do_dont our_side players acts)" "players \<noteq> []" "acts \<noteq> []"
        "list_all (ptr_ok action_shape) acts"
      using assms by (auto elim!: ptr_okE)
    show ?thesis
      using p build_unum_set[OF p(2) s b]
        build_parts[OF p(4) _ b, where I = I_Action and recv = received_action, OF _ _ builds_at_action]
        take_parts[OF p(3,4), where I = I_Action and it = it_action and recv = received_action and t = IT_ACTION]
      by (simp add: buildDirComm_def item_ops top_not_def)
  next
    case (DirNamed name)
    then show ?thesis
      using assms b by (auto simp: buildDirNamed_def item_ops name_fits_stacked checked_name_fits elim!: ptr_okE)
  qed
qed

section \<open>Conditions\<close>

fun cond_shape :: "cond \<Rightarrow> bool" where
  "cond_shape (CondPlayerPos our_side s mn mx r) = (s \<noteq> [] \<and> ptr_ok region_shape r)"
| "cond_shape (CondBallPos r) = ptr_ok region_shape r"
| "cond_shape (CondBallOwner our_side s) = (s \<noteq> [])"
| "cond_shape (CondAnd cs) = (cs \<noteq> [] \<and> list_all (ptr_ok cond_shape) cs)"
| "cond_shape (CondOr cs) = (cs \<noteq> [] \<and> list_all (ptr_ok cond_shape) cs)"
| "cond_shape (CondNot c) = ptr_ok cond_shape c"
| "cond_shape (CondUNum u s) = (s \<noteq> [])"
| "cond_shape c = True"

fun cond_names :: "cond \<Rightarrow> bool" where
  "cond_names (CondPlayerPos our_side s mn mx r) = (unum_set_names s \<and> pred_option region_names r)"
| "cond_names (CondBallPos r) = pred_option region_names r"
| "cond_names (CondBallOwner our_side s) = unum_set_names s"
| "cond_names (CondAnd cs) = list_all (pred_option cond_names) cs"
| "cond_names (CondOr cs) = list_all (pred_option cond_names) cs"
| "cond_names (CondNot c) = pred_option cond_names c"
| "cond_names (CondNamed name) = fits (quoted name)"
| "cond_names (CondUNum u s) = (unum_set_names s \<and> fits (UN_var u))"
| "cond_names c = True"

fun cond_vers :: "cond \<Rightarrow> u32 list" where
  "cond_vers (CondPlayerPos our_side s mn mx r) = unum_set_vers s @ at_ptr region_vers r"
| "cond_vers (CondBallPos r) = at_ptr region_vers r"
| "cond_vers (CondBallOwner our_side s) = unum_set_vers s"
| "cond_vers (CondAnd cs) = concat (map (at_ptr cond_vers) cs)"
| "cond_vers (CondOr cs) = concat (map (at_ptr cond_vers) cs)"
| "cond_vers (CondNot c) = at_ptr cond_vers c"
| "cond_vers (CondTime v cmp) = [8]"
| "cond_vers (CondOppGoal v cmp) = [8]"
| "cond_vers (CondOurGoal v cmp) = [8]"
| "cond_vers (CondGoalDiff v cmp) = [8]"
| "cond_vers (CondUNum u s) = unum_set_vers s @ [8]"
| "cond_vers c = []"

fun received_cond :: "cond \<Rightarrow> cond" where
  "received_cond (CondPlayerPos our_side s mn mx r) = CondPlayerPos our_side (rev s) mn mx (rr r)"
| "received_cond (CondBallPos r) = CondBallPos (rr r)"
| "received_cond (CondBallOwner our_side s) = CondBallOwner our_side (rev s)"
| "received_cond (CondAnd cs) = CondAnd (map (map_option received_cond) cs)"
| "received_cond (CondOr cs) = CondOr (map (map_option received_cond) cs)"
| "received_cond (CondNot c) = CondNot (map_option received_cond c)"
| "received_cond (CondNamed name) = CondNamed (quoted name)"
| "received_cond (CondUNum u s) = CondUNum u (rev s)"
| "received_cond c = c"

lemma build_cond_list:
  assumes "\<And>x. x \<in> set xs \<Longrightarrow> builds quiet (f x) (P x) (v x) (I_Cond (g x))" "xs \<noteq> []" "quiet s" "M_str_var_size b = 8"
  shows "build_all (cond_list_calls (map f xs)) (stacked us s b) =
    (if list_all P xs then Inr (stacked (us @ concat (map v xs)) (I_CondList (map (\<lambda>x. Some (g x)) xs) # s) b)
     else Inl SyntaxError)"
proof -
  have more: "build_all (concat (map (\<lambda>c. c @ [buildAddToCondList]) (map f ys))) (stacked us (I_CondList l # s) b) =
      (if list_all P ys then Inr (stacked (us @ concat (map v ys)) (I_CondList (l @ map (\<lambda>x. Some (g x)) ys) # s) b)
       else Inl SyntaxError)" if "set ys \<subseteq> set xs" for ys us l
    using that
  proof (induction ys arbitrary: us l)
    case Nil
    then show ?case by simp
  next
    case (Cons y ys)
    then have y: "builds quiet (f y) (P y) (v y) (I_Cond (g y))" using assms(1) by simp
    show ?case
      using Cons.IH[of "us @ v y"] Cons.prems buildsD[OF y _ assms(4)]
      by (simp add: buildAddToCondList_def item_ops)
  qed
  obtain x ys where xs: "xs = x # ys" using assms(2) by (cases xs) simp_all
  then have "set ys \<subseteq> set xs" by auto
  from more[OF this] show ?thesis
    using xs buildsD[OF assms(1)[of x] assms(3,4)]
    by (simp add: buildCreateCondList_def item_ops)
qed

lemmas cond_ops =
  buildCondTrue_def buildCondFalse_def buildCondPlayerPos_def buildCondBallPos_def buildCondBallOwner_def
  buildCondPlayMode_def buildCondAnd_def buildCondOr_def buildCondNot_def buildCondNamed_def
  buildCondTime_def buildCondOppGoal_def buildCondOurGoal_def buildCondGoalDiff_def buildCondUNum_def

lemma builds_cond_list:
  assumes "list_all (ptr_ok cond_shape) cs" "cs \<noteq> []" "quiet s" "M_str_var_size b = 8"
    and "\<And>c. Some c \<in> set cs \<Longrightarrow> cond_shape c \<Longrightarrow>
      builds quiet (cond_calls c) (cond_names c) (cond_vers c) (I_Cond (received_cond c))"
  shows "build_all (cond_list_calls (map (at_ptr cond_calls) cs)) (stacked us s b) =
    (if list_all (pred_option cond_names) cs
     then Inr (stacked (us @ concat (map (at_ptr cond_vers) cs)) (I_CondList (map (map_option received_cond) cs) # s) b)
     else Inl SyntaxError)"
proof -
  have e: "map (\<lambda>p. Some (received_cond (the p))) cs = map (map_option received_cond) cs"
    using assms(1) by (auto simp: list_all_iff elim!: ptr_okE)
  have "builds quiet (at_ptr cond_calls p) (pred_option cond_names p) (at_ptr cond_vers p)
      (I_Cond (received_cond (the p)))" if "p \<in> set cs" for p
    using assms(1,5) that by (auto simp: list_all_iff elim!: ptr_okE)
  then show ?thesis
    using build_cond_list[where f = "at_ptr cond_calls" and P = "pred_option cond_names" and v = "at_ptr cond_vers"
        and g = "\<lambda>p. received_cond (the p)", OF _ assms(2-4)] unfolding e by blast
qed

lemma builds_cond: "cond_shape c \<Longrightarrow> builds quiet (cond_calls c) (cond_names c) (cond_vers c) (I_Cond (received_cond c))"
proof (induction c rule: cond_calls.induct)
  case (6 cs)
  then show ?case
    by (auto intro!: buildsI simp: builds_cond_list buildCondAnd_def item_ops)
next
  case (7 cs)
  then show ?case
    by (auto intro!: buildsI simp: builds_cond_list buildCondOr_def item_ops)
next
  case (8 p)
  then obtain c where "p = Some c" "builds quiet (cond_calls c) (cond_names c) (cond_vers c) (I_Cond (received_cond c))"
    by (auto elim: ptr_okE)
  then show ?case by (auto intro!: buildsI simp: buildCondNot_def item_ops buildsD)
qed (auto intro!: buildsI simp: cond_ops item_ops build_region_ptr build_unum_set name_fits_stacked checked_name_fits rr_the)

lemma builds_at_cond:
  "ptr_ok cond_shape p \<Longrightarrow> builds quiet (at_ptr cond_calls p) (pred_option cond_names p) (at_ptr cond_vers p)
     (I_Cond (received_cond (the p)))"
  by (auto elim!: ptr_okE intro!: builds_cond)

section \<open>Rules, tokens and definitions\<close>

lemma build_ids:
  assumes "M_str_var_size b = 8"
  shows "build_all (concat (map (\<lambda>i. [name_fits i, buildRuleID i]) ids)) (stacked us s b) =
    (if list_all fits ids then Inr (stacked us (rev (map I_RID ids) @ s) b) else Inl SyntaxError)"
  by (induction ids arbitrary: s)
    (auto simp: name_fits_stacked[OF assms] buildRuleID_def item_ops checked_name_fits)

lemma builds_id_list: "builds quiet (id_list_calls ids) (list_all fits ids) [] (I_RIDList ids)"
proof (rule buildsI)
  fix us s and b :: builder
  assume s: "quiet s" and b: "M_str_var_size b = 8"
  have "take_items IT_RID (\<lambda>x l. it_rid x # l) [] (stacked us (rev (map I_RID ids) @ s) b) = Inr (ids, stacked us s b)"
    if "ids \<noteq> []"
    using that s by (subst take_items_stacked) (auto simp: fold_cons rev_map comp_def quiet_def)
  then show "build_all (id_list_calls ids) (stacked us s b) =
      (if list_all fits ids then Inr (stacked (us @ []) (I_RIDList ids # s) b) else Inl SyntaxError)"
    by (auto simp: id_list_calls_def build_ids[OF b] buildRuleIDList_def buildRuleIDListALL_def item_ops)
qed

fun rule_shape :: "crule \<Rightarrow> bool" where
  "rule_shape (SimpleRule c dirs) = (ptr_ok cond_shape c \<and> dirs \<noteq> [] \<and> list_all (ptr_ok dir_shape) dirs)"
| "rule_shape (NestedRule c rules) = (ptr_ok cond_shape c \<and> rules \<noteq> [] \<and> list_all (ptr_ok rule_shape) rules)"
| "rule_shape (IDListRule ids) = True"

fun rule_names :: "crule \<Rightarrow> bool" where
  "rule_names (SimpleRule c dirs) = (pred_option cond_names c \<and> list_all (pred_option dir_names) dirs)"
| "rule_names (NestedRule c rules) = (pred_option cond_names c \<and> list_all (pred_option rule_names) rules)"
| "rule_names (IDListRule ids) = list_all fits ids"

fun rule_vers :: "crule \<Rightarrow> u32 list" where
  "rule_vers (SimpleRule c dirs) = at_ptr cond_vers c @ concat (map (at_ptr dir_vers) dirs)"
| "rule_vers (NestedRule c rules) = at_ptr cond_vers c @ concat (map (at_ptr rule_vers) rules)"
| "rule_vers (IDListRule ids) = []"

fun received_rule :: "crule \<Rightarrow> crule" where
  "received_rule (SimpleRule c dirs) = SimpleRule (map_option received_cond c) (map (map_option received_dir) dirs)"
| "received_rule (NestedRule c rules) = NestedRule (map_option received_cond c) (map (map_option received_rule) rules)"
| "received_rule (IDListRule ids) = IDListRule ids"

lemma received_cond_the: "ptr_ok cond_shape c \<Longrightarrow> Some (received_cond (the c)) = map_option received_cond c"
  by (auto elim: ptr_okE)

lemmas build_cond = buildsD[OF builds_at_cond]

lemma take_dirs:
  assumes "ds \<noteq> []" "list_all (ptr_ok dir_shape) ds" "top_not IT_DIR s"
  shows "take_items IT_DIR (\<lambda>x l. Some (it_dir x) # l) []
      (stacked vs (rev (map (\<lambda>p. I_Dir (received_dir (the p))) ds) @ s) b) = Inr (map (map_option received_dir) ds, stacked vs s b)"
  by (rule take_parts[OF assms]) simp_all

lemma build_dirs:
  assumes "list_all (ptr_ok dir_shape) ds" "quiet s" "M_str_var_size b = 8"
  shows "build_all (concat (map (at_ptr dir_calls) ds)) (stacked us s b) =
    (if list_all (pred_option dir_names) ds
     then Inr (stacked (us @ concat (map (at_ptr dir_vers) ds)) (rev (map (\<lambda>p. I_Dir (received_dir (the p))) ds) @ s) b)
     else Inl SyntaxError)"
  by (rule build_parts[OF assms, where I = I_Dir]) (simp_all add: builds_dir)

lemma builds_rule: "rule_shape r \<Longrightarrow> builds quiet (rule_calls r) (rule_names r) (rule_vers r) (I_Rule (received_rule r))"
proof (induction r rule: rule_calls.induct)
  case (1 c dirs)
  then show ?case
    by (auto intro!: buildsI simp: build_cond build_dirs take_dirs buildSimpleRule_def item_ops top_not_def
        received_cond_the)
next
  case (2 c rules)
  have sub: "builds quiet (at_ptr rule_calls p) (pred_option rule_names p) (at_ptr rule_vers p)
      (I_Rule (received_rule (the p)))" if "p \<in> set rules" for p
    using 2 that by (auto simp: list_all_iff elim!: ptr_okE)
  show ?case
  proof (rule buildsI)
    fix us s and b :: builder
    assume s: "quiet s" and b: "M_str_var_size b = 8"
    have "build_all (concat (map (at_ptr rule_calls) rules)) (stacked us (I_Cond x # s) b) =
      (if list_all (pred_option rule_names) rules
       then Inr (stacked (us @ concat (map (at_ptr rule_vers) rules))
         (rev (map (\<lambda>p. I_Rule (received_rule (the p))) rules) @ I_Cond x # s) b)
       else Inl SyntaxError)" for us x
      by (rule build_all_list[OF _ _ b]) (simp_all add: sub)
    moreover have "take_items IT_RULE (\<lambda>x l. Some (it_rule x) # l) []
        (stacked vs (rev (map (\<lambda>p. I_Rule (received_rule (the p))) rules) @ I_Cond x # s) b) =
        Inr (map (map_option received_rule) rules, stacked vs (I_Cond x # s) b)" for vs x
      using 2(2) by (intro take_parts) (auto simp: top_not_def)
    ultimately show "build_all (rule_calls (NestedRule c rules)) (stacked us s b) = (if rule_names (NestedRule c rules)
      then Inr (stacked (us @ rule_vers (NestedRule c rules)) (I_Rule (received_rule (NestedRule c rules)) # s) b)
      else Inl SyntaxError)"
      using 2(2) by (simp add: build_cond s b buildNestedRule_def item_ops received_cond_the)
  qed
next
  case (3 ids)
  then show ?case by (auto intro!: buildsI simp: buildsD[OF builds_id_list] buildIDRule_def item_ops)
qed

fun token_shape :: "token \<Rightarrow> bool" where
  "token_shape TokClear = True"
| "token_shape (TokRule ttl c dirs) = (ptr_ok cond_shape c \<and> dirs \<noteq> [] \<and> list_all (ptr_ok dir_shape) dirs)"

fun token_names :: "token \<Rightarrow> bool" where
  "token_names TokClear = True"
| "token_names (TokRule ttl c dirs) = (pred_option cond_names c \<and> list_all (pred_option dir_names) dirs)"

fun token_vers :: "token \<Rightarrow> u32 list" where
  "token_vers TokClear = []"
| "token_vers (TokRule ttl c dirs) = at_ptr cond_vers c @ concat (map (at_ptr dir_vers) dirs)"

fun received_token :: "token \<Rightarrow> token" where
  "received_token TokClear = TokClear"
| "received_token (TokRule ttl c dirs) = TokRule ttl (map_option received_cond c) (map (map_option received_dir) dirs)"

lemma builds_token:
  "ptr_ok token_shape t \<Longrightarrow> builds quiet (at_ptr token_calls t) (pred_option token_names t) (at_ptr token_vers t)
     (I_Token (received_token (the t)))"
  by (cases "the t")
    (auto elim!: ptr_okE intro!: buildsI simp: build_cond build_dirs take_dirs buildTokenRule_def buildTokenClear_def
      item_ops top_not_def received_cond_the)

fun def_shape :: "def \<Rightarrow> bool" where
  "def_shape (DefCond name c) = ptr_ok cond_shape c"
| "def_shape (DefDir name d) = ptr_ok dir_shape d"
| "def_shape (DefReg name r) = ptr_ok region_shape r"
| "def_shape (DefAct name a) = ptr_ok action_shape a"
| "def_shape (DefRule name r model) = ptr_ok rule_shape r"

fun def_names :: "def \<Rightarrow> bool" where
  "def_names (DefCond name c) = (fits name \<and> pred_option cond_names c)"
| "def_names (DefDir name d) = (fits name \<and> pred_option dir_names d)"
| "def_names (DefReg name r) = (fits name \<and> pred_option region_names r)"
| "def_names (DefAct name a) = (fits name \<and> pred_option action_names a)"
| "def_names (DefRule name r model) = (fits name \<and> pred_option rule_names r)"

fun def_vers :: "def \<Rightarrow> u32 list" where
  "def_vers (DefCond name c) = at_ptr cond_vers c"
| "def_vers (DefDir name d) = at_ptr dir_vers d"
| "def_vers (DefReg name r) = at_ptr region_vers r"
| "def_vers (DefAct name a) = at_ptr action_vers a"
| "def_vers (DefRule name r model) = at_ptr rule_vers r @ [8]"

fun received_def :: "def \<Rightarrow> def" where
  "received_def (DefCond name c) = DefCond name (map_option received_cond c)"
| "received_def (DefDir name d) = DefDir name (map_option received_dir d)"
| "received_def (DefReg name r) = DefReg name (rr r)"
| "received_def (DefAct name a) = DefAct name (map_option received_action a)"
| "received_def (DefRule name r model) = DefRule name (map_option received_rule r) model"

lemma builds_def_part:
  "ptr_ok def_shape d \<Longrightarrow> builds quiet (at_ptr def_calls d) (pred_option def_names d) (at_ptr def_vers d)
     (I_Def (received_def (the d)))"
  by (cases "the d")
    (auto elim!: ptr_okE intro!: buildsI
      simp: buildDefineCond_def buildDefineDir_def buildDefineReg_def buildDefineAct_def
        buildDefineModelRule_def buildDefineDirectiveRule_def item_ops name_fits_stacked checked_name_fits rr_def
        build_region_ptr[where r = "Some r" for r, simplified] buildsD[OF builds_cond] buildsD[OF builds_rule]
        buildsD[OF builds_action] buildsD[OF builds_dir[where p = "Some d" for d, simplified]])

section \<open>Messages\<close>

fun msg_shape :: "msg_body \<Rightarrow> bool" where
  "msg_shape (MetaMsg ts) = (ts \<noteq> [] \<and> None \<notin> set ts)"
| "msg_shape (FreeformMsg str) = True"
| "msg_shape UnsuppMsg = True"
| "msg_shape (InfoMsg ts) = (ts \<noteq> [] \<and> list_all (ptr_ok token_shape) ts)"
| "msg_shape (AdviceMsg ts) = (ts \<noteq> [] \<and> list_all (ptr_ok token_shape) ts)"
| "msg_shape (DefineMsg ds) = (ds \<noteq> [] \<and> list_all (ptr_ok def_shape) ds)"
| "msg_shape (DelMsg ids) = True"
| "msg_shape (RuleMsg acts) = (acts \<noteq> [])"

text \<open>\<open>limit\<close> is the longest free text.\<close>

fun msg_names :: "u32 \<Rightarrow> msg_body \<Rightarrow> bool" where
  "msg_names limit (FreeformMsg str) = (int (length str) \<le> uint limit)"
| "msg_names limit (InfoMsg ts) = list_all (pred_option token_names) ts"
| "msg_names limit (AdviceMsg ts) = list_all (pred_option token_names) ts"
| "msg_names limit (DefineMsg ds) = list_all (pred_option def_names) ds"
| "msg_names limit (DelMsg ids) = list_all fits ids"
| "msg_names limit (RuleMsg acts) = list_all (\<lambda>a. list_all fits (AR_rids a)) acts"
| "msg_names limit m = True"

text \<open>The versions asked for before the message exists, and after.\<close>

fun part_vers :: "msg_body \<Rightarrow> u32 list" where
  "part_vers (InfoMsg ts) = concat (map (at_ptr token_vers) ts)"
| "part_vers (AdviceMsg ts) = concat (map (at_ptr token_vers) ts)"
| "part_vers (DefineMsg ds) = concat (map (at_ptr def_vers) ds)"
| "part_vers m = []"

fun last_ver :: "msg_body \<Rightarrow> u32 \<times> u32" where
  "last_ver (MetaMsg ts) = (7, 7)"
| "last_ver (InfoMsg ts) = (7, 7)"
| "last_ver (AdviceMsg ts) = (7, 7)"
| "last_ver (DelMsg ids) = (8, 8)"
| "last_ver (RuleMsg acts) = (8, 8)"
| "last_ver m = (8, 7)"

fun received :: "msg_body \<Rightarrow> msg_body" where
  "received (InfoMsg ts) = InfoMsg (map (map_option received_token) ts)"
| "received (AdviceMsg ts) = AdviceMsg (map (map_option received_token) ts)"
| "received (DefineMsg ds) = DefineMsg (map (map_option received_def) ds)"
| "received m = m"

text \<open>The builder after a message.\<close>

definition built_msg :: "msg_body \<Rightarrow> u32 list \<Rightarrow> u32 \<times> u32 \<Rightarrow> builder \<Rightarrow> builder" where
  "built_msg body vs l b =
     (let b1 = (stacked vs [] b)\<lparr>M_msg := Some (body, Msg_new body)\<rparr>;
          b2 = builder_setVer (M_min_ver b1) (M_max_ver b1) b1
      in builder_setVer (fst l) (snd l) b2)"

lemma setMsg_stacked:
  "and_then (setMsg body (stacked vs [] b)) (\<lambda>b2. Inr (builder_setVer mn mx b2)) = Inr (built_msg body vs (mn, mx) b)"
proof -
  have "M_items (builder_setVer lo hi b') = M_items b'" for lo hi b'
    by (simp add: builder_setVer_def split: prod.split)
  then show ?thesis by (simp add: setMsg_def Let_def checkItemsEmpty_def built_msg_def)
qed

lemma build_all_ver: "build_all [c, ver v] b = and_then (c b) (\<lambda>b2. Inr (builder_setVer v v b2))"
  "build_all [c, \<lambda>b. Inr (builder_setVer mn mx b)] b = and_then (c b) (\<lambda>b2. Inr (builder_setVer mn mx b2))"
  by (cases "c b"; simp add: ver_def)+

lemma build_tokens:
  assumes "list_all (ptr_ok token_shape) ts" "M_str_var_size b = 8"
  shows "build_all (concat (map (at_ptr token_calls) ts)) (stacked us [] b) =
    (if list_all (pred_option token_names) ts
     then Inr (stacked (us @ concat (map (at_ptr token_vers) ts)) (rev (map (\<lambda>p. I_Token (received_token (the p))) ts)) b)
     else Inl SyntaxError)"
  using build_parts[OF assms(1) quiet_Nil assms(2), where I = I_Token, OF _ builds_token] by simp

lemma take_tokens:
  assumes "ts \<noteq> []" "list_all (ptr_ok token_shape) ts"
  shows "take_items IT_TOKEN (\<lambda>x l. Some (it_token x) # l) []
      (stacked vs (rev (map (\<lambda>p. I_Token (received_token (the p))) ts)) b) = Inr (map (map_option received_token) ts, stacked vs [] b)"
  using take_parts[OF assms, where s = "[]" and t = IT_TOKEN and I = I_Token and it = it_token] by (simp add: top_not_def)

lemma build_defs:
  assumes "list_all (ptr_ok def_shape) ts" "M_str_var_size b = 8"
  shows "build_all (concat (map (at_ptr def_calls) ts)) (stacked us [] b) =
    (if list_all (pred_option def_names) ts
     then Inr (stacked (us @ concat (map (at_ptr def_vers) ts)) (rev (map (\<lambda>p. I_Def (received_def (the p))) ts)) b)
     else Inl SyntaxError)"
  using build_parts[OF assms(1) quiet_Nil assms(2), where I = I_Def, OF _ builds_def_part] by simp

lemma take_defs:
  assumes "ts \<noteq> []" "list_all (ptr_ok def_shape) ts"
  shows "take_items IT_DEF (\<lambda>x l. Some (it_def x) # l) []
      (stacked vs (rev (map (\<lambda>p. I_Def (received_def (the p))) ts)) b) = Inr (map (map_option received_def) ts, stacked vs [] b)"
  using take_parts[OF assms, where s = "[]" and t = IT_DEF and I = I_Def and it = it_def] by (simp add: top_not_def)

lemma build_metas:
  assumes "ts \<noteq> []" "None \<notin> set ts"
  shows "build_all (concat (map (at_ptr meta_calls) ts)) (stacked us [] b) = Inr (stacked us (rev (map (\<lambda>p. I_Meta (the p)) ts)) b)"
    and "take_items IT_META (\<lambda>x l. Some (it_meta x) # l) [] (stacked vs (rev (map (\<lambda>p. I_Meta (the p)) ts)) b)
      = Inr (ts, stacked vs [] b)"
proof -
  have "build_all (concat (map (at_ptr meta_calls) ts)) (stacked us s b) = Inr (stacked us (rev (map (\<lambda>p. I_Meta (the p)) ts) @ s) b)" for s
    using assms(2)
  proof (induction ts arbitrary: s)
    case (Cons t ts)
    then show ?case by (cases t; cases "the t") (auto simp: buildMetaTokenVer_def item_ops)
  qed simp
  then show "build_all (concat (map (at_ptr meta_calls) ts)) (stacked us [] b) = Inr (stacked us (rev (map (\<lambda>p. I_Meta (the p)) ts)) b)"
    by simp
  have "map (map_option (\<lambda>x. x)) ts = ts" by (simp add: option.map_ident map_idI)
  moreover have "list_all (ptr_ok (\<lambda>_. True)) ts"
    using assms(2)
  proof (induction ts)
    case (Cons t ts)
    then show ?case by (cases t) auto
  qed simp
  ultimately show "take_items IT_META (\<lambda>x l. Some (it_meta x) # l) [] (stacked vs (rev (map (\<lambda>p. I_Meta (the p)) ts)) b)
      = Inr (ts, stacked vs [] b)"
    using take_parts[where s = "[]" and t = IT_META and I = I_Meta and it = it_meta and recv = "\<lambda>x. x"
        and shape = "\<lambda>_. True", OF assms(1)]
    by (simp add: top_not_def)
qed

lemma build_activations:
  assumes "acts \<noteq> []" "M_str_var_size b = 8"
  shows "build_all (concat (map activate_calls acts)) (stacked us [] b) =
      (if list_all (\<lambda>a. list_all fits (AR_rids a)) acts then Inr (stacked us (rev (map I_Activate acts)) b) else Inl SyntaxError)"
    and "take_items IT_ACTIVATE (\<lambda>x l. it_activate x # l) [] (stacked vs (rev (map I_Activate acts)) b) = Inr (acts, stacked vs [] b)"
proof -
  have "builds quiet (activate_calls a) (list_all fits (AR_rids a)) [] (I_Activate a)" for a
    by (cases a) (auto intro!: buildsI simp: activate_calls_def buildsD[OF builds_id_list] buildActivateRules_def rid_or_list_def
        isItem_def item_ops)
  then show "build_all (concat (map activate_calls acts)) (stacked us [] b) =
      (if list_all (\<lambda>a. list_all fits (AR_rids a)) acts then Inr (stacked us (rev (map I_Activate acts)) b) else Inl SyntaxError)"
    using build_all_list[of acts activate_calls "\<lambda>a. list_all fits (AR_rids a)" "\<lambda>a. []" I_Activate "[]" b us] assms(2)
    by (simp add: concat_eq_Nil_conv[THEN iffD2])
  show "take_items IT_ACTIVATE (\<lambda>x l. it_activate x # l) [] (stacked vs (rev (map I_Activate acts)) b) = Inr (acts, stacked vs [] b)"
    using take_items_stacked[of "rev (map I_Activate acts)" IT_ACTIVATE "[]" "\<lambda>x l. it_activate x # l" "[]" vs b] assms(1)
    by (auto simp: fold_cons rev_map comp_def top_not_def)
qed

lemma build_msg:
  assumes "msg_shape m" "M_str_var_size b = 8"
  shows "build_all (msg_calls m) (stacked [] [] b) =
    (if msg_names (M_freeform_msg_size b) m then Inr (built_msg (received m) (part_vers m) (last_ver m) b) else Inl SyntaxError)"
proof (cases m)
  case (MetaMsg ts)
  then show ?thesis
    using assms by (simp add: build_all_ver buildMetaMsg_def build_metas and_then_assoc setMsg_stacked del: build_all.simps)
next
  case (FreeformMsg str)
  then show ?thesis
    using build_all_ver(2)[of "buildFreeformMsg str" 8 7 "stacked [] [] b"]
    by (simp add: text_fits_def buildFreeformMsg_def setMsg_stacked)
next
  case UnsuppMsg
  then show ?thesis
    using build_all_ver(2)[of "buildUnsuppMsg" 8 7 "stacked [] [] b"] by (simp add: buildUnsuppMsg_def setMsg_stacked)
next
  case (InfoMsg ts)
  then show ?thesis
    using assms by (simp add: build_all_ver buildInfoMsg_def build_tokens take_tokens and_then_assoc setMsg_stacked del: build_all.simps)
next
  case (AdviceMsg ts)
  then show ?thesis
    using assms by (simp add: build_all_ver buildAdviceMsg_def build_tokens take_tokens and_then_assoc setMsg_stacked del: build_all.simps)
next
  case (DefineMsg ds)
  then show ?thesis
    using assms by (simp add: build_all_ver buildDefineMsg_def build_defs take_defs and_then_assoc setMsg_stacked del: build_all.simps)
next
  case (DelMsg ids)
  then show ?thesis
    using assms
    by (simp add: build_all_ver buildDelMsg_def buildsD[OF builds_id_list] rid_or_list_def isItem_def item_ops
        and_then_assoc setMsg_stacked del: build_all.simps)
next
  case (RuleMsg acts)
  then show ?thesis
    using assms
    by (simp add: build_all_ver buildRuleMsg_def build_activations and_then_assoc setMsg_stacked del: build_all.simps)
qed

section \<open>What is read\<close>

lemma read_message:
  assumes "msg_shape m"
  shows "(msg_names limit m \<longrightarrow> (\<exists>b. build_all (msg_calls m) (setFreeformMsgSize limit MsgBuilder_new) = Inr b
      \<and> M_items b = [] \<and> map_option fst (M_msg b) = Some (received m)))
    \<and> (\<not> msg_names limit m \<longrightarrow> build_all (msg_calls m) (setFreeformMsgSize limit MsgBuilder_new) = Inl SyntaxError)"
proof -
  let ?b = "setFreeformMsgSize limit MsgBuilder_new"
  have b: "M_str_var_size ?b = 8" "M_freeform_msg_size ?b = limit" "stacked [] [] ?b = ?b"
    by (simp_all add: setFreeformMsgSize_def MsgBuilder_new_def stacked_def)
  have "M_items (builder_setVer lo hi b') = M_items b'" for lo hi b'
    by (simp add: builder_setVer_def split: prod.split)
  moreover have "map_option fst (M_msg (builder_setVer lo hi b')) = map_option fst (M_msg b')" for lo hi b'
    by (cases "M_msg b'") (auto simp: builder_setVer_def split: prod.split)
  ultimately have "M_items (built_msg body vs l ?b) = [] \<and> map_option fst (M_msg (built_msg body vs l ?b)) = Some body"
    for body vs l
    by (simp add: built_msg_def Let_def)
  then show ?thesis using build_msg[OF assms b(1)] by (simp add: b)
qed

text \<open>C19: the builder makes of a message of the grammar exactly the message that was said, with the
  numbers of a set in reverse order, unions of regions merged and the names of conditions in their
  quotation marks, and leaves nothing on its stack; when a name is longer than eight characters or
  a free text longer than the limit the parser stops with an error.\<close>

theorem message_read:
  assumes "msg_shape m"
  shows "(msg_names limit m \<longrightarrow> (\<exists>b. build_all (msg_calls m) (setFreeformMsgSize limit MsgBuilder_new) = Inr b
      \<and> M_items b = [] \<and> map_option fst (M_msg b) = Some (received m)))
    \<and> (\<not> msg_names limit m \<longrightarrow> build_all (msg_calls m) (setFreeformMsgSize limit MsgBuilder_new) = Inl SyntaxError)"
  by (rule read_message[OF assms])

section \<open>Versions\<close>

definition needed :: "msg_body \<Rightarrow> u32 set" where
  "needed m = set (part_vers m) \<union> (if fst (last_ver m) = snd (last_ver m) then {fst (last_ver m)} else {})"

definition supports :: "u32 \<Rightarrow> u32 \<Rightarrow> msg_body \<Rightarrow> bool" where
  "supports mn mx m \<longleftrightarrow>
     (if needed m = {} then mn \<le> 7 \<and> 7 \<le> mx \<or> mn \<le> 8 \<and> 8 \<le> mx
      else \<forall>v \<in> needed m. mn \<le> v \<and> v \<le> mx)"

text \<open>The range after the versions in a set have been asked for.\<close>

definition span :: "u32 set \<Rightarrow> u32 \<times> u32" where
  "span S = (if S = {} then (- 1, 0) else if S = {7} then (7, 7) else if S = {8} then (8, 8) else (7, 8))"

lemma sets78: "S \<subseteq> {7, 8::u32} \<Longrightarrow> S = {} \<or> S = {7} \<or> S = {8} \<or> S = {7, 8}"
  by blast

lemma pair78: "{7, 8::u32} \<noteq> {7}" "{7, 8::u32} \<noteq> {8}" "{8, 7::u32} = {7, 8}"
  by (auto simp: insert_eq_iff)

lemma span_simps:
  "span {} = (- 1, 0)" "span {7} = (7, 7)" "span {8} = (8, 8)" "span {7, 8} = (7, 8)"
  by (simp_all add: span_def pair78)

lemma version_range_span:
  assumes "S \<subseteq> {7, 8}"
  shows "v \<in> {7, 8} \<Longrightarrow> version_range v v (span S) = span (insert v S)"
    and "version_range (fst (span S)) (snd (span S)) (- 1, 0) = span S"
    and "version_range 8 7 (span S) = (if S = {} then (8, 7) else span S)"
proof -
  have max: "(0::u32) < - 1" by (simp add: word_greater_zero_iff)
  show "v \<in> {7, 8} \<Longrightarrow> version_range v v (span S) = span (insert v S)"
    and "version_range (fst (span S)) (snd (span S)) (- 1, 0) = span S"
    and "version_range 8 7 (span S) = (if S = {} then (8, 7) else span S)"
    using sets78[OF assms] by (auto simp: version_range_def span_simps pair78 insert_absorb max)
qed

lemma fold_range: "set vs \<subseteq> {7, 8} \<Longrightarrow> S \<subseteq> {7, 8} \<Longrightarrow> fold (\<lambda>v. version_range v v) vs (span S) = span (S \<union> set vs)"
proof (induction vs arbitrary: S)
  case (Cons v vs)
  then have "fold (\<lambda>v. version_range v v) vs (span (insert v S)) = span (insert v S \<union> set vs)" by simp
  then show ?case using Cons.prems version_range_span(1)[of S v] by simp
qed simp

lemma setv_range:
  "(M_min_ver (setv vs b), M_max_ver (setv vs b)) = fold (\<lambda>v. version_range v v) vs (M_min_ver b, M_max_ver b)"
proof (induction vs arbitrary: b)
  case (Cons v vs)
  then show ?case by (simp add: setv_def builder_setVer_def split: prod.split)
qed (simp add: setv_def)

definition msg_range :: "clang_msg \<Rightarrow> u32 \<times> u32" where
  "msg_range i = (Msg_min_ver i, Msg_max_ver i)"

lemma setVer_range: "msg_range (setVer mn mx i) = version_range mn mx (msg_range i)"
  "Msg_type (setVer mn mx i) = Msg_type i" "Msg_time_recv (setVer mn mx i) = Msg_time_recv i"
  by (auto simp: setVer_def version_range_def msg_range_def Let_def)

text \<open>Only the versions 7 and 8 are ever asked for.\<close>

definition vers78 :: "u32 list \<Rightarrow> bool" where
  "vers78 vs \<longleftrightarrow> list_all (\<lambda>v. v = 7 \<or> v = 8) vs"

lemma vers78_simps [simp]:
  "vers78 []" "vers78 (v # vs) \<longleftrightarrow> (v = 7 \<or> v = 8) \<and> vers78 vs" "vers78 (us @ vs) \<longleftrightarrow> vers78 us \<and> vers78 vs"
  "vers78 (concat vss) \<longleftrightarrow> list_all vers78 vss"
  by (auto simp: vers78_def list_all_iff)

lemma vers78_set: "vers78 vs \<Longrightarrow> set vs \<subseteq> {7, 8}"
  by (auto simp: vers78_def list_all_iff)

lemma vers78_ptr: "(\<And>x. p = Some x \<Longrightarrow> vers78 (f x)) \<Longrightarrow> vers78 (at_ptr f p)"
  by (cases p) simp_all

lemma vers78_ptrs: "(\<And>x. Some x \<in> set ps \<Longrightarrow> vers78 (f x)) \<Longrightarrow> list_all vers78 (map (at_ptr f) ps)"
  by (auto simp: list_all_iff intro!: vers78_ptr)

lemma vers78_unums [simp]: "vers78 (var_vers u)" "vers78 (unum_set_vers us)"
  by (auto simp: var_vers_def unum_set_vers_def list_all_iff)

lemma vers78_point [simp]: "vers78 (point_vers p)"
  by (induction p rule: point_vers.induct) (simp_all add: vers78_ptr)

lemma vers78_region [simp]: "vers78 (region_vers r)"
  by (induction r rule: region_vers.induct) (simp_all add: vers78_ptr vers78_ptrs)

lemma vers78_action [simp]: "vers78 (action_vers a)"
  by (simp add: action_vers_def vers78_ptr)

lemma vers78_dir [simp]: "vers78 (dir_vers d)"
  by (cases d) (simp_all add: vers78_ptrs)

lemma vers78_cond [simp]: "vers78 (cond_vers c)"
  by (induction c rule: cond_vers.induct) (simp_all add: vers78_ptr vers78_ptrs)

lemma vers78_rule [simp]: "vers78 (rule_vers r)"
  by (induction r rule: rule_vers.induct) (simp_all add: vers78_ptr vers78_ptrs)

lemma vers78_token [simp]: "vers78 (token_vers t)"
  by (cases t) (simp_all add: vers78_ptr vers78_ptrs)

lemma vers78_define [simp]: "vers78 (def_vers d)"
  by (cases d) (simp_all add: vers78_ptr)

lemma vers78_part [simp]: "vers78 (part_vers m)"
  by (cases m) (simp_all add: vers78_ptrs)

lemma built_range:
  assumes "M_min_ver b = - 1" "M_max_ver b = 0"
  obtains i where "M_msg (built_msg body (part_vers m) (last_ver m) b) = Some (body, i)"
    "msg_range i = (if needed m = {} then (8, 7) else span (needed m))" "Msg_type i = Msg_getType body"
proof
  let ?vs = "part_vers m" and ?i = "\<lambda>lo hi. setVer (fst (last_ver m)) (snd (last_ver m)) (setVer lo hi (Msg_new body))"
  have vs: "set ?vs \<subseteq> {7, 8}" by (simp add: vers78_set)
  have b: "(M_min_ver (setv ?vs b), M_max_ver (setv ?vs b)) = span (set ?vs)"
    using fold_range[OF vs, of "{}"] unfolding setv_range assms span_simps(1) by simp
  have lo: "M_min_ver (setv ?vs b) = fst (span (set ?vs))" "M_max_ver (setv ?vs b) = snd (span (set ?vs))"
    using b by (metis fst_conv snd_conv)+
  let ?j = "?i (fst (span (set ?vs))) (snd (span (set ?vs)))"
  show "M_msg (built_msg body ?vs (last_ver m) b) = Some (body, ?j)"
    by (simp add: built_msg_def stacked_def lo builder_setVer_def Let_def split: prod.split)
  show "Msg_type ?j = Msg_getType body" by (simp add: setVer_range Msg_new_def)
  have new: "msg_range (Msg_new body) = (- 1, 0)" by (simp add: msg_range_def Msg_new_def)
  show "msg_range ?j = (if needed m = {} then (8, 7) else span (needed m))"
    unfolding setVer_range(1) new version_range_span(2)[OF vs]
    using version_range_span(1)[OF vs] version_range_span(3)[OF vs]
    by (cases m) (simp_all add: needed_def)
qed

lemma read_versions:
  assumes "msg_shape m"
    and "build_all (msg_calls m) (setFreeformMsgSize limit MsgBuilder_new) = Inr b" and "builder_getMsg sr b = Some i"
  shows "Msg_type i = Msg_getType m \<and> Msg_text i = Msg_print sr (received m)
    \<and> (isSupported mn mx i \<longleftrightarrow> supports mn mx m)"
proof -
  let ?b = "setFreeformMsgSize limit MsgBuilder_new"
  have b: "M_str_var_size ?b = 8" "stacked [] [] ?b = ?b" "M_min_ver ?b = - 1" "M_max_ver ?b = 0"
    by (simp_all add: setFreeformMsgSize_def MsgBuilder_new_def stacked_def)
  obtain j where j: "M_msg (built_msg (received m) (part_vers m) (last_ver m) ?b) = Some (received m, j)"
      "msg_range j = (if needed m = {} then (8, 7) else span (needed m))" "Msg_type j = Msg_getType (received m)"
    by (rule built_range[OF b(3,4)])
  have "b = built_msg (received m) (part_vers m) (last_ver m) ?b"
    using build_msg[OF assms(1) b(1)] assms(2) by (simp add: b(2) split: if_splits)
  then have i: "i = j\<lparr>Msg_text := Msg_print sr (received m)\<rparr>" using assms(3) j(1) by (simp add: builder_getMsg_def)
  have sub: "needed m \<subseteq> {7, 8}"
    using vers78_set[OF vers78_part[of m]] by (cases m) (auto simp: needed_def)
  have lohi: "Msg_min_ver i = fst (msg_range j)" "Msg_max_ver i = snd (msg_range j)"
    by (simp_all add: i msg_range_def)
  have mono: "mn \<le> (7::u32) \<Longrightarrow> mn \<le> 8" "(8::u32) \<le> mx \<Longrightarrow> 7 \<le> mx"
    by (auto intro: order_trans[of mn 7 8] order_trans[of 7 8 mx])
  have "isSupported mn mx i \<longleftrightarrow> supports mn mx m"
    using sets78[OF sub] unfolding isSupported_def supports_def lohi j(2)
    by (auto simp: span_simps intro: mono)
  moreover have "Msg_getType (received m) = Msg_getType m" by (cases m) simp_all
  ultimately show ?thesis using j(3) by (simp add: i)
qed

text \<open>C30: a message read by the builder carries the type of what was said and is supported by exactly
  those clients which know every version that one of its phrases needs; a message which needs none
  (free text, unsupported or definitions of old phrases) by those which know version 7 or 8.\<close>

theorem message_versions:
  assumes "msg_shape m"
    and "build_all (msg_calls m) (setFreeformMsgSize limit MsgBuilder_new) = Inr b" and "builder_getMsg sr b = Some i"
  shows "Msg_type i = Msg_getType m \<and> Msg_text i = Msg_print sr (received m)
    \<and> (isSupported mn mx i \<longleftrightarrow> supports mn mx m)"
  by (rule read_versions[OF assms])

section \<open>Unions\<close>

fun region_leaves :: "region \<Rightarrow> region list" where
  "region_leaves (RegUnion rs) = concat (map (at_ptr region_leaves) rs)"
| "region_leaves r = [r]"

text \<open>Although a union takes every region on the stack, those said before it as well, the region
  which is read consists of the same parts in the same order.\<close>

theorem union_parts: "region_leaves (received_region r) = region_leaves r"
proof -
  have "concat (map region_leaves (absorb acc r)) = concat (map region_leaves acc) @ region_leaves r" for acc
  proof (induction acc r rule: absorb.induct)
    case (1 acc rs)
    have "concat (map region_leaves (foldl absorb_ptr acc ps)) =
        concat (map region_leaves acc) @ concat (map (at_ptr region_leaves) ps)" if "set ps \<subseteq> set rs" for ps acc
      using that
    proof (induction ps arbitrary: acc)
      case (Cons p ps)
      then show ?case using 1 by (cases p) simp_all
    qed simp
    then show ?case by (simp add: comp_def)
  qed simp_all
  from this[of "[]"] show ?thesis by (simp add: absorb_Nil)
qed

end
