(* ===== verification/Copies.thy ===== *)
theory Copies
  imports Reading
begin

text \<open>
  Copies of messages of the coach language and the values of conditions: a copy of a copy is the
  original, and a condition has the value of its formula.
\<close>

section \<open>Copies\<close>

text \<open>\<open>y\<close> is the copy of \<open>x\<close> and \<open>x\<close> the copy of \<open>y\<close>.\<close>

definition mirror :: "('a \<Rightarrow> 'a option) \<Rightarrow> 'a \<Rightarrow> 'a \<Rightarrow> bool" where
  "mirror f x y \<longleftrightarrow> f x = Some y \<and> f y = Some x"

lemma mirror_self: "f x = Some x \<Longrightarrow> Ex (mirror f x)"
  by (auto simp: mirror_def)

lemma mirror_ptr:
  assumes "ptr_ok P p" "\<And>x. p = Some x \<Longrightarrow> P x \<Longrightarrow> \<exists>y. mirror f x y"
  shows "\<exists>q. mirror (deref f) p q \<and> mirror (copy f) p q"
  using assms by (fastforce simp: mirror_def deref_def copy_def elim!: ptr_okE)

lemma mirror_all:
  assumes "list_all (ptr_ok P) ps" "\<And>x. Some x \<in> set ps \<Longrightarrow> P x \<Longrightarrow> \<exists>y. mirror f x y"
  shows "\<exists>qs. copy_all f ps = Some qs \<and> copy_all f qs = Some ps"
  using assms
proof (induction ps)
  case (Cons p ps)
  obtain qs where "copy_all f ps = Some qs" "copy_all f qs = Some ps" using Cons by auto
  moreover obtain q where "mirror (deref f) p q"
    using mirror_ptr[of P p f] Cons.prems by fastforce
  ultimately show ?case by (auto simp: mirror_def intro!: exI[of _ "q # qs"])
qed simp

lemma copy_all_map: "copy_all f ps = Some qs \<longleftrightarrow> map (deref f) ps = map Some qs"
proof (induction ps arbitrary: qs)
  case (Cons p ps)
  show ?case by (cases "deref f p"; cases "copy_all f ps"; cases qs) (use Cons in auto)
qed auto

lemma copy_all_rev: "copy_all f ps = Some qs \<Longrightarrow> copy_all f (rev ps) = Some (rev qs)"
  unfolding copy_all_map by (metis rev_map)

lemma mirror_point: "point_shape p \<Longrightarrow> \<exists>q. mirror Point_deepCopy p q"
proof (induction p rule: point_calls.induct)
  case (2 x y p)
  then obtain q where "mirror (copy Point_deepCopy) p q" using mirror_ptr[of point_shape p Point_deepCopy] by auto
  then show ?case by (intro exI[of _ "PointRel x y q"]) (simp add: mirror_def)
next
  case (5 p q arith)
  then obtain p' q' where "mirror (deref Point_deepCopy) p p'" "mirror (deref Point_deepCopy) q q'"
    using mirror_ptr[of point_shape p Point_deepCopy] mirror_ptr[of point_shape q Point_deepCopy] by auto
  then show ?case by (intro exI[of _ "PointArith p' q' arith"]) (simp add: mirror_def)
qed (simp_all add: mirror_self)

lemma mirror_point_ptr: "ptr_ok point_shape p \<Longrightarrow> \<exists>q. mirror (deref Point_deepCopy) p q \<and> mirror (copy Point_deepCopy) p q"
  by (rule mirror_ptr[of point_shape]) (simp_all add: mirror_point)

lemma point_copyE: "ptr_ok point_shape p \<Longrightarrow> (\<And>q. mirror (copy Point_deepCopy) p q \<Longrightarrow> R) \<Longrightarrow> R"
  using mirror_point_ptr by blast

lemma point_derefE: "ptr_ok point_shape p \<Longrightarrow> (\<And>q. mirror (deref Point_deepCopy) p q \<Longrightarrow> R) \<Longrightarrow> R"
  using mirror_point_ptr by blast

lemma foldl_push: "foldl (\<lambda>regs r. r # regs) acc xs = rev xs @ acc"
  by (induction xs arbitrary: acc) simp_all

lemma mirror_region: "region_shape r \<Longrightarrow> \<exists>q. mirror Region_deepCopy r q"
proof (induction r rule: Region_deepCopy.induct)
  case (2 p q r s)
  then obtain p' q' r' s' where "mirror (copy Point_deepCopy) p p'" "mirror (copy Point_deepCopy) q q'"
      "mirror (copy Point_deepCopy) r r'" "mirror (copy Point_deepCopy) s s'"
    by (auto elim!: point_copyE)
  then show ?case by (intro exI[of _ "RegQuad p' q' r' s'"]) (simp add: mirror_def RegQuad_deepCopy_def)
next
  case (3 start_rad end_rad start_ang span_ang p)
  then obtain p' where "mirror (copy Point_deepCopy) p p'" by (auto elim!: point_copyE)
  then show ?case
    by (intro exI[of _ "RegArc start_rad end_rad start_ang span_ang p'"]) (simp add: mirror_def RegArc_deepCopy_def)
next
  case (4 rs)
  then obtain qs where qs: "copy_all Region_deepCopy rs = Some qs" "copy_all Region_deepCopy qs = Some rs"
    using mirror_all[of region_shape rs Region_deepCopy] by auto
  then have "copy_all Region_deepCopy (rev qs) = Some (rev rs)" using copy_all_rev by blast
  then show ?case
    using qs by (intro exI[of _ "RegUnion (rev qs)"]) (simp add: mirror_def RegUnion_deepCopy_def foldl_push)
next
  case (6 p)
  then obtain p' where "mirror (deref Point_deepCopy) p p'" by (auto elim!: point_derefE)
  then show ?case by (intro exI[of _ "RegPoint p'"]) (simp add: mirror_def)
next
  case (7 p q r)
  then obtain p' q' r' where "mirror (copy Point_deepCopy) p p'" "mirror (copy Point_deepCopy) q q'"
      "mirror (copy Point_deepCopy) r r'"
    by (auto elim!: point_copyE)
  then show ?case by (intro exI[of _ "RegTri p' q' r'"]) (simp add: mirror_def RegTri_deepCopy_def)
next
  case (8 p q)
  then obtain p' q' where "mirror (copy Point_deepCopy) p p'" "mirror (copy Point_deepCopy) q q'"
    by (auto elim!: point_copyE)
  then show ?case by (intro exI[of _ "RegRec p' q'"]) (simp add: mirror_def RegRec_deepCopy_def)
qed (simp_all add: mirror_self)

lemma mirror_region_ptr: "ptr_ok region_shape p \<Longrightarrow> \<exists>q. mirror (deref Region_deepCopy) p q \<and> mirror (copy Region_deepCopy) p q"
  by (rule mirror_ptr[of region_shape]) (simp_all add: mirror_region)

lemma region_copyE: "ptr_ok region_shape p \<Longrightarrow> (\<And>q. mirror (copy Region_deepCopy) p q \<Longrightarrow> R) \<Longrightarrow> R"
  using mirror_region_ptr by blast

lemma region_derefE: "ptr_ok region_shape p \<Longrightarrow> (\<And>q. mirror (deref Region_deepCopy) p q \<Longrightarrow> R) \<Longrightarrow> R"
  using mirror_region_ptr by blast

lemma mirror_action:
  assumes "action_shape a"
  shows "\<exists>q. mirror Action_deepCopy a q"
proof -
  have reg: "\<exists>q. mirror Action_deepCopy (f r) q"
    if r: "ptr_ok region_shape r" and f: "\<And>r. Action_deepCopy (f r) = map_option f (copy Region_deepCopy r)" for f r
  proof -
    obtain q where "mirror (copy Region_deepCopy) r q" using mirror_region_ptr[OF r] by blast
    then show ?thesis by (intro exI[of _ "f q"]) (simp add: mirror_def f)
  qed
  note copies = ActPos_deepCopy_def ActHome_deepCopy_def ActBallToReg_deepCopy_def ActMarkLineReg_deepCopy_def
    ActOffsidesLine_deepCopy_def ActPassReg_deepCopy_def ActDribble_deepCopy_def ActClear_deepCopy_def
  show ?thesis
    using assms
    by (cases a)
      (simp_all add: copies mirror_self reg[of _ ActPos] reg[of _ ActHome] reg[of _ "\<lambda>r. ActBallToReg r m" for m]
        reg[of _ ActMarkLineReg] reg[of _ ActOffsidesLine] reg[of _ ActPassReg] reg[of _ ActDribble] reg[of _ ActClear])
qed

lemma mirror_dir: "dir_shape d \<Longrightarrow> \<exists>q. mirror Dir_deepCopy d q"
proof (induction d rule: Dir_deepCopy.induct)
  case (1 positive our_side players actions)
  then obtain qs where "copy_all Action_deepCopy actions = Some qs" "copy_all Action_deepCopy qs = Some actions"
    using mirror_all[of action_shape actions Action_deepCopy, OF _ mirror_action] by auto
  then show ?case by (intro exI[of _ "DirComm positive our_side players qs"]) (simp add: mirror_def DirComm_deepCopy_def)
qed (simp_all add: mirror_self)

lemma mirror_dirs:
  "list_all (ptr_ok dir_shape) ds \<Longrightarrow> \<exists>qs. copy_all Dir_deepCopy ds = Some qs \<and> copy_all Dir_deepCopy qs = Some ds"
  by (rule mirror_all[of dir_shape]) (simp_all add: mirror_dir)

lemma mirror_cond: "cond_shape c \<Longrightarrow> \<exists>q. mirror Cond_deepCopy c q"
proof (induction c rule: Cond_deepCopy.induct)
  case (1 our_side ps mn mx r)
  then obtain q where "mirror (copy Region_deepCopy) r q" by (auto elim!: region_copyE)
  then show ?case
    by (intro exI[of _ "CondPlayerPos our_side ps mn mx q"]) (simp add: mirror_def CondPlayerPos_deepCopy_def)
next
  case (2 r)
  then obtain q where "mirror (copy Region_deepCopy) r q" by (auto elim!: region_copyE)
  then show ?case by (intro exI[of _ "CondBallPos q"]) (simp add: mirror_def CondBallPos_deepCopy_def)
next
  case (3 cs)
  then obtain qs where "copy_all Cond_deepCopy cs = Some qs" "copy_all Cond_deepCopy qs = Some cs"
    using mirror_all[of cond_shape cs Cond_deepCopy] by auto
  then show ?case by (intro exI[of _ "CondAnd qs"]) (simp add: mirror_def)
next
  case (4 cs)
  then obtain qs where "copy_all Cond_deepCopy cs = Some qs" "copy_all Cond_deepCopy qs = Some cs"
    using mirror_all[of cond_shape cs Cond_deepCopy] by auto
  then show ?case by (intro exI[of _ "CondOr qs"]) (simp add: mirror_def)
next
  case (5 c)
  then obtain q where "mirror (copy Cond_deepCopy) c q" using mirror_ptr[of cond_shape c Cond_deepCopy] by auto
  then show ?case by (intro exI[of _ "CondNot q"]) (simp add: mirror_def)
qed (simp_all add: mirror_self)

lemma mirror_cond_ptr: "ptr_ok cond_shape p \<Longrightarrow> \<exists>q. mirror (deref Cond_deepCopy) p q \<and> mirror (copy Cond_deepCopy) p q"
  by (rule mirror_ptr[of cond_shape]) (simp_all add: mirror_cond)

lemma cond_copyE: "ptr_ok cond_shape p \<Longrightarrow> (\<And>q. mirror (copy Cond_deepCopy) p q \<Longrightarrow> R) \<Longrightarrow> R"
  using mirror_cond_ptr by blast

lemma cond_derefE: "ptr_ok cond_shape p \<Longrightarrow> (\<And>q. mirror (deref Cond_deepCopy) p q \<Longrightarrow> R) \<Longrightarrow> R"
  using mirror_cond_ptr by blast

lemma mirror_rule: "rule_shape r \<Longrightarrow> \<exists>q. mirror Rule_deepCopy r q"
proof (induction r rule: Rule_deepCopy.induct)
  case (1 c dirs)
  then obtain c' qs where "mirror (deref Cond_deepCopy) c c'" "copy_all Dir_deepCopy dirs = Some qs"
      "copy_all Dir_deepCopy qs = Some dirs"
    using mirror_cond_ptr[of c] mirror_dirs[of dirs] by auto
  then show ?case by (intro exI[of _ "SimpleRule c' qs"]) (simp add: mirror_def SimpleRule_deepCopy_def)
next
  case (2 c rules)
  then obtain c' qs where "mirror (deref Cond_deepCopy) c c'" "copy_all Rule_deepCopy rules = Some qs"
      "copy_all Rule_deepCopy qs = Some rules"
    using mirror_cond_ptr[of c] mirror_all[of rule_shape rules Rule_deepCopy] by auto
  then show ?case by (intro exI[of _ "NestedRule c' qs"]) (simp add: mirror_def NestedRule_deepCopy_def)
qed (simp_all add: mirror_self)

lemma mirror_token: "token_shape t \<Longrightarrow> \<exists>q. mirror Token_deepCopy t q"
proof (induction t rule: Token_deepCopy.induct)
  case (2 ttl c dirs)
  then obtain c' qs where "mirror (copy Cond_deepCopy) c c'" "copy_all Dir_deepCopy dirs = Some qs"
      "copy_all Dir_deepCopy qs = Some dirs"
    using mirror_cond_ptr[of c] mirror_dirs[of dirs] by auto
  then show ?case by (intro exI[of _ "TokRule ttl c' qs"]) (simp add: mirror_def TokRule_deepCopy_def)
qed (simp_all add: mirror_self)

lemma mirror_define: "def_shape d \<Longrightarrow> \<exists>q. mirror Def_deepCopy d q"
proof (induction d rule: Def_deepCopy.induct)
  case (1 name c)
  then obtain c' where "mirror (deref Cond_deepCopy) c c'" by (auto elim!: cond_derefE)
  then show ?case by (intro exI[of _ "DefCond name c'"]) (simp add: mirror_def)
next
  case (2 name d)
  then obtain d' where "mirror (deref Dir_deepCopy) d d'" using mirror_ptr[of dir_shape, OF _ mirror_dir] by (simp del: ex_simps) blast
  then show ?case by (intro exI[of _ "DefDir name d'"]) (simp add: mirror_def)
next
  case (3 name r)
  then obtain r' where "mirror (deref Region_deepCopy) r r'" by (auto elim!: region_derefE)
  then show ?case by (intro exI[of _ "DefReg name r'"]) (simp add: mirror_def)
next
  case (4 name a)
  then obtain a' where "mirror (deref Action_deepCopy) a a'" using mirror_ptr[of action_shape, OF _ mirror_action] by (simp del: ex_simps) blast
  then show ?case by (intro exI[of _ "DefAct name a'"]) (simp add: mirror_def)
next
  case (5 name r model)
  then obtain r' where "mirror (copy Rule_deepCopy) r r'" using mirror_ptr[of rule_shape, OF _ mirror_rule] by (simp del: ex_simps) blast
  then show ?case by (intro exI[of _ "DefRule name r' model"]) (simp add: mirror_def DefRule_deepCopy_def)
qed


section \<open>Values of conditions\<close>

fun holds :: "(cond \<Rightarrow> bool) \<Rightarrow> cond \<Rightarrow> bool" where
  "holds v (CondBool state) = state"
| "holds v (CondAnd cs) = list_all (pred_option (holds v)) cs"
| "holds v (CondOr cs) = list_ex (ptr_ok (holds v)) cs"
| "holds v (CondNot c) = (\<not> ptr_ok (holds v) c)"
| "holds v c = v c"

text \<open>C40: the value of a condition without null pointers is that of its formula in the given context;
  nothing is thrown although conjunctions and disjunctions are evaluated only as far as needed.\<close>

theorem condition_value:
  assumes "cond_shape c"
  shows "Cond_eval lookup c = Some (holds lookup c)"
  using assms
proof (induction lookup c rule: Cond_eval.induct)
  case (2 lookup cs)
  have "list_all (ptr_ok cond_shape) ps \<Longrightarrow> set ps \<subseteq> set cs \<Longrightarrow>
    CondAnd_eval (Cond_eval lookup) ps = Some (list_all (pred_option (holds lookup)) ps)" for ps
    by (induction ps) (use "2.IH" in \<open>auto elim!: ptr_okE\<close>)
  then show ?case using "2.prems" by simp
next
  case (3 lookup cs)
  have "list_all (ptr_ok cond_shape) ps \<Longrightarrow> set ps \<subseteq> set cs \<Longrightarrow>
    CondOr_eval (Cond_eval lookup) ps = Some (list_ex (ptr_ok (holds lookup)) ps)" for ps
    by (induction ps) (use "3.IH" in \<open>auto elim!: ptr_okE\<close>)
  then show ?case using "3.prems" by simp
next
  case (4 lookup c)
  then show ?case by (auto simp: CondNot_eval_def elim!: ptr_okE)
qed simp_all

end
