(* ===== verification/Advised.thy ===== *)
theory Advised
  imports Copies Audio
begin

text \<open>
  Advice from the coach to the players: the command say of an online coach (coach.cpp) reads the
  message with the parser and the builder, queues it and sends it when it is due (Coach), and the
  players of his side hear it (Audio).  The message is here the one the grammar reads.
\<close>

section \<open>The command say\<close>

text \<open>The result of the parser: a message when it returns without an error.\<close>

definition say_parsed :: "(real \<Rightarrow> string) \<Rightarrow> sparam \<Rightarrow> msg_body \<Rightarrow> clang_msg option" where
  "say_parsed sr sp m =
     (case build_all (msg_calls m) (setFreeformMsgSize (freeformMsgSize sp) MsgBuilder_new) of
        Inl e \<Rightarrow> None
      | Inr b \<Rightarrow> builder_getMsg sr b)"

lemma say_parsed_Some:
  assumes "msg_shape m" "msg_names (freeformMsgSize sp) m"
  obtains i where "say_parsed sr sp m = Some i" "Msg_type i = Msg_getType m"
    "Msg_text i = Msg_print sr (received m)" "\<forall>mn mx. isSupported mn mx i \<longleftrightarrow> supports mn mx m"
proof -
  obtain b where b: "build_all (msg_calls m) (setFreeformMsgSize (freeformMsgSize sp) MsgBuilder_new) = Inr b"
      "map_option fst (M_msg b) = Some (received m)"
    using read_message[OF assms(1)] assms(2) by blast
  then obtain i where i: "builder_getMsg sr b = Some i" by (auto simp: builder_getMsg_def split: prod.splits)
  show thesis
    using that[of i] read_versions[OF assms(1) b(1) i] b(1) i by (simp add: say_parsed_def)
qed

lemma say_parsed_None:
  "msg_shape m \<Longrightarrow> \<not> msg_names (freeformMsgSize sp) m \<Longrightarrow> say_parsed sr sp m = None"
  using read_message[of m] by (simp add: say_parsed_def)

lemma judge_structured:
  assumes "Msg_getType m \<notin> {FREEFORM, UNSUP}"
    and "M_playmode w \<noteq> PM_PlayOn \<or> messages_left (Msg_getType m) c > 0"
  obtains c1 where "judge_message sp (Msg_getType m) w c = Some (True, c1, [])"
    "OC_message_queue c1 = OC_message_queue c" "OC_side c1 = OC_side c"
proof
  let ?c1 = "if M_playmode w \<noteq> PM_PlayOn then c else take_message (Msg_getType m) c"
  show "judge_message sp (Msg_getType m) w c = Some (True, ?c1, [])"
    using assms by (auto simp: judge_message_def simp del: take_message.simps messages_left.simps split: clang_type.split)
  show "OC_message_queue ?c1 = OC_message_queue c" "OC_side ?c1 = OC_side c"
    by (cases "Msg_getType m"; simp)+
qed

text \<open>C18: structured advice which a coach says while the game is stopped, or within his quota, is
  acknowledged; the next look at the queue which finds it due sends it with the time and the side
  of the coach, and every player of his side who hears gets its text when his client knows all
  the versions that it needs, and a notice that it is not supported otherwise.\<close>

theorem advice_delivered:
  assumes "msg_shape m" and "msg_names (freeformMsgSize sp) m" and "Msg_getType m \<notin> {FREEFORM, UNSUP}"
    and "M_playmode w \<noteq> PM_PlayOn \<or> messages_left (Msg_getType m) c > 0"
    and "OC_message_queue c = []" and "OC_side c \<noteq> NEUTRAL" and "clangMessPerCycle sp > 0"
    and "M_playmode w' \<noteq> PM_PlayOn \<or> time - M_time w \<ge> clangMessDelay sp"
  shows "\<exists>c1 c2 i. say_clang sp (say_parsed sr sp m) w c = Some (c1, [Reply ''(ok say)''])
    \<and> check_message_queue sp time w' c1 = (c2, [CoachStdAudio i]) \<and> OC_message_queue c2 = []
    \<and> Msg_text i = Msg_print sr (received m)
    \<and> (\<forall>me mn mx. generalPredicate me w' \<and> M_side (pl w' me) = OC_side c \<longrightarrow>
         send_coach_std me mn mx i w' =
           [if supports mn mx m then CoachStd (M_time w') (coach_name [] (OC_side c)) i
            else CoachStdUnsupported (M_time w') (coach_name [] (OC_side c))])"
proof -
  obtain i where i: "say_parsed sr sp m = Some i" "Msg_type i = Msg_getType m"
      "Msg_text i = Msg_print sr (received m)" "\<forall>mn mx. isSupported mn mx i \<longleftrightarrow> supports mn mx m"
    by (rule say_parsed_Some[OF assms(1,2), of sr])
  obtain c1 where c1: "judge_message sp (Msg_getType m) w c = Some (True, c1, [])"
      "OC_message_queue c1 = []" "OC_side c1 = OC_side c"
    using judge_structured[OF assms(3,4)] assms(5) by metis
  define j where "j = stamp_message w' (OC_side c) (i\<lparr>Msg_time_recv := M_time w\<rparr>)"
  have "isSupported mn mx j \<longleftrightarrow> isSupported mn mx i" for mn mx
    by (simp add: j_def stamp_message_def isSupported_def)
  then have j: "isSupported mn mx j \<longleftrightarrow> supports mn mx m" "Msg_side j = OC_side c" "Msg_time_send j = M_time w'"
      "Msg_text j = Msg_print sr (received m)" for mn mx
    using i(3,4) by (simp_all add: j_def stamp_message_def)
  let ?c1 = "c1\<lparr>OC_message_queue := [i\<lparr>Msg_time_recv := M_time w\<rparr>]\<rparr>"
  have "say_clang sp (say_parsed sr sp m) w c = Some (?c1, [Reply ''(ok say)''])"
    using i(1,2) c1(1,2) by (simp add: say_clang_def Let_def)
  moreover have "check_message_queue sp time w' ?c1 = (c1\<lparr>OC_message_queue := []\<rparr>, [CoachStdAudio j])"
    using assms(7,8) by (auto simp: check_message_queue_def message_due_def c1(3) j_def)
  ultimately show ?thesis
    using j assms(6) by (intro exI[of _ ?c1] exI[of _ "c1\<lparr>OC_message_queue := []\<rparr>"] exI[of _ j])
      (simp add: send_coach_std_def)
qed

text \<open>Advice which names something with more than eight characters, or a free text beyond the
  limit of the server, is refused as a whole: the coach is told that it could not be parsed, and
  nothing of it is queued or counted.\<close>

theorem long_name_refused:
  assumes "msg_shape m" and "\<not> msg_names (freeformMsgSize sp) m"
  shows "say_clang sp (say_parsed sr sp m) w c = Some (c, [Reply ''(error could_not_parse_say)''])"
  by (simp add: say_parsed_None[OF assms] say_clang_def)

section \<open>Examples\<close>

text \<open>Two players are to be in a region which is the ball and a named box when the coach is ready,
  after the cycle 100.\<close>

definition box_advice :: "string \<Rightarrow> msg_body" where
  "box_advice name = InfoMsg [Some (TokRule 10
     (Some (CondAnd [Some (CondNamed name), Some (CondTime 100 CO_G)]))
     [Some (DirComm True True [UNum_number 2, UNum_number 3]
        [Some (ActPos (Some (RegUnion [Some (RegPoint (Some PointBall)),
           Some (RegUnion [Some (RegNamed ''box'')])])))])])]"

lemma box_advice_ok: "msg_shape (box_advice name)"
  "msg_names limit (box_advice name) \<longleftrightarrow> length name \<le> 6" "needed (box_advice name) = {7, 8}"
  by (auto simp: box_advice_def action_names_def unum_set_names_def UNum_number_def fits_def quoted_def
      needed_def action_vers_def unum_set_vers_def var_vers_def)

theorem message_read_witness:
  "(\<exists>b. build_all (msg_calls (box_advice ''ready'')) (setFreeformMsgSize 128 MsgBuilder_new) = Inr b
     \<and> map_option fst (M_msg b) = Some (InfoMsg [Some (TokRule 10
        (Some (CondAnd [Some (CondNamed (quoted ''ready'')), Some (CondTime 100 CO_G)]))
        [Some (DirComm True True [UNum_number 3, UNum_number 2]
           [Some (ActPos (Some (RegUnion [Some (RegUnion [Some (RegPoint (Some PointBall)), Some (RegNamed ''box'')])])))])])]))
   \<and> build_all (msg_calls (box_advice ''goalies'')) (setFreeformMsgSize 128 MsgBuilder_new) = Inl SyntaxError"
proof -
  have "received (box_advice ''ready'') = InfoMsg [Some (TokRule 10
        (Some (CondAnd [Some (CondNamed (quoted ''ready'')), Some (CondTime 100 CO_G)]))
        [Some (DirComm True True [UNum_number 3, UNum_number 2]
           [Some (ActPos (Some (RegUnion [Some (RegUnion [Some (RegPoint (Some PointBall)), Some (RegNamed ''box'')])])))])])]"
    by (simp add: box_advice_def rr_def received_region_def)
  then show ?thesis
    using message_read[OF box_advice_ok(1), of 128 "''ready''"] message_read[OF box_advice_ok(1), of 128 "''goalies''"]
    by (auto simp: box_advice_ok(2))
qed

theorem message_versions_witness:
  "\<exists>b i. build_all (msg_calls (box_advice ''ready'')) (setFreeformMsgSize 128 MsgBuilder_new) = Inr b
     \<and> builder_getMsg (\<lambda>_. []) b = Some i \<and> isSupported 7 8 i \<and> \<not> isSupported 7 7 i \<and> \<not> isSupported 8 8 i"
proof -
  obtain b where b: "build_all (msg_calls (box_advice ''ready'')) (setFreeformMsgSize 128 MsgBuilder_new) = Inr b"
      "map_option fst (M_msg b) = Some (received (box_advice ''ready''))"
    using read_message[OF box_advice_ok(1), of 128 "''ready''"] by (auto simp: box_advice_ok(2))
  then obtain i where i: "builder_getMsg (\<lambda>_. []) b = Some i" by (auto simp: builder_getMsg_def split: prod.splits)
  show ?thesis
    using message_versions[OF box_advice_ok(1) b(1) i, of 7 8] message_versions[OF box_advice_ok(1) b(1) i, of 7 7]
      message_versions[OF box_advice_ok(1) b(1) i, of 8 8] b(1) i
    by (auto simp: supports_def box_advice_ok(3))
qed


theorem condition_value_witness:
  "Cond_eval (\<lambda>c. c = CondNamed ''a'') (CondAnd [Some (CondNamed ''a''), Some (CondNot (Some (CondNamed ''b'')))]) = Some True"
  using condition_value[of "CondAnd [Some (CondNamed ''a''), Some (CondNot (Some (CondNamed ''b'')))]"
      "\<lambda>c. c = CondNamed ''a''"]
  by (simp del: Cond_eval.simps)

definition stopped :: world where
  "stopped = (new_world default_param default_pparam [] \<lparr>M_wind_vector = PVector 0 0, M_wind_rand = 0\<rparr>
     (sconst 0))\<lparr>M_playmode := PM_KickIn_Left\<rparr>"

theorem advice_delivered_witness:
  "\<exists>c1 c2 i. say_clang default_param (say_parsed (\<lambda>_. []) default_param (box_advice ''ready'')) stopped
       (new_OnlineCoach default_param LEFT) = Some (c1, [Reply ''(ok say)''])
     \<and> check_message_queue default_param 0 stopped c1 = (c2, [CoachStdAudio i])
     \<and> Msg_text i = Msg_print (\<lambda>_. []) (received (box_advice ''ready''))"
proof -
  have "msg_names (freeformMsgSize default_param) (box_advice ''ready'')" "Msg_getType (box_advice ''ready'') \<notin> {FREEFORM, UNSUP}"
    by (simp_all add: box_advice_ok(2)) (simp add: box_advice_def)
  moreover have "M_playmode stopped \<noteq> PM_PlayOn" by (simp add: stopped_def)
  moreover have "OC_message_queue (new_OnlineCoach default_param LEFT) = []" "OC_side (new_OnlineCoach default_param LEFT) \<noteq> NEUTRAL"
    "clangMessPerCycle default_param > 0"
    by (simp_all add: new_OnlineCoach_def default_param_def)
  ultimately show ?thesis
    using advice_delivered[OF box_advice_ok(1), of default_param "''ready''" stopped "new_OnlineCoach default_param LEFT" stopped 0 "\<lambda>_. []"]
    by blast
qed

theorem long_name_refused_witness:
  "say_clang default_param (say_parsed (\<lambda>_. []) default_param (box_advice ''goalies'')) stopped (new_OnlineCoach default_param LEFT)
     = Some (new_OnlineCoach default_param LEFT, [Reply ''(error could_not_parse_say)''])"
  using long_name_refused[OF box_advice_ok(1)] by (simp add: box_advice_ok(2))

end
