(* ===== verification/Phrases.thy ===== *)
theory Phrases
  imports Lexer
begin

text \<open>
  The parser of the commands of the players (player\_command\_parser.ypp).  It calls the builder as
  soon as it has read a phrase, so a message that turns out to be wrong has been obeyed as far as it
  was right: every operation gives the calls it has made and, unless there was a syntax error, the
  tokens which are left.
\<close>

section \<open>The calls of the builder\<close>

text \<open>
  The operations of \<^verbatim>\<open>rcss::pcom::Builder\<close> (pcombuilder.h) with their arguments: \<open>'n\<close> stands for
  the doubles and \<open>'i\<close> for the integers.
\<close>

datatype ('n, 'i) pcom =
    P_dash 'n
  | P_dash2 'n 'n
  | P_dashLeftLeg 'n 'n
  | P_dashRightLeg 'n 'n
  | P_turn 'n
  | P_turn_neck 'n
  | P_change_focus 'n 'n
  | P_kick 'n 'n
  | P_long_kick 'n 'n
  | P_goalieCatch 'n
  | P_say string
  | P_sense_body
  | P_score
  | P_move 'n 'n
  | P_change_view2 view_width view_quality
  | P_change_view view_width
  | P_compression 'i
  | P_bye
  | P_done
  | P_pointto "('n \<times> 'n) option"
  | P_attentionto "(pcom_team \<times> string \<times> 'i) option"
  | P_tackle 'n
  | P_tackle2 'n bool
  | P_clang 'i 'i
  | P_ear bool pcom_team string ear_mode
  | P_synch_see
  | P_gaussian_see

type_synonym pcom_call = "(real, int) pcom"

text \<open>The calls made and the tokens left; \<open>None\<close> after a syntax error.\<close>

type_synonym parsed = "pcom_call list \<times> pcom_token list option"

text \<open>\<^verbatim>\<open>rcss::stripQuotes\<close> (parser.h).  Of a single quote, which no token is, the code reads outside.\<close>

definition stripQuotes :: "string \<Rightarrow> string" where
  "stripQuotes str =
     (if str = [] then str
      else let s = (if hd str = CHR 34 then tl str else str)
           in if s \<noteq> [] \<and> last s = CHR 34 then butlast s else s)"

section \<open>Terminals and small phrases\<close>

fun expect_rp :: "pcom_call list \<Rightarrow> pcom_token list \<Rightarrow> parsed" where
  "expect_rp cs (PCOM_RP # ts) = (cs, Some ts)"
| "expect_rp cs ts = (cs, None)"

text \<open>The call is made when the closing parenthesis has been read.\<close>

definition close_with :: "pcom_call \<Rightarrow> pcom_token list \<Rightarrow> parsed" where
  "close_with c ts =
     (case ts of PCOM_RP # ts' \<Rightarrow> ([c], Some ts') | _ \<Rightarrow> ([], None))"

fun floating_point_number :: "pcom_token list \<Rightarrow> (real \<times> pcom_token list) option" where
  "floating_point_number (PCOM_INT i # ts) = Some (of_int i, ts)"
| "floating_point_number (PCOM_REAL x # ts) = Some (x, ts)"
| "floating_point_number ts = None"

fun integer :: "pcom_token list \<Rightarrow> (int \<times> pcom_token list) option" where
  "integer (PCOM_INT i # ts) = Some (i, ts)"
| "integer ts = None"

text \<open>A phrase of one word: the values which the words have.\<close>

definition word_of :: "(keyword \<times> 'a) list \<Rightarrow> pcom_token list \<Rightarrow> ('a \<times> pcom_token list) option" where
  "word_of values ts =
     (case ts of PCOM_KEY k # ts' \<Rightarrow> map_option (\<lambda>v. (v, ts')) (map_of values k) | _ \<Rightarrow> None)"

definition p_view_width :: "pcom_token list \<Rightarrow> (view_width \<times> pcom_token list) option" where
  "p_view_width = word_of [(PCOM_VIEW_WIDTH_NARROW, VIEW_NARROW),
     (PCOM_VIEW_WIDTH_NORMAL, VIEW_NORMAL), (PCOM_VIEW_WIDTH_WIDE, VIEW_WIDE)]"

definition p_view_quality :: "pcom_token list \<Rightarrow> (view_quality \<times> pcom_token list) option" where
  "p_view_quality = word_of [(PCOM_VIEW_QUALITY_LOW, QUALITY_LOW),
     (PCOM_VIEW_QUALITY_HIGH, QUALITY_HIGH)]"

definition p_on_off :: "pcom_token list \<Rightarrow> (bool \<times> pcom_token list) option" where
  "p_on_off = word_of [(PCOM_ON, True), (PCOM_OFF, False)]"

definition p_boolean_value :: "pcom_token list \<Rightarrow> (bool \<times> pcom_token list) option" where
  "p_boolean_value = word_of [(PCOM_ON, True), (PCOM_OFF, False), (PCOM_TRUE, True), (PCOM_FALSE, False)]"

definition p_team_side :: "pcom_token list \<Rightarrow> (pcom_team \<times> pcom_token list) option" where
  "p_team_side = word_of [(PCOM_OUR, OUR), (PCOM_OPP, OPP), (PCOM_LEFT, LEFT_SIDE), (PCOM_RIGHT, RIGHT_SIDE)]"

definition p_partial_complete :: "pcom_token list \<Rightarrow> (ear_mode \<times> pcom_token list) option" where
  "p_partial_complete = word_of [(PCOM_EAR_PARTIAL, PARTIAL), (PCOM_EAR_COMPLETE, COMPLETE)]"

text \<open>A team: one of the words above, or a name.\<close>

definition team_ref :: "pcom_token list \<Rightarrow> ((pcom_team \<times> string) \<times> pcom_token list) option" where
  "team_ref ts =
     (case ts of
        PCOM_STR m # ts' \<Rightarrow> Some ((UNKNOWN_TEAM, m), ts')
      | _ \<Rightarrow> map_option (\<lambda>(t, ts'). ((t, []), ts')) (p_team_side ts))"

section \<open>The commands, after their first word\<close>

definition one_number :: "(real \<Rightarrow> pcom_call) \<Rightarrow> pcom_token list \<Rightarrow> parsed" where
  "one_number f ts =
     (case floating_point_number ts of None \<Rightarrow> ([], None) | Some (x, ts1) \<Rightarrow> close_with (f x) ts1)"

definition two_numbers :: "(real \<Rightarrow> real \<Rightarrow> pcom_call) \<Rightarrow> pcom_token list \<Rightarrow> parsed" where
  "two_numbers f ts =
     (case floating_point_number ts of
        None \<Rightarrow> ([], None)
      | Some (x, ts1) \<Rightarrow> one_number (f x) ts1)"

text \<open>One leg of a dash: the call is made before the command is closed.\<close>

definition dash_leg :: "bool \<Rightarrow> pcom_token list \<Rightarrow> parsed" where
  "dash_leg left ts =
     (case ts of
        PCOM_LP # PCOM_KEY k # ts1 \<Rightarrow>
          if k = (if left then PCOM_LEFT else PCOM_RIGHT)
          then two_numbers (if left then P_dashLeftLeg else P_dashRightLeg) ts1
          else ([], None)
      | _ \<Rightarrow> ([], None))"

definition is_left :: "pcom_token list \<Rightarrow> bool" where
  "is_left ts \<longleftrightarrow> length ts > 1 \<and> ts ! 1 = PCOM_KEY PCOM_LEFT"

definition dash_params :: "pcom_token list \<Rightarrow> parsed" where
  "dash_params ts =
     (case dash_leg (is_left ts) ts of
        (cs, None) \<Rightarrow> (cs, None)
      | (cs, Some ts1) \<Rightarrow>
          if ts1 \<noteq> [] \<and> hd ts1 = PCOM_LP
          then (case dash_leg (\<not> is_left ts) ts1 of
                  (ds, None) \<Rightarrow> (cs @ ds, None)
                | (ds, Some ts2) \<Rightarrow> expect_rp (cs @ ds) ts2)
          else expect_rp cs ts1)"

definition dash_com :: "pcom_token list \<Rightarrow> parsed" where
  "dash_com ts =
     (case floating_point_number ts of
        None \<Rightarrow> dash_params ts
      | Some (x, ts1) \<Rightarrow>
          (case floating_point_number ts1 of
             None \<Rightarrow> close_with (P_dash x) ts1
           | Some (y, ts2) \<Rightarrow> close_with (P_dash2 x y) ts2))"

definition say_com :: "pcom_token list \<Rightarrow> parsed" where
  "say_com ts =
     (case ts of PCOM_STR m # ts1 \<Rightarrow> close_with (P_say (stripQuotes m)) ts1 | _ \<Rightarrow> ([], None))"

definition change_view_com :: "pcom_token list \<Rightarrow> parsed" where
  "change_view_com ts =
     (case p_view_width ts of
        None \<Rightarrow> ([], None)
      | Some (w, ts1) \<Rightarrow>
          (case p_view_quality ts1 of
             None \<Rightarrow> close_with (P_change_view w) ts1
           | Some (q, ts2) \<Rightarrow> close_with (P_change_view2 w q) ts2))"

definition compression_com :: "pcom_token list \<Rightarrow> parsed" where
  "compression_com ts =
     (case integer ts of None \<Rightarrow> ([], None) | Some (i, ts1) \<Rightarrow> close_with (P_compression i) ts1)"

definition pointto_com :: "pcom_token list \<Rightarrow> parsed" where
  "pointto_com ts =
     (if ts \<noteq> [] \<and> hd ts = PCOM_KEY PCOM_OFF then close_with (P_pointto None) (tl ts)
      else two_numbers (\<lambda>x y. P_pointto (Some (x, y))) ts)"

definition attentionto_com :: "pcom_token list \<Rightarrow> parsed" where
  "attentionto_com ts =
     (if ts \<noteq> [] \<and> hd ts = PCOM_KEY PCOM_OFF then close_with (P_attentionto None) (tl ts)
      else (case team_ref ts of
              None \<Rightarrow> ([], None)
            | Some ((t, m), ts1) \<Rightarrow>
                (case integer ts1 of
                   None \<Rightarrow> ([], None)
                 | Some (i, ts2) \<Rightarrow> close_with (P_attentionto (Some (t, m, i))) ts2)))"

definition tackle_com :: "pcom_token list \<Rightarrow> parsed" where
  "tackle_com ts =
     (case floating_point_number ts of
        None \<Rightarrow> ([], None)
      | Some (x, ts1) \<Rightarrow>
          (case p_boolean_value ts1 of
             None \<Rightarrow> close_with (P_tackle x) ts1
           | Some (b, ts2) \<Rightarrow> close_with (P_tackle2 x b) ts2))"

text \<open>The two closing parentheses of an ear or clang command.\<close>

definition close_twice :: "pcom_call \<Rightarrow> pcom_token list \<Rightarrow> parsed" where
  "close_twice c ts =
     (case ts of PCOM_RP # ts1 \<Rightarrow> close_with c ts1 | _ \<Rightarrow> ([], None))"

definition clang_com :: "pcom_token list \<Rightarrow> parsed" where
  "clang_com ts =
     (case ts of
        PCOM_LP # ts1 \<Rightarrow>
          (if ts1 \<noteq> [] \<and> hd ts1 = PCOM_KEY PCOM_CLANG_VERSION
           then (case integer (tl ts1) of
                   None \<Rightarrow> ([], None)
                 | Some (i, ts2) \<Rightarrow>
                     (case integer ts2 of
                        None \<Rightarrow> ([], None)
                      | Some (j, ts3) \<Rightarrow> close_twice (P_clang i j) ts3))
           else ([], None))
      | _ \<Rightarrow> ([], None))"

text \<open>The team and the mode of an ear command may both be left out.\<close>

definition ear_com :: "pcom_token list \<Rightarrow> parsed" where
  "ear_com ts =
     (case ts of
        PCOM_LP # ts1 \<Rightarrow>
          (case p_on_off ts1 of
             None \<Rightarrow> ([], None)
           | Some (b, ts2) \<Rightarrow>
               (case (case team_ref ts2 of None \<Rightarrow> ((UNKNOWN_TEAM, []), ts2) | Some r \<Rightarrow> r) of
                  ((t, m), ts3) \<Rightarrow>
                    (case (case p_partial_complete ts3 of
                             None \<Rightarrow> (UNKNOWN_EAR_MODE, ts3) | Some r \<Rightarrow> r) of
                       (e, ts4) \<Rightarrow> close_twice (P_ear b t m e) ts4)))
      | _ \<Rightarrow> ([], None))"

definition command_body :: "keyword \<Rightarrow> pcom_token list \<Rightarrow> parsed" where
  "command_body k ts =
     (if k = PCOM_DASH then dash_com ts
      else if k = PCOM_TURN then one_number P_turn ts
      else if k = PCOM_TURN_NECK then one_number P_turn_neck ts
      else if k = PCOM_CHANGE_FOCUS then two_numbers P_change_focus ts
      else if k = PCOM_KICK then two_numbers P_kick ts
      else if k = PCOM_LONG_KICK then two_numbers P_long_kick ts
      else if k = PCOM_CATCH then one_number P_goalieCatch ts
      else if k = PCOM_SAY then say_com ts
      else if k = PCOM_SENSE_BODY then close_with P_sense_body ts
      else if k = PCOM_SCORE then close_with P_score ts
      else if k = PCOM_MOVE then two_numbers P_move ts
      else if k = PCOM_CHANGE_VIEW then change_view_com ts
      else if k = PCOM_COMPRESSION then compression_com ts
      else if k = PCOM_BYE then close_with P_bye ts
      else if k = PCOM_DONE then close_with P_done ts
      else if k = PCOM_POINTTO then pointto_com ts
      else if k = PCOM_ATTENTIONTO then attentionto_com ts
      else if k = PCOM_TACKLE then tackle_com ts
      else if k = PCOM_CLANG then clang_com ts
      else if k = PCOM_EAR then ear_com ts
      else if k = PCOM_SYNCH_SEE then close_with P_synch_see ts
      else if k = PCOM_GAUSSIAN_SEE then close_with P_gaussian_see ts
      else ([], None))"

section \<open>Messages\<close>

definition command :: "pcom_token list \<Rightarrow> parsed" where
  "command ts =
     (case ts of
        PCOM_UNQ_SAY m # ts1 \<Rightarrow> ([P_say m], Some ts1)
      | PCOM_LP # PCOM_KEY k # ts1 \<Rightarrow> command_body k ts1
      | _ \<Rightarrow> ([], None))"

text \<open>A phrase which has been read leaves fewer tokens.\<close>

named_theorems shorter \<open>fewer tokens are left\<close>

lemma shorter_small [shorter]:
  "snd (expect_rp cs ts) = Some ts' \<Longrightarrow> length ts' < length ts"
  "snd (close_with c ts) = Some ts' \<Longrightarrow> length ts' < length ts"
  "floating_point_number ts = Some (x, ts') \<Longrightarrow> length ts' < length ts"
  "integer ts = Some (i, ts') \<Longrightarrow> length ts' < length ts"
  by (cases "(cs, ts)" rule: expect_rp.cases; simp)
    (cases ts rule: floating_point_number.cases; auto simp: close_with_def split: list.splits pcom_token.splits)+

lemma shorter_word [shorter]: "word_of vs ts = Some (v, ts') \<Longrightarrow> length ts' < length ts"
  by (auto simp: word_of_def split: list.splits pcom_token.splits)

lemma shorter_twice [shorter]: "snd (close_twice c ts) = Some ts' \<Longrightarrow> length ts' < length ts"
  by (auto simp: close_twice_def dest!: shorter split: list.splits pcom_token.splits)

lemma shorter_team [shorter]: "team_ref ts = Some (v, ts') \<Longrightarrow> length ts' < length ts"
  by (auto simp: team_ref_def p_team_side_def dest!: shorter split: list.splits pcom_token.splits)

lemma shorter_numbers [shorter]:
  "snd (one_number f ts) = Some ts' \<Longrightarrow> length ts' < length ts"
  "snd (two_numbers g ts) = Some ts' \<Longrightarrow> length ts' < length ts"
  by (fastforce simp: one_number_def two_numbers_def dest: shorter split: option.splits)+

lemma shorter_leg [shorter]: "snd (dash_leg l ts) = Some ts' \<Longrightarrow> length ts' < length ts"
  by (fastforce simp: dash_leg_def dest: shorter split: list.splits pcom_token.splits if_splits)

lemma shorter_params [shorter]: "snd (dash_params ts) = Some ts' \<Longrightarrow> length ts' < length ts"
proof -
  assume s: "snd (dash_params ts) = Some ts'"
  then obtain cs ts1 where one: "dash_leg (is_left ts) ts = (cs, Some ts1)"
    by (auto simp: dash_params_def split: prod.splits option.splits)
  then have len: "length ts1 < length ts" using shorter_leg[of "is_left ts" ts ts1] by simp
  show ?thesis
  proof (cases "ts1 \<noteq> [] \<and> hd ts1 = PCOM_LP")
    case True
    then obtain ds ts2 where "dash_leg (\<not> is_left ts) ts1 = (ds, Some ts2)"
      and "snd (expect_rp (cs @ ds) ts2) = Some ts'"
      using s one by (auto simp: dash_params_def split: prod.splits option.splits)
    then show ?thesis using len shorter_leg[of "\<not> is_left ts" ts1 ts2] shorter_small(1) by fastforce
  next
    case False
    then have "snd (expect_rp cs ts1) = Some ts'" using s one by (auto simp: dash_params_def)
    then show ?thesis using len shorter_small(1) by fastforce
  qed
qed

lemma shorter_coms [shorter]:
  "snd (dash_com ts) = Some ts' \<Longrightarrow> length ts' < length ts"
  "snd (say_com ts) = Some ts' \<Longrightarrow> length ts' < length ts"
  "snd (change_view_com ts) = Some ts' \<Longrightarrow> length ts' < length ts"
  "snd (compression_com ts) = Some ts' \<Longrightarrow> length ts' < length ts"
  "snd (pointto_com ts) = Some ts' \<Longrightarrow> length ts' < length ts"
  "snd (attentionto_com ts) = Some ts' \<Longrightarrow> length ts' < length ts"
  "snd (tackle_com ts) = Some ts' \<Longrightarrow> length ts' < length ts"
  "snd (clang_com ts) = Some ts' \<Longrightarrow> length ts' < length ts"
  by (auto simp: dash_com_def say_com_def change_view_com_def compression_com_def pointto_com_def
      attentionto_com_def tackle_com_def clang_com_def p_view_width_def p_view_quality_def
      p_boolean_value_def dest!: shorter split: option.splits list.splits pcom_token.splits if_splits)

lemma shorter_ear [shorter]: "snd (ear_com ts) = Some ts' \<Longrightarrow> length ts' < length ts"
  by (auto simp: ear_com_def p_on_off_def p_partial_complete_def
      dest!: shorter split: option.splits list.splits pcom_token.splits prod.splits)

lemma shorter_body [shorter]: "snd (command_body k ts) = Some ts' \<Longrightarrow> length ts' < length ts"
  by (auto simp: command_body_def dest: shorter split: if_splits)

lemma shorter_command: "snd (command ts) = Some ts' \<Longrightarrow> length ts' < length ts"
  by (fastforce simp: command_def dest: shorter_body split: list.splits pcom_token.splits)

text \<open>The list of commands: all calls made, and whether there was no syntax error.\<close>

function command_list :: "pcom_token list \<Rightarrow> pcom_call list \<times> bool" where
  "command_list ts =
     (case command ts of
        (cs, None) \<Rightarrow> (cs, False)
      | (cs, Some ts1) \<Rightarrow>
          if ts1 = [] then (cs, True)
          else (case command_list ts1 of (ds, ok) \<Rightarrow> (cs @ ds, ok)))"
  by pat_completeness auto
termination
proof (relation "measure length")
  fix ts cs r ts1
  assume "(cs, r) = command ts" "r = Some ts1"
  then show "(ts1, ts) \<in> measure length" using shorter_command[of ts ts1] by (metis in_measure snd_conv)
qed simp

declare command_list.simps [simp del]

text \<open>\<^verbatim>\<open>rcss::pcom::Parser::parse\<close>.\<close>

definition pcom_parse :: "string \<Rightarrow> pcom_call list \<times> bool" where
  "pcom_parse msg = command_list (yylex msg)"

end
