(* ===== verification/Spelling.thy ===== *)
theory Spelling
  imports Phrases
begin

text \<open>
  What the lexer and the parser make of commands which are spelled as the manual has it: a text in
  which the words of a command are separated by blanks or parentheses is read as the command, and
  a message as the commands it consists of.
\<close>

section \<open>Words\<close>

text \<open>The characters which may follow a word.\<close>

definition delim :: "string \<Rightarrow> bool" where
  "delim s \<longleftrightarrow> s = [] \<or> hd s \<in> set '' ()''"

definition int_lit :: "string \<Rightarrow> bool" where
  "int_lit t \<longleftrightarrow> unsigned_part t \<noteq> [] \<and> set (unsigned_part t) \<subseteq> set digits"

definition real_lit :: "string \<Rightarrow> bool" where
  "real_lit t \<longleftrightarrow>
     (let u = unsigned_part t; r = dropWhile (\<lambda>c. c \<in> set digits) u
      in r \<noteq> [] \<and> hd r = CHR ''.'' \<and> tl r \<noteq> [] \<and> set (tl r) \<subseteq> set digits)"

definition name_lit :: "string \<Rightarrow> bool" where
  "name_lit w \<longleftrightarrow>
     w \<noteq> [] \<and> set w \<subseteq> set word_chars \<and> hd w \<in> set letters \<and> w \<notin> fst ` set reserved
     \<and> length w \<le> STR_MAX"

definition say_lit :: "string \<Rightarrow> bool" where
  "say_lit m \<longleftrightarrow> m \<noteq> [] \<and> set m \<subseteq> set say_chars \<and> length m + 2 \<le> STR_MAX"

definition in_quotes :: "string \<Rightarrow> string" where "in_quotes m = CHR 34 # m @ [CHR 34]"

inductive lexeme :: "string \<Rightarrow> pcom_token \<Rightarrow> bool" where
  reserved: "(w, k) \<in> set reserved \<Longrightarrow> lexeme w (PCOM_KEY k)"
| int: "int_lit w \<Longrightarrow> lexeme w (PCOM_INT (atoi w))"
| real: "real_lit w \<Longrightarrow> lexeme w (PCOM_REAL (atof w))"
| name: "name_lit w \<Longrightarrow> lexeme w (PCOM_STR w)"
| quoted: "say_lit m \<Longrightarrow> lexeme (in_quotes m) (PCOM_STR (in_quotes m))"

lemma delim_alphabet:
  assumes "delim r" and "alphabet p \<inter> set '' ()'' = {}"
  shows "r = [] \<or> hd r \<notin> alphabet p"
  using assms by (auto simp: delim_def)

lemma width_word:
  "delim r \<Longrightarrow> alphabet p \<inter> set '' ()'' = {} \<Longrightarrow> width p (w @ r) \<le> length w"
  by (rule width_stop) (rule delim_alphabet)

lemmas number_ps = UINT_p_def INT_p_def REAL_p_def EXP_p_def

lemma alphabets:
  "alphabet UINT_p \<inter> set '' ()'' = {}" "alphabet INT_p \<inter> set '' ()'' = {}"
  "alphabet REAL_p \<inter> set '' ()'' = {}" "alphabet EXP_p \<inter> set '' ()'' = {}"
  "alphabet (Many word_chars) \<inter> set '' ()'' = {}"
  by (simp_all add: number_ps digits_def signs_def word_chars_def letters_def)

lemma reserved_words:
  "distinct (map fst reserved)"
  "\<forall>k \<in> set reserved. fst k \<noteq> [] \<and> set (fst k) \<subseteq> set word_chars \<and> hd (fst k) \<in> set letters"
  by code_simp+

lemma first_letter:
  assumes "c \<in> set letters"
  shows "\<not> first UINT_p c" "\<not> first INT_p c" "\<not> first REAL_p c" "\<not> first EXP_p c"
    "\<not> first quoted_p c" "\<not> first say_p c" "\<not> first blank_p c" "c \<noteq> CHR ''(''" "c \<noteq> CHR '')''"
  using assms
  by (auto simp: letters_def number_ps digits_def signs_def quoted_p_def say_p_def blank_p_def)

text \<open>A word of letters, digits, hyphens and underscores is matched as a whole.\<close>

lemma width_Many_all:
  assumes "w \<noteq> []" and "set w \<subseteq> set cs" and "r = [] \<or> hd r \<notin> set cs"
  shows "width (Many cs) (w @ r) = length w"
proof (rule width_eq)
  have "takeWhile (\<lambda>c. c \<in> set cs) r = []" using assms(3) by (cases r) auto
  then have "takeWhile (\<lambda>c. c \<in> set cs) (w @ r) = w" using assms(2) by (auto simp: subset_iff)
  then show "length w \<in> set (ends (Many cs) (w @ r))" using assms(1) by (simp add: Suc_le_eq)
  show "n \<le> length w" if "n \<in> set (ends (Many cs) (w @ r))" for n
    using ends_stop[OF that] assms(3) by simp
qed

lemma width_Any: "width Any s \<le> 1"
  by (rule width_le) (auto split: if_splits)

lemma width_Lit: "width (Lit t) s = (if take (length t) s = t then length t else 0)"
  by (simp add: width_def)

text \<open>No other reserved word is as long as the one which is there.\<close>

lemma width_other_word:
  assumes "k \<in> set reserved" and "delim r"
  shows "width (fst (reserved_rule k)) (w @ r) \<le> length w"
    and "width (fst (reserved_rule k)) (w @ r) = length w \<Longrightarrow> w \<noteq> [] \<Longrightarrow> fst k = w"
proof -
  have "alphabet (Lit (fst k)) \<inter> set '' ()'' = {}"
    using reserved_words(2)[rule_format, OF assms(1)] alphabets(5) by auto
  from width_word[OF assms(2) this]
  show "width (fst (reserved_rule k)) (w @ r) \<le> length w" by (simp add: reserved_rule_def)
  show "fst k = w" if "width (fst (reserved_rule k)) (w @ r) = length w" "w \<noteq> []"
    using that by (auto simp: reserved_rule_def width_Lit split: if_splits)
qed

text \<open>The rules after the reserved words.\<close>

definition late_rules :: "lex_rule list" where
  "late_rules =
     [(blank_p, \<lambda>_. []), (UINT_p, \<lambda>t. [PCOM_INT (atoi t)]), (INT_p, \<lambda>t. [PCOM_INT (atoi t)]),
      (REAL_p, \<lambda>t. [PCOM_REAL (atof t)]), (EXP_p, \<lambda>t. [PCOM_REAL (atof t)]),
      (Many word_chars, \<lambda>t. [str_token t]), (quoted_p, \<lambda>t. [str_token t]),
      (say_p, \<lambda>t. [say_token t]), (Any, \<lambda>_. [PCOM_ERROR])]"

lemma lex_rules_late:
  "lex_rules = (Lit ''('', \<lambda>_. [PCOM_LP]) # (Lit '')'', \<lambda>_. [PCOM_RP]) # map reserved_rule reserved @ late_rules"
  by (simp add: lex_rules_def late_rules_def)

lemma lex_reserved:
  assumes "(w, k) \<in> set reserved" and "delim r"
  shows "yylex (w @ r) = PCOM_KEY k # yylex r"
proof -
  obtain ks1 ks2 where ks: "reserved = ks1 @ (w, k) # ks2"
    using assms(1) by (auto simp: in_set_conv_decomp)
  have w: "w \<noteq> []" "hd w \<in> set letters" "set w \<subseteq> set word_chars"
    using reserved_words(2)[rule_format, OF assms(1)] by simp_all
  then have hd: "hd (w @ r) \<in> set letters" "w @ r \<noteq> []" by auto
  note f = first_letter[OF hd(1)]
  have one: "1 \<le> length w" using w(1) by (simp add: Suc_le_eq)
  have "longest lex_rules (w @ r) = (length w, \<lambda>_. [PCOM_KEY k])"
  proof (rule longest_split)
    show "lex_rules = ((Lit ''('', \<lambda>_. [PCOM_LP]) # (Lit '')'', \<lambda>_. [PCOM_RP]) # map reserved_rule ks1)
        @ (Lit w, \<lambda>_. [PCOM_KEY k]) # (map reserved_rule ks2 @ late_rules)"
      by (simp add: lex_rules_late ks reserved_rule_def)
    show "width (Lit w) (w @ r) = length w" by (simp add: width_Lit)
    show "0 < length w" using w(1) by simp
  next
    fix rl
    assume "rl \<in> set ((Lit ''('', \<lambda>_. [PCOM_LP]) # (Lit '')'', \<lambda>_. [PCOM_RP]) # map reserved_rule ks1)"
    then consider "rl = (Lit ''('', \<lambda>_. [PCOM_LP])" | "rl = (Lit '')'', \<lambda>_. [PCOM_RP])"
      | k' where "k' \<in> set ks1" "rl = reserved_rule k'" by auto
    then show "width (fst rl) (w @ r) < length w"
    proof cases
      case 3
      have "distinct (map fst (ks1 @ (w, k) # ks2))" using reserved_words(1) unfolding ks .
      then have "k' \<in> set reserved" "fst k' \<noteq> w"
        unfolding ks using 3(1) by auto
      then show ?thesis using width_other_word[of k' r w] assms(2) w(1) 3(2)
        by (simp add: order_less_le) blast
    qed (use f(8,9) hd(2) w(1) in \<open>simp_all add: width_first\<close>)
  next
    fix rl
    assume "rl \<in> set (map reserved_rule ks2 @ late_rules)"
    then consider k' where "k' \<in> set ks2" "rl = reserved_rule k'" | "rl \<in> set late_rules" by auto
    then show "width (fst rl) (w @ r) \<le> length w"
    proof cases
      case 1
      have "k' \<in> set reserved" unfolding ks using 1(1) by simp
      then show ?thesis using width_other_word(1)[of k' r w] assms(2) 1(2) by simp
    next
      case 2
      then show ?thesis
        using f(1-7) hd(2) one width_Any[of "w @ r"] width_word[OF assms(2) alphabets(5), of w]
        by (auto simp: late_rules_def width_first)
    qed
  qed
  from lex_step[OF this] w(1) show ?thesis by simp
qed

text \<open>
  Texts which begin with no letter: only the parentheses and the late rules can match.  The rule
  taken is the first of the longest among the late rules.
\<close>

lemma longest_late:
  assumes s: "s \<noteq> []" "hd s \<notin> set letters" "hd s \<notin> set ''()''"
    and late: "late_rules = pre @ (p, a) # post" and n: "width p s = n" "0 < n"
    and pre: "\<And>rl. rl \<in> set pre \<Longrightarrow> width (fst rl) s < n"
    and post: "\<And>rl. rl \<in> set post \<Longrightarrow> width (fst rl) s \<le> n"
  shows "longest lex_rules s = (n, a)"
proof (rule longest_split)
  show "lex_rules = ((Lit ''('', \<lambda>_. [PCOM_LP]) # (Lit '')'', \<lambda>_. [PCOM_RP])
      # map reserved_rule reserved @ pre) @ (p, a) # post"
    by (simp add: lex_rules_late late)
next
  fix rl
  assume "rl \<in> set ((Lit ''('', \<lambda>_. [PCOM_LP]) # (Lit '')'', \<lambda>_. [PCOM_RP])
      # map reserved_rule reserved @ pre)"
  then consider "rl \<in> set [(Lit ''('', \<lambda>_. [PCOM_LP]), (Lit '')'', \<lambda>_. [PCOM_RP])]"
    | k where "k \<in> set reserved" "rl = reserved_rule k" | "rl \<in> set pre" by auto
  then show "width (fst rl) s < n"
  proof cases
    case 1
    then show ?thesis using s n(2) by (auto simp: width_first)
  next
    case 2
    then have "\<not> first (Lit (fst k)) (hd s)" using reserved_words(2) s(2) by auto
    then show ?thesis using width_first[OF s(1)] n(2) 2(2) by (simp add: reserved_rule_def)
  qed (rule pre)
qed (use n post in auto)

lemma first_number:
  assumes "c \<in> set signs \<or> c \<in> set digits \<or> c = CHR ''.''"
  shows "c \<notin> set letters" "c \<notin> set ''()''" "\<not> first blank_p c" "\<not> first quoted_p c" "\<not> first say_p c"
  using assms by (auto simp: digits_def signs_def letters_def blank_p_def quoted_p_def say_p_def)

lemma unsigned_split: "\<exists>sg. t = sg @ unsigned_part t \<and> (sg = [] \<and> unsigned_part t = t \<or> (\<exists>c \<in> set signs. sg = [c]))"
  by (cases t) (auto simp: unsigned_part_def)

lemma ends_digits:
  "ds \<noteq> [] \<Longrightarrow> set ds \<subseteq> set digits \<Longrightarrow> length ds \<in> set (ends UINT_p (ds @ r))"
proof -
  assume ds: "ds \<noteq> []" "set ds \<subseteq> set digits"
  then have "takeWhile (\<lambda>c. c \<in> set digits) (ds @ r) = ds @ takeWhile (\<lambda>c. c \<in> set digits) r"
    by (auto simp: subset_iff)
  then show ?thesis using ds(1) by (simp add: UINT_p_def Suc_le_eq)
qed

lemma ends_Seq: "a \<in> set (ends p s) \<Longrightarrow> b \<in> set (ends q (drop a s)) \<Longrightarrow> a + b \<in> set (ends (Seq p q) s)"
  by (simp add: image_iff) blast

lemma ends_SeqE:
  assumes "n \<in> set (ends (Seq p q) s)"
  obtains a b where "n = a + b" "a \<in> set (ends p s)" "b \<in> set (ends q (drop a s))"
  using assms by auto

lemma ends_sign:
  assumes "sg = [] \<or> (\<exists>c \<in> set signs. sg = [c])" and "n \<in> set (ends p s)"
  shows "length sg + n \<in> set (ends (Seq (Opt (One signs)) p) (sg @ s))"
proof (rule ends_Seq)
  show "length sg \<in> set (ends (Opt (One signs)) (sg @ s))" using assms(1) by (elim disjE bexE) simp_all
  show "n \<in> set (ends p (drop (length sg) (sg @ s)))" using assms(2) by simp
qed

lemma ends_int:
  assumes "int_lit t"
  shows "length t \<in> set (ends INT_p (t @ r))"
proof -
  obtain sg where sg: "t = sg @ unsigned_part t" "sg = [] \<or> (\<exists>c \<in> set signs. sg = [c])"
    using unsigned_split by blast
  have "length (unsigned_part t) \<in> set (ends UINT_p (unsigned_part t @ r))"
    using assms by (intro ends_digits) (simp_all add: int_lit_def)
  from ends_sign[OF sg(2) this] show ?thesis
    unfolding INT_p_def using sg(1) by (metis append.assoc length_append)
qed

lemma ends_real:
  assumes "real_lit t"
  shows "length t \<in> set (ends REAL_p (t @ r))"
proof -
  let ?d = "\<lambda>c. c \<in> set digits"
  let ?u = "unsigned_part t"
  obtain sg where sg: "t = sg @ ?u" "sg = [] \<or> (\<exists>c \<in> set signs. sg = [c])"
    using unsigned_split by blast
  define fr where "fr = tl (dropWhile ?d ?u)"
  have fr: "dropWhile ?d ?u = CHR ''.'' # fr" "fr \<noteq> []" "set fr \<subseteq> set digits"
    using assms by (cases "dropWhile ?d ?u"; simp add: real_lit_def Let_def fr_def)+
  let ?w = "takeWhile ?d ?u"
  have u: "?u = ?w @ CHR ''.'' # fr" using fr(1) by (metis takeWhile_dropWhile_id)
  have dot: "Suc (length fr) \<in> set (ends (Seq (Lit ''.'') UINT_p) (CHR ''.'' # fr @ r))"
    using ends_digits[OF fr(2,3), of r] by simp
  have "length ?w \<in> set (ends (Opt UINT_p) (?w @ CHR ''.'' # fr @ r))"
  proof (cases "?w = []")
    case False
    have "set ?w \<subseteq> set digits" by (auto dest: set_takeWhileD)
    from ends_digits[OF False this] show ?thesis by simp
  qed simp
  then have "length ?w + Suc (length fr)
      \<in> set (ends (Seq (Opt UINT_p) (Seq (Lit ''.'') UINT_p)) (?w @ CHR ''.'' # fr @ r))"
    by (rule ends_Seq) (use dot in simp)
  moreover have "length ?u = length ?w + Suc (length fr)" using arg_cong[OF u, of length] by simp
  moreover have "?u @ r = ?w @ CHR ''.'' # fr @ r" using u by (metis append.assoc append_Cons)
  ultimately have "length ?u \<in> set (ends (Seq (Opt UINT_p) (Seq (Lit ''.'') UINT_p)) (?u @ r))"
    by metis
  from ends_sign[OF sg(2) this] show ?thesis
    unfolding REAL_p_def using sg(1) by (metis append.assoc length_append)
qed

lemma width_member: "width p s \<in> set (ends p s) \<or> width p s = 0"
proof -
  have "fold max xs b \<in> set xs \<or> fold max xs b = b" for xs and b :: nat
    by (induction xs arbitrary: b) (force simp: max_def)+
  then show ?thesis by (simp add: width_def)
qed

lemma width_less:
  assumes "delim r" and "alphabet p \<inter> set '' ()'' = {}" and "\<not> set t \<subseteq> alphabet p"
  shows "width p (t @ r) < length t"
proof -
  have "length t \<notin> set (ends p (t @ r))" using ends_alphabet[of "length t" p "t @ r"] assms(3) by auto
  moreover have "t \<noteq> []" using assms(3) by auto
  ultimately show ?thesis
    using width_member[of p "t @ r"] width_word[OF assms(1,2), of t]
    by (metis le_neq_implies_less length_greater_0_conv)
qed

lemma int_lit_hd: "int_lit t \<Longrightarrow> t \<noteq> [] \<and> (hd t \<in> set signs \<or> hd t \<in> set digits)"
  by (cases t) (auto simp: int_lit_def unsigned_part_def split: if_splits)

lemma first_UINT: "first UINT_p c \<longleftrightarrow> c \<in> set digits"
  by (simp add: UINT_p_def)

lemma late_bounds:
  assumes "delim r" "t \<noteq> []"
  shows "width INT_p (t @ r) \<le> length t" "width REAL_p (t @ r) \<le> length t"
    "width EXP_p (t @ r) \<le> length t" "width (Many word_chars) (t @ r) \<le> length t"
    "width Any (t @ r) \<le> length t"
  using width_word[OF assms(1) alphabets(2)] width_word[OF assms(1) alphabets(3)]
    width_word[OF assms(1) alphabets(4)] width_word[OF assms(1) alphabets(5)]
    width_Any[of "t @ r"] assms(2) by (simp_all add: Suc_le_eq order_trans)

lemma lex_int:
  assumes "int_lit t" and "delim r"
  shows "yylex (t @ r) = PCOM_INT (atoi t) # yylex r"
proof -
  have t: "t \<noteq> []" "hd t \<in> set signs \<or> hd t \<in> set digits \<or> hd t = CHR ''.''"
    using int_lit_hd[OF assms(1)] by auto
  note f = first_number[OF t(2)]
  note b = late_bounds[OF assms(2) t(1)]
  have hd: "hd (t @ r) = hd t" "t @ r \<noteq> []" using t(1) by auto
  have zero: "width blank_p (t @ r) = 0" "width quoted_p (t @ r) = 0" "width say_p (t @ r) = 0"
    using f hd by (simp_all add: width_first)
  have "longest lex_rules (t @ r) = (length t, \<lambda>t. [PCOM_INT (atoi t)])"
  proof (cases "hd t \<in> set signs")
    case True
    then have "hd t \<notin> set digits" by (auto simp: signs_def digits_def)
    then have u: "width UINT_p (t @ r) = 0" using hd by (intro width_first) (simp_all add: first_UINT)
    have n: "width INT_p (t @ r) = length t"
      using ends_int[OF assms(1)] b(1) width_ge by (simp add: antisym)
    show ?thesis
      by (rule longest_late[OF hd(2) _ _ _ n, where pre = "[(blank_p, \<lambda>_. []), (UINT_p, \<lambda>t. [PCOM_INT (atoi t)])]"])
        (use f t b zero u in \<open>auto simp: late_rules_def hd(1)\<close>)
  next
    case False
    then have "unsigned_part t = t" by (simp add: unsigned_part_def)
    then have "length t \<in> set (ends UINT_p (t @ r))"
      using assms(1) ends_digits by (simp add: int_lit_def)
    then have n: "width UINT_p (t @ r) = length t"
      using width_word[OF assms(2) alphabets(1), of t] width_ge by (simp add: antisym)
    show ?thesis
      by (rule longest_late[OF hd(2) _ _ _ n, where pre = "[(blank_p, \<lambda>_. [])]"])
        (use f t b zero in \<open>auto simp: late_rules_def hd(1)\<close>)
  qed
  from lex_step[OF this t(1)] show ?thesis by simp
qed

lemma real_lit_dot: "real_lit t \<Longrightarrow> CHR ''.'' \<in> set t"
proof -
  assume "real_lit t"
  then have r: "dropWhile (\<lambda>c. c \<in> set digits) (unsigned_part t) \<noteq> []"
    "hd (dropWhile (\<lambda>c. c \<in> set digits) (unsigned_part t)) = CHR ''.''"
    by (simp_all add: real_lit_def Let_def)
  from hd_in_set[OF r(1)] have "CHR ''.'' \<in> set (unsigned_part t)"
    unfolding r(2) by (rule set_dropWhileD)
  then show ?thesis using unsigned_split[of t] by (metis Un_iff set_append)
qed

lemma real_lit_hd:
  "real_lit t \<Longrightarrow> t \<noteq> [] \<and> (hd t \<in> set signs \<or> hd t \<in> set digits \<or> hd t = CHR ''.'')"
  by (cases t) (auto simp: real_lit_def Let_def unsigned_part_def split: if_splits)

lemma dot_alphabets: "CHR ''.'' \<notin> alphabet UINT_p" "CHR ''.'' \<notin> alphabet INT_p"
  by (simp_all add: number_ps digits_def signs_def)

lemma lex_real:
  assumes "real_lit t" and "delim r"
  shows "yylex (t @ r) = PCOM_REAL (atof t) # yylex r"
proof -
  have t: "t \<noteq> []" "hd t \<in> set signs \<or> hd t \<in> set digits \<or> hd t = CHR ''.''"
    using real_lit_hd[OF assms(1)] by auto
  note f = first_number[OF t(2)]
  note b = late_bounds[OF assms(2) t(1)]
  have hd: "hd (t @ r) = hd t" "t @ r \<noteq> []" using t(1) by auto
  have zero: "width blank_p (t @ r) = 0" "width quoted_p (t @ r) = 0" "width say_p (t @ r) = 0"
    using f hd by (simp_all add: width_first)
  have less: "width UINT_p (t @ r) < length t" "width INT_p (t @ r) < length t"
    using real_lit_dot[OF assms(1)] dot_alphabets
    by (blast intro: width_less[OF assms(2) alphabets(1)] width_less[OF assms(2) alphabets(2)])+
  have n: "width REAL_p (t @ r) = length t"
    using ends_real[OF assms(1)] b(2) width_ge by (simp add: antisym)
  have "longest lex_rules (t @ r) = (length t, \<lambda>t. [PCOM_REAL (atof t)])"
    by (rule longest_late[OF hd(2) _ _ _ n, where pre = "[(blank_p, \<lambda>_. []),
        (UINT_p, \<lambda>t. [PCOM_INT (atoi t)]), (INT_p, \<lambda>t. [PCOM_INT (atoi t)])]"])
      (use f t b zero less in \<open>auto simp: late_rules_def hd(1)\<close>)
  from lex_step[OF this t(1)] show ?thesis by simp
qed

lemma lex_name:
  assumes "name_lit w" and "delim r"
  shows "yylex (w @ r) = PCOM_STR w # yylex r"
proof -
  have w: "w \<noteq> []" "set w \<subseteq> set word_chars" "hd w \<in> set letters" "length w \<le> STR_MAX"
    and new: "w \<notin> fst ` set reserved"
    using assms(1) by (simp_all add: name_lit_def)
  have hd: "hd (w @ r) \<in> set letters" "w @ r \<noteq> []" using w by auto
  note f = first_letter[OF hd(1)]
  note b = late_bounds[OF assms(2) w(1)]
  have n: "width (Many word_chars) (w @ r) = length w"
    by (rule width_Many_all[OF w(1,2)]) (use delim_alphabet[OF assms(2) alphabets(5)] in simp)
  have "longest lex_rules (w @ r) = (length w, \<lambda>t. [str_token t])"
  proof (rule longest_split)
    show "lex_rules = ((Lit ''('', \<lambda>_. [PCOM_LP]) # (Lit '')'', \<lambda>_. [PCOM_RP]) # map reserved_rule reserved
        @ take 5 late_rules) @ (Many word_chars, \<lambda>t. [str_token t]) # drop 6 late_rules"
      by (simp add: lex_rules_late late_rules_def)
  next
    fix rl
    assume "rl \<in> set ((Lit ''('', \<lambda>_. [PCOM_LP]) # (Lit '')'', \<lambda>_. [PCOM_RP]) # map reserved_rule reserved
        @ take 5 late_rules)"
    then consider "rl \<in> set ([(Lit ''('', \<lambda>_. [PCOM_LP]), (Lit '')'', \<lambda>_. [PCOM_RP])] @ take 5 late_rules)"
      | k where "k \<in> set reserved" "rl = reserved_rule k" by auto
    then show "width (fst rl) (w @ r) < length w"
    proof cases
      case 1
      then show ?thesis using f hd(2) w(1) by (auto simp: late_rules_def width_first)
    next
      case 2
      then have "fst k \<noteq> w" using new by blast
      then show ?thesis
        using width_other_word[OF 2(1) assms(2), of w] w(1) 2(2) by (metis le_neq_implies_less)
    qed
  next
    fix rl
    assume "rl \<in> set (drop 6 late_rules)"
    then show "width (fst rl) (w @ r) \<le> length w"
      using f hd(2) b(5) by (auto simp: late_rules_def width_first)
  qed (use n w(1) in auto)
  from lex_step[OF this w(1)] w(4) show ?thesis by (simp add: str_token_def)
qed

lemma takeWhile_stop:
  "set m \<subseteq> set cs \<Longrightarrow> r = [] \<or> hd r \<notin> set cs \<Longrightarrow> takeWhile (\<lambda>c. c \<in> set cs) (m @ r) = m"
  by (cases r) (auto simp: subset_iff)

lemma lex_quoted:
  assumes "say_lit m"
  shows "yylex (in_quotes m @ r) = PCOM_STR (in_quotes m) # yylex r"
proof -
  let ?s = "in_quotes m @ r"
  have m: "m \<noteq> []" "set m \<subseteq> set say_chars" "length m + 2 \<le> STR_MAX"
    using assms by (simp_all add: say_lit_def)
  have q: "CHR 34 \<notin> set say_chars" by (simp add: say_chars_def letters_def digits_def)
  have hd: "hd ?s = CHR 34" "?s \<noteq> []" by (simp_all add: in_quotes_def)
  have tw: "takeWhile (\<lambda>c. c \<in> set say_chars) (m @ CHR 34 # r) = m"
    by (rule takeWhile_stop[OF m(2)]) (simp add: q)
  have mem: "length m + 2 \<in> set (ends quoted_p ?s)"
  proof -
    have "length m \<in> set (ends (Many say_chars) (m @ CHR 34 # r))"
      using tw m(1) by (simp only: ends.simps) (simp add: Suc_le_eq)
    then have "length m + 1 \<in> set (ends (Seq (Many say_chars) (Lit [CHR 34])) (m @ CHR 34 # r))"
      by (rule ends_Seq) simp
    moreover have "drop 1 ?s = m @ CHR 34 # r" by (simp add: in_quotes_def)
    ultimately have "length m + 1 \<in> set (ends (Seq (Many say_chars) (Lit [CHR 34])) (drop 1 ?s))"
      by (simp only:)
    then have "1 + (length m + 1) \<in> set (ends quoted_p ?s)"
      unfolding quoted_p_def by (rule ends_Seq[rotated]) (simp add: in_quotes_def)
    then show ?thesis by simp
  qed
  have top: "n \<le> length m + 2" if mem_n: "n \<in> set (ends quoted_p ?s)" for n
  proof -
    obtain a j where n: "n = a + j" "a \<in> set (ends (Lit [CHR 34]) ?s)"
      "j \<in> set (ends (Seq (Many say_chars) (Lit [CHR 34])) (drop a ?s))"
      using ends_SeqE[OF mem_n[unfolded quoted_p_def]] .
    then have "a = 1" "drop a ?s = m @ CHR 34 # r" by (auto simp: in_quotes_def split: if_splits)
    with n obtain i e where "j = i + e" "i \<in> set (ends (Many say_chars) (m @ CHR 34 # r))"
      "e \<in> set (ends (Lit [CHR 34]) (drop i (m @ CHR 34 # r)))"
      by (metis ends_SeqE)
    moreover from this(2) have "i \<le> length m" using tw by (simp only: ends.simps) auto
    ultimately show ?thesis using n(1) \<open>a = 1\<close> by (auto split: if_splits)
  qed
  have n: "width quoted_p ?s = length m + 2" by (rule width_eq[OF mem top])
  have zero: "width p ?s = 0" if "\<not> first p (CHR 34)" for p
    using that hd by (simp add: width_first)
  have "longest lex_rules ?s = (length m + 2, \<lambda>t. [str_token t])"
  proof (rule longest_late[OF hd(2) _ _ _ n, where pre = "take 6 late_rules" and post = "drop 7 late_rules"])
    show "hd ?s \<notin> set letters" "hd ?s \<notin> set ''()''" by (simp_all add: hd(1) letters_def)
    show "late_rules = take 6 late_rules @ (quoted_p, \<lambda>t. [str_token t]) # drop 7 late_rules"
      by (simp add: late_rules_def)
    have fq: "\<not> first blank_p (CHR 34)" "\<not> first UINT_p (CHR 34)" "\<not> first INT_p (CHR 34)"
      "\<not> first REAL_p (CHR 34)" "\<not> first EXP_p (CHR 34)" "\<not> first (Many word_chars) (CHR 34)"
      "\<not> first say_p (CHR 34)"
      by (simp_all add: blank_p_def number_ps digits_def signs_def word_chars_def letters_def say_p_def)
    show "width (fst rl) ?s < length m + 2" if "rl \<in> set (take 6 late_rules)" for rl
      using that zero fq by (auto simp: late_rules_def)
    show "width (fst rl) ?s \<le> length m + 2" if "rl \<in> set (drop 7 late_rules)" for rl
      using that zero fq width_Any[of ?s] by (auto simp: late_rules_def)
  qed simp
  then have "yylex ?s = [str_token (in_quotes m)] @ yylex r"
    using lex_step[of "in_quotes m" r "\<lambda>t. [str_token t]"] by (simp add: in_quotes_def)
  then show ?thesis using m(3) by (simp add: str_token_def in_quotes_def)
qed

lemma lex_lexeme: "lexeme w k \<Longrightarrow> delim r \<Longrightarrow> yylex (w @ r) = k # yylex r"
  by (cases rule: lexeme.cases) (auto simp: lex_reserved lex_int lex_real lex_name lex_quoted)

section \<open>Blanks and parentheses\<close>

lemma first_blank:
  assumes "c = CHR '' '' \<or> c = CHR 9 \<or> c = CHR 10"
  shows "c \<notin> set letters" "c \<notin> set ''()''" "\<not> first UINT_p c" "\<not> first INT_p c"
    "\<not> first REAL_p c" "\<not> first EXP_p c" "\<not> first (Many word_chars) c" "\<not> first quoted_p c"
    "\<not> first say_p c"
  using assms
  by (auto simp: letters_def number_ps digits_def signs_def word_chars_def quoted_p_def say_p_def)

lemma lex_blanks:
  assumes "b \<noteq> []" and "set b \<subseteq> {CHR '' '', CHR 9, CHR 10}"
    and "r = [] \<or> hd r \<notin> {CHR '' '', CHR 9, CHR 10}"
  shows "yylex (b @ r) = yylex r"
proof -
  have hd: "hd (b @ r) \<in> {CHR '' '', CHR 9, CHR 10}" "b @ r \<noteq> []" using assms(1,2) by (cases b; simp)+
  then have f: "\<And>p. \<not> first p (hd (b @ r)) \<Longrightarrow> width p (b @ r) = 0" by (simp add: width_first)
  have hd': "hd (b @ r) = CHR '' '' \<or> hd (b @ r) = CHR 9 \<or> hd (b @ r) = CHR 10" using hd(1) by blast
  note c = first_blank[OF hd']
  have n: "width blank_p (b @ r) = length b"
    unfolding blank_p_def by (rule width_Many_all) (use assms in auto)
  have "longest lex_rules (b @ r) = (length b, \<lambda>_. [])"
  proof (rule longest_late[OF hd(2) c(1,2) _ n, where pre = "[]" and post = "tl late_rules"])
    show "late_rules = [] @ (blank_p, \<lambda>_. []) # tl late_rules" by (simp add: late_rules_def)
    show "width (fst rl) (b @ r) \<le> length b" if "rl \<in> set (tl late_rules)" for rl
      using that c f width_Any[of "b @ r"] assms(1)
      by (auto simp: late_rules_def Suc_le_eq order_trans)
  qed (use assms(1) in auto)
  from lex_step[OF this assms(1)] show ?thesis by simp
qed

text \<open>Blanks in front of a text change nothing.\<close>

lemma lex_blank:
  assumes "c \<in> {CHR '' '', CHR 9, CHR 10}"
  shows "yylex (c # r) = yylex r"
proof -
  let ?B = "\<lambda>c. c \<in> {CHR '' '', CHR 9, CHR 10}"
  let ?b = "takeWhile ?B r" and ?r = "dropWhile ?B r"
  have hd: "?r = [] \<or> hd ?r \<notin> {CHR '' '', CHR 9, CHR 10}" using hd_dropWhile[of ?B r] by blast
  have b: "set ?b \<subseteq> {CHR '' '', CHR 9, CHR 10}" using set_takeWhileD[of _ ?B r] by blast
  have "yylex ((c # ?b) @ ?r) = yylex ?r" by (rule lex_blanks) (use assms b hd in auto)
  moreover have "yylex (?b @ ?r) = yylex ?r" by (cases "?b = []") (use lex_blanks[OF _ b hd] in auto)
  ultimately show ?thesis by (simp only: append_Cons takeWhile_dropWhile_id)
qed

text \<open>The rest of a text after a parenthesis which does not begin an unquoted message to say.\<close>

definition no_say :: "string \<Rightarrow> bool" where
  "no_say r \<longleftrightarrow> width say_p (CHR ''('' # r) = 0"

lemma no_say_word: "take 4 r \<noteq> ''say '' \<Longrightarrow> no_say r"
  unfolding no_say_def by (rule width_0) (simp add: say_p_def eval_nat_numeral)

lemma no_say_quoted: "no_say (''say '' @ in_quotes m @ r)"
  unfolding no_say_def by (rule width_0) (simp add: say_p_def in_quotes_def say_chars_def letters_def digits_def)

lemma lex_paren:
  assumes "c \<in> set ''()''" and "c = CHR ''('' \<Longrightarrow> width say_p (c # r) \<le> 1"
  shows "yylex (c # r) = (if c = CHR ''('' then PCOM_LP else PCOM_RP) # yylex r"
proof -
  let ?s = "[c] @ r"
  let ?rules = "[(Lit ''('', \<lambda>_. [PCOM_LP]), (Lit '')'', \<lambda>_. [PCOM_RP])]"
  have f: "\<not> first p c \<Longrightarrow> width p ?s = 0" for p by (simp add: width_first)
  have l: "c \<notin> set letters" using assms(1) by (auto simp: letters_def)
  have fp: "\<not> first blank_p c" "\<not> first UINT_p c" "\<not> first INT_p c" "\<not> first REAL_p c"
    "\<not> first EXP_p c" "\<not> first (Many word_chars) c" "\<not> first quoted_p c"
    using assms(1) by (auto simp: blank_p_def number_ps digits_def signs_def word_chars_def letters_def quoted_p_def)
  have say: "width say_p ?s \<le> 1"
  proof (cases "c = CHR ''(''")
    case False
    then have "\<not> first say_p c" by (simp add: say_p_def)
    then show ?thesis using f by simp
  qed (use assms(2) in simp)
  have late: "width (fst rl) ?s \<le> 1" if "rl \<in> set (map reserved_rule reserved @ late_rules)" for rl
  proof (cases "rl \<in> set late_rules")
    case True
    then show ?thesis using f fp say width_Any[of ?s] by (auto simp: late_rules_def)
  next
    case False
    then have "rl \<in> reserved_rule ` set reserved" using that by simp
    then obtain k where k: "k \<in> set reserved" "rl = reserved_rule k" by blast
    then have "\<not> first (Lit (fst k)) c" using reserved_words(2) l by auto
    then show ?thesis using f k(2) by (simp add: reserved_rule_def)
  qed
  have "longest lex_rules ?s = (length [c], \<lambda>_. [if c = CHR ''('' then PCOM_LP else PCOM_RP])"
  proof (cases "c = CHR ''(''")
    case True
    have "longest lex_rules ?s = (length [c], \<lambda>_. [PCOM_LP])"
      by (rule longest_split[where pre = "[]"
            and post = "(Lit '')'', \<lambda>_. [PCOM_RP]) # map reserved_rule reserved @ late_rules"])
        (use True late f in \<open>auto simp: lex_rules_late width_Lit\<close>)
    then show ?thesis using True by simp
  next
    case False
    then have c: "c = CHR '')''" using assms(1) by simp
    have "longest lex_rules ?s = (length [c], \<lambda>_. [PCOM_RP])"
      by (rule longest_split[where pre = "[(Lit ''('', \<lambda>_. [PCOM_LP])]"
            and post = "map reserved_rule reserved @ late_rules"])
        (use c late in \<open>auto simp: lex_rules_late width_Lit\<close>)
    then show ?thesis using c by simp
  qed
  from lex_step[OF this] show ?thesis by simp
qed

section \<open>Spellings\<close>

text \<open>
  The texts of a list of tokens in front of a text \<open>s0\<close> with the tokens \<open>ts0\<close>: words are separated
  by blanks or parentheses, and blanks may be anywhere else.
\<close>

inductive spells :: "pcom_token list \<Rightarrow> string \<Rightarrow> pcom_token list \<Rightarrow> string \<Rightarrow> bool" for ts0 s0 where
  spells_end: "spells ts0 s0 ts0 s0"
| spells_blank: "c \<in> {CHR '' '', CHR 9, CHR 10} \<Longrightarrow> spells ts0 s0 ts s \<Longrightarrow> spells ts0 s0 ts (c # s)"
| spells_LP: "no_say s \<Longrightarrow> spells ts0 s0 ts s \<Longrightarrow> spells ts0 s0 (PCOM_LP # ts) (CHR ''('' # s)"
| spells_RP: "spells ts0 s0 ts s \<Longrightarrow> spells ts0 s0 (PCOM_RP # ts) (CHR '')'' # s)"
| spells_word: "lexeme w k \<Longrightarrow> delim s \<Longrightarrow> spells ts0 s0 ts s \<Longrightarrow> spells ts0 s0 (k # ts) (w @ s)"

lemma lex_LP: "no_say r \<Longrightarrow> yylex (CHR ''('' # r) = PCOM_LP # yylex r"
  using lex_paren[of "CHR ''(''" r] by (simp add: no_say_def)

lemma lex_RP: "yylex (CHR '')'' # r) = PCOM_RP # yylex r"
  using lex_paren[of "CHR '')''" r] by simp

lemma spells_lex: "spells ts0 s0 ts s \<Longrightarrow> yylex s0 = ts0 \<Longrightarrow> yylex s = ts"
  by (induction rule: spells.induct) (simp_all only: lex_blank lex_LP lex_RP lex_lexeme)

text \<open>An unquoted message to say, at the end of a text.\<close>

lemma lex_unquoted:
  assumes "m \<noteq> []" and "set m \<subseteq> set say_chars" and "length m + 1 \<le> STR_MAX"
  shows "yylex (''(say '' @ m @ '')'') = [PCOM_UNQ_SAY m]"
proof -
  let ?s = "''(say '' @ m @ '')''"
  have body: "length m + 1 \<in> set (ends (Seq (Many say_chars) (Lit '')'')) (m @ '')''))"
  proof (rule ends_Seq)
    have "length m \<le> length (takeWhile (\<lambda>c. c \<in> set say_chars) (m @ '')''))"
      using assms(2) by (auto simp: subset_iff takeWhile_append2)
    then show "length m \<in> set (ends (Many say_chars) (m @ '')''))"
      using assms(1) by (simp only: ends.simps) (auto simp: Suc_le_eq)
  qed simp
  moreover have "drop 5 ?s = m @ '')''" by simp
  ultimately have "length m + 1 \<in> set (ends (Seq (Many say_chars) (Lit '')'')) (drop 5 ?s))" by (simp only:)
  then have "5 + (length m + 1) \<in> set (ends say_p ?s)"
    unfolding say_p_def by (rule ends_Seq[rotated]) simp
  then have "5 + (length m + 1) \<le> width say_p ?s" by (rule width_ge)
  then have n: "width say_p ?s = length ?s"
    using width_length[of say_p ?s] by simp
  have "longest lex_rules ?s = (length ?s, \<lambda>t. [say_token t])"
  proof (rule longest_split)
    show "lex_rules = ((Lit ''('', \<lambda>_. [PCOM_LP]) # (Lit '')'', \<lambda>_. [PCOM_RP]) # map reserved_rule reserved
        @ take 7 late_rules) @ (say_p, \<lambda>t. [say_token t]) # drop 8 late_rules"
      by (simp add: lex_rules_late late_rules_def)
  next
    fix rl
    assume "rl \<in> set ((Lit ''('', \<lambda>_. [PCOM_LP]) # (Lit '')'', \<lambda>_. [PCOM_RP]) # map reserved_rule reserved
        @ take 7 late_rules)"
    then consider "rl = (Lit ''('', \<lambda>_. [PCOM_LP])" | "rl \<in> set ((Lit '')'', \<lambda>_. [PCOM_RP]) # take 7 late_rules)"
      | "rl \<in> reserved_rule ` set reserved" by auto
    then show "width (fst rl) ?s < length ?s"
    proof cases
      case 2
      then have "\<not> first (fst rl) CHR ''(''"
        by (auto simp: late_rules_def blank_p_def number_ps digits_def signs_def word_chars_def
            letters_def quoted_p_def)
      then show ?thesis by (simp add: width_first)
    next
      case 3
      then obtain k where k: "k \<in> set reserved" "rl = reserved_rule k" by blast
      have "hd (fst k) \<in> set letters" "CHR ''('' \<notin> set letters"
        using reserved_words(2) k(1) by (auto simp: letters_def)
      then have "\<not> first (Lit (fst k)) CHR ''(''" by auto
      then show ?thesis using k(2) by (simp add: reserved_rule_def width_first)
    qed (simp add: width_Lit)
  next
    show "width (fst rl) ?s \<le> length ?s" for rl by (rule width_length)
  qed (use n in auto)
  from lex_step[of ?s "[]", simplified, OF this[simplified]] assms(3)
  show ?thesis by (simp add: say_token_def)
qed

end
