(* ===== verification/Orders.thy ===== *)
theory Orders
  imports Spelling
begin

text \<open>
  Commands as the manual spells them: what a client writes, with its numbers as texts, and that the
  server reads it as the client means it, whatever blanks there are between the words.
\<close>

section \<open>Written commands\<close>

type_synonym written = "(string, string) pcom"

definition number_lit :: "string \<Rightarrow> bool" where
  "number_lit t \<longleftrightarrow> int_lit t \<or> real_lit t"

definition number_token :: "string \<Rightarrow> pcom_token" where
  "number_token t = (if int_lit t then PCOM_INT (atoi t) else PCOM_REAL (atof t))"

definition number_val :: "string \<Rightarrow> real" where
  "number_val t = (if int_lit t then of_int (atoi t) else atof t)"

text \<open>A word of a command with its token.\<close>

type_synonym spelled = "string \<times> pcom_token"

definition word_item :: "string \<Rightarrow> spelled" where
  "word_item w = (w, PCOM_KEY (the (map_of reserved w)))"

definition number_item :: "string \<Rightarrow> spelled" where "number_item t = (t, number_token t)"
definition int_item :: "string \<Rightarrow> spelled" where "int_item t = (t, PCOM_INT (atoi t))"
definition name_item :: "string \<Rightarrow> spelled" where "name_item m = (m, PCOM_STR m)"

fun width_word :: "view_width \<Rightarrow> string" where
  "width_word VIEW_NARROW = ''narrow''"
| "width_word VIEW_NORMAL = ''normal''"
| "width_word VIEW_WIDE = ''wide''"

fun quality_word :: "view_quality \<Rightarrow> string" where
  "quality_word QUALITY_HIGH = ''high''"
| "quality_word QUALITY_LOW = ''low''"

definition on_word :: "bool \<Rightarrow> string" where "on_word b = (if b then ''on'' else ''off'')"

fun team_items :: "pcom_team \<Rightarrow> string \<Rightarrow> spelled list" where
  "team_items OUR m = [word_item ''our'']"
| "team_items OPP m = [word_item ''opp'']"
| "team_items LEFT_SIDE m = [word_item ''l'']"
| "team_items RIGHT_SIDE m = [word_item ''r'']"
| "team_items UNKNOWN_TEAM m = (if m = [] then [] else [name_item m])"

fun mode_items :: "ear_mode \<Rightarrow> spelled list" where
  "mode_items PARTIAL = [word_item ''partial'']"
| "mode_items COMPLETE = [word_item ''complete'']"
| "mode_items UNKNOWN_EAR_MODE = []"

text \<open>
  The words of a command and, for the commands with an inner phrase, the words in the inner pair of
  parentheses.
\<close>

fun outer :: "written \<Rightarrow> spelled list" where
  "outer (P_dash x) = [word_item ''dash'', number_item x]"
| "outer (P_dash2 x y) = [word_item ''dash'', number_item x, number_item y]"
| "outer (P_dashLeftLeg x y) = [word_item ''dash'']"
| "outer (P_dashRightLeg x y) = [word_item ''dash'']"
| "outer (P_turn x) = [word_item ''turn'', number_item x]"
| "outer (P_turn_neck x) = [word_item ''turn_neck'', number_item x]"
| "outer (P_change_focus x y) = [word_item ''change_focus'', number_item x, number_item y]"
| "outer (P_kick x y) = [word_item ''kick'', number_item x, number_item y]"
| "outer (P_long_kick x y) = [word_item ''long_kick'', number_item x, number_item y]"
| "outer (P_goalieCatch x) = [word_item ''catch'', number_item x]"
| "outer (P_say m) = [word_item ''say'', (in_quotes m, PCOM_STR (in_quotes m))]"
| "outer P_sense_body = [word_item ''sense_body'']"
| "outer P_score = [word_item ''score'']"
| "outer (P_move x y) = [word_item ''move'', number_item x, number_item y]"
| "outer (P_change_view2 w q) =
     [word_item ''change_view'', word_item (width_word w), word_item (quality_word q)]"
| "outer (P_change_view w) = [word_item ''change_view'', word_item (width_word w)]"
| "outer (P_compression i) = [word_item ''compression'', int_item i]"
| "outer P_bye = [word_item ''bye'']"
| "outer P_done = [word_item ''done'']"
| "outer (P_pointto None) = [word_item ''pointto'', word_item ''off'']"
| "outer (P_pointto (Some (x, y))) = [word_item ''pointto'', number_item x, number_item y]"
| "outer (P_attentionto None) = [word_item ''attentionto'', word_item ''off'']"
| "outer (P_attentionto (Some (t, m, i))) = word_item ''attentionto'' # team_items t m @ [int_item i]"
| "outer (P_tackle x) = [word_item ''tackle'', number_item x]"
| "outer (P_tackle2 x b) = [word_item ''tackle'', number_item x, word_item (on_word b)]"
| "outer (P_clang i j) = [word_item ''clang'']"
| "outer (P_ear b t m e) = [word_item ''ear'']"
| "outer P_synch_see = [word_item ''synch_see'']"
| "outer P_gaussian_see = [word_item ''gaussian_see'']"

fun inner :: "written \<Rightarrow> spelled list" where
  "inner (P_dashLeftLeg x y) = [word_item ''l'', number_item x, number_item y]"
| "inner (P_dashRightLeg x y) = [word_item ''r'', number_item x, number_item y]"
| "inner (P_clang i j) = [word_item ''ver'', int_item i, int_item j]"
| "inner (P_ear b t m e) = word_item (on_word b) # team_items t m @ mode_items e"
| "inner c = []"

text \<open>The tokens of a command, and its text with single blanks.\<close>

definition order_tokens :: "written \<Rightarrow> pcom_token list" where
  "order_tokens c =
     PCOM_LP # map snd (outer c)
     @ (if inner c = [] then [] else PCOM_LP # map snd (inner c) @ [PCOM_RP]) @ [PCOM_RP]"

fun spaced_words :: "string list \<Rightarrow> string" where
  "spaced_words [] = []"
| "spaced_words [w] = w"
| "spaced_words (w # ws) = w @ '' '' @ spaced_words ws"

definition order_text :: "written \<Rightarrow> string" where
  "order_text c =
     ''('' @ spaced_words (map fst (outer c))
     @ (if inner c = [] then [] else '' ('' @ spaced_words (map fst (inner c)) @ '')'') @ '')''"

text \<open>
  Commands which can be written: numbers are numbers, a name is a word but none of the command
  language, a message to say has only its characters.
\<close>

definition team_lit :: "pcom_team \<Rightarrow> string \<Rightarrow> bool" where
  "team_lit t m \<longleftrightarrow> (if t = UNKNOWN_TEAM then name_lit m else m = [])"

fun well_written :: "written \<Rightarrow> bool" where
  "well_written (P_say m) \<longleftrightarrow> say_lit m"
| "well_written (P_attentionto (Some (t, m, i))) \<longleftrightarrow> team_lit t m \<and> int_lit i"
| "well_written (P_ear b t m e) \<longleftrightarrow> team_lit t m \<or> t = UNKNOWN_TEAM \<and> m = []"
| "well_written c \<longleftrightarrow> (\<forall>x \<in> set1_pcom c. number_lit x) \<and> (\<forall>i \<in> set2_pcom c. int_lit i)"

section \<open>The text spells the tokens\<close>

definition item_ok :: "spelled \<Rightarrow> bool" where "item_ok i \<longleftrightarrow> lexeme (fst i) (snd i)"

lemma item_ok_number: "number_lit t \<Longrightarrow> item_ok (number_item t)"
  by (auto simp: item_ok_def number_item_def number_token_def number_lit_def intro: lexeme.intros)

lemma item_ok_others:
  "int_lit t \<Longrightarrow> item_ok (int_item t)" "name_lit m \<Longrightarrow> item_ok (name_item m)"
  "say_lit m \<Longrightarrow> item_ok (in_quotes m, PCOM_STR (in_quotes m))"
  "(w, k) \<in> set reserved \<Longrightarrow> item_ok (w, PCOM_KEY k)"
  by (auto simp: item_ok_def int_item_def name_item_def intro: lexeme.intros)

lemma item_ok_word: "map_of reserved w \<noteq> None \<Longrightarrow> item_ok (word_item w)"
  using item_ok_others(4)[of w "the (map_of reserved w)"] map_of_SomeD[of reserved w]
  by (auto simp: word_item_def)

lemma item_ok_words [simp]:
  "item_ok (word_item ''dash'')" "item_ok (word_item ''turn'')" "item_ok (word_item ''turn_neck'')"
  "item_ok (word_item ''change_focus'')" "item_ok (word_item ''kick'')"
  "item_ok (word_item ''long_kick'')" "item_ok (word_item ''catch'')" "item_ok (word_item ''say'')"
  "item_ok (word_item ''sense_body'')" "item_ok (word_item ''score'')"
  "item_ok (word_item ''move'')" "item_ok (word_item ''change_view'')"
  "item_ok (word_item ''compression'')" "item_ok (word_item ''bye'')" "item_ok (word_item ''done'')"
  "item_ok (word_item ''pointto'')" "item_ok (word_item ''attentionto'')"
  "item_ok (word_item ''tackle'')" "item_ok (word_item ''clang'')" "item_ok (word_item ''ear'')"
  "item_ok (word_item ''synch_see'')" "item_ok (word_item ''gaussian_see'')"
  "item_ok (word_item ''narrow'')" "item_ok (word_item ''normal'')" "item_ok (word_item ''wide'')"
  "item_ok (word_item ''low'')" "item_ok (word_item ''high'')" "item_ok (word_item ''on'')"
  "item_ok (word_item ''off'')" "item_ok (word_item ''our'')" "item_ok (word_item ''opp'')"
  "item_ok (word_item ''l'')" "item_ok (word_item ''r'')" "item_ok (word_item ''partial'')"
  "item_ok (word_item ''complete'')" "item_ok (word_item ''ver'')"
  by (rule item_ok_word, simp add: reserved_def)+

lemma spells_words:
  "\<forall>i \<in> set is. item_ok i \<Longrightarrow> spells ts0 s0 ts s \<Longrightarrow> delim s
   \<Longrightarrow> spells ts0 s0 (map snd is @ ts) (spaced_words (map fst is) @ s)"
proof (induction "map fst is" arbitrary: "is" rule: spaced_words.induct)
  case 1
  then show ?case by simp
next
  case (2 w)
  then obtain k where "is = [(w, k)]" "lexeme w k" by (auto simp: item_ok_def)
  then show ?case using 2 by (simp add: spells_word)
next
  case (3 w v ws)
  then obtain k js where i: "is = (w, k) # js" "map fst js = v # ws" "lexeme w k"
    by (cases "is") (auto simp: item_ok_def)
  have "spells ts0 s0 (map snd js @ ts) (spaced_words (map fst js) @ s)"
    using "3.hyps"(1)[of js] i 3 by simp
  then have "spells ts0 s0 (map snd js @ ts) (CHR '' '' # spaced_words (map fst js) @ s)"
    by (rule spells_blank[rotated]) simp
  then show ?case using spells_word[OF i(3), of "CHR '' '' # spaced_words (map fst js) @ s"] i(1,2)
    by (simp add: delim_def)
qed

lemma items_team: "team_lit t m \<or> t = UNKNOWN_TEAM \<and> m = [] \<Longrightarrow> list_all item_ok (team_items t m)"
  by (cases t) (auto simp: team_lit_def item_ok_others split: if_splits)

lemma items_ok:
  assumes "well_written c"
  shows "\<forall>i \<in> set (outer c). item_ok i" "\<forall>i \<in> set (inner c). item_ok i"
proof -
  have words: "item_ok (word_item (width_word w))" "item_ok (word_item (quality_word q))"
    "item_ok (word_item (on_word b))" "list_all item_ok (mode_items e)" for w q b e
    by (cases w, simp_all) (cases q, simp_all, simp add: on_word_def, cases e, simp_all)
  note ok = words item_ok_number item_ok_others(1-3) items_team
  have "list_all item_ok (outer c) \<and> list_all item_ok (inner c)"
    using assms by (cases c rule: outer.cases) (auto simp: ok)
  then show "\<forall>i \<in> set (outer c). item_ok i" "\<forall>i \<in> set (inner c). item_ok i"
    by (auto simp: list_all_iff)
qed

lemma no_say_hd: "r = [] \<or> hd r \<noteq> CHR ''s'' \<Longrightarrow> no_say r"
  by (rule no_say_word) (cases r; auto simp: eval_nat_numeral)

lemma spaced_words_Cons: "\<exists>r. spaced_words (w # ws) = w @ r \<and> (r = [] \<or> hd r = CHR '' '')"
  by (cases ws) auto

lemma fst_items [simp]:
  "fst (word_item w) = w" "fst (number_item w) = w" "fst (int_item w) = w" "fst (name_item w) = w"
  by (simp_all add: word_item_def number_item_def int_item_def name_item_def)

lemma inner_no_say: "inner c \<noteq> [] \<Longrightarrow> no_say (spaced_words (map fst (inner c)) @ s)"
  using spaced_words_Cons[of "fst (hd (inner c))" "map fst (tl (inner c))"]
  by (intro no_say_hd) (cases c; auto simp: on_word_def)

lemma outer_no_say: "delim s \<Longrightarrow> no_say (spaced_words (map fst (outer c)) @ s)"
proof (cases "\<exists>m. c = P_say m")
  case True
  then show ?thesis using no_say_quoted by auto
next
  case False
  assume s: "delim s"
  obtain r where "spaced_words (map fst (outer c)) = fst (hd (outer c)) @ r" "r = [] \<or> hd r = CHR '' ''"
    using spaced_words_Cons[of "fst (hd (outer c))" "map fst (tl (outer c))"]
    by (cases c rule: outer.cases) auto
  then show ?thesis
    using False by (intro no_say_word) (cases c rule: outer.cases; auto simp: eval_nat_numeral)
qed

text \<open>The text of a command spells its tokens.\<close>

lemma order_spelled:
  assumes "well_written c" and "spells ts0 s0 ts s"
  shows "spells ts0 s0 (order_tokens c @ ts) (order_text c @ s)"
proof -
  have rp: "spells ts0 s0 (PCOM_RP # ts) ('')'' @ s)" using spells_RP[OF assms(2)] by simp
  show ?thesis
  proof (cases "inner c = []")
    case True
    have "spells ts0 s0 (map snd (outer c) @ PCOM_RP # ts) (spaced_words (map fst (outer c)) @ '')'' @ s)"
      by (rule spells_words[OF items_ok(1)[OF assms(1)] rp]) (simp add: delim_def)
    moreover have "no_say (spaced_words (map fst (outer c)) @ '')'' @ s)"
      by (rule outer_no_say) (simp add: delim_def)
    ultimately show ?thesis
      using spells_LP True by (simp add: order_tokens_def order_text_def)
  next
    case False
    let ?in = "spaced_words (map fst (inner c)) @ '')'' @ '')'' @ s"
    have "spells ts0 s0 (PCOM_RP # PCOM_RP # ts) ('')'' @ '')'' @ s)" using spells_RP[OF rp] by simp
    then have "spells ts0 s0 (map snd (inner c) @ PCOM_RP # PCOM_RP # ts) ?in"
      by (rule spells_words[OF items_ok(2)[OF assms(1)]]) (simp add: delim_def)
    then have "spells ts0 s0 (PCOM_LP # map snd (inner c) @ PCOM_RP # PCOM_RP # ts) (CHR ''('' # ?in)"
      by (rule spells_LP[OF inner_no_say[OF False]])
    then have "spells ts0 s0 (PCOM_LP # map snd (inner c) @ PCOM_RP # PCOM_RP # ts) (CHR '' '' # CHR ''('' # ?in)"
      by (rule spells_blank[rotated]) simp
    then have "spells ts0 s0 (map snd (outer c) @ PCOM_LP # map snd (inner c) @ PCOM_RP # PCOM_RP # ts)
        (spaced_words (map fst (outer c)) @ CHR '' '' # CHR ''('' # ?in)"
      by (rule spells_words[OF items_ok(1)[OF assms(1)]]) (simp add: delim_def)
    moreover have "no_say (spaced_words (map fst (outer c)) @ CHR '' '' # CHR ''('' # ?in)"
      by (rule outer_no_say) (simp add: delim_def)
    ultimately show ?thesis
      using spells_LP False by (simp add: order_tokens_def order_text_def)
  qed
qed

section \<open>The parser reads the tokens\<close>

definition meant :: "written \<Rightarrow> pcom_call" where
  "meant = map_pcom number_val atoi"

lemma number_read [simp]:
  "floating_point_number (number_token t # ts) = Some (number_val t, ts)"
  by (simp add: number_token_def number_val_def)

lemma number_token_key [simp]: "number_token t \<noteq> PCOM_KEY k"
  by (simp add: number_token_def)

lemma snd_items [simp]:
  "snd (number_item t) = number_token t" "snd (int_item t) = PCOM_INT (atoi t)"
  "snd (name_item m) = PCOM_STR m"
  by (simp_all add: number_item_def int_item_def name_item_def)

lemma word_tokens [simp]:
  "snd (word_item ''dash'') = PCOM_KEY PCOM_DASH" "snd (word_item ''turn'') = PCOM_KEY PCOM_TURN"
  "snd (word_item ''turn_neck'') = PCOM_KEY PCOM_TURN_NECK"
  "snd (word_item ''change_focus'') = PCOM_KEY PCOM_CHANGE_FOCUS"
  "snd (word_item ''kick'') = PCOM_KEY PCOM_KICK" "snd (word_item ''long_kick'') = PCOM_KEY PCOM_LONG_KICK"
  "snd (word_item ''catch'') = PCOM_KEY PCOM_CATCH" "snd (word_item ''say'') = PCOM_KEY PCOM_SAY"
  "snd (word_item ''sense_body'') = PCOM_KEY PCOM_SENSE_BODY"
  "snd (word_item ''score'') = PCOM_KEY PCOM_SCORE" "snd (word_item ''move'') = PCOM_KEY PCOM_MOVE"
  "snd (word_item ''change_view'') = PCOM_KEY PCOM_CHANGE_VIEW"
  "snd (word_item ''compression'') = PCOM_KEY PCOM_COMPRESSION" "snd (word_item ''bye'') = PCOM_KEY PCOM_BYE"
  "snd (word_item ''done'') = PCOM_KEY PCOM_DONE" "snd (word_item ''pointto'') = PCOM_KEY PCOM_POINTTO"
  "snd (word_item ''attentionto'') = PCOM_KEY PCOM_ATTENTIONTO"
  "snd (word_item ''tackle'') = PCOM_KEY PCOM_TACKLE" "snd (word_item ''clang'') = PCOM_KEY PCOM_CLANG"
  "snd (word_item ''ear'') = PCOM_KEY PCOM_EAR" "snd (word_item ''synch_see'') = PCOM_KEY PCOM_SYNCH_SEE"
  "snd (word_item ''gaussian_see'') = PCOM_KEY PCOM_GAUSSIAN_SEE"
  by (simp_all add: word_item_def reserved_def)

lemma argument_tokens [simp]:
  "snd (word_item ''narrow'') = PCOM_KEY PCOM_VIEW_WIDTH_NARROW"
  "snd (word_item ''normal'') = PCOM_KEY PCOM_VIEW_WIDTH_NORMAL"
  "snd (word_item ''wide'') = PCOM_KEY PCOM_VIEW_WIDTH_WIDE"
  "snd (word_item ''low'') = PCOM_KEY PCOM_VIEW_QUALITY_LOW"
  "snd (word_item ''high'') = PCOM_KEY PCOM_VIEW_QUALITY_HIGH"
  "snd (word_item ''on'') = PCOM_KEY PCOM_ON" "snd (word_item ''off'') = PCOM_KEY PCOM_OFF"
  "snd (word_item ''our'') = PCOM_KEY PCOM_OUR" "snd (word_item ''opp'') = PCOM_KEY PCOM_OPP"
  "snd (word_item ''l'') = PCOM_KEY PCOM_LEFT" "snd (word_item ''r'') = PCOM_KEY PCOM_RIGHT"
  "snd (word_item ''partial'') = PCOM_KEY PCOM_EAR_PARTIAL"
  "snd (word_item ''complete'') = PCOM_KEY PCOM_EAR_COMPLETE"
  "snd (word_item ''ver'') = PCOM_KEY PCOM_CLANG_VERSION"
  by (simp_all add: word_item_def reserved_def)

lemma stripQuotes_quoted: "stripQuotes (in_quotes m) = m"
  by (simp add: stripQuotes_def in_quotes_def Let_def)

lemmas small_phrases = p_view_width_def p_view_quality_def p_on_off_def p_boolean_value_def
  p_team_side_def p_partial_complete_def word_of_def team_ref_def close_with_def close_twice_def
  one_number_def two_numbers_def

lemma team_ref_items:
  "team_lit t m \<Longrightarrow> team_ref (map snd (team_items t m) @ ts) = Some ((t, m), ts)"
  by (cases t) (auto simp: team_lit_def name_lit_def small_phrases)

lemma team_items_not_off:
  "team_lit t m \<Longrightarrow> map snd (team_items t m) @ ts \<noteq> [] \<and> hd (map snd (team_items t m) @ ts) \<noteq> PCOM_KEY PCOM_OFF"
  by (cases t) (auto simp: team_lit_def name_lit_def)

lemma mode_read:
  "(case p_partial_complete (map snd (mode_items e) @ PCOM_RP # ts) of
      None \<Rightarrow> (UNKNOWN_EAR_MODE, map snd (mode_items e) @ PCOM_RP # ts) | Some r \<Rightarrow> r) = (e, PCOM_RP # ts)"
  by (cases e) (auto simp: small_phrases)

lemma mode_no_team: "team_ref (map snd (mode_items e) @ PCOM_RP # ts) = None"
  by (cases e) (auto simp: small_phrases)

lemma ear_read:
  assumes "team_lit t m \<or> t = UNKNOWN_TEAM \<and> m = []"
  shows "ear_com (PCOM_LP # map snd (word_item (on_word b) # team_items t m @ mode_items e) @ PCOM_RP # PCOM_RP # ts)
    = ([P_ear b t m e], Some ts)"
proof -
  let ?rest = "map snd (mode_items e) @ PCOM_RP # PCOM_RP # ts"
  have on: "p_on_off (snd (word_item (on_word b)) # us) = Some (b, us)" for us
    by (simp add: on_word_def small_phrases)
  have team: "(case team_ref (map snd (team_items t m) @ ?rest) of
      None \<Rightarrow> ((UNKNOWN_TEAM, []), map snd (team_items t m) @ ?rest) | Some r \<Rightarrow> r) = ((t, m), ?rest)"
    using assms team_ref_items[of t m ?rest] mode_no_team[of e "PCOM_RP # ts"] by (auto simp del: map_append)
  show ?thesis using mode_read[of e "PCOM_RP # ts"] by (simp add: ear_com_def on team close_twice_def close_with_def)
qed

lemma command_read:
  assumes "well_written c"
  shows "command (order_tokens c @ ts) = ([meant c], Some ts)"
proof (cases c rule: outer.cases)
  case (27 b t m e)
  then show ?thesis
    using assms ear_read[of t m b e ts]
    by (simp add: command_def order_tokens_def meant_def command_body_def)
next
  case (23 t m i)
  then show ?thesis
    using assms team_ref_items[of t m] team_items_not_off[of t m]
    by (simp add: command_def order_tokens_def meant_def command_body_def attentionto_com_def close_with_def)
next
  case (15 w q)
  then show ?thesis
    by (cases w; cases q) (simp_all add: command_def order_tokens_def meant_def command_body_def
        change_view_com_def small_phrases)
next
  case (16 w)
  then show ?thesis
    by (cases w) (simp_all add: command_def order_tokens_def meant_def command_body_def
        change_view_com_def small_phrases)
qed (auto simp: command_def order_tokens_def meant_def command_body_def dash_com_def dash_params_def
      dash_leg_def is_left_def say_com_def stripQuotes_quoted compression_com_def pointto_com_def
      attentionto_com_def tackle_com_def clang_com_def small_phrases on_word_def)

section \<open>Messages\<close>

lemma orders_spelled:
  "\<forall>c \<in> set cs. well_written c
   \<Longrightarrow> spells ts0 s0 (concat (map order_tokens cs) @ ts0) (concat (map order_text cs) @ s0)"
  by (induction cs) (auto intro: spells_end order_spelled)

lemma command_list_step:
  assumes "well_written c"
  shows "command_list (order_tokens c @ ts) =
     (if ts = [] then ([meant c], True) else (case command_list ts of (ds, ok) \<Rightarrow> (meant c # ds, ok)))"
  using command_list.simps[of "order_tokens c @ ts"] command_read[OF assms, of ts]
  by (simp split: prod.splits)

lemma commands_read:
  "\<forall>c \<in> set cs. well_written c \<Longrightarrow> ts \<noteq> []
   \<Longrightarrow> command_list (concat (map order_tokens cs) @ ts) =
        (case command_list ts of (ds, ok) \<Rightarrow> (map meant cs @ ds, ok))"
  by (induction cs) (auto simp: command_list_step split: prod.splits)

lemma all_commands_read:
  assumes "cs \<noteq> []" and "\<forall>c \<in> set cs. well_written c"
  shows "command_list (concat (map order_tokens cs)) = (map meant cs, True)"
proof -
  obtain bs c where cs: "cs = bs @ [c]" using assms(1) by (metis rev_exhaust)
  have "order_tokens c \<noteq> []" by (simp add: order_tokens_def)
  then show ?thesis
    using commands_read[of bs "order_tokens c"] command_list_step[of c "[]"] assms(2) cs by simp
qed

text \<open>C7: a message of commands in the form of the manual, with any blanks between their words, is
  read as just these commands, with the numbers as written.\<close>

theorem orders_read:
  assumes "cs \<noteq> []" and "\<forall>c \<in> set cs. well_written c"
  shows "spells [] [] (concat (map order_tokens cs)) (concat (map order_text cs))
     \<and> (\<forall>s. spells [] [] (concat (map order_tokens cs)) s \<longrightarrow> pcom_parse s = (map meant cs, True))"
  using orders_spelled[OF assms(2), of "[]" "[]"] all_commands_read[OF assms] spells_lex
  by (auto simp: pcom_parse_def)


text \<open>An unquoted message to say takes the rest of the text up to the last parenthesis, so the
  commands which follow it are said and not obeyed.\<close>

theorem say_takes_all:
  assumes "m \<noteq> []" and "set m \<subseteq> set say_chars" and "length m + 1 \<le> STR_MAX"
  shows "pcom_parse (''(say '' @ m @ '')'') = ([P_say m], True)"
  using lex_unquoted[OF assms] by (simp add: pcom_parse_def command_list.simps command_def)

end
