(* ===== verification/Dispatch.thy ===== *)
theory Dispatch
  imports Orders Standings
begin

text \<open>
  What a message of a player does to the server: \<^verbatim>\<open>Player::parseMsg\<close> of player.cpp hands the text
  to the parser, whose calls are the operations of the player.  The commands which only tell the
  client something, or set what the coach language and the compression use, are here too.
\<close>

section \<open>Calls\<close>

text \<open>What the player is told; the texts are those of the senders and not modelled.\<close>

datatype reply =
    R_sense_body
  | R_score
  | R_ok_compression int
  | R_compression_unsupported
  | R_ok_clang int int
  | R_player_clang_ver side int
  | R_no_team_name string
  | R_ok_synch_see
  | R_ok_gaussian_see
  | R_not_null_terminated
  | R_illegal_command_form

text \<open>
  The stadium, the ears, the versions of the coach language which the players know, their
  compression levels, and the messages sent, each with the player it is sent by.
\<close>

record session =
  S_world :: world
  S_ears :: ears
  S_clang :: "nat \<Rightarrow> int \<times> int"
  S_level :: "nat \<Rightarrow> int"
  S_sent :: "(nat \<times> reply) list"

text \<open>\<^verbatim>\<open>Player::send\<close>: nothing is sent to a client that is gone.\<close>

definition send_reply :: "nat \<Rightarrow> reply \<Rightarrow> session \<Rightarrow> session" where
  "send_reply k r st =
     (if M_connected (pl (S_world st) k) then st\<lparr>S_sent := S_sent st @ [(k, r)]\<rparr> else st)"

definition on_world :: "(world \<Rightarrow> world) \<Rightarrow> session \<Rightarrow> session" where
  "on_world f st = st\<lparr>S_world := f (S_world st)\<rparr>"

definition on_player :: "nat \<Rightarrow> (player \<Rightarrow> player) \<Rightarrow> session \<Rightarrow> session" where
  "on_player k f = on_world (upd_player k f)"

definition on_world_op :: "world_op \<Rightarrow> session \<Rightarrow> session option" where
  "on_world_op f st = map_option (\<lambda>w. st\<lparr>S_world := w\<rparr>) (f (S_world st))"

definition player_say ::
  "(nat \<Rightarrow> nat) \<Rightarrow> sparam \<Rightarrow> nat list \<Rightarrow> nat \<Rightarrow> string \<Rightarrow> session \<Rightarrow> session" where
  "player_say addr sp order k msg st =
     (case say addr sp order k msg (S_world st, S_ears st) of
        (w, es) \<Rightarrow> st\<lparr>S_world := w, S_ears := es\<rparr>)"

definition player_attentionto ::
  "nat \<Rightarrow> (pcom_team \<times> string \<times> int) option \<Rightarrow> session \<Rightarrow> session" where
  "player_attentionto k target st =
     (case (case target of
              None \<Rightarrow> attentionto k False UNKNOWN_TEAM [] 0 (S_world st, S_ears st k)
            | Some (t, m, i) \<Rightarrow> attentionto k True t m i (S_world st, S_ears st k)) of
        (w, e) \<Rightarrow> st\<lparr>S_world := w, S_ears := (S_ears st)(k := e)\<rparr>)"

definition player_ear ::
  "nat \<Rightarrow> bool \<Rightarrow> pcom_team \<Rightarrow> string \<Rightarrow> ear_mode \<Rightarrow> session \<Rightarrow> session" where
  "player_ear k on t m mode st =
     (case ear_command k on t m mode (S_world st) (S_ears st k) of
        None \<Rightarrow> send_reply k (R_no_team_name m) st
      | Some e \<Rightarrow> st\<lparr>S_ears := (S_ears st)(k := e)\<rparr>)"

text \<open>\<^verbatim>\<open>Player::compression\<close>, with and without zlib.\<close>

definition player_compression :: "bool \<Rightarrow> nat \<Rightarrow> int \<Rightarrow> session \<Rightarrow> session" where
  "player_compression libz k level st =
     (if \<not> libz then send_reply k R_compression_unsupported st
      else if level > 9 then st
      else (let st1 = send_reply k (R_ok_compression level) st
            in st1\<lparr>S_level := (S_level st1)(k := level)\<rparr>))"

text \<open>\<^verbatim>\<open>Player::clang\<close>; \<open>coached\<close> are the sides whose coach is assigned.\<close>

definition player_clang :: "side set \<Rightarrow> nat \<Rightarrow> int \<Rightarrow> int \<Rightarrow> session \<Rightarrow> session" where
  "player_clang coached k lo hi st =
     (let st1 = send_reply k (R_ok_clang lo hi) (st\<lparr>S_clang := (S_clang st)(k := (lo, hi))\<rparr>);
          s = M_side (pl (S_world st) k)
      in if s \<in> coached
         then st1\<lparr>S_sent := S_sent st1 @ [(k, R_player_clang_ver s (M_unum (pl (S_world st) k)))]\<rparr>
         else st1)"

text \<open>
  The operation of the player behind each call of the builder; \<open>order\<close> is the shuffled order of the
  listeners, and the long kick returns before it does anything.
\<close>

fun obey ::
  "(nat \<Rightarrow> nat) \<Rightarrow> sparam \<Rightarrow> mode_op \<Rightarrow> bool \<Rightarrow> side set \<Rightarrow> nat \<Rightarrow> nat list \<Rightarrow> pcom_call
   \<Rightarrow> session \<Rightarrow> session option" where
  "obey addr sp cpm libz coached k order (P_dash x) st = Some (on_player k (dash sp x 0) st)"
| "obey addr sp cpm libz coached k order (P_dash2 x y) st = Some (on_player k (dash sp x y) st)"
| "obey addr sp cpm libz coached k order (P_dashLeftLeg x y) st = Some (on_player k (dashLeftLeg sp x y) st)"
| "obey addr sp cpm libz coached k order (P_dashRightLeg x y) st = Some (on_player k (dashRightLeg sp x y) st)"
| "obey addr sp cpm libz coached k order (P_turn x) st = Some (on_world (turn_event sp k x) st)"
| "obey addr sp cpm libz coached k order (P_turn_neck x) st = Some (on_player k (turn_neck sp x) st)"
| "obey addr sp cpm libz coached k order (P_change_focus x y) st = Some (on_player k (change_focus x y) st)"
| "obey addr sp cpm libz coached k order (P_kick x y) st = on_world_op (kick sp cpm k x y) st"
| "obey addr sp cpm libz coached k order (P_long_kick x y) st = Some st"
| "obey addr sp cpm libz coached k order (P_goalieCatch x) st = on_world_op (goalieCatch sp cpm k x) st"
| "obey addr sp cpm libz coached k order (P_say m) st = Some (player_say addr sp order k m st)"
| "obey addr sp cpm libz coached k order P_sense_body st = Some (send_reply k R_sense_body st)"
| "obey addr sp cpm libz coached k order P_score st = Some (send_reply k R_score st)"
| "obey addr sp cpm libz coached k order (P_move x y) st = on_world_op (move sp cpm k x y) st"
| "obey addr sp cpm libz coached k order (P_change_view2 w q) st = Some (on_player k (change_view2 sp w q) st)"
| "obey addr sp cpm libz coached k order (P_change_view w) st = Some (on_player k (change_view sp w) st)"
| "obey addr sp cpm libz coached k order (P_compression i) st = Some (player_compression libz k i st)"
| "obey addr sp cpm libz coached k order P_bye st = Some (on_world (bye k) st)"
| "obey addr sp cpm libz coached k order P_done st = Some (on_player k done_cmd st)"
| "obey addr sp cpm libz coached k order (P_pointto None) st = Some (on_player k (pointto False 0 0) st)"
| "obey addr sp cpm libz coached k order (P_pointto (Some (x, y))) st = Some (on_player k (pointto True x y) st)"
| "obey addr sp cpm libz coached k order (P_attentionto t) st = Some (player_attentionto k t st)"
| "obey addr sp cpm libz coached k order (P_tackle x) st = on_world_op (tackle sp cpm k x False) st"
| "obey addr sp cpm libz coached k order (P_tackle2 x b) st = on_world_op (tackle sp cpm k x b) st"
| "obey addr sp cpm libz coached k order (P_clang i j) st = Some (player_clang coached k i j st)"
| "obey addr sp cpm libz coached k order (P_ear b t m e) st = Some (player_ear k b t m e st)"
| "obey addr sp cpm libz coached k order P_synch_see st = Some (send_reply k R_ok_synch_see (on_player k (synch_see sp) st))"
| "obey addr sp cpm libz coached k order P_gaussian_see st = Some (send_reply k R_ok_gaussian_see (on_player k gaussian_see st))"

text \<open>The calls of a message in their order; \<open>orders i\<close> is the order of the listeners at call \<open>i\<close>.\<close>

definition obey_all ::
  "(nat \<Rightarrow> nat) \<Rightarrow> sparam \<Rightarrow> mode_op \<Rightarrow> bool \<Rightarrow> side set \<Rightarrow> nat \<Rightarrow> (nat \<Rightarrow> nat list) \<Rightarrow> pcom_call list
   \<Rightarrow> session \<Rightarrow> session option" where
  "obey_all addr sp cpm libz coached k orders cs =
     foldM (\<lambda>(i, c). obey addr sp cpm libz coached k (orders i) c) (enumerate 0 cs)"

definition warn_unterminated :: "nat \<Rightarrow> string \<Rightarrow> session \<Rightarrow> session" where
  "warn_unterminated k msg st =
     (if last msg \<noteq> CHR 0x00 \<and> M_version (pl (S_world st) k) \<ge> 8
      then send_reply k R_not_null_terminated st else st)"

text \<open>
  \<^verbatim>\<open>Player::parseMsg\<close> on a message, given with all its bytes: the text is the part in front of the
  first zero byte.
\<close>

definition parseMsg ::
  "(nat \<Rightarrow> nat) \<Rightarrow> sparam \<Rightarrow> mode_op \<Rightarrow> bool \<Rightarrow> side set \<Rightarrow> nat \<Rightarrow> (nat \<Rightarrow> nat list) \<Rightarrow> string
   \<Rightarrow> session \<Rightarrow> session option" where
  "parseMsg addr sp cpm libz coached k orders msg st =
     (case pcom_parse (takeWhile (\<lambda>c. c \<noteq> CHR 0x00) msg) of
        (cs, ok) \<Rightarrow>
          map_option (\<lambda>st1. if ok then st1 else send_reply k R_illegal_command_form st1)
            (obey_all addr sp cpm libz coached k orders cs (warn_unterminated k msg st)))"

section \<open>A message is a sequence of events\<close>

lemma reply_world [simp]: "S_world (send_reply k r st) = S_world st"
  by (simp add: send_reply_def)

lemma obey_own: "event sp pp n w (upd_player k (own_effect sp c) w)"
  by (rule event.Own)

lemmas own_events = obey_own[of _ _ _ _ _ "Dash _ _", simplified]
  obey_own[of _ _ _ _ _ "Dash_left_leg _ _", simplified]
  obey_own[of _ _ _ _ _ "Dash_right_leg _ _", simplified]
  obey_own[of _ _ _ _ _ "Turn_neck _", simplified]
  obey_own[of _ _ _ _ _ "Change_focus _ _", simplified]
  obey_own[of _ _ _ _ _ "Change_view_quality _ _", simplified]
  obey_own[of _ _ _ _ _ "Change_view _", simplified]
  obey_own[of _ _ _ _ _ "Pointto _ _ _", simplified]
  obey_own[of _ _ _ _ _ "Synch_see", simplified]
  obey_own[of _ _ _ _ _ "Gaussian_see", simplified]
  obey_own[of _ _ _ _ _ "Done", simplified]

lemma obey_event:
  assumes "obey addr sp (changePlayMode sp n) libz coached k order c st = Some st'"
  shows "(event sp pp n)\<^sup>=\<^sup>= (S_world st) (S_world st')"
  using assms
  by (cases "(addr, sp, changePlayMode sp n, libz, coached, k, order, c, st)" rule: obey.cases)
    (auto simp: on_player_def on_world_def on_world_op_def player_say_def player_attentionto_def
        player_ear_def player_compression_def player_clang_def Let_def
      split: prod.splits option.splits if_splits
      intro: own_events event.Kick event.Tackle event.Catch event.Move event.Turn event.Say
        event.Attention event.Bye)

lemma obey_all_events:
  assumes "obey_all addr sp (changePlayMode sp n) libz coached k orders cs st = Some st'"
  shows "(event sp pp n)\<^sup>*\<^sup>* (S_world st) (S_world st')"
proof -
  have "(event sp pp n)\<^sup>*\<^sup>* (S_world st) (S_world st')"
    if "foldM (\<lambda>(i, c). obey addr sp (changePlayMode sp n) libz coached k (orders i) c) ics st = Some st'"
    for ics st
    using that
  proof (induction ics arbitrary: st)
    case (Cons ic ics)
    obtain i c where ic: "ic = (i, c)" by (cases ic)
    from Cons.prems obtain t where t: "obey addr sp (changePlayMode sp n) libz coached k (orders i) c st = Some t"
      "foldM (\<lambda>(i, c). obey addr sp (changePlayMode sp n) libz coached k (orders i) c) ics t = Some st'"
      by (auto simp: ic)
    have "(event sp pp n)\<^sup>*\<^sup>* (S_world st) (S_world t)" using obey_event[OF t(1), of pp] by auto
    then show ?case using Cons.IH[OF t(2)] by (rule rtranclp_trans)
  qed simp
  then show ?thesis using assms by (simp add: obey_all_def)
qed

text \<open>Whatever bytes a client sends, what they do to the match is a sequence of the events of
  the server's transition relation.\<close>

theorem message_events:
  assumes "parseMsg addr sp (changePlayMode sp n) libz coached k orders msg st = Some st'"
  shows "(event sp pp n)\<^sup>*\<^sup>* (S_world st) (S_world st')"
proof -
  obtain cs ok where cs: "pcom_parse (takeWhile (\<lambda>c. c \<noteq> CHR 0x00) msg) = (cs, ok)" by fastforce
  then obtain st2 where "S_world st' = S_world st2"
    "obey_all addr sp (changePlayMode sp n) libz coached k orders cs (warn_unterminated k msg st) = Some st2"
    using assms by (auto simp: parseMsg_def split: if_splits)
  moreover have "S_world (warn_unterminated k msg st) = S_world st" by (simp add: warn_unterminated_def)
  ultimately show ?thesis using obey_all_events by metis
qed

section \<open>Commands which concern only the player\<close>

text \<open>The commands other than those which act on the ball, the ears of others, the place of the
  player on the field, his connection or the random numbers.\<close>

fun own_call :: "pcom_call \<Rightarrow> bool" where
  "own_call (P_turn x) \<longleftrightarrow> False"
| "own_call (P_kick x y) \<longleftrightarrow> False"
| "own_call (P_goalieCatch x) \<longleftrightarrow> False"
| "own_call (P_say m) \<longleftrightarrow> False"
| "own_call (P_move x y) \<longleftrightarrow> False"
| "own_call P_bye \<longleftrightarrow> False"
| "own_call (P_tackle x) \<longleftrightarrow> False"
| "own_call (P_tackle2 x b) \<longleftrightarrow> False"
| "own_call c \<longleftrightarrow> True"

definition only_player :: "nat \<Rightarrow> session \<Rightarrow> session \<Rightarrow> bool" where
  "only_player k st st' \<longleftrightarrow>
     (\<exists>p. S_world st' = (S_world st)\<lparr>M_players := (M_players (S_world st))[k := p]\<rparr>)
     \<and> (\<forall>j. j \<noteq> k \<longrightarrow> S_ears st' j = S_ears st j \<and> S_clang st' j = S_clang st j \<and> S_level st' j = S_level st j)"

lemma only_player_refl [simp]: "only_player k st st"
proof -
  have "S_world st = (S_world st)\<lparr>M_players := (M_players (S_world st))[k := pl (S_world st) k]\<rparr>"
    by simp
  then show ?thesis unfolding only_player_def by blast
qed

lemma only_player_trans: "only_player k st t \<Longrightarrow> only_player k t u \<Longrightarrow> only_player k st u"
  by (auto simp: only_player_def)

lemma only_player_reply [simp]: "only_player k st (send_reply j r t) = only_player k st t"
  by (simp add: only_player_def send_reply_def)

lemma only_player_on_player [simp]: "only_player k st (on_player k f st)"
  by (auto simp: only_player_def on_player_def on_world_def upd_player_def)

lemma only_player_updates:
  "only_player k st t \<Longrightarrow> only_player k st (t\<lparr>S_ears := (S_ears t)(k := e)\<rparr>)"
  "only_player k st t \<Longrightarrow> only_player k st (t\<lparr>S_clang := (S_clang t)(k := v)\<rparr>)"
  "only_player k st t \<Longrightarrow> only_player k st (t\<lparr>S_level := (S_level t)(k := l)\<rparr>)"
  "only_player k st (t\<lparr>S_sent := r\<rparr>) = only_player k st t"
  by (simp_all add: only_player_def)

lemma only_player_attention: "only_player k st (player_attentionto k t st)"
proof -
  obtain w e where r: "(case t of None \<Rightarrow> attentionto k False UNKNOWN_TEAM [] 0 (S_world st, S_ears st k)
      | Some (t, m, i) \<Rightarrow> attentionto k True t m i (S_world st, S_ears st k)) = (w, e)" by fastforce
  have "w = S_world st \<or> w = count_attention k (S_world st)"
    using r by (auto simp: attentionto_def Let_def split: option.splits if_splits prod.splits)
  then have "only_player k st (st\<lparr>S_world := w\<rparr>)"
    using only_player_on_player[of k st] only_player_refl[of k st]
    by (auto simp: count_attention_def on_player_def on_world_def)
  from only_player_updates(1)[OF this, of e] show ?thesis
    unfolding player_attentionto_def r by simp
qed

lemma obey_own_call:
  "own_call c \<Longrightarrow> \<exists>st'. obey addr sp cpm libz coached k order c st = Some st' \<and> only_player k st st'"
  by (cases "(addr, sp, cpm, libz, coached, k, order, c, st)" rule: obey.cases)
    (auto simp: only_player_attention player_ear_def player_compression_def player_clang_def Let_def
      only_player_updates split: option.splits)

lemma own_message_returns:
  assumes "\<forall>c \<in> set (fst (pcom_parse (takeWhile (\<lambda>c. c \<noteq> CHR 0x00) msg))). own_call c"
  shows "\<exists>st'. parseMsg addr sp cpm libz coached k orders msg st = Some st' \<and> only_player k st st'"
proof -
  let ?f = "\<lambda>(i, c). obey addr sp cpm libz coached k (orders i) c"
  have all: "\<exists>t'. foldM ?f ics t = Some t' \<and> only_player k t t'"
    if "\<forall>ic \<in> set ics. own_call (snd ic)" for ics t
    using that
  proof (induction ics arbitrary: t)
    case (Cons ic ics)
    obtain i c where ic: "ic = (i, c)" by (cases ic)
    obtain u where "obey addr sp cpm libz coached k (orders i) c t = Some u" "only_player k t u"
      using obey_own_call[of c] Cons.prems ic by fastforce
    then show ?case using Cons.IH[of u] Cons.prems only_player_trans[of k t u] by (auto simp: ic)
  qed simp
  obtain cs ok where cs: "pcom_parse (takeWhile (\<lambda>c. c \<noteq> CHR 0x00) msg) = (cs, ok)" by fastforce
  define st1 where "st1 = warn_unterminated k msg st"
  have st1: "only_player k st st1" by (simp add: st1_def warn_unterminated_def)
  have "\<forall>ic \<in> set (enumerate 0 cs). own_call (snd ic)"
    using assms cs by (auto simp: enumerate_eq_zip dest: set_zip_rightD)
  from all[OF this, of st1] obtain st2 where st2:
    "obey_all addr sp cpm libz coached k orders cs st1 = Some st2" "only_player k st1 st2"
    by (auto simp: obey_all_def)
  have "parseMsg addr sp cpm libz coached k orders msg st
      = Some (if ok then st2 else send_reply k R_illegal_command_form st2)"
    using st2(1) cs by (simp add: parseMsg_def st1_def)
  then show ?thesis using only_player_trans[OF st1 st2(2)] by auto
qed


end
