(* ===== verification/MessageExamples.thy ===== *)
theory MessageExamples
  imports Dispatch ClientExamples
begin

text \<open>Messages of clients, to which the properties of their reading are applied.\<close>

definition two_orders :: "written list" where
  "two_orders = [P_dash2 ''100'' ''-45.5'', P_attentionto (Some (UNKNOWN_TEAM, ''HELIOS'', ''7''))]"

lemma two_orders_facts:
  "two_orders \<noteq> []" "\<forall>c \<in> set two_orders. well_written c"
  "concat (map order_text two_orders) = ''(dash 100 -45.5)(attentionto HELIOS 7)''"
  "map meant two_orders = [P_dash2 100 (- 45.5), P_attentionto (Some (UNKNOWN_TEAM, ''HELIOS'', 7))]"
  by code_simp+

theorem orders_read_witness:
  "pcom_parse ''(dash 100 -45.5)(attentionto HELIOS 7)''
   = ([P_dash2 100 (- 45.5), P_attentionto (Some (UNKNOWN_TEAM, ''HELIOS'', 7))], True)"
proof -
  note r = orders_read[OF two_orders_facts(1,2)]
  show ?thesis
    using r[THEN conjunct2, rule_format, OF r[THEN conjunct1]]
    by (simp only: two_orders_facts(3,4))
qed

text \<open>A dash of two legs, the second of which is the first again, is broken off after one leg.\<close>

lemma broken_dash_tokens:
  "yylex ''(dash (l 90 0) (l 90 0))'' =
     [PCOM_LP, PCOM_KEY PCOM_DASH, PCOM_LP, PCOM_KEY PCOM_LEFT, PCOM_INT 90, PCOM_INT 0, PCOM_RP,
      PCOM_LP, PCOM_KEY PCOM_LEFT, PCOM_INT 90, PCOM_INT 0, PCOM_RP, PCOM_RP]"
proof -
  have dash: "lexeme ''dash'' (PCOM_KEY PCOM_DASH)" and l: "lexeme ''l'' (PCOM_KEY PCOM_LEFT)"
    by (rule lexeme.reserved, simp add: reserved_def)+
  have n: "lexeme ''90'' (PCOM_INT (atoi ''90''))" "lexeme ''0'' (PCOM_INT (atoi ''0''))"
    by (rule lexeme.int, code_simp)+
  have vals: "atoi ''90'' = 90" "atoi ''0'' = 0" by code_simp+
  have no: "no_say (''dash'' @ '' '' @ r)" "no_say (''l'' @ '' '' @ r)" for r
    by (rule no_say_hd, simp)+
  have step: "yylex (w @ CHR '' '' # r) = k # yylex r" "yylex (w @ CHR '')'' # r) = k # PCOM_RP # yylex r"
    if "lexeme w k" for w k r
    using lex_lexeme[OF that] by (simp_all add: delim_def lex_blank lex_RP)
  have leg: "yylex (''(l 90 0)'' @ r) = [PCOM_LP, PCOM_KEY PCOM_LEFT, PCOM_INT 90, PCOM_INT 0, PCOM_RP] @ yylex r" for r
    using lex_LP[OF no(2)[of "''90 0)'' @ r"]] step(1)[OF l, of "''90 0)'' @ r"]
      step(1)[OF n(1), of "''0)'' @ r"] step(2)[OF n(2), of r] vals by simp
  show ?thesis
    using lex_LP[OF no(1)[of "''(l 90 0) (l 90 0))''"]] step(1)[OF dash, of "''(l 90 0) (l 90 0))''"]
      leg[of "'' (l 90 0))''"] leg[of "'')''"] lex_blank[of "CHR '' ''" "''(l 90 0))''"] lex_RP[of "[]"]
    by simp
qed


theorem say_takes_all_witness: "pcom_parse ''(say hi)(dash 100)'' = ([P_say ''hi)(dash 100''], True)"
  using say_takes_all[of "''hi)(dash 100''"]
  by (simp add: say_chars_def letters_def digits_def STR_MAX_def)

text \<open>The second player of the match turns his neck and is done.\<close>

definition start :: session where
  "start = \<lparr>S_world = match, S_ears = (\<lambda>_. new_ear8), S_clang = (\<lambda>_. (0, 0)), S_level = (\<lambda>_. - 1), S_sent = []\<rparr>"

definition neck_message :: string where
  "neck_message = ''(dash 100 -45.5)(attentionto HELIOS 7)'' @ [CHR 0x00]"

lemma neck_message_own:
  "\<forall>c \<in> set (fst (pcom_parse (takeWhile (\<lambda>c. c \<noteq> CHR 0x00) neck_message))). own_call c"
proof -
  have t: "takeWhile (\<lambda>c. c \<noteq> CHR 0x00) neck_message = concat (map order_text two_orders)"
    unfolding two_orders_facts(3) by (simp add: neck_message_def)
  have "pcom_parse (concat (map order_text two_orders)) = (map meant two_orders, True)"
    using spells_lex[OF orders_spelled[OF two_orders_facts(2), of "[]" "[]"]] all_commands_read[OF two_orders_facts(1,2)]
    by (simp add: pcom_parse_def)
  then show ?thesis unfolding t two_orders_facts(4) by simp
qed


theorem message_events_witness:
  "\<exists>st'. parseMsg id default_param (changePlayMode default_param 1) True {} 1 (\<lambda>_. []) neck_message start
         = Some st' \<and> (event default_param match_param 1)\<^sup>*\<^sup>* match (S_world st')"
proof -
  obtain st' where st': "parseMsg id default_param (changePlayMode default_param 1) True {} 1
      (\<lambda>_. []) neck_message start = Some st'"
    using own_message_returns[OF neck_message_own] by blast
  moreover have "S_world start = match" by (simp add: start_def)
  ultimately show ?thesis using message_events[OF st', of match_param] by metis
qed

end
