(* ===== verification/Joining.thy ===== *)
theory Joining
  imports Dispatch Scanning
begin

text \<open>
  How clients join: the messages which Stadium reads itself, \<^verbatim>\<open>parsePlayerInit\<close>,
  \<^verbatim>\<open>parseMonitorInit\<close>, \<^verbatim>\<open>parseCoachInit\<close> and \<^verbatim>\<open>parseOnlineCoachInit\<close> of stadium.cpp.
\<close>

section \<open>Formats of the join messages\<close>

text \<open>
  The characters of \<^verbatim>\<open>[+-_a-zA-Z0-9]\<close>: the C library reads \<^verbatim>\<open>+-_\<close> as the range from the plus sign
  to the underscore, which contains the digits, the capital letters and \<^verbatim>\<open>,-./:;<=>?@[\]^\<close>.
\<close>

definition name_char :: "char \<Rightarrow> bool" where
  "name_char c \<longleftrightarrow>
     of_char c \<ge> (0x2B :: nat) \<and> of_char c \<le> (0x5F :: nat)
     \<or> of_char c \<ge> (0x61 :: nat) \<and> of_char c \<le> (0x7A :: nat)"

text \<open>\<open>" ( init %15[+-_a-zA-Z0-9] %n "\<close>: the name and the text at \<open>%n\<close>.\<close>

definition scan_team :: "string \<Rightarrow> string scan" where
  "scan_team msg =
     scan_then (scan_open ''init'' msg)
       (\<lambda>_ s. scan_then (scan_set 15 name_char (skip_ws s)) (\<lambda>t r. Matched t (skip_ws r)))"

text \<open>\<open>" ( version %lf ) %n "\<close>: the version is assigned even if what follows does not match, and
  the text at \<open>%n\<close> is there only if everything matches.\<close>

definition scan_version :: "string \<Rightarrow> (real \<times> string option) scan" where
  "scan_version msg =
     scan_then (scan_open ''version'' msg)
       (\<lambda>_ s. scan_then (scan_lf s)
          (\<lambda>v r. Matched (v, case scan_lit '')'' (skip_ws r) of
                               Matched _ q \<Rightarrow> Some (skip_ws q) | _ \<Rightarrow> None) r))"

text \<open>The test \<^verbatim>\<open>*msg != '(' && *msg != ')' && ! isspace( *msg )\<close>, which a text that has ended passes.\<close>

definition bad_follow :: "string \<Rightarrow> bool" where
  "bad_follow s \<longleftrightarrow> s = [] \<or> hd s \<noteq> CHR ''('' \<and> hd s \<noteq> CHR '')'' \<and> \<not> isspace (hd s)"

section \<open>Players\<close>

datatype player_request =
    Refused string
  | Wants_init string real bool
  | Wants_reconnect "(string \<times> int) option"

text \<open>
  The loop over the options: \<open>None\<close> is a form error.
\<close>

definition option_step :: "string \<Rightarrow> real \<Rightarrow> bool \<Rightarrow> (string \<times> real \<times> bool) option" where
  "option_step s version goalie =
     (case (if starts_with ''(version '' s
            then (case scan_version s of
                    Matched (v, Some r) _ \<Rightarrow> Some (r, v, goalie)
                  | _ \<Rightarrow> None)
            else if starts_with ''(goalie)'' s then Some (drop 8 s, version, True)
            else None) of
        None \<Rightarrow> None
      | Some (r, v, g) \<Rightarrow> if bad_follow r then None else Some (skip_ws r, v, g))"

lemma scan_version_shorter:
  assumes "scan_version s = Matched (x, Some q) t"
  shows "length q < length s"
proof -
  obtain s1 s2 p where "scan_open ''version'' s = Matched () s1" "scan_lf s1 = Matched x s2"
    "scan_lit '')'' (skip_ws s2) = Matched () p" "q = skip_ws p"
    using assms by (auto simp: scan_version_def scan_then_Matched split: scan.splits)
  then show ?thesis
    using scan_open_shorter[of "''version''" s "()" s1] scan_lf_shorter[of s1 x s2]
      scan_lit_shorter[of "'')''" "skip_ws s2" "()" p] skip_ws_length[of s2] skip_ws_length[of p] by simp
qed

lemma option_step_shorter:
  assumes "option_step s v g = Some (r, v', g')"
  shows "length r < length s"
proof -
  obtain q where "length q < length s" "r = skip_ws q"
  proof (cases "starts_with ''(version '' s")
    case True
    then show ?thesis
      using assms that scan_version_shorter[of s]
      by (auto simp: option_step_def split: if_splits scan.splits option.splits)
  next
    case False
    then have "starts_with ''(goalie)'' s" "r = skip_ws (drop 8 s)"
      using assms by (auto simp: option_step_def split: if_splits)
    moreover from this(1) have "s \<noteq> []" by (auto simp: starts_with_def)
    ultimately show ?thesis using that[of "drop 8 s"] by (cases s) simp_all
  qed
  then show ?thesis using skip_ws_length[of q] by simp
qed

function init_options :: "string \<Rightarrow> real \<Rightarrow> bool \<Rightarrow> (real \<times> bool) option" where
  "init_options s version goalie =
     (if s = [] \<or> hd s = CHR '')'' then Some (version, goalie)
      else (case option_step s version goalie of
              None \<Rightarrow> None
            | Some (r, v, g) \<Rightarrow> init_options r v g))"
  by pat_completeness auto
termination
  by (relation "measure (length \<circ> fst)") (auto dest: option_step_shorter)

declare init_options.simps [simp del]

text \<open>
  \<^verbatim>\<open>parsePlayerInit\<close>.  A reconnect of which the name or the number cannot be read is refused, but the
  function goes on with what its variables happen to hold, which is \<open>Wants_reconnect None\<close>.
\<close>

definition parse_init :: "string \<Rightarrow> player_request" where
  "parse_init msg =
     (case scan_team msg of
        Matched name r \<Rightarrow>
          if bad_follow r then Refused ''illegal_teamname_or_too_long_teamname''
          else (case init_options (dropWhile (\<lambda>c. c \<noteq> CHR ''('') r) 3 False of
                  None \<Rightarrow> Refused ''illegal_command_form''
                | Some (v, g) \<Rightarrow> Wants_init name v g)
      | _ \<Rightarrow> Refused ''illegal_teamname'')"

definition scan_reconnect :: "string \<Rightarrow> (string \<times> int) scan" where
  "scan_reconnect msg =
     scan_then (scan_open ''reconnect'' msg)
       (\<lambda>_ s. scan_then (scan_word 127 s)
          (\<lambda>name r. scan_then (scan_d r) (\<lambda>u q. Matched (name, u) q)))"

definition parse_player_init :: "playmode \<Rightarrow> string \<Rightarrow> player_request" where
  "parse_player_init pm msg =
     (if starts_with ''(init '' msg then parse_init msg
      else if starts_with ''(reconnect '' msg then
        (if pm = PM_PlayOn then Refused ''cannot_reconnect_while_playon''
         else Wants_reconnect (case scan_reconnect msg of Matched nu _ \<Rightarrow> Some nu | _ \<Rightarrow> None))
      else Refused ''unknown_command'')"

text \<open>
  What the stadium does with a request: \<open>conn\<close> tells whether the socket connects, \<open>senders\<close> whether
  there are senders for the version, \<open>opened\<close> whether the socket of a reconnecting player opens.
  The reply is the error message, if there is one.
\<close>

definition init_error ::
  "sparam \<Rightarrow> bool \<Rightarrow> bool \<Rightarrow> string \<Rightarrow> real \<Rightarrow> bool \<Rightarrow> world \<Rightarrow> string option" where
  "init_error sp senders conn name version goalie w =
     (if fixedTeamNameLeft sp = name \<or> fixedTeamNameRight sp = name
      then Some ''conflict_with_fixed_teamname''
      else (case join_team name w of
              None \<Rightarrow> Some ''no_more_team''
            | Some (s, w1) \<Rightarrow>
                if fst (newPlayer sp senders s version goalie w1) = None
                then Some ''no_more_player_or_goalie_or_illegal_client_version''
                else if \<not> conn then Some ''connection_failed'' else None))"

definition reconnect_error :: "bool \<Rightarrow> bool \<Rightarrow> bool \<Rightarrow> string \<Rightarrow> int \<Rightarrow> world \<Rightarrow> string option" where
  "reconnect_error opened conn senders name unum w =
     (case List.find (\<lambda>r. let t = team (M_side (pl w r)) w
                          in team_enabled t \<and> T_name t = name \<and> M_unum (pl w r) = unum)
             [0..<2 * MAX_PLAYER] of
        None \<Rightarrow> Some ''no_such_team_or_player''
      | Some r \<Rightarrow>
          if hasRedCard (pl w r) then Some ''red_carded_player''
          else if \<not> opened then Some ''socket_open_failed''
          else if \<not> conn then Some ''connection_failed''
          else if \<not> senders then Some ''illegal_client_version'' else None)"

text \<open>\<open>None\<close> is the reconnect of a player whose name or number is undefined.\<close>

definition parsePlayerInit ::
  "sparam \<Rightarrow> bool \<Rightarrow> bool \<Rightarrow> bool \<Rightarrow> string \<Rightarrow> world \<Rightarrow> (nat option \<times> world \<times> string option) option" where
  "parsePlayerInit sp opened conn senders msg w =
     (case parse_player_init (M_playmode w) msg of
        Refused e \<Rightarrow> Some (None, w, Some e)
      | Wants_init name v g \<Rightarrow>
          (case initPlayer sp senders conn name v g w of
             (r, w1) \<Rightarrow> Some (r, w1, init_error sp senders conn name v g w))
      | Wants_reconnect None \<Rightarrow> None
      | Wants_reconnect (Some (name, unum)) \<Rightarrow>
          (case reconnectPlayer opened conn senders name unum w of
             (r, w1) \<Rightarrow> Some (r, w1, reconnect_error opened conn senders name unum w)))"

section \<open>Monitors\<close>

record monitor =
  Mon_version :: real
  Mon_enforce :: bool

definition scan_dispinit :: "string \<Rightarrow> real scan" where
  "scan_dispinit msg =
     scan_then (scan_open ''dispinit'' msg)
       (\<lambda>_ s. scan_then (scan_lit ''version'' (skip_ws s)) (\<lambda>_ r. scan_lf r))"

text \<open>The first result is \<open>False\<close> when the message is not one of a monitor.\<close>

definition parseMonitorInit ::
  "int \<Rightarrow> bool \<Rightarrow> (real \<Rightarrow> bool) \<Rightarrow> string \<Rightarrow> monitor list \<Rightarrow> bool \<times> monitor list \<times> string option" where
  "parseMonitorInit maxMonitors conn senders msg mons =
     (case (if starts_with ''(dispinit)'' msg then Some 1
            else (case scan_dispinit msg of Matched v _ \<Rightarrow> Some v | _ \<Rightarrow> None)) of
        None \<Rightarrow> (False, mons, None)
      | Some ver \<Rightarrow>
          if maxMonitors > 0 \<and> int (length mons) \<ge> maxMonitors then (True, mons, Some ''no_more_monitor'')
          else if \<not> conn then (True, mons, Some ''connection_failed'')
          else if \<not> senders ver then (True, mons, Some ''illegal_client_version'')
          else (True, mons @ [\<lparr>Mon_version = ver, Mon_enforce = (ver < 0 \<or> ver \<ge> 2)\<rparr>], None))"

section \<open>The trainer\<close>

datatype coach_request = Coach_refused string | Coach_init real | Coach_command

definition command_char :: "char \<Rightarrow> bool" where
  "command_char c \<longleftrightarrow> c \<in> set (digits @ letters @ ''-.+*/?<>_'')"

text \<open>The number of values \<^verbatim>\<open>sscanf( msg, " ( init ( version %lf ) ) " )\<close> returns, with the version.\<close>

definition scan_coach_version :: "string \<Rightarrow> int \<times> real" where
  "scan_coach_version msg =
     (case scan_then (scan_open ''init'' msg)
             (\<lambda>_ s. scan_then (scan_open ''version'' s) (\<lambda>_ r. scan_lf r)) of
        Matched v _ \<Rightarrow> (1, v) | Mismatch \<Rightarrow> (0, 3) | End_of_input \<Rightarrow> (- 1, 3))"

definition parse_coach_init :: "bool \<Rightarrow> string \<Rightarrow> coach_request" where
  "parse_coach_init have_coach msg =
     (if have_coach then Coach_refused ''already_have_offline_coach''
      else (case scan_then (scan_lit ''('' (skip_ws msg)) (\<lambda>_ s. scan_set 127 command_char (skip_ws s)) of
              Matched cmd _ \<Rightarrow>
                if cmd = ''init''
                then (case scan_coach_version msg of
                        (n, v) \<Rightarrow> if n \<noteq> 0 \<and> n \<noteq> 1 \<or> v < 1 then Coach_refused ''illegal_command_form''
                                  else Coach_init v)
                else Coach_command
            | _ \<Rightarrow> Coach_refused ''illegal_command_form''))"

definition initCoach :: "bool \<Rightarrow> bool \<Rightarrow> bool \<Rightarrow> real \<Rightarrow> coach \<Rightarrow> coach \<times> string option" where
  "initCoach opened conn senders version c =
     (if \<not> opened then (c, Some ''socket_open_failed'')
      else if \<not> conn then (c, Some ''connection_failed'')
      else if \<not> senders then (c\<lparr>C_version := version\<rparr>, Some ''illegal_client_version'')
      else (c\<lparr>C_version := version, C_assigned := True\<rparr>, None))"

text \<open>
  \<^verbatim>\<open>parseCoachInit\<close>.  A command other than init starts the game and is obeyed as one of the trainer,
  although no trainer is connected; \<open>read\<close> is the command which \<^verbatim>\<open>Coach::parse_command\<close> makes of the
  text.
\<close>

definition parseCoachInit ::
  "sparam \<Rightarrow> pparam \<Rightarrow> mode_op \<Rightarrow> (string \<Rightarrow> trainer_command) \<Rightarrow> bool \<Rightarrow> bool \<Rightarrow> bool \<Rightarrow> bool \<Rightarrow> string
   \<Rightarrow> world \<Rightarrow> coach \<Rightarrow> (world \<times> coach \<times> string option \<times> coach_out list) option" where
  "parseCoachInit sp pp cpm read have_coach opened conn senders msg w c =
     (case parse_coach_init have_coach msg of
        Coach_refused e \<Rightarrow> Some (w, c, Some e, [])
      | Coach_init v \<Rightarrow>
          (case initCoach opened conn senders v c of (c1, e) \<Rightarrow> Some (w, c1, e, []))
      | Coach_command \<Rightarrow> do {
          w1 \<leftarrow> kickOff sp pp cpm w;
          (w2, c1, out) \<leftarrow> Coach_parse_command sp pp cpm (read msg) w1 c;
          Some (w2, c1, None, out)
        })"

section \<open>Online coaches\<close>

datatype online_request = OL_refused string | OL_init string string real

text \<open>
  \<open>n\<close> is \<^verbatim>\<open>n_read\<close>, which the scan of the version leaves as it is when the closing parenthesis is
  missing; the text is then advanced by the characters of an earlier scan.
\<close>

definition online_version :: "string \<Rightarrow> string \<Rightarrow> nat \<Rightarrow> string \<Rightarrow> online_request" where
  "online_version name coach n s =
     (if starts_with ''(version'' s
      then (case scan_version s of
              Matched (v, r) _ \<Rightarrow>
                if bad_follow (case r of Some q \<Rightarrow> q | None \<Rightarrow> drop n s)
                then OL_refused ''illegal_client_version''
                else if v < 5 then OL_refused ''illegal_client_version''
                else OL_init name coach v
            | _ \<Rightarrow> OL_refused ''illegal_command_form'')
      else OL_init name coach 5)"

definition parse_online_init :: "string \<Rightarrow> online_request" where
  "parse_online_init msg =
     (if \<not> starts_with ''(init'' msg then OL_refused ''illegal_command_form''
      else (case scan_team msg of
              Matched name s \<Rightarrow>
                if s \<noteq> [] \<and> hd s = CHR ''(''
                then online_version name [] (length msg - length s) s
                else (case scan_set 127 name_char (skip_ws s) of
                        Matched coach r \<Rightarrow>
                          if bad_follow (skip_ws r)
                          then OL_refused ''illegal_coachname_or_too_long_coachname''
                          else online_version name coach (length s - length (skip_ws r))
                                 (dropWhile (\<lambda>c. c \<noteq> CHR ''('') (skip_ws r))
                      | _ \<Rightarrow> OL_refused ''illegal_command_form'')
            | _ \<Rightarrow> OL_refused ''illegal_command_form''))"

text \<open>\<^verbatim>\<open>initOnlineCoach\<close>: the coach of the team of that name, with what is sent to him at once.\<close>

definition online_side :: "string \<Rightarrow> world \<Rightarrow> side option" where
  "online_side name w =
     (if T_name (M_team_l w) \<noteq> [] \<and> T_name (M_team_l w) = name then Some LEFT
      else if T_name (M_team_r w) \<noteq> [] \<and> T_name (M_team_r w) = name then Some RIGHT
      else None)"

definition initOnlineCoach ::
  "bool \<Rightarrow> bool \<Rightarrow> string \<Rightarrow> real \<Rightarrow> world \<Rightarrow> (side \<Rightarrow> olcoach)
   \<Rightarrow> side option \<times> (side \<Rightarrow> olcoach) \<times> string option" where
  "initOnlineCoach conn senders name version w ocs =
     (case online_side name w of
        None \<Rightarrow> (None, ocs, Some ''no_such_team'')
      | Some s \<Rightarrow>
          if C_assigned (ocs s) then (None, ocs, Some ''already_have_coach'')
          else if \<not> conn then (None, ocs, Some ''connection_failed'')
          else if \<not> senders
          then (None, ocs(s := (ocs s)\<lparr>C_version := version\<rparr>), Some ''illegal_client_version'')
          else (Some s, ocs(s := (ocs s)\<lparr>C_version := version, C_assigned := True\<rparr>), None))"

definition parseOnlineCoachInit ::
  "bool \<Rightarrow> bool \<Rightarrow> string \<Rightarrow> world \<Rightarrow> (side \<Rightarrow> olcoach)
   \<Rightarrow> side option \<times> (side \<Rightarrow> olcoach) \<times> string option" where
  "parseOnlineCoachInit conn senders msg w ocs =
     (case parse_online_init msg of
        OL_refused e \<Rightarrow> (None, ocs, Some e)
      | OL_init name coach v \<Rightarrow> initOnlineCoach conn senders name v w ocs)"

end
