(* ===== verification/Scanned.thy ===== *)
theory Scanned
  imports Scanning
begin

text \<open>
  What the directives of \<^verbatim>\<open>sscanf\<close> read in a text which is written as their formats want it.
\<close>

section \<open>Words and numbers\<close>

lemma skip_ws_simps [simp]:
  "skip_ws [] = []"
  "isspace c \<Longrightarrow> skip_ws (c # s) = skip_ws s"
  "\<not> isspace c \<Longrightarrow> skip_ws (c # s) = c # s"
  by (simp_all add: skip_ws_def)

lemma isspace_chars [simp]:
  "isspace (CHR '' '')" "\<not> isspace (CHR ''('')" "\<not> isspace (CHR '')'')"
  by (simp_all add: isspace_def)

lemma skip_ws_stays: "s = [] \<or> \<not> isspace (hd s) \<Longrightarrow> skip_ws s = s"
  by (cases s) auto

lemma skip_ws_hd: "skip_ws s = [] \<or> \<not> isspace (hd (skip_ws s))"
  unfolding skip_ws_def using hd_dropWhile by blast

lemma scan_lit_append [simp]: "scan_lit t (t @ r) = Matched () r"
  by (induction t) simp_all

lemma starts_with_append [simp]: "starts_with t (t @ r)"
  by (simp add: starts_with_def)

lemma scan_set_Matched:
  assumes "scan_set n P s = Matched w r"
  shows "w \<noteq> [] \<and> length w \<le> n \<and> list_all P w \<and> s = w @ r"
proof -
  have w: "w = take n (takeWhile P s)" "w \<noteq> []" "r = drop (length w) s"
    using assms by (auto simp: scan_set_def Let_def split: if_splits)
  have "s = take n (takeWhile P s) @ (drop n (takeWhile P s) @ dropWhile P s)"
    by (simp only: append_assoc[symmetric] append_take_drop_id takeWhile_dropWhile_id)
  then have "\<exists>x. s = w @ x" unfolding w(1) by (rule exI)
  then obtain x where x: "s = w @ x" ..
  then have "drop (length w) s = x" by simp
  with x have "s = w @ drop (length w) s" by (simp only:)
  moreover have "list_all P w"
    unfolding w(1) list_all_iff by (auto dest: in_set_takeD set_takeWhileD)
  ultimately show ?thesis using w(2,3) by (simp add: w(1))
qed

lemma scan_set_reads:
  assumes "w \<noteq> []" and "length w \<le> n" and "list_all P w" and "r = [] \<or> \<not> P (hd r) \<or> length w = n"
  shows "scan_set n P (w @ r) = Matched w r"
proof -
  have "takeWhile P (w @ r) = w @ takeWhile P r"
    using assms(3) by (simp add: list_all_iff takeWhile_append2)
  moreover have "takeWhile P r = [] \<or> length w = n"
    using assms(4) by (cases r) auto
  ultimately have "take n (takeWhile P (w @ r)) = w" using assms(2) by auto
  then show ?thesis using assms(1) by (simp add: scan_set_def)
qed

text \<open>The numbers of the messages: digits, after a sign or not, and for reals a point and digits.\<close>

definition int_text :: "string \<Rightarrow> bool" where
  "int_text v \<longleftrightarrow> take_digits (drop_sign v) \<noteq> [] \<and> drop_digits (drop_sign v) = []"

definition real_text :: "string \<Rightarrow> bool" where
  "real_text v \<longleftrightarrow> has_mantissa v \<and> after_mantissa v = []"

text \<open>What may follow a number or a word.\<close>

definition ends_word :: "string \<Rightarrow> bool" where
  "ends_word r \<longleftrightarrow> r = [] \<or> isspace (hd r) \<or> hd r = CHR '')''"

lemma ends_word_simps [simp]: "ends_word []" "ends_word (CHR '' '' # r)" "ends_word (CHR '')'' # r)"
  by (simp_all add: ends_word_def)

lemma ends_word_chars:
  assumes "ends_word r" and "r \<noteq> []"
  shows "hd r \<notin> set digits" and "hd r \<notin> set signs" and "hd r \<noteq> CHR ''.''" and "hd r \<notin> set ''eE''"
proof -
  have "c \<notin> set digits \<and> c \<notin> set signs \<and> c \<noteq> CHR ''.'' \<and> c \<notin> set ''eE''"
    if "isspace c \<or> c = CHR '')''" for c
    using that by (auto simp: isspace_def digits_def signs_def)
  with assms show "hd r \<notin> set digits" "hd r \<notin> set signs" "hd r \<noteq> CHR ''.''" "hd r \<notin> set ''eE''"
    by (auto simp: ends_word_def)
qed

lemma digits_append:
  assumes "ends_word r"
  shows "drop_digits (v @ r) = drop_digits v @ r" and "take_digits (v @ r) = take_digits v"
proof -
  have "drop_digits r = r" "take_digits r = []"
    using ends_word_chars(1)[OF assms] by (cases r; simp add: drop_digits_def take_digits_def)+
  moreover have "drop_digits v = [] \<Longrightarrow> take_digits v = v"
    by (metis append_Nil2 drop_digits_def take_digits_def takeWhile_dropWhile_id)
  ultimately show "drop_digits (v @ r) = drop_digits v @ r" "take_digits (v @ r) = take_digits v"
    unfolding drop_digits_def take_digits_def
    by (induction v) auto
qed

lemma drop_sign_append: "ends_word r \<Longrightarrow> drop_sign (v @ r) = drop_sign v @ r"
  using ends_word_chars(2)[of r] by (cases v; cases r) (auto simp: drop_sign_def)

lemma mantissa_append:
  assumes r: "ends_word r"
  shows "has_mantissa (v @ r) = has_mantissa v" and "after_mantissa (v @ r) = after_mantissa v @ r"
proof -
  let ?d = "drop_digits (drop_sign v)"
  have d: "drop_digits (drop_sign (v @ r)) = ?d @ r" "take_digits (drop_sign (v @ r)) = take_digits (drop_sign v)"
    by (simp_all add: drop_sign_append[OF r] digits_append[OF r])
  have p: "(?d @ r \<noteq> [] \<and> hd (?d @ r) = CHR ''.'') = (?d \<noteq> [] \<and> hd ?d = CHR ''.'')"
    using ends_word_chars(3)[OF r] by (cases ?d) auto
  show "has_mantissa (v @ r) = has_mantissa v"
  proof (cases "?d \<noteq> [] \<and> hd ?d = CHR ''.''")
    case True
    then have "take_digits (tl (?d @ r)) = take_digits (tl ?d)" by (simp add: digits_append[OF r])
    then show ?thesis using p unfolding has_mantissa_def Let_def d by metis
  next
    case False
    then show ?thesis using p unfolding has_mantissa_def Let_def d by metis
  qed
  show "after_mantissa (v @ r) = after_mantissa v @ r"
  proof (cases "?d \<noteq> [] \<and> hd ?d = CHR ''.''")
    case True
    then have "drop_digits (tl (?d @ r)) = drop_digits (tl ?d) @ r" by (simp add: digits_append[OF r])
    then show ?thesis using p True unfolding after_mantissa_def Let_def d by simp
  next
    case False
    then have "\<not> (?d @ r \<noteq> [] \<and> hd (?d @ r) = CHR ''.'')" using p by blast
    then show ?thesis unfolding after_mantissa_def Let_def d by (simp only: False if_False)
  qed
qed

lemma number_start:
  assumes "v \<noteq> []" and "isspace (hd v)"
  shows "\<not> has_mantissa v" and "take_digits (drop_sign v) = []"
proof -
  have "hd v \<notin> set digits \<and> hd v \<notin> set signs \<and> hd v \<noteq> CHR ''.''"
    using assms(2) by (auto simp: isspace_def digits_def signs_def)
  then show "\<not> has_mantissa v" "take_digits (drop_sign v) = []"
    using assms(1) by (cases v; simp add: has_mantissa_def drop_sign_def drop_digits_def take_digits_def)+
qed

lemma scan_lf_reads:
  assumes v: "real_text v" and r: "ends_word r"
  shows "scan_lf (v @ r) = Matched (atof v) r" and "scan_lf (CHR '' '' # v @ r) = Matched (atof v) r"
proof -
  have "v \<noteq> []"
    using v by (auto simp: real_text_def has_mantissa_def drop_sign_def drop_digits_def take_digits_def)
  moreover have "\<not> isspace (hd v)" using number_start(1)[OF \<open>v \<noteq> []\<close>] v by (auto simp: real_text_def)
  ultimately have s: "skip_ws (v @ r) = v @ r" "v @ r \<noteq> []" by (auto intro: skip_ws_stays)
  have m: "has_mantissa (v @ r)" "after_mantissa (v @ r) = r"
    using v by (simp_all add: mantissa_append[OF r] real_text_def)
  have "\<not> has_exponent (v @ r)"
    using ends_word_chars(4)[OF r] by (auto simp: has_exponent_def m)
  then show "scan_lf (v @ r) = Matched (atof v) r"
    by (simp add: scan_lf_def s(1) m after_number_def Let_def \<open>v \<noteq> []\<close>)
  then show "scan_lf (CHR '' '' # v @ r) = Matched (atof v) r"
    by (simp add: scan_lf_def)
qed

lemma scan_d_reads:
  assumes v: "int_text v" and r: "ends_word r"
  shows "scan_d (v @ r) = Matched (atoi v) r" and "scan_d (CHR '' '' # v @ r) = Matched (atoi v) r"
proof -
  have "v \<noteq> []" using v by (auto simp: int_text_def drop_sign_def take_digits_def)
  moreover have "\<not> isspace (hd v)" using number_start(2)[OF \<open>v \<noteq> []\<close>] v by (auto simp: int_text_def)
  ultimately have s: "skip_ws (v @ r) = v @ r" "v @ r \<noteq> []" by (auto intro: skip_ws_stays)
  show "scan_d (v @ r) = Matched (atoi v) r"
    using v by (simp add: scan_d_def s drop_sign_append[OF r] digits_append[OF r] int_text_def Let_def \<open>v \<noteq> []\<close>)
  then show "scan_d (CHR '' '' # v @ r) = Matched (atoi v) r"
    by (simp add: scan_d_def)
qed

end
