(* ===== verification/Joined.thy ===== *)
theory Joined
  imports Joining Scanned
begin

text \<open>
  What is sure of the clients which have joined: how the join messages are read, the names which
  teams can have, and the commands which name a player by his team.
\<close>

section \<open>Names\<close>

definition legal_name :: "string \<Rightarrow> bool" where
  "legal_name nm \<longleftrightarrow> nm \<noteq> [] \<and> length nm \<le> 15 \<and> list_all name_char nm"

lemma name_char_chars [simp]:
  "\<not> name_char (CHR '' '')" "\<not> name_char (CHR ''('')" "\<not> name_char (CHR '')'')"
  by (simp_all add: name_char_def)

lemma name_char_not_space: "name_char c \<Longrightarrow> \<not> isspace c"
  by (auto simp: isspace_def name_char_def)

lemma legal_name_starts: "legal_name nm \<Longrightarrow> skip_ws (nm @ r) = nm @ r"
  by (cases nm) (auto simp: legal_name_def dest: name_char_not_space intro: skip_ws_stays)

lemma scan_open_init: "scan_open ''init'' (''(init '' @ s) = Matched () (CHR '' '' # s)"
  using scan_lit_append[of "''init''" "CHR '' '' # s"]
  by (simp add: scan_open_def isspace_def skip_ws_def)

lemma scan_team_reads:
  assumes "legal_name nm" and "ends_word r" and "r \<noteq> []"
  shows "scan_team (''(init '' @ nm @ r) = Matched nm (skip_ws r)"
proof -
  have "\<not> name_char (hd r)"
    using assms(2,3) by (auto simp: ends_word_def dest: name_char_not_space)
  then have "scan_set 15 name_char (nm @ r) = Matched nm r"
    using assms(1) by (intro scan_set_reads) (simp_all add: legal_name_def)
  then show ?thesis
    by (simp add: scan_team_def scan_open_init legal_name_starts[OF assms(1)] del: append.simps)
qed

lemma parse_init_legal:
  assumes "parse_player_init pm msg = Wants_init nm v g"
  shows "legal_name nm"
proof -
  have "parse_init msg = Wants_init nm v g"
    using assms by (auto simp: parse_player_init_def split: if_splits)
  then obtain r s where "scan_set 15 name_char (skip_ws s) = Matched nm r"
    by (auto simp: parse_init_def scan_team_def scan_then_Matched split: scan.splits if_splits option.splits)
  from scan_set_Matched[OF this] show ?thesis by (simp add: legal_name_def)
qed

section \<open>The message with which a player joins\<close>

text \<open>The options of the message, as the comment in the source writes it, in any number and order.\<close>

datatype init_option = Version_option string | Goalie_option

fun option_text :: "init_option \<Rightarrow> string" where
  "option_text (Version_option v) = ''(version '' @ v @ '')''"
| "option_text Goalie_option = ''(goalie)''"

fun option_ok :: "init_option \<Rightarrow> bool" where
  "option_ok (Version_option v) \<longleftrightarrow> real_text v"
| "option_ok Goalie_option \<longleftrightarrow> True"

definition options_text :: "init_option list \<Rightarrow> string" where
  "options_text os = concat (map (\<lambda>p. CHR '' '' # option_text p) os) @ '')''"

definition init_text :: "string \<Rightarrow> init_option list \<Rightarrow> string" where
  "init_text nm os = ''(init '' @ nm @ options_text os"

text \<open>The last version counts.\<close>

fun chosen :: "init_option \<Rightarrow> real \<times> bool \<Rightarrow> real \<times> bool" where
  "chosen (Version_option v) (_, g) = (atof v, g)"
| "chosen Goalie_option (v, _) = (v, True)"

lemma options_text_simps:
  "options_text [] = '')''"
  "options_text (p # os) = CHR '' '' # option_text p @ options_text os"
  by (simp_all add: options_text_def)

lemma option_text_hd: "\<exists>x. option_text p @ r = CHR ''('' # x"
  by (cases p) simp_all

lemma options_text_ends: "ends_word (options_text os)" "options_text os \<noteq> []"
  by (cases os; simp add: options_text_simps)+

lemma options_text_skip:
  "skip_ws (options_text os) = (case os of [] \<Rightarrow> '')'' | p # ps \<Rightarrow> option_text p @ options_text ps)"
proof (cases os)
  case (Cons p ps)
  then show ?thesis using option_text_hd[of p "options_text ps"] by (auto simp: options_text_simps)
qed (simp add: options_text_simps)

lemma options_follow: "\<not> bad_follow (options_text os)" "\<not> bad_follow (skip_ws (options_text os))"
proof -
  show "\<not> bad_follow (options_text os)"
    by (cases os) (simp_all add: bad_follow_def options_text_simps)
  show "\<not> bad_follow (skip_ws (options_text os))"
  proof (cases os)
    case (Cons p ps)
    then show ?thesis
      using option_text_hd[of p "options_text ps"] by (auto simp: bad_follow_def options_text_skip)
  qed (simp add: bad_follow_def options_text_skip)
qed

lemma scan_version_reads:
  assumes "real_text v"
  shows "scan_version (''(version '' @ v @ '')'' @ r) = Matched (atof v, Some (skip_ws r)) (CHR '')'' # r)"
proof -
  have "scan_open ''version'' (''(version '' @ v @ '')'' @ r) = Matched () (CHR '' '' # v @ '')'' @ r)"
    using scan_lit_append[of "''version''" "CHR '' '' # v @ '')'' @ r"]
    by (simp add: scan_open_def isspace_def skip_ws_def)
  then show ?thesis using assms by (simp add: scan_version_def scan_lf_reads(2))
qed

lemma option_step_reads:
  assumes "option_ok p"
  shows "option_step (option_text p @ options_text os) v g
         = Some (skip_ws (options_text os), chosen p (v, g))"
proof (cases p)
  case (Version_option t)
  have "skip_ws (skip_ws (options_text os)) = skip_ws (options_text os)"
    by (rule skip_ws_stays[OF skip_ws_hd])
  then show ?thesis
    using assms scan_version_reads[of t "options_text os"] options_follow(2)[of os]
      starts_with_append[of "''(version ''" "t @ '')'' @ options_text os"]
    by (simp add: Version_option option_step_def)
next
  case Goalie_option
  have "\<not> starts_with ''(version '' (''(goalie)'' @ options_text os)" by (simp add: starts_with_def)
  then show ?thesis
    using options_follow(1)[of os] starts_with_append[of "''(goalie)''" "options_text os"]
    by (simp add: Goalie_option option_step_def)
qed

lemma init_options_read:
  "list_all option_ok os \<Longrightarrow> init_options (skip_ws (options_text os)) v g = Some (fold chosen os (v, g))"
proof (induction os arbitrary: v g)
  case Nil
  then show ?case by (simp add: options_text_simps init_options.simps)
next
  case (Cons p ps)
  have s: "skip_ws (options_text (p # ps)) = option_text p @ options_text ps"
    by (simp add: options_text_skip)
  have go: "(option_text p @ options_text ps = [] \<or> hd (option_text p @ options_text ps) = CHR '')'') = False"
    using option_text_hd[of p "options_text ps"] by auto
  then show ?case
    using Cons option_step_reads[of p ps v g] unfolding s
    by (subst init_options.simps) (cases "chosen p (v, g)", simp add: go del: append_is_Nil_conv)
qed

lemma legal_init_read:
  assumes "legal_name nm" and "list_all option_ok os"
  shows "parse_player_init pm (init_text nm os)
         = (case fold chosen os (3, False) of (v, g) \<Rightarrow> Wants_init nm v g)"
proof -
  let ?r = "skip_ws (options_text os)"
  have t: "scan_team (init_text nm os) = Matched nm ?r"
    unfolding init_text_def by (rule scan_team_reads[OF assms(1) options_text_ends])
  have "init_options (dropWhile (\<lambda>c. c \<noteq> CHR ''('') ?r) 3 False = Some (fold chosen os (3, False))"
  proof (cases os)
    case Nil
    then show ?thesis by (simp add: options_text_simps init_options.simps)
  next
    case (Cons p ps)
    then have "dropWhile (\<lambda>c. c \<noteq> CHR ''('') ?r = ?r"
      using option_text_hd[of p "options_text ps"] by (auto simp: options_text_skip)
    then show ?thesis using init_options_read[OF assms(2)] by simp
  qed
  moreover have "starts_with ''(init '' (init_text nm os)"
    unfolding init_text_def by (rule starts_with_append)
  ultimately show ?thesis
    using options_follow(2)[of os] by (simp add: parse_player_init_def parse_init_def t split: prod.split)
qed

text \<open>A word which is not a legal name is refused, with one of two messages.\<close>

definition is_word :: "string \<Rightarrow> bool" where
  "is_word nm \<longleftrightarrow> list_all (\<lambda>c. \<not> isspace c \<and> c \<noteq> CHR ''('' \<and> c \<noteq> CHR '')'') nm"

definition name_error :: "string \<Rightarrow> string" where
  "name_error nm = (if nm = [] \<or> \<not> name_char (hd nm) then ''illegal_teamname''
                    else ''illegal_teamname_or_too_long_teamname'')"

lemma options_no_name: "takeWhile name_char (nm @ options_text os) = takeWhile name_char nm"
  using options_text_ends[of os]
  by (induction nm) (auto simp: options_text_simps neq_Nil_conv ends_word_def dest: name_char_not_space)

lemma illegal_init_read:
  assumes w: "is_word nm" and bad: "\<not> legal_name nm"
  shows "parse_player_init pm (init_text nm os) = Refused (name_error nm)"
proof -
  let ?s = "nm @ options_text os"
  have init: "parse_player_init pm (init_text nm os) = parse_init (init_text nm os)"
    using starts_with_append[of "''(init ''" ?s] by (simp add: parse_player_init_def init_text_def)
  have scan: "scan_team (init_text nm os)
      = scan_then (scan_set 15 name_char (skip_ws ?s)) (\<lambda>t r. Matched t (skip_ws r))"
    by (simp add: init_text_def scan_team_def scan_open_init del: append.simps)
  show ?thesis
  proof (cases "nm = [] \<or> \<not> name_char (hd nm)")
    case True
    have "takeWhile name_char (skip_ws ?s) = [] \<and> skip_ws ?s \<noteq> []"
    proof (cases nm)
      case Nil
      then show ?thesis
        using option_text_hd[of "hd os" "options_text (tl os)"]
        by (cases os) (auto simp: options_text_skip)
    next
      case (Cons c x)
      then show ?thesis using True w by (simp add: is_word_def)
    qed
    then have "scan_set 15 name_char (skip_ws ?s) = Mismatch" by (simp add: scan_set_def)
    then show ?thesis using True by (simp add: init parse_init_def scan name_error_def)
  next
    case False
    define t where "t = take 15 (takeWhile name_char nm)"
    have s: "skip_ws ?s = ?s" using False w by (intro skip_ws_stays) (cases nm; simp add: is_word_def)
    have t: "t \<noteq> []" using False by (cases nm) (simp_all add: t_def)
    have "scan_set 15 name_char nm = Matched t (drop (length t) nm)"
      unfolding scan_set_def t_def[symmetric] Let_def using t False by simp
    note split = scan_set_Matched[OF this]
    then have "nm = t @ drop (length t) nm" by blast
    moreover have "drop (length t) nm \<noteq> []"
    proof
      assume "drop (length t) nm = []"
      with calculation have "t = nm" by simp
      with split have "legal_name nm" by (simp add: legal_name_def)
      with bad show False ..
    qed
    ultimately obtain c x where x: "nm = t @ c # x" "drop (length t) nm = c # x"
      by (metis neq_Nil_conv)
    have "\<not> isspace c" "c \<noteq> CHR ''(''" "c \<noteq> CHR '')''" using w x(1) by (simp_all add: is_word_def)
    moreover have "scan_set 15 name_char ?s = Matched t (c # x @ options_text os)"
    proof -
      have "drop (length t) ?s = c # x @ options_text os" using x by simp
      then show ?thesis using t by (simp add: scan_set_def options_no_name t_def[symmetric] Let_def) (use False in simp)
    qed
    ultimately show ?thesis
      using False by (simp add: init parse_init_def scan s bad_follow_def name_error_def)
  qed
qed

text \<open>C11: a player who asks to join with any word for the name and any options is read as asking
  for exactly the last version and the goalie if he names it, if the word is at most fifteen
  characters of the set, and is told that the name is illegal or too long otherwise.\<close>

theorem init_read:
  assumes "is_word nm" and "list_all option_ok os"
  shows "parse_player_init pm (init_text nm os)
         = (if legal_name nm then (case fold chosen os (3, False) of (v, g) \<Rightarrow> Wants_init nm v g)
            else Refused (name_error nm))"
  using legal_init_read[OF _ assms(2)] illegal_init_read[OF assms(1)] by simp

section \<open>The commands which name a player\<close>

text \<open>The object of a command which moves a player, with the name of his team and his number.\<close>

definition player_object :: "string \<Rightarrow> string \<Rightarrow> string" where
  "player_object nm u = ''(player '' @ nm @ '' '' @ u @ '')''"

lemma player_object_read:
  assumes "legal_name nm" and "int_text u"
  shows "scan_player_name (player_object nm u) = Some (nm, atoi u)"
proof -
  have lit: "scan_lit ''(player'' (player_object nm u) = Matched () (CHR '' '' # nm @ '' '' @ u @ '')'')"
    using scan_lit_append[of "''(player''" "CHR '' '' # nm @ '' '' @ u @ '')''"] by (simp add: player_object_def)
  have "list_all (\<lambda>c. \<not> isspace c) nm"
    using assms(1) by (auto simp: legal_name_def list_all_iff dest: name_char_not_space)
  then have "scan_set (length (player_object nm u)) (\<lambda>c. \<not> isspace c) (nm @ CHR '' '' # u @ '')'')
      = Matched nm (CHR '' '' # u @ '')'')"
    using assms(1) by (intro scan_set_reads) (simp_all add: legal_name_def player_object_def)
  then have "scan_word (length (player_object nm u)) (CHR '' '' # nm @ '' '' @ u @ '')'')
      = Matched nm (CHR '' '' # u @ '')'')"
    by (simp add: scan_word_def legal_name_starts[OF assms(1)])
  then show ?thesis
    unfolding scan_player_name_def lit using scan_d_reads(2)[OF assms(2), of "'')''"] by simp
qed

section \<open>The names of the teams\<close>

definition names_legal :: "world \<Rightarrow> bool" where
  "names_legal w \<longleftrightarrow>
     (T_name (M_team_l w) \<noteq> [] \<longrightarrow> legal_name (T_name (M_team_l w)))
     \<and> (T_name (M_team_r w) \<noteq> [] \<longrightarrow> legal_name (T_name (M_team_r w)))"

lemma names_upd_player [simp]: "names_legal (upd_player i f w) = names_legal w"
  by (simp add: upd_player_def names_legal_def)

lemma names_disable [simp]: "names_legal (disable i w) = names_legal w"
  by (simp add: disable_def names_legal_def upd_player_def clearBallCatcher_def Let_def)

lemma names_remote [simp]: "names_legal (w\<lparr>M_remote_players := rs\<rparr>) = names_legal w"
  by (simp add: names_legal_def)

lemma names_upd_team:
  "(\<And>t. T_name (f t) = T_name t) \<Longrightarrow> names_legal (upd_team s f w) = names_legal w"
  by (cases s) (simp_all add: upd_team_def names_legal_def)

lemma names_newPlayer: "newPlayer sp senders s v g w = (r, w') \<Longrightarrow> names_legal w' = names_legal w"
  by (auto simp: newPlayer_def Let_def names_upd_team split: if_splits)

lemma names_join_team:
  "join_team nm w = Some (s, w') \<Longrightarrow> legal_name nm \<Longrightarrow> names_legal w \<Longrightarrow> names_legal w'"
  by (auto simp: join_team_def names_legal_def upd_team_def split: if_splits)

lemma initPlayer_facts:
  assumes "initPlayer sp senders conn nm v g w = (r, w')"
  shows "(init_error sp senders conn nm v g w = None) = (r \<noteq> None)"
    and "legal_name nm \<Longrightarrow> names_legal w \<Longrightarrow> names_legal w'"
  using assms
  by (auto simp: initPlayer_def init_error_def names_newPlayer dest: names_join_team
      split: if_splits option.splits prod.splits)

lemma reconnectPlayer_facts:
  assumes "reconnectPlayer opened conn senders nm u w = (r, w')"
  shows "(reconnect_error opened conn senders nm u w = None) = (r \<noteq> None)"
    and "names_legal w \<Longrightarrow> names_legal w'"
proof -
  let ?f = "List.find (\<lambda>r. team_enabled (team (M_side (pl w r)) w) \<and> T_name (team (M_side (pl w r)) w) = nm
                      \<and> M_unum (pl w r) = u) [0..<2 * MAX_PLAYER]"
  show "(reconnect_error opened conn senders nm u w = None) = (r \<noteq> None)"
    and "names_legal w \<Longrightarrow> names_legal w'"
    using assms by (cases ?f; auto simp: reconnectPlayer_def reconnect_error_def Let_def split: if_splits)+
qed

text \<open>C12: a message of somebody who is no client yet is at most one event of the server, joins him
  exactly when he is told no error, and leaves both teams with names of the form that the formats
  of the messages can read.\<close>

theorem join_message:
  assumes "parsePlayerInit sp opened conn senders msg w = Some (r, w', e)" and "names_legal w"
  shows "(event sp pp n)\<^sup>=\<^sup>= w w' \<and> (e = None) = (r \<noteq> None) \<and> names_legal w'"
proof (cases "parse_player_init (M_playmode w) msg")
  case (Refused err)
  then show ?thesis using assms by (auto simp: parsePlayerInit_def)
next
  case (Wants_init nm v g)
  have i: "initPlayer sp senders conn nm v g w = (r, w')" and e: "e = init_error sp senders conn nm v g w"
    using assms(1) by (auto simp: parsePlayerInit_def Wants_init split: prod.splits)
  show ?thesis
    using event.Join[OF i] initPlayer_facts[OF i] parse_init_legal[OF Wants_init] assms(2) e by simp
next
  case (Wants_reconnect req)
  then obtain nm u where "req = Some (nm, u)"
    using assms(1) by (cases req) (auto simp: parsePlayerInit_def)
  then have i: "reconnectPlayer opened conn senders nm u w = (r, w')"
    and e: "e = reconnect_error opened conn senders nm u w"
    using assms(1) by (auto simp: parsePlayerInit_def Wants_reconnect split: prod.splits)
  show ?thesis
    using event.Rejoin[OF i] reconnectPlayer_facts[OF i] assms(2) e by simp
qed

section \<open>A monitor moves a player\<close>

text \<open>The command of a monitor which puts a player at a place.\<close>

definition move_text :: "string \<Rightarrow> string \<Rightarrow> string \<Rightarrow> string \<Rightarrow> string" where
  "move_text nm u x y = ''(move '' @ player_object nm u @ '' '' @ x @ '' '' @ y @ '')''"

lemma digit_no_paren: "int_text u \<Longrightarrow> list_all (\<lambda>c. c \<noteq> CHR '')'') u"
proof -
  assume u: "int_text u"
  then have "\<forall>c \<in> set (drop_sign u). c \<in> set digits"
    by (simp add: int_text_def drop_digits_def)
  moreover have "set u \<subseteq> set signs \<union> set (drop_sign u)"
    by (cases u) (auto simp: drop_sign_def)
  moreover have "CHR '')'' \<notin> set digits \<union> set signs" by (simp add: digits_def signs_def)
  ultimately show ?thesis unfolding list_all_iff by blast
qed

lemma scan_object_reads:
  assumes nm: "legal_name nm" and u: "int_text u" "length u \<le> 100" and xy: "real_text x" "real_text y"
  shows "scan_object (move_text nm u x y) = (player_object nm u, [atof x, atof y])"
proof -
  let ?o = "''player '' @ nm @ '' '' @ u"
  let ?r = "'') '' @ x @ '' '' @ y @ '')''"
  have o: "player_object nm u = ''('' @ ?o @ '')''" by (simp add: player_object_def)
  have "move_text nm u x y = ''(move '' @ ''('' @ ?o @ ?r" by (simp add: move_text_def o)
  moreover have "scan_open ''move'' (''(move '' @ ''('' @ ?o @ ?r) = Matched () ('' ('' @ ?o @ ?r)"
    using scan_lit_append[of "''move''" "'' ('' @ ?o @ ?r"] by (simp add: scan_open_def isspace_def)
  moreover have "scan_lit ''('' (skip_ws ('' ('' @ ?o @ ?r)) = Matched () (?o @ ?r)" by simp
  moreover have "skip_ws (?o @ ?r) = ?o @ ?r" by (simp add: isspace_def)
  moreover have "scan_set 127 (\<lambda>c. c \<noteq> CHR '')'') (?o @ ?r) = Matched ?o ?r"
  proof (rule scan_set_reads)
    have "list_all (\<lambda>c. c \<noteq> CHR '')'') nm" using nm by (auto simp: legal_name_def list_all_iff)
    then show "list_all (\<lambda>c. c \<noteq> CHR '')'') ?o" using digit_no_paren[OF u(1)] by simp
    show "length ?o \<le> 127" using nm u(2) by (simp add: legal_name_def)
  qed simp_all
  moreover have "scan_lit '')'' (skip_ws ?r) = Matched () (CHR '' '' # x @ CHR '' '' # y @ '')'')" by simp
  moreover have "scan_lfs 5 (CHR '' '' # x @ CHR '' '' # y @ '')'') = [atof x, atof y]"
    using scan_lf_reads(2)[OF xy(1), of "CHR '' '' # y @ '')''"] scan_lf_reads(2)[OF xy(2), of "'')''"]
    by (simp add: numeral_eq_Suc scan_lf_def has_mantissa_def drop_sign_def drop_digits_def take_digits_def
        signs_def digits_def)
  ultimately show ?thesis by (simp only: scan_object_def scan_then.simps scan.case o)
qed


section \<open>Coaches and monitors\<close>

text \<open>The name of an online coach, optional in the comment, is needed when the version is not given.\<close>

lemma online_coach_needs_name:
  assumes "legal_name nm"
  shows "parse_online_init (''(init '' @ nm @ '')'') = OL_refused ''illegal_command_form''"
proof -
  have "scan_team (''(init '' @ nm @ '')'') = Matched nm '')''"
    using scan_team_reads[OF assms, of "'')''"] by simp
  moreover have "starts_with ''(init'' (''(init '' @ nm @ '')'')" by (simp add: starts_with_def)
  moreover have "scan_set 127 name_char '')'' = Mismatch" by (simp add: scan_set_def)
  ultimately show ?thesis by (simp add: parse_online_init_def del: append.simps)
qed

text \<open>The limit of ServerParam on the monitors is kept.\<close>

lemma monitors_limited:
  assumes "parseMonitorInit k conn senders msg ms = (b, ms', e)" and "0 < k" and "int (length ms) \<le> k"
  shows "int (length ms') \<le> k"
  using assms by (auto simp: parseMonitorInit_def split: option.splits if_splits)

end
