(* ===== verification/JoinExamples.thy ===== *)
theory JoinExamples
  imports Joined ClientExamples
begin

text \<open>Messages with which clients join, and a command of a monitor.\<close>

lemma helios: "legal_name ''HELIOS''" "is_word ''HELIOS''"
  by (simp_all add: legal_name_def name_char_def is_word_def isspace_def)

lemma options_ok: "list_all option_ok [Version_option ''18'', Goalie_option]"
  by code_simp

theorem init_read_witness:
  "parse_player_init PM_BeforeKickOff ''(init HELIOS (version 18) (goalie))'' = Wants_init ''HELIOS'' 18 True
   \<and> parse_player_init PM_BeforeKickOff ''(init HELIOS_base_team)''
     = Refused ''illegal_teamname_or_too_long_teamname''"
proof
  have "init_text ''HELIOS'' [Version_option ''18'', Goalie_option] = ''(init HELIOS (version 18) (goalie))''"
    by (simp add: init_text_def options_text_def)
  moreover have "atof ''18'' = 18" by code_simp
  ultimately show "parse_player_init PM_BeforeKickOff ''(init HELIOS (version 18) (goalie))''
      = Wants_init ''HELIOS'' 18 True"
    using init_read[OF helios(2) options_ok] helios(1) by simp
  have "is_word ''HELIOS_base_team''" "\<not> legal_name ''HELIOS_base_team''"
    by (simp_all add: legal_name_def is_word_def isspace_def)
  then show "parse_player_init PM_BeforeKickOff ''(init HELIOS_base_team)''
     = Refused ''illegal_teamname_or_too_long_teamname''"
    using init_read[of "''HELIOS_base_team''" "[]" PM_BeforeKickOff]
    by (simp add: init_text_def options_text_def name_error_def name_char_def)
qed

theorem join_message_witness:
  "\<exists>r w' e. parsePlayerInit default_param True True True ''(init HELIOS)'' empty_pitch = Some (r, w', e)
     \<and> (event default_param match_param 1)\<^sup>=\<^sup>= empty_pitch w' \<and> names_legal w'"
proof -
  have "init_text ''HELIOS'' [] = ''(init HELIOS)''" by (simp add: init_text_def options_text_def)
  then have "parse_player_init (M_playmode empty_pitch) ''(init HELIOS)'' = Wants_init ''HELIOS'' 3 False"
    using legal_init_read[OF helios(1), of "[]"] by simp
  then obtain r w' e where p:
    "parsePlayerInit default_param True True True ''(init HELIOS)'' empty_pitch = Some (r, w', e)"
    by (cases "initPlayer default_param True True ''HELIOS'' 3 False empty_pitch")
      (simp add: parsePlayerInit_def)
  moreover have "names_legal empty_pitch" by (simp add: names_legal_def empty_pitch_def new_world_def new_Team_def Let_def)
  ultimately show ?thesis using join_message[OF p, of match_param 1] by blast
qed


end
