(* ===== verification/CoachText.thy ===== *)
theory CoachText
  imports Bench Joined
begin

text \<open>
  The texts of the trainer and of online coaches: how \<^verbatim>\<open>Coach::parse_command\<close> and
  \<^verbatim>\<open>OnlineCoach::parse_command\<close> of coach.cpp read the commands which Coach obeys, and that the
  commands are read as they are written.
\<close>

section \<open>Reading\<close>

text \<open>\<^verbatim>\<open>" ( %127[-0-9a-zA-Z.+*/?<>_] "\<close>: the word of the command.\<close>

definition command_word :: "string \<Rightarrow> string option" where
  "command_word msg =
     (case scan_then (scan_lit ''('' (skip_ws msg)) (\<lambda>_ s. scan_set 127 command_char (skip_ws s)) of
        Matched com _ \<Rightarrow> Some com
      | _ \<Rightarrow> None)"

text \<open>A word after the word \<open>w\<close> of the command, of at most \<open>n\<close> characters of a set.\<close>

definition command_mode :: "string \<Rightarrow> nat \<Rightarrow> (char \<Rightarrow> bool) \<Rightarrow> string \<Rightarrow> string option" where
  "command_mode w n P msg =
     (case scan_then (scan_open w msg) (\<lambda>_ s. scan_set n P (skip_ws s)) of
        Matched mode _ \<Rightarrow> Some mode
      | _ \<Rightarrow> None)"

definition mode_word_char :: "char \<Rightarrow> bool" where
  "mode_word_char c \<longleftrightarrow> c \<noteq> CHR '' '' \<and> c \<noteq> CHR ''('' \<and> c \<noteq> CHR '')''"

definition say_format_char :: "char \<Rightarrow> bool" where
  "say_format_char c \<longleftrightarrow> c \<in> set (digits @ letters @ ''- ().+*/?<>_'')"

text \<open>\<^verbatim>\<open>SAY_MESSAGE_SCAN_FORMAT\<close>: a word up to the next blank, and the message.\<close>

definition scan_say :: "string \<Rightarrow> string option" where
  "scan_say msg =
     (case scan_then (scan_lit ''('' (skip_ws msg))
             (\<lambda>_ s. scan_then (scan_word (length msg) s)
               (\<lambda>_ r. scan_set (length msg) say_format_char (skip_ws r))) of
        Matched m _ \<Rightarrow> Some m
      | _ \<Rightarrow> None)"

definition scan_named_type :: "string \<Rightarrow> (string \<times> int \<times> int) option" where
  "scan_named_type msg =
     (case scan_then (scan_open ''change_player_type'' msg)
             (\<lambda>_ s. scan_then (scan_word 127 s)
               (\<lambda>name r. scan_then (scan_d r)
                 (\<lambda>unum q. scan_then (scan_d q) (\<lambda>ty t. Matched (name, unum, ty) t)))) of
        Matched x _ \<Rightarrow> Some x
      | _ \<Rightarrow> None)"

definition one_int :: "int list \<Rightarrow> int option" where
  "one_int xs = (case xs of [] \<Rightarrow> None | x # _ \<Rightarrow> Some x)"

definition read_trainer :: "string \<Rightarrow> trainer_command" where
  "read_trainer msg =
     (case command_word msg of
        None \<Rightarrow> T_illegal
      | Some com \<Rightarrow>
          if com = ''start'' then T_start
          else if com = ''change_mode'' then T_change_mode (command_mode ''change_mode'' 127 command_char msg)
          else if com = ''move'' then
            (case scan_object msg of
               (obj, vs) \<Rightarrow>
                 T_move (if obj = [] then 0 else 1 + int (length vs)) obj (scan_player_name obj)
                   (PVector (nth_or_0 vs 0) (nth_or_0 vs 1)) (nth_or_0 vs 2)
                   (PVector (nth_or_0 vs 3) (nth_or_0 vs 4)))
          else if com = ''look'' then T_look
          else if com = ''team_names'' then T_team_names
          else if com = ''recover'' then T_recover
          else if com = ''check_ball'' then T_check_ball
          else if com = ''say'' then T_say (scan_say msg)
          else if com = ''ear'' then T_ear (command_mode ''ear'' 15 mode_word_char msg)
          else if com = ''eye'' then T_eye (command_mode ''eye'' 15 mode_word_char msg)
          else if com = ''change_player_type'' then T_change_player_type (scan_named_type msg)
          else if com = ''done'' then T_done
          else if com = ''compression'' then T_compression (one_int (command_ints ''compression'' 1 msg))
          else T_unknown)"

text \<open>
  \<^verbatim>\<open>%u\<close>: a negative number and one beyond 64 bits are taken modulo as \<^verbatim>\<open>strtoul\<close> does, and the
  lower half is kept.
\<close>

definition scan_u :: "string \<Rightarrow> nat scan" where
  "scan_u s0 =
     (let s = skip_ws s0; r = drop_digits (drop_sign s);
          v = min (nat_val (take_digits (drop_sign s))) (2 ^ 64 - 1)
      in if s = [] then End_of_input
         else if take_digits (drop_sign s) = [] then Mismatch
         else Matched (nat ((if hd s = CHR ''-'' \<and> nat_val (take_digits (drop_sign s)) < 2 ^ 64
                             then - v else v) mod 2 ^ 32)) r)"

definition scan_tile :: "string \<Rightarrow> (nat \<times> nat) option" where
  "scan_tile msg =
     (case scan_then (scan_open ''team_graphic'' msg)
             (\<lambda>_ s. scan_then (scan_lit ''('' (skip_ws s))
               (\<lambda>_ r. scan_then (scan_u r) (\<lambda>x q. scan_then (scan_u q) (\<lambda>y t. Matched (x, y) t)))) of
        Matched xy _ \<Rightarrow> Some xy
      | _ \<Rightarrow> None)"

text \<open>\<open>change_player_type\<close>: two numbers, or a number and the goalie.\<close>

definition read_player_type :: "string \<Rightarrow> online_command" where
  "read_player_type msg =
     (case command_ints ''change_player_type'' 2 msg of
        [unum, ty] \<Rightarrow> O_change_player_type unum ty
      | [unum] \<Rightarrow>
          (case scan_then (scan_open ''change_player_type'' msg)
                  (\<lambda>_ s. scan_then (scan_d s)
                    (\<lambda>u r. scan_set 15 (\<lambda>c. c \<noteq> CHR '' '' \<and> c \<noteq> CHR ''('' \<and> c \<noteq> CHR '')'') (skip_ws r))) of
             Matched w _ \<Rightarrow> if starts_with ''goalie'' w then O_change_player_type_goalie unum
                            else O_change_player_type_other
           | _ \<Rightarrow> O_change_player_type_other)
      | _ \<Rightarrow> O_change_player_type_other)"

text \<open>
  \<open>clang\<close> is the parser of the coach language with its builder, and \<open>xpm\<close> the size of the picture
  in a text when it is valid.
\<close>

definition read_online ::
  "(string \<Rightarrow> clang_msg option) \<Rightarrow> (string \<Rightarrow> (nat \<times> nat) option) \<Rightarrow> string \<Rightarrow> online_command" where
  "read_online clang xpm msg =
     (case command_word msg of
        None \<Rightarrow> O_illegal
      | Some com \<Rightarrow>
          if com = ''check_ball'' then O_check_ball
          else if com = ''look'' then O_look
          else if com = ''team_names'' then O_team_names
          else if com = ''say'' then O_say (clang msg) (scan_say msg)
          else if com = ''bye'' then O_bye
          else if com = ''eye'' then O_eye (command_mode ''eye'' 15 mode_word_char msg)
          else if com = ''change_player_type'' then read_player_type msg
          else if com = ''done'' then O_done
          else if com = ''compression'' then O_compression (one_int (command_ints ''compression'' 1 msg))
          else if com = ''team_graphic'' then O_team_graphic (scan_tile msg) (xpm msg)
          else O_unknown)"

section \<open>Commands as they are written\<close>

text \<open>What the scans of a text \<open>(w mode)\<close> read.\<close>

lemma command_text_read:
  assumes "w \<noteq> []" "list_all command_char w" "length w \<le> 127"
    and "mode \<noteq> []" "list_all P mode" "length mode \<le> n"
    and "\<not> P (CHR '')'')" "\<not> isspace (hd mode)"
  shows "command_word (''('' @ w @ '' '' @ mode @ '')'') = Some w"
    and "command_mode w n P (''('' @ w @ '' '' @ mode @ '')'') = Some mode"
proof -
  have nospace: "\<not> isspace c" if "command_char c" for c
    using that by (auto simp: command_char_def isspace_def digits_def letters_def)
  then have w: "skip_ws (w @ r) = w @ r" for r
    using assms(1,2) by (cases w) auto
  have "scan_set 127 command_char (w @ '' '' @ mode @ '')'') = Matched w ('' '' @ mode @ '')'')"
    by (rule scan_set_reads[OF assms(1,3,2)]) (auto simp: command_char_def digits_def letters_def)
  then show "command_word (''('' @ w @ '' '' @ mode @ '')'') = Some w"
    using w[of "'' '' @ mode @ '')''"] by (simp add: command_word_def)
  have "scan_open w (''('' @ w @ '' '' @ mode @ '')'') = Matched () ('' '' @ mode @ '')'')"
    using w[of "'' '' @ mode @ '')''"] scan_lit_append[of w "'' '' @ mode @ '')''"] by (simp add: scan_open_def)
  moreover have "skip_ws ('' '' @ mode @ '')'') = mode @ '')''"
    using assms(4,8) by (cases mode) auto
  moreover have "scan_set n P (mode @ '')'') = Matched mode '')''"
    by (rule scan_set_reads[OF assms(4,6,5)]) (simp add: assms(7))
  ultimately show "command_mode w n P (''('' @ w @ '' '' @ mode @ '')'') = Some mode"
    by (simp add: command_mode_def)
qed

lemma playmode_strings_plain:
  "list_all (\<lambda>s. s \<noteq> [] \<and> length s \<le> 127 \<and> list_all command_char s \<and> \<not> isspace (hd s)) (tl PLAYMODE_STRINGS)"
  by code_simp

definition mode_text :: "playmode \<Rightarrow> string" where
  "mode_text pm = ''(change_mode '' @ playmode_string pm @ '')''"

lemma playmode_plain:
  assumes "pm \<noteq> PM_Null"
  shows "playmode_string pm \<noteq> [] \<and> length (playmode_string pm) \<le> 127 \<and> list_all command_char (playmode_string pm)
         \<and> \<not> isspace (hd (playmode_string pm))"
proof -
  have "pm_index pm \<noteq> 0" using assms by (cases pm) simp_all
  then have "playmode_string pm = tl PLAYMODE_STRINGS ! (pm_index pm - 1)" "pm_index pm - 1 < length (tl PLAYMODE_STRINGS)"
    using pm_index_playmodes(1)[of pm] by (simp_all add: playmode_string_def nth_tl)
  then show ?thesis using playmode_strings_plain by (simp add: list_all_length)
qed

lemma mode_text_read:
  assumes "pm \<noteq> PM_Null"
  shows "read_trainer (mode_text pm) = T_change_mode (Some (playmode_string pm))"
    and "coach_change_mode cpm (mode_text pm) w = change_mode cpm (playmode_string pm) w"
proof -
  let ?m = "playmode_string pm"
  have w: "''change_mode'' \<noteq> []" "list_all command_char ''change_mode''" "length ''change_mode'' \<le> 127"
    by code_simp+
  have p: "\<not> command_char (CHR '')'')" by code_simp
  have t: "mode_text pm = ''('' @ ''change_mode'' @ '' '' @ ?m @ '')''" by (simp add: mode_text_def)
  note r = command_text_read[OF w, of ?m command_char 127, folded t]
  have r: "command_word (mode_text pm) = Some ''change_mode''"
    "command_mode ''change_mode'' 127 command_char (mode_text pm) = Some ?m"
    using r playmode_plain[OF assms] p by blast+
  show "read_trainer (mode_text pm) = T_change_mode (Some ?m)" by (simp add: read_trainer_def r)
  have "mode_char = command_char" by (rule ext) (simp add: mode_char_def command_char_def)
  then show "coach_change_mode cpm (mode_text pm) w = change_mode cpm ?m w"
    using r(2) by (auto simp: coach_change_mode_def command_mode_def split: scan.splits)
qed

lemma change_mode_string:
  "pm \<noteq> PM_Null \<Longrightarrow> change_mode cpm (playmode_string pm) w
     = map_option (\<lambda>w1. (w1, [Reply ''(ok change_mode)''])) (cpm pm w)"
  by (cases "cpm pm w") (simp_all add: change_mode_def Let_def play_mode_id_string)

text \<open>C38: the text of a change of the mode with the name that the server announces for it is read by
  the trainer and by a monitor in the coach modes as the change to exactly this mode, which is done
  and answered; so the announced names of the modes are read back.\<close>

theorem mode_text_obeyed:
  assumes "pm \<noteq> PM_Null" and "coachMode sp \<or> coachWithRefereeMode sp"
  shows "Coach_parse_command sp pp cpm (read_trainer (mode_text pm)) w c
           = map_option (\<lambda>w1. (w1, c, [Reply ''(ok change_mode)''])) (cpm pm w)
       \<and> Monitor_parseCommand sp pp cpm z (mode_text pm) w
           = map_option (\<lambda>w1. (w1, [Reply ''(ok change_mode)''])) (cpm pm w)"
proof -
  have "Monitor_parseCommand sp pp cpm z (mode_text pm) w = coach_change_mode cpm (mode_text pm) w"
    using assms(2) by (simp add: Monitor_parseCommand_def starts_with_def mode_text_def)
  then show ?thesis
    by (cases "cpm pm w") (simp_all add: mode_text_read[OF assms(1)] change_mode_string[OF assms(1)])
qed

end
