(* ===== verification/Server.thy ===== *)
theory Server
  imports CoachText Dispatch
begin

text \<open>
  The server between its sockets and the match: \<^verbatim>\<open>Stadium::doRecvFromClients\<close>, with the sockets
  of the clients (remoteclient.cpp), the three ports for newcomers, and the dispatch of what
  arrives (stadium.cpp).
\<close>

section \<open>Clients\<close>

text \<open>
  The socket of a client: who it is connected to, whether the init ports are closed to him, and what
  has arrived since his messages are compressed.  \<open>L_open\<close> is false after \<^verbatim>\<open>close\<close>, until
  \<^verbatim>\<open>RemoteClient::open\<close>; for players the connection is \<open>M_connected\<close> and the level of
  compression is that of the session.
\<close>

record socket =
  K_dest :: nat
  K_enforce :: bool
  K_chunks :: "string list"

record link = socket +
  L_open :: bool
  L_connected :: bool
  L_level :: int

record viewer = monitor +
  Mon_link :: link

text \<open>Whom the server tells something.\<close>

datatype party = Stranger nat | To_player nat | To_monitor nat | To_trainer | To_coach side

text \<open>
  The server: the session of the players, the monitors, the trainer and the online coaches with their
  links, whether they are among the connected clients, what has been told to whom, and the time and
  stoppage time at which delayed effects were last looked for.
\<close>

record server =
  V_session :: session
  V_socket :: "nat \<Rightarrow> socket"
  V_monitors :: "viewer list"
  V_trainer :: coach
  V_trainer_link :: link
  V_trainers :: nat
  V_olcoach :: "side \<Rightarrow> olcoach"
  V_ol_link :: "side \<Rightarrow> link"
  V_coaches :: "side list"
  V_told :: "(party \<times> coach_out) list"
  V_delayed :: "int \<times> int"

abbreviation V_world :: "server \<Rightarrow> world" where "V_world V \<equiv> S_world (V_session V)"

text \<open>
  What a run of the server depends on: the parameters, whether it has zlib, the order of the addresses
  of the players, what decompression makes of the last of the chunks, and the parsers of the coach
  language and of pictures.
\<close>

record env =
  E_sp :: sparam
  E_pp :: pparam
  E_libz :: bool
  E_maxMonitors :: int
  E_addr :: "nat \<Rightarrow> nat"
  E_inflate :: "string list \<Rightarrow> string"
  E_clang :: "string \<Rightarrow> clang_msg option"
  E_xpm :: "string \<Rightarrow> (nat \<times> nat) option"

text \<open>
  A datagram, with the choices of the system while it is obeyed: the orders of the listeners, whether
  a socket opens and connects, and whether there are senders for the version asked for.
\<close>

record datagram =
  A_text :: string
  A_orders :: "nat \<Rightarrow> nat list"
  A_opened :: bool
  A_conn :: bool
  A_senders :: bool

definition c_string :: "string \<Rightarrow> string" where "c_string m = takeWhile (\<lambda>c. c \<noteq> CHR 0x00) m"

text \<open>The newline which ends the message of a newcomer is chopped.\<close>

definition chopped :: "string \<Rightarrow> string" where
  "chopped m = c_string (if last m = CHR 0x0A then butlast m else m)"

definition tell :: "party \<Rightarrow> coach_out list \<Rightarrow> server \<Rightarrow> server" where
  "tell p outs V = V\<lparr>V_told := V_told V @ map (Pair p) outs\<rparr>"

definition error_reply :: "string option \<Rightarrow> coach_out list" where
  "error_reply e = (case e of None \<Rightarrow> [] | Some m \<Rightarrow> [Reply (''(error '' @ m @ '')'')])"

text \<open>\<^verbatim>\<open>RemoteClient::processMsg\<close>: the text to parse, if there is one, and the chunks then.\<close>

definition decode :: "env \<Rightarrow> int \<Rightarrow> string \<Rightarrow> string list \<Rightarrow> string option \<times> string list" where
  "decode E level msg chunks =
     (if E_libz E \<and> level \<ge> 0
      then (let cs = chunks @ [msg]; out = E_inflate E cs in (if out = [] then None else Some out, cs))
      else (Some msg, chunks))"

definition only_init :: coach_out where
  "only_init = Reply ''(error only_init_allowed_on_init_port)''"

definition not_null_terminated :: coach_out where
  "not_null_terminated = Reply ''(warning message_not_null_terminated)''"

definition map_session :: "(session \<Rightarrow> session option) \<Rightarrow> server \<Rightarrow> server option" where
  "map_session f V = map_option (\<lambda>st. V\<lparr>V_session := st\<rparr>) (f (V_session V))"

definition map_world :: "(world \<Rightarrow> world) \<Rightarrow> server \<Rightarrow> server" where
  "map_world f V = V\<lparr>V_session := on_world f (V_session V)\<rparr>"

text \<open>
  What a coach says is sent to the listeners of the stadium, of whom the players keep it for the end
  of the cycle.
\<close>

fun hear_coach :: "coach_out \<Rightarrow> session \<Rightarrow> session" where
  "hear_coach (CoachAudio s msg) st =
     st\<lparr>S_ears := fold (\<lambda>me es. es(me := sendCoachAudio s msg (es me)))
                    (M_remote_players (S_world st)) (S_ears st)\<rparr>"
| "hear_coach _ st = st"

text \<open>What a command does to the link of its sender.\<close>

fun link_effect :: "coach_out \<Rightarrow> link \<Rightarrow> link" where
  "link_effect Close l = l\<lparr>L_connected := False, L_open := False, K_enforce := False\<rparr>"
| "link_effect (Compression level) l = l\<lparr>L_level := level\<rparr>"
| "link_effect _ l = l"

section \<open>Messages of clients\<close>

definition coached :: "server \<Rightarrow> side set" where
  "coached V = {s. C_assigned (V_olcoach V s)}"

definition player_message :: "env \<Rightarrow> mode_op \<Rightarrow> nat \<Rightarrow> datagram \<Rightarrow> server \<Rightarrow> server option" where
  "player_message E cpm k a V =
     (case decode E (S_level (V_session V) k) (A_text a) (K_chunks (V_socket V k)) of
        (m, cs) \<Rightarrow>
          (let V1 = V\<lparr>V_socket := (V_socket V)(k := (V_socket V k)\<lparr>K_chunks := cs\<rparr>)\<rparr>
           in case m of
                None \<Rightarrow> Some V1
              | Some t \<Rightarrow>
                  map_session (parseMsg (E_addr E) (E_sp E) cpm (E_libz E) (coached V) k (A_orders a) t) V1))"

definition with_viewer :: "nat \<Rightarrow> (link \<Rightarrow> link) \<Rightarrow> server \<Rightarrow> server" where
  "with_viewer j f V =
     V\<lparr>V_monitors := (V_monitors V)[j := (V_monitors V ! j)\<lparr>Mon_link := f (Mon_link (V_monitors V ! j))\<rparr>]\<rparr>"

definition monitor_parseMsg :: "env \<Rightarrow> mode_op \<Rightarrow> nat \<Rightarrow> string \<Rightarrow> server \<Rightarrow> server option" where
  "monitor_parseMsg E cpm j t V =
     (let ver = Mon_version (V_monitors V ! j);
          V1 = (if last t \<noteq> CHR 0x00 \<and> (ver < 0 \<or> ver \<ge> 2)
                then tell (To_monitor j) [not_null_terminated] V else V)
      in case Monitor_parseCommand (E_sp E) (E_pp E) cpm (E_libz E) (c_string t) (V_world V1) of
           None \<Rightarrow> None
         | Some (w, outs) \<Rightarrow>
             Some (with_viewer j (fold link_effect outs) (tell (To_monitor j) outs (map_world (\<lambda>_. w) V1))))"

definition monitor_message :: "env \<Rightarrow> mode_op \<Rightarrow> nat \<Rightarrow> datagram \<Rightarrow> server \<Rightarrow> server option" where
  "monitor_message E cpm j a V =
     (let l = Mon_link (V_monitors V ! j)
      in case decode E (L_level l) (A_text a) (K_chunks l) of
           (m, cs) \<Rightarrow>
             (let V1 = with_viewer j (\<lambda>l. l\<lparr>K_chunks := cs\<rparr>) V
              in case m of None \<Rightarrow> Some V1 | Some t \<Rightarrow> monitor_parseMsg E cpm j t V1))"

text \<open>\<^verbatim>\<open>Coach::parseMsg\<close>.\<close>

definition trainer_parseMsg :: "env \<Rightarrow> mode_op \<Rightarrow> string \<Rightarrow> server \<Rightarrow> server option" where
  "trainer_parseMsg E cpm t V =
     (let V1 = (if last t \<noteq> CHR 0x00 \<and> C_version (V_trainer V) \<ge> 8
                then tell To_trainer [not_null_terminated] V else V)
      in case Coach_parse_command (E_sp E) (E_pp E) cpm (read_trainer (c_string t)) (V_world V1) (V_trainer V1) of
           None \<Rightarrow> None
         | Some (w, c, outs) \<Rightarrow>
             Some ((tell To_trainer outs V1)
               \<lparr>V_session := fold hear_coach outs (on_world (\<lambda>_. w) (V_session V1)), V_trainer := c,
                V_trainer_link := fold link_effect outs (V_trainer_link V1)\<rparr>))"

definition trainer_message :: "env \<Rightarrow> mode_op \<Rightarrow> datagram \<Rightarrow> server \<Rightarrow> server option" where
  "trainer_message E cpm a V =
     (case decode E (L_level (V_trainer_link V)) (A_text a) (K_chunks (V_trainer_link V)) of
        (m, cs) \<Rightarrow>
          (let V1 = V\<lparr>V_trainer_link := (V_trainer_link V)\<lparr>K_chunks := cs\<rparr>\<rparr>
           in case m of None \<Rightarrow> Some V1 | Some t \<Rightarrow> trainer_parseMsg E cpm t V1))"

definition coach_parseMsg :: "env \<Rightarrow> side \<Rightarrow> string \<Rightarrow> server \<Rightarrow> server option" where
  "coach_parseMsg E s t V =
     (let V1 = (if last t \<noteq> CHR 0x00 \<and> C_version (V_olcoach V s) \<ge> 8
                then tell (To_coach s) [not_null_terminated] V else V)
      in case OnlineCoach_parse_command (E_sp E) (E_pp E) (read_online (E_clang E) (E_xpm E) (c_string t))
                (V_world V1) (V_olcoach V1 s) of
           None \<Rightarrow> None
         | Some (w, c, outs) \<Rightarrow>
             Some ((tell (To_coach s) outs V1)
               \<lparr>V_session := fold hear_coach outs (on_world (\<lambda>_. w) (V_session V1)),
                V_olcoach := (V_olcoach V1)(s := c),
                V_ol_link := (V_ol_link V1)(s := fold link_effect outs (V_ol_link V1 s))\<rparr>))"

definition coach_message :: "env \<Rightarrow> side \<Rightarrow> datagram \<Rightarrow> server \<Rightarrow> server option" where
  "coach_message E s a V =
     (case decode E (L_level (V_ol_link V s)) (A_text a) (K_chunks (V_ol_link V s)) of
        (m, cs) \<Rightarrow>
          (let V1 = V\<lparr>V_ol_link := (V_ol_link V)(s := (V_ol_link V s)\<lparr>K_chunks := cs\<rparr>)\<rparr>
           in case m of None \<Rightarrow> Some V1 | Some t \<Rightarrow> coach_parseMsg E s t V1))"

section \<open>The sockets of the clients\<close>

text \<open>What the socket of a client has: a datagram, or an error, which closes it.\<close>

datatype reception = Datagram datagram | Failed

definition closed :: "link \<Rightarrow> link" where
  "closed l = l\<lparr>L_connected := False, L_open := False, K_enforce := False\<rparr>"

definition close_player :: "nat \<Rightarrow> server \<Rightarrow> server" where
  "close_player k V =
     (map_world (upd_player k (\<lambda>p. p\<lparr>M_connected := False\<rparr>)) V)
       \<lparr>V_socket := (V_socket V)(k := (V_socket V k)\<lparr>K_enforce := False\<rparr>)\<rparr>"

text \<open>
  \<^verbatim>\<open>RemoteClient::recv\<close> until it returns -1: as long as the client is connected, \<open>up\<close>, and there is
  something in his socket.  An empty datagram is skipped.
\<close>

fun recv_all ::
  "(server \<Rightarrow> bool) \<Rightarrow> (server \<Rightarrow> server) \<Rightarrow> (datagram \<Rightarrow> server \<Rightarrow> server option)
   \<Rightarrow> reception list \<Rightarrow> server \<Rightarrow> server option" where
  "recv_all up close process [] V = Some V"
| "recv_all up close process (Failed # rs) V = Some (if up V then close V else V)"
| "recv_all up close process (Datagram a # rs) V =
     (if \<not> up V then Some V
      else do {
        V1 \<leftarrow> (if A_text a = [] then Some V else process a V);
        recv_all up close process rs V1
      })"

definition recv_player :: "env \<Rightarrow> mode_op \<Rightarrow> (nat \<Rightarrow> reception list) \<Rightarrow> nat \<Rightarrow> server \<Rightarrow> server option" where
  "recv_player E cpm inbox k =
     recv_all (\<lambda>V. M_connected (pl (V_world V) k)) (close_player k) (player_message E cpm k) (inbox k)"

definition recv_monitor :: "env \<Rightarrow> mode_op \<Rightarrow> (nat \<Rightarrow> reception list) \<Rightarrow> nat \<Rightarrow> server \<Rightarrow> server option" where
  "recv_monitor E cpm inbox j =
     recv_all (\<lambda>V. L_connected (Mon_link (V_monitors V ! j))) (with_viewer j closed)
       (monitor_message E cpm j) (inbox j)"

definition recv_coach :: "env \<Rightarrow> (side \<Rightarrow> reception list) \<Rightarrow> side \<Rightarrow> server \<Rightarrow> server option" where
  "recv_coach E inbox s =
     recv_all (\<lambda>V. L_connected (V_ol_link V s)) (\<lambda>V. V\<lparr>V_ol_link := (V_ol_link V)(s := closed (V_ol_link V s))\<rparr>)
       (coach_message E s) (inbox s)"

definition recv_trainer :: "env \<Rightarrow> mode_op \<Rightarrow> reception list \<Rightarrow> server \<Rightarrow> server option" where
  "recv_trainer E cpm inbox =
     recv_all (\<lambda>V. L_connected (V_trainer_link V)) (\<lambda>V. V\<lparr>V_trainer_link := closed (V_trainer_link V)\<rparr>)
       (trainer_message E cpm) inbox"

section \<open>The port of players and monitors\<close>

definition player_at :: "nat \<Rightarrow> server \<Rightarrow> nat option" where
  "player_at ad V =
     List.find (\<lambda>k. M_connected (pl (V_world V) k) \<and> K_dest (V_socket V k) = ad) (M_remote_players (V_world V))"

definition monitor_at :: "nat \<Rightarrow> server \<Rightarrow> nat option" where
  "monitor_at ad V =
     List.find (\<lambda>j. L_connected (Mon_link (V_monitors V ! j)) \<and> K_dest (Mon_link (V_monitors V ! j)) = ad)
       [0..<length (V_monitors V)]"

text \<open>The player whose socket a reconnect connects, whether or not he is taken back in the end.\<close>

definition reconnect_slot :: "string \<Rightarrow> datagram \<Rightarrow> world \<Rightarrow> nat option" where
  "reconnect_slot t a w =
     (case parse_player_init (M_playmode w) t of
        Wants_reconnect (Some (name, unum)) \<Rightarrow>
          (case List.find (\<lambda>r. let u = team (M_side (pl w r)) w
                               in team_enabled u \<and> T_name u = name \<and> M_unum (pl w r) = unum)
                  [0..<2 * MAX_PLAYER] of
             Some r \<Rightarrow> if \<not> hasRedCard (pl w r) \<and> A_opened a \<and> A_conn a then Some r else None
           | None \<Rightarrow> None)
      | _ \<Rightarrow> None)"

definition link_to :: "nat \<Rightarrow> bool \<Rightarrow> link \<Rightarrow> link" where
  "link_to ad enf l = l\<lparr>K_dest := ad, K_enforce := enf, L_open := True, L_connected := True\<rparr>"

definition fresh_link :: link where
  "fresh_link = \<lparr>K_dest = 0, K_enforce = False, K_chunks = [], L_open = True, L_connected = False, L_level = - 1\<rparr>"

definition join_player :: "env \<Rightarrow> nat \<Rightarrow> datagram \<Rightarrow> string \<Rightarrow> server \<Rightarrow> server option" where
  "join_player E ad a t V =
     (case parsePlayerInit (E_sp E) (A_opened a) (A_conn a) (A_senders a) t (V_world V) of
        None \<Rightarrow> None
      | Some (r, w, e) \<Rightarrow>
          (let V1 = tell (Stranger ad) (error_reply e) (map_world (\<lambda>_. w) V);
               to = (\<lambda>k f V. V\<lparr>V_socket := (V_socket V)(k := f (V_socket V k))\<rparr>);
               V2 = (case reconnect_slot t a (V_world V) of
                       Some k \<Rightarrow> to k (\<lambda>l. l\<lparr>K_dest := ad\<rparr>) V1 | None \<Rightarrow> V1)
           in Some (case r of
                      Some k \<Rightarrow> to k (\<lambda>l. l\<lparr>K_dest := ad, K_enforce := (M_version (pl w k) \<ge> 8)\<rparr>) V2
                    | None \<Rightarrow> V2)))"

definition newcomer :: "env \<Rightarrow> nat \<Rightarrow> datagram \<Rightarrow> server \<Rightarrow> server option" where
  "newcomer E ad a V =
     (let t = chopped (A_text a)
      in case parseMonitorInit (E_maxMonitors E) (A_conn a) (\<lambda>_. A_senders a) t
                (map monitor.truncate (V_monitors V)) of
           (True, ms, e) \<Rightarrow>
             (let V1 = tell (Stranger ad) (error_reply e) V
              in Some (if e = None
                       then V1\<lparr>V_monitors := V_monitors V1
                              @ [monitor.extend (last ms)
                                   \<lparr>Mon_link = link_to ad (Mon_enforce (last ms)) fresh_link\<rparr>]\<rparr>
                       else V1))
         | (False, _, _) \<Rightarrow> join_player E ad a t V)"

definition player_port :: "env \<Rightarrow> mode_op \<Rightarrow> nat \<times> datagram \<Rightarrow> server \<Rightarrow> server option" where
  "player_port E cpm x V =
     (case x of (ad, a) \<Rightarrow>
        if A_text a = [] then Some V
        else (case player_at ad V of
                Some k \<Rightarrow> if K_enforce (V_socket V k) then Some (tell (To_player k) [only_init] V)
                          else player_message E cpm k a V
              | None \<Rightarrow>
                  (case monitor_at ad V of
                     Some j \<Rightarrow> if K_enforce (Mon_link (V_monitors V ! j))
                               then Some (tell (To_monitor j) [only_init] V)
                               else monitor_message E cpm j a V
                   | None \<Rightarrow> newcomer E ad a V)))"

section \<open>The ports of the coaches\<close>

text \<open>What becomes of the link of the trainer: \<open>initCoach\<close> opens and connects it.\<close>

definition trainer_link :: "nat \<Rightarrow> datagram \<Rightarrow> coach_request \<Rightarrow> link \<Rightarrow> link" where
  "trainer_link ad a req l =
     (case req of
        Coach_init v \<Rightarrow>
          if \<not> A_opened a \<or> \<not> A_conn a then closed l
          else link_to ad (if A_senders a then v \<ge> 8 else K_enforce l) l
      | _ \<Rightarrow> l)"

definition new_trainer :: "env \<Rightarrow> mode_op \<Rightarrow> nat \<Rightarrow> datagram \<Rightarrow> string \<Rightarrow> server \<Rightarrow> server option" where
  "new_trainer E cpm ad a t V =
     (case parseCoachInit (E_sp E) (E_pp E) cpm read_trainer (0 < V_trainers V) (A_opened a) (A_conn a)
             (A_senders a) t (V_world V) (V_trainer V) of
        None \<Rightarrow> None
      | Some (w, c, e, outs) \<Rightarrow>
          (let req = parse_coach_init (0 < V_trainers V) t;
               V1 = tell (Stranger ad) (error_reply e) V;
               V2 = (if L_connected (V_trainer_link V) then tell To_trainer outs V1 else V1)
           in Some (V2
                \<lparr>V_session := fold hear_coach outs (on_world (\<lambda>_. w) (V_session V)),
                 V_trainer := c,
                 V_trainer_link := fold link_effect outs (trainer_link ad a req (V_trainer_link V)),
                 V_trainers := (case req of
                                  Coach_init v \<Rightarrow> if e = None then V_trainers V + 1 else V_trainers V
                                | _ \<Rightarrow> V_trainers V)\<rparr>)))"

definition trainer_port :: "env \<Rightarrow> mode_op \<Rightarrow> nat \<times> datagram \<Rightarrow> server \<Rightarrow> server option" where
  "trainer_port E cpm x V =
     (case x of (ad, a) \<Rightarrow>
        if A_text a = [] then Some V
        else if \<not> coachMode (E_sp E) \<and> \<not> coachWithRefereeMode (E_sp E)
        then Some (tell (Stranger ad) [Reply ''(error connected_offline_coach_without_coach_mode)''] V)
        else if 0 < V_trainers V \<and> L_connected (V_trainer_link V) \<and> K_dest (V_trainer_link V) = ad
        then (if K_enforce (V_trainer_link V) then Some (tell To_trainer [only_init] V)
              else trainer_message E cpm a V)
        else new_trainer E cpm ad a (chopped (A_text a)) V)"

text \<open>
  The link of an online coach who asks to join.  Its socket is not opened again after it has been
  closed, and an attempt to connect it which fails closes it.
\<close>

definition coach_connects :: "datagram \<Rightarrow> online_request \<Rightarrow> server \<Rightarrow> bool" where
  "coach_connects a req V =
     (case req of
        OL_init name _ _ \<Rightarrow>
          (case online_side name (V_world V) of
             Some s \<Rightarrow> A_conn a \<and> L_open (V_ol_link V s) | None \<Rightarrow> False)
      | _ \<Rightarrow> False)"

definition coach_link :: "nat \<Rightarrow> datagram \<Rightarrow> online_request \<Rightarrow> server \<Rightarrow> (side \<Rightarrow> link)" where
  "coach_link ad a req V =
     (case req of
        OL_init name _ v \<Rightarrow>
          (case online_side name (V_world V) of
             Some s \<Rightarrow>
               if C_assigned (V_olcoach V s) then V_ol_link V
               else (V_ol_link V)
                      (s := (if \<not> coach_connects a req V then closed (V_ol_link V s)
                             else link_to ad (if A_senders a then v \<ge> 8 else K_enforce (V_ol_link V s))
                                    (V_ol_link V s)))
           | None \<Rightarrow> V_ol_link V)
      | _ \<Rightarrow> V_ol_link V)"

definition new_coach :: "nat \<Rightarrow> datagram \<Rightarrow> string \<Rightarrow> server \<Rightarrow> server" where
  "new_coach ad a t V =
     (let req = parse_online_init t
      in case parseOnlineCoachInit (coach_connects a req V) (A_senders a) t (V_world V) (V_olcoach V) of
           (r, ocs, e) \<Rightarrow>
             (tell (Stranger ad) (error_reply e) V)
               \<lparr>V_olcoach := ocs, V_ol_link := coach_link ad a req V,
                V_coaches := V_coaches V @ (case r of Some s \<Rightarrow> [s] | None \<Rightarrow> [])\<rparr>)"

definition coach_at :: "nat \<Rightarrow> server \<Rightarrow> side option" where
  "coach_at ad V =
     List.find (\<lambda>s. L_connected (V_ol_link V s) \<and> K_dest (V_ol_link V s) = ad) (V_coaches V)"

definition coach_port :: "env \<Rightarrow> nat \<times> datagram \<Rightarrow> server \<Rightarrow> server option" where
  "coach_port E x V =
     (case x of (ad, a) \<Rightarrow>
        if A_text a = [] then Some V
        else (case coach_at ad V of
                Some s \<Rightarrow> if K_enforce (V_ol_link V s) then Some (tell (To_coach s) [only_init] V)
                          else coach_message E s a V
              | None \<Rightarrow> Some (new_coach ad a (chopped (A_text a)) V)))"

section \<open>A round of receiving\<close>

text \<open>\<^verbatim>\<open>removeDisconnectedClients\<close>.\<close>

definition remove_trainer :: "server \<Rightarrow> server" where
  "remove_trainer V =
     (if 0 < V_trainers V \<and> \<not> L_connected (V_trainer_link V)
      then V\<lparr>V_trainer := (V_trainer V)\<lparr>C_assigned := False\<rparr>,
             V_trainer_link := closed (V_trainer_link V), V_trainers := 0\<rparr>
      else V)"

definition remove_coaches :: "server \<Rightarrow> server" where
  "remove_coaches V =
     V\<lparr>V_olcoach := (\<lambda>s. if s \<in> set (V_coaches V) \<and> \<not> L_connected (V_ol_link V s)
                         then (V_olcoach V s)\<lparr>C_assigned := False\<rparr> else V_olcoach V s),
       V_coaches := filter (\<lambda>s. L_connected (V_ol_link V s)) (V_coaches V)\<rparr>"

definition removeDisconnectedClients :: "server \<Rightarrow> server" where
  "removeDisconnectedClients V =
     (let V1 = remove_coaches (remove_trainer (map_world removeDisconnectedPlayers V))
      in V1\<lparr>V_monitors := filter (\<lambda>m. L_connected (Mon_link m)) (V_monitors V1)\<rparr>)"

text \<open>
  What arrives in a round: what the socket of each client has, and the datagrams at the three ports
  with the addresses they come from.  A shuffle is given by a rank for each place of the list.
\<close>

definition shuffled :: "(nat \<Rightarrow> nat) \<Rightarrow> 'a list \<Rightarrow> 'a list" where
  "shuffled rank xs = map ((!) xs) (sort_key rank [0..<length xs])"

record arrivals =
  I_shuffled :: "nat \<Rightarrow> nat"
  I_players :: "nat \<Rightarrow> nat"
  I_player_inbox :: "nat \<Rightarrow> reception list"
  I_monitors :: "nat \<Rightarrow> nat"
  I_monitor_inbox :: "nat \<Rightarrow> reception list"
  I_player_port :: "(nat \<times> datagram) list"
  I_coaches :: "nat \<Rightarrow> nat"
  I_coach_inbox :: "side \<Rightarrow> reception list"
  I_coach_port :: "(nat \<times> datagram) list"
  I_trainer_inbox :: "reception list"
  I_trainer_port :: "(nat \<times> datagram) list"

definition udp_recv_message :: "env \<Rightarrow> mode_op \<Rightarrow> arrivals \<Rightarrow> server \<Rightarrow> server option" where
  "udp_recv_message E cpm x V = do {
     let V1 = map_world (\<lambda>w. w\<lparr>M_remote_players := shuffled (I_players x) (M_remote_players w)\<rparr>) V;
     V2 \<leftarrow> foldM (recv_player E cpm (I_player_inbox x)) (M_remote_players (V_world V1)) V1;
     let V3 = V2\<lparr>V_monitors := shuffled (I_monitors x) (V_monitors V2)\<rparr>;
     V4 \<leftarrow> foldM (recv_monitor E cpm (I_monitor_inbox x)) [0..<length (V_monitors V3)] V3;
     foldM (player_port E cpm) (I_player_port x) V4
   }"

definition udp_recv_from_online_coach :: "env \<Rightarrow> arrivals \<Rightarrow> server \<Rightarrow> server option" where
  "udp_recv_from_online_coach E x V = do {
     let V1 = V\<lparr>V_coaches := shuffled (I_coaches x) (V_coaches V)\<rparr>;
     V2 \<leftarrow> foldM (recv_coach E (I_coach_inbox x)) (V_coaches V1) V1;
     foldM (coach_port E) (I_coach_port x) V2
   }"

definition udp_recv_from_coach :: "env \<Rightarrow> mode_op \<Rightarrow> arrivals \<Rightarrow> server \<Rightarrow> server option" where
  "udp_recv_from_coach E cpm x V = do {
     V1 \<leftarrow> (if (coachMode (E_sp E) \<or> coachWithRefereeMode (E_sp E)) \<and> 0 < V_trainers V
            then recv_trainer E cpm (I_trainer_inbox x) V else Some V);
     foldM (trainer_port E cpm) (I_trainer_port x) V1
   }"

text \<open>The delayed effects, looked for when both times differ from those of the last time.\<close>

definition delayed_effects :: "env \<Rightarrow> mode_op \<Rightarrow> arrivals \<Rightarrow> server \<Rightarrow> server option" where
  "delayed_effects E cpm x V =
     (if fst (V_delayed V) \<noteq> M_time (V_world V) \<and> snd (V_delayed V) \<noteq> M_stoppage_time (V_world V)
      then foldM (\<lambda>k. map_session (on_world_op (doLongKick (E_sp E) cpm k)))
             (shuffled (I_shuffled x) [0..<2 * MAX_PLAYER]) (V\<lparr>V_delayed := (M_time (V_world V), M_stoppage_time (V_world V))\<rparr>)
      else Some V)"

definition doRecvFromClients :: "env \<Rightarrow> mode_op \<Rightarrow> arrivals \<Rightarrow> server \<Rightarrow> server option" where
  "doRecvFromClients E cpm x V = do {
     V0 \<leftarrow> delayed_effects E cpm x V;
     V1 \<leftarrow> udp_recv_message E cpm x V0;
     V2 \<leftarrow> udp_recv_from_online_coach E x V1;
     V3 \<leftarrow> udp_recv_from_coach E cpm x V2;
     Some (removeDisconnectedClients V3)
   }"

end
