(* ===== verification/Received.thy ===== *)
theory Received
  imports Server
begin

text \<open>
  Whatever arrives at the server, its effect on the match is a run of the events of Standings; and
  what becomes of an online coach whose connection has been closed.
\<close>

section \<open>A round is a run\<close>

definition runs :: "env \<Rightarrow> nat \<Rightarrow> server \<Rightarrow> server \<Rightarrow> bool" where
  "runs E n V V' \<longleftrightarrow> (event (E_sp E) (E_pp E) n)\<^sup>*\<^sup>* (V_world V) (V_world V')"

lemma runs_refl: "V_world V' = V_world V \<Longrightarrow> runs E n V V'"
  by (simp add: runs_def)

lemma runs_trans: "runs E n U V \<Longrightarrow> runs E n V W \<Longrightarrow> runs E n U W"
  unfolding runs_def by (rule rtranclp_trans)

lemma runs_event: "event (E_sp E) (E_pp E) n (V_world V) (V_world V') \<Longrightarrow> runs E n V V'"
  by (simp add: runs_def r_into_rtranclp)

lemma worlds [simp]:
  "V_session (tell p outs V) = V_session V"
  "V_session (with_viewer j f V) = V_session V"
  "V_world (map_world g V) = g (V_world V)"
  "S_world (hear_coach o' st) = S_world st"
  by (simp_all add: tell_def with_viewer_def map_world_def on_world_def) (cases o'; simp)

lemma hear_all_world [simp]: "S_world (fold hear_coach outs st) = S_world st"
  by (induction outs arbitrary: st) simp_all

lemma foldM_runs:
  assumes "\<And>x V V'. f x V = Some V' \<Longrightarrow> runs E n V V'"
  shows "foldM f xs V = Some V' \<Longrightarrow> runs E n V V'"
proof (induction xs arbitrary: V)
  case Nil
  then show ?case by (simp add: runs_refl)
next
  case (Cons x xs)
  then obtain U where "f x V = Some U" "foldM f xs U = Some V'"
    by (auto simp: bind_eq_Some)
  then show ?case using assms Cons.IH runs_trans by blast
qed

lemma recv_all_runs:
  assumes "\<And>a V V'. process a V = Some V' \<Longrightarrow> runs E n V V'" and "\<And>V. runs E n V (close V)"
  shows "recv_all up close process rs V = Some V' \<Longrightarrow> runs E n V V'"
proof (induction rs arbitrary: V)
  case Nil
  then show ?case by (simp add: runs_refl)
next
  case (Cons r rs)
  show ?case
  proof (cases r)
    case Failed
    then show ?thesis using Cons.prems assms(2) by (auto simp: runs_refl split: if_splits)
  next
    case (Datagram a)
    show ?thesis
    proof (cases "up V")
      case True
      then obtain U where U: "(if A_text a = [] then Some V else process a V) = Some U"
        "recv_all up close process rs U = Some V'"
        using Cons.prems Datagram by (auto simp: bind_eq_Some)
      then have "runs E n V U" using assms(1) by (auto simp: runs_refl split: if_splits)
      then show ?thesis using Cons.IH[OF U(2)] by (rule runs_trans)
    qed (use Cons.prems Datagram in \<open>simp add: runs_refl\<close>)
  qed
qed

text \<open>The commands of monitors and coaches as runs.\<close>

lemmas commands_run = event.Watch[THEN r_into_rtranclp[of "event _ _ _"]]
  event.Trainer[THEN r_into_rtranclp[of "event _ _ _"]]
  event.Online[THEN r_into_rtranclp[of "event _ _ _"]]

section \<open>Messages\<close>

lemma player_message_runs:
  assumes "player_message E (changePlayMode (E_sp E) n) k a V = Some V'"
  shows "runs E n V V'"
  using assms message_events
  by (auto simp: player_message_def map_session_def runs_def Let_def split: prod.splits option.splits)

lemma monitor_message_runs:
  assumes "monitor_message E (changePlayMode (E_sp E) n) j a V = Some V'"
  shows "runs E n V V'"
  using assms
  by (auto simp: monitor_message_def monitor_parseMsg_def runs_def Let_def
      split: prod.splits option.splits if_splits dest: commands_run)

lemma trainer_message_runs:
  assumes "trainer_message E (changePlayMode (E_sp E) n) a V = Some V'"
  shows "runs E n V V'"
  using assms
  by (auto simp: trainer_message_def trainer_parseMsg_def runs_def on_world_def Let_def
      split: prod.splits option.splits if_splits dest: commands_run)

lemma coach_message_runs:
  assumes "coach_message E s a V = Some V'"
  shows "runs E n V V'"
  using assms
  by (auto simp: coach_message_def coach_parseMsg_def runs_def on_world_def Let_def
      split: prod.splits option.splits if_splits dest: commands_run)

lemma joins_run:
  assumes "parsePlayerInit sp opened conn senders msg w = Some (r, w', e)"
  shows "(event sp pp n)\<^sup>*\<^sup>* w w'"
  using assms
  by (auto simp: parsePlayerInit_def split: player_request.splits prod.splits option.splits
      intro: event.Join event.Rejoin r_into_rtranclp)

lemma join_player_runs:
  assumes "join_player E ad a t V = Some V'"
  shows "runs E n V V'"
  using assms joins_run
  by (fastforce simp: join_player_def runs_def Let_def split: option.splits prod.splits)

lemma player_port_runs:
  assumes "player_port E (changePlayMode (E_sp E) n) x V = Some V'"
  shows "runs E n V V'"
  using assms
  by (auto simp: player_port_def newcomer_def Let_def player_message_runs monitor_message_runs
      join_player_runs runs_refl split: prod.splits option.splits if_splits bool.splits)

lemma new_trainer_runs:
  assumes "new_trainer E (changePlayMode (E_sp E) n) ad a t V = Some V'"
  shows "runs E n V V'"
proof -
  obtain w c e outs where p: "parseCoachInit (E_sp E) (E_pp E) (changePlayMode (E_sp E) n) read_trainer
      (0 < V_trainers V) (A_opened a) (A_conn a) (A_senders a) t (V_world V) (V_trainer V) = Some (w, c, e, outs)"
    and w: "V_world V' = w"
    using assms by (auto simp: new_trainer_def on_world_def Let_def split: option.splits)
  have "(event (E_sp E) (E_pp E) n)\<^sup>*\<^sup>* (V_world V) w"
  proof (cases "parse_coach_init (0 < V_trainers V) t")
    case Coach_command
    then obtain w1 out where k: "kickOff (E_sp E) (E_pp E) (changePlayMode (E_sp E) n) (V_world V) = Some w1"
      "Coach_parse_command (E_sp E) (E_pp E) (changePlayMode (E_sp E) n) (read_trainer t) w1 (V_trainer V)
       = Some (w, c, out)"
      using p by (auto simp: parseCoachInit_def bind_eq_Some)
    have "event (E_sp E) (E_pp E) n (V_world V) w1"
      by (rule event.Trainer[of _ _ _ T_start _ "V_trainer V"]) (simp add: k(1))
    then show ?thesis using event.Trainer[OF k(2)] by (meson converse_rtranclp_into_rtranclp r_into_rtranclp)
  qed (use p in \<open>auto simp: parseCoachInit_def split: prod.splits\<close>)
  then show ?thesis using w by (simp add: runs_def)
qed

lemma trainer_port_runs:
  assumes "trainer_port E (changePlayMode (E_sp E) n) x V = Some V'"
  shows "runs E n V V'"
  using assms
  by (auto simp: trainer_port_def trainer_message_runs new_trainer_runs runs_refl
      split: prod.splits if_splits)

lemma coach_port_runs:
  assumes "coach_port E x V = Some V'"
  shows "runs E n V V'"
  using assms
  by (auto simp: coach_port_def new_coach_def Let_def coach_message_runs runs_refl
      split: prod.splits option.splits if_splits)

section \<open>A round\<close>

lemma recv_runs:
  "recv_player E (changePlayMode (E_sp E) n) inbox k V = Some V' \<Longrightarrow> runs E n V V'"
  "recv_monitor E (changePlayMode (E_sp E) n) inbox' j V = Some V' \<Longrightarrow> runs E n V V'"
  "recv_coach E inbox'' s V = Some V' \<Longrightarrow> runs E n V V'"
  "recv_trainer E (changePlayMode (E_sp E) n) rs V = Some V' \<Longrightarrow> runs E n V V'"
proof -
  have close: "runs E n V (close_player k V)" for k V
    by (rule runs_event) (simp add: close_player_def event.Lost)
  show "recv_player E (changePlayMode (E_sp E) n) inbox k V = Some V' \<Longrightarrow> runs E n V V'"
    unfolding recv_player_def by (rule recv_all_runs[OF player_message_runs close])
  show "recv_monitor E (changePlayMode (E_sp E) n) inbox' j V = Some V' \<Longrightarrow> runs E n V V'"
    unfolding recv_monitor_def by (rule recv_all_runs[OF monitor_message_runs runs_refl]) simp_all
  show "recv_coach E inbox'' s V = Some V' \<Longrightarrow> runs E n V V'"
    unfolding recv_coach_def by (rule recv_all_runs[OF coach_message_runs runs_refl]) simp_all
  show "recv_trainer E (changePlayMode (E_sp E) n) rs V = Some V' \<Longrightarrow> runs E n V V'"
    unfolding recv_trainer_def by (rule recv_all_runs[OF trainer_message_runs runs_refl]) simp_all
qed

lemma remove_runs: "runs E n V (removeDisconnectedClients V)"
  by (rule runs_event)
    (simp add: removeDisconnectedClients_def remove_coaches_def remove_trainer_def Let_def event.Gone)

lemma shuffled_mset: "mset (shuffled rank xs) = mset xs"
proof -
  have "mset (shuffled rank xs) = mset (map ((!) xs) [0..<length xs])"
    by (simp only: shuffled_def mset_map mset_sort)
  then show ?thesis by (simp only: map_nth)
qed

lemma udp_recv_message_runs:
  assumes "udp_recv_message E (changePlayMode (E_sp E) n) x V = Some V'"
  shows "runs E n V V'"
proof -
  let ?V1 = "map_world (\<lambda>w. w\<lparr>M_remote_players := shuffled (I_players x) (M_remote_players w)\<rparr>) V"
  let ?ps = "M_remote_players (V_world ?V1)"
  obtain V2 V4 where f: "foldM (recv_player E (changePlayMode (E_sp E) n) (I_player_inbox x)) ?ps ?V1 = Some V2"
    "foldM (recv_monitor E (changePlayMode (E_sp E) n) (I_monitor_inbox x))
       [0..<length (shuffled (I_monitors x) (V_monitors V2))]
       (V2\<lparr>V_monitors := shuffled (I_monitors x) (V_monitors V2)\<rparr>) = Some V4"
    "foldM (player_port E (changePlayMode (E_sp E) n)) (I_player_port x) V4 = Some V'"
    using assms by (auto simp: udp_recv_message_def bind_eq_Some Let_def)
  have "runs E n V ?V1" by (rule runs_event) (simp add: event.Shuffled[OF shuffled_mset])
  moreover have "runs E n ?V1 V2" by (rule foldM_runs[OF recv_runs(1) f(1)])
  moreover have "runs E n V2 V4"
    using foldM_runs[OF recv_runs(2) f(2)] by (simp add: runs_def)
  moreover have "runs E n V4 V'" by (rule foldM_runs[OF player_port_runs f(3)])
  ultimately show ?thesis by (blast intro: runs_trans)
qed

lemma udp_recv_from_online_coach_runs:
  assumes "udp_recv_from_online_coach E x V = Some V'"
  shows "runs E n V V'"
proof -
  let ?V1 = "V\<lparr>V_coaches := shuffled (I_coaches x) (V_coaches V)\<rparr>"
  obtain V2 where f: "foldM (recv_coach E (I_coach_inbox x)) (V_coaches ?V1) ?V1 = Some V2"
    "foldM (coach_port E) (I_coach_port x) V2 = Some V'"
    using assms by (auto simp: udp_recv_from_online_coach_def bind_eq_Some Let_def)
  have "runs E n ?V1 V2" by (rule foldM_runs[OF recv_runs(3) f(1)])
  moreover have "runs E n V2 V'" by (rule foldM_runs[OF coach_port_runs f(2)])
  moreover have "runs E n V ?V1" by (rule runs_refl) simp
  ultimately show ?thesis using runs_trans by blast
qed

lemma udp_recv_from_coach_runs:
  assumes "udp_recv_from_coach E (changePlayMode (E_sp E) n) x V = Some V'"
  shows "runs E n V V'"
proof -
  obtain V1 where V1: "(if (coachMode (E_sp E) \<or> coachWithRefereeMode (E_sp E)) \<and> 0 < V_trainers V
      then recv_trainer E (changePlayMode (E_sp E) n) (I_trainer_inbox x) V else Some V) = Some V1"
    and f: "foldM (trainer_port E (changePlayMode (E_sp E) n)) (I_trainer_port x) V1 = Some V'"
    using assms by (auto simp: udp_recv_from_coach_def bind_eq_Some)
  have "runs E n V V1" using V1 recv_runs(4) by (auto simp: runs_refl split: if_splits)
  moreover have "runs E n V1 V'" by (rule foldM_runs[OF trainer_port_runs f])
  ultimately show ?thesis by (rule runs_trans)
qed

lemma delayed_runs:
  assumes "delayed_effects E (changePlayMode (E_sp E) n) x V = Some V'"
  shows "runs E n V V'"
proof -
  have one: "runs E n V V'"
    if "map_session (on_world_op (doLongKick (E_sp E) (changePlayMode (E_sp E) n) k)) V = Some V'" for k V V'
    using that by (auto simp: map_session_def on_world_op_def intro!: runs_event event.Delayed)
  show ?thesis
  proof (cases "V' = V")
    case False
    let ?V1 = "V\<lparr>V_delayed := (M_time (V_world V), M_stoppage_time (V_world V))\<rparr>"
    have f: "foldM (\<lambda>k. map_session (on_world_op (doLongKick (E_sp E) (changePlayMode (E_sp E) n) k))) (shuffled (I_shuffled x) [0..<2 * MAX_PLAYER]) ?V1 = Some V'"
      using assms False by (simp add: delayed_effects_def split: if_splits)
    have "runs E n V ?V1" by (rule runs_refl) simp
    moreover have "runs E n ?V1 V'" by (rule foldM_runs[OF one f])
    ultimately show ?thesis by (rule runs_trans)
  qed (simp add: runs_refl)
qed


section \<open>An online coach who has left\<close>

text \<open>The coach of a side is gone, with his socket closed.\<close>

definition gone :: "side \<Rightarrow> server \<Rightarrow> bool" where
  "gone s V \<longleftrightarrow> \<not> L_open (V_ol_link V s) \<and> \<not> L_connected (V_ol_link V s) \<and> \<not> C_assigned (V_olcoach V s)"

lemma gone_links:
  "V_ol_link V' = V_ol_link V \<Longrightarrow> V_olcoach V' = V_olcoach V \<Longrightarrow> gone s V' = gone s V"
  by (simp add: gone_def)

lemma gone_simps [simp]:
  "gone s (tell p outs V) = gone s V"
  "gone s (with_viewer j f V) = gone s V"
  "gone s (map_world g V) = gone s V"
  "gone s (close_player k V) = gone s V"
  "gone s (V\<lparr>V_monitors := ms\<rparr>) = gone s V"
  "gone s (V\<lparr>V_coaches := ss\<rparr>) = gone s V"
  "gone s (V\<lparr>V_socket := so\<rparr>) = gone s V"
  "gone s (V\<lparr>V_session := st\<rparr>) = gone s V"
  by (rule gone_links; simp add: tell_def with_viewer_def map_world_def close_player_def)+

lemma recv_all_keeps:
  assumes "\<And>a V V'. process a V = Some V' \<Longrightarrow> up V \<Longrightarrow> P V \<Longrightarrow> P V'" and "\<And>V. up V \<Longrightarrow> P V \<Longrightarrow> P (close V)"
  shows "recv_all up close process rs V = Some V' \<Longrightarrow> P V \<Longrightarrow> P V'"
proof (induction rs arbitrary: V)
  case (Cons r rs)
  show ?case
  proof (cases r)
    case Failed
    then show ?thesis using Cons.prems assms(2) by (auto split: if_splits)
  next
    case (Datagram a)
    then show ?thesis using Cons assms(1) by (fastforce simp: bind_eq_Some split: if_splits)
  qed
qed simp

lemma messages_gone:
  "player_message E cpm k a V = Some V' \<Longrightarrow> gone s V \<Longrightarrow> gone s V'"
  "monitor_message E cpm j a V = Some V' \<Longrightarrow> gone s V \<Longrightarrow> gone s V'"
  "trainer_message E cpm a V = Some V' \<Longrightarrow> gone s V \<Longrightarrow> gone s V'"
  "join_player E ad a t V = Some V' \<Longrightarrow> gone s V \<Longrightarrow> gone s V'"
  "new_trainer E cpm ad a t V = Some V' \<Longrightarrow> gone s V \<Longrightarrow> gone s V'"
  by (auto simp: player_message_def map_session_def monitor_message_def monitor_parseMsg_def
      trainer_message_def trainer_parseMsg_def join_player_def new_trainer_def gone_def tell_def
      with_viewer_def map_world_def Let_def split: prod.splits option.splits if_splits)

lemma coach_message_gone:
  assumes "coach_message E s' a V = Some V'" and "L_connected (V_ol_link V s')" and "gone s V"
  shows "gone s V'"
proof -
  have "s' \<noteq> s" using assms(2,3) by (auto simp: gone_def)
  then show ?thesis using assms(1,3)
    by (auto simp: coach_message_def coach_parseMsg_def gone_def tell_def Let_def
        split: prod.splits option.splits if_splits)
qed

lemma new_coach_gone:
  assumes "gone s V"
  shows "gone s (new_coach ad a t V)"
  using assms
  by (auto simp: new_coach_def parseOnlineCoachInit_def initOnlineCoach_def coach_link_def coach_connects_def
      gone_def tell_def closed_def link_to_def Let_def
      split: prod.splits online_request.splits option.splits if_splits)

lemma ports_gone:
  "player_port E cpm x V = Some V' \<Longrightarrow> gone s V \<Longrightarrow> gone s V'"
  "trainer_port E cpm x V = Some V' \<Longrightarrow> gone s V \<Longrightarrow> gone s V'"
  "coach_port E x V = Some V' \<Longrightarrow> gone s V \<Longrightarrow> gone s V'"
proof -
  show "player_port E cpm x V = Some V' \<Longrightarrow> gone s V \<Longrightarrow> gone s V'"
    by (auto simp: player_port_def newcomer_def Let_def messages_gone
        split: prod.splits option.splits if_splits bool.splits)
  show "trainer_port E cpm x V = Some V' \<Longrightarrow> gone s V \<Longrightarrow> gone s V'"
    by (auto simp: trainer_port_def messages_gone split: prod.splits if_splits)
  have "coach_at ad V = Some s' \<Longrightarrow> L_connected (V_ol_link V s')" for ad s'
    by (auto simp: coach_at_def find_Some_iff)
  then show "coach_port E x V = Some V' \<Longrightarrow> gone s V \<Longrightarrow> gone s V'"
    by (auto simp: coach_port_def new_coach_gone coach_message_gone
        split: prod.splits option.splits if_splits)
qed

lemma recv_gone:
  "recv_player E cpm inbox k V = Some V' \<Longrightarrow> gone s V \<Longrightarrow> gone s V'"
  "recv_monitor E cpm inbox j V = Some V' \<Longrightarrow> gone s V \<Longrightarrow> gone s V'"
  "recv_coach E inbox' s' V = Some V' \<Longrightarrow> gone s V \<Longrightarrow> gone s V'"
  "recv_trainer E cpm rs V = Some V' \<Longrightarrow> gone s V \<Longrightarrow> gone s V'"
proof -
  note keep = recv_all_keeps[where P = "gone s"]
  show "recv_player E cpm inbox k V = Some V' \<Longrightarrow> gone s V \<Longrightarrow> gone s V'"
    unfolding recv_player_def by (erule keep[rotated 2]; simp add: messages_gone)
  show "recv_monitor E cpm inbox j V = Some V' \<Longrightarrow> gone s V \<Longrightarrow> gone s V'"
    unfolding recv_monitor_def by (erule keep[rotated 2]; simp add: messages_gone)
  show "recv_coach E inbox' s' V = Some V' \<Longrightarrow> gone s V \<Longrightarrow> gone s V'"
    unfolding recv_coach_def
    by (erule keep[rotated 2]) (assumption, simp add: coach_message_gone, simp add: gone_def closed_def)
  show "recv_trainer E cpm rs V = Some V' \<Longrightarrow> gone s V \<Longrightarrow> gone s V'"
    unfolding recv_trainer_def
    by (erule keep[rotated 2]) (assumption, simp add: messages_gone, simp add: gone_def)
qed

lemma remove_gone: "gone s V \<Longrightarrow> gone s (removeDisconnectedClients V)"
  by (simp add: removeDisconnectedClients_def Let_def)
    (simp add: gone_def remove_coaches_def remove_trainer_def map_world_def)

lemma delayed_gone:
  assumes "delayed_effects E cpm x V = Some V'" and "gone s V"
  shows "gone s V'"
proof -
  have one: "map_session f U = Some U' \<Longrightarrow> gone s U \<Longrightarrow> gone s U'" for f U U'
    by (auto simp: map_session_def gone_def)
  let ?V1 = "V\<lparr>V_delayed := (M_time (V_world V), M_stoppage_time (V_world V))\<rparr>"
  have "gone s ?V1" using assms(2) by (simp add: gone_def)
  then show ?thesis
    using assms one foldM_inv[where I = "gone s"] unfolding delayed_effects_def
    by (auto split: if_splits elim!: foldM_inv[where I = "gone s", rotated])
qed

lemma round_gone:
  assumes "doRecvFromClients E cpm x V = Some V'" and "gone s V"
  shows "gone s V'"
proof -
  obtain V0 V1 V2 V3 where f: "delayed_effects E cpm x V = Some V0"
    "udp_recv_message E cpm x V0 = Some V1" "udp_recv_from_online_coach E x V1 = Some V2"
    "udp_recv_from_coach E cpm x V2 = Some V3" "V' = removeDisconnectedClients V3"
    using assms(1) by (auto simp: doRecvFromClients_def bind_eq_Some)
  have "gone s V0" using delayed_gone[OF f(1) assms(2)] .
  then have "gone s V1"
    using f(2) recv_gone(1,2) ports_gone(1)
    by (auto simp: udp_recv_message_def bind_eq_Some Let_def elim!: foldM_inv[where I = "gone s", rotated])
  then have "gone s V2"
    using f(3) recv_gone(3) ports_gone(3)
    by (auto simp: udp_recv_from_online_coach_def bind_eq_Some Let_def elim!: foldM_inv[where I = "gone s", rotated])
  then have "gone s V3"
    using f(4) recv_gone(4) ports_gone(2)
    by (auto simp: udp_recv_from_coach_def bind_eq_Some split: if_splits elim!: foldM_inv[where I = "gone s", rotated])
  then show ?thesis using f(5) remove_gone by simp
qed

text \<open>C14: the bye of an online coach is final: his socket is closed and never opened again, so
  whatever arrives in whatever number of rounds, no coach is ever assigned to his team again.\<close>

theorem bye_is_final:
  assumes "command_word (c_string t) = Some ''bye''"
    and "coach_parseMsg E s t V = Some V1"
    and "foldM (doRecvFromClients E cpm) xs V1 = Some V'"
  shows "\<not> C_assigned (V_olcoach V' s) \<and> \<not> L_connected (V_ol_link V' s)"
proof -
  have "gone s V1"
    using assms(1,2)
    by (auto simp: coach_parseMsg_def read_online_def OnlineCoach_disable_def gone_def Let_def split: if_splits)
  then have "gone s V'"
    using foldM_inv[where I = "gone s", OF _ assms(3)] round_gone by blast
  then show ?thesis by (simp add: gone_def)
qed

end
