(* ===== verification/ServerExamples.thy ===== *)
theory ServerExamples
  imports Received JoinExamples MessageExamples
begin

text \<open>A server at the start of a match, and rounds in which newcomers write to its ports.\<close>

definition fresh_server :: server where
  "fresh_server =
     \<lparr>V_session = start\<lparr>S_world := empty_pitch\<rparr>,
      V_socket = (\<lambda>_. \<lparr>K_dest = 0, K_enforce = False, K_chunks = []\<rparr>),
      V_monitors = [],
      V_trainer = coach.truncate (new_OnlineCoach default_param LEFT),
      V_trainer_link = fresh_link, V_trainers = 0,
      V_olcoach = new_OnlineCoach default_param, V_ol_link = (\<lambda>_. fresh_link), V_coaches = [],
      V_told = [], V_delayed = (0, 0)\<rparr>"

definition plain_env :: env where
  "plain_env =
     \<lparr>E_sp = default_param, E_pp = match_param, E_libz = False, E_maxMonitors = - 1, E_addr = id,
      E_inflate = (\<lambda>cs. last cs), E_clang = (\<lambda>_. None), E_xpm = (\<lambda>_. None)\<rparr>"

definition from_newcomer :: "string \<Rightarrow> datagram" where
  "from_newcomer t = \<lparr>A_text = t, A_orders = (\<lambda>_. []), A_opened = True, A_conn = True, A_senders = True\<rparr>"

definition quiet :: arrivals where
  "quiet =
     \<lparr>I_shuffled = id, I_players = id, I_player_inbox = (\<lambda>_. []), I_monitors = id, I_monitor_inbox = (\<lambda>_. []),
      I_player_port = [], I_coaches = id, I_coach_inbox = (\<lambda>_. []), I_coach_port = [],
      I_trainer_inbox = [], I_trainer_port = []\<rparr>"

definition helios_joins :: arrivals where
  "helios_joins = quiet\<lparr>I_player_port := [(7, from_newcomer ''(init HELIOS)'')]\<rparr>"

lemma no_clients: "M_remote_players empty_pitch = []" "M_time empty_pitch = 0"
  by (simp_all add: empty_pitch_def new_world_def Let_def)

lemma nobody [simp]: "shuffled rank [] = []"
  by (simp add: shuffled_def)

text \<open>A round at the start of which there are no clients is what happens at the ports.\<close>

lemma first_round:
  assumes "V_world V = empty_pitch" and "V_delayed V = (0, 0)" and "V_monitors V = []" and "V_coaches V = []"
    and "\<not> coachMode (E_sp E)" and "\<not> coachWithRefereeMode (E_sp E)" and "I_trainer_port x = []"
  shows "doRecvFromClients E cpm x V =
    do {
      V1 \<leftarrow> foldM (player_port E cpm) (I_player_port x)
             ((map_world (\<lambda>w. w\<lparr>M_remote_players := []\<rparr>) V)\<lparr>V_monitors := []\<rparr>);
      V2 \<leftarrow> foldM (recv_coach E (I_coach_inbox x)) (shuffled (I_coaches x) (V_coaches V1))
             (V1\<lparr>V_coaches := shuffled (I_coaches x) (V_coaches V1)\<rparr>);
      V3 \<leftarrow> foldM (coach_port E) (I_coach_port x) V2;
      Some (removeDisconnectedClients V3)
    }"
  using assms(5-7)
  by (simp add: doRecvFromClients_def delayed_effects_def udp_recv_message_def udp_recv_from_online_coach_def
      udp_recv_from_coach_def map_world_def on_world_def assms(1-4) no_clients Let_def)

lemma no_trainer: "\<not> coachMode (E_sp plain_env)" "\<not> coachWithRefereeMode (E_sp plain_env)"
  by (simp_all add: plain_env_def default_param_def)


text \<open>A coach says bye; a newcomer who asks for his place in the next round is not given it.\<close>

definition coach_again :: arrivals where
  "coach_again = quiet\<lparr>I_coach_port := [(9, from_newcomer ''(init A coach (version 8))'')]\<rparr>"

theorem bye_is_final_witness:
  "\<exists>V1 V'. coach_parseMsg plain_env LEFT (''(bye)'' @ [CHR 0x00]) fresh_server = Some V1
     \<and> foldM (doRecvFromClients plain_env (changePlayMode default_param 1)) [coach_again] V1 = Some V'
     \<and> \<not> C_assigned (V_olcoach V' LEFT)"
proof -
  have com: "command_word (c_string (''(bye)'' @ [CHR 0x00])) = Some ''bye''"
    by code_simp
  have "\<exists>V1. coach_parseMsg plain_env LEFT (''(bye)'' @ [CHR 0x00]) fresh_server = Some V1
      \<and> V_world V1 = empty_pitch \<and> V_delayed V1 = (0, 0) \<and> V_monitors V1 = [] \<and> V_coaches V1 = []"
    unfolding coach_parseMsg_def read_online_def com
    by (simp add: OnlineCoach_disable_def on_world_def tell_def fresh_server_def Let_def)
  then obtain V1 where V1: "coach_parseMsg plain_env LEFT (''(bye)'' @ [CHR 0x00]) fresh_server = Some V1"
    and start: "V_world V1 = empty_pitch" "V_delayed V1 = (0, 0)" "V_monitors V1 = []" "V_coaches V1 = []"
    by blast
  have port: "\<exists>V'. coach_port plain_env (9, from_newcomer ''(init A coach (version 8))'') (V\<lparr>V_coaches := []\<rparr>) = Some V'" for V
    by (simp add: coach_port_def coach_at_def)
  have "\<exists>V'. doRecvFromClients plain_env (changePlayMode default_param 1) coach_again V1 = Some V'"
    using first_round[OF start no_trainer, of coach_again "changePlayMode default_param 1"]
      port[of "(map_world (\<lambda>w. w\<lparr>M_remote_players := []\<rparr>) V1)\<lparr>V_monitors := []\<rparr>"] start(4)
    by (auto simp: coach_again_def quiet_def map_world_def)
  then obtain V' where V': "foldM (doRecvFromClients plain_env (changePlayMode default_param 1)) [coach_again] V1 = Some V'"
    by auto
  from bye_is_final[OF com V1 V'] V1 V' show ?thesis by blast
qed

theorem mode_text_obeyed_witness:
  "Coach_parse_command (default_param\<lparr>coachMode := True\<rparr>) match_param (changePlayMode default_param 1)
     (read_trainer ''(change_mode before_kick_off)'') match (coach.truncate (new_OnlineCoach default_param LEFT))
   = map_option (\<lambda>w1. (w1, coach.truncate (new_OnlineCoach default_param LEFT), [Reply ''(ok change_mode)'']))
       (changePlayMode default_param 1 PM_BeforeKickOff match)"
proof -
  have "mode_text PM_BeforeKickOff = ''(change_mode before_kick_off)''" by code_simp
  then show ?thesis
    using mode_text_obeyed[of PM_BeforeKickOff "default_param\<lparr>coachMode := True\<rparr>" match_param
        "changePlayMode default_param 1" match "coach.truncate (new_OnlineCoach default_param LEFT)" True]
    by simp
qed

end
