(* ===== verification/Spec2Isabelle.thy ===== *)
theory Spec2Isabelle
  imports ClientExamples Schedule Thinking Advised MessageExamples JoinExamples ServerExamples
begin

text \<open>
  The RoboCup soccer server: a model of its simulation, its referees, its coaches and of what
  players hear and see.

  The server (src/src) simulates a soccer match in cycles.  Clients send commands for their
  players; \<^verbatim>\<open>Stadium::step\<close> applies them, moves the ball and the players, resolves
  collisions and lets ten referees look at the result.  A referee may stop the game, move players
  and the ball, count goals and change the play mode; a change of the play mode is announced to
  all referees, which may move players again, and players who are moved may touch the ball, which
  the referees are told in turn.  This mutual recursion is the heart of the program and of the
  model.

  Data.  A C++ double is a real number, an int an integer, the state bits of a player and the
  timers of his arm are 32-bit words.  Classes are records with the fields of the class; the
  stadium with its teams and referees is the record \<open>world\<close>.  The players are the list
  \<open>M_players\<close> in the order of \<^verbatim>\<open>Stadium::createObjects\<close>, and a pointer to a player
  is his index, a null pointer \<open>None\<close>.  The random numbers are a stream of samples in the
  unit interval which every draw shortens; shuffles are arguments.  Announcements of the referee
  are appended to a log.  Operations which may dereference a null pointer or run a loop without
  bound return an option, and \<open>None\<close> is such a run.

  Open recursion.  A referee operation takes the mode change as the argument \<open>cpm\<close> and the
  collisions as \<open>col\<close>; Stadium ties the knot in \<open>changePlayMode\<close>, whose fuel bounds
  the nesting of mode changes.  ModeChange proves that one level suffices outside goal kicks
  and the keepaway mode: the calm worlds there are those in which a touch of the ball sets
  nothing off.  Goal kicks may nest, because a touch may repeat the kick.

  Theories, in the order of the program:

  \<^item> Prelude, Types, Params, Geometry: lists and options, random.h; types.h and param.h;
    serverparam.h and serverparam.cpp; object.h, object.cpp and utility.h.
  \<^item> Objects, Player, Body: object.cpp and weather.cpp; player.cpp, leg.cpp and arm.h.  Their
    lemmas bound speeds, stamina, angles and the timers.
  \<^item> World, RefereeBase: the state of stadium.h, team.h and referee.h with the operations of
    stadium.cpp which call no referee, and the class Referee of referee.cpp.  The \<open>core\<close> of a
    world is the part no mode change touches, with a frame lemma for every operation.
  \<^item> RefTime, RefOffside, RefFreeKick, RefTouch, RefCatch, RefFoul, RefIllegal, RefKeepaway and
    RefPenalty: the referees, one theory for each class of referee.cpp.
  \<^item> Collision, Stadium: \<^verbatim>\<open>Stadium::collisions\<close>, \<^verbatim>\<open>Stadium::changePlayMode\<close> and the
    events of stadium.cpp.  The locale \<open>mode_ops\<close> is the contract between a mode change and
    the collisions: both keep the core.
  \<^item> Roster, Commands, Game: team.cpp and the joining of players, the commands of player.cpp
    which act on the ball, and \<^verbatim>\<open>Stadium::step\<close>, \<^verbatim>\<open>kickOff\<close> and
    \<^verbatim>\<open>checkAutoMode\<close>.
  \<^item> ModeChange, Calls, Match, Opening, Shootout, Athlete: the properties.  The locale
    \<open>mode_setter\<close> states what a referee relies on when it changes the mode, and is
    interpreted on \<open>changePlayMode\<close>; Calls treats the waits and calls of the offside, foul and
    catch referees, Match the clock, goals, restarts and cards, Opening the teams and kick-offs,
    Shootout the penalty kicks, Athlete what players can do.
  \<^item> Hetero: heteroplayer.cpp, the random player types, and that a generated type respects the
    trade-offs of PlayerParam; \<open>trials\<close> runs the loop with the 1000 rounds of the code.
  \<^item> Coach, Bench: coach.cpp and clangmsg.cpp, the commands of the trainer and the online
    coaches, their message queue and quotas; the limits of substitutions and advice.
  \<^item> Audio, Hearing: audio.cpp and the commands say, ear and attentionto of player.cpp.  Players of
    version 8 and later cache what is said; Hearing shows that the loop which takes random messages
    out of the cache delivers a permutation of it within the hearing capacity.
  \<^item> Degrees, Vision, Sight: visualsenderplayer.cpp and field.cpp, the visual message of a player in
    every protocol version, which objects are in it and how far its distances are off.
  \<^item> Standings: all entry points as the transition relation \<open>event\<close>, and by induction over its
    runs that no run takes anything of the record of a match back.  \<open>post\<close> states a property of
    every result of an operation, with a rule for each form of the option monad.
  \<^item> Lexer, Phrases, Dispatch: player\_command\_tok.lpp and player\_command\_parser.ypp, the rules of
    the lexer as patterns of which the longest match is taken, the phrases with the calls of the
    builder they make, and \<^verbatim>\<open>Player::parseMsg\<close>, which obeys the calls.
  \<^item> Spelling, Orders: that commands in the form of the manual are read as they are meant, with any
    blanks between the words, and obeyed up to the first syntax error; Dispatch shows that whatever a
    client sends is a run of \<open>event\<close>.
  \<^item> Scanning, Monitors, Joining: the directives of \<^verbatim>\<open>sscanf\<close>, the commands of monitor.cpp, and
    the messages of stadium.cpp with which players, monitors, the trainer and online coaches join.
  \<^item> Scanned, Joined: what the directives read in a text written as their formats want it, the names
    which teams can have, and that a message to join is an event.
  \<^item> CoachText: how coach.cpp scans the commands of the trainer and of the online coaches.
  \<^item> Server, Received: remoteclient.cpp and the receiving half of stadium.cpp, from the datagrams at
    the sockets and ports to the operations of the theories before.  Received shows that a round of
    receiving is a run of \<open>event\<close>, so that everything Standings says of runs holds of whatever
    arrives; and that an online coach who leaves can never be replaced.
  \<^item> Timers, Schedule: serverparam.cpp, stdtimer.cpp and synctimer.cpp, the intervals and the loops
    of the two timers.  Schedule shows that a timer which is in time follows the ideal schedule,
    and that one which is late drops steps and never makes up for them.
  \<^item> Thinking: the wait of \<^verbatim>\<open>Stadium::doSendThink\<close> for the clients in the synchronous mode.
  \<^item> Clang, Advice: the objects of the coach language (src/rcss/clang), one constructor for each
    class, printed and copied as the classes do.
  \<^item> Builder, Parsing: clangmsgbuilder.cpp, a stack of typed items with one operation for each
    phrase, and the actions of the grammar coach\_lang\_parser.ypp as the list of calls which reading
    a message makes.
  \<^item> Reading, Copies, Advised: what the builder makes of the calls, by induction over the message with
    the relation \<open>builds\<close>; copies and values of conditions; and the way of a piece of advice from
    the coach to the ears of the players.
  \<^item> Examples, ClientExamples, MessageExamples, JoinExamples, ServerExamples: a concrete match, with
    and without its clients, to which every property with hypotheses is applied.

  Choices.  C++ leaves the order in which arguments are evaluated open; the model draws the
  random numbers of a call from the first argument to the last.  Rounding and overflow of
  doubles and of the counters, which no game reaches, are not modelled.  The fields which the
  constructors of two referees leave uninitialised have fixed values in \<open>new_world\<close>, and no
  theorem reads them.

  The state of the ears of the players is beside the world, a function from slots, since no
  operation of the stadium reads it; an address of a player is an argument where the code orders a
  container by it.  \<^verbatim>\<open>scanf\<close> reads decimal numbers; the hexadecimal ones, infinities and
  not-a-numbers it takes too are errors of the model.  A normal variate is an unspecified function of a sample.  The probability
  \<open>(dist - far) / (too_far - far)\<close> may divide by zero, as it does with the default team lengths of
  protocol 18: \<open>fdiv\<close> gives the infinities and the undefined value of C++ then.

  The clock of the computer and the messages which arrive are inputs of the timers.  Their loops end
  when the server does, so they have fuel: the number of passes, and the theorems state how many
  are needed.

  Not modelled: the system calls of the sockets, what the server does when a message cannot be sent,
  logs and result savers, the texts of the messages to
  clients in all protocol versions, the parser of the
  configuration, the lexer and the tables of the parser of the coach language, the landmark files,
  and what the coaches see.
\<close>

end
